(* ===== verification/Prelude.thy ===== *)
theory Prelude imports Main begin

text \<open>
  Shared ground of the development: the failures the program raises, the effectful computations
  (\<open>async\<close> methods) as functions from a state to a result and the next state, the relational
  tables the repositories read and write, and the generic transition-system interface whose
  invariants the components interpret.
\<close>

text \<open>The definitions of the model, for evaluating a run on a concrete state.\<close>

named_theorems evaluate

section \<open>Failures\<close>

text \<open>
  \<open>DomainErrorKind\<close> of \<open>src/shared/domain/errors/DomainError.ts\<close>, and the values a method of the
  program can reject with: a domain error of some kind, an HTTP-level \<open>AppError\<close>, a bare \<open>Error\<close>, a
  \<open>TerminalMessageError\<close>, the ORM's \<open>UniqueConstraintError\<close> with the name of the index it broke, its
  \<open>ValidationError\<close> with the attribute it refused, the \<open>DatabaseError\<close> of a value too long for the
  column named, or the rejection of a service outside the repository (mail provider, broker).
\<close>

datatype error_kind = Validation | Unauthorized | Forbidden | Not_found | Conflict

datatype failure =
    DomainError error_kind string
  | AppError string nat
  | PlainError string
  | TerminalMessageError string
  | UniqueConstraintError string
  | OrmValidationError string
  | DatabaseError string
  | ServiceError string

section \<open>Computations\<close>

text \<open>
  An \<open>async\<close> method is a function from the state to a failure or a value, and the state it leaves.
  A thrown failure keeps the writes made before it, as an exception in the code does; only
  \<open>runInTransaction\<close> undoes them.
\<close>

type_synonym ('w, 'a) io = "'w \<Rightarrow> (failure + 'a) \<times> 'w"

definition return :: "'a \<Rightarrow> ('w, 'a) io" where
  "return x = (\<lambda>w. (Inr x, w))"

definition throw :: "failure \<Rightarrow> ('w, 'a) io" where
  "throw e = (\<lambda>w. (Inl e, w))"

definition bind :: "('w, 'a) io \<Rightarrow> ('a \<Rightarrow> ('w, 'b) io) \<Rightarrow> ('w, 'b) io" where
  "bind m f = (\<lambda>w. case m w of (Inl e, w') \<Rightarrow> (Inl e, w') | (Inr x, w') \<Rightarrow> f x w')"

definition andThen :: "('w, 'a) io \<Rightarrow> ('w, 'b) io \<Rightarrow> ('w, 'b) io" where
  "andThen m n = bind m (\<lambda>_. n)"

definition gets :: "('w \<Rightarrow> 'a) \<Rightarrow> ('w, 'a) io" where
  "gets f = (\<lambda>w. (Inr (f w), w))"

definition modify :: "('w \<Rightarrow> 'w) \<Rightarrow> ('w, unit) io" where
  "modify f = (\<lambda>w. (Inr (), f w))"

definition liftEither :: "failure + 'a \<Rightarrow> ('w, 'a) io" where
  "liftEither r = (case r of Inl e \<Rightarrow> throw e | Inr x \<Rightarrow> return x)"

definition tryCatch :: "('w, 'a) io \<Rightarrow> (failure \<Rightarrow> ('w, 'a) io) \<Rightarrow> ('w, 'a) io" where
  "tryCatch m h = (\<lambda>w. case m w of (Inl e, w') \<Rightarrow> h e w' | (Inr x, w') \<Rightarrow> (Inr x, w'))"

fun forEach :: "'a list \<Rightarrow> ('a \<Rightarrow> ('w, unit) io) \<Rightarrow> ('w, unit) io" where
  "forEach [] f = return ()"
| "forEach (x # xs) f = andThen (f x) (forEach xs f)"

lemma run_return [simp]: "return x w = (Inr x, w)"
  by (simp add: return_def)

lemma run_throw [simp]: "throw e w = (Inl e, w)"
  by (simp add: throw_def)

lemma run_gets [simp]: "gets f w = (Inr (f w), w)"
  by (simp add: gets_def)

lemma run_modify [simp]: "modify f w = (Inr (), f w)"
  by (simp add: modify_def)

lemma run_bind:
  "bind m f w = (case m w of (Inl e, w') \<Rightarrow> (Inl e, w') | (Inr x, w') \<Rightarrow> f x w')"
  by (simp add: bind_def)

lemma run_andThen:
  "andThen m n w = (case m w of (Inl e, w') \<Rightarrow> (Inl e, w') | (Inr x, w') \<Rightarrow> n w')"
  by (simp add: andThen_def bind_def)

lemma bind_Inr [simp]: "m w = (Inr x, w') \<Longrightarrow> bind m f w = f x w'"
  by (simp add: run_bind)

lemma bind_Inl [simp]: "m w = (Inl e, w') \<Longrightarrow> bind m f w = (Inl e, w')"
  by (simp add: run_bind)

lemma andThen_Inr [simp]: "m w = (Inr x, w') \<Longrightarrow> andThen m n w = n w'"
  by (simp add: run_andThen)

lemma andThen_Inl [simp]: "m w = (Inl e, w') \<Longrightarrow> andThen m n w = (Inl e, w')"
  by (simp add: run_andThen)

lemma snd_andThen_return [simp]: "snd (andThen m (return x) w) = snd (m w)"
  by (cases "m w"; cases "fst (m w)") (auto simp: run_andThen)

lemma run_tryCatch:
  "tryCatch m h w = (case m w of (Inl e, w') \<Rightarrow> h e w' | (Inr x, w') \<Rightarrow> (Inr x, w'))"
  by (simp add: tryCatch_def)

text \<open>What a run that returned says about its parts.\<close>

lemma bind_InrE:
  assumes "bind m f w = (Inr y, w2)"
  obtains x w1 where "m w = (Inr x, w1)" "f x w1 = (Inr y, w2)"
  using assms by (auto simp: run_bind split: prod.splits sum.splits)

lemma andThen_InrE:
  assumes "andThen m n w = (Inr y, w2)"
  obtains x w1 where "m w = (Inr x, w1)" "n w1 = (Inr y, w2)"
  using assms by (auto simp: run_andThen split: prod.splits sum.splits)

lemma bind_InlE:
  assumes "bind m f w = (Inl e, w2)"
  obtains "m w = (Inl e, w2)" | x w1 where "m w = (Inr x, w1)" "f x w1 = (Inl e, w2)"
  using assms by (auto simp: run_bind split: prod.splits sum.splits)

lemma andThen_InlE:
  assumes "andThen m n w = (Inl e, w2)"
  obtains "m w = (Inl e, w2)" | x w1 where "m w = (Inr x, w1)" "n w1 = (Inl e, w2)"
  using assms by (auto simp: run_andThen split: prod.splits sum.splits)

text \<open>
  A predicate of the state every run of a computation keeps. The rules build the proof along the
  structure of the computation, so an operation's preservation proof names only its writes.
\<close>

definition keeps :: "('w \<Rightarrow> bool) \<Rightarrow> ('w, 'a) io \<Rightarrow> bool" where
  "keeps Q m \<longleftrightarrow> (\<forall>w. Q w \<longrightarrow> Q (snd (m w)))"

named_theorems keeps_rules

lemma keepsD: "keeps Q m \<Longrightarrow> Q w \<Longrightarrow> Q (snd (m w))"
  by (simp add: keeps_def)

lemma keepsD': "keeps Q m \<Longrightarrow> m w = (r, w') \<Longrightarrow> Q w \<Longrightarrow> Q w'"
  by (metis keepsD snd_conv)

lemma keeps_return [keeps_rules]: "keeps Q (return x)"
  by (simp add: keeps_def)

lemma keeps_throw [keeps_rules]: "keeps Q (throw e)"
  by (simp add: keeps_def)

lemma keeps_liftEither [keeps_rules]: "keeps Q (liftEither r)"
  by (auto simp: liftEither_def intro: keeps_return keeps_throw split: sum.splits)

lemma keeps_gets [keeps_rules]: "keeps Q (gets f)"
  by (simp add: keeps_def)

lemma keeps_bind [keeps_rules]:
  "keeps Q m \<Longrightarrow> (\<And>x. keeps Q (f x)) \<Longrightarrow> keeps Q (bind m f)"
  by (fastforce simp: keeps_def run_bind split: prod.splits sum.splits)

lemma keeps_andThen [keeps_rules]:
  "keeps Q m \<Longrightarrow> keeps Q n \<Longrightarrow> keeps Q (andThen m n)"
  unfolding andThen_def by (rule keeps_bind)

lemma keeps_tryCatch [keeps_rules]:
  "keeps Q m \<Longrightarrow> (\<And>e. keeps Q (h e)) \<Longrightarrow> keeps Q (tryCatch m h)"
  by (fastforce simp: keeps_def run_tryCatch split: prod.splits sum.splits)

lemma keeps_if [keeps_rules]:
  "keeps Q m \<Longrightarrow> keeps Q n \<Longrightarrow> keeps Q (if b then m else n)"
  by simp

lemma keeps_case_option [keeps_rules]:
  "keeps Q m \<Longrightarrow> (\<And>x. keeps Q (f x)) \<Longrightarrow> keeps Q (case v of None \<Rightarrow> m | Some x \<Rightarrow> f x)"
  by (simp split: option.splits)

lemma keeps_let [keeps_rules]: "keeps Q (f v) \<Longrightarrow> keeps Q (let x = v in f x)"
  by simp

lemma keeps_case_prod [keeps_rules]:
  "(\<And>x y. keeps Q (f x y)) \<Longrightarrow> keeps Q (case v of (x, y) \<Rightarrow> f x y)"
  by (simp split: prod.splits)

lemma keeps_modify: "(\<And>w. Q w \<Longrightarrow> Q (f w)) \<Longrightarrow> keeps Q (modify f)"
  by (simp add: keeps_def)

text \<open>
  Keeping a predicate from the states where something more is known: what an earlier step of the
  computation established, for the rest of it.
\<close>

definition keeps_from :: "('w \<Rightarrow> bool) \<Rightarrow> ('w \<Rightarrow> bool) \<Rightarrow> ('w, 'a) io \<Rightarrow> bool" where
  "keeps_from R Q m \<longleftrightarrow> (\<forall>w. Q w \<longrightarrow> R w \<longrightarrow> Q (snd (m w)))"

named_theorems from_rules

lemma keeps_fromI: "(\<And>w. Q w \<Longrightarrow> R w \<Longrightarrow> Q (snd (m w))) \<Longrightarrow> keeps_from R Q m"
  by (simp add: keeps_from_def)

lemma keeps_fromD: "keeps_from R Q m \<Longrightarrow> Q w \<Longrightarrow> R w \<Longrightarrow> Q (snd (m w))"
  by (simp add: keeps_from_def)

lemma keeps_from_keeps: "keeps Q m \<Longrightarrow> keeps_from R Q m"
  by (simp add: keeps_def keeps_from_def)

lemma keeps_from_True: "keeps_from (\<lambda>_. True) Q m \<Longrightarrow> keeps Q m"
  by (simp add: keeps_def keeps_from_def)

lemma keeps_from_weaken: "keeps_from S Q m \<Longrightarrow> (\<And>w. R w \<Longrightarrow> S w) \<Longrightarrow> keeps_from R Q m"
  by (simp add: keeps_from_def)

lemma keeps_from_throw [from_rules]: "keeps_from R Q (throw e)"
  by (simp add: keeps_from_def)

lemma keeps_from_return [from_rules]: "keeps_from R Q (return x)"
  by (simp add: keeps_from_def)

lemma keeps_from_if [from_rules]:
  "(b \<Longrightarrow> keeps_from R Q m) \<Longrightarrow> (\<not> b \<Longrightarrow> keeps_from R Q n) \<Longrightarrow> keeps_from R Q (if b then m else n)"
  by simp

lemma keeps_from_option [from_rules]:
  "(v = None \<Longrightarrow> keeps_from R Q m) \<Longrightarrow> (\<And>x. v = Some x \<Longrightarrow> keeps_from R Q (f x)) \<Longrightarrow>
   keeps_from R Q (case v of None \<Rightarrow> m | Some x \<Rightarrow> f x)"
  by (simp split: option.splits)

lemma keeps_from_bind:
  assumes "keeps_from R Q m" "\<And>w x w'. Q w \<Longrightarrow> R w \<Longrightarrow> m w = (Inr x, w') \<Longrightarrow> S x w'" "\<And>x. keeps_from (S x) Q (f x)"
  shows "keeps_from R Q (bind m f)"
proof (rule keeps_fromI)
  fix w assume w: "Q w" "R w"
  show "Q (snd (bind m f w))"
  proof (cases "m w")
    case (Pair r w')
    with keeps_fromD[OF assms(1) w] have "Q w'" by simp
    with Pair show ?thesis
      using assms(2)[OF w] keeps_fromD[OF assms(3)] by (cases r) auto
  qed
qed

lemma keeps_from_andThen:
  assumes "keeps_from R Q m" "\<And>w x w'. Q w \<Longrightarrow> R w \<Longrightarrow> m w = (Inr x, w') \<Longrightarrow> S w'" "keeps_from S Q n"
  shows "keeps_from R Q (andThen m n)"
  unfolding andThen_def by (rule keeps_from_bind[where S = "\<lambda>_. S"]) (use assms in auto)

text \<open>A step that only reads, so that what it returned is still true of the state.\<close>

definition reads_only :: "('w, 'a) io \<Rightarrow> bool" where
  "reads_only m \<longleftrightarrow> (\<forall>w. snd (m w) = w)"

named_theorems reads_rules

lemma reads_only_gets [reads_rules]: "reads_only (gets f)"
  by (simp add: reads_only_def)

lemma reads_only_return [reads_rules]: "reads_only (return x)"
  by (simp add: reads_only_def)

lemma reads_only_throw [reads_rules]: "reads_only (throw e)"
  by (simp add: reads_only_def)

lemma reads_only_if [reads_rules]: "reads_only m \<Longrightarrow> reads_only n \<Longrightarrow> reads_only (if b then m else n)"
  by simp

lemma reads_only_option [reads_rules]:
  "reads_only m \<Longrightarrow> (\<And>x. reads_only (f x)) \<Longrightarrow> reads_only (case v of None \<Rightarrow> m | Some x \<Rightarrow> f x)"
  by (simp split: option.splits)

lemma reads_only_bind [reads_rules]: "reads_only m \<Longrightarrow> (\<And>x. reads_only (f x)) \<Longrightarrow> reads_only (bind m f)"
  by (auto simp: reads_only_def run_bind split: prod.splits sum.splits) (metis snd_conv)+

lemma keeps_from_read:
  assumes "reads_only m" "\<And>x. keeps_from (\<lambda>w. R w \<and> fst (m w) = Inr x) Q (f x)"
  shows "keeps_from R Q (bind m f)"
proof (rule keeps_from_bind[where S = "\<lambda>x w. R w \<and> fst (m w) = Inr x"])
  show "keeps_from R Q m" using assms(1) by (simp add: keeps_from_def reads_only_def)
  show "R w' \<and> fst (m w') = Inr x" if "R w" "m w = (Inr x, w')" for w x w'
    using that assms(1) unfolding reads_only_def by (metis fst_conv snd_conv)
qed (rule assms(2))

lemma keeps_from_read_andThen:
  assumes "reads_only m" "keeps_from (\<lambda>w. R w \<and> isl (fst (m w)) = False) Q n"
  shows "keeps_from R Q (andThen m n)"
  unfolding andThen_def
  by (rule keeps_from_read[OF assms(1)], rule keeps_from_weaken[OF assms(2)]) auto

lemma keeps_from_assume: "(A \<Longrightarrow> keeps_from R Q m) \<Longrightarrow> keeps_from (\<lambda>w. A \<and> R w) Q m"
  by (simp add: keeps_from_def)

lemma keeps_from_tryCatch: "keeps_from R Q m \<Longrightarrow> (\<And>e. keeps Q (h e)) \<Longrightarrow> keeps_from R Q (tryCatch m h)"
  by (fastforce simp: keeps_def keeps_from_def run_tryCatch split: prod.splits sum.splits)

text \<open>The last step that needs to know: what follows keeps the predicate anyway.\<close>

lemma keeps_from_bind_last: "keeps_from R Q m \<Longrightarrow> (\<And>x. keeps Q (f x)) \<Longrightarrow> keeps_from R Q (bind m f)"
  by (rule keeps_from_bind[where S = "\<lambda>_ _. True"]) (auto intro: keeps_from_keeps)

lemma keeps_from_andThen_last: "keeps_from R Q m \<Longrightarrow> keeps Q n \<Longrightarrow> keeps_from R Q (andThen m n)"
  unfolding andThen_def by (rule keeps_from_bind_last)

lemma keeps_forEach [keeps_rules]:
  "(\<And>x. keeps Q (f x)) \<Longrightarrow> keeps Q (forEach xs f)"
  by (induction xs) (auto intro: keeps_return keeps_andThen)

section \<open>Tables\<close>

text \<open>
  A database table is the list of its rows, in insertion order. The repositories' queries are the
  predicates of their \<open>where\<close> clauses over it. \<open>findOne\<close> is the first match: every \<open>findOne\<close> without an
  \<open>order\<close> in the repository is on a unique index, or is only tested for being there.
\<close>

definition update_where :: "('r \<Rightarrow> bool) \<Rightarrow> ('r \<Rightarrow> 'r) \<Rightarrow> 'r list \<Rightarrow> 'r list" where
  "update_where p f rows = map (\<lambda>r. if p r then f r else r) rows"

definition delete_where :: "('r \<Rightarrow> bool) \<Rightarrow> 'r list \<Rightarrow> 'r list" where
  "delete_where p rows = filter (\<lambda>r. \<not> p r) rows"

definition count_where :: "('r \<Rightarrow> bool) \<Rightarrow> 'r list \<Rightarrow> nat" where
  "count_where p rows = length (filter p rows)"

text \<open>A unique index: two rows that it covers and that share their key are the same.\<close>

definition unique_keys :: "('r \<Rightarrow> bool) \<Rightarrow> ('r \<Rightarrow> 'k) \<Rightarrow> 'r list \<Rightarrow> bool" where
  "unique_keys covers key rows \<longleftrightarrow>
     (\<forall>r \<in> set rows. \<forall>s \<in> set rows. covers r \<longrightarrow> covers s \<longrightarrow> key r = key s \<longrightarrow> r = s)"

lemma update_where_Nil [simp]: "update_where p f [] = []"
  by (simp add: update_where_def)

lemma update_where_Cons [simp]:
  "update_where p f (r # rows) = (if p r then f r else r) # update_where p f rows"
  by (simp add: update_where_def)

lemma update_where_append [simp]:
  "update_where p f (xs @ ys) = update_where p f xs @ update_where p f ys"
  by (simp add: update_where_def)

lemma length_update_where [simp]: "length (update_where p f rows) = length rows"
  by (simp add: update_where_def)

lemma set_update_where: "set (update_where p f rows) = (\<lambda>r. if p r then f r else r) ` set rows"
  by (simp add: update_where_def)

lemma update_where_ex:
  "\<exists>r \<in> set rows. A r \<Longrightarrow> (\<And>r. r \<in> set rows \<Longrightarrow> p r \<Longrightarrow> A r \<Longrightarrow> A (f r)) \<Longrightarrow> \<exists>r \<in> set (update_where p f rows). A r"
  unfolding set_update_where by (metis (mono_tags, lifting) image_eqI)

lemma map_update_where:
  "(\<And>r. g (f r) = g r) \<Longrightarrow> map g (update_where p f rows) = map g rows"
  by (auto simp: update_where_def)

text \<open>A write that reaches none of the rows asked for.\<close>

lemma filter_update_where:
  "(\<And>r. r \<in> set rows \<Longrightarrow> p r \<Longrightarrow> \<not> A r \<and> \<not> A (f r)) \<Longrightarrow> filter A (update_where p f rows) = filter A rows"
  by (induction rows) auto

lemma filter_delete_where:
  "(\<And>r. r \<in> set rows \<Longrightarrow> p r \<Longrightarrow> \<not> A r) \<Longrightarrow> filter A (delete_where p rows) = filter A rows"
  by (induction rows) (auto simp: delete_where_def)

lemma set_delete_where [simp]: "set (delete_where p rows) = {r \<in> set rows. \<not> p r}"
  by (auto simp: delete_where_def)

lemma count_where_append [simp]:
  "count_where p (xs @ ys) = count_where p xs + count_where p ys"
  by (simp add: count_where_def)

lemma count_where_Nil [simp]: "count_where p [] = 0"
  by (simp add: count_where_def)

lemma count_where_Cons [simp]:
  "count_where p (r # rows) = (if p r then 1 else 0) + count_where p rows"
  by (simp add: count_where_def)

lemma count_where_pos: "0 < count_where p rows \<longleftrightarrow> (\<exists>r \<in> set rows. p r)"
  by (induction rows) auto

lemma find_exists: "r \<in> set rows \<Longrightarrow> p r \<Longrightarrow> \<exists>s. List.find p rows = Some s"
  by (cases "List.find p rows") (auto simp: find_None_iff)

lemma find_SomeD: "List.find p rows = Some r \<Longrightarrow> r \<in> set rows \<and> p r"
  by (induction rows) (auto split: if_splits)

lemma find_NoneD: "List.find p rows = None \<Longrightarrow> \<forall>r \<in> set rows. \<not> p r"
  by (simp add: find_None_iff)

lemma find_append: "List.find p (xs @ ys) = (case List.find p xs of None \<Rightarrow> List.find p ys | Some x \<Rightarrow> Some x)"
  by (induction xs) auto

text \<open>The row a unique key names is the one \<open>findOne\<close> returns.\<close>

lemma unique_key_eq:
  "distinct (map key rows) \<Longrightarrow> r \<in> set rows \<Longrightarrow> s \<in> set rows \<Longrightarrow> key r = key s \<Longrightarrow> r = s"
  by (auto simp: distinct_map dest: inj_onD)

lemma find_unique:
  assumes "distinct (map key rows)" "r \<in> set rows" "key r = k"
  shows "List.find (\<lambda>r. key r = k) rows = Some r"
proof (cases "List.find (\<lambda>r. key r = k) rows")
  case None
  then show ?thesis using assms by (auto simp: find_None_iff)
next
  case (Some s)
  then have "s \<in> set rows" "key s = k" by (auto dest: find_SomeD)
  with assms Some show ?thesis by (metis unique_key_eq)
qed

text \<open>
  \<open>INSERT ... ON CONFLICT (key) DO UPDATE\<close>: the row of that key is replaced, or the row is appended.
\<close>

definition upsert_on :: "('r \<Rightarrow> 'k) \<Rightarrow> 'r \<Rightarrow> 'r list \<Rightarrow> 'r list" where
  "upsert_on key r rows =
     (if \<exists>s \<in> set rows. key s = key r
      then update_where (\<lambda>s. key s = key r) (\<lambda>_. r) rows
      else rows @ [r])"

lemma upsert_new: "\<forall>s \<in> set rows. key s \<noteq> key r \<Longrightarrow> upsert_on key r rows = rows @ [r]"
  by (auto simp: upsert_on_def)

lemma map_key_upsert:
  "map key (upsert_on key r rows) = (if key r \<in> key ` set rows then map key rows else map key rows @ [key r])"
proof (cases "key r \<in> key ` set rows")
  case True
  then have "\<exists>s \<in> set rows. key s = key r" by force
  with True show ?thesis by (simp add: upsert_on_def update_where_def)
next
  case False
  then have "\<not> (\<exists>s \<in> set rows. key s = key r)" by (metis image_eqI)
  with False show ?thesis by (simp add: upsert_on_def)
qed

lemma set_upsert:
  "set (upsert_on key r rows) = insert r {s \<in> set rows. key s \<noteq> key r}"
  by (auto simp: upsert_on_def update_where_def)

section \<open>Transition systems\<close>

text \<open>
  What a component with state promises: an invariant that holds at the start and that every step
  keeps. Everything reachable then satisfies it. The components interpret this interface with the
  program's operations as the steps.
\<close>

inductive reaches :: "('s \<Rightarrow> 's \<Rightarrow> bool) \<Rightarrow> 's \<Rightarrow> 's \<Rightarrow> bool" for step where
  reaches_refl: "reaches step s s"
| reaches_step: "reaches step s t \<Longrightarrow> step t u \<Longrightarrow> reaches step s u"

lemma reaches_trans: "reaches step t u \<Longrightarrow> reaches step s t \<Longrightarrow> reaches step s u"
  by (induction rule: reaches.induct) (auto intro: reaches.intros)

locale invariant_system =
  fixes step :: "'s \<Rightarrow> 's \<Rightarrow> bool"
    and inv :: "'s \<Rightarrow> bool"
  assumes step_inv: "inv s \<Longrightarrow> step s t \<Longrightarrow> inv t"
begin

lemma reaches_inv: "reaches step s t \<Longrightarrow> inv s \<Longrightarrow> inv t"
  by (induction rule: reaches.induct) (auto intro: step_inv)

end

text \<open>
  A quantity of the state that no step takes back: a preorder every step climbs (a revoked token
  stays revoked, a used one stays used, a recorded message stays recorded).
\<close>

locale monotone_system = invariant_system +
  fixes le :: "'s \<Rightarrow> 's \<Rightarrow> bool"
  assumes le_refl: "le s s"
    and le_trans: "le s t \<Longrightarrow> le t u \<Longrightarrow> le s u"
    and step_le: "inv s \<Longrightarrow> step s t \<Longrightarrow> le s t"
begin

lemma reaches_le: "reaches step s t \<Longrightarrow> inv s \<Longrightarrow> le s t"
proof (induction rule: reaches.induct)
  case (reaches_refl s)
  show ?case by (rule le_refl)
next
  case (reaches_step s t u)
  then have "inv t" by (blast intro: reaches_inv)
  with reaches_step show ?case by (blast intro: le_trans step_le)
qed

end

lemmas evaluate_Prelude [evaluate] =
  run_bind run_andThen run_tryCatch liftEither_def upsert_on_def delete_where_def Let_def

end
