(* ===== verification/JsText.thy ===== *)
theory JsText imports Prelude begin

text \<open>
  JavaScript strings and the string operations the program calls on them: \<open>trim\<close>, \<open>slice\<close>,
  \<open>encodeURIComponent\<close> and the regular expressions of the auth and messaging code. A string is its
  sequence of UTF-16 code units. \<open>toLowerCase\<close> reads Unicode's case tables, so it is a field of the
  platform (theory \<open>AuthDomain\<close>).
\<close>

type_synonym jstr = "nat list"

text \<open>A literal of the source, all of whose literals modelled here are ASCII.\<close>

definition lit :: "string \<Rightarrow> jstr" where
  "lit s = map of_char s"

lemma lit_inject [simp]: "lit s = lit t \<longleftrightarrow> s = t"
  by (simp add: lit_def inj_map_eq_map inj_on_def)

lemma length_lit [simp]: "length (lit s) = length s"
  by (simp add: lit_def)

lemma lit_Nil [simp]: "lit [] = []"
  by (simp add: lit_def)

lemma lit_eq_Nil [simp]: "lit s = [] \<longleftrightarrow> s = []" "[] = lit s \<longleftrightarrow> s = []"
  by (simp_all add: lit_def)

section \<open>Trimming, slicing, counting\<close>

text \<open>ECMAScript WhiteSpace and LineTerminator code points, all in the basic plane.\<close>

definition js_space :: "nat \<Rightarrow> bool" where
  "js_space c \<longleftrightarrow> c \<in> {9, 10, 11, 12, 13, 32, 160, 5760, 8232, 8233, 8239, 8287, 12288, 65279}
     \<or> 8192 \<le> c \<and> c \<le> 8202"

definition js_trim :: "jstr \<Rightarrow> jstr" where
  "js_trim s = rev (dropWhile js_space (rev (dropWhile js_space s)))"

text \<open>\<open>s.slice(0, n)\<close> for a literal \<open>n\<close>.\<close>

definition js_slice :: "nat \<Rightarrow> jstr \<Rightarrow> jstr" where
  "js_slice n s = take n s"

lemma length_js_slice: "length (js_slice n s) \<le> n"
  by (simp add: js_slice_def)

lemma js_trim_Nil [simp]: "js_trim [] = []"
  by (simp add: js_trim_def)

lemma last_dropWhile: "dropWhile p xs \<noteq> [] \<Longrightarrow> last (dropWhile p xs) = last xs"
  by (metis last_appendR takeWhile_dropWhile_id)

lemma js_trim_ends:
  assumes "js_trim s \<noteq> []"
  shows "\<not> js_space (last (js_trim s))" "\<not> js_space (hd (js_trim s))"
proof -
  let ?r = "dropWhile js_space (rev (dropWhile js_space s))"
  have r: "?r \<noteq> []" using assms by (simp add: js_trim_def)
  then show "\<not> js_space (last (js_trim s))"
    by (simp add: js_trim_def last_rev hd_dropWhile)
  let ?l = "dropWhile js_space s"
  have l: "?l \<noteq> []"
  proof
    assume "?l = []"
    with r show False by (simp only: rev.simps dropWhile.simps simp_thms)
  qed
  then have h: "\<not> js_space (hd ?l)" by (rule hd_dropWhile)
  have "last ?r = last (rev ?l)" using r by (rule last_dropWhile)
  then show "\<not> js_space (hd (js_trim s))"
    using h l r by (simp add: js_trim_def hd_rev last_rev)
qed

lemma js_trim_id:
  assumes "s = [] \<or> \<not> js_space (hd s) \<and> \<not> js_space (last s)"
  shows "js_trim s = s"
proof (cases "s = []")
  case False
  with assms have "dropWhile js_space s = s" "dropWhile js_space (rev s) = rev s"
    by (auto simp: dropWhile_eq_self_iff hd_rev)
  then show ?thesis by (simp add: js_trim_def)
qed simp

lemma js_trim_idem [simp]: "js_trim (js_trim s) = js_trim s"
  by (rule js_trim_id) (use js_trim_ends[of s] in blast)

text \<open>
  A column's \<open>VARCHAR(n)\<close> counts characters: a surrogate pair is one.
\<close>

definition is_high :: "nat \<Rightarrow> bool" where "is_high c \<longleftrightarrow> 55296 \<le> c \<and> c \<le> 56319"
definition is_low :: "nat \<Rightarrow> bool" where "is_low c \<longleftrightarrow> 56320 \<le> c \<and> c \<le> 57343"

fun char_length :: "jstr \<Rightarrow> nat" where
  "char_length [] = 0"
| "char_length [c] = 1"
| "char_length (c # d # s) =
     (if is_high c \<and> is_low d then Suc (char_length s) else Suc (char_length (d # s)))"

lemma char_length_le: "char_length s \<le> length s"
  by (induction s rule: char_length.induct) auto

lemma char_length_plain: "\<forall>c \<in> set s. \<not> is_high c \<Longrightarrow> char_length s = length s"
  by (induction s rule: char_length.induct) auto

section \<open>Regular expressions and URL encoding\<close>

definition is_lower_alnum :: "nat \<Rightarrow> bool" where
  "is_lower_alnum c \<longleftrightarrow> 97 \<le> c \<and> c \<le> 122 \<or> 48 \<le> c \<and> c \<le> 57"

definition is_digit :: "nat \<Rightarrow> bool" where
  "is_digit c \<longleftrightarrow> 48 \<le> c \<and> c \<le> 57"

text \<open>\<open>s.replace(/[^a-z0-9]+/g, "-")\<close>: each maximal run of other code units becomes one dash.\<close>

fun dash_runs :: "bool \<Rightarrow> jstr \<Rightarrow> jstr" where
  "dash_runs in_run [] = []"
| "dash_runs in_run (c # s) =
     (if is_lower_alnum c then c # dash_runs False s
      else if in_run then dash_runs True s
      else 45 # dash_runs True s)"

definition slug_text :: "jstr \<Rightarrow> jstr" where
  "slug_text s = dash_runs False s"

lemma dash_runs_chars: "c \<in> set (dash_runs b s) \<Longrightarrow> is_lower_alnum c \<or> c = 45"
  by (induction b s rule: dash_runs.induct) (auto split: if_splits)

lemma slug_text_chars: "c \<in> set (slug_text s) \<Longrightarrow> is_lower_alnum c \<or> c = 45"
  unfolding slug_text_def by (rule dash_runs_chars)

text \<open>\<open>encodeURIComponent\<close>: the unreserved code units stand, the rest are their UTF-8 bytes.\<close>

definition uri_unreserved :: "nat \<Rightarrow> bool" where
  "uri_unreserved c \<longleftrightarrow> 97 \<le> c \<and> c \<le> 122 \<or> 65 \<le> c \<and> c \<le> 90 \<or> is_digit c
     \<or> c \<in> {45, 95, 46, 33, 126, 42, 39, 40, 41}"

definition hex_digit :: "nat \<Rightarrow> nat" where
  "hex_digit d = (if d < 10 then 48 + d else 55 + d)"

definition percent_byte :: "nat \<Rightarrow> jstr" where
  "percent_byte b = [37, hex_digit (b div 16), hex_digit (b mod 16)]"

definition utf8_bytes :: "nat \<Rightarrow> nat list" where
  "utf8_bytes c =
     (if c < 128 then [c]
      else if c < 2048 then [192 + c div 64, 128 + c mod 64]
      else if c < 65536 then [224 + c div 4096, 128 + (c div 64) mod 64, 128 + c mod 64]
      else [240 + c div 262144, 128 + (c div 4096) mod 64, 128 + (c div 64) mod 64, 128 + c mod 64])"

definition percent_encode :: "nat \<Rightarrow> jstr" where
  "percent_encode c = concat (map percent_byte (utf8_bytes c))"

text \<open>\<open>None\<close> is the \<open>URIError\<close> of a lone surrogate.\<close>

fun encodeURIComponent :: "jstr \<Rightarrow> jstr option" where
  "encodeURIComponent [] = Some []"
| "encodeURIComponent [c] =
     (if uri_unreserved c then Some [c]
      else if is_high c \<or> is_low c then None
      else Some (percent_encode c))"
| "encodeURIComponent (c # d # s) =
     (if uri_unreserved c then map_option (Cons c) (encodeURIComponent (d # s))
      else if is_low c then None
      else if is_high c then
        (if is_low d
         then map_option (append (percent_encode (65536 + (c - 55296) * 1024 + (d - 56320))))
                (encodeURIComponent s)
         else None)
      else map_option (append (percent_encode c)) (encodeURIComponent (d # s)))"

lemma encodeURIComponent_plain:
  "\<forall>c \<in> set s. uri_unreserved c \<Longrightarrow> encodeURIComponent s = Some s"
  by (induction s rule: encodeURIComponent.induct) auto

text \<open>\<open>base64url\<close> text, which the tokens are, needs no escaping.\<close>

definition base64url_char :: "nat \<Rightarrow> bool" where
  "base64url_char c \<longleftrightarrow> 97 \<le> c \<and> c \<le> 122 \<or> 65 \<le> c \<and> c \<le> 90 \<or> is_digit c \<or> c = 45 \<or> c = 95"

lemma base64url_unreserved: "base64url_char c \<Longrightarrow> uri_unreserved c"
  by (auto simp: base64url_char_def uri_unreserved_def)

lemma encode_base64url: "\<forall>c \<in> set s. base64url_char c \<Longrightarrow> encodeURIComponent s = Some s"
  by (blast intro: encodeURIComponent_plain base64url_unreserved)

text \<open>\<open>/^\$2[aby]\$\d{2}\$/\<close>, the test of \<open>user.sequelize.ts\<close> for an already hashed password.\<close>

definition isBcryptHash :: "jstr \<Rightarrow> bool" where
  "isBcryptHash s \<longleftrightarrow> 7 \<le> length s \<and> s ! 0 = 36 \<and> s ! 1 = 50 \<and> s ! 2 \<in> {97, 98, 121}
     \<and> s ! 3 = 36 \<and> is_digit (s ! 4) \<and> is_digit (s ! 5) \<and> s ! 6 = 36"

text \<open>A string that may be missing, as an \<open>if\<close> on it reads it: an empty one is none.\<close>

definition nonempty :: "jstr option \<Rightarrow> jstr option" where
  "nonempty s = (if s = Some [] then None else s)"

lemmas evaluate_JsText [evaluate] =
  lit_def js_space_def js_trim_def js_slice_def is_high_def is_low_def is_lower_alnum_def
  is_digit_def slug_text_def uri_unreserved_def hex_digit_def percent_byte_def utf8_bytes_def
  percent_encode_def base64url_char_def isBcryptHash_def nonempty_def

end
