(* ===== verification/Digits.thy ===== *)
theory Digits imports JsText begin

text \<open>Natural numbers as decimal text: what a template literal prints, and what parsing reads back.\<close>

fun decimal :: "nat \<Rightarrow> jstr" where
  "decimal n = (if n < 10 then [48 + n] else decimal (n div 10) @ [48 + n mod 10])"

declare decimal.simps [simp del]

fun digits_value :: "nat \<Rightarrow> jstr \<Rightarrow> nat" where
  "digits_value acc [] = acc"
| "digits_value acc (c # cs) = digits_value (10 * acc + (c - 48)) cs"

lemma digits_value_append: "digits_value acc (xs @ ys) = digits_value (digits_value acc xs) ys"
  by (induction xs arbitrary: acc) auto

lemma decimal_digits: "\<forall>c \<in> set (decimal n). is_digit c"
  by (induction n rule: decimal.induct) (subst decimal.simps, auto simp: is_digit_def)

lemma decimal_nonempty: "decimal n \<noteq> []"
  by (subst decimal.simps) simp

lemma decimal_value: "digits_value 0 (decimal n) = n"
proof (induction n rule: decimal.induct)
  case (1 n)
  show ?case
  proof (cases "n < 10")
    case True
    then show ?thesis by (subst decimal.simps) simp
  next
    case False
    then show ?thesis using 1 by (subst decimal.simps) (simp add: digits_value_append)
  qed
qed

lemma decimal_inj: "decimal m = decimal n \<longleftrightarrow> m = n"
  using decimal_value by metis

text \<open>Digits without a leading zero are the text of the number they stand for.\<close>

lemma decimal_digits_value:
  "s \<noteq> [] \<Longrightarrow> \<forall>c \<in> set s. is_digit c \<Longrightarrow> hd s \<noteq> 48 \<Longrightarrow> decimal (digits_value 0 s) = s \<and> digits_value 0 s > 0"
proof (induction s rule: rev_induct)
  case (snoc c s)
  then have c: "48 \<le> c" "c \<le> 57" by (auto simp: is_digit_def)
  show ?case
  proof (cases "s = []")
    case True
    with snoc.prems c show ?thesis by (subst decimal.simps) auto
  next
    case False
    with snoc have s: "decimal (digits_value 0 s) = s" "digits_value 0 s > 0" by auto
    obtain k where k: "c = 48 + k" "k < 10" using c by (intro that[of "c - 48"]) auto
    have "decimal (10 * digits_value 0 s + k) = decimal (digits_value 0 s) @ [48 + k]"
      using s(2) k(2) by (subst decimal.simps) simp
    with s k show ?thesis by (simp add: digits_value_append)
  qed
qed simp

lemma decimal_head: "0 < n \<Longrightarrow> hd (decimal n) \<noteq> 48"
proof (induction n rule: decimal.induct)
  case (1 n)
  then show ?case
    by (cases "n < 10"; subst decimal.simps) (auto simp: hd_append decimal_nonempty)
qed

end
