(* ===== verification/EmailTemplates.thy ===== *)
theory EmailTemplates imports Digits begin

text \<open>
  The three emails of \<open>src/features/shared/auth/infrastructure/email/templates\<close>, word for word, as
  functions of the link, the organization's name, the time left and the application's display name.
  A value goes into the HTML only through \<open>escapeHtml\<close>.
\<close>

section \<open>Text\<close>

record email_content =
  mail_subject :: jstr
  mail_text :: jstr
  mail_html :: jstr

text \<open>\<open>xs.join(sep)\<close>.\<close>

fun js_join :: "jstr \<Rightarrow> jstr list \<Rightarrow> jstr" where
  "js_join sep [] = []"
| "js_join sep [x] = x"
| "js_join sep (x # y # xs) = x @ sep @ js_join sep (y # xs)"

text \<open>\<open>value.replace(/c/g, s)\<close> for a single character.\<close>

definition replace_all :: "nat \<Rightarrow> jstr \<Rightarrow> jstr \<Rightarrow> jstr" where
  "replace_all c s value = concat (map (\<lambda>x. if x = c then s else [x]) value)"

definition escapeHtml :: "jstr \<Rightarrow> jstr" where
  "escapeHtml value =
     replace_all 39 (lit ''&#39;'')
       (replace_all 34 (lit ''&quot;'')
         (replace_all 62 (lit ''&gt;'')
           (replace_all 60 (lit ''&lt;'')
             (replace_all 38 (lit ''&amp;'') value))))"

section \<open>Templates\<close>

definition buildEmailVerificationEmail :: "jstr \<Rightarrow> jstr \<Rightarrow> nat \<Rightarrow> email_content" where
  "buildEmailVerificationEmail app verifyLink expiresInHours =
     (let safeLink = escapeHtml verifyLink in
      \<lparr>mail_subject = lit ''Verify your '' @ app @ lit '' email address'',
       mail_text = js_join [10] [
         lit ''Hi,'',
         [],
         lit ''Thanks for signing up for '' @ app @ lit ''!'',
         lit ''Please verify your email address by opening the link below within '' @ (decimal expiresInHours) @ lit '' hours:'',
         [],
         verifyLink,
         [],
         lit ''If you didn't create a '' @ app @ lit '' account, you can ignore this email.'',
         [],
         [8212] @ lit '' The '' @ app @ lit '' team''],
       mail_html = js_join [10] [
         lit ''<!doctype html>'',
         lit ''<html lang=\"en\">'',
         lit ''  <body style=\"font-family: -apple-system, BlinkMacSystemFont, 'Segoe UI', sans-serif; color: #1f2937; line-height: 1.5;\">'',
         lit ''    <p>Hi,</p>'',
         lit ''    <p>Thanks for signing up for '' @ app @ lit ''!</p>'',
         lit ''    <p>Click the button below within <strong>'' @ (decimal expiresInHours) @ lit '' hours</strong> to verify your email address:</p>'',
         lit ''    <p>'',
         lit ''      <a href=\"'' @ safeLink @ lit ''\" style=\"display:inline-block;padding:10px 18px;background:#2563eb;color:#ffffff;border-radius:6px;text-decoration:none;\">Verify email</a>'',
         lit ''    </p>'',
         lit ''    <p>If the button doesn't work, copy this link into your browser:</p>'',
         lit ''    <p><a href=\"'' @ safeLink @ lit ''\">'' @ safeLink @ lit ''</a></p>'',
         lit ''    <p>If you didn't create a '' @ app @ lit '' account, you can ignore this email.</p>'',
         lit ''    <p>'' @ [8212] @ lit '' The '' @ app @ lit '' team</p>'',
         lit ''  </body>'',
         lit ''</html>'']\<rparr>)"

definition buildPasswordResetEmail :: "jstr \<Rightarrow> jstr \<Rightarrow> nat \<Rightarrow> email_content" where
  "buildPasswordResetEmail app resetLink expiresInMinutes =
     (let safeLink = escapeHtml resetLink in
      \<lparr>mail_subject = lit ''Reset your '' @ app @ lit '' password'',
       mail_text = js_join [10] [
         lit ''Hi,'',
         [],
         lit ''We received a request to reset your '' @ app @ lit '' password.'',
         lit ''Open the link below within '' @ (decimal expiresInMinutes) @ lit '' minutes to choose a new password:'',
         [],
         resetLink,
         [],
         lit ''If you didn't request a password reset, you can ignore this email '' @ [8212] @ lit '' your password will stay the same.'',
         [],
         [8212] @ lit '' The '' @ app @ lit '' team''],
       mail_html = js_join [10] [
         lit ''<!doctype html>'',
         lit ''<html lang=\"en\">'',
         lit ''  <body style=\"font-family: -apple-system, BlinkMacSystemFont, 'Segoe UI', sans-serif; color: #1f2937; line-height: 1.5;\">'',
         lit ''    <p>Hi,</p>'',
         lit ''    <p>We received a request to reset your '' @ app @ lit '' password.</p>'',
         lit ''    <p>Click the button below within <strong>'' @ (decimal expiresInMinutes) @ lit '' minutes</strong> to choose a new password:</p>'',
         lit ''    <p>'',
         lit ''      <a href=\"'' @ safeLink @ lit ''\" style=\"display:inline-block;padding:10px 18px;background:#2563eb;color:#ffffff;border-radius:6px;text-decoration:none;\">Reset password</a>'',
         lit ''    </p>'',
         lit ''    <p>If the button doesn't work, copy this link into your browser:</p>'',
         lit ''    <p><a href=\"'' @ safeLink @ lit ''\">'' @ safeLink @ lit ''</a></p>'',
         lit ''    <p>If you didn't request a password reset, you can ignore this email '' @ [8212] @ lit '' your password will stay the same.</p>'',
         lit ''    <p>'' @ [8212] @ lit '' The '' @ app @ lit '' team</p>'',
         lit ''  </body>'',
         lit ''</html>'']\<rparr>)"

definition buildOrganizationInviteEmail :: "jstr \<Rightarrow> jstr \<Rightarrow> jstr \<Rightarrow> nat \<Rightarrow> email_content" where
  "buildOrganizationInviteEmail app inviteLink organizationName expiresInDays =
     (let safeLink = escapeHtml inviteLink;
          safeName = escapeHtml organizationName in
      \<lparr>mail_subject = lit ''You've been invited to join '' @ organizationName @ lit '' on '' @ app,
       mail_text = js_join [10] [
         lit ''Hi,'',
         [],
         lit ''You've been invited to join the organization \"'' @ organizationName @ lit ''\" on '' @ app @ lit ''.'',
         lit ''Click the link below within '' @ (decimal expiresInDays) @ lit '' days to accept the invitation:'',
         [],
         inviteLink,
         [],
         lit ''If you don't have a '' @ app @ lit '' account yet, please register first and then use the link above.'',
         [],
         lit ''If you weren't expecting this invitation, you can safely ignore this email.'',
         [],
         [8212] @ lit '' The '' @ app @ lit '' team''],
       mail_html = js_join [10] [
         lit ''<!doctype html>'',
         lit ''<html lang=\"en\">'',
         lit ''  <body style=\"font-family: -apple-system, BlinkMacSystemFont, 'Segoe UI', sans-serif; color: #1f2937; line-height: 1.5;\">'',
         lit ''    <p>Hi,</p>'',
         lit ''    <p>You've been invited to join the organization <strong>'' @ safeName @ lit ''</strong> on '' @ app @ lit ''.</p>'',
         lit ''    <p>Click the button below within <strong>'' @ (decimal expiresInDays) @ lit '' days</strong> to accept the invitation:</p>'',
         lit ''    <p>'',
         lit ''      <a href=\"'' @ safeLink @ lit ''\" style=\"display:inline-block;padding:10px 18px;background:#2563eb;color:#ffffff;border-radius:6px;text-decoration:none;\">Accept invitation</a>'',
         lit ''    </p>'',
         lit ''    <p>If the button doesn't work, copy this link into your browser:</p>'',
         lit ''    <p><a href=\"'' @ safeLink @ lit ''\">'' @ safeLink @ lit ''</a></p>'',
         lit ''    <p>If you don't have a '' @ app @ lit '' account yet, please register first and then use the link above.</p>'',
         lit ''    <p>If you weren't expecting this invitation, you can safely ignore this email.</p>'',
         lit ''    <p>'' @ [8212] @ lit '' The '' @ app @ lit '' team</p>'',
         lit ''  </body>'',
         lit ''</html>'']\<rparr>)"

section \<open>Escaping\<close>

text \<open>
  The five passes are one: the ampersands the later passes write are never rescanned, because the pass
  for the ampersand comes first.
\<close>

definition escape_unit :: "nat \<Rightarrow> jstr" where
  "escape_unit c = (if c = 38 then lit ''&amp;'' else if c = 60 then lit ''&lt;''
     else if c = 62 then lit ''&gt;'' else if c = 34 then lit ''&quot;''
     else if c = 39 then lit ''&#39;'' else [c])"

lemma replace_all_append [simp]: "replace_all c s (xs @ ys) = replace_all c s xs @ replace_all c s ys"
  by (simp add: replace_all_def)

lemma replace_all_Nil [simp]: "replace_all c s [] = []"
  by (simp add: replace_all_def)

lemma replace_all_Cons: "replace_all c s (x # xs) = (if x = c then s else [x]) @ replace_all c s xs"
  by (simp add: replace_all_def)

lemma escapeHtml_units: "escapeHtml s = concat (map escape_unit s)"
  by (induction s) (simp_all add: escapeHtml_def escape_unit_def replace_all_Cons lit_def)

text \<open>What a browser makes of the escaped text.\<close>

fun unescapeHtml :: "jstr \<Rightarrow> jstr" where
  "unescapeHtml [] = []"
| "unescapeHtml (c # s) =
     (if c = 38 \<and> take 4 s = lit ''amp;'' then 38 # unescapeHtml (drop 4 s)
      else if c = 38 \<and> take 3 s = lit ''lt;'' then 60 # unescapeHtml (drop 3 s)
      else if c = 38 \<and> take 3 s = lit ''gt;'' then 62 # unescapeHtml (drop 3 s)
      else if c = 38 \<and> take 5 s = lit ''quot;'' then 34 # unescapeHtml (drop 5 s)
      else if c = 38 \<and> take 4 s = lit ''#39;'' then 39 # unescapeHtml (drop 4 s)
      else c # unescapeHtml s)"

lemma unescape_unit: "unescapeHtml (escape_unit c @ s) = c # unescapeHtml s"
  by (auto simp: escape_unit_def lit_def)

lemma escape_unit_safe: "x \<in> set (escape_unit c) \<Longrightarrow> x \<notin> {60, 62, 34, 39}"
  by (auto simp: escape_unit_def lit_def split: if_splits)

lemmas evaluate_EmailTemplates [evaluate] =
  replace_all_def escapeHtml_def buildEmailVerificationEmail_def buildPasswordResetEmail_def
  buildOrganizationInviteEmail_def escape_unit_def

section \<open>Properties\<close>

text \<open>
  Escaping is faithful and safe: a browser reads back exactly the text that was escaped, so two
  texts never become one, and what goes into the HTML holds no angle bracket and no quote, so a link or
  an organization's name can neither close the attribute it stands in nor open a tag.
\<close>

theorem escape_html_safe:
  "unescapeHtml (escapeHtml s) = s \<and> set (escapeHtml s) \<inter> {60, 62, 34, 39} = {}"
proof -
  have "unescapeHtml (concat (map escape_unit s)) = s"
    by (induction s) (simp_all add: unescape_unit)
  moreover have "set (concat (map escape_unit s)) \<inter> {60, 62, 34, 39} = {}"
    using escape_unit_safe by fastforce
  ultimately show ?thesis by (simp add: escapeHtml_units)
qed

end
