(* ===== verification/TrackingRows.thy ===== *)
theory TrackingRows imports JsText Complex_Main begin

text \<open>
  The data of the tracking features (\<open>src/features/public/metric\<close>, \<open>metric-category\<close>, \<open>metric-settings\<close> and
  \<open>metric-log\<close>): the \<open>Props\<close> type of each entity, and the row of its table, which adds the organization.
  A number of the request is exact: nothing modelled computes with it.
\<close>

datatype js_number = Finite rat | PosInfinity | NegInfinity | NaN

text \<open>\<open>a < b\<close> of two numbers; a comparison with \<open>NaN\<close> is false.\<close>

fun js_less :: "js_number \<Rightarrow> js_number \<Rightarrow> bool" where
  "js_less (Finite a) (Finite b) = (a < b)"
| "js_less NegInfinity (Finite _) = True"
| "js_less NegInfinity PosInfinity = True"
| "js_less (Finite _) PosInfinity = True"
| "js_less _ _ = False"

fun isFinite :: "js_number \<Rightarrow> bool" where
  "isFinite (Finite _) = True"
| "isFinite _ = False"

section \<open>Metrics\<close>

record metric =
  mt_id :: jstr
  mt_userId :: jstr
  mt_name :: jstr
  mt_defaultUnit :: jstr
  mt_isPublic :: bool
  mt_createdAt :: int
  mt_updatedAt :: int
  mt_categoryId :: "jstr option"
  mt_originalMetricId :: "jstr option"
  mt_description :: "jstr option"
  mt_deletedAt :: "int option"

record metric_row = metric +
  mt_organizationId :: jstr

section \<open>Categories\<close>

record metric_category =
  mc_id :: jstr
  mc_userId :: jstr
  mc_name :: jstr
  mc_color :: jstr
  mc_icon :: jstr
  mc_createdAt :: int
  mc_updatedAt :: int
  mc_deletedAt :: "int option"

record category_row = metric_category +
  mc_organizationId :: jstr

section \<open>Settings\<close>

datatype goal_type = Cumulative | Incremental

record display_options =
  disp_showOnDashboard :: bool
  disp_priority :: "int option"
  disp_chartType :: "jstr option"
  disp_color :: "jstr option"

text \<open>A \<open>DATEONLY\<close> column's day is the time it reads back as.\<close>

record metric_settings =
  ms_id :: jstr
  ms_metricId :: jstr
  ms_isActive :: bool
  ms_goalEnabled :: bool
  ms_goalType :: "goal_type option"
  ms_goalValue :: "js_number option"
  ms_timeFrameEnabled :: bool
  ms_startDate :: "int option"
  ms_deadlineDate :: "int option"
  ms_alertEnabled :: bool
  ms_alertThresholds :: "int option"
  ms_isAchieved :: bool
  ms_displayOptions :: display_options
  ms_createdAt :: int
  ms_updatedAt :: int

record settings_row = metric_settings +
  ms_organizationId :: jstr

section \<open>Logs\<close>

datatype log_type = Manual | Automatic

record metric_log =
  ml_id :: jstr
  ml_metricId :: jstr
  ml_logValue :: js_number
  ml_type :: log_type
  ml_loggedAt :: int
  ml_createdAt :: int
  ml_updatedAt :: int

record log_row = metric_log +
  ml_organizationId :: jstr

section \<open>Responses\<close>

text \<open>
  \<open>toMetricResponseDTO\<close> and \<open>toResponseDTO\<close> of a category; the times are left as times. The responses with
  settings or a log carry every property of the entity.
\<close>

record metric_dto =
  mdto_id :: jstr
  mdto_userId :: jstr
  mdto_categoryId :: "jstr option"
  mdto_originalMetricId :: "jstr option"
  mdto_name :: jstr
  mdto_description :: "jstr option"
  mdto_defaultUnit :: jstr
  mdto_isPublic :: bool
  mdto_createdAt :: int
  mdto_updatedAt :: int

definition toMetricResponseDTO :: "metric \<Rightarrow> metric_dto" where
  "toMetricResponseDTO m = \<lparr>mdto_id = mt_id m, mdto_userId = mt_userId m, mdto_categoryId = mt_categoryId m,
     mdto_originalMetricId = mt_originalMetricId m, mdto_name = mt_name m, mdto_description = mt_description m,
     mdto_defaultUnit = mt_defaultUnit m, mdto_isPublic = mt_isPublic m, mdto_createdAt = mt_createdAt m,
     mdto_updatedAt = mt_updatedAt m\<rparr>"

record category_dto =
  cdto_id :: jstr
  cdto_userId :: jstr
  cdto_name :: jstr
  cdto_color :: jstr
  cdto_icon :: jstr
  cdto_createdAt :: int
  cdto_updatedAt :: int
  cdto_metricCount :: nat

section \<open>Text rules\<close>

text \<open>\<open>hasInvalidControlChars\<close> and \<open>hasUnpairedSurrogates\<close> of \<open>src/shared/utils/text-validation.ts\<close>.\<close>

definition hasInvalidControlChars :: "jstr \<Rightarrow> bool \<Rightarrow> bool" where
  "hasInvalidControlChars s allowNewlines \<longleftrightarrow>
     list_ex (\<lambda>c. (c = 127 \<or> c < 32) \<and> \<not> (allowNewlines \<and> c \<in> {9, 10, 13})) s"

fun hasUnpairedSurrogates :: "jstr \<Rightarrow> bool" where
  "hasUnpairedSurrogates [] = False"
| "hasUnpairedSurrogates [c] = (is_high c \<or> is_low c)"
| "hasUnpairedSurrogates (c # d # s) =
     (if is_high c \<and> is_low d then hasUnpairedSurrogates s
      else is_high c \<or> is_low c \<or> hasUnpairedSurrogates (d # s))"

definition hasInvalidMetricChars :: "jstr \<Rightarrow> bool \<Rightarrow> bool" where
  "hasInvalidMetricChars s allowNewlines \<longleftrightarrow> hasInvalidControlChars s allowNewlines \<or> hasUnpairedSurrogates s"

text \<open>\<open>METRIC_NAME_RULE\<close>, \<open>METRIC_UNIT_RULE\<close>, \<open>METRIC_DESCRIPTION_RULE\<close> and \<open>METRIC_LOG_VALUE_RULE\<close>.\<close>

definition METRIC_NAME_MAX :: nat where "METRIC_NAME_MAX = 128"
definition METRIC_UNIT_MAX :: nat where "METRIC_UNIT_MAX = 32"
definition METRIC_DESCRIPTION_MAX :: nat where "METRIC_DESCRIPTION_MAX = 512"
definition METRIC_LOG_VALUE_MAX :: rat where "METRIC_LOG_VALUE_MAX = 1000000"

lemmas evaluate_TrackingRows [evaluate] =
  toMetricResponseDTO_def hasInvalidControlChars_def hasInvalidMetricChars_def
  METRIC_NAME_MAX_def METRIC_UNIT_MAX_def METRIC_DESCRIPTION_MAX_def METRIC_LOG_VALUE_MAX_def

end
