(* ===== verification/AuthDomain.thy ===== *)
theory AuthDomain imports EmailTemplates TrackingRows begin

text \<open>
  The entities of \<open>src/features/shared/auth/domain/entities\<close>, the state the auth feature reads and
  writes, and the platform: everything outside the repository the feature calls. A \<open>Date\<close> is its
  milliseconds. Each record is the \<open>Props\<close> type of the entity, so it is also the row of its table.
\<close>

section \<open>Entities\<close>

record auth_user =
  user_id :: jstr
  user_email :: jstr
  user_username :: jstr
  user_passwordHash :: jstr
  user_isPublicProfile :: bool
  user_emailVerifiedAt :: "int option"
  user_createdAt :: int
  user_updatedAt :: int
  user_deletedAt :: "int option"

datatype membership_role = Owner | Admin | Member
datatype membership_status = Active | Invited | Removed

record membership =
  m_id :: jstr
  m_userId :: jstr
  m_organizationId :: jstr
  m_role :: membership_role
  m_status :: membership_status
  m_joinedAt :: int

definition Membership_changeRole :: "membership_role \<Rightarrow> membership \<Rightarrow> membership" where
  "Membership_changeRole role m = m\<lparr>m_role := role\<rparr>"

definition Membership_isActive :: "membership \<Rightarrow> bool" where
  "Membership_isActive m \<longleftrightarrow> m_status m = Active"

definition Membership_isOwner :: "membership \<Rightarrow> bool" where
  "Membership_isOwner m \<longleftrightarrow> m_role m = Owner"

definition Membership_isAdmin :: "membership \<Rightarrow> bool" where
  "Membership_isAdmin m \<longleftrightarrow> m_role m = Admin \<or> m_role m = Owner"

record organization =
  org_id :: jstr
  org_name :: jstr
  org_slug :: jstr
  org_createdAt :: int
  org_updatedAt :: int
  org_deletedAt :: "int option"

datatype invite_role = InviteAdmin | InviteMember

record organization_invite =
  inv_id :: jstr
  inv_organizationId :: jstr
  inv_email :: jstr
  inv_role :: invite_role
  inv_tokenHash :: jstr
  inv_expiresAt :: int
  inv_acceptedAt :: "int option"
  inv_createdAt :: int

definition OrganizationInvite_isExpired :: "int \<Rightarrow> organization_invite \<Rightarrow> bool" where
  "OrganizationInvite_isExpired now i \<longleftrightarrow> inv_expiresAt i \<le> now"

definition OrganizationInvite_isAccepted :: "organization_invite \<Rightarrow> bool" where
  "OrganizationInvite_isAccepted i \<longleftrightarrow> inv_acceptedAt i \<noteq> None"

text \<open>
  \<open>PasswordResetToken\<close> and \<open>EmailVerificationToken\<close> have the same properties; each has its own table.
\<close>

record one_time_token =
  ott_id :: jstr
  ott_userId :: jstr
  ott_tokenHash :: jstr
  ott_expiresAt :: int
  ott_usedAt :: "int option"
  ott_createdAt :: int

definition Token_isUsed :: "one_time_token \<Rightarrow> bool" where
  "Token_isUsed t \<longleftrightarrow> ott_usedAt t \<noteq> None"

definition Token_isExpired :: "int \<Rightarrow> one_time_token \<Rightarrow> bool" where
  "Token_isExpired now t \<longleftrightarrow> ott_expiresAt t \<le> now"

definition EmailVerificationToken_isUsable :: "int \<Rightarrow> one_time_token \<Rightarrow> bool" where
  "EmailVerificationToken_isUsable now t \<longleftrightarrow> \<not> Token_isUsed t \<and> \<not> Token_isExpired now t"

record refresh_token =
  rt_id :: jstr
  rt_userId :: jstr
  rt_organizationId :: "jstr option"
  rt_familyId :: jstr
  rt_tokenHash :: jstr
  rt_issuedAt :: int
  rt_expiresAt :: int
  rt_revokedAt :: "int option"
  rt_replacedById :: "jstr option"
  rt_userAgent :: "jstr option"
  rt_ip :: "jstr option"

definition RefreshToken_isRevoked :: "refresh_token \<Rightarrow> bool" where
  "RefreshToken_isRevoked t \<longleftrightarrow> rt_revokedAt t \<noteq> None"

definition RefreshToken_isExpired :: "int \<Rightarrow> refresh_token \<Rightarrow> bool" where
  "RefreshToken_isExpired now t \<longleftrightarrow> rt_expiresAt t \<le> now"

definition RefreshToken_markRevoked :: "int \<Rightarrow> refresh_token \<Rightarrow> refresh_token" where
  "RefreshToken_markRevoked now t = t\<lparr>rt_revokedAt := Some now\<rparr>"

definition RefreshToken_replaceWith :: "jstr \<Rightarrow> refresh_token \<Rightarrow> failure + refresh_token" where
  "RefreshToken_replaceWith newId t =
     (if rt_replacedById t \<noteq> None then Inl (PlainError ''RefreshToken already replaced'')
      else Inr (t\<lparr>rt_replacedById := Some newId\<rparr>))"

text \<open>A dedup record: \<open>processed_messages\<close>, whose key is the pair of the message and the queue.\<close>

record processed_message =
  pm_messageId :: jstr
  pm_queue :: jstr

section \<open>Messages out\<close>

record email_message = email_content +
  mail_to :: jstr

text \<open>
  The queued jobs. The body of an email job carries an id and nothing else; that of a dummy-logs job its
  own id, the user, the organization, the metric and the count. The routing key of \<open>job-routes.ts\<close> names
  the kind of the job.
\<close>

datatype job =
    VerificationEmailJob jstr
  | PasswordResetEmailJob jstr
  | InviteEmailJob jstr
  | DummyLogsJob jstr jstr jstr jstr nat

record published_job =
  pub_job :: job
  pub_messageId :: jstr

section \<open>State\<close>

record database =
  users :: "auth_user list"
  organizations :: "organization list"
  memberships :: "membership list"
  organization_invites :: "organization_invite list"
  refresh_tokens :: "refresh_token list"
  password_reset_tokens :: "one_time_token list"
  email_verification_tokens :: "one_time_token list"
  processed_messages :: "processed_message list"
  metrics :: "metric_row list"
  metric_categories :: "category_row list"
  metric_settings :: "settings_row list"
  metric_logs :: "log_row list"

text \<open>
  The lockout counters in Redis: the count under a key, and when the key expires (never, until
  \<open>EXPIRE\<close> is run on it).
\<close>

type_synonym counters = "jstr \<Rightarrow> (nat \<times> int option) option"

text \<open>
  The tick numbers the readings of everything that is not a function of the state: the clock, the
  random source, whether a service answers. Each reading takes the next tick. The outbox holds the
  emails a provider accepted, the jobs those a broker took.
\<close>

record world =
  db :: database
  tick :: nat
  outbox :: "email_message list"
  jobs :: "published_job list"
  lockouts :: counters

definition empty_database :: database where
  "empty_database = \<lparr>users = [], organizations = [], memberships = [], organization_invites = [],
     refresh_tokens = [], password_reset_tokens = [], email_verification_tokens = [],
     processed_messages = [], metrics = [], metric_categories = [], metric_settings = [], metric_logs = []\<rparr>"

definition empty_world :: world where
  "empty_world = \<lparr>db = empty_database, tick = 0, outbox = [], jobs = [], lockouts = (\<lambda>_. None)\<rparr>"

section \<open>Platform\<close>

record token_payload =
  payload_id :: jstr
  payload_email :: jstr
  payload_username :: jstr
  payload_organizationId :: jstr

text \<open>
  What \<open>jwt.verify\<close> decodes, before the checks of \<open>JwtTokenProvider.verify\<close>: every claim may be absent.
\<close>

record decoded_token =
  decoded_id :: "jstr option"
  decoded_email :: "jstr option"
  decoded_organizationId :: "jstr option"
  decoded_iat :: "int option"
  decoded_exp :: "int option"

text \<open>
  Node, the npm packages and the services: the clock, \<open>crypto\<close>, \<open>bcrypt\<close>, \<open>jsonwebtoken\<close>, Unicode's case
  tables, the ORM's email check, Postgres' \<open>lower\<close>, the mail provider, the broker and Redis. A value that
  varies from call to call is indexed by the tick of the call. \<open>dateonly\<close> is the day the ORM stores for a
  time in a \<open>DATEONLY\<close> column, as the time it reads back; \<open>date_parse\<close> is \<open>new Date(text)\<close>, \<open>None\<close> for an
  invalid date, and \<open>math_random\<close> is \<open>Math.random()\<close>. \<open>mail_result\<close> and \<open>publish_result\<close> are
  \<open>None\<close> for success; a send or a publish that reports a failure may still have reached the provider
  (\<open>mail_reaches\<close>) or the broker (\<open>publish_reaches\<close>). The configuration the feature is built with is here too.
\<close>

record platform =
  clock :: "nat \<Rightarrow> int"
  random_uuid :: "nat \<Rightarrow> jstr"
  random_base64url :: "nat \<Rightarrow> nat \<Rightarrow> jstr"
  sha256_hex :: "jstr \<Rightarrow> jstr"
  bcrypt_hash :: "nat \<Rightarrow> jstr \<Rightarrow> jstr"
  bcrypt_compare :: "jstr \<Rightarrow> jstr \<Rightarrow> bool"
  jwt_sign :: "nat \<Rightarrow> token_payload \<Rightarrow> jstr"
  jwt_verify :: "nat \<Rightarrow> jstr \<Rightarrow> decoded_token option"
  toLowerCase :: "jstr \<Rightarrow> jstr"
  is_email :: "jstr \<Rightarrow> bool"
  pg_lower :: "jstr \<Rightarrow> jstr"
  mail_result :: "nat \<Rightarrow> email_message \<Rightarrow> failure option"
  mail_reaches :: "nat \<Rightarrow> email_message \<Rightarrow> bool"
  publish_result :: "nat \<Rightarrow> published_job \<Rightarrow> failure option"
  publish_reaches :: "nat \<Rightarrow> published_job \<Rightarrow> bool"
  redis_open :: "nat \<Rightarrow> bool"
  redis_answers :: "nat \<Rightarrow> bool"
  queue_enabled :: "nat \<Rightarrow> bool"
  dateonly :: "int \<Rightarrow> int"
  date_parse :: "jstr \<Rightarrow> int option"
  math_random :: "nat \<Rightarrow> rat"
  refresh_ttl_days :: int
  verification_ttl_sec :: nat
  invite_ttl_days :: nat
  reset_url :: jstr
  verify_url :: jstr
  invite_url :: jstr
  app_display_name :: jstr
  app_short_name :: jstr

definition newTick :: "(world, nat) io" where
  "newTick w = (Inr (tick w), w\<lparr>tick := Suc (tick w)\<rparr>)"

definition newDate :: "platform \<Rightarrow> (world, int) io" where
  "newDate P = bind newTick (\<lambda>t. return (clock P t))"

definition randomUUID :: "platform \<Rightarrow> (world, jstr) io" where
  "randomUUID P = bind newTick (\<lambda>t. return (random_uuid P t))"

definition randomToken :: "platform \<Rightarrow> nat \<Rightarrow> (world, jstr) io" where
  "randomToken P bytes = bind newTick (\<lambda>t. return (random_base64url P bytes t))"

lemma run_newTick [simp]: "newTick w = (Inr (tick w), w\<lparr>tick := Suc (tick w)\<rparr>)"
  by (simp add: newTick_def)

lemma run_newDate [simp]: "newDate P w = (Inr (clock P (tick w)), w\<lparr>tick := Suc (tick w)\<rparr>)"
  by (simp add: newDate_def)

lemma run_randomUUID [simp]:
  "randomUUID P w = (Inr (random_uuid P (tick w)), w\<lparr>tick := Suc (tick w)\<rparr>)"
  by (simp add: randomUUID_def)

lemma run_randomToken [simp]:
  "randomToken P n w = (Inr (random_base64url P n (tick w)), w\<lparr>tick := Suc (tick w)\<rparr>)"
  by (simp add: randomToken_def)

text \<open>
  Entities that read the clock or the random source themselves. \<open>AuthUser.touch\<close> stamps \<open>updatedAt\<close> on
  the object; the repository never writes that stamp, the ORM writes its own.
\<close>

definition AuthUser_touch :: "platform \<Rightarrow> auth_user \<Rightarrow> (world, auth_user) io" where
  "AuthUser_touch P u = bind (newDate P) (\<lambda>now. return (u\<lparr>user_updatedAt := now\<rparr>))"

definition AuthUser_setEmailVerifiedAt :: "platform \<Rightarrow> int \<Rightarrow> auth_user \<Rightarrow> (world, auth_user) io" where
  "AuthUser_setEmailVerifiedAt P date u = AuthUser_touch P (u\<lparr>user_emailVerifiedAt := Some date\<rparr>)"

definition AuthUser_changeEmail :: "platform \<Rightarrow> jstr \<Rightarrow> auth_user \<Rightarrow> (world, auth_user) io" where
  "AuthUser_changeEmail P next u =
     (let trimmed = toLowerCase P (js_trim next) in
      if trimmed = [] then throw (PlainError ''Email cannot be empty'')
      else AuthUser_touch P (u\<lparr>user_email := trimmed\<rparr>))"

definition AuthUser_changeUsername :: "platform \<Rightarrow> jstr \<Rightarrow> auth_user \<Rightarrow> (world, auth_user) io" where
  "AuthUser_changeUsername P next u =
     (let trimmed = js_trim next in
      if trimmed = [] then throw (PlainError ''Username cannot be empty'')
      else AuthUser_touch P (u\<lparr>user_username := trimmed\<rparr>))"

definition AuthUser_togglePublicProfile :: "platform \<Rightarrow> bool \<Rightarrow> auth_user \<Rightarrow> (world, auth_user) io" where
  "AuthUser_togglePublicProfile P v u = AuthUser_touch P (u\<lparr>user_isPublicProfile := v\<rparr>)"

definition AuthUser_setPasswordHash :: "platform \<Rightarrow> jstr \<Rightarrow> auth_user \<Rightarrow> (world, auth_user) io" where
  "AuthUser_setPasswordHash P hash u = AuthUser_touch P (u\<lparr>user_passwordHash := hash\<rparr>)"

text \<open>\<open>RefreshToken.issue\<close>: the clock is read first, then the id is drawn, then the family if none is given.\<close>

definition RefreshToken_issue ::
  "platform \<Rightarrow> jstr \<Rightarrow> jstr \<Rightarrow> jstr option \<Rightarrow> jstr option \<Rightarrow> jstr option \<Rightarrow> jstr option
   \<Rightarrow> (world, refresh_token) io" where
  "RefreshToken_issue P userId tokenHash familyId organizationId userAgent ip =
     bind (newDate P) (\<lambda>now.
     bind (randomUUID P) (\<lambda>id.
     bind (case familyId of Some f \<Rightarrow> return f | None \<Rightarrow> randomUUID P) (\<lambda>family.
     return \<lparr>rt_id = id, rt_userId = userId, rt_organizationId = organizationId,
       rt_familyId = family, rt_tokenHash = tokenHash, rt_issuedAt = now,
       rt_expiresAt = now + refresh_ttl_days P * 24 * 60 * 60 * 1000,
       rt_revokedAt = None, rt_replacedById = None, rt_userAgent = userAgent, rt_ip = ip\<rparr>)))"

text \<open>
  \<open>runInTransaction\<close> of \<open>SequelizeTransactionPort\<close>: a rejected callback rolls the database back. The mail
  already accepted, the jobs already taken and the ticks already spent stay as they are.
\<close>

definition runInTransaction :: "(world, 'a) io \<Rightarrow> (world, 'a) io" where
  "runInTransaction m w = (case m w of
      (Inl e, w') \<Rightarrow> (Inl e, w'\<lparr>db := db w\<rparr>)
    | (Inr x, w') \<Rightarrow> (Inr x, w'))"

lemma runInTransaction_Inl:
  "runInTransaction m w = (Inl e, w') \<Longrightarrow> db w' = db w"
  by (auto simp: runInTransaction_def split: prod.splits sum.splits)

lemma runInTransaction_Inr:
  "runInTransaction m w = (Inr x, w') \<longleftrightarrow> m w = (Inr x, w')"
  by (auto simp: runInTransaction_def split: prod.splits sum.splits)

lemmas evaluate_AuthDomain [evaluate] =
  Membership_changeRole_def Membership_isActive_def Membership_isOwner_def Membership_isAdmin_def
  OrganizationInvite_isExpired_def OrganizationInvite_isAccepted_def Token_isUsed_def
  Token_isExpired_def EmailVerificationToken_isUsable_def RefreshToken_isRevoked_def
  RefreshToken_isExpired_def RefreshToken_markRevoked_def RefreshToken_replaceWith_def
  empty_database_def empty_world_def newTick_def newDate_def randomUUID_def randomToken_def
  AuthUser_touch_def AuthUser_setEmailVerifiedAt_def AuthUser_changeEmail_def
  AuthUser_changeUsername_def AuthUser_togglePublicProfile_def AuthUser_setPasswordHash_def
  RefreshToken_issue_def runInTransaction_def

end
