(* ===== verification/AuthStore.thy ===== *)
theory AuthStore imports AuthDomain "HOL-Library.List_Lexorder" begin

text \<open>
  The repositories of \<open>src/features/shared/auth/infrastructure/persistence\<close> over the tables of
  \<open>AuthDomain\<close>: their \<open>where\<close> clauses, orders and limits, the unique indexes and column widths of the
  migrations, the hooks of the user model, and the ORM's soft deletes (a paranoid model's reads do not
  see rows whose \<open>deletedAt\<close> is set, its unique indexes do). Foreign keys are not modelled: every insert
  names an owner the same operation read or inserted, and no operation deletes a user or an organization.
\<close>

definition getsDb :: "(database \<Rightarrow> 'a) \<Rightarrow> (world, 'a) io" where
  "getsDb f = gets (\<lambda>w. f (db w))"

definition modifyDb :: "(database \<Rightarrow> database) \<Rightarrow> (world, unit) io" where
  "modifyDb f = modify (\<lambda>w. w\<lparr>db := f (db w)\<rparr>)"

lemma run_getsDb [simp]: "getsDb f w = (Inr (f (db w)), w)"
  by (simp add: getsDb_def)

lemma run_modifyDb [simp]: "modifyDb f w = (Inr (), w\<lparr>db := f (db w)\<rparr>)"
  by (simp add: modifyDb_def)

text \<open>A \<open>VARCHAR(n)\<close> column refuses a longer value before any index is consulted.\<close>

definition fits :: "nat \<Rightarrow> jstr \<Rightarrow> bool" where
  "fits n s \<longleftrightarrow> char_length s \<le> n"

definition fits_opt :: "nat \<Rightarrow> jstr option \<Rightarrow> bool" where
  "fits_opt n s \<longleftrightarrow> (case s of None \<Rightarrow> True | Some t \<Rightarrow> fits n t)"

section \<open>Users\<close>

definition live_user :: "auth_user \<Rightarrow> bool" where
  "live_user u \<longleftrightarrow> user_deletedAt u = None"

definition User_existsByEmail :: "jstr \<Rightarrow> (world, bool) io" where
  "User_existsByEmail email =
     getsDb (\<lambda>d. count_where (\<lambda>u. user_email u = email \<and> live_user u) (users d) > 0)"

definition User_existsByUsername :: "jstr \<Rightarrow> (world, bool) io" where
  "User_existsByUsername username =
     getsDb (\<lambda>d. count_where (\<lambda>u. user_username u = username \<and> live_user u) (users d) > 0)"

definition User_findById :: "jstr \<Rightarrow> (world, auth_user option) io" where
  "User_findById id' = getsDb (\<lambda>d. List.find (\<lambda>u. user_id u = id' \<and> live_user u) (users d))"

definition User_findByIds :: "jstr list \<Rightarrow> (world, auth_user list) io" where
  "User_findByIds ids =
     (if ids = [] then return []
      else getsDb (\<lambda>d. filter (\<lambda>u. user_id u \<in> set ids \<and> live_user u) (users d)))"

definition User_findByEmail :: "jstr \<Rightarrow> (world, auth_user option) io" where
  "User_findByEmail email = getsDb (\<lambda>d. List.find (\<lambda>u. user_email u = email \<and> live_user u) (users d))"

text \<open>The \<open>beforeCreate\<close> and \<open>beforeUpdate\<close> hooks of \<open>user.sequelize.ts\<close>.\<close>

definition User_beforeCreate :: "platform \<Rightarrow> jstr \<Rightarrow> (world, jstr) io" where
  "User_beforeCreate P password =
     (if password = [] then throw (PlainError ''Password is required for registration.'')
      else if isBcryptHash password then return password
      else bind newTick (\<lambda>t. return (bcrypt_hash P t password)))"

definition User_beforeUpdate :: "platform \<Rightarrow> jstr \<Rightarrow> jstr \<Rightarrow> (world, jstr) io" where
  "User_beforeUpdate P stored password =
     (if password = stored then return password
      else if password = [] then throw (PlainError ''Password is required for update.'')
      else if isBcryptHash password then return password
      else bind newTick (\<lambda>t. return (bcrypt_hash P t password)))"

text \<open>The constraints of the users table, on a row about to be written; the others are the rows kept.\<close>

definition users_check :: "auth_user \<Rightarrow> auth_user list \<Rightarrow> failure option" where
  "users_check u others =
     (if \<not> fits 255 (user_email u) then Some (DatabaseError ''users.email'')
      else if \<not> fits 255 (user_username u) then Some (DatabaseError ''users.username'')
      else if \<not> fits 255 (user_passwordHash u) then Some (DatabaseError ''users.password'')
      else if \<exists>o' \<in> set others. user_username o' = user_username u
        then Some (UniqueConstraintError ''users_username_key'')
      else if \<exists>o' \<in> set others. user_email o' = user_email u
        then Some (UniqueConstraintError ''users_email_key'')
      else None)"

definition checked :: "failure option \<Rightarrow> (world, 'a) io \<Rightarrow> (world, 'a) io" where
  "checked v m = (case v of Some e \<Rightarrow> throw e | None \<Rightarrow> m)"

definition User_create ::
  "platform \<Rightarrow> jstr \<Rightarrow> jstr \<Rightarrow> jstr \<Rightarrow> bool \<Rightarrow> (world, auth_user) io" where
  "User_create P email username password isPublicProfile =
     bind (randomUUID P) (\<lambda>id'.
     bind (newDate P) (\<lambda>now.
     if \<not> is_email P email then throw (OrmValidationError ''email'')
     else bind (User_beforeCreate P password) (\<lambda>hashed.
     let u = \<lparr>user_id = id', user_email = email, user_username = username,
               user_passwordHash = hashed, user_isPublicProfile = isPublicProfile,
               user_emailVerifiedAt = None, user_createdAt = now, user_updatedAt = now,
               user_deletedAt = None\<rparr> in
     bind (getsDb users) (\<lambda>rows.
     checked (users_check u rows)
       (andThen (modifyDb (\<lambda>d. d\<lparr>users := users d @ [u]\<rparr>)) (return u))))))"

text \<open>
  \<open>save\<close> writes the five attributes it names and reloads. The ORM writes only what changed: it checks
  the email only when that changed, runs the hook only when the password did, and stamps \<open>updatedAt\<close>
  only when something did.
\<close>

definition User_update :: "platform \<Rightarrow> auth_user \<Rightarrow> auth_user \<Rightarrow> (world, auth_user) io" where
  "User_update P row next =
     (if next = row then return row
      else bind (newDate P) (\<lambda>now.
        if user_email next \<noteq> user_email row \<and> \<not> is_email P (user_email next)
        then throw (OrmValidationError ''email'')
        else bind (User_beforeUpdate P (user_passwordHash row) (user_passwordHash next)) (\<lambda>hashed.
        let stored = next\<lparr>user_passwordHash := hashed, user_updatedAt := now\<rparr> in
        bind (getsDb users) (\<lambda>rows.
        checked (users_check stored (filter (\<lambda>u. user_id u \<noteq> user_id stored) rows))
          (andThen
            (modifyDb (\<lambda>d. d\<lparr>users := update_where (\<lambda>u. user_id u = user_id stored) (\<lambda>_. stored) (users d)\<rparr>))
            (return stored))))))"

definition User_save :: "platform \<Rightarrow> auth_user \<Rightarrow> (world, auth_user) io" where
  "User_save P user =
     bind (User_findById (user_id user)) (\<lambda>found.
     case found of None \<Rightarrow> throw (PlainError ''User not found'')
     | Some row \<Rightarrow>
       User_update P row
         (row\<lparr>user_email := user_email user, user_username := user_username user,
              user_passwordHash := user_passwordHash user,
              user_isPublicProfile := user_isPublicProfile user,
              user_emailVerifiedAt := user_emailVerifiedAt user\<rparr>))"

section \<open>Organizations\<close>

definition live_organization :: "organization \<Rightarrow> bool" where
  "live_organization o' \<longleftrightarrow> org_deletedAt o' = None"

definition Organization_findById :: "jstr \<Rightarrow> (world, organization option) io" where
  "Organization_findById id' =
     getsDb (\<lambda>d. List.find (\<lambda>o'. org_id o' = id' \<and> live_organization o') (organizations d))"

definition Organization_findByIds :: "jstr list \<Rightarrow> (world, organization list) io" where
  "Organization_findByIds ids =
     (if ids = [] then return []
      else getsDb (\<lambda>d. filter (\<lambda>o'. org_id o' \<in> set ids \<and> live_organization o') (organizations d)))"

definition Organization_findBySlug :: "jstr \<Rightarrow> (world, organization option) io" where
  "Organization_findBySlug slug =
     getsDb (\<lambda>d. List.find (\<lambda>o'. org_slug o' = slug \<and> live_organization o') (organizations d))"

definition Organization_existsBySlug :: "jstr \<Rightarrow> (world, bool) io" where
  "Organization_existsBySlug slug =
     getsDb (\<lambda>d. count_where (\<lambda>o'. org_slug o' = slug \<and> live_organization o') (organizations d) > 0)"

definition organizations_check :: "organization \<Rightarrow> organization list \<Rightarrow> failure option" where
  "organizations_check new others =
     (if \<not> fits 100 (org_name new) then Some (DatabaseError ''organizations.name'')
      else if \<not> fits 100 (org_slug new) then Some (DatabaseError ''organizations.slug'')
      else if \<exists>o' \<in> set others. org_slug o' = org_slug new
        then Some (UniqueConstraintError ''organizations_slug_key'')
      else None)"

definition Organization_create :: "platform \<Rightarrow> jstr \<Rightarrow> jstr \<Rightarrow> (world, organization) io" where
  "Organization_create P name slug =
     bind (randomUUID P) (\<lambda>id'.
     bind (newDate P) (\<lambda>now.
     let new = \<lparr>org_id = id', org_name = name, org_slug = slug, org_createdAt = now,
                 org_updatedAt = now, org_deletedAt = None\<rparr> in
     bind (getsDb organizations) (\<lambda>rows.
     checked (organizations_check new rows)
       (andThen (modifyDb (\<lambda>d. d\<lparr>organizations := organizations d @ [new]\<rparr>)) (return new)))))"

section \<open>Memberships\<close>

text \<open>
  A membership's place in the order \<open>joinedAt ASC, id ASC\<close>: \<open>MembershipPosition\<close>. Postgres compares
  UUIDs bytewise, which is the order of their lower-case text.
\<close>

datatype membership_position = MembershipPosition (pos_joinedAt: int) (pos_id: jstr)

instantiation membership_position :: linorder
begin

definition less_membership_position :: "membership_position \<Rightarrow> membership_position \<Rightarrow> bool" where
  "less_membership_position p q \<longleftrightarrow>
     pos_joinedAt p < pos_joinedAt q \<or> pos_joinedAt p = pos_joinedAt q \<and> pos_id p < pos_id q"

definition less_eq_membership_position :: "membership_position \<Rightarrow> membership_position \<Rightarrow> bool" where
  "less_eq_membership_position p q \<longleftrightarrow> p < q \<or> p = q"

instance
proof
  fix p q r :: membership_position
  show "(p < q) = (p \<le> q \<and> \<not> q \<le> p)"
    by (auto simp: less_eq_membership_position_def less_membership_position_def)
  show "p \<le> p" by (simp add: less_eq_membership_position_def)
  show "p \<le> q \<Longrightarrow> q \<le> r \<Longrightarrow> p \<le> r"
    by (auto simp: less_eq_membership_position_def less_membership_position_def)
  show "p \<le> q \<Longrightarrow> q \<le> p \<Longrightarrow> p = q"
    by (auto simp: less_eq_membership_position_def less_membership_position_def)
  show "p \<le> q \<or> q \<le> p"
    by (cases p; cases q) (auto simp: less_eq_membership_position_def less_membership_position_def)
qed

end

definition position :: "membership \<Rightarrow> membership_position" where
  "position m = MembershipPosition (m_joinedAt m) (m_id m)"

definition Membership_findById :: "jstr \<Rightarrow> (world, membership option) io" where
  "Membership_findById id' = getsDb (\<lambda>d. List.find (\<lambda>m. m_id m = id') (memberships d))"

definition active_in :: "jstr \<Rightarrow> jstr \<Rightarrow> membership \<Rightarrow> bool" where
  "active_in userId organizationId m \<longleftrightarrow>
     m_userId m = userId \<and> m_organizationId m = organizationId \<and> m_status m = Active"

definition Membership_findByUserAndOrg :: "jstr \<Rightarrow> jstr \<Rightarrow> (world, membership option) io" where
  "Membership_findByUserAndOrg userId organizationId =
     getsDb (\<lambda>d. List.find (active_in userId organizationId) (memberships d))"

definition first_row :: "'a list \<Rightarrow> 'a option" where
  "first_row rows = (case rows of [] \<Rightarrow> None | r # _ \<Rightarrow> Some r)"

definition Membership_findDefaultByUser :: "jstr \<Rightarrow> (world, membership option) io" where
  "Membership_findDefaultByUser userId =
     getsDb (\<lambda>d. first_row (sort_key position
       (filter (\<lambda>m. m_userId m = userId \<and> m_status m = Active) (memberships d))))"

definition Membership_findAllByUser :: "jstr \<Rightarrow> (world, membership list) io" where
  "Membership_findAllByUser userId =
     getsDb (\<lambda>d. sort_key position (filter (\<lambda>m. m_userId m = userId) (memberships d)))"

definition Membership_findAllByOrganization :: "jstr \<Rightarrow> (world, membership list) io" where
  "Membership_findAllByOrganization organizationId =
     getsDb (\<lambda>d. sort_key position (filter (\<lambda>m. m_organizationId m = organizationId) (memberships d)))"

definition Membership_countByOrgAndRole :: "jstr \<Rightarrow> membership_role \<Rightarrow> (world, nat) io" where
  "Membership_countByOrgAndRole organizationId role =
     getsDb (\<lambda>d. count_where
       (\<lambda>m. m_organizationId m = organizationId \<and> m_role m = role \<and> m_status m = Active) (memberships d))"

definition Membership_create ::
  "platform \<Rightarrow> jstr \<Rightarrow> jstr \<Rightarrow> membership_role \<Rightarrow> membership_status option \<Rightarrow> (world, membership) io" where
  "Membership_create P userId organizationId role status =
     bind (newDate P) (\<lambda>now.
     bind (randomUUID P) (\<lambda>id'.
     let m = \<lparr>m_id = id', m_userId = userId, m_organizationId = organizationId, m_role = role,
               m_status = (case status of Some s \<Rightarrow> s | None \<Rightarrow> Active), m_joinedAt = now\<rparr> in
     bind (getsDb memberships) (\<lambda>rows.
     if \<exists>r \<in> set rows. m_userId r = userId \<and> m_organizationId r = organizationId
     then throw (UniqueConstraintError ''uq_memberships_user_organization'')
     else andThen (modifyDb (\<lambda>d. d\<lparr>memberships := memberships d @ [m]\<rparr>)) (return m))))"

definition Membership_save :: "membership \<Rightarrow> (world, membership) io" where
  "Membership_save m =
     bind (Membership_findById (m_id m)) (\<lambda>found.
     case found of None \<Rightarrow> throw (PlainError ''Membership not found'')
     | Some row \<Rightarrow> andThen
         (modifyDb (\<lambda>d. d\<lparr>memberships :=
            update_where (\<lambda>r. m_id r = m_id m) (\<lambda>r. r\<lparr>m_role := m_role m\<rparr>) (memberships d)\<rparr>))
         (return (row\<lparr>m_role := m_role m\<rparr>)))"

definition Membership_delete :: "jstr \<Rightarrow> (world, unit) io" where
  "Membership_delete id' =
     bind (Membership_findById id') (\<lambda>found.
     case found of None \<Rightarrow> throw (PlainError ''Membership not found'')
     | Some row \<Rightarrow>
         modifyDb (\<lambda>d. d\<lparr>memberships := delete_where (\<lambda>r. m_id r = id') (memberships d)\<rparr>))"

section \<open>Refresh tokens\<close>

definition refresh_tokens_check :: "refresh_token \<Rightarrow> refresh_token list \<Rightarrow> failure option" where
  "refresh_tokens_check t rows =
     (if \<not> fits 64 (rt_tokenHash t) then Some (DatabaseError ''refresh_tokens.token_hash'')
      else if \<not> fits_opt 512 (rt_userAgent t) then Some (DatabaseError ''refresh_tokens.user_agent'')
      else if \<not> fits_opt 45 (rt_ip t) then Some (DatabaseError ''refresh_tokens.ip'')
      else if \<exists>r \<in> set rows. rt_id r \<noteq> rt_id t \<and> rt_tokenHash r = rt_tokenHash t
        then Some (UniqueConstraintError ''refresh_tokens_token_hash_key'')
      else None)"

definition RefreshToken_save :: "refresh_token \<Rightarrow> (world, unit) io" where
  "RefreshToken_save t =
     bind (getsDb refresh_tokens) (\<lambda>rows.
     checked (refresh_tokens_check t rows)
       (modifyDb (\<lambda>d. d\<lparr>refresh_tokens := upsert_on rt_id t (refresh_tokens d)\<rparr>)))"

definition RefreshToken_findByTokenHash :: "jstr \<Rightarrow> (world, refresh_token option) io" where
  "RefreshToken_findByTokenHash hash =
     getsDb (\<lambda>d. List.find (\<lambda>t. rt_tokenHash t = hash) (refresh_tokens d))"

definition revoke_family_rows :: "jstr \<Rightarrow> int \<Rightarrow> refresh_token list \<Rightarrow> refresh_token list" where
  "revoke_family_rows familyId now rows =
     update_where (\<lambda>t. rt_familyId t = familyId \<and> rt_revokedAt t = None)
       (\<lambda>t. t\<lparr>rt_revokedAt := Some now\<rparr>) rows"

definition RefreshToken_revokeFamily :: "platform \<Rightarrow> jstr \<Rightarrow> (world, unit) io" where
  "RefreshToken_revokeFamily P familyId =
     bind (newDate P) (\<lambda>now.
     modifyDb (\<lambda>d. d\<lparr>refresh_tokens := revoke_family_rows familyId now (refresh_tokens d)\<rparr>))"

definition RefreshToken_findActiveByUser :: "platform \<Rightarrow> jstr \<Rightarrow> (world, refresh_token list) io" where
  "RefreshToken_findActiveByUser P userId =
     bind (newDate P) (\<lambda>now.
     getsDb (\<lambda>d. filter (\<lambda>t. rt_userId t = userId \<and> rt_revokedAt t = None \<and> now < rt_expiresAt t)
       (refresh_tokens d)))"

section \<open>One-time tokens\<close>

text \<open>
  The two token repositories differ only in their table; the reset repository's \<open>create\<close> and
  \<open>invalidateAllForUser\<close> are the verification repository's \<open>save\<close> and \<open>revokeAllForUser\<close>.
\<close>

definition use_all_rows :: "jstr \<Rightarrow> int \<Rightarrow> one_time_token list \<Rightarrow> one_time_token list" where
  "use_all_rows userId now rows =
     update_where (\<lambda>t. ott_userId t = userId \<and> ott_usedAt t = None) (\<lambda>t. t\<lparr>ott_usedAt := Some now\<rparr>) rows"

definition use_row :: "jstr \<Rightarrow> int \<Rightarrow> one_time_token list \<Rightarrow> one_time_token list" where
  "use_row id' now rows = update_where (\<lambda>t. ott_id t = id') (\<lambda>t. t\<lparr>ott_usedAt := Some now\<rparr>) rows"

definition new_one_time_token ::
  "platform \<Rightarrow> jstr \<Rightarrow> jstr \<Rightarrow> int \<Rightarrow> (world, one_time_token) io" where
  "new_one_time_token P userId tokenHash expiresAt =
     bind (randomUUID P) (\<lambda>id'.
     bind (newDate P) (\<lambda>now.
     return \<lparr>ott_id = id', ott_userId = userId, ott_tokenHash = tokenHash, ott_expiresAt = expiresAt,
              ott_usedAt = None, ott_createdAt = now\<rparr>))"

definition PasswordResetToken_findByTokenHash :: "jstr \<Rightarrow> (world, one_time_token option) io" where
  "PasswordResetToken_findByTokenHash hash =
     getsDb (\<lambda>d. List.find (\<lambda>t. ott_tokenHash t = hash) (password_reset_tokens d))"

definition PasswordResetToken_create ::
  "platform \<Rightarrow> jstr \<Rightarrow> jstr \<Rightarrow> int \<Rightarrow> (world, one_time_token) io" where
  "PasswordResetToken_create P userId tokenHash expiresAt =
     bind (new_one_time_token P userId tokenHash expiresAt) (\<lambda>t.
     bind (getsDb password_reset_tokens) (\<lambda>rows.
     if \<not> fits 64 tokenHash then throw (DatabaseError ''password_reset_tokens.token_hash'')
     else if \<exists>r \<in> set rows. ott_tokenHash r = tokenHash
     then throw (UniqueConstraintError ''password_reset_tokens_token_hash_key'')
     else andThen (modifyDb (\<lambda>d. d\<lparr>password_reset_tokens := password_reset_tokens d @ [t]\<rparr>)) (return t)))"

definition PasswordResetToken_markUsed :: "jstr \<Rightarrow> int \<Rightarrow> (world, unit) io" where
  "PasswordResetToken_markUsed id' usedAt =
     modifyDb (\<lambda>d. d\<lparr>password_reset_tokens := use_row id' usedAt (password_reset_tokens d)\<rparr>)"

definition PasswordResetToken_invalidateAllForUser :: "jstr \<Rightarrow> int \<Rightarrow> (world, unit) io" where
  "PasswordResetToken_invalidateAllForUser userId now =
     modifyDb (\<lambda>d. d\<lparr>password_reset_tokens := use_all_rows userId now (password_reset_tokens d)\<rparr>)"

definition EmailVerificationToken_findByTokenHash :: "jstr \<Rightarrow> (world, one_time_token option) io" where
  "EmailVerificationToken_findByTokenHash hash =
     getsDb (\<lambda>d. List.find (\<lambda>t. ott_tokenHash t = hash) (email_verification_tokens d))"

definition EmailVerificationToken_save ::
  "platform \<Rightarrow> jstr \<Rightarrow> jstr \<Rightarrow> int \<Rightarrow> (world, one_time_token) io" where
  "EmailVerificationToken_save P userId tokenHash expiresAt =
     bind (new_one_time_token P userId tokenHash expiresAt) (\<lambda>t.
     bind (getsDb email_verification_tokens) (\<lambda>rows.
     if \<not> fits 64 tokenHash then throw (DatabaseError ''email_verification_tokens.token_hash'')
     else if \<exists>r \<in> set rows. ott_tokenHash r = tokenHash
     then throw (UniqueConstraintError ''email_verification_tokens_token_hash_key'')
     else andThen (modifyDb (\<lambda>d. d\<lparr>email_verification_tokens := email_verification_tokens d @ [t]\<rparr>))
            (return t)))"

definition EmailVerificationToken_markUsed :: "jstr \<Rightarrow> int \<Rightarrow> (world, unit) io" where
  "EmailVerificationToken_markUsed id' usedAt =
     modifyDb (\<lambda>d. d\<lparr>email_verification_tokens := use_row id' usedAt (email_verification_tokens d)\<rparr>)"

definition EmailVerificationToken_revokeAllForUser :: "jstr \<Rightarrow> int \<Rightarrow> (world, unit) io" where
  "EmailVerificationToken_revokeAllForUser userId now =
     modifyDb (\<lambda>d. d\<lparr>email_verification_tokens := use_all_rows userId now (email_verification_tokens d)\<rparr>)"

section \<open>Invites\<close>

definition pending_in :: "platform \<Rightarrow> jstr \<Rightarrow> jstr \<Rightarrow> organization_invite \<Rightarrow> bool" where
  "pending_in P organizationId lowered i \<longleftrightarrow>
     inv_organizationId i = organizationId \<and> pg_lower P (inv_email i) = lowered \<and> inv_acceptedAt i = None"

definition PENDING_INVITE_EXISTS_MESSAGE :: string where
  "PENDING_INVITE_EXISTS_MESSAGE = ''An invitation is already pending for this email''"

text \<open>
  The partial unique index \<open>uq_organization_invites_pending_email\<close> refuses a second unaccepted invite,
  which \<open>save\<close> reports as the 409 of the use case; the index on the token hash is reported as it is.
\<close>

definition OrganizationInvite_save ::
  "platform \<Rightarrow> jstr \<Rightarrow> jstr \<Rightarrow> invite_role \<Rightarrow> jstr \<Rightarrow> int \<Rightarrow> (world, organization_invite) io" where
  "OrganizationInvite_save P organizationId email role tokenHash expiresAt =
     bind (randomUUID P) (\<lambda>id'.
     bind (newDate P) (\<lambda>now.
     let new = \<lparr>inv_id = id', inv_organizationId = organizationId, inv_email = email, inv_role = role,
                 inv_tokenHash = tokenHash, inv_expiresAt = expiresAt, inv_acceptedAt = None,
                 inv_createdAt = now\<rparr> in
     bind (getsDb organization_invites) (\<lambda>rows.
     if \<not> fits 255 email then throw (DatabaseError ''organization_invites.email'')
     else if \<not> fits 64 tokenHash then throw (DatabaseError ''organization_invites.token_hash'')
     else if \<exists>r \<in> set rows. inv_tokenHash r = tokenHash
     then throw (UniqueConstraintError ''organization_invites_token_hash_key'')
     else if \<exists>r \<in> set rows. pending_in P organizationId (pg_lower P email) r
     then throw (AppError PENDING_INVITE_EXISTS_MESSAGE 409)
     else andThen (modifyDb (\<lambda>d. d\<lparr>organization_invites := organization_invites d @ [new]\<rparr>))
            (return new))))"

definition OrganizationInvite_findById :: "jstr \<Rightarrow> (world, organization_invite option) io" where
  "OrganizationInvite_findById id' =
     getsDb (\<lambda>d. List.find (\<lambda>i. inv_id i = id') (organization_invites d))"

definition OrganizationInvite_findByTokenHash :: "jstr \<Rightarrow> (world, organization_invite option) io" where
  "OrganizationInvite_findByTokenHash hash =
     getsDb (\<lambda>d. List.find (\<lambda>i. inv_tokenHash i = hash) (organization_invites d))"

definition OrganizationInvite_findPendingByEmailAndOrg ::
  "platform \<Rightarrow> jstr \<Rightarrow> jstr \<Rightarrow> (world, organization_invite option) io" where
  "OrganizationInvite_findPendingByEmailAndOrg P email organizationId =
     bind (newDate P) (\<lambda>now.
     getsDb (\<lambda>d. List.find
       (\<lambda>i. inv_email i = email \<and> inv_organizationId i = organizationId
            \<and> inv_acceptedAt i = None \<and> now < inv_expiresAt i) (organization_invites d)))"

definition OrganizationInvite_deleteExpired ::
  "platform \<Rightarrow> jstr \<Rightarrow> jstr \<Rightarrow> int \<Rightarrow> (world, unit) io" where
  "OrganizationInvite_deleteExpired P email organizationId now =
     modifyDb (\<lambda>d. d\<lparr>organization_invites :=
       delete_where (\<lambda>i. pending_in P organizationId (toLowerCase P email) i \<and> inv_expiresAt i \<le> now)
         (organization_invites d)\<rparr>)"

definition OrganizationInvite_replaceTokenHash :: "jstr \<Rightarrow> jstr \<Rightarrow> (world, unit) io" where
  "OrganizationInvite_replaceTokenHash id' tokenHash =
     bind (getsDb organization_invites) (\<lambda>rows.
     if (\<exists>r \<in> set rows. inv_id r = id') \<and> \<not> fits 64 tokenHash
     then throw (DatabaseError ''organization_invites.token_hash'')
     else if (\<exists>r \<in> set rows. inv_id r = id') \<and> (\<exists>r \<in> set rows. inv_id r \<noteq> id' \<and> inv_tokenHash r = tokenHash)
     then throw (UniqueConstraintError ''organization_invites_token_hash_key'')
     else modifyDb (\<lambda>d. d\<lparr>organization_invites :=
       update_where (\<lambda>i. inv_id i = id') (\<lambda>i. i\<lparr>inv_tokenHash := tokenHash\<rparr>) (organization_invites d)\<rparr>))"

definition OrganizationInvite_deleteById :: "jstr \<Rightarrow> (world, unit) io" where
  "OrganizationInvite_deleteById id' =
     modifyDb (\<lambda>d. d\<lparr>organization_invites := delete_where (\<lambda>i. inv_id i = id') (organization_invites d)\<rparr>)"

definition OrganizationInvite_markAccepted :: "jstr \<Rightarrow> int \<Rightarrow> (world, unit) io" where
  "OrganizationInvite_markAccepted id' now =
     modifyDb (\<lambda>d. d\<lparr>organization_invites :=
       update_where (\<lambda>i. inv_id i = id') (\<lambda>i. i\<lparr>inv_acceptedAt := Some now\<rparr>) (organization_invites d)\<rparr>)"

lemmas evaluate_AuthStore [evaluate] =
  getsDb_def modifyDb_def fits_def fits_opt_def live_user_def User_existsByEmail_def
  User_existsByUsername_def User_findById_def User_findByIds_def User_findByEmail_def
  User_beforeCreate_def User_beforeUpdate_def users_check_def checked_def User_create_def
  User_update_def User_save_def live_organization_def Organization_findById_def
  Organization_findByIds_def Organization_findBySlug_def Organization_existsBySlug_def
  organizations_check_def Organization_create_def less_membership_position_def
  less_eq_membership_position_def position_def Membership_findById_def active_in_def
  Membership_findByUserAndOrg_def first_row_def Membership_findDefaultByUser_def
  Membership_findAllByUser_def Membership_findAllByOrganization_def
  Membership_countByOrgAndRole_def Membership_create_def Membership_save_def
  Membership_delete_def refresh_tokens_check_def RefreshToken_save_def
  RefreshToken_findByTokenHash_def revoke_family_rows_def RefreshToken_revokeFamily_def
  RefreshToken_findActiveByUser_def use_all_rows_def use_row_def new_one_time_token_def
  PasswordResetToken_findByTokenHash_def PasswordResetToken_create_def
  PasswordResetToken_markUsed_def PasswordResetToken_invalidateAllForUser_def
  EmailVerificationToken_findByTokenHash_def EmailVerificationToken_save_def
  EmailVerificationToken_markUsed_def EmailVerificationToken_revokeAllForUser_def pending_in_def
  PENDING_INVITE_EXISTS_MESSAGE_def OrganizationInvite_save_def OrganizationInvite_findById_def
  OrganizationInvite_findByTokenHash_def OrganizationInvite_findPendingByEmailAndOrg_def
  OrganizationInvite_deleteExpired_def OrganizationInvite_replaceTokenHash_def
  OrganizationInvite_deleteById_def OrganizationInvite_markAccepted_def

end
