(* ===== verification/Samples.thy ===== *)
theory Samples imports AuthStore begin

text \<open>
  One concrete platform and one concrete database, on which the properties of the components are
  evaluated: a user with a password, her organization, and a session. The platform's hash is the
  identity, its UUID at a tick is the tick, its clock the tick in milliseconds.
\<close>

definition sample_platform :: platform where
  "sample_platform = \<lparr>
     clock = (\<lambda>t. int t),
     random_uuid = (\<lambda>t. [t]),
     random_base64url = (\<lambda>n t. [65 + t]),
     sha256_hex = (\<lambda>s. s),
     bcrypt_hash = (\<lambda>t p. lit ''$2b$10$'' @ p),
     bcrypt_compare = (\<lambda>p h. h = lit ''$2b$10$'' @ p),
     jwt_sign = (\<lambda>t p. payload_id p @ payload_organizationId p),
     jwt_verify = (\<lambda>t s. Some \<lparr>decoded_id = Some s, decoded_email = Some s,
        decoded_organizationId = None, decoded_iat = None, decoded_exp = None\<rparr>),
     toLowerCase = (\<lambda>s. s),
     is_email = (\<lambda>s. True),
     pg_lower = (\<lambda>s. s),
     mail_result = (\<lambda>t m. None),
     mail_reaches = (\<lambda>t m. False),
     publish_result = (\<lambda>t j. None),
     publish_reaches = (\<lambda>t j. True),
     redis_open = (\<lambda>t. True),
     redis_answers = (\<lambda>t. True),
     queue_enabled = (\<lambda>t. False),
     dateonly = (\<lambda>t. t - t mod 86400000),
     date_parse = (\<lambda>s. if s = [] then None else Some 0),
     math_random = (\<lambda>t. 0),
     refresh_ttl_days = 30,
     verification_ttl_sec = 86400,
     invite_ttl_days = 7,
     reset_url = lit ''r'',
     verify_url = lit ''v'',
     invite_url = lit ''i'',
     app_display_name = lit ''A'',
     app_short_name = lit ''a''\<rparr>"

lemma sample_uuid_inj: "inj (random_uuid sample_platform)"
  by (simp add: sample_platform_def inj_def)

lemma sample_bcrypt: "isBcryptHash (bcrypt_hash sample_platform t p)"
  by (simp add: sample_platform_def isBcryptHash_def lit_def is_digit_def)

definition sample_user :: auth_user where
  "sample_user = \<lparr>user_id = lit ''u'', user_email = lit ''a'', user_username = lit ''n'',
     user_passwordHash = lit ''$2b$10$p'', user_isPublicProfile = True, user_emailVerifiedAt = None,
     user_createdAt = 0, user_updatedAt = 0, user_deletedAt = None\<rparr>"

definition sample_organization :: organization where
  "sample_organization = \<lparr>org_id = lit ''o'', org_name = lit ''n'', org_slug = lit ''n'', org_createdAt = 0,
     org_updatedAt = 0, org_deletedAt = None\<rparr>"

definition sample_membership :: membership where
  "sample_membership = \<lparr>m_id = lit ''m'', m_userId = lit ''u'', m_organizationId = lit ''o'', m_role = Owner,
     m_status = Active, m_joinedAt = 0\<rparr>"

text \<open>A session opened before tick 10: its id and family are the UUIDs of ticks 1 and 2.\<close>

definition sample_token :: refresh_token where
  "sample_token = \<lparr>rt_id = [1], rt_userId = lit ''u'', rt_organizationId = Some (lit ''o''),
     rt_familyId = [2], rt_tokenHash = lit ''t'', rt_issuedAt = 0, rt_expiresAt = 1000,
     rt_revokedAt = None, rt_replacedById = None, rt_userAgent = None, rt_ip = None\<rparr>"

definition sample_world :: world where
  "sample_world = \<lparr>db = empty_database\<lparr>users := [sample_user], organizations := [sample_organization],
     memberships := [sample_membership], refresh_tokens := [sample_token]\<rparr>,
     tick = 10, outbox = [], jobs = [], lockouts = (\<lambda>_. None)\<rparr>"

text \<open>What a run that does not fail returns, to name it in an instance.\<close>

definition returned :: "('w, 'a) io \<Rightarrow> 'w \<Rightarrow> 'a" where
  "returned m w = projr (fst (m w))"

definition final :: "('w, 'a) io \<Rightarrow> 'w \<Rightarrow> 'w" where
  "final m w = snd (m w)"

definition succeeds :: "('w, 'a) io \<Rightarrow> 'w \<Rightarrow> bool" where
  "succeeds m w \<longleftrightarrow> \<not> isl (fst (m w))"

lemma returned_run: "succeeds m w \<Longrightarrow> m w = (Inr (returned m w), final m w)"
  by (cases "m w"; cases "fst (m w)") (auto simp: succeeds_def returned_def final_def)

lemma unit_run: "succeeds m w \<Longrightarrow> m w = (Inr (), final m w)"
  by (cases "m w"; cases "fst (m w)") (auto simp: succeeds_def final_def)

lemmas evaluate_Samples [evaluate] =
  sample_platform_def sample_user_def sample_organization_def sample_membership_def
  sample_token_def sample_world_def returned_def final_def succeeds_def

end
