(* ===== verification/Frames.thy ===== *)
theory Frames imports Samples begin

text \<open>
  What each repository call leaves alone. A predicate of the state ignores a table when writing that
  table cannot falsify it; a call keeps every predicate that ignores what it writes. An operation's
  preservation proof is then the rules of this theory, and a proof of its own only for the calls that
  write what the predicate is about.
\<close>

definition ignores_tick :: "(world \<Rightarrow> bool) \<Rightarrow> bool" where
  "ignores_tick Q \<longleftrightarrow> (\<forall>w. Q w \<longrightarrow> Q (w\<lparr>tick := Suc (tick w)\<rparr>))"

definition ignores_outbox :: "(world \<Rightarrow> bool) \<Rightarrow> bool" where
  "ignores_outbox Q \<longleftrightarrow> (\<forall>w x. Q w \<longrightarrow> Q (w\<lparr>outbox := x\<rparr>))"

definition ignores_jobs :: "(world \<Rightarrow> bool) \<Rightarrow> bool" where
  "ignores_jobs Q \<longleftrightarrow> (\<forall>w x. Q w \<longrightarrow> Q (w\<lparr>jobs := x\<rparr>))"

definition ignores_lockouts :: "(world \<Rightarrow> bool) \<Rightarrow> bool" where
  "ignores_lockouts Q \<longleftrightarrow> (\<forall>w x. Q w \<longrightarrow> Q (w\<lparr>lockouts := x\<rparr>))"

definition ignores_users :: "(world \<Rightarrow> bool) \<Rightarrow> bool" where
  "ignores_users Q \<longleftrightarrow> (\<forall>w x. Q w \<longrightarrow> Q (w\<lparr>db := (db w)\<lparr>users := x\<rparr>\<rparr>))"

definition ignores_organizations :: "(world \<Rightarrow> bool) \<Rightarrow> bool" where
  "ignores_organizations Q \<longleftrightarrow> (\<forall>w x. Q w \<longrightarrow> Q (w\<lparr>db := (db w)\<lparr>organizations := x\<rparr>\<rparr>))"

definition ignores_memberships :: "(world \<Rightarrow> bool) \<Rightarrow> bool" where
  "ignores_memberships Q \<longleftrightarrow> (\<forall>w x. Q w \<longrightarrow> Q (w\<lparr>db := (db w)\<lparr>memberships := x\<rparr>\<rparr>))"

definition ignores_organization_invites :: "(world \<Rightarrow> bool) \<Rightarrow> bool" where
  "ignores_organization_invites Q \<longleftrightarrow> (\<forall>w x. Q w \<longrightarrow> Q (w\<lparr>db := (db w)\<lparr>organization_invites := x\<rparr>\<rparr>))"

definition ignores_refresh_tokens :: "(world \<Rightarrow> bool) \<Rightarrow> bool" where
  "ignores_refresh_tokens Q \<longleftrightarrow> (\<forall>w x. Q w \<longrightarrow> Q (w\<lparr>db := (db w)\<lparr>refresh_tokens := x\<rparr>\<rparr>))"

definition ignores_password_reset_tokens :: "(world \<Rightarrow> bool) \<Rightarrow> bool" where
  "ignores_password_reset_tokens Q \<longleftrightarrow> (\<forall>w x. Q w \<longrightarrow> Q (w\<lparr>db := (db w)\<lparr>password_reset_tokens := x\<rparr>\<rparr>))"

definition ignores_email_verification_tokens :: "(world \<Rightarrow> bool) \<Rightarrow> bool" where
  "ignores_email_verification_tokens Q \<longleftrightarrow> (\<forall>w x. Q w \<longrightarrow> Q (w\<lparr>db := (db w)\<lparr>email_verification_tokens := x\<rparr>\<rparr>))"

definition ignores_processed_messages :: "(world \<Rightarrow> bool) \<Rightarrow> bool" where
  "ignores_processed_messages Q \<longleftrightarrow> (\<forall>w x. Q w \<longrightarrow> Q (w\<lparr>db := (db w)\<lparr>processed_messages := x\<rparr>\<rparr>))"

lemmas ignores_defs =
  ignores_tick_def
  ignores_outbox_def
  ignores_jobs_def
  ignores_lockouts_def
  ignores_users_def
  ignores_organizations_def
  ignores_memberships_def
  ignores_organization_invites_def
  ignores_refresh_tokens_def
  ignores_password_reset_tokens_def
  ignores_email_verification_tokens_def
  ignores_processed_messages_def

lemma keeps_newTick [keeps_rules]: "ignores_tick Q \<Longrightarrow> keeps Q newTick"
  by (simp add: keeps_def ignores_tick_def)

lemma keeps_newDate [keeps_rules]: "ignores_tick Q \<Longrightarrow> keeps Q (newDate P)"
  by (simp add: keeps_def ignores_tick_def)

lemma keeps_randomUUID [keeps_rules]: "ignores_tick Q \<Longrightarrow> keeps Q (randomUUID P)"
  by (simp add: keeps_def ignores_tick_def)

lemma keeps_randomToken [keeps_rules]: "ignores_tick Q \<Longrightarrow> keeps Q (randomToken P n)"
  by (simp add: keeps_def ignores_tick_def)

lemma keeps_getsDb [keeps_rules]: "keeps Q (getsDb f)"
  by (simp add: keeps_def)

lemma keeps_checked [keeps_rules]: "keeps Q m \<Longrightarrow> keeps Q (checked v m)"
  by (auto simp: checked_def intro: keeps_throw split: option.splits)

lemma keeps_write_users [keeps_rules]:
  "ignores_users Q \<Longrightarrow> keeps Q (modifyDb (\<lambda>d. d\<lparr>users := f d\<rparr>))"
  by (simp add: keeps_def ignores_users_def)

lemma keeps_write_organizations [keeps_rules]:
  "ignores_organizations Q \<Longrightarrow> keeps Q (modifyDb (\<lambda>d. d\<lparr>organizations := f d\<rparr>))"
  by (simp add: keeps_def ignores_organizations_def)

lemma keeps_write_memberships [keeps_rules]:
  "ignores_memberships Q \<Longrightarrow> keeps Q (modifyDb (\<lambda>d. d\<lparr>memberships := f d\<rparr>))"
  by (simp add: keeps_def ignores_memberships_def)

lemma keeps_write_organization_invites [keeps_rules]:
  "ignores_organization_invites Q \<Longrightarrow> keeps Q (modifyDb (\<lambda>d. d\<lparr>organization_invites := f d\<rparr>))"
  by (simp add: keeps_def ignores_organization_invites_def)

lemma keeps_write_refresh_tokens [keeps_rules]:
  "ignores_refresh_tokens Q \<Longrightarrow> keeps Q (modifyDb (\<lambda>d. d\<lparr>refresh_tokens := f d\<rparr>))"
  by (simp add: keeps_def ignores_refresh_tokens_def)

lemma keeps_write_password_reset_tokens [keeps_rules]:
  "ignores_password_reset_tokens Q \<Longrightarrow> keeps Q (modifyDb (\<lambda>d. d\<lparr>password_reset_tokens := f d\<rparr>))"
  by (simp add: keeps_def ignores_password_reset_tokens_def)

lemma keeps_write_email_verification_tokens [keeps_rules]:
  "ignores_email_verification_tokens Q \<Longrightarrow> keeps Q (modifyDb (\<lambda>d. d\<lparr>email_verification_tokens := f d\<rparr>))"
  by (simp add: keeps_def ignores_email_verification_tokens_def)

lemma keeps_write_processed_messages [keeps_rules]:
  "ignores_processed_messages Q \<Longrightarrow> keeps Q (modifyDb (\<lambda>d. d\<lparr>processed_messages := f d\<rparr>))"
  by (simp add: keeps_def ignores_processed_messages_def)

section \<open>Reads\<close>

text \<open>A read writes nothing.\<close>

lemma keeps_User_existsByEmail [keeps_rules]: "keeps Q (User_existsByEmail e)"
  unfolding User_existsByEmail_def by (intro keeps_rules)

lemma keeps_User_existsByUsername [keeps_rules]: "keeps Q (User_existsByUsername u)"
  unfolding User_existsByUsername_def by (intro keeps_rules)

lemma keeps_User_findById [keeps_rules]: "keeps Q (User_findById i)"
  unfolding User_findById_def by (intro keeps_rules)

lemma keeps_User_findByIds [keeps_rules]: "keeps Q (User_findByIds is)"
  unfolding User_findByIds_def by (intro keeps_rules)

lemma keeps_User_findByEmail [keeps_rules]: "keeps Q (User_findByEmail e)"
  unfolding User_findByEmail_def by (intro keeps_rules)

lemma keeps_Organization_findById [keeps_rules]: "keeps Q (Organization_findById i)"
  unfolding Organization_findById_def by (intro keeps_rules)

lemma keeps_Organization_findByIds [keeps_rules]: "keeps Q (Organization_findByIds is)"
  unfolding Organization_findByIds_def by (intro keeps_rules)

lemma keeps_Organization_findBySlug [keeps_rules]: "keeps Q (Organization_findBySlug s)"
  unfolding Organization_findBySlug_def by (intro keeps_rules)

lemma keeps_Organization_existsBySlug [keeps_rules]: "keeps Q (Organization_existsBySlug s)"
  unfolding Organization_existsBySlug_def by (intro keeps_rules)

lemma keeps_Membership_findById [keeps_rules]: "keeps Q (Membership_findById i)"
  unfolding Membership_findById_def by (intro keeps_rules)

lemma keeps_Membership_findByUserAndOrg [keeps_rules]: "keeps Q (Membership_findByUserAndOrg u v)"
  unfolding Membership_findByUserAndOrg_def by (intro keeps_rules)

lemma keeps_Membership_findDefaultByUser [keeps_rules]: "keeps Q (Membership_findDefaultByUser u)"
  unfolding Membership_findDefaultByUser_def by (intro keeps_rules)

lemma keeps_Membership_findAllByUser [keeps_rules]: "keeps Q (Membership_findAllByUser u)"
  unfolding Membership_findAllByUser_def by (intro keeps_rules)

lemma keeps_Membership_findAllByOrganization [keeps_rules]: "keeps Q (Membership_findAllByOrganization u)"
  unfolding Membership_findAllByOrganization_def by (intro keeps_rules)

lemma keeps_Membership_countByOrgAndRole [keeps_rules]: "keeps Q (Membership_countByOrgAndRole u r)"
  unfolding Membership_countByOrgAndRole_def by (intro keeps_rules)

lemma keeps_RefreshToken_findByTokenHash [keeps_rules]: "keeps Q (RefreshToken_findByTokenHash h)"
  unfolding RefreshToken_findByTokenHash_def by (intro keeps_rules)

lemma keeps_PasswordResetToken_findByTokenHash [keeps_rules]: "keeps Q (PasswordResetToken_findByTokenHash h)"
  unfolding PasswordResetToken_findByTokenHash_def by (intro keeps_rules)

lemma keeps_EmailVerificationToken_findByTokenHash [keeps_rules]: "keeps Q (EmailVerificationToken_findByTokenHash h)"
  unfolding EmailVerificationToken_findByTokenHash_def by (intro keeps_rules)

lemma keeps_OrganizationInvite_findById [keeps_rules]: "keeps Q (OrganizationInvite_findById i)"
  unfolding OrganizationInvite_findById_def by (intro keeps_rules)

lemma keeps_OrganizationInvite_findByTokenHash [keeps_rules]: "keeps Q (OrganizationInvite_findByTokenHash h)"
  unfolding OrganizationInvite_findByTokenHash_def by (intro keeps_rules)

section \<open>Writes\<close>

lemma keeps_User_beforeCreate [keeps_rules]: "ignores_tick Q \<Longrightarrow> keeps Q (User_beforeCreate P p)"
  unfolding User_beforeCreate_def by (intro keeps_rules)

lemma keeps_User_beforeUpdate [keeps_rules]: "ignores_tick Q \<Longrightarrow> keeps Q (User_beforeUpdate P s p)"
  unfolding User_beforeUpdate_def by (intro keeps_rules)

lemma keeps_User_create [keeps_rules]: "ignores_tick Q \<Longrightarrow> ignores_users Q \<Longrightarrow> keeps Q (User_create P e u p b)"
  unfolding User_create_def by (intro keeps_rules)

lemma keeps_User_update [keeps_rules]: "ignores_tick Q \<Longrightarrow> ignores_users Q \<Longrightarrow> keeps Q (User_update P r n)"
  unfolding User_update_def by (intro keeps_rules)

lemma keeps_User_save [keeps_rules]: "ignores_tick Q \<Longrightarrow> ignores_users Q \<Longrightarrow> keeps Q (User_save P u)"
  unfolding User_save_def by (intro keeps_rules)

lemma keeps_Organization_create [keeps_rules]: "ignores_tick Q \<Longrightarrow> ignores_organizations Q \<Longrightarrow> keeps Q (Organization_create P n s)"
  unfolding Organization_create_def by (intro keeps_rules)

lemma keeps_Membership_create [keeps_rules]: "ignores_tick Q \<Longrightarrow> ignores_memberships Q \<Longrightarrow> keeps Q (Membership_create P u v r s)"
  unfolding Membership_create_def by (intro keeps_rules)

lemma keeps_Membership_save [keeps_rules]: "ignores_memberships Q \<Longrightarrow> keeps Q (Membership_save m)"
  unfolding Membership_save_def by (intro keeps_rules)

lemma keeps_Membership_delete [keeps_rules]: "ignores_memberships Q \<Longrightarrow> keeps Q (Membership_delete i)"
  unfolding Membership_delete_def by (intro keeps_rules)

lemma keeps_RefreshToken_save [keeps_rules]: "ignores_refresh_tokens Q \<Longrightarrow> keeps Q (RefreshToken_save t)"
  unfolding RefreshToken_save_def by (intro keeps_rules)

lemma keeps_RefreshToken_revokeFamily [keeps_rules]: "ignores_tick Q \<Longrightarrow> ignores_refresh_tokens Q \<Longrightarrow> keeps Q (RefreshToken_revokeFamily P f)"
  unfolding RefreshToken_revokeFamily_def by (intro keeps_rules)

lemma keeps_RefreshToken_findActiveByUser [keeps_rules]: "ignores_tick Q \<Longrightarrow> keeps Q (RefreshToken_findActiveByUser P u)"
  unfolding RefreshToken_findActiveByUser_def by (intro keeps_rules)

lemma keeps_new_one_time_token [keeps_rules]: "ignores_tick Q \<Longrightarrow> keeps Q (new_one_time_token P u h e)"
  unfolding new_one_time_token_def by (intro keeps_rules)

lemma keeps_PasswordResetToken_create [keeps_rules]: "ignores_tick Q \<Longrightarrow> ignores_password_reset_tokens Q \<Longrightarrow> keeps Q (PasswordResetToken_create P u h e)"
  unfolding PasswordResetToken_create_def by (intro keeps_rules)

lemma keeps_PasswordResetToken_markUsed [keeps_rules]: "ignores_password_reset_tokens Q \<Longrightarrow> keeps Q (PasswordResetToken_markUsed i n)"
  unfolding PasswordResetToken_markUsed_def by (intro keeps_rules)

lemma keeps_PasswordResetToken_invalidateAllForUser [keeps_rules]: "ignores_password_reset_tokens Q \<Longrightarrow> keeps Q (PasswordResetToken_invalidateAllForUser u n)"
  unfolding PasswordResetToken_invalidateAllForUser_def by (intro keeps_rules)

lemma keeps_EmailVerificationToken_save [keeps_rules]: "ignores_tick Q \<Longrightarrow> ignores_email_verification_tokens Q \<Longrightarrow> keeps Q (EmailVerificationToken_save P u h e)"
  unfolding EmailVerificationToken_save_def by (intro keeps_rules)

lemma keeps_EmailVerificationToken_markUsed [keeps_rules]: "ignores_email_verification_tokens Q \<Longrightarrow> keeps Q (EmailVerificationToken_markUsed i n)"
  unfolding EmailVerificationToken_markUsed_def by (intro keeps_rules)

lemma keeps_EmailVerificationToken_revokeAllForUser [keeps_rules]: "ignores_email_verification_tokens Q \<Longrightarrow> keeps Q (EmailVerificationToken_revokeAllForUser u n)"
  unfolding EmailVerificationToken_revokeAllForUser_def by (intro keeps_rules)

lemma keeps_OrganizationInvite_save [keeps_rules]: "ignores_tick Q \<Longrightarrow> ignores_organization_invites Q \<Longrightarrow> keeps Q (OrganizationInvite_save P v e r h x)"
  unfolding OrganizationInvite_save_def by (intro keeps_rules)

lemma keeps_OrganizationInvite_findPendingByEmailAndOrg [keeps_rules]: "ignores_tick Q \<Longrightarrow> keeps Q (OrganizationInvite_findPendingByEmailAndOrg P e v)"
  unfolding OrganizationInvite_findPendingByEmailAndOrg_def by (intro keeps_rules)

lemma keeps_OrganizationInvite_deleteExpired [keeps_rules]: "ignores_organization_invites Q \<Longrightarrow> keeps Q (OrganizationInvite_deleteExpired P e v n)"
  unfolding OrganizationInvite_deleteExpired_def by (intro keeps_rules)

lemma keeps_OrganizationInvite_replaceTokenHash [keeps_rules]: "ignores_organization_invites Q \<Longrightarrow> keeps Q (OrganizationInvite_replaceTokenHash i h)"
  unfolding OrganizationInvite_replaceTokenHash_def by (intro keeps_rules)

lemma keeps_OrganizationInvite_deleteById [keeps_rules]: "ignores_organization_invites Q \<Longrightarrow> keeps Q (OrganizationInvite_deleteById i)"
  unfolding OrganizationInvite_deleteById_def by (intro keeps_rules)

lemma keeps_OrganizationInvite_markAccepted [keeps_rules]: "ignores_organization_invites Q \<Longrightarrow> keeps Q (OrganizationInvite_markAccepted i n)"
  unfolding OrganizationInvite_markAccepted_def by (intro keeps_rules)

lemma keeps_AuthUser_touch [keeps_rules]: "ignores_tick Q \<Longrightarrow> keeps Q (AuthUser_touch P u)"
  unfolding AuthUser_touch_def by (intro keeps_rules)

lemma keeps_AuthUser_setEmailVerifiedAt [keeps_rules]: "ignores_tick Q \<Longrightarrow> keeps Q (AuthUser_setEmailVerifiedAt P d u)"
  unfolding AuthUser_setEmailVerifiedAt_def by (intro keeps_rules)

lemma keeps_AuthUser_changeEmail [keeps_rules]: "ignores_tick Q \<Longrightarrow> keeps Q (AuthUser_changeEmail P e u)"
  unfolding AuthUser_changeEmail_def by (intro keeps_rules)

lemma keeps_AuthUser_changeUsername [keeps_rules]: "ignores_tick Q \<Longrightarrow> keeps Q (AuthUser_changeUsername P e u)"
  unfolding AuthUser_changeUsername_def by (intro keeps_rules)

lemma keeps_AuthUser_togglePublicProfile [keeps_rules]: "ignores_tick Q \<Longrightarrow> keeps Q (AuthUser_togglePublicProfile P b u)"
  unfolding AuthUser_togglePublicProfile_def by (intro keeps_rules)

lemma keeps_AuthUser_setPasswordHash [keeps_rules]: "ignores_tick Q \<Longrightarrow> keeps Q (AuthUser_setPasswordHash P h u)"
  unfolding AuthUser_setPasswordHash_def by (intro keeps_rules)

lemma keeps_RefreshToken_issue [keeps_rules]: "ignores_tick Q \<Longrightarrow> keeps Q (RefreshToken_issue P u h f v a i)"
  unfolding RefreshToken_issue_def by (intro keeps_rules)

section \<open>Transactions\<close>

text \<open>
  A rolled back transaction leaves the old database with a later tick, so a predicate survives it when
  it survives the ticks.
\<close>

definition ticks_grow :: "(world, 'a) io \<Rightarrow> bool" where
  "ticks_grow m \<longleftrightarrow> (\<forall>k. keeps (\<lambda>w. k \<le> tick w) m)"

lemma ticks_growI: "(\<And>k. keeps (\<lambda>w. k \<le> tick w) m) \<Longrightarrow> ticks_grow m"
  by (simp add: ticks_grow_def)

lemma ticks_growD: "ticks_grow m \<Longrightarrow> tick w \<le> tick (snd (m w))"
  by (auto simp: ticks_grow_def keeps_def)

definition survives_rollback :: "(world \<Rightarrow> bool) \<Rightarrow> bool" where
  "survives_rollback Q \<longleftrightarrow> (\<forall>w w'. Q w \<longrightarrow> Q w' \<longrightarrow> tick w \<le> tick w' \<longrightarrow> Q (w'\<lparr>db := db w\<rparr>))"

lemma keeps_runInTransaction [keeps_rules]:
  assumes "keeps Q m" "ticks_grow m" "survives_rollback Q"
  shows "keeps Q (runInTransaction m)"
  unfolding keeps_def
proof (intro allI impI)
  fix w assume "Q w"
  then have "Q (snd (m w))" by (rule keepsD[OF assms(1)])
  moreover have "tick w \<le> tick (snd (m w))" by (rule ticks_growD[OF assms(2)])
  ultimately show "Q (snd (runInTransaction m w))"
    using \<open>Q w\<close> assms(3)
    by (auto simp: runInTransaction_def survives_rollback_def split: prod.splits sum.splits)
qed

lemma tick_bound_ignores [simp]:
  "ignores_tick (\<lambda>w. k \<le> tick w)" "ignores_outbox (\<lambda>w. k \<le> tick w)"
  "ignores_jobs (\<lambda>w. k \<le> tick w)" "ignores_lockouts (\<lambda>w. k \<le> tick w)"
  "ignores_users (\<lambda>w. k \<le> tick w)" "ignores_organizations (\<lambda>w. k \<le> tick w)"
  "ignores_memberships (\<lambda>w. k \<le> tick w)" "ignores_organization_invites (\<lambda>w. k \<le> tick w)"
  "ignores_refresh_tokens (\<lambda>w. k \<le> tick w)" "ignores_password_reset_tokens (\<lambda>w. k \<le> tick w)"
  "ignores_email_verification_tokens (\<lambda>w. k \<le> tick w)" "ignores_processed_messages (\<lambda>w. k \<le> tick w)"
  "survives_rollback (\<lambda>w. k \<le> tick w)"
  by (simp_all add: ignores_defs survives_rollback_def)

end
