(* ===== verification/TrackingStore.thy ===== *)
theory TrackingStore imports Frames begin

text \<open>
  The entities of the tracking features and their repositories: \<open>Metric.ts\<close>, \<open>MetricSettings.ts\<close>,
  \<open>MetricLog.ts\<close>, and the four repositories over the tables of \<open>TrackingRows\<close>, with the unique indexes,
  column widths and validators of the models and migrations. \<open>metrics\<close> and \<open>metric_categories\<close> are
  paranoid: a deleted row keeps its place with a stamp, and no read or unique index sees it. Foreign keys
  are not modelled: every insert names rows the same operation read. A change of a row that changes
  nothing is not written.
\<close>

section \<open>The metric\<close>

definition Metric_touch :: "platform \<Rightarrow> metric \<Rightarrow> (world, metric) io" where
  "Metric_touch P m = bind (newDate P) (\<lambda>now. return (m\<lparr>mt_updatedAt := now\<rparr>))"

definition Metric_rename :: "platform \<Rightarrow> jstr \<Rightarrow> metric \<Rightarrow> (world, metric) io" where
  "Metric_rename P next m =
     (let val = js_trim next; len = char_length val in
      if len < 1 then throw (DomainError Validation ''Name is required'')
      else if len > METRIC_NAME_MAX then throw (DomainError Validation ''Name exceeds length limit'')
      else if hasInvalidMetricChars val False then throw (DomainError Validation ''Contains invalid characters'')
      else Metric_touch P (m\<lparr>mt_name := val\<rparr>))"

definition Metric_describe :: "platform \<Rightarrow> jstr option \<Rightarrow> metric \<Rightarrow> (world, metric) io" where
  "Metric_describe P next m =
     (case next of
        Some d \<Rightarrow>
          if char_length d > METRIC_DESCRIPTION_MAX
          then throw (DomainError Validation ''Description exceeds length limit'')
          else if hasInvalidMetricChars d True then throw (DomainError Validation ''Contains invalid characters'')
          else Metric_touch P (m\<lparr>mt_description := Some d\<rparr>)
      | None \<Rightarrow> Metric_touch P (m\<lparr>mt_description := None\<rparr>))"

definition Metric_setDefaultUnit :: "platform \<Rightarrow> jstr \<Rightarrow> metric \<Rightarrow> (world, metric) io" where
  "Metric_setDefaultUnit P u m =
     (let normalized = js_trim u; len = char_length normalized in
      if len < 1 then throw (DomainError Validation ''Unit is required'')
      else if len > METRIC_UNIT_MAX then throw (DomainError Validation ''Unit exceeds length limit'')
      else if hasInvalidMetricChars normalized False then throw (DomainError Validation ''Contains invalid characters'')
      else Metric_touch P (m\<lparr>mt_defaultUnit := normalized\<rparr>))"

definition Metric_moveToCategory :: "platform \<Rightarrow> jstr option \<Rightarrow> metric \<Rightarrow> (world, metric) io" where
  "Metric_moveToCategory P categoryId m = Metric_touch P (m\<lparr>mt_categoryId := categoryId\<rparr>)"

definition Metric_setOriginalMetric :: "platform \<Rightarrow> jstr option \<Rightarrow> metric \<Rightarrow> (world, metric) io" where
  "Metric_setOriginalMetric P metricId m = Metric_touch P (m\<lparr>mt_originalMetricId := metricId\<rparr>)"

definition Metric_togglePublic :: "platform \<Rightarrow> bool \<Rightarrow> metric \<Rightarrow> (world, metric) io" where
  "Metric_togglePublic P v m = Metric_touch P (m\<lparr>mt_isPublic := v\<rparr>)"

text \<open>A field left out is \<open>None\<close>; of those that may be null, \<open>Some None\<close> is null.\<close>

record metric_update =
  mu_name :: "jstr option"
  mu_description :: "jstr option option"
  mu_defaultUnit :: "jstr option"
  mu_categoryId :: "jstr option option"
  mu_originalMetricId :: "jstr option option"
  mu_isPublic :: "bool option"

definition no_metric_update :: metric_update where
  "no_metric_update = \<lparr>mu_name = None, mu_description = None, mu_defaultUnit = None, mu_categoryId = None,
     mu_originalMetricId = None, mu_isPublic = None\<rparr>"

definition when_given :: "'b option \<Rightarrow> ('b \<Rightarrow> 'a \<Rightarrow> (world, 'a) io) \<Rightarrow> 'a \<Rightarrow> (world, 'a) io" where
  "when_given v f x = (case v of None \<Rightarrow> return x | Some y \<Rightarrow> f y x)"

definition Metric_update :: "platform \<Rightarrow> metric_update \<Rightarrow> metric \<Rightarrow> (world, metric) io" where
  "Metric_update P data m =
     bind (when_given (mu_name data) (Metric_rename P) m) (\<lambda>m.
     bind (when_given (mu_description data) (Metric_describe P) m) (\<lambda>m.
     bind (when_given (mu_defaultUnit data) (Metric_setDefaultUnit P) m) (\<lambda>m.
     bind (when_given (mu_categoryId data) (Metric_moveToCategory P) m) (\<lambda>m.
     bind (when_given (mu_originalMetricId data) (Metric_setOriginalMetric P) m) (\<lambda>m.
     when_given (mu_isPublic data) (Metric_togglePublic P) m)))))"

section \<open>Metrics\<close>

definition live_metric :: "metric_row \<Rightarrow> bool" where
  "live_metric r \<longleftrightarrow> mt_deletedAt r = None"

text \<open>A row of a user in an organization: the scope of every read and write of the feature.\<close>

definition owned_metric :: "jstr \<Rightarrow> jstr \<Rightarrow> metric_row \<Rightarrow> bool" where
  "owned_metric userId organizationId r \<longleftrightarrow> mt_userId r = userId \<and> mt_organizationId r = organizationId"

definition live_category :: "category_row \<Rightarrow> bool" where
  "live_category c \<longleftrightarrow> mc_deletedAt c = None"

definition owned_category :: "jstr \<Rightarrow> jstr \<Rightarrow> category_row \<Rightarrow> bool" where
  "owned_category userId organizationId c \<longleftrightarrow> mc_userId c = userId \<and> mc_organizationId c = organizationId"

definition Metric_existsByName :: "platform \<Rightarrow> jstr \<Rightarrow> jstr \<Rightarrow> jstr \<Rightarrow> (world, bool) io" where
  "Metric_existsByName P userId organizationId name =
     getsDb (\<lambda>d. count_where (\<lambda>r. owned_metric userId organizationId r \<and> live_metric r \<and>
       pg_lower P (mt_name r) = toLowerCase P (js_trim name)) (metrics d) > 0)"

definition Metric_categoryExists :: "jstr \<Rightarrow> jstr \<Rightarrow> jstr \<Rightarrow> (world, bool) io" where
  "Metric_categoryExists userId organizationId categoryId =
     getsDb (\<lambda>d. count_where (\<lambda>c. owned_category userId organizationId c \<and> mc_id c = categoryId \<and> live_category c)
       (metric_categories d) > 0)"

definition Metric_originalMetricExists :: "jstr \<Rightarrow> jstr \<Rightarrow> (world, bool) io" where
  "Metric_originalMetricExists userId metricId =
     getsDb (\<lambda>d. count_where (\<lambda>r. mt_id r = metricId \<and> (mt_isPublic r \<or> mt_userId r = userId) \<and> live_metric r)
       (metrics d) > 0)"

text \<open>\<open>uq_metrics_user_name\<close> is over the user and the lower-cased name of the live rows, in all organizations.\<close>

definition metrics_check :: "platform \<Rightarrow> metric_row \<Rightarrow> metric_row list \<Rightarrow> failure option" where
  "metrics_check P new others =
     (if \<not> fits 255 (mt_name new) then Some (DatabaseError ''metrics.name'')
      else if \<not> fits 255 (mt_defaultUnit new) then Some (DatabaseError ''metrics.default_unit'')
      else if live_metric new \<and> (\<exists>r \<in> set others. live_metric r \<and> mt_userId r = mt_userId new \<and>
          pg_lower P (mt_name r) = pg_lower P (mt_name new))
        then Some (UniqueConstraintError ''uq_metrics_user_name'')
      else None)"

record create_metric_dto =
  cm_userId :: jstr
  cm_organizationId :: jstr
  cm_categoryId :: "jstr option"
  cm_originalMetricId :: "jstr option"
  cm_name :: jstr
  cm_description :: "jstr option"
  cm_defaultUnit :: jstr
  cm_isPublic :: bool

definition Metric_create :: "platform \<Rightarrow> create_metric_dto \<Rightarrow> (world, metric) io" where
  "Metric_create P data =
     bind (randomUUID P) (\<lambda>id'.
     bind (newDate P) (\<lambda>now.
     let new = \<lparr>mt_id = id', mt_userId = cm_userId data, mt_name = cm_name data,
                 mt_defaultUnit = cm_defaultUnit data, mt_isPublic = cm_isPublic data, mt_createdAt = now,
                 mt_updatedAt = now, mt_categoryId = cm_categoryId data,
                 mt_originalMetricId = cm_originalMetricId data, mt_description = cm_description data,
                 mt_deletedAt = None, mt_organizationId = cm_organizationId data\<rparr> in
     bind (getsDb metrics) (\<lambda>rows.
     checked (metrics_check P new rows)
       (andThen (modifyDb (\<lambda>d. d\<lparr>metrics := metrics d @ [new]\<rparr>)) (return (metric.truncate new))))))"

definition Metric_row :: "jstr \<Rightarrow> jstr \<Rightarrow> jstr \<Rightarrow> (world, metric_row) io" where
  "Metric_row userId organizationId metricId =
     bind (getsDb (\<lambda>d. List.find (\<lambda>r. mt_id r = metricId \<and> owned_metric userId organizationId r \<and> live_metric r)
       (metrics d))) (\<lambda>found.
     case found of None \<Rightarrow> throw (AppError ''Metric not found'' 404) | Some r \<Rightarrow> return r)"

definition Metric_findOwnedById :: "jstr \<Rightarrow> jstr \<Rightarrow> jstr \<Rightarrow> (world, metric) io" where
  "Metric_findOwnedById userId organizationId metricId =
     bind (Metric_row userId organizationId metricId) (\<lambda>r. return (metric.truncate r))"

definition Metric_write :: "platform \<Rightarrow> metric_row \<Rightarrow> (world, unit) io" where
  "Metric_write P stored =
     bind (getsDb metrics) (\<lambda>rows.
     checked (metrics_check P stored (filter (\<lambda>r. mt_id r \<noteq> mt_id stored) rows))
       (modifyDb (\<lambda>d. d\<lparr>metrics := update_where (\<lambda>r. mt_id r = mt_id stored) (\<lambda>_. stored) (metrics d)\<rparr>)))"

definition Metric_save :: "platform \<Rightarrow> jstr \<Rightarrow> metric \<Rightarrow> (world, metric) io" where
  "Metric_save P organizationId m =
     bind (Metric_row (mt_userId m) organizationId (mt_id m)) (\<lambda>row.
     let next = row\<lparr>mt_name := mt_name m, mt_description := mt_description m, mt_defaultUnit := mt_defaultUnit m,
           mt_categoryId := mt_categoryId m, mt_originalMetricId := mt_originalMetricId m, mt_isPublic := mt_isPublic m\<rparr> in
     if next = row then return (metric.truncate row)
     else bind (newDate P) (\<lambda>now.
       andThen (Metric_write P (next\<lparr>mt_updatedAt := now\<rparr>)) (return (metric.truncate (next\<lparr>mt_updatedAt := now\<rparr>)))))"

definition Metric_delete :: "platform \<Rightarrow> jstr \<Rightarrow> metric \<Rightarrow> (world, unit) io" where
  "Metric_delete P organizationId m =
     bind (Metric_row (mt_userId m) organizationId (mt_id m)) (\<lambda>row.
     bind (newDate P) (\<lambda>now.
     Metric_write P (row\<lparr>mt_deletedAt := Some now, mt_updatedAt := now\<rparr>)))"

text \<open>\<open>validateMetricAccess\<close> of \<open>src/utils/db-helper.ts\<close>, which the other features reach metrics through.\<close>

definition validateMetricAccess :: "jstr \<Rightarrow> jstr \<Rightarrow> jstr \<Rightarrow> (world, unit) io" where
  "validateMetricAccess userId organizationId metricId =
     (if userId = [] then throw (DomainError Unauthorized ''User not authenticated'')
      else bind (getsDb (\<lambda>d. List.find (\<lambda>r. mt_id r = metricId \<and> mt_organizationId r = organizationId \<and> live_metric r)
        (metrics d))) (\<lambda>found.
      case found of
        None \<Rightarrow> throw (DomainError Not_found ''Metric not found'')
      | Some r \<Rightarrow> if mt_userId r \<noteq> userId then throw (DomainError Forbidden ''Unauthorized access to metric'')
                   else return ()))"

section \<open>Categories\<close>

text \<open>What the repository returns: the entity, with the number of its live metrics.\<close>

record counted_category = metric_category +
  mc_metricCount :: nat

definition metricCount :: "database \<Rightarrow> jstr \<Rightarrow> nat" where
  "metricCount d categoryId = count_where (\<lambda>r. mt_categoryId r = Some categoryId \<and> live_metric r) (metrics d)"

definition toCategory :: "nat \<Rightarrow> category_row \<Rightarrow> counted_category" where
  "toCategory n c = metric_category.extend (metric_category.truncate c) \<lparr>mc_metricCount = n\<rparr>"

definition Category_row :: "jstr \<Rightarrow> jstr \<Rightarrow> jstr \<Rightarrow> (world, category_row option) io" where
  "Category_row userId organizationId id' =
     getsDb (\<lambda>d. List.find (\<lambda>c. mc_id c = id' \<and> owned_category userId organizationId c \<and> live_category c)
       (metric_categories d))"

definition Category_findById :: "jstr \<Rightarrow> jstr \<Rightarrow> jstr \<Rightarrow> (world, counted_category option) io" where
  "Category_findById userId organizationId id' =
     bind (Category_row userId organizationId id') (\<lambda>found.
     getsDb (\<lambda>d. map_option (toCategory (metricCount d id')) found))"

definition Category_existsByName :: "jstr \<Rightarrow> jstr \<Rightarrow> jstr \<Rightarrow> (world, bool) io" where
  "Category_existsByName userId organizationId name =
     getsDb (\<lambda>d. count_where (\<lambda>c. owned_category userId organizationId c \<and> mc_name c = name \<and> live_category c)
       (metric_categories d) > 0)"

definition categories_check :: "platform \<Rightarrow> category_row \<Rightarrow> category_row list \<Rightarrow> failure option" where
  "categories_check P new others =
     (if \<not> fits 255 (mc_name new) then Some (DatabaseError ''metric_categories.name'')
      else if \<not> fits 255 (mc_color new) then Some (DatabaseError ''metric_categories.color'')
      else if \<not> fits 255 (mc_icon new) then Some (DatabaseError ''metric_categories.icon'')
      else if live_category new \<and> (\<exists>c \<in> set others. live_category c \<and> mc_userId c = mc_userId new \<and>
          pg_lower P (mc_name c) = pg_lower P (mc_name new))
        then Some (UniqueConstraintError ''uq_metric_categories_user_name'')
      else None)"

text \<open>The default icon is the folder, U+1F4C1.\<close>

definition Category_create ::
  "platform \<Rightarrow> jstr \<Rightarrow> jstr \<Rightarrow> jstr \<Rightarrow> jstr option \<Rightarrow> jstr option \<Rightarrow> (world, counted_category) io" where
  "Category_create P userId organizationId name colour icon =
     bind (randomUUID P) (\<lambda>id'.
     bind (newDate P) (\<lambda>now.
     let new = \<lparr>mc_id = id', mc_userId = userId, mc_name = name,
                 mc_color = (case colour of Some c \<Rightarrow> c | None \<Rightarrow> lit ''#E897A3''),
                 mc_icon = (case icon of Some i \<Rightarrow> i | None \<Rightarrow> [55357, 56513]),
                 mc_createdAt = now, mc_updatedAt = now, mc_deletedAt = None, mc_organizationId = organizationId\<rparr> in
     bind (getsDb metric_categories) (\<lambda>rows.
     checked (categories_check P new rows)
       (andThen (modifyDb (\<lambda>d. d\<lparr>metric_categories := metric_categories d @ [new]\<rparr>)) (return (toCategory 0 new))))))"

definition Category_update ::
  "platform \<Rightarrow> jstr \<Rightarrow> jstr \<Rightarrow> jstr \<Rightarrow> jstr option \<Rightarrow> jstr option \<Rightarrow> jstr option \<Rightarrow> (world, counted_category) io" where
  "Category_update P userId organizationId id' name colour icon =
     bind (Category_row userId organizationId id') (\<lambda>found.
     case found of
       None \<Rightarrow> throw (PlainError ''Category not found'')
     | Some row \<Rightarrow>
       let next = row\<lparr>mc_name := (case name of Some n \<Rightarrow> n | None \<Rightarrow> mc_name row),
             mc_color := (case colour of Some c \<Rightarrow> c | None \<Rightarrow> mc_color row),
             mc_icon := (case icon of Some i \<Rightarrow> i | None \<Rightarrow> mc_icon row)\<rparr> in
       if next = row then getsDb (\<lambda>d. toCategory (metricCount d id') row)
       else bind (newDate P) (\<lambda>now.
         let stored = next\<lparr>mc_updatedAt := now\<rparr> in
         bind (getsDb metric_categories) (\<lambda>rows.
         checked (categories_check P stored (filter (\<lambda>c. mc_id c \<noteq> id') rows))
           (andThen (modifyDb (\<lambda>d. d\<lparr>metric_categories :=
               update_where (\<lambda>c. mc_id c = id') (\<lambda>_. stored) (metric_categories d)\<rparr>))
             (getsDb (\<lambda>d. toCategory (metricCount d id') stored))))))"

definition Category_delete :: "platform \<Rightarrow> jstr \<Rightarrow> jstr \<Rightarrow> jstr \<Rightarrow> (world, unit) io" where
  "Category_delete P userId organizationId id' =
     bind (newDate P) (\<lambda>now.
     modifyDb (\<lambda>d. d\<lparr>metric_categories :=
       update_where (\<lambda>c. mc_id c = id' \<and> owned_category userId organizationId c \<and> live_category c)
         (\<lambda>c. c\<lparr>mc_deletedAt := Some now\<rparr>) (metric_categories d)\<rparr>))"

lemmas evaluate_TrackingStore [evaluate] =
  Metric_touch_def Metric_rename_def Metric_describe_def Metric_setDefaultUnit_def
  Metric_moveToCategory_def Metric_setOriginalMetric_def Metric_togglePublic_def
  no_metric_update_def when_given_def Metric_update_def live_metric_def owned_metric_def
  live_category_def owned_category_def Metric_existsByName_def Metric_categoryExists_def
  Metric_originalMetricExists_def metrics_check_def Metric_create_def Metric_row_def
  Metric_findOwnedById_def Metric_write_def Metric_save_def Metric_delete_def
  validateMetricAccess_def metricCount_def toCategory_def Category_row_def Category_findById_def
  Category_existsByName_def categories_check_def Category_create_def Category_update_def
  Category_delete_def

end
