(* ===== verification/TrackingSettings.thy ===== *)
theory TrackingSettings imports TrackingStore begin

text \<open>
  The settings of a metric and its logs: the entities \<open>MetricSettings.ts\<close> and \<open>MetricLog.ts\<close>, and their
  repositories. Neither table is paranoid: a deleted row is gone. A read by id joins the live metric of
  the user in the organization, so it is also the access check.
\<close>

section \<open>The settings entity\<close>

text \<open>
  \<open>UpdateMetricSettingsProps\<close>: a property left out is \<open>None\<close>; of those that may be null, \<open>Some None\<close> is
  null. A \<open>Date\<close> the schema let through is valid.
\<close>

record settings_update =
  su_goalEnabled :: "bool option"
  su_goalType :: "goal_type option option"
  su_goalValue :: "js_number option option"
  su_timeFrameEnabled :: "bool option"
  su_startDate :: "int option option"
  su_deadlineDate :: "int option option"
  su_alertEnabled :: "bool option"
  su_alertThresholds :: "int option option"
  su_displayOptions :: "display_options option"
  su_isActive :: "bool option"

definition no_settings_update :: settings_update where
  "no_settings_update = \<lparr>su_goalEnabled = None, su_goalType = None, su_goalValue = None, su_timeFrameEnabled = None,
     su_startDate = None, su_deadlineDate = None, su_alertEnabled = None, su_alertThresholds = None,
     su_displayOptions = None, su_isActive = None\<rparr>"

text \<open>\<open>x == null\<close>: missing or null.\<close>

definition nullish :: "'a option option \<Rightarrow> bool" where
  "nullish v \<longleftrightarrow> v = None \<or> v = Some None"

definition settle_goal :: "settings_update \<Rightarrow> failure + settings_update" where
  "settle_goal u =
     (if su_goalEnabled u = Some False then Inr (u\<lparr>su_goalType := Some None, su_goalValue := Some None\<rparr>)
      else if su_goalEnabled u = Some True \<and> (nullish (su_goalType u) \<or> nullish (su_goalValue u))
        then Inl (DomainError Validation ''goalType and goalValue are required when goalEnabled is true'')
      else Inr u)"

definition settle_time_frame :: "settings_update \<Rightarrow> failure + settings_update" where
  "settle_time_frame u =
     (if su_timeFrameEnabled u = Some False then Inr (u\<lparr>su_startDate := Some None, su_deadlineDate := Some None\<rparr>)
      else if su_timeFrameEnabled u = Some True then
        (case (su_startDate u, su_deadlineDate u) of
           (Some (Some start), Some (Some deadline)) \<Rightarrow>
             if deadline \<le> start then Inl (DomainError Validation ''deadlineDate must be after startDate'') else Inr u
         | _ \<Rightarrow> Inl (DomainError Validation
             ''Valid startDate and deadlineDate required when timeFrameEnabled is true''))
      else Inr u)"

definition settle_alert :: "settings_update \<Rightarrow> failure + settings_update" where
  "settle_alert u =
     (if su_alertEnabled u = Some False then Inr (u\<lparr>su_alertThresholds := Some None\<rparr>)
      else if su_alertEnabled u = Some True \<and> nullish (su_alertThresholds u)
        then Inl (DomainError Validation ''alertThresholds is required when alertEnabled is true'')
      else Inr u)"

definition given :: "'a option \<Rightarrow> 'a \<Rightarrow> 'a" where
  "given v old = (case v of Some x \<Rightarrow> x | None \<Rightarrow> old)"

definition spread_update :: "settings_update \<Rightarrow> metric_settings \<Rightarrow> metric_settings" where
  "spread_update u s = s\<lparr>
     ms_goalEnabled := given (su_goalEnabled u) (ms_goalEnabled s),
     ms_goalType := given (su_goalType u) (ms_goalType s),
     ms_goalValue := given (su_goalValue u) (ms_goalValue s),
     ms_timeFrameEnabled := given (su_timeFrameEnabled u) (ms_timeFrameEnabled s),
     ms_startDate := given (su_startDate u) (ms_startDate s),
     ms_deadlineDate := given (su_deadlineDate u) (ms_deadlineDate s),
     ms_alertEnabled := given (su_alertEnabled u) (ms_alertEnabled s),
     ms_alertThresholds := given (su_alertThresholds u) (ms_alertThresholds s),
     ms_isActive := given (su_isActive u) (ms_isActive s),
     ms_displayOptions := given (su_displayOptions u) (ms_displayOptions s)\<rparr>"

definition Settings_touch :: "platform \<Rightarrow> metric_settings \<Rightarrow> (world, metric_settings) io" where
  "Settings_touch P s = bind (newDate P) (\<lambda>now. return (s\<lparr>ms_updatedAt := now\<rparr>))"

definition Settings_updateDetails :: "platform \<Rightarrow> settings_update \<Rightarrow> metric_settings \<Rightarrow> (world, metric_settings) io" where
  "Settings_updateDetails P u s =
     bind (liftEither (settle_goal u)) (\<lambda>u.
     bind (liftEither (settle_time_frame u)) (\<lambda>u.
     bind (liftEither (settle_alert u)) (\<lambda>u.
     Settings_touch P (spread_update u s))))"

definition Settings_markAchieved :: "platform \<Rightarrow> metric_settings \<Rightarrow> (world, metric_settings) io" where
  "Settings_markAchieved P s = Settings_touch P (s\<lparr>ms_isAchieved := True\<rparr>)"

definition Settings_updateDisplayOptions ::
  "platform \<Rightarrow> display_options \<Rightarrow> metric_settings \<Rightarrow> (world, metric_settings) io" where
  "Settings_updateDisplayOptions P display s = Settings_touch P (s\<lparr>ms_displayOptions := display\<rparr>)"

section \<open>Settings\<close>

definition default_colour :: jstr where
  "default_colour = lit ''#E897A3''"

definition settings_entity :: "settings_row \<Rightarrow> metric_settings" where
  "settings_entity r = (metric_settings.truncate r)\<lparr>ms_displayOptions :=
     (ms_displayOptions r)\<lparr>
       disp_chartType := Some (case disp_chartType (ms_displayOptions r) of Some c \<Rightarrow> c | None \<Rightarrow> lit ''line''),
       disp_color := Some (case disp_color (ms_displayOptions r) of Some c \<Rightarrow> c | None \<Rightarrow> default_colour)\<rparr>\<rparr>"

text \<open>The model's validators, on the values as they will be stored; the first attribute refused is named.\<close>

definition js_le :: "js_number \<Rightarrow> js_number \<Rightarrow> bool" where
  "js_le a b \<longleftrightarrow> js_less a b \<or> a = b \<and> a \<noteq> NaN"

definition settings_validate :: "metric_settings \<Rightarrow> failure option" where
  "settings_validate s =
     (if (case ms_goalValue s of Some v \<Rightarrow> js_le v (Finite 0) | None \<Rightarrow> False) then Some (OrmValidationError ''goalValue'')
      else if (case (ms_startDate s, ms_deadlineDate s) of
          (Some start, Some deadline) \<Rightarrow> deadline \<le> start | _ \<Rightarrow> False)
        then Some (OrmValidationError ''deadlineDate'')
      else if (case ms_alertThresholds s of Some v \<Rightarrow> v < 0 \<or> v > 100 | None \<Rightarrow> False)
        then Some (OrmValidationError ''alertThresholds'')
      else None)"

definition settings_check :: "settings_row \<Rightarrow> settings_row list \<Rightarrow> failure option" where
  "settings_check new others =
     (if \<exists>r \<in> set others. ms_metricId r = ms_metricId new
      then Some (UniqueConstraintError ''uq_metric_settings_metric'') else None)"

definition with_stored_dates :: "platform \<Rightarrow> metric_settings \<Rightarrow> metric_settings" where
  "with_stored_dates P s = s\<lparr>ms_startDate := map_option (dateonly P) (ms_startDate s),
     ms_deadlineDate := map_option (dateonly P) (ms_deadlineDate s)\<rparr>"

record create_settings_dto =
  cs_metricId :: jstr
  cs_organizationId :: jstr
  cs_isActive :: bool
  cs_goalEnabled :: bool
  cs_goalType :: "goal_type option"
  cs_goalValue :: "js_number option"
  cs_timeFrameEnabled :: bool
  cs_startDate :: "int option"
  cs_deadlineDate :: "int option"
  cs_alertEnabled :: bool
  cs_alertThresholds :: "int option"
  cs_isAchieved :: bool
  cs_displayOptions :: display_options

text \<open>\<open>models.MetricSettings.create\<close>: \<open>uq_metric_settings_metric\<close> allows a metric one row.\<close>

definition MetricSettings_create :: "platform \<Rightarrow> create_settings_dto \<Rightarrow> (world, settings_row) io" where
  "MetricSettings_create P data =
     bind (randomUUID P) (\<lambda>id'.
     bind (newDate P) (\<lambda>now.
     let new = with_stored_dates P \<lparr>ms_id = id', ms_metricId = cs_metricId data, ms_isActive = cs_isActive data,
           ms_goalEnabled = cs_goalEnabled data, ms_goalType = cs_goalType data, ms_goalValue = cs_goalValue data,
           ms_timeFrameEnabled = cs_timeFrameEnabled data, ms_startDate = cs_startDate data,
           ms_deadlineDate = cs_deadlineDate data, ms_alertEnabled = cs_alertEnabled data,
           ms_alertThresholds = cs_alertThresholds data, ms_isAchieved = cs_isAchieved data,
           ms_displayOptions = cs_displayOptions data, ms_createdAt = now, ms_updatedAt = now\<rparr>;
         row = metric_settings.extend new \<lparr>ms_organizationId = cs_organizationId data\<rparr> in
     checked (settings_validate new)
       (bind (getsDb metric_settings) (\<lambda>rows.
        checked (settings_check row rows)
          (andThen (modifyDb (\<lambda>d. d\<lparr>metric_settings := metric_settings d @ [row]\<rparr>)) (return row))))))"

definition Settings_create :: "platform \<Rightarrow> create_settings_dto \<Rightarrow> (world, metric_settings) io" where
  "Settings_create P data =
     bind (tryCatch (MetricSettings_create P data) (\<lambda>err.
        if err = UniqueConstraintError ''uq_metric_settings_metric''
        then throw (AppError ''Metric settings already exist for this metric'' 409) else throw err)) (\<lambda>row.
     return (settings_entity row))"

text \<open>\<open>MetricSettingsPortSequelize.createDefault\<close>, run inside the transaction that creates the metric.\<close>

definition default_display :: display_options where
  "default_display = \<lparr>disp_showOnDashboard = True, disp_priority = Some 1, disp_chartType = Some (lit ''line''),
     disp_color = Some default_colour\<rparr>"

definition createDefault :: "platform \<Rightarrow> jstr \<Rightarrow> jstr \<Rightarrow> (world, unit) io" where
  "createDefault P metricId organizationId =
     andThen (MetricSettings_create P \<lparr>cs_metricId = metricId, cs_organizationId = organizationId, cs_isActive = True,
       cs_goalEnabled = False, cs_goalType = None, cs_goalValue = None, cs_timeFrameEnabled = False,
       cs_startDate = None, cs_deadlineDate = None, cs_alertEnabled = False, cs_alertThresholds = Some 80,
       cs_isAchieved = False, cs_displayOptions = default_display\<rparr>) (return ())"

definition Settings_findByMetricId :: "jstr \<Rightarrow> jstr \<Rightarrow> (world, metric_settings option) io" where
  "Settings_findByMetricId organizationId metricId =
     getsDb (\<lambda>d. map_option settings_entity
       (List.find (\<lambda>r. ms_metricId r = metricId \<and> ms_organizationId r = organizationId) (metric_settings d)))"

definition owns_metric :: "database \<Rightarrow> jstr \<Rightarrow> jstr \<Rightarrow> jstr \<Rightarrow> bool" where
  "owns_metric d userId organizationId metricId \<longleftrightarrow>
     list_ex (\<lambda>m. mt_id m = metricId \<and> owned_metric userId organizationId m \<and> live_metric m) (metrics d)"

definition Settings_findById :: "jstr \<Rightarrow> jstr \<Rightarrow> jstr \<Rightarrow> (world, metric_settings option) io" where
  "Settings_findById userId organizationId settingsId =
     getsDb (\<lambda>d. map_option settings_entity
       (List.find (\<lambda>r. ms_id r = settingsId \<and> ms_organizationId r = organizationId \<and>
          owns_metric d userId organizationId (ms_metricId r)) (metric_settings d)))"

text \<open>A bulk update: it stamps the row whether or not a value changed, and runs no hook of the model.\<close>

definition write_settings :: "metric_settings \<Rightarrow> int \<Rightarrow> settings_row \<Rightarrow> settings_row" where
  "write_settings s now r = r\<lparr>ms_isActive := ms_isActive s, ms_goalEnabled := ms_goalEnabled s,
     ms_goalType := ms_goalType s, ms_goalValue := ms_goalValue s, ms_timeFrameEnabled := ms_timeFrameEnabled s,
     ms_startDate := ms_startDate s, ms_deadlineDate := ms_deadlineDate s, ms_alertEnabled := ms_alertEnabled s,
     ms_alertThresholds := ms_alertThresholds s, ms_isAchieved := ms_isAchieved s,
     ms_displayOptions := ms_displayOptions s, ms_updatedAt := now\<rparr>"

definition Settings_save :: "platform \<Rightarrow> jstr \<Rightarrow> metric_settings \<Rightarrow> (world, metric_settings) io" where
  "Settings_save P organizationId s =
     (let snapshot = with_stored_dates P s; here = (\<lambda>r. ms_id r = ms_id s \<and> ms_organizationId r = organizationId) in
      bind (newDate P) (\<lambda>now.
      checked (settings_validate snapshot)
        (andThen (modifyDb (\<lambda>d. d\<lparr>metric_settings := update_where here (write_settings snapshot now) (metric_settings d)\<rparr>))
          (bind (getsDb (\<lambda>d. List.find here (metric_settings d))) (\<lambda>updated.
           case updated of
             None \<Rightarrow> throw (AppError ''Metric Settings not found'' 404)
           | Some r \<Rightarrow> return (settings_entity r))))))"

definition Settings_delete :: "jstr \<Rightarrow> metric_settings \<Rightarrow> (world, unit) io" where
  "Settings_delete organizationId s =
     modifyDb (\<lambda>d. d\<lparr>metric_settings :=
       delete_where (\<lambda>r. ms_id r = ms_id s \<and> ms_organizationId r = organizationId) (metric_settings d)\<rparr>)"

section \<open>The log entity\<close>

definition Log_touch :: "platform \<Rightarrow> metric_log \<Rightarrow> (world, metric_log) io" where
  "Log_touch P l = bind (newDate P) (\<lambda>now. return (l\<lparr>ml_updatedAt := now\<rparr>))"

definition Log_setLogValue :: "platform \<Rightarrow> js_number \<Rightarrow> metric_log \<Rightarrow> (world, metric_log) io" where
  "Log_setLogValue P next l =
     (if \<not> isFinite next then throw (PlainError ''Metric log value must be a finite number'')
      else if js_less next (Finite 0) \<or> js_less (Finite METRIC_LOG_VALUE_MAX) next
        then throw (PlainError ''Metric log value out of supported range'')
      else Log_touch P (l\<lparr>ml_logValue := next\<rparr>))"

definition Log_setType :: "platform \<Rightarrow> log_type \<Rightarrow> metric_log \<Rightarrow> (world, metric_log) io" where
  "Log_setType P next l = Log_touch P (l\<lparr>ml_type := next\<rparr>)"

text \<open>A \<open>Date\<close> that may be invalid: \<open>None\<close> is the invalid one.\<close>

definition Log_setLoggedAt :: "platform \<Rightarrow> int option \<Rightarrow> metric_log \<Rightarrow> (world, metric_log) io" where
  "Log_setLoggedAt P date l = (case date of
      None \<Rightarrow> throw (PlainError ''Metric log timestamp is invalid'')
    | Some t \<Rightarrow> Log_touch P (l\<lparr>ml_loggedAt := t\<rparr>))"

section \<open>Logs\<close>

definition Log_existsAtTimestamp :: "jstr \<Rightarrow> jstr \<Rightarrow> int \<Rightarrow> jstr option \<Rightarrow> (world, bool) io" where
  "Log_existsAtTimestamp organizationId metricId loggedAt excludeLogId =
     getsDb (\<lambda>d. count_where (\<lambda>r. ml_organizationId r = organizationId \<and> ml_metricId r = metricId \<and>
       ml_loggedAt r = loggedAt \<and> excludeLogId \<noteq> Some (ml_id r)) (metric_logs d) > 0)"

definition logs_check :: "log_row \<Rightarrow> log_row list \<Rightarrow> failure option" where
  "logs_check new others =
     (if \<exists>r \<in> set others. ml_metricId r = ml_metricId new \<and> ml_loggedAt r = ml_loggedAt new
      then Some (UniqueConstraintError ''uq_metric_logs_metric_id_logged_at'') else None)"

definition log_validate :: "js_number \<Rightarrow> failure option" where
  "log_validate v = (if js_less v (Finite 0) then Some (OrmValidationError ''logValue'') else None)"

definition Log_create :: "platform \<Rightarrow> jstr \<Rightarrow> jstr \<Rightarrow> js_number \<Rightarrow> log_type \<Rightarrow> int \<Rightarrow> (world, metric_log) io" where
  "Log_create P metricId organizationId logValue type' loggedAt =
     bind (randomUUID P) (\<lambda>id'.
     bind (newDate P) (\<lambda>now.
     let new = \<lparr>ml_id = id', ml_metricId = metricId, ml_logValue = logValue, ml_type = type', ml_loggedAt = loggedAt,
                 ml_createdAt = now, ml_updatedAt = now, ml_organizationId = organizationId\<rparr> in
     checked (log_validate logValue)
       (bind (getsDb metric_logs) (\<lambda>rows.
        checked (logs_check new rows)
          (andThen (modifyDb (\<lambda>d. d\<lparr>metric_logs := metric_logs d @ [new]\<rparr>)) (return (metric_log.truncate new)))))))"

definition Log_findById :: "jstr \<Rightarrow> jstr \<Rightarrow> jstr \<Rightarrow> (world, metric_log option) io" where
  "Log_findById userId organizationId logId =
     getsDb (\<lambda>d. map_option metric_log.truncate
       (List.find (\<lambda>r. ml_id r = logId \<and> ml_organizationId r = organizationId \<and>
          owns_metric d userId organizationId (ml_metricId r)) (metric_logs d)))"

definition Log_save :: "platform \<Rightarrow> jstr \<Rightarrow> metric_log \<Rightarrow> (world, metric_log) io" where
  "Log_save P organizationId l =
     bind (newDate P) (\<lambda>now.
     checked (log_validate (ml_logValue l))
       (bind (getsDb metric_logs) (\<lambda>rows.
        case List.find (\<lambda>r. ml_id r = ml_id l \<and> ml_organizationId r = organizationId) rows of
          None \<Rightarrow> throw (AppError ''Log not found'' 404)
        | Some row \<Rightarrow>
          let stored = row\<lparr>ml_logValue := ml_logValue l, ml_type := ml_type l, ml_loggedAt := ml_loggedAt l,
                ml_updatedAt := now\<rparr> in
          checked (logs_check stored (filter (\<lambda>r. ml_id r \<noteq> ml_id l) rows))
            (andThen (modifyDb (\<lambda>d. d\<lparr>metric_logs := update_where (\<lambda>r. ml_id r = ml_id l \<and>
                ml_organizationId r = organizationId) (\<lambda>_. stored) (metric_logs d)\<rparr>))
              (return (metric_log.truncate stored))))))"

definition Log_delete :: "jstr \<Rightarrow> metric_log \<Rightarrow> (world, unit) io" where
  "Log_delete organizationId l =
     modifyDb (\<lambda>d. d\<lparr>metric_logs :=
       delete_where (\<lambda>r. ml_id r = ml_id l \<and> ml_organizationId r = organizationId) (metric_logs d)\<rparr>)"

lemmas evaluate_TrackingSettings [evaluate] =
  no_settings_update_def nullish_def settle_goal_def settle_time_frame_def settle_alert_def
  given_def spread_update_def Settings_touch_def Settings_updateDetails_def
  Settings_markAchieved_def Settings_updateDisplayOptions_def default_colour_def
  settings_entity_def js_le_def settings_validate_def settings_check_def with_stored_dates_def
  MetricSettings_create_def Settings_create_def default_display_def createDefault_def
  Settings_findByMetricId_def owns_metric_def Settings_findById_def write_settings_def
  Settings_save_def Settings_delete_def Log_touch_def Log_setLogValue_def Log_setType_def
  Log_setLoggedAt_def Log_existsAtTimestamp_def logs_check_def log_validate_def Log_create_def
  Log_findById_def Log_save_def Log_delete_def

end
