(* ===== verification/Messaging.thy ===== *)
theory Messaging imports Frames begin

text \<open>
  What carries the feature's mail and jobs: the email sender, the message queue port, the dedup record
  of \<open>src/shared/infrastructure/queue/SequelizeMessageIdempotency.ts\<close> and the reading of a job's body
  (\<open>src/shared/application/messaging/job-body.ts\<close>).
\<close>

section \<open>Sending and publishing\<close>

text \<open>
  \<open>TimeoutEmailSender\<close> around the configured sender. A send that is given up at the bound, or refused,
  may be delivered all the same.
\<close>

definition EmailSender_send :: "platform \<Rightarrow> email_message \<Rightarrow> (world, unit) io" where
  "EmailSender_send P message = bind newTick (\<lambda>t.
     case mail_result P t message of
       None \<Rightarrow> modify (\<lambda>w. w\<lparr>outbox := outbox w @ [message]\<rparr>)
     | Some e \<Rightarrow> andThen
         (if mail_reaches P t message then modify (\<lambda>w. w\<lparr>outbox := outbox w @ [message]\<rparr>) else return ())
         (throw e))"

definition MessageQueue_isEnabled :: "platform \<Rightarrow> (world, bool) io" where
  "MessageQueue_isEnabled P = bind newTick (\<lambda>t. return (queue_enabled P t))"

text \<open>
  The routing key and the queue of a job go with its kind, so a job is its kind and body. A publish
  fails when it times out, or when the broker returns the message as unroutable.
\<close>

definition MessageQueue_publish :: "platform \<Rightarrow> job \<Rightarrow> jstr \<Rightarrow> (world, unit) io" where
  "MessageQueue_publish P job messageId =
     (let p = \<lparr>pub_job = job, pub_messageId = messageId\<rparr> in
      bind newTick (\<lambda>t.
      case publish_result P t p of
        None \<Rightarrow> modify (\<lambda>w. w\<lparr>jobs := jobs w @ [p]\<rparr>)
      | Some e \<Rightarrow> andThen
          (if publish_reaches P t p then modify (\<lambda>w. w\<lparr>jobs := jobs w @ [p]\<rparr>) else return ())
          (throw e)))"

section \<open>Exactly once\<close>

datatype idempotency_outcome = Processed | Duplicate

definition MAX_MESSAGE_ID_LENGTH :: nat where "MAX_MESSAGE_ID_LENGTH = 36"

definition InvalidMessageIdError :: failure where
  "InvalidMessageIdError = TerminalMessageError ''Refusing message with unusable messageId''"

text \<open>\<open>None\<close> is a message id that is not a string.\<close>

definition usable_message_id :: "jstr option \<Rightarrow> bool" where
  "usable_message_id messageId \<longleftrightarrow>
     (case messageId of None \<Rightarrow> False | Some s \<Rightarrow> length s \<noteq> 0 \<and> \<not> length s > MAX_MESSAGE_ID_LENGTH)"

text \<open>
  \<open>ProcessedMessage.create\<close>: the value says whether the key was already there, which the code
  signals with \<open>DuplicateMessage\<close> to roll back a transaction that has written nothing.
\<close>

definition ProcessedMessage_create :: "jstr \<Rightarrow> jstr \<Rightarrow> (world, bool) io" where
  "ProcessedMessage_create messageId queue =
     (let row = \<lparr>pm_messageId = messageId, pm_queue = queue\<rparr> in
      bind (getsDb processed_messages) (\<lambda>rows.
      if row \<in> set rows then return True
      else andThen (modifyDb (\<lambda>d. d\<lparr>processed_messages := processed_messages d @ [row]\<rparr>)) (return False)))"

definition runOnce_transaction :: "jstr \<Rightarrow> jstr \<Rightarrow> (world, unit) io \<Rightarrow> (world, idempotency_outcome) io" where
  "runOnce_transaction messageId queue work =
     bind (ProcessedMessage_create messageId queue) (\<lambda>duplicate.
     if duplicate then return Duplicate else andThen work (return Processed))"

definition runOnce :: "jstr option \<Rightarrow> jstr \<Rightarrow> (world, unit) io \<Rightarrow> (world, idempotency_outcome) io" where
  "runOnce messageId queue work =
     (if \<not> usable_message_id messageId then throw InvalidMessageIdError
      else runInTransaction (runOnce_transaction (the messageId) queue work))"

section \<open>Job bodies\<close>

text \<open>
  What \<open>JSON.parse\<close> makes of a message's content, as far as the handlers look: not JSON at all, JSON
  that is not an object, or an object with the value of the field asked for, if that is a string.
\<close>

datatype parsed_body = NotJson | NotObject | BodyObject "jstr \<Rightarrow> jstr option"

definition readJobBody :: "parsed_body \<Rightarrow> failure + (jstr \<Rightarrow> jstr option)" where
  "readJobBody body = (case body of
      NotJson \<Rightarrow> Inl (TerminalMessageError ''Refusing message with malformed JSON.'')
    | NotObject \<Rightarrow> Inl (TerminalMessageError ''Refusing message that is not a JSON object.'')
    | BodyObject f \<Rightarrow> Inr f)"

definition is_hex :: "nat \<Rightarrow> bool" where
  "is_hex c \<longleftrightarrow> is_digit c \<or> 97 \<le> c \<and> c \<le> 102 \<or> 65 \<le> c \<and> c \<le> 70"

text \<open>\<open>UUID\<close>: eight, four, four, four and twelve hexadecimal digits with dashes between, in either case.\<close>

definition isUuid :: "jstr \<Rightarrow> bool" where
  "isUuid s \<longleftrightarrow> length s = 36 \<and>
     (\<forall>i \<in> {..<36}. if i \<in> {8, 13, 18, 23} then s ! i = 45 else is_hex (s ! i))"

definition job_id_field :: "parsed_body \<Rightarrow> jstr \<Rightarrow> string \<Rightarrow> failure + jstr" where
  "job_id_field body name refusal = (case readJobBody body of
      Inl e \<Rightarrow> Inl e
    | Inr f \<Rightarrow> (case f name of
        Some v \<Rightarrow> if isUuid v then Inr v else Inl (TerminalMessageError refusal)
      | None \<Rightarrow> Inl (TerminalMessageError refusal)))"

section \<open>Preservation rules\<close>

lemma keeps_outbox_append: "ignores_outbox Q \<Longrightarrow> keeps Q (modify (\<lambda>w. w\<lparr>outbox := outbox w @ x\<rparr>))"
  by (simp add: keeps_def ignores_outbox_def)

lemma keeps_jobs_append: "ignores_jobs Q \<Longrightarrow> keeps Q (modify (\<lambda>w. w\<lparr>jobs := jobs w @ x\<rparr>))"
  by (simp add: keeps_def ignores_jobs_def)

lemma keeps_EmailSender_send [keeps_rules]:
  "ignores_tick Q \<Longrightarrow> ignores_outbox Q \<Longrightarrow> keeps Q (EmailSender_send P m)"
  unfolding EmailSender_send_def by (intro keeps_rules keeps_outbox_append)

lemma keeps_MessageQueue_isEnabled [keeps_rules]: "ignores_tick Q \<Longrightarrow> keeps Q (MessageQueue_isEnabled P)"
  unfolding MessageQueue_isEnabled_def by (intro keeps_rules)

lemma keeps_MessageQueue_publish [keeps_rules]:
  "ignores_tick Q \<Longrightarrow> ignores_jobs Q \<Longrightarrow> keeps Q (MessageQueue_publish P j m)"
  unfolding MessageQueue_publish_def by (intro keeps_rules keeps_jobs_append)

lemma keeps_ProcessedMessage_create [keeps_rules]:
  "ignores_processed_messages Q \<Longrightarrow> keeps Q (ProcessedMessage_create m q)"
  unfolding ProcessedMessage_create_def by (intro keeps_rules)

lemma keeps_runOnce_transaction [keeps_rules]:
  "ignores_processed_messages Q \<Longrightarrow> keeps Q work \<Longrightarrow> keeps Q (runOnce_transaction m q work)"
  unfolding runOnce_transaction_def by (intro keeps_rules)

lemma ticks_grow_runOnce_transaction:
  "ticks_grow work \<Longrightarrow> ticks_grow (runOnce_transaction m q work)"
  by (intro ticks_growI keeps_rules tick_bound_ignores) (simp add: ticks_grow_def)

lemma keeps_runOnce [keeps_rules]:
  "ignores_processed_messages Q \<Longrightarrow> survives_rollback Q \<Longrightarrow> ticks_grow work \<Longrightarrow> keeps Q work \<Longrightarrow>
   keeps Q (runOnce m q work)"
  unfolding runOnce_def by (intro keeps_rules ticks_grow_runOnce_transaction)

lemma ticks_grow_runOnce: "ticks_grow work \<Longrightarrow> ticks_grow (runOnce m q work)"
  by (intro ticks_growI keeps_rules tick_bound_ignores) (simp_all add: ticks_grow_def)

section \<open>Runs\<close>

definition recorded :: "jstr \<Rightarrow> jstr \<Rightarrow> world \<Rightarrow> bool" where
  "recorded messageId queue w \<longleftrightarrow>
     \<lparr>pm_messageId = messageId, pm_queue = queue\<rparr> \<in> set (processed_messages (db w))"

lemma runOnce_recorded:
  "usable_message_id (Some m) \<Longrightarrow> recorded m q w \<Longrightarrow> runOnce (Some m) q work w = (Inr Duplicate, w)"
  by (simp add: runOnce_def runOnce_transaction_def ProcessedMessage_create_def recorded_def
      runInTransaction_def run_bind Let_def)

text \<open>The state the work of a message not yet recorded starts in.\<close>

definition record_message :: "jstr \<Rightarrow> jstr \<Rightarrow> world \<Rightarrow> world" where
  "record_message m q w = w\<lparr>db := (db w)\<lparr>processed_messages :=
     processed_messages (db w) @ [\<lparr>pm_messageId = m, pm_queue = q\<rparr>]\<rparr>\<rparr>"

lemma runOnce_new:
  assumes "usable_message_id (Some m)" "\<not> recorded m q w"
  shows "runOnce (Some m) q work w =
     (case work (record_message m q w) of
        (Inl e, w') \<Rightarrow> (Inl e, w'\<lparr>db := db w\<rparr>)
      | (Inr _, w') \<Rightarrow> (Inr Processed, w'))"
  using assms
  by (simp add: runOnce_def runOnce_transaction_def ProcessedMessage_create_def recorded_def
      record_message_def runInTransaction_def run_bind run_andThen Let_def split: prod.splits sum.splits)

lemma recorded_record_message [simp]: "recorded m q (record_message m q w)"
  by (simp add: recorded_def record_message_def)

text \<open>Work that does not write dedup records leaves its own in place.\<close>

lemma recorded_ignores [simp]:
  "ignores_tick (recorded m q)" "ignores_outbox (recorded m q)" "ignores_jobs (recorded m q)"
  "ignores_lockouts (recorded m q)" "ignores_users (recorded m q)" "ignores_organizations (recorded m q)"
  "ignores_memberships (recorded m q)" "ignores_organization_invites (recorded m q)"
  "ignores_refresh_tokens (recorded m q)" "ignores_password_reset_tokens (recorded m q)"
  "ignores_email_verification_tokens (recorded m q)" "survives_rollback (recorded m q)"
  by (simp_all add: ignores_defs survives_rollback_def recorded_def)

lemma runOnce_records:
  assumes "usable_message_id (Some m)" "keeps (recorded m q) work"
    and "runOnce (Some m) q work w = (Inr out, w')"
  shows "recorded m q w'"
proof (cases "recorded m q w")
  case True
  with assms(1,3) show ?thesis by (simp add: runOnce_recorded)
next
  case False
  with assms(1,3) have "\<exists>x. work (record_message m q w) = (Inr x, w')"
    by (auto simp: runOnce_new split: prod.splits sum.splits)
  with keepsD'[OF assms(2) _ recorded_record_message] show ?thesis by blast
qed

lemmas evaluate_Messaging [evaluate] =
  EmailSender_send_def MessageQueue_isEnabled_def MessageQueue_publish_def
  MAX_MESSAGE_ID_LENGTH_def InvalidMessageIdError_def usable_message_id_def
  ProcessedMessage_create_def runOnce_transaction_def runOnce_def readJobBody_def is_hex_def
  isUuid_def job_id_field_def recorded_def record_message_def

end
