(* ===== verification/Tracking.thy ===== *)
theory Tracking imports TrackingSettings Messaging Digits begin

text \<open>
  The use cases of the tracking features: \<open>application/use-cases\<close> and the reads by id of
  \<open>application/queries\<close> under \<open>src/features/public/metric\<close>, \<open>metric-category\<close>, \<open>metric-settings\<close> and
  \<open>metric-log\<close>. What the read caches hold is not state of the model: a use case's invalidation is the
  one thing it can observe of them, a failure.
\<close>

text \<open>
  Clearing cached reads: nothing to do while Redis is not connected, otherwise as many commands as it
  takes, which fail together. \<open>MetricCacheRedis.invalidateMetrics\<close> catches its own failures, so the metric use
  cases do nothing here; the caches of the other features let theirs through.
\<close>

definition invalidateCaches :: "platform \<Rightarrow> (world, unit) io" where
  "invalidateCaches P = bind newTick (\<lambda>t.
     if redis_open P t \<and> \<not> redis_answers P t then throw (ServiceError ''redis'') else return ())"

section \<open>Metrics\<close>

definition CreateMetric :: "platform \<Rightarrow> create_metric_dto \<Rightarrow> (world, metric) io" where
  "CreateMetric P input =
     bind (Metric_existsByName P (cm_userId input) (cm_organizationId input) (cm_name input)) (\<lambda>exists.
     if exists then throw (DomainError Conflict ''Metric already exists'')
     else bind (case nonempty (cm_categoryId input) of
         Some c \<Rightarrow> Metric_categoryExists (cm_userId input) (cm_organizationId input) c | None \<Rightarrow> return True) (\<lambda>categoryExists.
     if \<not> categoryExists then throw (DomainError Not_found ''Category not found'')
     else bind (case nonempty (cm_originalMetricId input) of
         Some m \<Rightarrow> Metric_originalMetricExists (cm_userId input) m | None \<Rightarrow> return True) (\<lambda>originalExists.
     if \<not> originalExists then throw (DomainError Not_found ''Original metric not found'')
     else runInTransaction
       (bind (Metric_create P input) (\<lambda>metric.
        andThen (createDefault P (mt_id metric) (cm_organizationId input)) (return metric))))))"

definition UpdateMetric ::
  "platform \<Rightarrow> jstr \<Rightarrow> jstr \<Rightarrow> jstr \<Rightarrow> metric_update \<Rightarrow> (world, metric) io" where
  "UpdateMetric P userId organizationId metricId data =
     bind (Metric_findOwnedById userId organizationId metricId) (\<lambda>metric.
     bind (case mu_categoryId data of
         Some (Some c) \<Rightarrow> Metric_categoryExists userId organizationId c | _ \<Rightarrow> return True) (\<lambda>categoryExists.
     if \<not> categoryExists then throw (DomainError Not_found ''Category not found'')
     else bind (case mu_originalMetricId data of
         Some (Some m) \<Rightarrow> Metric_originalMetricExists userId m | _ \<Rightarrow> return True) (\<lambda>originalExists.
     if \<not> originalExists then throw (DomainError Not_found ''Original metric not found'')
     else bind (case mu_name data of
         Some name \<Rightarrow>
           if toLowerCase P (js_trim name) \<noteq> toLowerCase P (js_trim (mt_name metric))
           then Metric_existsByName P userId organizationId name else return False
       | None \<Rightarrow> return False) (\<lambda>nameTaken.
     if nameTaken then throw (DomainError Conflict ''Metric already exists'')
     else if data = no_metric_update then throw (DomainError Validation ''Update payload cannot be empty'')
     else bind (Metric_update P data metric) (\<lambda>metric. Metric_save P organizationId metric)))))"

definition DeleteMetric :: "platform \<Rightarrow> jstr \<Rightarrow> jstr \<Rightarrow> jstr \<Rightarrow> (world, metric) io" where
  "DeleteMetric P userId organizationId metricId =
     bind (Metric_findOwnedById userId organizationId metricId) (\<lambda>metric.
     andThen (Metric_delete P organizationId metric) (return metric))"

text \<open>\<open>Math.floor(Math.random() * n)\<close>, a product the model takes exactly.\<close>

definition random_index :: "platform \<Rightarrow> nat \<Rightarrow> (world, nat) io" where
  "random_index P n = bind newTick (\<lambda>t. return (nat \<lfloor>math_random P t * of_nat n\<rfloor>))"

definition js_integer :: "int \<Rightarrow> jstr" where
  "js_integer n = (if n < 0 then lit ''-'' @ decimal (nat (- n)) else decimal (nat n))"

definition DEFAULT_UNITS :: "jstr list" where
  "DEFAULT_UNITS = [lit ''kg'', lit ''steps'', lit ''ml'', lit ''units'']"

definition create_dummy_metric :: "platform \<Rightarrow> jstr \<Rightarrow> jstr \<Rightarrow> nat \<Rightarrow> (world, metric) io" where
  "create_dummy_metric P userId organizationId i =
     bind (newDate P) (\<lambda>now.
     bind (random_index P (length DEFAULT_UNITS)) (\<lambda>unit'.
     bind newTick (\<lambda>t.
     Metric_create P \<lparr>cm_userId = userId, cm_organizationId = organizationId, cm_categoryId = None,
       cm_originalMetricId = None,
       cm_name = lit ''Dummy Metric '' @ js_integer now @ lit ''-'' @ decimal i,
       cm_description = Some (lit ''This is a dummy metric generated for testing pagination.''),
       cm_defaultUnit = DEFAULT_UNITS ! unit', cm_isPublic = (math_random P t > 1 / 2)\<rparr>)))"

fun collect :: "nat list \<Rightarrow> (nat \<Rightarrow> (world, 'a) io) \<Rightarrow> (world, 'a list) io" where
  "collect [] f = return []"
| "collect (i # is) f = bind (f i) (\<lambda>x. bind (collect is f) (\<lambda>xs. return (x # xs)))"

definition GenerateDummyMetrics :: "platform \<Rightarrow> jstr \<Rightarrow> jstr \<Rightarrow> nat \<Rightarrow> (world, metric list) io" where
  "GenerateDummyMetrics P userId organizationId count =
     runInTransaction (collect [0..<count] (create_dummy_metric P userId organizationId))"

section \<open>Categories\<close>

definition CreateCategory ::
  "platform \<Rightarrow> jstr \<Rightarrow> jstr \<Rightarrow> jstr \<Rightarrow> jstr option \<Rightarrow> jstr option \<Rightarrow> (world, counted_category) io" where
  "CreateCategory P userId organizationId name colour icon =
     bind (Category_existsByName userId organizationId name) (\<lambda>exists.
     if exists then throw (DomainError Conflict ''Category already exists'')
     else bind (Category_create P userId organizationId name colour icon) (\<lambda>category.
     andThen (invalidateCaches P) (return category)))"

definition GetCategory :: "jstr \<Rightarrow> jstr \<Rightarrow> jstr \<Rightarrow> (world, counted_category) io" where
  "GetCategory userId organizationId categoryId =
     bind (Category_findById userId organizationId categoryId) (\<lambda>category.
     case category of
       None \<Rightarrow> throw (DomainError Not_found ''Metric Category not found'')
     | Some c \<Rightarrow> return c)"

definition UpdateCategory ::
  "platform \<Rightarrow> jstr \<Rightarrow> jstr \<Rightarrow> jstr \<Rightarrow> jstr option \<Rightarrow> jstr option \<Rightarrow> jstr option \<Rightarrow> (world, counted_category) io" where
  "UpdateCategory P userId organizationId categoryId name colour icon =
     bind (Category_findById userId organizationId categoryId) (\<lambda>found.
     case found of
       None \<Rightarrow> throw (DomainError Not_found ''Metric Category not found'')
     | Some current \<Rightarrow>
       bind (case nonempty name of
           Some n \<Rightarrow> if n \<noteq> mc_name current then Category_existsByName userId organizationId n else return False
         | None \<Rightarrow> return False) (\<lambda>exists.
       if exists then throw (DomainError Conflict ''Metric Category name already exists'')
       else bind (Category_update P userId organizationId categoryId name colour icon) (\<lambda>updated.
       andThen (invalidateCaches P) (return updated))))"

definition DeleteCategory :: "platform \<Rightarrow> jstr \<Rightarrow> jstr \<Rightarrow> jstr \<Rightarrow> (world, unit) io" where
  "DeleteCategory P userId organizationId categoryId =
     bind (Category_findById userId organizationId categoryId) (\<lambda>category.
     case category of
       None \<Rightarrow> throw (DomainError Not_found ''Metric Category not found'')
     | Some _ \<Rightarrow> andThen (Category_delete P userId organizationId categoryId) (invalidateCaches P))"

text \<open>
  The value objects of the domain and the factory over them. Only \<open>GenerateDummyCategories\<close> goes through
  them: \<open>CreateCategory\<close> and \<open>UpdateCategory\<close> write the text of the request.
\<close>

definition MetricCategoryName_create :: "jstr \<Rightarrow> failure + jstr" where
  "MetricCategoryName_create raw =
     (let trimmed = js_trim raw in
      if length trimmed = 0 then Inl (PlainError ''Category name is required'')
      else if length trimmed > 64 then Inl (PlainError ''Category name is too long'')
      else Inr trimmed)"

definition is_hex_colour :: "jstr \<Rightarrow> bool" where
  "is_hex_colour s \<longleftrightarrow> s \<noteq> [] \<and> hd s = 35 \<and> length (tl s) \<in> {6, 3} \<and> list_all is_hex (tl s)"

definition MetricCategoryColor_create :: "jstr option \<Rightarrow> failure + jstr" where
  "MetricCategoryColor_create raw =
     (let colour = (case nonempty (map_option js_trim raw) of Some c \<Rightarrow> c | None \<Rightarrow> lit ''#E897A3.js'') in
      if \<not> is_hex_colour colour then Inl (PlainError ''Color must be a valid hex code'') else Inr colour)"

definition MetricCategoryIcon_create :: "jstr option \<Rightarrow> jstr" where
  "MetricCategoryIcon_create raw =
     take 2 (case nonempty (map_option js_trim raw) of Some i \<Rightarrow> i | None \<Rightarrow> [55357, 56513] @ lit ''.js'')"

definition MetricCategory_create ::
  "platform \<Rightarrow> jstr \<Rightarrow> jstr \<Rightarrow> jstr option \<Rightarrow> jstr option \<Rightarrow> (world, metric_category) io" where
  "MetricCategory_create P userId name colour icon =
     bind (randomUUID P) (\<lambda>id'.
     bind (liftEither (MetricCategoryName_create name)) (\<lambda>name.
     bind (liftEither (MetricCategoryColor_create colour)) (\<lambda>colour.
     bind (newDate P) (\<lambda>created.
     bind (newDate P) (\<lambda>updated.
     return \<lparr>mc_id = id', mc_userId = userId, mc_name = name, mc_color = colour,
       mc_icon = MetricCategoryIcon_create icon, mc_createdAt = created, mc_updatedAt = updated, mc_deletedAt = None\<rparr>)))))"

definition FALLBACK_NAMES :: "jstr list" where
  "FALLBACK_NAMES = [lit ''Health'', lit ''Mindfulness'', lit ''Productivity'', lit ''Nutrition'', lit ''Fitness'',
     lit ''Sleep'', lit ''Relationships'']"

definition FALLBACK_COLORS :: "jstr list" where
  "FALLBACK_COLORS = [lit ''#FF6347'', lit ''#FFD700'', lit ''#ADFF2F'', lit ''#6495ED'', lit ''#DA70D6'']"

definition FALLBACK_ICONS :: "jstr list" where
  "FALLBACK_ICONS = [[55357, 56538], [55357, 56481], [55357, 56490], [55356, 57137], [55356, 57119],
     [55358, 56800], [55357, 56484]]"

definition MetricCategoryFactory_generate :: "platform \<Rightarrow> jstr \<Rightarrow> (world, metric_category) io" where
  "MetricCategoryFactory_generate P userId =
     bind (random_index P (length FALLBACK_NAMES)) (\<lambda>i.
     bind (random_index P 1000) (\<lambda>n.
     bind (random_index P (length FALLBACK_COLORS)) (\<lambda>c.
     bind (random_index P (length FALLBACK_ICONS)) (\<lambda>k.
     bind (liftEither (MetricCategoryName_create (FALLBACK_NAMES ! i @ lit '' '' @ decimal n))) (\<lambda>name.
     bind (liftEither (MetricCategoryColor_create (Some (FALLBACK_COLORS ! c)))) (\<lambda>colour.
     MetricCategory_create P userId name (Some colour)
       (Some (MetricCategoryIcon_create (Some (FALLBACK_ICONS ! k))))))))))"

definition create_dummy_category :: "platform \<Rightarrow> jstr \<Rightarrow> jstr \<Rightarrow> (world, counted_category) io" where
  "create_dummy_category P userId organizationId =
     bind (MetricCategoryFactory_generate P userId) (\<lambda>aggregate.
     Category_create P userId organizationId (mc_name aggregate) (Some (mc_color aggregate)) (Some (mc_icon aggregate)))"

definition GenerateDummyCategories :: "platform \<Rightarrow> jstr \<Rightarrow> jstr \<Rightarrow> nat \<Rightarrow> (world, counted_category list) io" where
  "GenerateDummyCategories P userId organizationId count =
     bind (collect [0..<count] (\<lambda>_. create_dummy_category P userId organizationId)) (\<lambda>created.
     andThen (invalidateCaches P) (return created))"

section \<open>Settings\<close>

definition authenticated :: "jstr \<Rightarrow> (world, unit) io" where
  "authenticated userId =
     (if userId = [] then throw (DomainError Unauthorized ''User not authenticated'') else return ())"

text \<open>What the request may leave out of the options of a new row.\<close>

record display_patch =
  dp_showOnDashboard :: "bool option"
  dp_priority :: "int option"
  dp_chartType :: "jstr option"
  dp_color :: "jstr option"

record create_settings_input =
  csi_userId :: jstr
  csi_organizationId :: jstr
  csi_metricId :: jstr
  csi_isActive :: "bool option"
  csi_goalEnabled :: "bool option"
  csi_goalType :: "goal_type option"
  csi_goalValue :: "js_number option"
  csi_timeFrameEnabled :: "bool option"
  csi_startDate :: "int option"
  csi_deadlineDate :: "int option"
  csi_alertEnabled :: "bool option"
  csi_alertThresholds :: "int option"
  csi_displayOptions :: "display_patch option"

definition patched_display :: "display_patch \<Rightarrow> display_options \<Rightarrow> display_options" where
  "patched_display p d = \<lparr>disp_showOnDashboard = given (dp_showOnDashboard p) (disp_showOnDashboard d),
     disp_priority = (case dp_priority p of Some x \<Rightarrow> Some x | None \<Rightarrow> disp_priority d),
     disp_chartType = (case dp_chartType p of Some x \<Rightarrow> Some x | None \<Rightarrow> disp_chartType d),
     disp_color = (case dp_color p of Some x \<Rightarrow> Some x | None \<Rightarrow> disp_color d)\<rparr>"

definition settings_dto :: "create_settings_input \<Rightarrow> create_settings_dto" where
  "settings_dto input = \<lparr>cs_metricId = csi_metricId input, cs_organizationId = csi_organizationId input,
     cs_isActive = given (csi_isActive input) True, cs_goalEnabled = given (csi_goalEnabled input) False,
     cs_goalType = csi_goalType input, cs_goalValue = csi_goalValue input,
     cs_timeFrameEnabled = given (csi_timeFrameEnabled input) False, cs_startDate = csi_startDate input,
     cs_deadlineDate = csi_deadlineDate input, cs_alertEnabled = given (csi_alertEnabled input) False,
     cs_alertThresholds = (case csi_alertThresholds input of
        Some v \<Rightarrow> Some v | None \<Rightarrow> if csi_alertEnabled input = Some True then Some 80 else None),
     cs_isAchieved = False,
     cs_displayOptions = (case csi_displayOptions input of
        Some p \<Rightarrow> patched_display p default_display | None \<Rightarrow> default_display)\<rparr>"

definition CreateMetricSettings :: "platform \<Rightarrow> create_settings_input \<Rightarrow> (world, metric_settings) io" where
  "CreateMetricSettings P input =
     andThen (authenticated (csi_userId input))
     (andThen (validateMetricAccess (csi_userId input) (csi_organizationId input) (csi_metricId input))
     (bind (Settings_findByMetricId (csi_organizationId input) (csi_metricId input)) (\<lambda>existing.
      if existing \<noteq> None then throw (DomainError Conflict ''Metric settings already exist for this metric'')
      else bind (Settings_create P (settings_dto input)) (\<lambda>created.
      andThen (invalidateCaches P) (return created)))))"

definition GetMetricSettings :: "jstr \<Rightarrow> jstr \<Rightarrow> jstr \<Rightarrow> (world, metric_settings) io" where
  "GetMetricSettings userId organizationId settingsId =
     andThen (authenticated userId)
     (bind (Settings_findById userId organizationId settingsId) (\<lambda>found.
      case found of None \<Rightarrow> throw (DomainError Not_found ''Metric Settings not found'') | Some s \<Rightarrow> return s))"

text \<open>The three updates read the row, change it, write it back and clear the caches.\<close>

definition changing_settings ::
  "platform \<Rightarrow> jstr \<Rightarrow> jstr \<Rightarrow> jstr \<Rightarrow> (metric_settings \<Rightarrow> (world, metric_settings) io) \<Rightarrow> (world, metric_settings) io" where
  "changing_settings P userId organizationId settingsId change =
     andThen (authenticated userId)
     (bind (Settings_findById userId organizationId settingsId) (\<lambda>found.
      case found of
        None \<Rightarrow> throw (DomainError Not_found ''Metric Settings not found'')
      | Some settings \<Rightarrow>
        bind (change settings) (\<lambda>settings.
        bind (Settings_save P organizationId settings) (\<lambda>saved.
        andThen (invalidateCaches P) (return saved)))))"

text \<open>The payload has no \<open>isActive\<close>; dates without \<open>timeFrameEnabled\<close> enable the time frame.\<close>

definition settings_update_of :: "settings_update \<Rightarrow> settings_update" where
  "settings_update_of payload =
     (let update = payload\<lparr>su_isActive := None\<rparr> in
      if su_timeFrameEnabled update = None \<and> (su_startDate update \<noteq> None \<or> su_deadlineDate update \<noteq> None)
      then update\<lparr>su_timeFrameEnabled := Some True\<rparr> else update)"

definition UpdateMetricSettings ::
  "platform \<Rightarrow> jstr \<Rightarrow> jstr \<Rightarrow> jstr \<Rightarrow> settings_update \<Rightarrow> (world, metric_settings) io" where
  "UpdateMetricSettings P userId organizationId settingsId payload =
     changing_settings P userId organizationId settingsId (Settings_updateDetails P (settings_update_of payload))"

definition UpdateGoalAchievement :: "platform \<Rightarrow> jstr \<Rightarrow> jstr \<Rightarrow> jstr \<Rightarrow> (world, metric_settings) io" where
  "UpdateGoalAchievement P userId organizationId settingsId =
     changing_settings P userId organizationId settingsId (Settings_markAchieved P)"

definition UpdateDisplayOptions ::
  "platform \<Rightarrow> jstr \<Rightarrow> jstr \<Rightarrow> jstr \<Rightarrow> display_patch \<Rightarrow> (world, metric_settings) io" where
  "UpdateDisplayOptions P userId organizationId settingsId patch =
     changing_settings P userId organizationId settingsId (\<lambda>settings.
       Settings_updateDisplayOptions P (patched_display patch (ms_displayOptions settings)) settings)"

definition DeleteMetricSettings :: "platform \<Rightarrow> jstr \<Rightarrow> jstr \<Rightarrow> jstr \<Rightarrow> (world, unit) io" where
  "DeleteMetricSettings P userId organizationId settingsId =
     andThen (authenticated userId)
     (bind (Settings_findById userId organizationId settingsId) (\<lambda>found.
      case found of
        None \<Rightarrow> throw (DomainError Not_found ''Metric Settings not found'')
      | Some settings \<Rightarrow> andThen (Settings_delete organizationId settings) (invalidateCaches P)))"

section \<open>Logs\<close>

text \<open>A date a caller hands in: a \<open>Date\<close>, which may be the invalid one, or text.\<close>

datatype date_input = DateValue "int option" | DateText jstr

definition parseIsoToDate :: "platform \<Rightarrow> jstr \<Rightarrow> (world, int) io" where
  "parseIsoToDate P text' = (case date_parse P text' of
      None \<Rightarrow> throw (PlainError ''Invalid ISO date-time'') | Some t \<Rightarrow> return t)"

record create_log_input =
  cl_userId :: jstr
  cl_organizationId :: jstr
  cl_metricId :: jstr
  cl_logValue :: js_number
  cl_type :: "log_type option"
  cl_loggedAt :: "date_input option"

definition log_timestamp :: "platform \<Rightarrow> date_input option \<Rightarrow> (world, int option) io" where
  "log_timestamp P input = (case input of
      Some (DateValue d) \<Rightarrow> return d
    | Some (DateText s) \<Rightarrow>
        if s = [] then bind (newDate P) (\<lambda>now. return (Some now)) else bind (parseIsoToDate P s) (\<lambda>t. return (Some t))
    | None \<Rightarrow> bind (newDate P) (\<lambda>now. return (Some now)))"

definition log_conflict :: failure where
  "log_conflict = DomainError Conflict ''A log entry already exists for this timestamp for this metric''"

definition CreateMetricLog :: "platform \<Rightarrow> create_log_input \<Rightarrow> (world, metric_log) io" where
  "CreateMetricLog P input =
     (if cl_metricId input = [] then throw (DomainError Validation ''metricId is required'')
      else andThen (validateMetricAccess (cl_userId input) (cl_organizationId input) (cl_metricId input))
        (bind (log_timestamp P (cl_loggedAt input)) (\<lambda>timestamp.
         case timestamp of
           None \<Rightarrow> throw (DomainError Validation ''loggedAt is invalid'')
         | Some t \<Rightarrow>
           bind (Log_existsAtTimestamp (cl_organizationId input) (cl_metricId input) t None) (\<lambda>exists.
           if exists then throw log_conflict
           else bind (Log_create P (cl_metricId input) (cl_organizationId input) (cl_logValue input)
                (given (cl_type input) Manual) t) (\<lambda>entry.
           andThen (invalidateCaches P) (return entry))))))"

definition GetMetricLog :: "jstr \<Rightarrow> jstr \<Rightarrow> jstr \<Rightarrow> (world, metric_log) io" where
  "GetMetricLog userId organizationId logId =
     bind (Log_findById userId organizationId logId) (\<lambda>entry.
     case entry of None \<Rightarrow> throw (DomainError Not_found ''Log not found'') | Some l \<Rightarrow> return l)"

text \<open>
  Every error of \<open>setLogValue\<close> is an \<open>Error\<close> with a message. Empty text is parsed to \<open>undefined\<close>, on which
  \<open>getTime\<close> fails.
\<close>

definition change_value :: "platform \<Rightarrow> js_number \<Rightarrow> metric_log \<Rightarrow> (world, metric_log) io" where
  "change_value P v l = tryCatch (Log_setLogValue P v l) (\<lambda>error.
     case error of PlainError message \<Rightarrow> throw (DomainError Validation message) | _ \<Rightarrow> throw error)"

definition change_loggedAt :: "platform \<Rightarrow> jstr \<Rightarrow> date_input \<Rightarrow> metric_log \<Rightarrow> (world, metric_log) io" where
  "change_loggedAt P organizationId input l =
     bind (case input of
         DateValue d \<Rightarrow> return d
       | DateText s \<Rightarrow> if s = [] then throw (PlainError ''TypeError'') else bind (parseIsoToDate P s) (\<lambda>t. return (Some t)))
     (\<lambda>timestamp. case timestamp of
        None \<Rightarrow> throw (DomainError Validation ''loggedAt is invalid'')
      | Some t \<Rightarrow>
        bind (Log_existsAtTimestamp organizationId (ml_metricId l) t (Some (ml_id l))) (\<lambda>exists.
        if exists then throw log_conflict else Log_setLoggedAt P (Some t) l))"

record log_update =
  lu_logValue :: "js_number option"
  lu_type :: "log_type option"
  lu_loggedAt :: "date_input option"

definition UpdateMetricLog :: "platform \<Rightarrow> jstr \<Rightarrow> jstr \<Rightarrow> jstr \<Rightarrow> log_update \<Rightarrow> (world, metric_log) io" where
  "UpdateMetricLog P userId organizationId logId updates =
     bind (Log_findById userId organizationId logId) (\<lambda>found.
     case found of
       None \<Rightarrow> throw (DomainError Not_found ''Log not found'')
     | Some entry \<Rightarrow>
       bind (when_given (lu_logValue updates) (change_value P) entry) (\<lambda>entry.
       bind (when_given (lu_type updates) (Log_setType P) entry) (\<lambda>entry.
       bind (when_given (lu_loggedAt updates) (change_loggedAt P organizationId) entry) (\<lambda>entry.
       bind (Log_save P organizationId entry) (\<lambda>saved.
       andThen (invalidateCaches P) (return saved))))))"

definition DeleteMetricLog :: "platform \<Rightarrow> jstr \<Rightarrow> jstr \<Rightarrow> jstr \<Rightarrow> (world, metric_log) io" where
  "DeleteMetricLog P userId organizationId logId =
     bind (Log_findById userId organizationId logId) (\<lambda>found.
     case found of
       None \<Rightarrow> throw (DomainError Not_found ''Log not found'')
     | Some entry \<Rightarrow> andThen (Log_delete organizationId entry) (andThen (invalidateCaches P) (return entry)))"

section \<open>Dummy logs\<close>

definition MAX_DUMMY_METRIC_LOGS :: nat where "MAX_DUMMY_METRIC_LOGS = 1000"

definition create_dummy_log :: "platform \<Rightarrow> jstr \<Rightarrow> jstr \<Rightarrow> (world, unit) io" where
  "create_dummy_log P metricId organizationId =
     bind newTick (\<lambda>t.
     bind (newDate P) (\<lambda>now.
     bind (random_index P 30) (\<lambda>days.
     bind (random_index P 2) (\<lambda>k.
     andThen (Log_create P metricId organizationId
        (Finite (of_int \<lfloor>math_random P t * 100 * 100 + 1 / 2\<rfloor> / 100)) ([Manual, Automatic] ! k)
        (now - int days * 24 * 60 * 60 * 1000))
       (return ())))))"

definition GenerateDummyMetricLogs :: "platform \<Rightarrow> jstr \<Rightarrow> jstr \<Rightarrow> jstr \<Rightarrow> nat \<Rightarrow> (world, jstr) io" where
  "GenerateDummyMetricLogs P userId organizationId metricId count =
     andThen (validateMetricAccess userId organizationId metricId)
     (bind (randomUUID P) (\<lambda>jobId.
      bind (MessageQueue_isEnabled P) (\<lambda>enabled.
      if enabled then
        andThen (MessageQueue_publish P (DummyLogsJob jobId userId organizationId metricId count) jobId) (return jobId)
      else andThen (forEach [0..<count] (\<lambda>_. create_dummy_log P metricId organizationId))
        (andThen (invalidateCaches P) (return jobId)))))"

text \<open>
  \<open>parseJob\<close>: the count is what the body's field holds, if that is a number.
\<close>

record dummy_job =
  dj_userId :: jstr
  dj_organizationId :: jstr
  dj_metricId :: jstr
  dj_count :: nat

definition dummy_count :: "js_number option \<Rightarrow> nat option" where
  "dummy_count v = (case v of
      Some (Finite q) \<Rightarrow>
        if q = of_int \<lfloor>q\<rfloor> \<and> 1 \<le> q \<and> q \<le> of_nat MAX_DUMMY_METRIC_LOGS then Some (nat \<lfloor>q\<rfloor>) else None
    | _ \<Rightarrow> None)"

definition parseJob :: "parsed_body \<Rightarrow> js_number option \<Rightarrow> failure + dummy_job" where
  "parseJob body count =
     (let id = (\<lambda>name. job_id_field body (lit name) ''Refusing dummy-logs job without its ids as UUIDs.'') in
      case id ''jobId'' of Inl e \<Rightarrow> Inl e | Inr _ \<Rightarrow>
     (case id ''userId'' of Inl e \<Rightarrow> Inl e | Inr u \<Rightarrow>
     (case id ''organizationId'' of Inl e \<Rightarrow> Inl e | Inr v \<Rightarrow>
     (case id ''metricId'' of Inl e \<Rightarrow> Inl e | Inr m \<Rightarrow>
     (case dummy_count count of
        None \<Rightarrow> Inl (TerminalMessageError
          ''Refusing dummy-logs job whose count is not a whole number from 1 to 1000.'')
      | Some n \<Rightarrow> Inr \<lparr>dj_userId = u, dj_organizationId = v, dj_metricId = m, dj_count = n\<rparr>)))))"

definition terminal_access :: "failure \<Rightarrow> failure" where
  "terminal_access e = (case e of
      DomainError kind message \<Rightarrow>
        if kind \<in> {Unauthorized, Forbidden, Not_found} then TerminalMessageError message else e
    | _ \<Rightarrow> e)"

definition GenerateDummyMetricLogsHandler ::
  "platform \<Rightarrow> parsed_body \<Rightarrow> js_number option \<Rightarrow> jstr option \<Rightarrow> jstr \<Rightarrow> (world, unit) io" where
  "GenerateDummyMetricLogsHandler P body count messageId queue =
     bind (liftEither (parseJob body count)) (\<lambda>job.
     andThen (tryCatch (validateMetricAccess (dj_userId job) (dj_organizationId job) (dj_metricId job))
        (\<lambda>error. throw (terminal_access error)))
     (andThen (runOnce messageId queue
        (forEach [0..<dj_count job] (\<lambda>_. create_dummy_log P (dj_metricId job) (dj_organizationId job))))
       (invalidateCaches P)))"

lemmas evaluate_Tracking [evaluate] =
  invalidateCaches_def CreateMetric_def UpdateMetric_def DeleteMetric_def random_index_def
  js_integer_def DEFAULT_UNITS_def create_dummy_metric_def GenerateDummyMetrics_def
  CreateCategory_def GetCategory_def UpdateCategory_def DeleteCategory_def
  MetricCategoryName_create_def is_hex_colour_def MetricCategoryColor_create_def
  MetricCategoryIcon_create_def MetricCategory_create_def FALLBACK_NAMES_def FALLBACK_COLORS_def
  FALLBACK_ICONS_def MetricCategoryFactory_generate_def create_dummy_category_def
  GenerateDummyCategories_def authenticated_def patched_display_def settings_dto_def
  CreateMetricSettings_def GetMetricSettings_def changing_settings_def settings_update_of_def
  UpdateMetricSettings_def UpdateGoalAchievement_def UpdateDisplayOptions_def
  DeleteMetricSettings_def parseIsoToDate_def log_timestamp_def log_conflict_def
  CreateMetricLog_def GetMetricLog_def change_value_def change_loggedAt_def UpdateMetricLog_def
  DeleteMetricLog_def MAX_DUMMY_METRIC_LOGS_def create_dummy_log_def GenerateDummyMetricLogs_def
  dummy_count_def parseJob_def terminal_access_def GenerateDummyMetricLogsHandler_def

end
