(* ===== verification/TrackingFrames.thy ===== *)
theory TrackingFrames imports Tracking begin

text \<open>
  What each call of the tracking features leaves alone, in the manner of \<open>Frames\<close>: a predicate that
  ignores the tables a call writes survives it.
\<close>

definition ignores_metrics :: "(world \<Rightarrow> bool) \<Rightarrow> bool" where
  "ignores_metrics Q \<longleftrightarrow> (\<forall>w x. Q w \<longrightarrow> Q (w\<lparr>db := (db w)\<lparr>metrics := x\<rparr>\<rparr>))"

definition ignores_metric_categories :: "(world \<Rightarrow> bool) \<Rightarrow> bool" where
  "ignores_metric_categories Q \<longleftrightarrow> (\<forall>w x. Q w \<longrightarrow> Q (w\<lparr>db := (db w)\<lparr>metric_categories := x\<rparr>\<rparr>))"

definition ignores_metric_settings :: "(world \<Rightarrow> bool) \<Rightarrow> bool" where
  "ignores_metric_settings Q \<longleftrightarrow> (\<forall>w x. Q w \<longrightarrow> Q (w\<lparr>db := (db w)\<lparr>metric_settings := x\<rparr>\<rparr>))"

definition ignores_metric_logs :: "(world \<Rightarrow> bool) \<Rightarrow> bool" where
  "ignores_metric_logs Q \<longleftrightarrow> (\<forall>w x. Q w \<longrightarrow> Q (w\<lparr>db := (db w)\<lparr>metric_logs := x\<rparr>\<rparr>))"

lemmas ignores_tracking_defs =
  ignores_metrics_def ignores_metric_categories_def ignores_metric_settings_def ignores_metric_logs_def

lemma keeps_write_metrics [keeps_rules]:
  "ignores_metrics Q \<Longrightarrow> keeps Q (modifyDb (\<lambda>d. d\<lparr>metrics := f d\<rparr>))"
  by (simp add: keeps_def ignores_metrics_def)

lemma keeps_write_metric_categories [keeps_rules]:
  "ignores_metric_categories Q \<Longrightarrow> keeps Q (modifyDb (\<lambda>d. d\<lparr>metric_categories := f d\<rparr>))"
  by (simp add: keeps_def ignores_metric_categories_def)

lemma keeps_write_metric_settings [keeps_rules]:
  "ignores_metric_settings Q \<Longrightarrow> keeps Q (modifyDb (\<lambda>d. d\<lparr>metric_settings := f d\<rparr>))"
  by (simp add: keeps_def ignores_metric_settings_def)

lemma keeps_write_metric_logs [keeps_rules]:
  "ignores_metric_logs Q \<Longrightarrow> keeps Q (modifyDb (\<lambda>d. d\<lparr>metric_logs := f d\<rparr>))"
  by (simp add: keeps_def ignores_metric_logs_def)

lemma tick_bound_ignores_tracking [simp]:
  "ignores_metrics (\<lambda>w. k \<le> tick w)" "ignores_metric_categories (\<lambda>w. k \<le> tick w)"
  "ignores_metric_settings (\<lambda>w. k \<le> tick w)" "ignores_metric_logs (\<lambda>w. k \<le> tick w)"
  by (simp_all add: ignores_tracking_defs)

section \<open>Metrics\<close>

lemma keeps_when_given [keeps_rules]: "(\<And>v x. keeps Q (f v x)) \<Longrightarrow> keeps Q (when_given v f x)"
  by (auto simp: when_given_def intro: keeps_return split: option.splits)

lemma keeps_Metric_touch [keeps_rules]: "ignores_tick Q \<Longrightarrow> keeps Q (Metric_touch P m)"
  unfolding Metric_touch_def by (intro keeps_rules)

lemma keeps_Metric_rename [keeps_rules]: "ignores_tick Q \<Longrightarrow> keeps Q (Metric_rename P s m)"
  unfolding Metric_rename_def by (intro keeps_rules)

lemma keeps_Metric_describe [keeps_rules]: "ignores_tick Q \<Longrightarrow> keeps Q (Metric_describe P s m)"
  unfolding Metric_describe_def by (intro keeps_rules)

lemma keeps_Metric_setDefaultUnit [keeps_rules]:
  "ignores_tick Q \<Longrightarrow> keeps Q (Metric_setDefaultUnit P s m)"
  unfolding Metric_setDefaultUnit_def by (intro keeps_rules)

lemma keeps_Metric_moveToCategory [keeps_rules]:
  "ignores_tick Q \<Longrightarrow> keeps Q (Metric_moveToCategory P s m)"
  unfolding Metric_moveToCategory_def by (intro keeps_rules)

lemma keeps_Metric_setOriginalMetric [keeps_rules]:
  "ignores_tick Q \<Longrightarrow> keeps Q (Metric_setOriginalMetric P s m)"
  unfolding Metric_setOriginalMetric_def by (intro keeps_rules)

lemma keeps_Metric_togglePublic [keeps_rules]: "ignores_tick Q \<Longrightarrow> keeps Q (Metric_togglePublic P b m)"
  unfolding Metric_togglePublic_def by (intro keeps_rules)

lemma keeps_Metric_update [keeps_rules]: "ignores_tick Q \<Longrightarrow> keeps Q (Metric_update P u m)"
  unfolding Metric_update_def by (intro keeps_rules)

lemma keeps_Metric_existsByName [keeps_rules]: "keeps Q (Metric_existsByName P u v s)"
  unfolding Metric_existsByName_def by (intro keeps_rules)

lemma keeps_Metric_categoryExists [keeps_rules]: "keeps Q (Metric_categoryExists u v c)"
  unfolding Metric_categoryExists_def by (intro keeps_rules)

lemma keeps_Metric_originalMetricExists [keeps_rules]: "keeps Q (Metric_originalMetricExists u m)"
  unfolding Metric_originalMetricExists_def by (intro keeps_rules)

lemma keeps_Metric_row [keeps_rules]: "keeps Q (Metric_row u v m)"
  unfolding Metric_row_def by (intro keeps_rules)

lemma keeps_Metric_findOwnedById [keeps_rules]: "keeps Q (Metric_findOwnedById u v m)"
  unfolding Metric_findOwnedById_def by (intro keeps_rules)

lemma keeps_validateMetricAccess [keeps_rules]: "keeps Q (validateMetricAccess u v m)"
  unfolding validateMetricAccess_def by (intro keeps_rules)

lemma keeps_Metric_create [keeps_rules]:
  "ignores_tick Q \<Longrightarrow> ignores_metrics Q \<Longrightarrow> keeps Q (Metric_create P x)"
  unfolding Metric_create_def by (intro keeps_rules)

lemma keeps_Metric_write [keeps_rules]: "ignores_metrics Q \<Longrightarrow> keeps Q (Metric_write P r)"
  unfolding Metric_write_def by (intro keeps_rules)

lemma keeps_Metric_save [keeps_rules]:
  "ignores_tick Q \<Longrightarrow> ignores_metrics Q \<Longrightarrow> keeps Q (Metric_save P v m)"
  unfolding Metric_save_def by (intro keeps_rules)

lemma keeps_Metric_delete [keeps_rules]:
  "ignores_tick Q \<Longrightarrow> ignores_metrics Q \<Longrightarrow> keeps Q (Metric_delete P v m)"
  unfolding Metric_delete_def by (intro keeps_rules)

section \<open>Categories\<close>

lemma keeps_Category_row [keeps_rules]: "keeps Q (Category_row u v c)"
  unfolding Category_row_def by (intro keeps_rules)

lemma keeps_Category_findById [keeps_rules]: "keeps Q (Category_findById u v c)"
  unfolding Category_findById_def by (intro keeps_rules)

lemma keeps_Category_existsByName [keeps_rules]: "keeps Q (Category_existsByName u v n)"
  unfolding Category_existsByName_def by (intro keeps_rules)

lemma keeps_Category_create [keeps_rules]:
  "ignores_tick Q \<Longrightarrow> ignores_metric_categories Q \<Longrightarrow> keeps Q (Category_create P u v n c i)"
  unfolding Category_create_def by (intro keeps_rules)

lemma keeps_Category_update [keeps_rules]:
  "ignores_tick Q \<Longrightarrow> ignores_metric_categories Q \<Longrightarrow> keeps Q (Category_update P u v k n c i)"
  unfolding Category_update_def by (intro keeps_rules)

lemma keeps_Category_delete [keeps_rules]:
  "ignores_tick Q \<Longrightarrow> ignores_metric_categories Q \<Longrightarrow> keeps Q (Category_delete P u v k)"
  unfolding Category_delete_def by (intro keeps_rules)

section \<open>Settings\<close>

lemma keeps_Settings_touch [keeps_rules]: "ignores_tick Q \<Longrightarrow> keeps Q (Settings_touch P s)"
  unfolding Settings_touch_def by (intro keeps_rules)

lemma keeps_Settings_updateDetails [keeps_rules]:
  "ignores_tick Q \<Longrightarrow> keeps Q (Settings_updateDetails P u s)"
  unfolding Settings_updateDetails_def by (intro keeps_rules)

lemma keeps_Settings_markAchieved [keeps_rules]: "ignores_tick Q \<Longrightarrow> keeps Q (Settings_markAchieved P s)"
  unfolding Settings_markAchieved_def by (intro keeps_rules)

lemma keeps_Settings_updateDisplayOptions [keeps_rules]:
  "ignores_tick Q \<Longrightarrow> keeps Q (Settings_updateDisplayOptions P d s)"
  unfolding Settings_updateDisplayOptions_def by (intro keeps_rules)

lemma keeps_Settings_findByMetricId [keeps_rules]: "keeps Q (Settings_findByMetricId v m)"
  unfolding Settings_findByMetricId_def by (intro keeps_rules)

lemma keeps_Settings_findById [keeps_rules]: "keeps Q (Settings_findById u v k)"
  unfolding Settings_findById_def by (intro keeps_rules)

lemma keeps_MetricSettings_create [keeps_rules]:
  "ignores_tick Q \<Longrightarrow> ignores_metric_settings Q \<Longrightarrow> keeps Q (MetricSettings_create P x)"
  unfolding MetricSettings_create_def by (intro keeps_rules)

lemma keeps_Settings_create [keeps_rules]:
  "ignores_tick Q \<Longrightarrow> ignores_metric_settings Q \<Longrightarrow> keeps Q (Settings_create P x)"
  unfolding Settings_create_def by (intro keeps_rules)

lemma keeps_createDefault [keeps_rules]:
  "ignores_tick Q \<Longrightarrow> ignores_metric_settings Q \<Longrightarrow> keeps Q (createDefault P m v)"
  unfolding createDefault_def by (intro keeps_rules)

lemma keeps_Settings_save [keeps_rules]:
  "ignores_tick Q \<Longrightarrow> ignores_metric_settings Q \<Longrightarrow> keeps Q (Settings_save P v s)"
  unfolding Settings_save_def by (intro keeps_rules)

lemma keeps_Settings_delete [keeps_rules]: "ignores_metric_settings Q \<Longrightarrow> keeps Q (Settings_delete v s)"
  unfolding Settings_delete_def by (intro keeps_rules)

section \<open>Logs\<close>

lemma keeps_Log_touch [keeps_rules]: "ignores_tick Q \<Longrightarrow> keeps Q (Log_touch P l)"
  unfolding Log_touch_def by (intro keeps_rules)

lemma keeps_Log_setLogValue [keeps_rules]: "ignores_tick Q \<Longrightarrow> keeps Q (Log_setLogValue P x l)"
  unfolding Log_setLogValue_def by (intro keeps_rules)

lemma keeps_Log_setType [keeps_rules]: "ignores_tick Q \<Longrightarrow> keeps Q (Log_setType P x l)"
  unfolding Log_setType_def by (intro keeps_rules)

lemma keeps_Log_setLoggedAt [keeps_rules]: "ignores_tick Q \<Longrightarrow> keeps Q (Log_setLoggedAt P x l)"
  unfolding Log_setLoggedAt_def by (intro keeps_rules)

lemma keeps_Log_existsAtTimestamp [keeps_rules]: "keeps Q (Log_existsAtTimestamp v m t k)"
  unfolding Log_existsAtTimestamp_def by (intro keeps_rules)

lemma keeps_Log_findById [keeps_rules]: "keeps Q (Log_findById u v k)"
  unfolding Log_findById_def by (intro keeps_rules)

lemma keeps_Log_create [keeps_rules]:
  "ignores_tick Q \<Longrightarrow> ignores_metric_logs Q \<Longrightarrow> keeps Q (Log_create P m v x k t)"
  unfolding Log_create_def by (intro keeps_rules)

lemma keeps_Log_save [keeps_rules]:
  "ignores_tick Q \<Longrightarrow> ignores_metric_logs Q \<Longrightarrow> keeps Q (Log_save P v l)"
  unfolding Log_save_def by (intro keeps_rules)

lemma keeps_Log_delete [keeps_rules]: "ignores_metric_logs Q \<Longrightarrow> keeps Q (Log_delete v l)"
  unfolding Log_delete_def by (intro keeps_rules)

section \<open>Use cases\<close>

lemma keeps_invalidateCaches [keeps_rules]: "ignores_tick Q \<Longrightarrow> keeps Q (invalidateCaches P)"
  unfolding invalidateCaches_def by (intro keeps_rules)

lemma keeps_random_index [keeps_rules]: "ignores_tick Q \<Longrightarrow> keeps Q (random_index P n)"
  unfolding random_index_def by (intro keeps_rules)

lemma keeps_collect [keeps_rules]: "(\<And>i. keeps Q (f i)) \<Longrightarrow> keeps Q (collect is f)"
  by (induction "is") (auto intro!: keeps_return keeps_bind)

lemma ticks_grow_create_metric:
  "ticks_grow (bind (Metric_create P x) (\<lambda>m. andThen (createDefault P (mt_id m) v) (return m)))"
  by (intro ticks_growI keeps_rules tick_bound_ignores tick_bound_ignores_tracking)

lemma keeps_CreateMetric [keeps_rules]:
  "ignores_tick Q \<Longrightarrow> ignores_metrics Q \<Longrightarrow> ignores_metric_settings Q \<Longrightarrow> survives_rollback Q \<Longrightarrow>
   keeps Q (CreateMetric P x)"
  unfolding CreateMetric_def by (intro keeps_rules ticks_grow_create_metric)

lemma keeps_UpdateMetric [keeps_rules]:
  "ignores_tick Q \<Longrightarrow> ignores_metrics Q \<Longrightarrow> keeps Q (UpdateMetric P u v k x)"
  unfolding UpdateMetric_def
  by (intro keeps_rules)

lemma keeps_DeleteMetric [keeps_rules]:
  "ignores_tick Q \<Longrightarrow> ignores_metrics Q \<Longrightarrow> keeps Q (DeleteMetric P u v k)"
  unfolding DeleteMetric_def by (intro keeps_rules)

lemma keeps_create_dummy_metric [keeps_rules]:
  "ignores_tick Q \<Longrightarrow> ignores_metrics Q \<Longrightarrow> keeps Q (create_dummy_metric P u v i)"
  unfolding create_dummy_metric_def by (intro keeps_rules)

lemma ticks_grow_dummy_metrics: "ticks_grow (collect is (create_dummy_metric P u v))"
  by (intro ticks_growI keeps_rules tick_bound_ignores tick_bound_ignores_tracking)

lemma keeps_GenerateDummyMetrics [keeps_rules]:
  "ignores_tick Q \<Longrightarrow> ignores_metrics Q \<Longrightarrow> survives_rollback Q \<Longrightarrow>
   keeps Q (GenerateDummyMetrics P u v n)"
  unfolding GenerateDummyMetrics_def by (intro keeps_rules ticks_grow_dummy_metrics)

lemma keeps_CreateCategory [keeps_rules]:
  "ignores_tick Q \<Longrightarrow> ignores_metric_categories Q \<Longrightarrow> keeps Q (CreateCategory P u v n c i)"
  unfolding CreateCategory_def by (intro keeps_rules)

lemma keeps_GetCategory [keeps_rules]: "keeps Q (GetCategory u v k)"
  unfolding GetCategory_def by (intro keeps_rules)

lemma keeps_UpdateCategory [keeps_rules]:
  "ignores_tick Q \<Longrightarrow> ignores_metric_categories Q \<Longrightarrow> keeps Q (UpdateCategory P u v k n c i)"
  unfolding UpdateCategory_def by (intro keeps_rules)

lemma keeps_DeleteCategory [keeps_rules]:
  "ignores_tick Q \<Longrightarrow> ignores_metric_categories Q \<Longrightarrow> keeps Q (DeleteCategory P u v k)"
  unfolding DeleteCategory_def by (intro keeps_rules)

lemma keeps_MetricCategory_create [keeps_rules]:
  "ignores_tick Q \<Longrightarrow> keeps Q (MetricCategory_create P u n c i)"
  unfolding MetricCategory_create_def by (intro keeps_rules)

lemma keeps_MetricCategoryFactory_generate [keeps_rules]:
  "ignores_tick Q \<Longrightarrow> keeps Q (MetricCategoryFactory_generate P u)"
  unfolding MetricCategoryFactory_generate_def by (intro keeps_rules)

lemma keeps_create_dummy_category [keeps_rules]:
  "ignores_tick Q \<Longrightarrow> ignores_metric_categories Q \<Longrightarrow> keeps Q (create_dummy_category P u v)"
  unfolding create_dummy_category_def by (intro keeps_rules)

lemma keeps_GenerateDummyCategories [keeps_rules]:
  "ignores_tick Q \<Longrightarrow> ignores_metric_categories Q \<Longrightarrow> keeps Q (GenerateDummyCategories P u v n)"
  unfolding GenerateDummyCategories_def by (intro keeps_rules)

lemma keeps_authenticated [keeps_rules]: "keeps Q (authenticated u)"
  unfolding authenticated_def by (intro keeps_rules)

lemma keeps_CreateMetricSettings [keeps_rules]:
  "ignores_tick Q \<Longrightarrow> ignores_metric_settings Q \<Longrightarrow> keeps Q (CreateMetricSettings P x)"
  unfolding CreateMetricSettings_def by (intro keeps_rules)

lemma keeps_GetMetricSettings [keeps_rules]: "keeps Q (GetMetricSettings u v k)"
  unfolding GetMetricSettings_def by (intro keeps_rules)

lemma keeps_changing_settings [keeps_rules]:
  "ignores_tick Q \<Longrightarrow> ignores_metric_settings Q \<Longrightarrow> (\<And>s. keeps Q (change s)) \<Longrightarrow> keeps Q (changing_settings P u v k change)"
  unfolding changing_settings_def by (intro keeps_rules)

lemma keeps_UpdateMetricSettings [keeps_rules]:
  "ignores_tick Q \<Longrightarrow> ignores_metric_settings Q \<Longrightarrow> keeps Q (UpdateMetricSettings P u v k x)"
  unfolding UpdateMetricSettings_def by (intro keeps_rules)

lemma keeps_UpdateGoalAchievement [keeps_rules]:
  "ignores_tick Q \<Longrightarrow> ignores_metric_settings Q \<Longrightarrow> keeps Q (UpdateGoalAchievement P u v k)"
  unfolding UpdateGoalAchievement_def by (intro keeps_rules)

lemma keeps_UpdateDisplayOptions [keeps_rules]:
  "ignores_tick Q \<Longrightarrow> ignores_metric_settings Q \<Longrightarrow> keeps Q (UpdateDisplayOptions P u v k x)"
  unfolding UpdateDisplayOptions_def by (intro keeps_rules)

lemma keeps_DeleteMetricSettings [keeps_rules]:
  "ignores_tick Q \<Longrightarrow> ignores_metric_settings Q \<Longrightarrow> keeps Q (DeleteMetricSettings P u v k)"
  unfolding DeleteMetricSettings_def by (intro keeps_rules)

lemma keeps_parseIsoToDate [keeps_rules]: "keeps Q (parseIsoToDate P s)"
  unfolding parseIsoToDate_def by (intro keeps_rules)

lemma keeps_log_timestamp [keeps_rules]: "ignores_tick Q \<Longrightarrow> keeps Q (log_timestamp P s)"
  unfolding log_timestamp_def by (cases s) (auto intro!: keeps_rules split: date_input.split)

lemma keeps_CreateMetricLog [keeps_rules]:
  "ignores_tick Q \<Longrightarrow> ignores_metric_logs Q \<Longrightarrow> keeps Q (CreateMetricLog P x)"
  unfolding CreateMetricLog_def by (intro keeps_rules)

lemma keeps_GetMetricLog [keeps_rules]: "keeps Q (GetMetricLog u v k)"
  unfolding GetMetricLog_def by (intro keeps_rules)

lemma keeps_change_value [keeps_rules]: "ignores_tick Q \<Longrightarrow> keeps Q (change_value P x l)"
  unfolding change_value_def by (auto intro!: keeps_rules split: failure.split)

lemma keeps_change_loggedAt [keeps_rules]: "ignores_tick Q \<Longrightarrow> keeps Q (change_loggedAt P v x l)"
  unfolding change_loggedAt_def by (cases x) (auto intro!: keeps_rules)

lemma keeps_UpdateMetricLog [keeps_rules]:
  "ignores_tick Q \<Longrightarrow> ignores_metric_logs Q \<Longrightarrow> keeps Q (UpdateMetricLog P u v k x)"
  unfolding UpdateMetricLog_def by (intro keeps_rules)

lemma keeps_DeleteMetricLog [keeps_rules]:
  "ignores_tick Q \<Longrightarrow> ignores_metric_logs Q \<Longrightarrow> keeps Q (DeleteMetricLog P u v k)"
  unfolding DeleteMetricLog_def by (intro keeps_rules)

lemma keeps_create_dummy_log [keeps_rules]:
  "ignores_tick Q \<Longrightarrow> ignores_metric_logs Q \<Longrightarrow> keeps Q (create_dummy_log P m v)"
  unfolding create_dummy_log_def by (intro keeps_rules)

lemma keeps_GenerateDummyMetricLogs [keeps_rules]:
  "ignores_tick Q \<Longrightarrow> ignores_metric_logs Q \<Longrightarrow> ignores_jobs Q \<Longrightarrow>
   keeps Q (GenerateDummyMetricLogs P u v m n)"
  unfolding GenerateDummyMetricLogs_def by (intro keeps_rules)

lemma ticks_grow_dummy_logs: "ticks_grow (forEach is (\<lambda>_. create_dummy_log P m v))"
  by (intro ticks_growI keeps_rules tick_bound_ignores tick_bound_ignores_tracking)

lemma keeps_GenerateDummyMetricLogsHandler [keeps_rules]:
  "ignores_tick Q \<Longrightarrow> ignores_metric_logs Q \<Longrightarrow> ignores_processed_messages Q \<Longrightarrow> survives_rollback Q \<Longrightarrow>
   keeps Q (GenerateDummyMetricLogsHandler P b c m q)"
  unfolding GenerateDummyMetricLogsHandler_def by (intro keeps_rules ticks_grow_dummy_logs)

end
