(* ===== verification/Sessions.thy ===== *)
theory Sessions imports Frames begin

text \<open>
  Refresh-token sessions: \<open>IssueRefreshToken\<close>, \<open>RotateRefreshToken\<close>, \<open>RevokeRefreshTokenFamily\<close> and
  \<open>SwitchOrganization\<close> of \<open>src/features/shared/auth/application/use-cases\<close>. A family is the chain of
  tokens one sign-in starts; each rotation revokes the token shown and appends its successor. The
  invariant says a family never has two live tokens, and reusing a spent one closes the family.
\<close>

section \<open>Operations\<close>

definition TokenProvider_sign :: "platform \<Rightarrow> token_payload \<Rightarrow> (world, jstr) io" where
  "TokenProvider_sign P payload = bind newTick (\<lambda>t. return (jwt_sign P t payload))"

text \<open>\<open>execute\<close> and \<open>executeInTransaction\<close> differ only in the transaction the row is saved in.\<close>

definition IssueRefreshToken ::
  "platform \<Rightarrow> jstr \<Rightarrow> jstr option \<Rightarrow> jstr option \<Rightarrow> jstr option \<Rightarrow> jstr option
   \<Rightarrow> (world, jstr \<times> refresh_token) io" where
  "IssueRefreshToken P userId familyId organizationId userAgent ip =
     bind (randomToken P 64) (\<lambda>rawToken.
     bind (RefreshToken_issue P userId (sha256_hex P rawToken) familyId organizationId userAgent ip)
       (\<lambda>refreshToken.
     andThen (RefreshToken_save refreshToken) (return (rawToken, refreshToken))))"

datatype rotate_outcome =
    Rotated (rot_accessToken: jstr) (rot_rawRefreshToken: jstr)
  | RevokeAndReject (rot_familyId: jstr) (rot_reason: string)

text \<open>The organization the new token is for: the old token's, if the membership still stands.\<close>

definition rotate_organization :: "refresh_token \<Rightarrow> (world, jstr) io" where
  "rotate_organization existing =
     (case nonempty (rt_organizationId existing) of
        Some organizationId \<Rightarrow>
          bind (Membership_findByUserAndOrg (rt_userId existing) organizationId) (\<lambda>membership.
          case membership of
            None \<Rightarrow> throw (DomainError Unauthorized ''Unauthorized: Organization membership inactive'')
          | Some m \<Rightarrow>
              if \<not> Membership_isActive m
              then throw (DomainError Unauthorized ''Unauthorized: Organization membership inactive'')
              else return organizationId)
      | None \<Rightarrow>
          bind (Membership_findDefaultByUser (rt_userId existing)) (\<lambda>membership.
          case membership of
            None \<Rightarrow> throw (DomainError Unauthorized ''Unauthorized: No organization membership'')
          | Some m \<Rightarrow> return (m_organizationId m)))"

text \<open>The rotation itself: the token shown is revoked, its successor saved, then the link between them.\<close>

definition rotate_issue ::
  "platform \<Rightarrow> refresh_token \<Rightarrow> auth_user \<Rightarrow> jstr \<Rightarrow> jstr option \<Rightarrow> jstr option \<Rightarrow> (world, rotate_outcome) io" where
  "rotate_issue P existing u organizationId userAgent ip =
     bind (newDate P) (\<lambda>now.
     let revoked = RefreshToken_markRevoked now existing in
     bind (IssueRefreshToken P (rt_userId existing) (Some (rt_familyId existing))
             (Some organizationId) userAgent ip) (\<lambda>(newRawToken, newRefreshToken).
     bind (liftEither (RefreshToken_replaceWith (rt_id newRefreshToken) revoked)) (\<lambda>replaced.
     andThen (RefreshToken_save replaced)
     (bind (TokenProvider_sign P
              \<lparr>payload_id = user_id u, payload_email = user_email u,
               payload_username = user_username u, payload_organizationId = organizationId\<rparr>)
        (\<lambda>accessToken. return (Rotated accessToken newRawToken))))))"

definition rotate_existing ::
  "platform \<Rightarrow> refresh_token \<Rightarrow> jstr option \<Rightarrow> jstr option \<Rightarrow> (world, rotate_outcome) io" where
  "rotate_existing P existing userAgent ip =
     bind (User_findById (rt_userId existing)) (\<lambda>user.
     case user of
       None \<Rightarrow> throw (DomainError Unauthorized ''Unauthorized: User not found'')
     | Some u \<Rightarrow>
       bind (rotate_organization existing) (\<lambda>organizationId.
       rotate_issue P existing u organizationId userAgent ip))"

definition rotate_transaction ::
  "platform \<Rightarrow> jstr \<Rightarrow> jstr option \<Rightarrow> jstr option \<Rightarrow> (world, rotate_outcome) io" where
  "rotate_transaction P tokenHash userAgent ip =
     bind (RefreshToken_findByTokenHash tokenHash) (\<lambda>found.
     case found of
       None \<Rightarrow> throw (DomainError Unauthorized ''Unauthorized: Invalid refresh token'')
     | Some existing \<Rightarrow>
       if RefreshToken_isRevoked existing
       then return (RevokeAndReject (rt_familyId existing) ''reuse'')
       else bind (newDate P) (\<lambda>now.
         if RefreshToken_isExpired now existing
         then return (RevokeAndReject (rt_familyId existing) ''expired'')
         else rotate_existing P existing userAgent ip))"

text \<open>The family is revoked after the transaction, so the rejection does not roll the revocation back.\<close>

definition RotateRefreshToken ::
  "platform \<Rightarrow> jstr \<Rightarrow> jstr option \<Rightarrow> jstr option \<Rightarrow> (world, jstr \<times> jstr) io" where
  "RotateRefreshToken P rawToken userAgent ip =
     bind (runInTransaction (rotate_transaction P (sha256_hex P rawToken) userAgent ip)) (\<lambda>result.
     case result of
       RevokeAndReject familyId reason \<Rightarrow>
         andThen (RefreshToken_revokeFamily P familyId)
           (throw (DomainError Unauthorized ''Unauthorized: Invalid refresh token''))
     | Rotated accessToken rawRefreshToken \<Rightarrow> return (accessToken, rawRefreshToken))"

definition RevokeRefreshTokenFamily :: "platform \<Rightarrow> jstr \<Rightarrow> (world, unit) io" where
  "RevokeRefreshTokenFamily P rawToken =
     bind (RefreshToken_findByTokenHash (sha256_hex P rawToken)) (\<lambda>found.
     case found of
       None \<Rightarrow> throw (DomainError Unauthorized ''Unauthorized: Invalid refresh token'')
     | Some existing \<Rightarrow> RefreshToken_revokeFamily P (rt_familyId existing))"

text \<open>
  The families of \<open>SwitchOrganization\<close> are the distinct ones of the user's live tokens; the updates of
  \<open>Promise.all\<close> are on disjoint rows, so one after the other is every order of them.
\<close>

definition SwitchOrganization ::
  "platform \<Rightarrow> jstr \<Rightarrow> jstr \<Rightarrow> jstr option \<Rightarrow> jstr option \<Rightarrow> (world, jstr \<times> jstr) io" where
  "SwitchOrganization P userId organizationId userAgent ip =
     bind (Membership_findByUserAndOrg userId organizationId) (\<lambda>membership.
     if (case membership of None \<Rightarrow> True | Some m \<Rightarrow> \<not> Membership_isActive m)
     then throw (DomainError Forbidden ''Forbidden: No active membership in this organization'')
     else bind (User_findById userId) (\<lambda>user.
     case user of
       None \<Rightarrow> throw (DomainError Unauthorized ''Unauthorized: User not found'')
     | Some u \<Rightarrow>
       bind (RefreshToken_findActiveByUser P userId) (\<lambda>activeTokens.
       andThen (forEach (remdups (map rt_familyId activeTokens)) (RefreshToken_revokeFamily P))
       (bind (TokenProvider_sign P
                \<lparr>payload_id = user_id u, payload_email = user_email u,
                 payload_username = user_username u, payload_organizationId = organizationId\<rparr>)
          (\<lambda>accessToken.
        bind (IssueRefreshToken P (user_id u) None (Some organizationId) userAgent ip)
          (\<lambda>(rawToken, t). return (accessToken, rawToken)))))))"

section \<open>Preservation rules\<close>

lemma keeps_TokenProvider_sign [keeps_rules]:
  "ignores_tick Q \<Longrightarrow> keeps Q (TokenProvider_sign P payload)"
  unfolding TokenProvider_sign_def by (intro keeps_rules)

lemma keeps_IssueRefreshToken [keeps_rules]:
  "ignores_tick Q \<Longrightarrow> ignores_refresh_tokens Q \<Longrightarrow> keeps Q (IssueRefreshToken P u f v a i)"
  unfolding IssueRefreshToken_def by (intro keeps_rules)

lemma keeps_rotate_organization [keeps_rules]: "keeps Q (rotate_organization t)"
  unfolding rotate_organization_def by (intro keeps_rules)

lemma keeps_rotate_issue [keeps_rules]:
  "ignores_tick Q \<Longrightarrow> ignores_refresh_tokens Q \<Longrightarrow> keeps Q (rotate_issue P t u v a i)"
  unfolding rotate_issue_def by (intro keeps_rules)

lemma keeps_rotate_existing [keeps_rules]:
  "ignores_tick Q \<Longrightarrow> ignores_refresh_tokens Q \<Longrightarrow> keeps Q (rotate_existing P t a i)"
  unfolding rotate_existing_def by (intro keeps_rules)

lemma keeps_rotate_transaction [keeps_rules]:
  "ignores_tick Q \<Longrightarrow> ignores_refresh_tokens Q \<Longrightarrow> keeps Q (rotate_transaction P h a i)"
  unfolding rotate_transaction_def by (intro keeps_rules)

lemma keeps_case_rotate_outcome [keeps_rules]:
  "(\<And>a r. keeps Q (f a r)) \<Longrightarrow> (\<And>a r. keeps Q (g a r)) \<Longrightarrow>
   keeps Q (case x of Rotated a r \<Rightarrow> f a r | RevokeAndReject a r \<Rightarrow> g a r)"
  by (simp split: rotate_outcome.splits)

lemma ticks_grow_rotate_transaction: "ticks_grow (rotate_transaction P h a i)"
  by (intro ticks_growI keeps_rules tick_bound_ignores)

lemma keeps_RotateRefreshToken [keeps_rules]:
  "ignores_tick Q \<Longrightarrow> ignores_refresh_tokens Q \<Longrightarrow> survives_rollback Q \<Longrightarrow>
   keeps Q (RotateRefreshToken P r a i)"
  unfolding RotateRefreshToken_def by (intro keeps_rules ticks_grow_rotate_transaction)

lemma keeps_RevokeRefreshTokenFamily [keeps_rules]:
  "ignores_tick Q \<Longrightarrow> ignores_refresh_tokens Q \<Longrightarrow> keeps Q (RevokeRefreshTokenFamily P r)"
  unfolding RevokeRefreshTokenFamily_def by (intro keeps_rules)

lemma keeps_SwitchOrganization [keeps_rules]:
  "ignores_tick Q \<Longrightarrow> ignores_refresh_tokens Q \<Longrightarrow> keeps Q (SwitchOrganization P u v a i)"
  unfolding SwitchOrganization_def by (intro keeps_rules)

lemmas evaluate_Sessions [evaluate] =
  TokenProvider_sign_def IssueRefreshToken_def rotate_organization_def
  rotate_issue_def rotate_existing_def rotate_transaction_def
  RotateRefreshToken_def RevokeRefreshTokenFamily_def SwitchOrganization_def

end
