(* ===== verification/SessionInvariant.thy ===== *)
theory SessionInvariant imports Sessions begin

text \<open>
  The invariant of the refresh-token table and what the session operations do to its rows. Ids and
  families are UUIDs drawn at earlier ticks, so a new one collides with none when the platform never
  repeats a UUID. The lemmas on rows are about lists; the operations' lemmas say which rows they write.
\<close>

section \<open>Rows\<close>

definition live :: "refresh_token \<Rightarrow> bool" where
  "live t \<longleftrightarrow> rt_revokedAt t = None"

definition session_rows :: "jstr set \<Rightarrow> refresh_token list \<Rightarrow> bool" where
  "session_rows used rows \<longleftrightarrow>
     distinct (map rt_id rows) \<and> distinct (map rt_tokenHash rows) \<and>
     (\<forall>t \<in> set rows. rt_id t \<in> used \<and> rt_familyId t \<in> used) \<and>
     (\<forall>s \<in> set rows. \<forall>t \<in> set rows. live s \<longrightarrow> live t \<longrightarrow> rt_familyId s = rt_familyId t \<longrightarrow> s = t) \<and>
     (\<forall>t \<in> set rows. live t \<longrightarrow> rt_replacedById t = None)"

definition spent :: "int \<Rightarrow> jstr \<Rightarrow> refresh_token \<Rightarrow> refresh_token" where
  "spent now newId t = t\<lparr>rt_revokedAt := Some now, rt_replacedById := Some newId\<rparr>"

lemma spent_fields [simp]:
  "rt_id (spent n i t) = rt_id t" "rt_familyId (spent n i t) = rt_familyId t"
  "rt_tokenHash (spent n i t) = rt_tokenHash t" "rt_userId (spent n i t) = rt_userId t"
  "rt_revokedAt (spent n i t) = Some n" "rt_replacedById (spent n i t) = Some i"
  "\<not> live (spent n i t)"
  by (simp_all add: spent_def live_def)

lemma session_rows_mono: "session_rows used rows \<Longrightarrow> used \<subseteq> used' \<Longrightarrow> session_rows used' rows"
  by (auto simp: session_rows_def)

lemma session_rows_append:
  assumes "session_rows used rows" "used \<subseteq> used'"
    and "rt_id t \<in> used' - used" "rt_familyId t \<in> used'"
    and "\<forall>r \<in> set rows. rt_tokenHash r \<noteq> rt_tokenHash t"
    and "\<forall>r \<in> set rows. live r \<longrightarrow> rt_familyId r \<noteq> rt_familyId t"
    and "rt_replacedById t = None"
  shows "session_rows used' (rows @ [t])"
  using assms by (auto simp: session_rows_def)

lemma session_rows_revoke:
  assumes "session_rows used rows"
  shows "session_rows used (revoke_family_rows f n rows)"
proof -
  have "map rt_id (revoke_family_rows f n rows) = map rt_id rows"
       "map rt_tokenHash (revoke_family_rows f n rows) = map rt_tokenHash rows"
    by (simp_all add: revoke_family_rows_def map_update_where)
  with assms show ?thesis
    by (auto simp: session_rows_def revoke_family_rows_def set_update_where live_def)
qed

lemma session_rows_spend:
  assumes rows: "session_rows used rows" and e: "e \<in> set rows"
  shows "session_rows used (update_where (\<lambda>t. rt_id t = rt_id e) (\<lambda>_. spent n i e) rows)"
proof -
  let ?rows' = "update_where (\<lambda>t. rt_id t = rt_id e) (\<lambda>_. spent n i e) rows"
  have same: "rt_id t = rt_id e \<Longrightarrow> t \<in> set rows \<Longrightarrow> t = e" for t
    using rows e by (auto simp: session_rows_def dest: unique_key_eq)
  have "map rt_id ?rows' = map rt_id rows" "map rt_tokenHash ?rows' = map rt_tokenHash rows"
    using same by (auto simp: update_where_def)
  with rows e show ?thesis
    by (auto simp: session_rows_def set_update_where)
qed

section \<open>Invariant\<close>

definition used_uuids :: "platform \<Rightarrow> world \<Rightarrow> jstr set" where
  "used_uuids P w = random_uuid P ` {..<tick w}"

definition session_inv :: "platform \<Rightarrow> world \<Rightarrow> bool" where
  "session_inv P w \<longleftrightarrow> session_rows (used_uuids P w) (refresh_tokens (db w))"

lemma used_uuids_mono: "tick w \<le> tick w' \<Longrightarrow> used_uuids P w \<subseteq> used_uuids P w'"
  by (auto simp: used_uuids_def)

lemma fresh_uuid:
  "inj (random_uuid P) \<Longrightarrow> tick w \<le> t \<Longrightarrow> random_uuid P t \<notin> used_uuids P w"
  by (auto simp: used_uuids_def dest: injD)

lemma session_inv_frame:
  "session_inv P w \<Longrightarrow> refresh_tokens (db w') = refresh_tokens (db w) \<Longrightarrow> tick w \<le> tick w' \<Longrightarrow>
   session_inv P w'"
  unfolding session_inv_def by (metis session_rows_mono used_uuids_mono)

lemma session_inv_ignores [simp]:
  "ignores_tick (session_inv P)" "ignores_outbox (session_inv P)" "ignores_jobs (session_inv P)"
  "ignores_lockouts (session_inv P)" "ignores_users (session_inv P)"
  "ignores_organizations (session_inv P)" "ignores_memberships (session_inv P)"
  "ignores_organization_invites (session_inv P)" "ignores_password_reset_tokens (session_inv P)"
  "ignores_email_verification_tokens (session_inv P)" "ignores_processed_messages (session_inv P)"
  "survives_rollback (session_inv P)"
  by (auto simp: ignores_defs survives_rollback_def intro: session_inv_frame)

lemma session_inv_empty: "session_inv P empty_world"
  by (simp add: session_inv_def session_rows_def empty_world_def empty_database_def)

lemma sample_session_inv: "session_inv sample_platform sample_world"
  by (auto simp: session_inv_def session_rows_def used_uuids_def sample_world_def sample_platform_def
      sample_token_def image_iff)

section \<open>Runs\<close>

text \<open>The token an issue at tick \<open>t\<close> makes: token text at \<open>t\<close>, clock at \<open>t + 1\<close>, UUIDs after it.\<close>

definition issued_token ::
  "platform \<Rightarrow> nat \<Rightarrow> jstr \<Rightarrow> jstr option \<Rightarrow> jstr option \<Rightarrow> jstr option \<Rightarrow> jstr option \<Rightarrow> refresh_token" where
  "issued_token P t u f v a i =
     \<lparr>rt_id = random_uuid P (t + 2), rt_userId = u, rt_organizationId = v,
      rt_familyId = (case f of Some g \<Rightarrow> g | None \<Rightarrow> random_uuid P (t + 3)),
      rt_tokenHash = sha256_hex P (random_base64url P 64 t), rt_issuedAt = clock P (t + 1),
      rt_expiresAt = clock P (t + 1) + refresh_ttl_days P * 24 * 60 * 60 * 1000,
      rt_revokedAt = None, rt_replacedById = None, rt_userAgent = a, rt_ip = i\<rparr>"

definition issue_ticks :: "jstr option \<Rightarrow> nat" where
  "issue_ticks f = (case f of Some _ \<Rightarrow> 3 | None \<Rightarrow> 4)"

lemma run_IssueRefreshToken:
  "IssueRefreshToken P u f v a i w =
     (let t = issued_token P (tick w) u f v a i;
          w' = w\<lparr>tick := tick w + issue_ticks f\<rparr> in
      case refresh_tokens_check t (refresh_tokens (db w)) of
        Some e \<Rightarrow> (Inl e, w')
      | None \<Rightarrow> (Inr (random_base64url P 64 (tick w), t),
                  w'\<lparr>db := (db w)\<lparr>refresh_tokens := upsert_on rt_id t (refresh_tokens (db w))\<rparr>\<rparr>))"
  by (cases f)
     (auto simp: IssueRefreshToken_def RefreshToken_issue_def RefreshToken_save_def checked_def
        issued_token_def issue_ticks_def run_bind run_andThen Let_def eval_nat_numeral
        split: option.splits)

lemma refresh_tokens_check_None:
  "refresh_tokens_check t rows = None \<Longrightarrow> \<forall>r \<in> set rows. rt_id r \<noteq> rt_id t \<Longrightarrow>
   \<forall>r \<in> set rows. rt_tokenHash r \<noteq> rt_tokenHash t"
  by (auto simp: refresh_tokens_check_def split: if_splits)

lemma issued_token_fresh:
  assumes "session_inv P w" "inj (random_uuid P)"
  shows "\<forall>r \<in> set (refresh_tokens (db w)). rt_id r \<noteq> rt_id (issued_token P (tick w) u f v a i)"
proof
  fix r assume "r \<in> set (refresh_tokens (db w))"
  with assms(1) have "rt_id r \<in> used_uuids P w" by (simp add: session_inv_def session_rows_def)
  then show "rt_id r \<noteq> rt_id (issued_token P (tick w) u f v a i)"
    using fresh_uuid[OF assms(2), of w "tick w + 2"] by (auto simp: issued_token_def)
qed

text \<open>A successful issue appends one live row; with a new family, no row of the table is in it.\<close>

lemma IssueRefreshToken_Inr:
  assumes "IssueRefreshToken P u f v a i w = (Inr (raw, t), w')"
    and "session_inv P w" "inj (random_uuid P)"
  shows "t = issued_token P (tick w) u f v a i" "raw = random_base64url P 64 (tick w)"
    "w' = w\<lparr>tick := tick w + issue_ticks f,
            db := (db w)\<lparr>refresh_tokens := refresh_tokens (db w) @ [t]\<rparr>\<rparr>"
    "\<forall>r \<in> set (refresh_tokens (db w)). rt_id r \<noteq> rt_id t \<and> rt_tokenHash r \<noteq> rt_tokenHash t"
proof -
  let ?t = "issued_token P (tick w) u f v a i"
  have c: "refresh_tokens_check ?t (refresh_tokens (db w)) = None"
    using assms(1) by (auto simp: run_IssueRefreshToken Let_def split: option.splits)
  note fresh = issued_token_fresh[OF assms(2,3), of u f v a i]
  show t: "t = ?t" and "raw = random_base64url P 64 (tick w)"
    using assms(1) c by (auto simp: run_IssueRefreshToken Let_def)
  show "w' = w\<lparr>tick := tick w + issue_ticks f,
            db := (db w)\<lparr>refresh_tokens := refresh_tokens (db w) @ [t]\<rparr>\<rparr>"
    using assms(1) c fresh by (auto simp: run_IssueRefreshToken Let_def upsert_new)
  show "\<forall>r \<in> set (refresh_tokens (db w)). rt_id r \<noteq> rt_id t \<and> rt_tokenHash r \<noteq> rt_tokenHash t"
    using fresh refresh_tokens_check_None[OF c fresh] by (simp add: t)
qed

lemma IssueRefreshToken_Inl:
  "IssueRefreshToken P u f v a i w = (Inl e, w') \<Longrightarrow> w' = w\<lparr>tick := tick w + issue_ticks f\<rparr>"
  by (auto simp: run_IssueRefreshToken Let_def split: option.splits)

named_theorems session_rules

lemma keeps_session_IssueRefreshToken [session_rules]:
  assumes "inj (random_uuid P)"
  shows "keeps (session_inv P) (IssueRefreshToken P u None v a i)"
  unfolding keeps_def
proof (intro allI impI)
  fix w assume inv: "session_inv P w"
  show "session_inv P (snd (IssueRefreshToken P u None v a i w))"
  proof (cases "fst (IssueRefreshToken P u None v a i w)")
    case (Inl e)
    then have "IssueRefreshToken P u None v a i w = (Inl e, snd (IssueRefreshToken P u None v a i w))"
      by (metis prod.collapse)
    from IssueRefreshToken_Inl[OF this] show ?thesis
      using inv by (auto intro: session_inv_frame)
  next
    case (Inr x)
    obtain raw t w' where run: "IssueRefreshToken P u None v a i w = (Inr (raw, t), w')"
      using Inr by (metis prod.collapse surj_pair)
    note issued = IssueRefreshToken_Inr[OF run inv assms]
    have rows: "session_rows (used_uuids P w) (refresh_tokens (db w))"
      using inv by (simp add: session_inv_def)
    have id: "rt_id t = random_uuid P (tick w + 2)" and fam: "rt_familyId t = random_uuid P (tick w + 3)"
      and repl: "rt_replacedById t = None" and w': "tick w' = tick w + 4"
      by (simp_all add: issued(1,3) issued_token_def issue_ticks_def)
    have "random_uuid P (tick w + 3) \<notin> used_uuids P w" "random_uuid P (tick w + 2) \<notin> used_uuids P w"
      using assms by (simp_all add: fresh_uuid)
    moreover have "random_uuid P (tick w + 3) \<in> used_uuids P w'" "random_uuid P (tick w + 2) \<in> used_uuids P w'"
      by (simp_all add: used_uuids_def w')
    moreover have "\<forall>r \<in> set (refresh_tokens (db w)). rt_familyId r \<in> used_uuids P w"
      using rows by (simp add: session_rows_def)
    ultimately have "session_rows (used_uuids P w') (refresh_tokens (db w) @ [t])"
      using issued(4) by (intro session_rows_append[OF rows used_uuids_mono]) (auto simp: id fam repl w')
    then show ?thesis by (simp add: run issued(3) session_inv_def)
  qed
qed

lemma keeps_session_revokeFamily [session_rules]:
  "keeps (session_inv P) (RefreshToken_revokeFamily P f)"
proof -
  have "session_inv P w \<Longrightarrow> session_inv P (snd (RefreshToken_revokeFamily P f w))" for w
    by (simp add: RefreshToken_revokeFamily_def session_inv_def run_bind)
       (rule session_rows_revoke, erule session_rows_mono, rule used_uuids_mono, simp)
  then show ?thesis by (simp add: keeps_def)
qed

section \<open>Rotation\<close>

lemma rotate_organization_state: "rotate_organization t w = (r, w') \<Longrightarrow> w' = w"
  by (auto simp: rotate_organization_def Membership_findByUserAndOrg_def
      Membership_findDefaultByUser_def run_bind split: option.splits if_splits)

text \<open>The row and the place in the table a successful rotation writes.\<close>

definition rotated_rows ::
  "platform \<Rightarrow> nat \<Rightarrow> refresh_token \<Rightarrow> jstr \<Rightarrow> jstr option \<Rightarrow> jstr option
   \<Rightarrow> refresh_token list \<Rightarrow> refresh_token list" where
  "rotated_rows P t old v a i rows =
     (let new = issued_token P (t + 1) (rt_userId old) (Some (rt_familyId old)) (Some v) a i in
      update_where (\<lambda>r. rt_id r = rt_id old) (\<lambda>_. spent (clock P t) (rt_id new) old) rows @ [new])"

lemma rotate_issue_Inr:
  assumes run: "rotate_issue P old u v a i w = (Inr out, w')"
    and inv: "session_inv P w" and uuid: "inj (random_uuid P)"
    and old: "old \<in> set (refresh_tokens (db w))"
  shows "out = Rotated (jwt_sign P (tick w + 4) \<lparr>payload_id = user_id u, payload_email = user_email u,
       payload_username = user_username u, payload_organizationId = v\<rparr>) (random_base64url P 64 (tick w + 1))"
    "w' = w\<lparr>tick := tick w + 5,
            db := (db w)\<lparr>refresh_tokens := rotated_rows P (tick w) old v a i (refresh_tokens (db w))\<rparr>\<rparr>"
    "\<forall>r \<in> set (refresh_tokens (db w)).
       rt_tokenHash r \<noteq> sha256_hex P (random_base64url P 64 (tick w + 1))"
proof -
  let ?w0 = "w\<lparr>tick := Suc (tick w)\<rparr>"
  from run obtain raw new w1 where
    issue: "IssueRefreshToken P (rt_userId old) (Some (rt_familyId old)) (Some v) a i ?w0 = (Inr (raw, new), w1)"
    and rest: "bind (liftEither (RefreshToken_replaceWith (rt_id new) (RefreshToken_markRevoked (clock P (tick w)) old)))
      (\<lambda>replaced. andThen (RefreshToken_save replaced)
       (bind (TokenProvider_sign P
              \<lparr>payload_id = user_id u, payload_email = user_email u,
               payload_username = user_username u, payload_organizationId = v\<rparr>)
        (\<lambda>accessToken. return (Rotated accessToken raw)))) w1 = (Inr out, w')"
    unfolding rotate_issue_def Let_def by (auto elim!: bind_InrE)
  have inv0: "session_inv P ?w0" using inv by (auto intro: session_inv_frame)
  note new = IssueRefreshToken_Inr[OF issue inv0 uuid]
  let ?s = "spent (clock P (tick w)) (rt_id new) old"
  from rest have rep: "rt_replacedById old = None"
    and save: "RefreshToken_save ?s w1 = (Inr (), w'\<lparr>tick := tick w1\<rparr>)"
    and out: "out = Rotated (jwt_sign P (tick w1) \<lparr>payload_id = user_id u, payload_email = user_email u,
               payload_username = user_username u, payload_organizationId = v\<rparr>) raw"
      and tick: "tick w' = Suc (tick w1)"
    by (auto simp: liftEither_def RefreshToken_replaceWith_def RefreshToken_markRevoked_def spent_def
       TokenProvider_sign_def RefreshToken_save_def checked_def run_bind run_andThen split: if_splits option.splits)
  have t1: "tick w1 = tick w + 4" and raw: "raw = random_base64url P 64 (tick w + 1)"
    and rows1: "refresh_tokens (db w1) = refresh_tokens (db w) @ [new]"
    and w1: "w1 = w\<lparr>tick := tick w + 4, db := (db w)\<lparr>refresh_tokens := refresh_tokens (db w) @ [new]\<rparr>\<rparr>"
    by (simp_all add: new issue_ticks_def)
  show "out = Rotated (jwt_sign P (tick w + 4) \<lparr>payload_id = user_id u, payload_email = user_email u,
       payload_username = user_username u, payload_organizationId = v\<rparr>) (random_base64url P 64 (tick w + 1))"
    by (simp add: out t1 raw)
  show "\<forall>r \<in> set (refresh_tokens (db w)).
       rt_tokenHash r \<noteq> sha256_hex P (random_base64url P 64 (tick w + 1))"
    using new(4) by (simp add: new(1) issued_token_def)
  have "rt_id new \<noteq> rt_id old" using new(4) old by auto
  then have "upsert_on rt_id ?s (refresh_tokens (db w1)) =
      update_where (\<lambda>r. rt_id r = rt_id old) (\<lambda>_. ?s) (refresh_tokens (db w)) @ [new]"
    using old by (auto simp: upsert_on_def rows1)
  moreover have "w'\<lparr>tick := tick w1\<rparr> = w1\<lparr>db := (db w1)\<lparr>refresh_tokens := upsert_on rt_id ?s (refresh_tokens (db w1))\<rparr>\<rparr>"
    using save by (auto simp: RefreshToken_save_def run_bind checked_def split: option.splits)
  ultimately have "w'\<lparr>tick := tick w1\<rparr> = w1\<lparr>db := (db w1)\<lparr>refresh_tokens := rotated_rows P (tick w) old v a i (refresh_tokens (db w))\<rparr>\<rparr>"
    by (simp add: rotated_rows_def new(1) Let_def)
  then have "(w'\<lparr>tick := tick w1\<rparr>)\<lparr>tick := tick w'\<rparr> = (w1\<lparr>db := (db w1)\<lparr>refresh_tokens := rotated_rows P (tick w) old v a i (refresh_tokens (db w))\<rparr>\<rparr>)\<lparr>tick := tick w + 5\<rparr>"
    using tick t1 by simp
  then show "w' = w\<lparr>tick := tick w + 5,
            db := (db w)\<lparr>refresh_tokens := rotated_rows P (tick w) old v a i (refresh_tokens (db w))\<rparr>\<rparr>"
    by (simp add: w1)
qed

lemma rotate_transaction_cases:
  assumes run: "rotate_transaction P h a i w = (r, w')"
  obtains (invalid) "List.find (\<lambda>t. rt_tokenHash t = h) (refresh_tokens (db w)) = None"
      "r = Inl (DomainError Unauthorized ''Unauthorized: Invalid refresh token'')" "w' = w"
  | (reuse) old where "List.find (\<lambda>t. rt_tokenHash t = h) (refresh_tokens (db w)) = Some old"
      "\<not> live old" "r = Inr (RevokeAndReject (rt_familyId old) ''reuse'')" "w' = w"
  | (expired) old where "List.find (\<lambda>t. rt_tokenHash t = h) (refresh_tokens (db w)) = Some old"
      "live old" "rt_expiresAt old \<le> clock P (tick w)"
      "r = Inr (RevokeAndReject (rt_familyId old) ''expired'')" "w' = w\<lparr>tick := Suc (tick w)\<rparr>"
  | (current) old where "List.find (\<lambda>t. rt_tokenHash t = h) (refresh_tokens (db w)) = Some old"
      "live old" "clock P (tick w) < rt_expiresAt old"
      "rotate_existing P old a i (w\<lparr>tick := Suc (tick w)\<rparr>) = (r, w')"
  using run
  by (auto simp: rotate_transaction_def RefreshToken_findByTokenHash_def RefreshToken_isRevoked_def
      RefreshToken_isExpired_def live_def run_bind split: option.splits if_splits)

lemma rotate_existing_Inr:
  assumes "rotate_existing P old a i w = (Inr out, w')"
  obtains u v where
    "List.find (\<lambda>u. user_id u = rt_userId old \<and> live_user u) (users (db w)) = Some u"
    "rotate_organization old w = (Inr v, w)"
    "rotate_issue P old u v a i w = (Inr out, w')"
proof -
  from assms obtain u where u: "List.find (\<lambda>u. user_id u = rt_userId old \<and> live_user u) (users (db w)) = Some u"
    and "bind (rotate_organization old) (\<lambda>v. rotate_issue P old u v a i) w = (Inr out, w')"
    by (auto simp: rotate_existing_def User_findById_def split: option.splits)
  then obtain v w1 where "rotate_organization old w = (Inr v, w1)" "rotate_issue P old u v a i w1 = (Inr out, w')"
    by (auto elim: bind_InrE)
  with u that show ?thesis using rotate_organization_state by metis
qed

lemma rotate_issue_RevokeAndReject: "rotate_issue P old u v a i w \<noteq> (Inr (RevokeAndReject f s), w')"
  by (auto simp: rotate_issue_def Let_def liftEither_def elim!: bind_InrE andThen_InrE split: sum.splits)


lemma run_revokeFamily [simp]:
  "RefreshToken_revokeFamily P f w =
     (Inr (), w\<lparr>tick := Suc (tick w),
        db := (db w)\<lparr>refresh_tokens := revoke_family_rows f (clock P (tick w)) (refresh_tokens (db w))\<rparr>\<rparr>)"
  by (simp add: RefreshToken_revokeFamily_def)

lemma RotateRefreshToken_Inr:
  assumes run: "RotateRefreshToken P raw a i w = (Inr (acc, raw'), w')"
    and inv: "session_inv P w" and uuid: "inj (random_uuid P)"
  obtains old u v where
    "List.find (\<lambda>t. rt_tokenHash t = sha256_hex P raw) (refresh_tokens (db w)) = Some old"
    "live old" "clock P (tick w) < rt_expiresAt old"
    "List.find (\<lambda>u. user_id u = rt_userId old \<and> live_user u) (users (db w)) = Some u"
    "fst (rotate_organization old (w\<lparr>tick := Suc (tick w)\<rparr>)) = Inr v"
    "acc = jwt_sign P (tick w + 5) \<lparr>payload_id = user_id u, payload_email = user_email u,
       payload_username = user_username u, payload_organizationId = v\<rparr>"
    "raw' = random_base64url P 64 (tick w + 2)"
    "w' = w\<lparr>tick := tick w + 6, db := (db w)\<lparr>refresh_tokens :=
            rotated_rows P (Suc (tick w)) old v a i (refresh_tokens (db w))\<rparr>\<rparr>"
    "\<forall>r \<in> set (refresh_tokens (db w)). rt_tokenHash r \<noteq> sha256_hex P raw'"
proof -
  let ?w = "w\<lparr>tick := Suc (tick w)\<rparr>"
  obtain out w1 where tx': "rotate_transaction P (sha256_hex P raw) a i w = (Inr out, w1)"
    and rest: "(case out of
       RevokeAndReject familyId reason \<Rightarrow>
         andThen (RefreshToken_revokeFamily P familyId)
           (throw (DomainError Unauthorized ''Unauthorized: Invalid refresh token''))
     | Rotated accessToken rawRefreshToken \<Rightarrow> return (accessToken, rawRefreshToken)) w1 = (Inr (acc, raw'), w')"
    using run unfolding RotateRefreshToken_def by (rule bind_InrE) (simp add: runInTransaction_Inr)
  from rest have out: "out = Rotated acc raw'" and "w1 = w'" by (cases out; simp add: run_andThen)+
  with tx' have tx: "rotate_transaction P (sha256_hex P raw) a i w = (Inr out, w')" by simp
  from tx show ?thesis
  proof (cases rule: rotate_transaction_cases)
    case (current old)
    from current(4) obtain u v where
      u: "List.find (\<lambda>u. user_id u = rt_userId old \<and> live_user u) (users (db ?w)) = Some u"
      and v: "rotate_organization old ?w = (Inr v, ?w)"
      and issue: "rotate_issue P old u v a i ?w = (Inr out, w')"
      by (rule rotate_existing_Inr)
    have "session_inv P ?w" using inv by (auto intro: session_inv_frame)
    moreover have "old \<in> set (refresh_tokens (db ?w))" using current(1) by (auto dest: find_SomeD)
    ultimately have res: "out = Rotated (jwt_sign P (tick w + 5) \<lparr>payload_id = user_id u,
         payload_email = user_email u, payload_username = user_username u,
         payload_organizationId = v\<rparr>) (random_base64url P 64 (tick w + 2))"
      "w' = w\<lparr>tick := tick w + 6, db := (db w)\<lparr>refresh_tokens :=
            rotated_rows P (Suc (tick w)) old v a i (refresh_tokens (db w))\<rparr>\<rparr>"
      "\<forall>r \<in> set (refresh_tokens (db w)). rt_tokenHash r \<noteq> sha256_hex P (random_base64url P 64 (tick w + 2))"
      using rotate_issue_Inr[OF issue _ uuid] by (simp_all add: add.commute)
    show ?thesis
      by (rule that[OF current(1,2,3), of u v]) (use res u v out in simp_all)
  qed (use out in auto)
qed

lemma rotated_rows_inv:
  assumes rows: "session_rows (used_uuids P w) rows" and uuid: "inj (random_uuid P)"
    and old: "old \<in> set rows" "live old" and t: "tick w = t" and w': "tick w' = t + 5"
    and hash: "\<forall>r \<in> set rows. rt_tokenHash r \<noteq> sha256_hex P (random_base64url P 64 (t + 1))"
  shows "session_rows (used_uuids P w') (rotated_rows P t old v a i rows)"
proof -
  let ?new = "issued_token P (t + 1) (rt_userId old) (Some (rt_familyId old)) (Some v) a i"
  let ?rows = "update_where (\<lambda>r. rt_id r = rt_id old) (\<lambda>_. spent (clock P t) (rt_id ?new) old) rows"
  have sub: "used_uuids P w \<subseteq> used_uuids P w'" by (rule used_uuids_mono) (simp add: t w')
  have spent: "session_rows (used_uuids P w) ?rows" using rows old(1) by (rule session_rows_spend)
  have "random_uuid P (t + 3) \<notin> used_uuids P w" using uuid by (simp add: fresh_uuid t)
  moreover have "random_uuid P (t + 3) \<in> used_uuids P w'" by (simp add: used_uuids_def w')
  moreover have "rt_id ?new = random_uuid P (t + 3)" "rt_familyId ?new = rt_familyId old"
    "rt_replacedById ?new = None" "rt_tokenHash ?new = sha256_hex P (random_base64url P 64 (t + 1))"
    by (simp_all add: issued_token_def eval_nat_numeral)
  moreover have "rt_familyId old \<in> used_uuids P w'" using rows old(1) sub by (auto simp: session_rows_def)
  moreover have "live r \<Longrightarrow> r \<in> set ?rows \<Longrightarrow> rt_familyId r \<noteq> rt_familyId old" for r
    using rows old by (auto simp: session_rows_def set_update_where split: if_splits)
  moreover have "\<forall>r \<in> set ?rows. rt_tokenHash r \<noteq> sha256_hex P (random_base64url P 64 (t + 1))"
    using hash old(1) by (auto simp: set_update_where)
  ultimately have "session_rows (used_uuids P w') (?rows @ [?new])"
    by (intro session_rows_append[OF spent sub]) auto
  then show ?thesis by (simp add: rotated_rows_def Let_def)
qed

text \<open>A rejected rotation leaves the table as it was, or with the family of the token shown revoked.\<close>

lemma RotateRefreshToken_Inl:
  assumes "RotateRefreshToken P raw a i w = (Inl e, w')"
  shows "tick w \<le> tick w'"
    and "refresh_tokens (db w') = refresh_tokens (db w) \<or>
         (\<exists>f now. refresh_tokens (db w') = revoke_family_rows f now (refresh_tokens (db w)))"
proof -
  have "tick w \<le> tick (snd (RotateRefreshToken P raw a i w))"
    by (rule ticks_growD, intro ticks_growI keeps_rules tick_bound_ignores)
  then show "tick w \<le> tick w'" by (simp add: assms)
  obtain r w1 where tx: "runInTransaction (rotate_transaction P (sha256_hex P raw) a i) w = (r, w1)"
    by fastforce
  show "refresh_tokens (db w') = refresh_tokens (db w) \<or>
         (\<exists>f now. refresh_tokens (db w') = revoke_family_rows f now (refresh_tokens (db w)))"
  proof (cases r)
    case (Inl e')
    with tx assms show ?thesis by (auto simp: RotateRefreshToken_def dest: runInTransaction_Inl)
  next
    case (Inr out)
    with tx have run: "rotate_transaction P (sha256_hex P raw) a i w = (Inr out, w1)"
      by (simp add: runInTransaction_Inr)
    from assms tx Inr obtain f s where out: "out = RevokeAndReject f s"
      and w': "w' = snd (RefreshToken_revokeFamily P f w1)"
      by (auto simp: RotateRefreshToken_def run_andThen RefreshToken_revokeFamily_def run_bind
          split: rotate_outcome.splits)
    from run have "db w1 = db w"
      by (cases rule: rotate_transaction_cases)
         (auto simp: out elim!: rotate_existing_Inr dest: rotate_issue_RevokeAndReject[THEN notE])
    with w' show ?thesis by (auto simp: RefreshToken_revokeFamily_def run_bind)
  qed
qed

lemma keeps_session_RotateRefreshToken [session_rules]:
  assumes uuid: "inj (random_uuid P)"
  shows "keeps (session_inv P) (RotateRefreshToken P raw a i)"
  unfolding keeps_def
proof (intro allI impI)
  fix w assume inv: "session_inv P w"
  obtain r w' where run: "RotateRefreshToken P raw a i w = (r, w')" by fastforce
  show "session_inv P (snd (RotateRefreshToken P raw a i w))"
  proof (cases r)
    case (Inl e)
    note rej = RotateRefreshToken_Inl[OF run[unfolded Inl]]
    have "session_rows (used_uuids P w') (refresh_tokens (db w))"
      using inv rej(1) unfolding session_inv_def by (metis session_rows_mono used_uuids_mono)
    with rej(2) show ?thesis
      by (auto simp: run session_inv_def intro: session_rows_revoke)
  next
    case (Inr x)
    obtain acc raw' where x: "x = (acc, raw')" by fastforce
    from run[unfolded Inr x] inv uuid show ?thesis
    proof (rule RotateRefreshToken_Inr)
      fix old u v
      assume find: "List.find (\<lambda>t. rt_tokenHash t = sha256_hex P raw) (refresh_tokens (db w)) = Some old"
        and old: "live old"
        and raw': "raw' = random_base64url P 64 (tick w + 2)"
        and w': "w' = w\<lparr>tick := tick w + 6, db := (db w)\<lparr>refresh_tokens :=
            rotated_rows P (Suc (tick w)) old v a i (refresh_tokens (db w))\<rparr>\<rparr>"
        and hash: "\<forall>r \<in> set (refresh_tokens (db w)). rt_tokenHash r \<noteq> sha256_hex P raw'"
      let ?w = "w\<lparr>tick := Suc (tick w)\<rparr>"
      have "session_inv P ?w" using inv by (auto intro: session_inv_frame)
      then have "session_rows (used_uuids P w')
          (rotated_rows P (Suc (tick w)) old v a i (refresh_tokens (db w)))"
        using uuid find old hash
        by (intro rotated_rows_inv[of P ?w]) (auto simp: session_inv_def w' raw' dest: find_SomeD)
      then show ?thesis by (simp add: run session_inv_def w')
    qed
  qed
qed


lemma keeps_session_RevokeRefreshTokenFamily [session_rules]:
  "keeps (session_inv P) (RevokeRefreshTokenFamily P raw)"
  unfolding RevokeRefreshTokenFamily_def by (intro session_rules keeps_rules)

lemma keeps_session_SwitchOrganization [session_rules]:
  "inj (random_uuid P) \<Longrightarrow> keeps (session_inv P) (SwitchOrganization P u v a i)"
  unfolding SwitchOrganization_def by (intro session_rules keeps_rules session_inv_ignores)

end
