(* ===== verification/TrackingTables.thy ===== *)
theory TrackingTables imports TrackingFrames SessionInvariant begin

text \<open>
  What the tracking use cases promise of the rows they write. A use case knows, by the time it writes, that
  the metric or the category it names belongs to the tenant: the user and the organization of the request.
  The contract \<open>tenant_writes\<close> says which writes a predicate has to survive under that knowledge, and its
  lemmas that it then survives every use case. The second contract is of the unique indexes.
\<close>

section \<open>Results\<close>

text \<open>What every value a computation returns satisfies.\<close>

definition returns :: "('a \<Rightarrow> bool) \<Rightarrow> ('w, 'a) io \<Rightarrow> bool" where
  "returns R m \<longleftrightarrow> (\<forall>w x w'. m w = (Inr x, w') \<longrightarrow> R x)"

named_theorems returns_rules

lemma returnsD: "returns R m \<Longrightarrow> m w = (Inr x, w') \<Longrightarrow> R x"
  by (auto simp: returns_def)

lemma returns_return: "R x \<Longrightarrow> returns R (return x)"
  by (simp add: returns_def)

lemma returns_throw [returns_rules]: "returns R (throw e)"
  by (simp add: returns_def)

lemma returns_bind: "returns S m \<Longrightarrow> (\<And>x. S x \<Longrightarrow> returns R (f x)) \<Longrightarrow> returns R (bind m f)"
  by (fastforce simp: returns_def elim: bind_InrE)

lemma returns_if [returns_rules]: "(b \<Longrightarrow> returns R m) \<Longrightarrow> (\<not> b \<Longrightarrow> returns R n) \<Longrightarrow> returns R (if b then m else n)"
  by simp

lemma returns_when_given [returns_rules]:
  "R x \<Longrightarrow> (\<And>y. v = Some y \<Longrightarrow> returns R (f y x)) \<Longrightarrow> returns R (when_given v f x)"
  by (auto simp: when_given_def intro: returns_return split: option.splits)

text \<open>What the entity operations do not change.\<close>

lemma returns_newDate: "(\<And>n. R (f n)) \<Longrightarrow> returns R (bind (newDate P) (\<lambda>now. return (f now)))"
  by (auto simp: returns_def)

lemma returns_Metric_ops [returns_rules]:
  assumes "mt_id m = i \<and> mt_userId m = u"
  shows "returns (\<lambda>x. mt_id x = i \<and> mt_userId x = u) (Metric_rename P s m)"
    "returns (\<lambda>x. mt_id x = i \<and> mt_userId x = u) (Metric_describe P d m)"
    "returns (\<lambda>x. mt_id x = i \<and> mt_userId x = u) (Metric_setDefaultUnit P s m)"
    "returns (\<lambda>x. mt_id x = i \<and> mt_userId x = u) (Metric_moveToCategory P c m)"
    "returns (\<lambda>x. mt_id x = i \<and> mt_userId x = u) (Metric_setOriginalMetric P c m)"
    "returns (\<lambda>x. mt_id x = i \<and> mt_userId x = u) (Metric_togglePublic P b m)"
  using assms
  by (auto simp: Metric_rename_def Metric_describe_def Metric_setDefaultUnit_def Metric_moveToCategory_def
      Metric_setOriginalMetric_def Metric_togglePublic_def Metric_touch_def Let_def
      intro!: returns_rules returns_newDate split: option.split)

text \<open>An update moves the metric to the category it names, if it names one.\<close>

lemma returns_category_kept [returns_rules]:
  assumes "mt_categoryId m = c"
  shows "returns (\<lambda>x. mt_categoryId x = c) (Metric_rename P s m)"
    "returns (\<lambda>x. mt_categoryId x = c) (Metric_describe P d m)"
    "returns (\<lambda>x. mt_categoryId x = c) (Metric_setDefaultUnit P s m)"
    "returns (\<lambda>x. mt_categoryId x = c) (Metric_setOriginalMetric P o' m)"
    "returns (\<lambda>x. mt_categoryId x = c) (Metric_togglePublic P b m)"
  using assms
  by (auto simp: Metric_rename_def Metric_describe_def Metric_setDefaultUnit_def
      Metric_setOriginalMetric_def Metric_togglePublic_def Metric_touch_def Let_def
      intro!: returns_rules returns_newDate split: option.split)

lemma returns_moveToCategory: "returns (\<lambda>x. mt_categoryId x = c) (Metric_moveToCategory P c m)"
  by (auto simp: Metric_moveToCategory_def Metric_touch_def intro!: returns_newDate)

lemma returns_chain: "returns R m \<Longrightarrow> (\<And>x. R x \<Longrightarrow> returns R (f x)) \<Longrightarrow> returns R (bind m f)"
  by (rule returns_bind)

lemma Metric_update_returns:
  "returns (\<lambda>x. mt_id x = mt_id m \<and> mt_userId x = mt_userId m) (Metric_update P data m)"
  unfolding Metric_update_def
  by (intro returns_chain returns_when_given returns_Metric_ops) simp_all

lemma Metric_update_category:
  "returns (\<lambda>x. mt_categoryId x = given (mu_categoryId data) (mt_categoryId m)) (Metric_update P data m)"
proof -
  let ?A = "\<lambda>x. mt_categoryId x = mt_categoryId m" and ?B = "\<lambda>x. mt_categoryId x = given (mu_categoryId data) (mt_categoryId m)"
  have before: "returns ?A (when_given (mu_name data) (Metric_rename P) x)"
    "returns ?A (when_given (mu_description data) (Metric_describe P) x)"
    "returns ?A (when_given (mu_defaultUnit data) (Metric_setDefaultUnit P) x)" if "?A x" for x
    using that by (intro returns_when_given returns_category_kept; simp)+
  have move: "returns ?B (when_given (mu_categoryId data) (Metric_moveToCategory P) x)" if "?A x" for x
    using that
    by (cases "mu_categoryId data") (simp_all add: when_given_def given_def returns_return returns_moveToCategory)
  have after: "returns ?B (when_given (mu_originalMetricId data) (Metric_setOriginalMetric P) x)"
    "returns ?B (when_given (mu_isPublic data) (Metric_togglePublic P) x)" if "?B x" for x
    using that by (intro returns_when_given returns_category_kept; simp)+
  show ?thesis
    unfolding Metric_update_def
    by (rule returns_bind[OF before(1)] returns_bind[OF before(2)] returns_bind[OF before(3)]
        returns_bind[OF move] returns_bind[OF after(1)] after(2) | simp)+
qed

lemma returns_any: "returns (\<lambda>_. True) m"
  by (simp add: returns_def)

lemma returns_spread: "returns (\<lambda>x. ms_id x = ms_id s \<and> ms_metricId x = ms_metricId s) (Settings_updateDetails P u s)"
  unfolding Settings_updateDetails_def Settings_touch_def
  by (intro returns_bind[OF returns_any] returns_newDate) (simp add: spread_update_def)

lemma returns_achieved: "returns (\<lambda>x. ms_id x = ms_id s \<and> ms_metricId x = ms_metricId s) (Settings_markAchieved P s)"
  unfolding Settings_markAchieved_def Settings_touch_def by (rule returns_newDate) simp

lemma returns_display:
  "returns (\<lambda>x. ms_id x = ms_id s \<and> ms_metricId x = ms_metricId s) (Settings_updateDisplayOptions P d s)"
  unfolding Settings_updateDisplayOptions_def Settings_touch_def by (rule returns_newDate) simp

lemma returns_log_ops:
  assumes "ml_id l = i \<and> ml_metricId l = k"
  shows "returns (\<lambda>x. ml_id x = i \<and> ml_metricId x = k) (change_value P n l)"
    "returns (\<lambda>x. ml_id x = i \<and> ml_metricId x = k) (Log_setType P t l)"
    "returns (\<lambda>x. ml_id x = i \<and> ml_metricId x = k) (change_loggedAt P v d l)"
proof -
  have touch: "returns (\<lambda>x. ml_id x = a \<and> ml_metricId x = b) (Log_touch P l')"
    if "ml_id l' = a" "ml_metricId l' = b" for l' a b
    using that unfolding Log_touch_def by (intro returns_newDate) simp
  show "returns (\<lambda>x. ml_id x = i \<and> ml_metricId x = k) (Log_setType P t l)"
    using assms unfolding Log_setType_def by (intro touch) simp_all
  show "returns (\<lambda>x. ml_id x = i \<and> ml_metricId x = k) (change_loggedAt P v d l)"
    using assms unfolding change_loggedAt_def
    by (intro returns_bind[OF returns_any])
      (auto simp: Log_setLoggedAt_def intro!: returns_rules returns_bind[OF returns_any] touch split: option.split)
  have "returns (\<lambda>x. ml_id x = i \<and> ml_metricId x = k) (Log_setLogValue P n l)"
    using assms unfolding Log_setLogValue_def by (intro returns_rules touch) simp_all
  then show "returns (\<lambda>x. ml_id x = i \<and> ml_metricId x = k) (change_value P n l)"
    by (auto simp: change_value_def returns_def run_tryCatch split: prod.splits sum.splits failure.splits)
qed

lemma settings_dto_fields [simp]:
  "cs_organizationId (settings_dto i) = csi_organizationId i" "cs_metricId (settings_dto i) = csi_metricId i"
  by (simp_all add: settings_dto_def)

section \<open>Reads\<close>

lemma reads_getsDb [reads_rules]: "reads_only (getsDb f)"
  by (simp add: getsDb_def reads_only_gets)

lemma tracking_reads [reads_rules]:
  "reads_only (Metric_existsByName P u v s)" "reads_only (Metric_categoryExists u v k)"
  "reads_only (Metric_originalMetricExists u k)" "reads_only (Metric_findOwnedById u v k)"
  "reads_only (validateMetricAccess u v k)" "reads_only (Category_findById u v k)"
  "reads_only (Category_existsByName u v s)" "reads_only (Settings_findByMetricId v k)"
  "reads_only (Settings_findById u v k)" "reads_only (Log_existsAtTimestamp v k t x)" "reads_only (Log_findById u v k)"
  "reads_only (authenticated u)"
  unfolding Metric_existsByName_def Metric_categoryExists_def Metric_originalMetricExists_def Metric_findOwnedById_def
    Metric_row_def validateMetricAccess_def Category_findById_def Category_row_def Category_existsByName_def
    Settings_findByMetricId_def Settings_findById_def Log_existsAtTimestamp_def Log_findById_def authenticated_def
  by (intro reads_rules)+

section \<open>Tenants\<close>

text \<open>What a use case learns: these facts are not lost by anything but a write of their own table.\<close>

definition metric_of :: "jstr \<Rightarrow> jstr \<Rightarrow> jstr \<Rightarrow> world \<Rightarrow> bool" where
  "metric_of u v k w \<longleftrightarrow> (\<exists>r \<in> set (metrics (db w)). mt_id r = k \<and> owned_metric u v r)"

definition category_of :: "jstr \<Rightarrow> jstr \<Rightarrow> jstr option \<Rightarrow> world \<Rightarrow> bool" where
  "category_of u v c w \<longleftrightarrow> (\<forall>k. nonempty c = Some k \<longrightarrow>
     (\<exists>r \<in> set (metric_categories (db w)). mc_id r = k \<and> owned_category u v r))"

definition settings_of :: "jstr \<Rightarrow> jstr \<Rightarrow> metric_settings \<Rightarrow> world \<Rightarrow> bool" where
  "settings_of u v s w \<longleftrightarrow> metric_of u v (ms_metricId s) w \<and>
     (\<exists>r \<in> set (metric_settings (db w)). ms_id r = ms_id s \<and> ms_organizationId r = v \<and> ms_metricId r = ms_metricId s)"

definition log_of :: "jstr \<Rightarrow> jstr \<Rightarrow> metric_log \<Rightarrow> world \<Rightarrow> bool" where
  "log_of u v l w \<longleftrightarrow> metric_of u v (ml_metricId l) w \<and>
     (\<exists>r \<in> set (metric_logs (db w)). ml_id r = ml_id l \<and> ml_organizationId r = v \<and> ml_metricId r = ml_metricId l)"

definition change_of :: "jstr \<Rightarrow> jstr \<Rightarrow> metric \<Rightarrow> world \<Rightarrow> bool" where
  "change_of u v m w \<longleftrightarrow> (\<exists>r \<in> set (metrics (db w)). mt_id r = mt_id m \<and> owned_metric u v r \<and>
     (mt_categoryId m = mt_categoryId r \<or> category_of u v (mt_categoryId m) w))"

lemmas tenant_defs = metric_of_def category_of_def settings_of_def log_of_def change_of_def

lemma tenant_ignores:
  "ignores_tick (metric_of u v k)" "ignores_metric_settings (metric_of u v k)" "ignores_metric_logs (metric_of u v k)"
  "ignores_tick (category_of u v c)" "ignores_metrics (category_of u v c)"
  "ignores_tick (settings_of u v s)" "ignores_tick (log_of u v l)" "ignores_tick (change_of u v m)"
  "ignores_metric_settings (category_of u v c)"
  by (simp_all add: ignores_tick_def ignores_tracking_defs tenant_defs)

text \<open>What the reads establish.\<close>

lemma Metric_row_reads:
  "Metric_row u v k w = (Inr r, w') \<Longrightarrow> w' = w \<and> r \<in> set (metrics (db w)) \<and> mt_id r = k \<and> owned_metric u v r \<and> live_metric r"
  by (auto simp: Metric_row_def run_bind split: option.splits dest: find_SomeD)

lemma Metric_findOwnedById_reads:
  "Metric_findOwnedById u v k w = (Inr m, w') \<Longrightarrow>
   w' = w \<and> mt_id m = k \<and> mt_userId m = u \<and>
   (\<exists>r \<in> set (metrics (db w)). m = metric.truncate r \<and> mt_id r = k \<and> owned_metric u v r \<and> live_metric r)"
  unfolding Metric_findOwnedById_def
  by (elim bind_InrE) (auto dest!: Metric_row_reads simp: metric.defs owned_metric_def)

lemma validateMetricAccess_reads:
  "validateMetricAccess u v k w = (Inr x, w') \<Longrightarrow> w' = w \<and> metric_of u v k w"
  by (auto simp: validateMetricAccess_def run_bind metric_of_def owned_metric_def split: if_splits option.splits
      dest!: find_SomeD)

lemma owns_metric_of: "owns_metric (db w) u v k \<Longrightarrow> metric_of u v k w"
  by (auto simp: owns_metric_def metric_of_def list_ex_iff)

lemma Settings_findById_reads:
  "Settings_findById u v k w = (Inr (Some s), w') \<Longrightarrow> w' = w \<and> settings_of u v s w \<and> ms_id s = k"
  by (auto simp: Settings_findById_def settings_of_def settings_entity_def metric_settings.defs
      intro: owns_metric_of dest!: find_SomeD)

lemma Log_findById_reads:
  "Log_findById u v k w = (Inr (Some l), w') \<Longrightarrow> w' = w \<and> log_of u v l w \<and> ml_id l = k"
  by (auto simp: Log_findById_def log_of_def metric_log.defs intro: owns_metric_of dest!: find_SomeD)

lemma nonempty_Some: "nonempty c = Some k \<longleftrightarrow> c = Some k \<and> k \<noteq> []"
  by (auto simp: nonempty_def)

lemma category_exists:
  "Metric_categoryExists u v k w = (Inr e, w') \<longleftrightarrow> w' = w \<and>
   e = (\<exists>c \<in> set (metric_categories (db w)). owned_category u v c \<and> mc_id c = k \<and> live_category c)"
  by (auto simp: Metric_categoryExists_def count_where_pos)

lemma Metric_create_made:
  "Metric_create P x w = (Inr m, w') \<Longrightarrow> metric_of (cm_userId x) (cm_organizationId x) (mt_id m) w'"
  by (auto simp: Metric_create_def run_bind run_andThen checked_def Let_def metric_of_def owned_metric_def metric.defs
      split: option.splits)

lemma keeps_from_transaction:
  assumes "keeps_from R Q m" "ticks_grow m" "survives_rollback Q"
  shows "keeps_from R Q (runInTransaction m)"
proof (rule keeps_fromI)
  fix w assume w: "Q w" "R w"
  have "Q (snd (m w))" "tick w \<le> tick (snd (m w))"
    using keeps_fromD[OF assms(1) w] ticks_growD[OF assms(2)] by auto
  then show "Q (snd (runInTransaction m w))"
    using w assms(3) by (auto simp: runInTransaction_def survives_rollback_def split: prod.splits sum.splits)
qed

locale tenant_writes =
  fixes P :: platform and Q :: "world \<Rightarrow> bool" and u v :: jstr
  assumes ticking: "ignores_tick Q" and queueing: "ignores_jobs Q" and recording: "ignores_processed_messages Q"
    and rolling: "survives_rollback Q"
    and metric_create: "cm_userId x = u \<Longrightarrow> cm_organizationId x = v \<Longrightarrow>
      keeps_from (category_of u v (cm_categoryId x)) Q (Metric_create P x)"
    and metric_save: "mt_userId m = u \<Longrightarrow> keeps_from (change_of u v m) Q (Metric_save P v m)"
    and metric_delete: "mt_userId m = u \<Longrightarrow> keeps Q (Metric_delete P v m)"
    and category_create: "keeps Q (Category_create P u v n c i)"
    and category_update: "keeps Q (Category_update P u v k n' c' i')"
    and category_delete: "keeps Q (Category_delete P u v k)"
    and settings_create: "cs_organizationId s = v \<Longrightarrow>
      keeps_from (metric_of u v (cs_metricId s)) Q (MetricSettings_create P s)"
    and settings_save: "keeps_from (settings_of u v ms) Q (Settings_save P v ms)"
    and settings_delete: "keeps_from (settings_of u v ms) Q (Settings_delete v ms)"
    and log_create: "keeps_from (metric_of u v k) Q (Log_create P k v nv t d)"
    and log_save: "keeps_from (log_of u v ml) Q (Log_save P v ml)"
    and log_delete: "keeps_from (log_of u v ml) Q (Log_delete v ml)"
begin

lemmas ignoring = ticking queueing recording rolling

lemmas reads = keeps_Metric_existsByName keeps_Metric_categoryExists keeps_Metric_originalMetricExists
  keeps_Metric_findOwnedById keeps_validateMetricAccess keeps_Category_findById keeps_Category_existsByName
  keeps_Settings_findByMetricId keeps_Settings_findById keeps_Log_existsAtTimestamp keeps_Log_findById keeps_authenticated

lemmas ticks = keeps_invalidateCaches keeps_newDate keeps_randomUUID keeps_newTick keeps_random_index keeps_Metric_update
  keeps_Settings_updateDetails keeps_Settings_markAchieved keeps_Settings_updateDisplayOptions keeps_change_value
  keeps_Log_setType keeps_change_loggedAt keeps_log_timestamp keeps_MetricCategoryFactory_generate

lemma createDefault_kept: "keeps_from (metric_of u v k) Q (createDefault P k v)"
  unfolding createDefault_def
  by (intro keeps_from_andThen_last keeps_return keeps_from_weaken[OF settings_create]) simp_all

text \<open>A new metric of the tenant, and the transaction that makes it once its category is known to be the tenant's.\<close>

abbreviation of_tenant :: "create_metric_dto \<Rightarrow> create_metric_dto" where
  "of_tenant x \<equiv> x\<lparr>cm_userId := u, cm_organizationId := v\<rparr>"

lemma create_rows_kept:
  "keeps_from (category_of u v (cm_categoryId x)) Q
     (bind (Metric_create P (of_tenant x)) (\<lambda>m. andThen (createDefault P (mt_id m) v) (return m)))"
  using metric_create[of "of_tenant x"] Metric_create_made[of P "of_tenant x"]
  by (intro keeps_from_bind[where S = "\<lambda>m. metric_of u v (mt_id m)"] keeps_from_andThen_last keeps_return createDefault_kept)
    auto

lemma CreateMetric_kept: "keeps Q (CreateMetric P (of_tenant x))"
  unfolding keeps_def
proof (intro allI impI)
  fix w assume w: "Q w"
  let ?rows = "runInTransaction
    (bind (Metric_create P (of_tenant x)) (\<lambda>m. andThen (createDefault P (mt_id m) v) (return m)))"
  have "CreateMetric P (of_tenant x) w = ?rows w \<and> category_of u v (cm_categoryId x) w \<or>
     (\<exists>e. CreateMetric P (of_tenant x) w = (Inl e, w))"
    by (cases "nonempty (cm_categoryId x)"; cases "nonempty (cm_originalMetricId x)")
      (auto simp: CreateMetric_def run_bind category_of_def Metric_categoryExists_def Metric_originalMetricExists_def
        Metric_existsByName_def count_where_pos)
  then show "Q (snd (CreateMetric P (of_tenant x) w))"
    using w keeps_fromD[OF keeps_from_transaction[OF create_rows_kept ticks_grow_create_metric rolling] w] by auto
qed

text \<open>An update moves a metric to a category of the tenant, or leaves it where it is.\<close>

lemma save_updated:
  assumes "mt_userId m = u"
  shows "keeps_from (\<lambda>w. (\<exists>r \<in> set (metrics (db w)). mt_id r = mt_id m \<and> owned_metric u v r \<and>
       mt_categoryId m = mt_categoryId r) \<and> (\<forall>c. mu_categoryId data = Some (Some c) \<longrightarrow> category_of u v (Some c) w)) Q
     (bind (Metric_update P data m) (Metric_save P v))" (is "keeps_from ?R Q _")
proof (rule keeps_from_bind[where S = "\<lambda>x w. mt_userId x = u \<and> change_of u v x w"])
  show "keeps_from ?R Q (Metric_update P data m)" by (intro keeps_from_keeps ticks ticking)
next
  fix w x w' assume R: "?R w" and run: "Metric_update P data m w = (Inr x, w')"
  have "keeps ?R (Metric_update P data m)"
    by (intro ticks) (simp add: ignores_tick_def category_of_def)
  from keepsD'[OF this run R] have R': "?R w'" .
  have x: "mt_id x = mt_id m" "mt_userId x = u" "mt_categoryId x = given (mu_categoryId data) (mt_categoryId m)"
    using returnsD[OF Metric_update_returns run] returnsD[OF Metric_update_category run] assms by auto
  have "mt_categoryId x = mt_categoryId m \<or> category_of u v (mt_categoryId x) w'"
  proof (cases "mu_categoryId data")
    case (Some c)
    with R' x(3) show ?thesis by (cases c) (auto simp: given_def category_of_def nonempty_def)
  qed (simp add: x given_def)
  with R' x show "mt_userId x = u \<and> change_of u v x w'" by (auto simp: change_of_def)
next
  fix x
  show "keeps_from (\<lambda>w. mt_userId x = u \<and> change_of u v x w) Q (Metric_save P v x)"
    using metric_save[of x] by (simp add: keeps_from_def)
qed

lemma UpdateMetric_kept: "keeps Q (UpdateMetric P u v k data)"
proof -
  let ?owned = "\<lambda>m w. mt_userId m = u \<and> (\<exists>r \<in> set (metrics (db w)). mt_id r = mt_id m \<and> owned_metric u v r \<and>
       mt_categoryId m = mt_categoryId r)"
  let ?known = "\<lambda>w. \<forall>c. mu_categoryId data = Some (Some c) \<longrightarrow> category_of u v (Some c) w"
  have owned: "?owned m w" if "fst (Metric_findOwnedById u v k w) = Inr m" for m w
    using that Metric_findOwnedById_reads[of u v k w m] by (cases "Metric_findOwnedById u v k w") (auto simp: metric.defs)
  have known: "?known w" if "fst ((case mu_categoryId data of
      Some (Some c) \<Rightarrow> Metric_categoryExists u v c | _ \<Rightarrow> return True) w) = Inr e" "e" for w e
    using that
    by (auto simp: category_of_def nonempty_Some Metric_categoryExists_def count_where_pos split: option.splits)
  have save: "keeps_from (\<lambda>w. ?owned m w \<and> ?known w) Q (bind (Metric_update P data m) (Metric_save P v))" for m
    by (rule keeps_fromI) (use keeps_fromD[OF save_updated] in blast)
  show ?thesis
    unfolding UpdateMetric_def
    apply (rule keeps_from_True, rule keeps_from_read, intro reads_rules)
    apply (rule keeps_from_read, intro reads_rules)
    apply (rule keeps_from_if, rule keeps_from_throw)
    apply (rule keeps_from_read, intro reads_rules)
    apply (rule keeps_from_if, rule keeps_from_throw)
    apply (rule keeps_from_read, intro reads_rules)
    apply (rule keeps_from_if, rule keeps_from_throw)
    apply (rule keeps_from_if, rule keeps_from_throw)
    apply (rule keeps_from_weaken[OF save])
    using owned known apply blast
    done
qed

lemma DeleteMetric_kept: "keeps Q (DeleteMetric P u v k)"
proof -
  have owner: "mt_userId m = u" if "fst (Metric_findOwnedById u v k w) = Inr m" for m w
    using that Metric_findOwnedById_reads[of u v k w m] by (cases "Metric_findOwnedById u v k w") auto
  have "keeps_from (\<lambda>w. True \<and> fst (Metric_findOwnedById u v k w) = Inr m) Q (andThen (Metric_delete P v m) (return m))" for m
  proof (cases "mt_userId m = u")
    case True
    then show ?thesis by (intro keeps_from_keeps keeps_andThen metric_delete keeps_return)
  next
    case False
    with owner show ?thesis unfolding keeps_from_def by blast
  qed
  then show ?thesis unfolding DeleteMetric_def by (intro keeps_from_True[OF keeps_from_read] reads_rules)
qed

lemma create_dummy_metric_kept: "keeps Q (create_dummy_metric P u v i)"
proof -
  have "keeps Q (Metric_create P x)" if "cm_userId x = u" "cm_organizationId x = v" "cm_categoryId x = None" for x
    using metric_create[OF that(1,2)] that(3) by (simp add: keeps_from_def keeps_def category_of_def nonempty_def)
  then show ?thesis
    unfolding create_dummy_metric_def by (intro keeps_bind ticks ticking) simp_all
qed

lemma GenerateDummyMetrics_kept: "keeps Q (GenerateDummyMetrics P u v n)"
  unfolding GenerateDummyMetrics_def
  by (intro keeps_runInTransaction keeps_collect create_dummy_metric_kept ticks_grow_dummy_metrics rolling)

lemma category_use_cases_kept:
  "keeps Q (CreateCategory P u v n c i)" "keeps Q (UpdateCategory P u v k n' c' i')" "keeps Q (DeleteCategory P u v k)"
  "keeps Q (GenerateDummyCategories P u v count)"
  unfolding CreateCategory_def UpdateCategory_def DeleteCategory_def GenerateDummyCategories_def create_dummy_category_def
  by (intro category_create category_update category_delete reads ticks ticking keeps_bind keeps_if keeps_throw keeps_return
      keeps_case_option keeps_andThen keeps_collect)+

lemma Settings_create_kept:
  "cs_organizationId s = v \<Longrightarrow> keeps_from (metric_of u v (cs_metricId s)) Q (Settings_create P s)"
  unfolding Settings_create_def
  by (intro keeps_from_bind_last keeps_from_tryCatch settings_create keeps_return keeps_if keeps_throw)

lemma access_known: "isl (fst (validateMetricAccess u v k w)) = False \<Longrightarrow> metric_of u v k w"
  using validateMetricAccess_reads[of u v k w] by (cases "validateMetricAccess u v k w"; cases "fst (validateMetricAccess u v k w)") auto

lemma CreateMetricSettings_kept:
  "keeps Q (CreateMetricSettings P (x\<lparr>csi_userId := u, csi_organizationId := v\<rparr>))"
proof -
  let ?i = "x\<lparr>csi_userId := u, csi_organizationId := v\<rparr>"
  have create: "keeps_from (metric_of u v (csi_metricId x)) Q (Settings_create P (settings_dto ?i))"
    using Settings_create_kept[of "settings_dto ?i"] by simp
  show ?thesis
    unfolding CreateMetricSettings_def
    apply (rule keeps_andThen, rule reads, rule keeps_from_True, rule keeps_from_read_andThen, rule reads_rules)
    apply (rule keeps_from_read, rule reads_rules)
    apply (rule keeps_from_if, rule keeps_from_throw)
    apply (rule keeps_from_bind_last)
     apply (rule keeps_from_weaken[OF create])
     apply (simp add: access_known)
    apply (intro keeps_andThen keeps_return ticks ticking)
    done
qed

lemma settings_known:
  "fst (Settings_findById u v k w) = Inr f \<Longrightarrow> f = Some s \<Longrightarrow> settings_of u v s w"
  using Settings_findById_reads[of u v k w s] by (cases "Settings_findById u v k w") auto

lemma settings_save_kept:
  assumes "\<And>s. returns (\<lambda>x. ms_id x = ms_id s \<and> ms_metricId x = ms_metricId s) (change s)"
    and "\<And>R s. ignores_tick R \<Longrightarrow> keeps R (change s)"
  shows "keeps_from (settings_of u v s) Q (bind (change s) (\<lambda>s. bind (Settings_save P v s) (\<lambda>saved.
     andThen (invalidateCaches P) (return saved))))"
proof (rule keeps_from_bind[where S = "settings_of u v"])
  show "keeps_from (settings_of u v s) Q (change s)" by (intro keeps_from_keeps assms(2) ticking)
  show "settings_of u v x w'" if "settings_of u v s w" "change s w = (Inr x, w')" for w x w'
    using keepsD'[OF assms(2)[OF tenant_ignores(6)] that(2,1)] returnsD[OF assms(1) that(2)]
    by (simp add: settings_of_def)
qed (intro keeps_from_bind_last settings_save keeps_andThen keeps_return ticks ticking)

lemma changing_settings_kept:
  assumes "\<And>s. returns (\<lambda>x. ms_id x = ms_id s \<and> ms_metricId x = ms_metricId s) (change s)"
    and "\<And>R s. ignores_tick R \<Longrightarrow> keeps R (change s)"
  shows "keeps Q (changing_settings P u v k change)"
  unfolding changing_settings_def
  by (intro keeps_andThen reads keeps_from_True[OF keeps_from_read] reads_rules from_rules
      keeps_from_weaken[OF settings_save_kept[OF assms]]) (assumption | (elim conjE, erule (1) settings_known))+

lemma settings_use_cases_kept:
  "keeps Q (UpdateMetricSettings P u v k d)" "keeps Q (UpdateGoalAchievement P u v k)" "keeps Q (UpdateDisplayOptions P u v k p)"
  unfolding UpdateMetricSettings_def UpdateGoalAchievement_def UpdateDisplayOptions_def
  by (intro changing_settings_kept returns_spread returns_achieved returns_display ticks; assumption)+

lemma DeleteMetricSettings_kept: "keeps Q (DeleteMetricSettings P u v k)"
  unfolding DeleteMetricSettings_def
  by (intro keeps_andThen reads keeps_from_True[OF keeps_from_read] reads_rules from_rules keeps_from_andThen_last
      ticks ticking keeps_from_weaken[OF settings_delete]) (elim conjE, erule (1) settings_known)

lemma CreateMetricLog_kept:
  assumes "cl_userId x = u" "cl_organizationId x = v"
  shows "keeps Q (CreateMetricLog P x)"
proof -
  let ?R = "metric_of u v (cl_metricId x)"
  have stamped: "?R w'" if "?R w" "log_timestamp P d w = (Inr t, w')" for w t w' d
    using keepsD'[OF keeps_log_timestamp[OF tenant_ignores(1)] that(2,1)] .
  have writing: "keeps_from ?R Q (bind (log_timestamp P (cl_loggedAt x)) (\<lambda>timestamp.
       case timestamp of
         None \<Rightarrow> throw (DomainError Validation ''loggedAt is invalid'')
       | Some t \<Rightarrow>
         bind (Log_existsAtTimestamp v (cl_metricId x) t None) (\<lambda>exists.
         if exists then throw log_conflict
         else bind (Log_create P (cl_metricId x) v (cl_logValue x) (given (cl_type x) Manual) t) (\<lambda>entry.
         andThen (invalidateCaches P) (return entry)))))"
    by (rule keeps_from_bind[where S = "\<lambda>_. ?R"], intro keeps_from_keeps ticks ticking, erule (1) stamped,
        intro from_rules keeps_from_read reads_rules keeps_from_bind_last keeps_andThen keeps_return ticks ticking
          keeps_from_weaken[OF log_create]) simp
  show ?thesis
    unfolding CreateMetricLog_def assms
    by (intro keeps_if keeps_throw keeps_from_True[OF keeps_from_read_andThen] reads_rules keeps_from_weaken[OF writing])
      (simp add: access_known)
qed

lemma log_known: "fst (Log_findById u v k w) = Inr f \<Longrightarrow> f = Some l \<Longrightarrow> log_of u v l w"
  using Log_findById_reads[of u v k w l] by (cases "Log_findById u v k w") auto

lemma UpdateMetricLog_kept: "keeps Q (UpdateMetricLog P u v k d)"
proof -
  let ?ops = "\<lambda>l. bind (when_given (lu_logValue d) (change_value P) l) (\<lambda>l.
     bind (when_given (lu_type d) (Log_setType P) l) (\<lambda>l.
     when_given (lu_loggedAt d) (change_loggedAt P v) l))"
  have changed: "log_of u v x w'" if "log_of u v l w" "m w = (Inr x, w')"
    "keeps (log_of u v l) m" "returns (\<lambda>x. ml_id x = ml_id l \<and> ml_metricId x = ml_metricId l) m" for l w x w' m
    using keepsD'[OF that(3,2,1)] returnsD[OF that(4,2)] by (simp add: log_of_def)
  have ops: "keeps R (when_given (lu_logValue d) (change_value P) l)" "keeps R (when_given (lu_type d) (Log_setType P) l)"
    "keeps R (when_given (lu_loggedAt d) (change_loggedAt P v) l)" if "ignores_tick R" for R l
    by (intro keeps_when_given ticks that)+
  have same: "returns (\<lambda>x. ml_id x = ml_id l \<and> ml_metricId x = ml_metricId l) (when_given (lu_logValue d) (change_value P) l)"
    "returns (\<lambda>x. ml_id x = ml_id l \<and> ml_metricId x = ml_metricId l) (when_given (lu_type d) (Log_setType P) l)"
    "returns (\<lambda>x. ml_id x = ml_id l \<and> ml_metricId x = ml_metricId l) (when_given (lu_loggedAt d) (change_loggedAt P v) l)" for l
    by (intro returns_when_given returns_log_ops; simp)+
  have save: "keeps_from (log_of u v l) Q (bind (when_given (lu_logValue d) (change_value P) l) (\<lambda>l.
       bind (when_given (lu_type d) (Log_setType P) l) (\<lambda>l.
       bind (when_given (lu_loggedAt d) (change_loggedAt P v) l) (\<lambda>l.
       bind (Log_save P v l) (\<lambda>saved. andThen (invalidateCaches P) (return saved))))))" for l
    by (rule keeps_from_bind[where S = "log_of u v"],
        intro keeps_from_keeps ops ticking, erule changed, assumption, intro ops tenant_ignores, rule same)+
      (intro keeps_from_bind_last log_save keeps_andThen keeps_return ticks ticking)
  show ?thesis
    unfolding UpdateMetricLog_def
    by (intro keeps_from_True[OF keeps_from_read] reads_rules from_rules keeps_from_weaken[OF save]) (elim conjE, erule (1) log_known)
qed

lemma DeleteMetricLog_kept: "keeps Q (DeleteMetricLog P u v k)"
  unfolding DeleteMetricLog_def
  by (intro keeps_from_True[OF keeps_from_read] reads_rules from_rules keeps_from_andThen_last keeps_andThen keeps_return
      ticks ticking keeps_from_weaken[OF log_delete]) (elim conjE, erule (1) log_known)

text \<open>The dummy logs: the metric is still the tenant's after every row.\<close>

lemma keeps_from_conj: "keeps (\<lambda>w. Q w \<and> R w) m \<Longrightarrow> keeps_from R Q m"
  by (auto simp: keeps_def keeps_from_def)

lemma dummy_log_kept: "keeps (\<lambda>w. Q w \<and> metric_of u v k w) (create_dummy_log P k v)"
proof -
  have writing: "keeps (\<lambda>w. Q w \<and> metric_of u v k w) (Log_create P k v x t d)" for x t d
    using log_create keeps_Log_create[OF tenant_ignores(1,3)]
    by (fastforce simp: keeps_def keeps_from_def)
  have "ignores_tick (\<lambda>w. Q w \<and> metric_of u v k w)"
    using ticking tenant_ignores(1) by (simp add: ignores_tick_def)
  with writing show ?thesis
    unfolding create_dummy_log_def by (intro keeps_bind keeps_andThen keeps_return ticks)
qed

lemma dummy_logs_kept: "keeps_from (metric_of u v k) Q (forEach is (\<lambda>_. create_dummy_log P k v))"
  by (intro keeps_from_conj keeps_forEach dummy_log_kept)

lemma GenerateDummyMetricLogs_kept: "keeps Q (GenerateDummyMetricLogs P u v k n)"
proof -
  have "keeps_from (metric_of u v k) Q (bind (randomUUID P) (\<lambda>jobId. bind (MessageQueue_isEnabled P) (\<lambda>enabled.
      if enabled then
        andThen (MessageQueue_publish P (DummyLogsJob jobId u v k n) jobId) (return jobId)
      else andThen (forEach [0..<n] (\<lambda>_. create_dummy_log P k v))
        (andThen (invalidateCaches P) (return jobId)))))"
    by (rule keeps_from_bind[where S = "\<lambda>_. metric_of u v k"], intro keeps_from_keeps ticks ticking,
        erule (1) keepsD'[OF keeps_randomUUID[OF tenant_ignores(1)], rotated],
        rule keeps_from_bind[where S = "\<lambda>_. metric_of u v k"], intro keeps_from_keeps keeps_MessageQueue_isEnabled ticking,
        erule (1) keepsD'[OF keeps_MessageQueue_isEnabled[OF tenant_ignores(1)], rotated])
      (intro keeps_from_if keeps_from_keeps[OF keeps_andThen] keeps_MessageQueue_publish ticking queueing keeps_return
        keeps_from_andThen_last dummy_logs_kept keeps_andThen ticks)
  then show ?thesis
    unfolding GenerateDummyMetricLogs_def
    by (intro keeps_from_True[OF keeps_from_read_andThen] reads_rules) (erule keeps_from_weaken, simp add: access_known)
qed

lemma dummy_work_kept: "keeps_from (metric_of u v k) Q (runOnce m q (forEach is (\<lambda>_. create_dummy_log P k v)))"
proof -
  let ?work = "forEach is (\<lambda>_. create_dummy_log P k v)"
  have "ignores_processed_messages (metric_of u v k)" by (simp add: ignores_processed_messages_def metric_of_def)
  note kept = keepsD'[OF keeps_ProcessedMessage_create[OF this], rotated]
  have "keeps_from (metric_of u v k) Q (runOnce_transaction i q ?work)" for i
    unfolding runOnce_transaction_def
    by (rule keeps_from_bind[where S = "\<lambda>_. metric_of u v k"],
        intro keeps_from_keeps keeps_ProcessedMessage_create recording, erule (1) kept)
      (intro keeps_from_if keeps_from_return keeps_from_andThen_last dummy_logs_kept keeps_return)
  then show ?thesis
    unfolding runOnce_def
    by (intro keeps_from_if keeps_from_throw keeps_from_transaction ticks_grow_runOnce_transaction ticks_grow_dummy_logs rolling)
qed

lemma dummy_job_kept:
  "keeps Q (andThen (tryCatch (validateMetricAccess u v k) (\<lambda>error. throw (terminal_access error)))
     (andThen (runOnce m q (forEach is (\<lambda>_. create_dummy_log P k v))) (invalidateCaches P)))"
proof -
  have "reads_only (tryCatch (validateMetricAccess u v k) (\<lambda>error. throw (terminal_access error)))"
    using tracking_reads(5) by (auto simp: reads_only_def run_tryCatch split: prod.splits sum.splits) (metis snd_conv)+
  then show ?thesis
    by (intro keeps_from_True[OF keeps_from_read_andThen] keeps_from_andThen_last ticks ticking
        keeps_from_weaken[OF dummy_work_kept]) (auto simp: run_tryCatch access_known split: prod.splits sum.splits)
qed

end

end
