(* ===== verification/Lockout.thy ===== *)
theory Lockout imports Frames begin

text \<open>
  The sign-in lockout of \<open>src/features/shared/auth/infrastructure/http/loginLockout.ts\<close> over the Redis
  commands it sends. A counter lives under the hash of the address; the first failure sets its expiry.
  Redis may be closed, or fail any one command: every failure is logged and swallowed.
\<close>

section \<open>Redis\<close>

definition counter_at :: "int \<Rightarrow> jstr \<Rightarrow> counters \<Rightarrow> (nat \<times> int option) option" where
  "counter_at now key c = (case c key of
      None \<Rightarrow> None
    | Some (n, None) \<Rightarrow> Some (n, None)
    | Some (n, Some e) \<Rightarrow> if e \<le> now then None else Some (n, Some e))"

text \<open>One command: it takes a tick, may not be answered, and sees the server's clock.\<close>

definition redis_command :: "platform \<Rightarrow> (int \<Rightarrow> counters \<Rightarrow> 'a \<times> counters) \<Rightarrow> (world, 'a) io" where
  "redis_command P f = bind newTick (\<lambda>t w.
     if \<not> redis_answers P t then (Inl (ServiceError ''redis''), w)
     else (let (x, c) = f (clock P t) (lockouts w) in (Inr x, w\<lparr>lockouts := c\<rparr>)))"

definition redis_isOpen :: "platform \<Rightarrow> (world, bool) io" where
  "redis_isOpen P = bind newTick (\<lambda>t. return (redis_open P t))"

definition redis_get :: "platform \<Rightarrow> jstr \<Rightarrow> (world, nat option) io" where
  "redis_get P key = redis_command P (\<lambda>now c. (map_option fst (counter_at now key c), c))"

definition redis_incr :: "platform \<Rightarrow> jstr \<Rightarrow> (world, nat) io" where
  "redis_incr P key = redis_command P (\<lambda>now c.
     case counter_at now key c of
       None \<Rightarrow> (1, c(key \<mapsto> (1, None)))
     | Some (n, e) \<Rightarrow> (Suc n, c(key \<mapsto> (Suc n, e))))"

definition redis_expire :: "platform \<Rightarrow> jstr \<Rightarrow> int \<Rightarrow> (world, unit) io" where
  "redis_expire P key seconds = redis_command P (\<lambda>now c.
     case counter_at now key c of
       None \<Rightarrow> ((), c)
     | Some (n, e) \<Rightarrow> ((), c(key \<mapsto> (n, Some (now + seconds * 1000)))))"

definition redis_del :: "platform \<Rightarrow> jstr \<Rightarrow> (world, unit) io" where
  "redis_del P key = redis_command P (\<lambda>now c. ((), c(key := None)))"

section \<open>The lockout\<close>

definition LOCKOUT_THRESHOLD :: nat where "LOCKOUT_THRESHOLD = 5"
definition LOCKOUT_TTL_SECONDS :: int where "LOCKOUT_TTL_SECONDS = 15 * 60"

text \<open>\<open>hashEmail\<close> of \<open>src/utils/email-hash.ts\<close>.\<close>

definition hashEmail :: "platform \<Rightarrow> jstr \<Rightarrow> jstr" where
  "hashEmail P email = sha256_hex P (toLowerCase P (js_trim email))"

definition lockout_keyFor :: "platform \<Rightarrow> jstr \<Rightarrow> jstr" where
  "lockout_keyFor P email = lit ''auth:lockout:'' @ hashEmail P email"

text \<open>\<open>None\<close> is the early return of the closed or failing client.\<close>

definition checkLockout :: "platform \<Rightarrow> jstr \<Rightarrow> (world, unit) io" where
  "checkLockout P email =
     bind (tryCatch
       (bind (redis_isOpen P) (\<lambda>isOpen.
        if \<not> isOpen then return None
        else bind (redis_get P (lockout_keyFor P email)) (\<lambda>raw.
             return (Some (case raw of Some n \<Rightarrow> n | None \<Rightarrow> 0)))))
       (\<lambda>_. return None)) (\<lambda>count.
     case count of
       None \<Rightarrow> return ()
     | Some n \<Rightarrow>
         if n \<ge> LOCKOUT_THRESHOLD
         then throw (AppError ''Too many failed login attempts. Please try again later.'' 429)
         else return ())"

definition recordFailedAttempt :: "platform \<Rightarrow> jstr \<Rightarrow> (world, unit) io" where
  "recordFailedAttempt P email =
     tryCatch
       (bind (redis_isOpen P) (\<lambda>isOpen.
        if \<not> isOpen then return ()
        else bind (redis_incr P (lockout_keyFor P email)) (\<lambda>count.
             if count = 1 then redis_expire P (lockout_keyFor P email) LOCKOUT_TTL_SECONDS
             else return ())))
       (\<lambda>_. return ())"

definition resetLockout :: "platform \<Rightarrow> jstr \<Rightarrow> (world, unit) io" where
  "resetLockout P email =
     tryCatch
       (bind (redis_isOpen P) (\<lambda>isOpen.
        if \<not> isOpen then return () else redis_del P (lockout_keyFor P email)))
       (\<lambda>_. return ())"

section \<open>Preservation rules\<close>

lemma keeps_redis_command [keeps_rules]:
  "ignores_tick Q \<Longrightarrow> ignores_lockouts Q \<Longrightarrow> keeps Q (redis_command P f)"
  by (auto simp: redis_command_def keeps_def ignores_tick_def ignores_lockouts_def split: prod.splits)

lemma keeps_redis_isOpen [keeps_rules]: "ignores_tick Q \<Longrightarrow> keeps Q (redis_isOpen P)"
  unfolding redis_isOpen_def by (intro keeps_rules)

lemma keeps_checkLockout [keeps_rules]:
  "ignores_tick Q \<Longrightarrow> ignores_lockouts Q \<Longrightarrow> keeps Q (checkLockout P e)"
  unfolding checkLockout_def redis_get_def by (intro keeps_rules)

lemma keeps_recordFailedAttempt [keeps_rules]:
  "ignores_tick Q \<Longrightarrow> ignores_lockouts Q \<Longrightarrow> keeps Q (recordFailedAttempt P e)"
  unfolding recordFailedAttempt_def redis_incr_def redis_expire_def by (intro keeps_rules)

lemma keeps_resetLockout [keeps_rules]:
  "ignores_tick Q \<Longrightarrow> ignores_lockouts Q \<Longrightarrow> keeps Q (resetLockout P e)"
  unfolding resetLockout_def redis_del_def by (intro keeps_rules)

section \<open>Runs\<close>

lemma run_redis_command:
  "redis_command P f w =
     (if redis_answers P (tick w)
      then (Inr (fst (f (clock P (tick w)) (lockouts w))),
            w\<lparr>tick := Suc (tick w), lockouts := snd (f (clock P (tick w)) (lockouts w))\<rparr>)
      else (Inl (ServiceError ''redis''), w\<lparr>tick := Suc (tick w)\<rparr>))"
  by (simp add: redis_command_def split_beta Let_def)

lemma run_redis_isOpen [simp]:
  "redis_isOpen P w = (Inr (redis_open P (tick w)), w\<lparr>tick := Suc (tick w)\<rparr>)"
  by (simp add: redis_isOpen_def)

lemmas redis_runs = redis_get_def redis_incr_def redis_expire_def redis_del_def run_redis_command
  run_bind run_tryCatch

text \<open>Counting and resetting never fail, whatever Redis does; a check fails only with the 429.\<close>

lemma recordFailedAttempt_total: "\<exists>w'. recordFailedAttempt P e w = (Inr (), w')"
  by (auto simp: recordFailedAttempt_def run_tryCatch split: prod.splits sum.splits)

lemma resetLockout_total: "\<exists>w'. resetLockout P e w = (Inr (), w')"
  by (auto simp: resetLockout_def run_tryCatch split: prod.splits sum.splits)

text \<open>With Redis up, the counter a check reads decides it.\<close>

definition redis_up :: "platform \<Rightarrow> nat \<Rightarrow> bool" where
  "redis_up P from_tick \<longleftrightarrow> (\<forall>t \<ge> from_tick. redis_open P t \<and> redis_answers P t)"

definition failures :: "platform \<Rightarrow> int \<Rightarrow> jstr \<Rightarrow> world \<Rightarrow> nat" where
  "failures P now email w =
     (case counter_at now (lockout_keyFor P email) (lockouts w) of Some (n, _) \<Rightarrow> n | None \<Rightarrow> 0)"

lemma run_checkLockout:
  "redis_up P (tick w) \<Longrightarrow> checkLockout P e w =
     (if failures P (clock P (Suc (tick w))) e w \<ge> LOCKOUT_THRESHOLD
      then Inl (AppError ''Too many failed login attempts. Please try again later.'' 429) else Inr (),
      w\<lparr>tick := tick w + 2\<rparr>)"
  by (auto simp: redis_up_def checkLockout_def redis_runs failures_def split: option.splits)

text \<open>The first failure starts the clock, unless \<open>EXPIRE\<close> is not answered.\<close>

lemma run_first_failure:
  assumes "redis_open P (tick w)" "redis_answers P (Suc (tick w))"
    and "lockouts w (lockout_keyFor P e) = None"
  shows "recordFailedAttempt P e w = (Inr (), w\<lparr>tick := tick w + 3, lockouts := (lockouts w)(lockout_keyFor P e \<mapsto>
      (1, if redis_answers P (tick w + 2) then Some (clock P (tick w + 2) + LOCKOUT_TTL_SECONDS * 1000)
          else None))\<rparr>)"
  using assms
  by (auto simp: recordFailedAttempt_def redis_runs counter_at_def eval_nat_numeral split: option.splits)

text \<open>A later one counts one more and leaves the expiry alone.\<close>

lemma run_later_failure:
  assumes "redis_up P (tick w)" "lockouts w (lockout_keyFor P e) = Some (Suc n, x)"
    and "\<And>d. x = Some d \<Longrightarrow> clock P (Suc (tick w)) < d"
  shows "recordFailedAttempt P e w = (Inr (), w\<lparr>tick := tick w + 2,
      lockouts := (lockouts w)(lockout_keyFor P e \<mapsto> (Suc (Suc n), x))\<rparr>)"
  using assms
  by (auto simp: redis_up_def recordFailedAttempt_def redis_runs counter_at_def split: option.splits)

definition recordFailures :: "platform \<Rightarrow> jstr \<Rightarrow> nat \<Rightarrow> world \<Rightarrow> world" where
  "recordFailures P e n w = snd (forEach (replicate n e) (recordFailedAttempt P) w)"

lemma recordFailures_0 [simp]: "recordFailures P e 0 w = w"
  by (simp add: recordFailures_def)

lemma recordFailures_Suc:
  "recordFailedAttempt P e w = (Inr (), w') \<Longrightarrow> recordFailures P e (Suc n) w = recordFailures P e n w'"
  by (simp add: recordFailures_def run_andThen)

lemma later_failures:
  assumes "redis_up P (tick w)" "lockouts w (lockout_keyFor P e) = Some (Suc k, x)"
    and "\<And>d t. x = Some d \<Longrightarrow> tick w \<le> t \<Longrightarrow> t < tick w + 2 * n \<Longrightarrow> clock P t < d"
  shows "lockouts (recordFailures P e n w) (lockout_keyFor P e) = Some (Suc k + n, x)
         \<and> tick (recordFailures P e n w) = tick w + 2 * n"
  using assms
proof (induction n arbitrary: w k)
  case (Suc n)
  let ?w = "w\<lparr>tick := tick w + 2, lockouts := (lockouts w)(lockout_keyFor P e \<mapsto> (Suc (Suc k), x))\<rparr>"
  have run: "recordFailedAttempt P e w = (Inr (), ?w)"
    using Suc.prems by (intro run_later_failure) auto
  have up: "redis_up P (tick ?w)" using Suc.prems(1) by (simp add: redis_up_def)
  have "lockouts (recordFailures P e n ?w) (lockout_keyFor P e) = Some (Suc (Suc k) + n, x)
        \<and> tick (recordFailures P e n ?w) = tick ?w + 2 * n"
    by (rule Suc.IH[OF up]) (use Suc.prems(3) in auto)
  then show ?case by (simp add: recordFailures_Suc[OF run])
qed simp

lemma check_counter:
  assumes "redis_up P (tick w)" "lockouts w (lockout_keyFor P e) = Some (n, x)"
  shows "fst (checkLockout P e w) =
     (if LOCKOUT_THRESHOLD \<le> n \<and> (case x of None \<Rightarrow> True | Some d \<Rightarrow> clock P (Suc (tick w)) < d)
      then Inl (AppError ''Too many failed login attempts. Please try again later.'' 429) else Inr ())"
  using assms by (auto simp: run_checkLockout failures_def counter_at_def LOCKOUT_THRESHOLD_def split: option.splits)

lemma redis_up_mono: "redis_up P t \<Longrightarrow> t \<le> t' \<Longrightarrow> redis_up P t'"
  by (simp add: redis_up_def)

lemmas evaluate_Lockout [evaluate] =
  counter_at_def redis_command_def redis_isOpen_def redis_get_def redis_incr_def redis_expire_def
  redis_del_def LOCKOUT_THRESHOLD_def LOCKOUT_TTL_SECONDS_def hashEmail_def lockout_keyFor_def
  checkLockout_def recordFailedAttempt_def resetLockout_def

section \<open>Properties\<close>

text \<open>
  C24. With Redis up, after \<open>n + 1\<close> failures for an address nobody had failed on, all inside fifteen
  minutes, a check at a later tick refuses with 429 exactly when there were at least five failures and
  fifteen minutes have not passed since the first: the window starts at the first failure and a later
  one does not extend it.
\<close>

theorem lockout_window:
  assumes "redis_up P (tick w)" "lockouts w (lockout_keyFor P e) = None"
    and "\<forall>s. tick w \<le> s \<and> s < tick w + 3 + 2 * n \<longrightarrow> clock P s < clock P (tick w + 2) + 900000"
    and "tick w + 3 + 2 * n \<le> t"
  shows "fst (checkLockout P e ((recordFailures P e (Suc n) w)\<lparr>tick := t\<rparr>)) =
     (if 5 \<le> Suc n \<and> clock P (Suc t) < clock P (tick w + 2) + 900000
      then Inl (AppError ''Too many failed login attempts. Please try again later.'' 429) else Inr ())"
proof -
  let ?x = "Some (clock P (tick w + 2) + 900000)"
  let ?w = "w\<lparr>tick := tick w + 3, lockouts := (lockouts w)(lockout_keyFor P e \<mapsto> (1, ?x))\<rparr>"
  have run: "recordFailedAttempt P e w = (Inr (), ?w)"
    using assms(1,2) by (simp add: redis_up_def run_first_failure LOCKOUT_TTL_SECONDS_def)
  have "lockouts (recordFailures P e n ?w) (lockout_keyFor P e) = Some (Suc 0 + n, ?x)
        \<and> tick (recordFailures P e n ?w) = tick ?w + 2 * n"
    by (rule later_failures) (use assms(1,3) in \<open>auto simp: redis_up_def\<close>)
  then show ?thesis
    using assms(1,4) by (subst check_counter[where n = "Suc n" and x = ?x])
      (auto simp: recordFailures_Suc[OF run] LOCKOUT_THRESHOLD_def intro: redis_up_mono)
qed

theorem lockout_window_witness:
  "fst (checkLockout sample_platform (lit ''a'') ((recordFailures sample_platform (lit ''a'') 5 sample_world)\<lparr>tick := 100\<rparr>)) =
     Inl (AppError ''Too many failed login attempts. Please try again later.'' 429)"
proof -
  have "redis_up sample_platform (tick sample_world)" "lockouts sample_world (lockout_keyFor sample_platform (lit ''a'')) = None"
    by (simp_all add: redis_up_def sample_platform_def sample_world_def)
  from lockout_window[OF this, of 4 100] show ?thesis
    by (simp add: sample_platform_def sample_world_def)
qed

text \<open>
  C25. When the \<open>EXPIRE\<close> of the first failure is the one command Redis does not answer, the counter
  never expires: after four more failures every later check refuses, whatever the time is. Only a
  successful sign-in deletes the counter, and the check is what stands before it.
\<close>

theorem lockout_without_expiry:
  assumes "redis_open P (tick w)" "redis_answers P (tick w + 1)" "\<not> redis_answers P (tick w + 2)"
    and "redis_up P (tick w + 3)" "lockouts w (lockout_keyFor P e) = None"
    and "4 \<le> n" "tick w + 3 + 2 * n \<le> t"
  shows "fst (checkLockout P e ((recordFailures P e (Suc n) w)\<lparr>tick := t\<rparr>)) =
     Inl (AppError ''Too many failed login attempts. Please try again later.'' 429)"
proof -
  let ?w = "w\<lparr>tick := tick w + 3, lockouts := (lockouts w)(lockout_keyFor P e \<mapsto> (1, None))\<rparr>"
  have run: "recordFailedAttempt P e w = (Inr (), ?w)"
    using assms(1-3,5) by (simp add: run_first_failure)
  have "lockouts (recordFailures P e n ?w) (lockout_keyFor P e) = Some (Suc 0 + n, None)
        \<and> tick (recordFailures P e n ?w) = tick ?w + 2 * n"
    by (rule later_failures) (use assms(4) in auto)
  then show ?thesis
    using assms(4,6,7) by (subst check_counter[where n = "Suc n" and x = None])
      (auto simp: recordFailures_Suc[OF run] LOCKOUT_THRESHOLD_def intro: redis_up_mono)
qed

definition sample_expire_lost :: platform where
  "sample_expire_lost = sample_platform\<lparr>redis_answers := (\<lambda>t. t \<noteq> 12)\<rparr>"

theorem lockout_without_expiry_witness:
  "fst (checkLockout sample_expire_lost (lit ''a'')
     ((recordFailures sample_expire_lost (lit ''a'') 5 sample_world)\<lparr>tick := 1000000000\<rparr>)) =
     Inl (AppError ''Too many failed login attempts. Please try again later.'' 429)"
proof -
  have "redis_open sample_expire_lost (tick sample_world)" "redis_answers sample_expire_lost (tick sample_world + 1)"
    "\<not> redis_answers sample_expire_lost (tick sample_world + 2)" "redis_up sample_expire_lost (tick sample_world + 3)"
    "lockouts sample_world (lockout_keyFor sample_expire_lost (lit ''a'')) = None"
    by (simp_all add: redis_up_def sample_expire_lost_def sample_platform_def sample_world_def)
  from lockout_without_expiry[OF this, of 4 1000000000] show ?thesis
    by (simp add: sample_world_def)
qed

end
