(* ===== verification/SignIn.thy ===== *)
theory SignIn imports SessionInvariant Lockout begin

text \<open>
  Signing in and registering: \<open>LoginUser\<close> and \<open>RegisterUser\<close> of
  \<open>src/features/shared/auth/application/use-cases\<close>, with the password hasher and the failure counter they
  are built with.
\<close>

section \<open>Operations\<close>

definition PasswordHasher_hash :: "platform \<Rightarrow> jstr \<Rightarrow> (world, jstr) io" where
  "PasswordHasher_hash P raw = bind newTick (\<lambda>t. return (bcrypt_hash P t raw))"

definition PasswordHasher_compare :: "platform \<Rightarrow> jstr \<Rightarrow> jstr \<Rightarrow> (world, bool) io" where
  "PasswordHasher_compare P raw hashed = return (bcrypt_compare P raw hashed)"

record login_result =
  res_user :: auth_user
  res_token :: jstr
  res_rawRefreshToken :: jstr

definition LoginUser_refuse :: "platform \<Rightarrow> jstr \<Rightarrow> (world, 'a) io" where
  "LoginUser_refuse P email =
     andThen (recordFailedAttempt P email)
       (throw (DomainError Unauthorized ''Invalid email or password''))"

definition access_payload :: "auth_user \<Rightarrow> jstr \<Rightarrow> token_payload" where
  "access_payload u organizationId =
     \<lparr>payload_id = user_id u, payload_email = user_email u,
      payload_username = user_username u, payload_organizationId = organizationId\<rparr>"

definition LoginUser ::
  "platform \<Rightarrow> jstr \<Rightarrow> jstr \<Rightarrow> jstr option \<Rightarrow> jstr option \<Rightarrow> (world, login_result) io" where
  "LoginUser P email password userAgent ip =
     bind (User_findByEmail (toLowerCase P (js_trim email))) (\<lambda>found.
     case found of
       None \<Rightarrow> LoginUser_refuse P email
     | Some user \<Rightarrow>
       bind (PasswordHasher_compare P password (user_passwordHash user)) (\<lambda>valid.
       if \<not> valid then LoginUser_refuse P email
       else bind (Membership_findDefaultByUser (user_id user)) (\<lambda>membership.
       case membership of
         None \<Rightarrow> throw (DomainError Forbidden ''No active organization membership'')
       | Some m \<Rightarrow>
         bind (TokenProvider_sign P (access_payload user (m_organizationId m))) (\<lambda>token.
         bind (IssueRefreshToken P (user_id user) None (Some (m_organizationId m)) userAgent ip)
           (\<lambda>(rawToken, t).
         andThen (resetLockout P email)
           (return \<lparr>res_user = user, res_token = token, res_rawRefreshToken = rawToken\<rparr>))))))"

record register_input =
  reg_email :: jstr
  reg_password :: jstr
  reg_passwordConfirmation :: jstr
  reg_username :: jstr
  reg_isPublicProfile :: "bool option"
  reg_userAgent :: "jstr option"
  reg_ip :: "jstr option"

definition register_slug :: "platform \<Rightarrow> jstr \<Rightarrow> jstr \<Rightarrow> jstr" where
  "register_slug P username userId =
     js_slice 91 (slug_text (toLowerCase P username)) @ lit ''-'' @ js_slice 8 userId"

definition register_rows ::
  "platform \<Rightarrow> register_input \<Rightarrow> jstr \<Rightarrow> jstr \<Rightarrow> jstr \<Rightarrow> (world, auth_user \<times> organization \<times> jstr) io" where
  "register_rows P input email username passwordHash =
     bind (User_create P email username passwordHash
             (case reg_isPublicProfile input of Some b \<Rightarrow> b | None \<Rightarrow> True)) (\<lambda>user.
     bind (Organization_create P username (register_slug P username (user_id user))) (\<lambda>org.
     andThen (Membership_create P (user_id user) (org_id org) Owner (Some Active))
     (bind (IssueRefreshToken P (user_id user) None (Some (org_id org))
              (reg_userAgent input) (reg_ip input)) (\<lambda>(rawToken, t).
      return (user, org, rawToken)))))"

definition RegisterUser :: "platform \<Rightarrow> register_input \<Rightarrow> (world, login_result) io" where
  "RegisterUser P input =
     (if reg_password input \<noteq> reg_passwordConfirmation input
      then throw (DomainError Validation ''Passwords do not match'')
      else let email = toLowerCase P (js_trim (reg_email input));
               username = js_trim (reg_username input) in
        bind (User_existsByEmail email) (\<lambda>emailTaken.
        if emailTaken then throw (DomainError Conflict ''Email already in use'')
        else bind (User_existsByUsername username) (\<lambda>usernameTaken.
        if usernameTaken then throw (DomainError Conflict ''Username already in use'')
        else bind (PasswordHasher_hash P (reg_password input)) (\<lambda>passwordHash.
        bind (runInTransaction (register_rows P input email username passwordHash))
          (\<lambda>(user, org, rawRefreshToken).
        bind (TokenProvider_sign P (access_payload user (org_id org))) (\<lambda>token.
        return \<lparr>res_user = user, res_token = token, res_rawRefreshToken = rawRefreshToken\<rparr>))))))"

section \<open>Preservation rules\<close>

lemma keeps_PasswordHasher_hash [keeps_rules]:
  "ignores_tick Q \<Longrightarrow> keeps Q (PasswordHasher_hash P r)"
  unfolding PasswordHasher_hash_def by (intro keeps_rules)

lemma keeps_PasswordHasher_compare [keeps_rules]: "keeps Q (PasswordHasher_compare P r h)"
  unfolding PasswordHasher_compare_def by (intro keeps_rules)

lemma keeps_LoginUser_refuse [keeps_rules]:
  "ignores_tick Q \<Longrightarrow> ignores_lockouts Q \<Longrightarrow> keeps Q (LoginUser_refuse P e)"
  unfolding LoginUser_refuse_def by (intro keeps_rules)

lemma keeps_LoginUser [keeps_rules]:
  "ignores_tick Q \<Longrightarrow> ignores_lockouts Q \<Longrightarrow> ignores_refresh_tokens Q \<Longrightarrow> keeps Q (LoginUser P e p a i)"
  unfolding LoginUser_def by (intro keeps_rules)

lemma keeps_session_LoginUser [session_rules]:
  "inj (random_uuid P) \<Longrightarrow> keeps (session_inv P) (LoginUser P e p a i)"
  unfolding LoginUser_def by (intro session_rules keeps_rules session_inv_ignores)

lemma keeps_register_rows [keeps_rules]:
  "ignores_tick Q \<Longrightarrow> ignores_users Q \<Longrightarrow> ignores_organizations Q \<Longrightarrow> ignores_memberships Q \<Longrightarrow>
   ignores_refresh_tokens Q \<Longrightarrow> keeps Q (register_rows P input e u h)"
  unfolding register_rows_def by (intro keeps_rules)

lemma keeps_session_register_rows [session_rules]:
  "inj (random_uuid P) \<Longrightarrow> keeps (session_inv P) (register_rows P input e u h)"
  unfolding register_rows_def by (intro session_rules keeps_rules session_inv_ignores)

lemma ticks_grow_register_rows: "ticks_grow (register_rows P input e u h)"
  by (intro ticks_growI keeps_rules tick_bound_ignores)

lemma keeps_RegisterUser [keeps_rules]:
  "ignores_tick Q \<Longrightarrow> ignores_users Q \<Longrightarrow> ignores_organizations Q \<Longrightarrow> ignores_memberships Q \<Longrightarrow>
   ignores_refresh_tokens Q \<Longrightarrow> survives_rollback Q \<Longrightarrow> keeps Q (RegisterUser P input)"
  unfolding RegisterUser_def by (intro keeps_rules ticks_grow_register_rows)

lemma keeps_session_RegisterUser [session_rules]:
  "inj (random_uuid P) \<Longrightarrow> keeps (session_inv P) (RegisterUser P input)"
  unfolding RegisterUser_def
  by (intro session_rules keeps_rules session_inv_ignores ticks_grow_register_rows)

section \<open>Runs\<close>

lemma users_check_None:
  "users_check u rows = None \<Longrightarrow>
   \<forall>r \<in> set rows. user_email r \<noteq> user_email u \<and> user_username r \<noteq> user_username u"
  by (auto simp: users_check_def split: if_splits)

lemma User_create_Inr:
  assumes "User_create P email username password pub w = (Inr u, w')"
  shows "user_email u = email" "user_username u = username" "user_isPublicProfile u = pub"
    "user_emailVerifiedAt u = None" "user_deletedAt u = None" "user_id u = random_uuid P (tick w)"
    "isBcryptHash password \<Longrightarrow> user_passwordHash u = password"
    "is_email P email" "users_check u (users (db w)) = None"
    "\<exists>k. w' = w\<lparr>tick := k + tick w, db := (db w)\<lparr>users := users (db w) @ [u]\<rparr>\<rparr>"
  using assms
  by (auto simp: User_create_def User_beforeCreate_def checked_def run_bind run_andThen Let_def
      split: if_splits option.splits intro: exI[of _ 3] exI[of _ 2])

lemma Organization_create_Inr:
  assumes "Organization_create P name slug w = (Inr x, w')"
  shows "org_name x = name" "org_slug x = slug" "org_deletedAt x = None" "org_id x = random_uuid P (tick w)"
    "organizations_check x (organizations (db w)) = None"
    "\<exists>k. w' = w\<lparr>tick := k + tick w, db := (db w)\<lparr>organizations := organizations (db w) @ [x]\<rparr>\<rparr>"
  using assms
  by (auto simp: Organization_create_def checked_def run_bind run_andThen Let_def
      split: option.splits intro: exI[of _ 2])

lemma Membership_create_Inr:
  assumes "Membership_create P u v role status w = (Inr m, w')"
  shows "m_userId m = u" "m_organizationId m = v" "m_role m = role" "m_id m = random_uuid P (Suc (tick w))"
    "m_status m = (case status of Some s \<Rightarrow> s | None \<Rightarrow> Active)"
    "\<forall>r \<in> set (memberships (db w)). \<not> (m_userId r = u \<and> m_organizationId r = v)"
    "\<exists>k. w' = w\<lparr>tick := k + tick w, db := (db w)\<lparr>memberships := memberships (db w) @ [m]\<rparr>\<rparr>"
  using assms
  by (auto simp: Membership_create_def run_bind run_andThen Let_def split: if_splits intro: exI[of _ 2])

lemma User_create_tick: "User_create P email username password pub w = (Inr u, w') \<Longrightarrow> tick w < tick w'"
  by (auto simp: User_create_def User_beforeCreate_def checked_def run_bind run_andThen Let_def split: if_splits option.splits)

lemma Organization_create_tick: "Organization_create P name slug w = (Inr x, w') \<Longrightarrow> tick w < tick w'"
  by (auto simp: Organization_create_def checked_def run_bind run_andThen Let_def split: option.splits)

lemma Membership_create_tick: "Membership_create P u v role status w = (Inr m, w') \<Longrightarrow> Suc (tick w) < tick w'"
  by (auto simp: Membership_create_def run_bind run_andThen Let_def split: if_splits)

lemma register_rows_Inr:
  assumes run: "register_rows P input email username hash w = (Inr (user, org, raw), w')"
    and inv: "session_inv P w" and uuid: "inj (random_uuid P)" and hash: "isBcryptHash hash"
  obtains m t k where
    "user_email user = email" "user_username user = username" "user_passwordHash user = hash"
    "user_emailVerifiedAt user = None" "user_deletedAt user = None"
    "users_check user (users (db w)) = None"
    "org_name org = username" "org_slug org = register_slug P username (user_id user)"
    "organizations_check org (organizations (db w)) = None"
    "m_userId m = user_id user" "m_organizationId m = org_id org" "m_role m = Owner" "m_status m = Active"
    "rt_userId t = user_id user" "rt_organizationId t = Some (org_id org)"
    "rt_tokenHash t = sha256_hex P raw" "live t"
    "w' = w\<lparr>tick := k + tick w, db := (db w)\<lparr>users := users (db w) @ [user],
        organizations := organizations (db w) @ [org], memberships := memberships (db w) @ [m],
        refresh_tokens := refresh_tokens (db w) @ [t]\<rparr>\<rparr>"
    "distinct [user_id user, org_id org, m_id m, rt_id t, rt_familyId t]"
    "{user_id user, org_id org, m_id m, rt_id t, rt_familyId t} \<inter> used_uuids P w = {}"
    "\<forall>r \<in> set (memberships (db w)). \<not> (m_userId r = user_id user \<and> m_organizationId r = org_id org)"
    "\<forall>r \<in> set (refresh_tokens (db w)). rt_id r \<noteq> rt_id t \<and> rt_tokenHash r \<noteq> rt_tokenHash t"
proof -
  let ?pub = "case reg_isPublicProfile input of Some b \<Rightarrow> b | None \<Rightarrow> True"
  from run obtain w1 w2 w3 m t where
    1: "User_create P email username hash ?pub w = (Inr user, w1)" and
    2: "Organization_create P username (register_slug P username (user_id user)) w1 = (Inr org, w2)" and
    3: "Membership_create P (user_id user) (org_id org) Owner (Some Active) w2 = (Inr m, w3)" and
    4: "IssueRefreshToken P (user_id user) None (Some (org_id org)) (reg_userAgent input) (reg_ip input) w3
        = (Inr (raw, t), w')"
    unfolding register_rows_def by (auto elim!: bind_InrE andThen_InrE)
  note u = User_create_Inr[OF 1] and o' = Organization_create_Inr[OF 2] and m = Membership_create_Inr[OF 3]
  obtain k1 where w1: "w1 = w\<lparr>tick := k1 + tick w, db := (db w)\<lparr>users := users (db w) @ [user]\<rparr>\<rparr>"
    using u(10) by blast
  obtain k2 where w2: "w2 = w1\<lparr>tick := k2 + tick w1, db := (db w1)\<lparr>organizations := organizations (db w1) @ [org]\<rparr>\<rparr>"
    using o'(6) by blast
  obtain k3 where w3: "w3 = w2\<lparr>tick := k3 + tick w2, db := (db w2)\<lparr>memberships := memberships (db w2) @ [m]\<rparr>\<rparr>"
    using m(7) by blast
  have "session_inv P w3" using inv by (rule session_inv_frame) (simp_all add: w1 w2 w3)
  note t = IssueRefreshToken_Inr[OF 4 this uuid]
  have keys: "user_id user = random_uuid P (tick w)" "org_id org = random_uuid P (tick w1)"
    "m_id m = random_uuid P (Suc (tick w2))" "rt_id t = random_uuid P (tick w3 + 2)" "rt_familyId t = random_uuid P (tick w3 + 3)"
    using u(6) o'(4) m(4) by (simp_all add: t(1) issued_token_def)
  have later: "tick w < tick w1" "tick w1 < tick w2" "Suc (tick w2) < tick w3"
    using User_create_tick[OF 1] Organization_create_tick[OF 2] Membership_create_tick[OF 3] by simp_all
  show ?thesis
  proof (rule that[of m t "k1 + k2 + k3 + 4"])
    show "w' = w\<lparr>tick := (k1 + k2 + k3 + 4) + tick w, db := (db w)\<lparr>users := users (db w) @ [user],
        organizations := organizations (db w) @ [org], memberships := memberships (db w) @ [m],
        refresh_tokens := refresh_tokens (db w) @ [t]\<rparr>\<rparr>"
      by (simp add: t(3) w1 w2 w3 issue_ticks_def)
    show "distinct [user_id user, org_id org, m_id m, rt_id t, rt_familyId t]"
      using later by (auto simp: keys dest: injD[OF uuid])
    show "{user_id user, org_id org, m_id m, rt_id t, rt_familyId t} \<inter> used_uuids P w = {}"
      using later by (auto simp: keys used_uuids_def dest: injD[OF uuid])
  qed (use u o' m t(1,2,4) hash in \<open>simp_all add: issued_token_def live_def w1 w2 w3\<close>)
qed

lemma RegisterUser_Inl: "RegisterUser P input w = (Inl e, w') \<Longrightarrow> db w' = db w"
  by (auto simp: RegisterUser_def User_existsByEmail_def User_existsByUsername_def PasswordHasher_hash_def
      TokenProvider_sign_def run_bind Let_def split: if_splits sum.splits prod.splits
      dest!: runInTransaction_Inl)

lemma RegisterUser_Inr:
  assumes "RegisterUser P input w = (Inr res, w')"
  obtains hash org w1 where
    "reg_password input = reg_passwordConfirmation input"
    "hash = bcrypt_hash P (tick w) (reg_password input)"
    "register_rows P input (toLowerCase P (js_trim (reg_email input))) (js_trim (reg_username input)) hash
       (w\<lparr>tick := Suc (tick w)\<rparr>) = (Inr (res_user res, org, res_rawRefreshToken res), w1)"
    "w' = w1\<lparr>tick := Suc (tick w1)\<rparr>"
    "res_token res = jwt_sign P (tick w1) (access_payload (res_user res) (org_id org))"
  using assms
  by (auto simp: RegisterUser_def User_existsByEmail_def User_existsByUsername_def PasswordHasher_hash_def
      TokenProvider_sign_def run_bind Let_def runInTransaction_Inr split: if_splits sum.splits prod.splits)


lemma register_org_name:
  assumes "register_rows P input email username hash w = (Inr (user, org, raw), w')"
  shows "fits 100 username"
proof -
  from assms obtain w1 w2 where
    "Organization_create P username (register_slug P username (user_id user)) w1 = (Inr org, w2)"
    unfolding register_rows_def by (auto elim!: bind_InrE andThen_InrE)
  from Organization_create_Inr(1,5)[OF this] show ?thesis
    by (auto simp: organizations_check_def split: if_splits)
qed

text \<open>The default organization: no other active membership of the user is earlier.\<close>

lemma first_row_sorted:
  "first_row (sort_key f xs) = Some x \<Longrightarrow> x \<in> set xs \<and> (\<forall>y \<in> set xs. f x \<le> f y)"
proof -
  assume x: "first_row (sort_key f xs) = Some x"
  then obtain ys where ys: "sort_key f xs = x # ys" by (auto simp: first_row_def split: list.splits)
  have "sorted (map f (x # ys))" by (metis ys sorted_sort_key)
  moreover have "set xs = set (x # ys)" by (metis ys set_sort)
  ultimately show ?thesis by auto
qed

lemma first_row_None: "first_row (sort_key f xs) = None \<longleftrightarrow> xs = []"
  by (metis first_row_def list.case_eq_if option.distinct(1) set_empty set_sort)

definition default_membership :: "jstr \<Rightarrow> world \<Rightarrow> membership option" where
  "default_membership userId w = first_row (sort_key position
     (filter (\<lambda>m. m_userId m = userId \<and> m_status m = Active) (memberships (db w))))"

lemma resetLockout_db: "db (snd (resetLockout P e w)) = db w" "tick w \<le> tick (snd (resetLockout P e w))"
proof -
  have "keeps (\<lambda>x. db x = db w) (resetLockout P e)"
    by (rule keeps_resetLockout) (simp_all add: ignores_defs)
  then show "db (snd (resetLockout P e w)) = db w" by (rule keepsD) simp
  have "keeps (\<lambda>x. tick w \<le> tick x) (resetLockout P e)"
    by (intro keeps_rules tick_bound_ignores)
  then show "tick w \<le> tick (snd (resetLockout P e w))" by (rule keepsD) simp
qed

lemma LoginUser_Inr:
  assumes run: "LoginUser P email password a i w = (Inr res, w')"
    and inv: "session_inv P w" and uuid: "inj (random_uuid P)"
  obtains user m t where
    "List.find (\<lambda>u. user_email u = toLowerCase P (js_trim email) \<and> live_user u) (users (db w)) = Some user"
    "bcrypt_compare P password (user_passwordHash user)"
    "default_membership (user_id user) w = Some m"
    "res_user res = user"
    "res_token res = jwt_sign P (tick w) (access_payload user (m_organizationId m))"
    "db w' = (db w)\<lparr>refresh_tokens := refresh_tokens (db w) @ [t]\<rparr>"
    "live t" "rt_userId t = user_id user" "rt_organizationId t = Some (m_organizationId m)"
    "rt_tokenHash t = sha256_hex P (res_rawRefreshToken res)"
    "\<forall>r \<in> set (refresh_tokens (db w)). rt_familyId r \<noteq> rt_familyId t"
proof -
  from run obtain user m raw t w1 where
    u: "List.find (\<lambda>u. user_email u = toLowerCase P (js_trim email) \<and> live_user u) (users (db w)) = Some user"
    and ok: "bcrypt_compare P password (user_passwordHash user)"
    and m: "default_membership (user_id user) w = Some m"
    and issue: "IssueRefreshToken P (user_id user) None (Some (m_organizationId m)) a i (w\<lparr>tick := Suc (tick w)\<rparr>)
                = (Inr (raw, t), w1)"
    and res: "res = \<lparr>res_user = user, res_token = jwt_sign P (tick w) (access_payload user (m_organizationId m)),
                     res_rawRefreshToken = raw\<rparr>"
    and w': "w' = snd (resetLockout P email w1)"
    unfolding LoginUser_def User_findByEmail_def PasswordHasher_compare_def LoginUser_refuse_def
      Membership_findDefaultByUser_def default_membership_def TokenProvider_sign_def
    by (auto split: option.splits if_splits elim!: bind_InrE andThen_InrE simp: run_andThen run_bind
        split: prod.splits sum.splits)
  have inv': "session_inv P (w\<lparr>tick := Suc (tick w)\<rparr>)" using inv by (auto intro: session_inv_frame)
  note t = IssueRefreshToken_Inr[OF issue inv' uuid]
  have "rt_familyId t = random_uuid P (tick w + 4)" by (simp add: t(1) issued_token_def eval_nat_numeral)
  then have fam: "\<forall>r \<in> set (refresh_tokens (db w)). rt_familyId r \<noteq> rt_familyId t"
    using inv fresh_uuid[OF uuid, of w "tick w + 4"] by (auto simp: session_inv_def session_rows_def)
  show ?thesis
  proof (rule that[OF u ok m])
    show "db w' = (db w)\<lparr>refresh_tokens := refresh_tokens (db w) @ [t]\<rparr>"
      by (simp add: w' resetLockout_db t(3))
  qed (use res fam t(1,2) in \<open>simp_all add: issued_token_def live_def\<close>)
qed

lemma LoginUser_refused:
  assumes "List.find (\<lambda>u. user_email u = toLowerCase P (js_trim email) \<and> live_user u) (users (db w)) = found"
    and "\<forall>u. found = Some u \<longrightarrow> \<not> bcrypt_compare P password (user_passwordHash u)"
  shows "LoginUser P email password a i w =
    (Inl (DomainError Unauthorized ''Invalid email or password''), snd (recordFailedAttempt P email w))"
  using assms recordFailedAttempt_total[of P email w]
  by (auto simp: LoginUser_def User_findByEmail_def PasswordHasher_compare_def LoginUser_refuse_def
      run_bind run_andThen split: option.splits)

lemmas evaluate_SignIn [evaluate] =
  PasswordHasher_hash_def PasswordHasher_compare_def LoginUser_refuse_def access_payload_def
  LoginUser_def register_slug_def register_rows_def RegisterUser_def

section \<open>Properties\<close>

text \<open>
  C22. A successful registration appends exactly one user, one organization, one membership and one
  refresh token: the user has the trimmed, lower-cased address and the hash of the password, no other
  row (soft-deleted ones included) has that address, username or slug, the membership makes the user
  an active owner of the organization, and the live token belongs to both. The ids of the four rows and the
  token's family are five different UUIDs that were never drawn before, no membership joins the two yet, and no
  token has the id or the hash of the new one.
\<close>

theorem register_success:
  assumes "RegisterUser P input w = (Inr res, w')"
    and "session_inv P w" "inj (random_uuid P)" "\<forall>t p. isBcryptHash (bcrypt_hash P t p)"
  shows "\<exists>user org m t.
     db w' = (db w)\<lparr>users := users (db w) @ [user], organizations := organizations (db w) @ [org],
        memberships := memberships (db w) @ [m], refresh_tokens := refresh_tokens (db w) @ [t]\<rparr> \<and>
     res_user res = user \<and>
     user_email user = toLowerCase P (js_trim (reg_email input)) \<and>
     user_username user = js_trim (reg_username input) \<and>
     user_passwordHash user = bcrypt_hash P (tick w) (reg_password input) \<and>
     (\<forall>r \<in> set (users (db w)). user_email r \<noteq> user_email user \<and> user_username r \<noteq> user_username user) \<and>
     (\<forall>r \<in> set (organizations (db w)). org_slug r \<noteq> org_slug org) \<and>
     m_userId m = user_id user \<and> m_organizationId m = org_id org \<and> m_role m = Owner \<and> m_status m = Active \<and>
     rt_userId t = user_id user \<and> rt_organizationId t = Some (org_id org) \<and> rt_revokedAt t = None \<and>
     rt_tokenHash t = sha256_hex P (res_rawRefreshToken res) \<and>
     distinct [user_id user, org_id org, m_id m, rt_id t, rt_familyId t] \<and>
     {user_id user, org_id org, m_id m, rt_id t, rt_familyId t} \<inter> used_uuids P w = {} \<and>
     (\<forall>r \<in> set (memberships (db w)). \<not> (m_userId r = user_id user \<and> m_organizationId r = org_id org)) \<and>
     (\<forall>r \<in> set (refresh_tokens (db w)). rt_id r \<noteq> rt_id t \<and> rt_tokenHash r \<noteq> rt_tokenHash t)"
proof -
  from assms(1) obtain hash org w1 where
    rows: "register_rows P input (toLowerCase P (js_trim (reg_email input))) (js_trim (reg_username input)) hash
       (w\<lparr>tick := Suc (tick w)\<rparr>) = (Inr (res_user res, org, res_rawRefreshToken res), w1)"
    and hash: "hash = bcrypt_hash P (tick w) (reg_password input)" and w': "w' = w1\<lparr>tick := Suc (tick w1)\<rparr>"
    by (rule RegisterUser_Inr)
  have inv: "session_inv P (w\<lparr>tick := Suc (tick w)\<rparr>)" using assms(2) by (auto intro: session_inv_frame)
  have "isBcryptHash hash" using assms(4) hash by simp
  from rows inv assms(3) this obtain m t k where
    *: "user_email (res_user res) = toLowerCase P (js_trim (reg_email input))"
    "user_username (res_user res) = js_trim (reg_username input)" "user_passwordHash (res_user res) = hash"
    "users_check (res_user res) (users (db w)) = None"
    "organizations_check org (organizations (db w)) = None"
    "m_userId m = user_id (res_user res)" "m_organizationId m = org_id org" "m_role m = Owner" "m_status m = Active"
    "rt_userId t = user_id (res_user res)" "rt_organizationId t = Some (org_id org)"
    "rt_tokenHash t = sha256_hex P (res_rawRefreshToken res)" "live t"
    and w1: "w1 = w\<lparr>tick := k, db := (db w)\<lparr>users := users (db w) @ [res_user res],
        organizations := organizations (db w) @ [org], memberships := memberships (db w) @ [m],
        refresh_tokens := refresh_tokens (db w) @ [t]\<rparr>\<rparr>"
    and keys: "distinct [user_id (res_user res), org_id org, m_id m, rt_id t, rt_familyId t]"
      "{user_id (res_user res), org_id org, m_id m, rt_id t, rt_familyId t} \<inter> used_uuids P (w\<lparr>tick := Suc (tick w)\<rparr>) = {}"
    and unused: "\<forall>r \<in> set (memberships (db w)). \<not> (m_userId r = user_id (res_user res) \<and> m_organizationId r = org_id org)"
      "\<forall>r \<in> set (refresh_tokens (db w)). rt_id r \<noteq> rt_id t \<and> rt_tokenHash r \<noteq> rt_tokenHash t"
    by (rule register_rows_Inr) simp
  have fresh: "{user_id (res_user res), org_id org, m_id m, rt_id t, rt_familyId t} \<inter> used_uuids P w = {}"
    using keys(2) used_uuids_mono[of w "w\<lparr>tick := Suc (tick w)\<rparr>" P] by auto
  show ?thesis
    by (rule exI[of _ "res_user res"], rule exI[of _ org], rule exI[of _ m], rule exI[of _ t])
       (use * keys(1) fresh unused users_check_None[OF *(4)] in \<open>auto simp: w' w1 hash live_def organizations_check_def split: if_splits\<close>)
qed

definition sample_register :: register_input where
  "sample_register = \<lparr>reg_email = lit '' b'', reg_password = lit ''q'', reg_passwordConfirmation = lit ''q'',
     reg_username = lit ''m'', reg_isPublicProfile = None, reg_userAgent = None, reg_ip = None\<rparr>"

theorem register_success_witness:
  "\<exists>user org m t. db (final (RegisterUser sample_platform sample_register) sample_world) =
     (db sample_world)\<lparr>users := [sample_user, user], organizations := [sample_organization, org],
        memberships := [sample_membership, m], refresh_tokens := [sample_token, t]\<rparr> \<and> m_role m = Owner"
proof -
  have "succeeds (RegisterUser sample_platform sample_register) sample_world"
    by (simp add: evaluate sample_register_def slug_text_def is_lower_alnum_def)
  from register_success[OF returned_run[OF this] sample_session_inv sample_uuid_inj] sample_bcrypt
  show ?thesis by (force simp: sample_world_def)
qed

text \<open>
  A registration that fails, for whatever reason and at whatever step, leaves the database as it
  was: no user without an organization, no organization without an owner.
\<close>

theorem register_failure_atomic:
  assumes "RegisterUser P input w = (Inl e, w')"
  shows "db w' = db w"
  using assms by (rule RegisterUser_Inl)

theorem register_failure_atomic_witness:
  "db (final (RegisterUser sample_platform (sample_register\<lparr>reg_email := lit ''a''\<rparr>)) sample_world) = db sample_world"
  by (rule register_failure_atomic[where e = "DomainError Conflict ''Email already in use''"
        and input = "sample_register\<lparr>reg_email := lit ''a''\<rparr>" and P = sample_platform])
     (simp add: evaluate sample_register_def count_where_def)

text \<open>
  A username of more than one hundred characters cannot register, although the users table would
  hold it: it is also the organization's name, and that column is narrower.
\<close>

theorem register_long_username:
  assumes "100 < char_length (js_trim (reg_username input))"
  shows "\<exists>e. fst (RegisterUser P input w) = Inl e"
proof (cases "RegisterUser P input w")
  case (Pair r w')
  show ?thesis
  proof (cases r)
    case (Inr res)
    with Pair have "RegisterUser P input w = (Inr res, w')" by simp
    then obtain hash org w1 where "register_rows P input (toLowerCase P (js_trim (reg_email input)))
       (js_trim (reg_username input)) hash (w\<lparr>tick := Suc (tick w)\<rparr>) =
       (Inr (res_user res, org, res_rawRefreshToken res), w1)"
      by (rule RegisterUser_Inr)
    then have "fits 100 (js_trim (reg_username input))" by (rule register_org_name)
    with assms show ?thesis by (simp add: fits_def)
  qed (simp add: Pair)
qed

theorem register_long_username_witness:
  "\<exists>e. fst (RegisterUser sample_platform (sample_register\<lparr>reg_username := replicate 101 120\<rparr>) sample_world) = Inl e"
proof -
  have "js_trim (replicate 101 120) = replicate 101 120"
    by (rule js_trim_id) (simp add: js_space_def)
  moreover have "char_length (replicate 101 120) = 101"
    by (subst char_length_plain) (simp_all add: is_high_def)
  ultimately show ?thesis by (intro register_long_username) simp
qed

text \<open>
  C23. A sign-in succeeds only for a live user with the normalised address whose stored hash the
  password matches, and with an active membership: the session is in the earliest of the user's active
  memberships, the access token names that organization, and the one database write is a live refresh
  token of a family of its own.
\<close>

theorem login_success:
  assumes "LoginUser P email password a i w = (Inr res, w')"
    and "session_inv P w" "inj (random_uuid P)"
  shows "\<exists>user m t. user \<in> set (users (db w)) \<and> user_deletedAt user = None \<and>
     user_email user = toLowerCase P (js_trim email) \<and>
     bcrypt_compare P password (user_passwordHash user) \<and>
     m \<in> set (memberships (db w)) \<and> m_userId m = user_id user \<and> m_status m = Active \<and>
     (\<forall>m' \<in> set (memberships (db w)). m_userId m' = user_id user \<and> m_status m' = Active \<longrightarrow>
        position m \<le> position m') \<and>
     res_token res = jwt_sign P (tick w) (access_payload user (m_organizationId m)) \<and>
     db w' = (db w)\<lparr>refresh_tokens := refresh_tokens (db w) @ [t]\<rparr> \<and>
     rt_userId t = user_id user \<and> rt_organizationId t = Some (m_organizationId m) \<and>
     rt_revokedAt t = None \<and> rt_tokenHash t = sha256_hex P (res_rawRefreshToken res) \<and>
     (\<forall>r \<in> set (refresh_tokens (db w)). rt_familyId r \<noteq> rt_familyId t)"
  using assms
proof (rule LoginUser_Inr)
  fix user m t
  assume u: "List.find (\<lambda>u. user_email u = toLowerCase P (js_trim email) \<and> live_user u) (users (db w)) = Some user"
    and m: "default_membership (user_id user) w = Some m"
    and rest: "bcrypt_compare P password (user_passwordHash user)"
    "res_token res = jwt_sign P (tick w) (access_payload user (m_organizationId m))"
    "db w' = (db w)\<lparr>refresh_tokens := refresh_tokens (db w) @ [t]\<rparr>"
    "live t" "rt_userId t = user_id user" "rt_organizationId t = Some (m_organizationId m)"
    "rt_tokenHash t = sha256_hex P (res_rawRefreshToken res)"
    "\<forall>r \<in> set (refresh_tokens (db w)). rt_familyId r \<noteq> rt_familyId t"
  note u' = find_SomeD[OF u] and m' = first_row_sorted[OF m[unfolded default_membership_def]]
  show ?thesis
    by (rule exI[of _ user], rule exI[of _ m], rule exI[of _ t])
       (use u' m' rest in \<open>auto simp: live_user_def live_def\<close>)
qed

theorem login_success_witness:
  "\<exists>t. db (final (LoginUser sample_platform (lit ''a'') (lit ''p'') None None) sample_world) =
     (db sample_world)\<lparr>refresh_tokens := [sample_token, t]\<rparr> \<and> rt_userId t = lit ''u'' \<and> rt_revokedAt t = None"
proof -
  have "succeeds (LoginUser sample_platform (lit ''a'') (lit ''p'') None None) sample_world"
    by (simp add: evaluate)
  from login_success[OF returned_run[OF this] sample_session_inv sample_uuid_inj]
  show ?thesis by (force simp: sample_world_def empty_database_def sample_user_def)
qed

text \<open>
  An unknown address and a wrong password are refused alike: the same error, the same one failure
  counted against the address as typed, and nothing else done.
\<close>

theorem login_refusals_alike:
  assumes "\<forall>u. List.find (\<lambda>u. user_email u = toLowerCase P (js_trim email) \<and> live_user u) (users (db w)) = Some u
     \<longrightarrow> \<not> bcrypt_compare P password (user_passwordHash u)"
  shows "LoginUser P email password a i w =
    (Inl (DomainError Unauthorized ''Invalid email or password''), snd (recordFailedAttempt P email w))"
  using LoginUser_refused[OF refl assms] .

theorem login_refusals_alike_witness:
  "LoginUser sample_platform (lit ''a'') (lit ''x'') None None sample_world =
     (Inl (DomainError Unauthorized ''Invalid email or password''),
      snd (recordFailedAttempt sample_platform (lit ''a'') sample_world))"
  by (rule login_refusals_alike) (simp add: sample_platform_def sample_world_def sample_user_def lit_def)

end
