(* ===== verification/Credentials.thy ===== *)
theory Credentials imports SignIn Messaging begin

text \<open>
  Proving an address and replacing a password: \<open>RequestPasswordReset\<close>, \<open>ResetPassword\<close>,
  \<open>RequestEmailVerification\<close>, \<open>VerifyEmail\<close>, \<open>ScheduleEmailVerification\<close>, \<open>UpdateProfile\<close> and the two queued
  jobs, of \<open>src/features/shared/auth/application/use-cases\<close>. The clock a test may inject is left out:
  the feature is built without it.
\<close>

section \<open>Operations\<close>

text \<open>The link of an email: the URL configured, with the token as a query parameter.\<close>

definition build_link :: "jstr \<Rightarrow> jstr \<Rightarrow> (world, jstr) io" where
  "build_link base rawToken =
     (case encodeURIComponent rawToken of
        None \<Rightarrow> throw (PlainError ''URI malformed'')
      | Some encoded \<Rightarrow>
          return (base @ (if 63 \<in> set base then lit ''&'' else lit ''?'') @ lit ''token='' @ encoded))"

definition email_to :: "jstr \<Rightarrow> email_content \<Rightarrow> email_message" where
  "email_to to c = \<lparr>mail_subject = mail_subject c, mail_text = mail_text c, mail_html = mail_html c, mail_to = to\<rparr>"

definition RESET_TOKEN_TTL_MINUTES :: nat where "RESET_TOKEN_TTL_MINUTES = 15"

definition RequestPasswordReset_issue :: "platform \<Rightarrow> auth_user \<Rightarrow> (world, email_message) io" where
  "RequestPasswordReset_issue P user =
     bind (newDate P) (\<lambda>now.
     andThen (PasswordResetToken_invalidateAllForUser (user_id user) now)
     (bind (randomToken P 32) (\<lambda>rawToken.
     andThen (PasswordResetToken_create P (user_id user) (sha256_hex P rawToken)
                (now + int RESET_TOKEN_TTL_MINUTES * 60 * 1000))
     (bind (build_link (reset_url P) rawToken) (\<lambda>link.
      return (email_to (user_email user)
        (buildPasswordResetEmail (app_display_name P) link RESET_TOKEN_TTL_MINUTES)))))))"

definition RequestPasswordReset_executeInTransaction :: "platform \<Rightarrow> jstr \<Rightarrow> (world, unit) io" where
  "RequestPasswordReset_executeInTransaction P userId =
     bind (User_findById userId) (\<lambda>user.
     case user of
       None \<Rightarrow> return ()
     | Some u \<Rightarrow> bind (RequestPasswordReset_issue P u) (EmailSender_send P))"

definition swallow :: "(world, 'a) io \<Rightarrow> (world, unit) io" where
  "swallow m = tryCatch (andThen m (return ())) (\<lambda>_. return ())"

definition RequestPasswordReset_sendInRequest :: "platform \<Rightarrow> auth_user \<Rightarrow> (world, unit) io" where
  "RequestPasswordReset_sendInRequest P user =
     bind (RequestPasswordReset_issue P user) (\<lambda>message. swallow (EmailSender_send P message))"

definition QUEUE_PASSWORD_RESET :: "platform \<Rightarrow> jstr" where
  "QUEUE_PASSWORD_RESET P = app_short_name P @ lit ''.auth.send-password-reset-email''"

definition QUEUE_VERIFICATION :: "platform \<Rightarrow> jstr" where
  "QUEUE_VERIFICATION P = app_short_name P @ lit ''.auth.send-verification-email''"

definition QUEUE_INVITE :: "platform \<Rightarrow> jstr" where
  "QUEUE_INVITE P = app_short_name P @ lit ''.auth.send-invite-email''"


definition RequestPasswordReset_sendJobInRequest :: "platform \<Rightarrow> jstr \<Rightarrow> jstr \<Rightarrow> (world, unit) io" where
  "RequestPasswordReset_sendJobInRequest P userId messageId =
     swallow (runOnce (Some messageId) (QUEUE_PASSWORD_RESET P)
       (RequestPasswordReset_executeInTransaction P userId))"

text \<open>\<open>True\<close> when the publish was confirmed; a rejection is caught and logged.\<close>

definition try_publish :: "platform \<Rightarrow> job \<Rightarrow> jstr \<Rightarrow> (world, bool) io" where
  "try_publish P job messageId =
     tryCatch (andThen (MessageQueue_publish P job messageId) (return True)) (\<lambda>_. return False)"

definition RequestPasswordReset :: "platform \<Rightarrow> jstr \<Rightarrow> (world, unit) io" where
  "RequestPasswordReset P email =
     bind (User_findByEmail (toLowerCase P (js_trim email))) (\<lambda>found.
     case found of
       None \<Rightarrow> return ()
     | Some user \<Rightarrow>
       bind (MessageQueue_isEnabled P) (\<lambda>enabled.
       if enabled
       then bind (randomUUID P) (\<lambda>messageId.
            bind (try_publish P (PasswordResetEmailJob (user_id user)) messageId) (\<lambda>published.
            if published then return ()
            else RequestPasswordReset_sendJobInRequest P (user_id user) messageId))
       else RequestPasswordReset_sendInRequest P user))"

definition ResetPassword :: "platform \<Rightarrow> jstr \<Rightarrow> jstr \<Rightarrow> jstr \<Rightarrow> (world, unit) io" where
  "ResetPassword P token password passwordConfirmation =
     (if password \<noteq> passwordConfirmation then throw (DomainError Validation ''Passwords do not match'')
      else bind (newDate P) (\<lambda>now.
        bind (PasswordResetToken_findByTokenHash (sha256_hex P token)) (\<lambda>found.
        case found of
          None \<Rightarrow> throw (DomainError Validation ''Invalid or expired reset token'')
        | Some t \<Rightarrow>
          if Token_isUsed t \<or> Token_isExpired now t
          then throw (DomainError Validation ''Invalid or expired reset token'')
          else bind (User_findById (ott_userId t)) (\<lambda>user.
          case user of
            None \<Rightarrow> throw (DomainError Validation ''Invalid or expired reset token'')
          | Some u \<Rightarrow>
            bind (PasswordHasher_hash P password) (\<lambda>passwordHash.
            bind (AuthUser_setPasswordHash P passwordHash u) (\<lambda>u'.
            andThen (User_save P u')
              (PasswordResetToken_markUsed (ott_id t) now)))))))"

definition RequestEmailVerification_issue :: "platform \<Rightarrow> jstr \<Rightarrow> (world, email_message option) io" where
  "RequestEmailVerification_issue P userId =
     bind (User_findById userId) (\<lambda>user.
     case user of
       None \<Rightarrow> return None
     | Some u \<Rightarrow>
       if user_emailVerifiedAt u \<noteq> None then return None
       else bind (newDate P) (\<lambda>now.
         andThen (EmailVerificationToken_revokeAllForUser (user_id u) now)
         (bind (randomToken P 32) (\<lambda>rawToken.
         andThen (EmailVerificationToken_save P (user_id u) (sha256_hex P rawToken)
                    (now + int (verification_ttl_sec P) * 1000))
         (bind (build_link (verify_url P) rawToken) (\<lambda>link.
          return (Some (email_to (user_email u)
            (buildEmailVerificationEmail (app_display_name P) link
               ((2 * verification_ttl_sec P + 3600) div 7200))))))))))"

definition RequestEmailVerification :: "platform \<Rightarrow> jstr \<Rightarrow> (world, unit) io" where
  "RequestEmailVerification P userId =
     bind (RequestEmailVerification_issue P userId) (\<lambda>email.
     case email of None \<Rightarrow> return () | Some message \<Rightarrow> swallow (EmailSender_send P message))"

definition RequestEmailVerification_executeInTransaction :: "platform \<Rightarrow> jstr \<Rightarrow> (world, unit) io" where
  "RequestEmailVerification_executeInTransaction P userId =
     bind (RequestEmailVerification_issue P userId) (\<lambda>email.
     case email of None \<Rightarrow> return () | Some message \<Rightarrow> EmailSender_send P message)"

text \<open>
  \<open>sendInProcess\<close> and \<open>sendJobInProcess\<close> as \<open>buildAuthFeature\<close> gives them: \<open>runInBackground\<close> starts the work
  and logs a rejection. Here the work is done at once; the caller does not look at what it leaves.
\<close>

definition ScheduleEmailVerification :: "platform \<Rightarrow> jstr \<Rightarrow> (world, unit) io" where
  "ScheduleEmailVerification P userId =
     bind (MessageQueue_isEnabled P) (\<lambda>enabled.
     if \<not> enabled then swallow (RequestEmailVerification P userId)
     else bind (randomUUID P) (\<lambda>messageId.
          bind (try_publish P (VerificationEmailJob userId) messageId) (\<lambda>published.
          if published then return ()
          else swallow (runOnce (Some messageId) (QUEUE_VERIFICATION P)
                 (RequestEmailVerification_executeInTransaction P userId)))))"

definition VerifyEmail :: "platform \<Rightarrow> jstr \<Rightarrow> (world, unit) io" where
  "VerifyEmail P token =
     bind (newDate P) (\<lambda>now.
     bind (EmailVerificationToken_findByTokenHash (sha256_hex P token)) (\<lambda>found.
     case found of
       None \<Rightarrow> throw (DomainError Validation ''Verification link is invalid or has expired.'')
     | Some t \<Rightarrow>
       if \<not> EmailVerificationToken_isUsable now t
       then throw (DomainError Validation ''Verification link is invalid or has expired.'')
       else bind (User_findById (ott_userId t)) (\<lambda>user.
       case user of
         None \<Rightarrow> throw (DomainError Validation ''Verification link is invalid or has expired.'')
       | Some u \<Rightarrow>
         bind (AuthUser_setEmailVerifiedAt P now u) (\<lambda>u'.
         andThen (User_save P u')
           (EmailVerificationToken_markUsed (ott_id t) now)))))"

record update_profile_input =
  up_userId :: jstr
  up_email :: "jstr option"
  up_username :: "jstr option"
  up_password :: "jstr option"
  up_isPublicProfile :: "bool option"

definition UpdateProfile_email :: "platform \<Rightarrow> update_profile_input \<Rightarrow> auth_user \<Rightarrow> (world, auth_user) io" where
  "UpdateProfile_email P input user =
     (case nonempty (up_email input) of
        None \<Rightarrow> return user
      | Some email \<Rightarrow>
          if toLowerCase P email = user_email user then return user
          else bind (User_existsByEmail (toLowerCase P email)) (\<lambda>taken.
               if taken then throw (DomainError Conflict ''Email already in use'')
               else AuthUser_changeEmail P email user))"

definition UpdateProfile_username :: "platform \<Rightarrow> update_profile_input \<Rightarrow> auth_user \<Rightarrow> (world, auth_user) io" where
  "UpdateProfile_username P input user =
     (case nonempty (up_username input) of
        None \<Rightarrow> return user
      | Some username \<Rightarrow>
          if username = user_username user then return user
          else bind (User_existsByUsername username) (\<lambda>taken.
               if taken then throw (DomainError Conflict ''Username already in use'')
               else AuthUser_changeUsername P username user))"

definition UpdateProfile :: "platform \<Rightarrow> update_profile_input \<Rightarrow> (world, auth_user) io" where
  "UpdateProfile P input =
     (if up_userId input = [] then throw (DomainError Unauthorized ''User not authenticated'')
      else bind (User_findById (up_userId input)) (\<lambda>found.
      case found of
        None \<Rightarrow> throw (DomainError Not_found ''User not found'')
      | Some user \<Rightarrow>
        bind (UpdateProfile_email P input user) (\<lambda>u1.
        bind (UpdateProfile_username P input u1) (\<lambda>u2.
        bind (case up_isPublicProfile input of
                Some b \<Rightarrow> AuthUser_togglePublicProfile P b u2 | None \<Rightarrow> return u2) (\<lambda>u3.
        bind (case nonempty (up_password input) of
                Some password \<Rightarrow> bind (PasswordHasher_hash P password) (\<lambda>h. AuthUser_setPasswordHash P h u3)
              | None \<Rightarrow> return u3) (\<lambda>u4.
        User_save P u4))))))"

text \<open>What the worker runs for each job; the message id is taken as delivered.\<close>

definition SendPasswordResetEmailHandler :: "platform \<Rightarrow> parsed_body \<Rightarrow> jstr option \<Rightarrow> jstr \<Rightarrow> (world, unit) io" where
  "SendPasswordResetEmailHandler P body messageId queue =
     bind (liftEither (job_id_field body (lit ''userId'') ''Refusing password-reset email job without a user id.'')) (\<lambda>userId.
     andThen (runOnce messageId queue (RequestPasswordReset_executeInTransaction P userId)) (return ()))"

definition SendVerificationEmailHandler :: "platform \<Rightarrow> parsed_body \<Rightarrow> jstr option \<Rightarrow> jstr \<Rightarrow> (world, unit) io" where
  "SendVerificationEmailHandler P body messageId queue =
     bind (liftEither (job_id_field body (lit ''userId'') ''Refusing verification-email job without a user id.'')) (\<lambda>userId.
     andThen (runOnce messageId queue (RequestEmailVerification_executeInTransaction P userId)) (return ()))"

section \<open>Preservation rules\<close>

lemma keeps_build_link [keeps_rules]:
  "keeps Q (build_link b r)"
  unfolding build_link_def by (intro keeps_rules)

lemma keeps_swallow [keeps_rules]:
  "keeps Q m \<Longrightarrow> keeps Q (swallow m)"
  unfolding swallow_def by (intro keeps_rules)

lemma keeps_RequestPasswordReset_issue [keeps_rules]:
  "ignores_tick Q \<Longrightarrow> ignores_password_reset_tokens Q \<Longrightarrow> keeps Q (RequestPasswordReset_issue P u)"
  unfolding RequestPasswordReset_issue_def by (intro keeps_rules)

lemma keeps_RequestPasswordReset_executeInTransaction [keeps_rules]:
  "ignores_tick Q \<Longrightarrow> ignores_password_reset_tokens Q \<Longrightarrow> ignores_outbox Q \<Longrightarrow> keeps Q (RequestPasswordReset_executeInTransaction P u)"
  unfolding RequestPasswordReset_executeInTransaction_def by (intro keeps_rules)

lemma keeps_RequestPasswordReset_sendInRequest [keeps_rules]:
  "ignores_tick Q \<Longrightarrow> ignores_password_reset_tokens Q \<Longrightarrow> ignores_outbox Q \<Longrightarrow> keeps Q (RequestPasswordReset_sendInRequest P u)"
  unfolding RequestPasswordReset_sendInRequest_def by (intro keeps_rules)

lemma keeps_try_publish [keeps_rules]:
  "ignores_tick Q \<Longrightarrow> ignores_jobs Q \<Longrightarrow> keeps Q (try_publish P j m)"
  unfolding try_publish_def by (intro keeps_rules)

lemma ticks_grow_reset_job: "ticks_grow (RequestPasswordReset_executeInTransaction P u)"
  by (intro ticks_growI keeps_rules tick_bound_ignores)

lemma keeps_RequestPasswordReset_sendJobInRequest [keeps_rules]:
  "ignores_tick Q \<Longrightarrow> ignores_password_reset_tokens Q \<Longrightarrow> ignores_outbox Q \<Longrightarrow> ignores_processed_messages Q \<Longrightarrow> survives_rollback Q \<Longrightarrow> keeps Q (RequestPasswordReset_sendJobInRequest P u m)"
  unfolding RequestPasswordReset_sendJobInRequest_def by (intro keeps_rules ticks_grow_reset_job)

lemma keeps_RequestPasswordReset [keeps_rules]:
  "ignores_tick Q \<Longrightarrow> ignores_password_reset_tokens Q \<Longrightarrow> ignores_outbox Q \<Longrightarrow> ignores_jobs Q \<Longrightarrow> ignores_processed_messages Q \<Longrightarrow> survives_rollback Q \<Longrightarrow> keeps Q (RequestPasswordReset P e)"
  unfolding RequestPasswordReset_def by (intro keeps_rules ticks_grow_reset_job)

lemma keeps_ResetPassword [keeps_rules]:
  "ignores_tick Q \<Longrightarrow> ignores_users Q \<Longrightarrow> ignores_password_reset_tokens Q \<Longrightarrow> keeps Q (ResetPassword P t p c)"
  unfolding ResetPassword_def by (intro keeps_rules)

lemma keeps_RequestEmailVerification_issue [keeps_rules]:
  "ignores_tick Q \<Longrightarrow> ignores_email_verification_tokens Q \<Longrightarrow> keeps Q (RequestEmailVerification_issue P u)"
  unfolding RequestEmailVerification_issue_def by (intro keeps_rules)

lemma keeps_RequestEmailVerification [keeps_rules]:
  "ignores_tick Q \<Longrightarrow> ignores_email_verification_tokens Q \<Longrightarrow> ignores_outbox Q \<Longrightarrow> keeps Q (RequestEmailVerification P u)"
  unfolding RequestEmailVerification_def by (intro keeps_rules)

lemma keeps_RequestEmailVerification_executeInTransaction [keeps_rules]:
  "ignores_tick Q \<Longrightarrow> ignores_email_verification_tokens Q \<Longrightarrow> ignores_outbox Q \<Longrightarrow> keeps Q (RequestEmailVerification_executeInTransaction P u)"
  unfolding RequestEmailVerification_executeInTransaction_def by (intro keeps_rules)

lemma ticks_grow_verification_job: "ticks_grow (RequestEmailVerification_executeInTransaction P u)"
  by (intro ticks_growI keeps_rules tick_bound_ignores)

lemma keeps_ScheduleEmailVerification [keeps_rules]:
  "ignores_tick Q \<Longrightarrow> ignores_email_verification_tokens Q \<Longrightarrow> ignores_outbox Q \<Longrightarrow> ignores_jobs Q \<Longrightarrow> ignores_processed_messages Q \<Longrightarrow> survives_rollback Q \<Longrightarrow> keeps Q (ScheduleEmailVerification P u)"
  unfolding ScheduleEmailVerification_def by (intro keeps_rules ticks_grow_verification_job)

lemma keeps_VerifyEmail [keeps_rules]:
  "ignores_tick Q \<Longrightarrow> ignores_users Q \<Longrightarrow> ignores_email_verification_tokens Q \<Longrightarrow> keeps Q (VerifyEmail P t)"
  unfolding VerifyEmail_def by (intro keeps_rules)

lemma keeps_UpdateProfile_email [keeps_rules]:
  "ignores_tick Q \<Longrightarrow> keeps Q (UpdateProfile_email P i u)"
  unfolding UpdateProfile_email_def by (intro keeps_rules)

lemma keeps_UpdateProfile_username [keeps_rules]:
  "ignores_tick Q \<Longrightarrow> keeps Q (UpdateProfile_username P i u)"
  unfolding UpdateProfile_username_def by (intro keeps_rules)

lemma keeps_UpdateProfile [keeps_rules]:
  "ignores_tick Q \<Longrightarrow> ignores_users Q \<Longrightarrow> keeps Q (UpdateProfile P i)"
  unfolding UpdateProfile_def by (intro keeps_rules)

lemma keeps_SendPasswordResetEmailHandler [keeps_rules]:
  "ignores_tick Q \<Longrightarrow> ignores_password_reset_tokens Q \<Longrightarrow> ignores_outbox Q \<Longrightarrow> ignores_processed_messages Q \<Longrightarrow> survives_rollback Q \<Longrightarrow> keeps Q (SendPasswordResetEmailHandler P b m q)"
  unfolding SendPasswordResetEmailHandler_def by (intro keeps_rules ticks_grow_reset_job)

lemma keeps_SendVerificationEmailHandler [keeps_rules]:
  "ignores_tick Q \<Longrightarrow> ignores_email_verification_tokens Q \<Longrightarrow> ignores_outbox Q \<Longrightarrow> ignores_processed_messages Q \<Longrightarrow> survives_rollback Q \<Longrightarrow> keeps Q (SendVerificationEmailHandler P b m q)"
  unfolding SendVerificationEmailHandler_def by (intro keeps_rules ticks_grow_verification_job)

lemmas evaluate_Credentials [evaluate] =
  build_link_def email_to_def RESET_TOKEN_TTL_MINUTES_def RequestPasswordReset_issue_def
  RequestPasswordReset_executeInTransaction_def swallow_def
  RequestPasswordReset_sendInRequest_def QUEUE_PASSWORD_RESET_def QUEUE_VERIFICATION_def
  QUEUE_INVITE_def RequestPasswordReset_sendJobInRequest_def try_publish_def
  RequestPasswordReset_def ResetPassword_def RequestEmailVerification_issue_def
  RequestEmailVerification_def RequestEmailVerification_executeInTransaction_def
  ScheduleEmailVerification_def VerifyEmail_def UpdateProfile_email_def
  UpdateProfile_username_def UpdateProfile_def SendPasswordResetEmailHandler_def
  SendVerificationEmailHandler_def

end
