(* ===== verification/Organizations.thy ===== *)
theory Organizations imports Credentials begin

text \<open>
  Organizations and their members: \<open>InviteUserToOrganization\<close>, \<open>AcceptInvite\<close>, \<open>ChangeMemberRole\<close>,
  \<open>RemoveMembership\<close> and the invite job, with the queries \<open>GetProfile\<close>, \<open>ListOrganizationMembers\<close> and
  \<open>ListUserOrganizations\<close>, of \<open>src/features/shared/auth/application\<close>.
\<close>

section \<open>Members\<close>

text \<open>The role of the caller is the string her request carries.\<close>

definition role_text :: "membership_role \<Rightarrow> string" where
  "role_text r = (case r of Owner \<Rightarrow> ''owner'' | Admin \<Rightarrow> ''admin'' | Member \<Rightarrow> ''member'')"

definition ChangeMemberRole :: "jstr \<Rightarrow> jstr \<Rightarrow> membership_role \<Rightarrow> string \<Rightarrow> (world, unit) io" where
  "ChangeMemberRole membershipId organizationId newRole actorRole =
     (if actorRole \<noteq> ''owner'' then throw (DomainError Forbidden ''Forbidden: only owner can change member roles'')
      else bind (Membership_findById membershipId) (\<lambda>found.
      case found of
        None \<Rightarrow> throw (DomainError Not_found ''Membership not found'')
      | Some m \<Rightarrow>
        if m_organizationId m \<noteq> organizationId then throw (DomainError Not_found ''Membership not found'')
        else if m_role m = newRole then return ()
        else andThen
          (if Membership_isOwner m
           then bind (Membership_countByOrgAndRole organizationId Owner) (\<lambda>ownerCount.
                if ownerCount \<le> 1
                then throw (DomainError Validation ''Cannot demote the last owner of the organization'')
                else return ())
           else return ())
          (andThen (Membership_save (Membership_changeRole newRole m)) (return ()))))"

definition RemoveMembership :: "jstr \<Rightarrow> jstr \<Rightarrow> string \<Rightarrow> jstr \<Rightarrow> (world, unit) io" where
  "RemoveMembership membershipId organizationId actorRole actorUserId =
     (if actorRole \<noteq> ''owner'' then throw (DomainError Forbidden ''Forbidden: only owner can remove members'')
      else bind (Membership_findById membershipId) (\<lambda>found.
      case found of
        None \<Rightarrow> throw (DomainError Not_found ''Membership not found'')
      | Some m \<Rightarrow>
        if m_organizationId m \<noteq> organizationId then throw (DomainError Not_found ''Membership not found'')
        else if m_userId m = actorUserId
        then throw (DomainError Validation ''Cannot remove yourself from the organization'')
        else andThen
          (if Membership_isOwner m
           then bind (Membership_countByOrgAndRole organizationId Owner) (\<lambda>ownerCount.
                if ownerCount \<le> 1
                then throw (DomainError Validation ''Cannot remove the last owner of the organization'')
                else return ())
           else return ())
          (Membership_delete (m_id m))))"

section \<open>Invites\<close>

definition mintToken :: "platform \<Rightarrow> (world, jstr \<times> jstr) io" where
  "mintToken P = bind (randomToken P 32) (\<lambda>rawToken. return (rawToken, sha256_hex P rawToken))"

definition invite_message :: "platform \<Rightarrow> jstr \<Rightarrow> jstr \<Rightarrow> jstr \<Rightarrow> (world, email_message) io" where
  "invite_message P to organizationName rawToken =
     bind (build_link (invite_url P) rawToken) (\<lambda>link.
     return (email_to to (buildOrganizationInviteEmail (app_display_name P) link organizationName (invite_ttl_days P))))"

definition invite_sendFor :: "platform \<Rightarrow> organization_invite \<Rightarrow> jstr \<Rightarrow> (world, unit) io" where
  "invite_sendFor P invite organizationName =
     bind (mintToken P) (\<lambda>(rawToken, tokenHash).
     andThen (OrganizationInvite_replaceTokenHash (inv_id invite) tokenHash)
     (bind (invite_message P (inv_email invite) organizationName rawToken) (EmailSender_send P)))"

definition InviteUser_executeInTransaction :: "platform \<Rightarrow> jstr \<Rightarrow> (world, unit) io" where
  "InviteUser_executeInTransaction P inviteId =
     bind (OrganizationInvite_findById inviteId) (\<lambda>found.
     case found of
       None \<Rightarrow> return ()
     | Some invite \<Rightarrow>
       if OrganizationInvite_isAccepted invite then return ()
       else bind (newDate P) (\<lambda>now.
         if OrganizationInvite_isExpired now invite then return ()
         else bind (Organization_findById (inv_organizationId invite)) (\<lambda>org.
         case org of
           None \<Rightarrow> return ()
         | Some o' \<Rightarrow> invite_sendFor P invite (org_name o'))))"

record invite_input =
  ii_organizationId :: jstr
  ii_email :: jstr
  ii_role :: invite_role
  ii_inviterRole :: string

text \<open>With the queue off: the invite and the send in one transaction.\<close>

definition InviteUser_inRequest ::
  "platform \<Rightarrow> invite_input \<Rightarrow> jstr \<Rightarrow> jstr \<Rightarrow> jstr \<Rightarrow> jstr \<Rightarrow> int \<Rightarrow> (world, unit) io" where
  "InviteUser_inRequest P input email organizationName rawToken tokenHash expiresAt =
     runInTransaction
       (andThen (OrganizationInvite_save P (ii_organizationId input) email (ii_role input) tokenHash expiresAt)
         (bind (invite_message P email organizationName rawToken) (EmailSender_send P)))"

text \<open>With the queue on: the invite is saved first, and deleted when neither way of sending worked.\<close>

definition InviteUser_queued ::
  "platform \<Rightarrow> invite_input \<Rightarrow> jstr \<Rightarrow> jstr \<Rightarrow> int \<Rightarrow> (world, unit) io" where
  "InviteUser_queued P input email tokenHash expiresAt =
     bind (OrganizationInvite_save P (ii_organizationId input) email (ii_role input) tokenHash expiresAt) (\<lambda>invite.
     bind (randomUUID P) (\<lambda>messageId.
     bind (try_publish P (InviteEmailJob (inv_id invite)) messageId) (\<lambda>published.
     if published then return ()
     else tryCatch
       (andThen (runOnce (Some messageId) (QUEUE_INVITE P) (InviteUser_executeInTransaction P (inv_id invite)))
         (return ()))
       (\<lambda>error. andThen (OrganizationInvite_deleteById (inv_id invite)) (throw error)))))"

definition InviteUserToOrganization :: "platform \<Rightarrow> invite_input \<Rightarrow> (world, unit) io" where
  "InviteUserToOrganization P input =
     (if ii_inviterRole input \<noteq> ''owner'' \<and> ii_inviterRole input \<noteq> ''admin''
      then throw (DomainError Forbidden ''Forbidden: only owner or admin can invite members'')
      else bind (Organization_findById (ii_organizationId input)) (\<lambda>org.
      case org of
        None \<Rightarrow> throw (DomainError Not_found ''Organization not found'')
      | Some o' \<Rightarrow>
        let email = toLowerCase P (js_trim (ii_email input)) in
        bind (newDate P) (\<lambda>now.
        andThen (OrganizationInvite_deleteExpired P email (ii_organizationId input) now)
        (bind (OrganizationInvite_findPendingByEmailAndOrg P email (ii_organizationId input)) (\<lambda>pending.
        if pending \<noteq> None then throw (DomainError Conflict PENDING_INVITE_EXISTS_MESSAGE)
        else bind (mintToken P) (\<lambda>(rawToken, tokenHash).
        let expiresAt = now + int (invite_ttl_days P) * 24 * 60 * 60 * 1000 in
        bind (MessageQueue_isEnabled P) (\<lambda>enabled.
        if \<not> enabled then InviteUser_inRequest P input email (org_name o') rawToken tokenHash expiresAt
        else InviteUser_queued P input email tokenHash expiresAt)))))))"

definition invite_membership_role :: "invite_role \<Rightarrow> membership_role" where
  "invite_membership_role r = (case r of InviteAdmin \<Rightarrow> Admin | InviteMember \<Rightarrow> Member)"

definition AcceptInvite_error :: failure where
  "AcceptInvite_error = DomainError Validation ''Invalid or expired invitation''"

definition AcceptInvite :: "platform \<Rightarrow> jstr \<Rightarrow> jstr \<Rightarrow> (world, unit) io" where
  "AcceptInvite P rawToken userId =
     bind (OrganizationInvite_findByTokenHash (sha256_hex P rawToken)) (\<lambda>found.
     case found of
       None \<Rightarrow> throw AcceptInvite_error
     | Some invite \<Rightarrow>
       if OrganizationInvite_isAccepted invite then throw AcceptInvite_error
       else bind (newDate P) (\<lambda>now.
         if OrganizationInvite_isExpired now invite then throw AcceptInvite_error
         else bind (User_findById userId) (\<lambda>user.
         case user of
           None \<Rightarrow> throw (DomainError Not_found ''User not found'')
         | Some u \<Rightarrow>
           if toLowerCase P (user_email u) \<noteq> toLowerCase P (inv_email invite) then throw AcceptInvite_error
           else bind (Membership_findByUserAndOrg (user_id u) (inv_organizationId invite)) (\<lambda>existing.
           andThen
             (if existing \<noteq> None then return ()
              else andThen (Membership_create P (user_id u) (inv_organizationId invite)
                             (invite_membership_role (inv_role invite)) (Some Active)) (return ()))
             (bind (newDate P) (\<lambda>acceptedAt. OrganizationInvite_markAccepted (inv_id invite) acceptedAt))))))"

definition SendInviteEmailHandler :: "platform \<Rightarrow> parsed_body \<Rightarrow> jstr option \<Rightarrow> jstr \<Rightarrow> (world, unit) io" where
  "SendInviteEmailHandler P body messageId queue =
     bind (liftEither (job_id_field body (lit ''inviteId'') ''Refusing invite email job without an invite id.'')) (\<lambda>inviteId.
     andThen (runOnce messageId queue (InviteUser_executeInTransaction P inviteId)) (return ()))"

section \<open>Queries\<close>

definition GetProfile :: "jstr \<Rightarrow> (world, auth_user) io" where
  "GetProfile userId =
     (if userId = [] then throw (DomainError Unauthorized ''User not authenticated'')
      else bind (User_findById userId) (\<lambda>user.
      case user of
        None \<Rightarrow> throw (DomainError Not_found ''User not found'')
      | Some u \<Rightarrow> return u))"

text \<open>
  \<open>findPage\<close>: the rows of the \<open>where\<close> clause after the position, in order, one past the limit to learn
  whether more follow. A limit is at least 1, as the query schema has it.
\<close>

record membership_page =
  page_items :: "membership list"
  page_next :: "membership_position option"

definition after_position :: "membership_position option \<Rightarrow> membership \<Rightarrow> bool" where
  "after_position after m = (case after of
      None \<Rightarrow> True
    | Some p \<Rightarrow> m_joinedAt m > pos_joinedAt p \<or> m_joinedAt m = pos_joinedAt p \<and> m_id m > pos_id p)"

definition findPage :: "(membership \<Rightarrow> bool) \<Rightarrow> nat \<Rightarrow> membership_position option \<Rightarrow> (world, membership_page) io" where
  "findPage where' limit after = getsDb (\<lambda>d.
     let rows = take (limit + 1) (sort_key position (filter (\<lambda>m. where' m \<and> after_position after m) (memberships d)));
         items = take limit rows in
     \<lparr>page_items = items,
      page_next = (if length rows > limit \<and> items \<noteq> [] then Some (position (last items)) else None)\<rparr>)"

definition Membership_findActivePageByUser ::
  "jstr \<Rightarrow> nat \<Rightarrow> membership_position option \<Rightarrow> (world, membership_page) io" where
  "Membership_findActivePageByUser userId = findPage (\<lambda>m. m_userId m = userId \<and> m_status m = Active)"

definition Membership_findPageByOrganization ::
  "jstr \<Rightarrow> nat \<Rightarrow> membership_position option \<Rightarrow> (world, membership_page) io" where
  "Membership_findPageByOrganization organizationId = findPage (\<lambda>m. m_organizationId m = organizationId)"

record member_dto =
  dto_membershipId :: jstr
  dto_userId :: jstr
  dto_username :: jstr
  dto_email :: jstr
  dto_role :: membership_role
  dto_status :: membership_status
  dto_joinedAt :: int

definition ListOrganizationMembers ::
  "jstr \<Rightarrow> nat \<Rightarrow> membership_position option \<Rightarrow> (world, member_dto list \<times> membership_position option) io" where
  "ListOrganizationMembers organizationId limit after =
     bind (Membership_findPageByOrganization organizationId limit after) (\<lambda>page.
     bind (User_findByIds (map m_userId (page_items page))) (\<lambda>found.
     return (List.map_filter (\<lambda>m. map_option (\<lambda>u.
         \<lparr>dto_membershipId = m_id m, dto_userId = user_id u, dto_username = user_username u,
          dto_email = user_email u, dto_role = m_role m, dto_status = m_status m, dto_joinedAt = m_joinedAt m\<rparr>)
         (List.find (\<lambda>u. user_id u = m_userId m) (rev found))) (page_items page), page_next page)))"

record user_organization_dto =
  uo_organizationId :: jstr
  uo_name :: jstr
  uo_slug :: jstr
  uo_role :: membership_role
  uo_joinedAt :: int
  uo_isCurrent :: bool

definition ListUserOrganizations ::
  "jstr \<Rightarrow> jstr \<Rightarrow> nat \<Rightarrow> membership_position option
   \<Rightarrow> (world, user_organization_dto list \<times> membership_position option) io" where
  "ListUserOrganizations userId currentOrganizationId limit after =
     bind (Membership_findActivePageByUser userId limit after) (\<lambda>page.
     bind (Organization_findByIds (map m_organizationId (page_items page))) (\<lambda>found.
     return (List.map_filter (\<lambda>m. map_option (\<lambda>o'.
         \<lparr>uo_organizationId = org_id o', uo_name = org_name o', uo_slug = org_slug o', uo_role = m_role m,
          uo_joinedAt = m_joinedAt m, uo_isCurrent = (org_id o' = currentOrganizationId)\<rparr>)
         (List.find (\<lambda>o'. org_id o' = m_organizationId m) (rev found))) (page_items page), page_next page)))"

section \<open>Preservation rules\<close>

lemma keeps_ChangeMemberRole [keeps_rules]:
  "ignores_memberships Q \<Longrightarrow> keeps Q (ChangeMemberRole i v r a)"
  unfolding ChangeMemberRole_def by (intro keeps_rules)

lemma keeps_RemoveMembership [keeps_rules]:
  "ignores_memberships Q \<Longrightarrow> keeps Q (RemoveMembership i v a u)"
  unfolding RemoveMembership_def by (intro keeps_rules)

lemma keeps_mintToken [keeps_rules]:
  "ignores_tick Q \<Longrightarrow> keeps Q (mintToken P)"
  unfolding mintToken_def by (intro keeps_rules)

lemma keeps_invite_message [keeps_rules]:
  "keeps Q (invite_message P a b c)"
  unfolding invite_message_def by (intro keeps_rules)

lemma keeps_invite_sendFor [keeps_rules]:
  "ignores_tick Q \<Longrightarrow> ignores_organization_invites Q \<Longrightarrow> ignores_outbox Q \<Longrightarrow> keeps Q (invite_sendFor P i n)"
  unfolding invite_sendFor_def by (intro keeps_rules)

lemma keeps_InviteUser_executeInTransaction [keeps_rules]:
  "ignores_tick Q \<Longrightarrow> ignores_organization_invites Q \<Longrightarrow> ignores_outbox Q \<Longrightarrow> keeps Q (InviteUser_executeInTransaction P i)"
  unfolding InviteUser_executeInTransaction_def by (intro keeps_rules)

lemma ticks_grow_invite_job: "ticks_grow (InviteUser_executeInTransaction P i)"
  by (intro ticks_growI keeps_rules tick_bound_ignores)

lemma ticks_grow_invite_request:
  "ticks_grow (andThen (OrganizationInvite_save P v e r h x) (bind (invite_message P e n t) (EmailSender_send P)))"
  by (intro ticks_growI keeps_rules tick_bound_ignores)

lemma keeps_InviteUser_inRequest [keeps_rules]:
  "ignores_tick Q \<Longrightarrow> ignores_organization_invites Q \<Longrightarrow> ignores_outbox Q \<Longrightarrow> survives_rollback Q \<Longrightarrow> keeps Q (InviteUser_inRequest P i e n r h x)"
  unfolding InviteUser_inRequest_def by (intro keeps_rules ticks_grow_invite_request)

lemma keeps_InviteUser_queued [keeps_rules]:
  "ignores_tick Q \<Longrightarrow> ignores_organization_invites Q \<Longrightarrow> ignores_outbox Q \<Longrightarrow> ignores_jobs Q \<Longrightarrow> ignores_processed_messages Q \<Longrightarrow> survives_rollback Q \<Longrightarrow> keeps Q (InviteUser_queued P i e h x)"
  unfolding InviteUser_queued_def by (intro keeps_rules ticks_grow_invite_job)

lemma keeps_InviteUserToOrganization [keeps_rules]:
  "ignores_tick Q \<Longrightarrow> ignores_organization_invites Q \<Longrightarrow> ignores_outbox Q \<Longrightarrow> ignores_jobs Q \<Longrightarrow> ignores_processed_messages Q \<Longrightarrow> survives_rollback Q \<Longrightarrow> keeps Q (InviteUserToOrganization P i)"
  unfolding InviteUserToOrganization_def by (intro keeps_rules)

lemma keeps_AcceptInvite [keeps_rules]:
  "ignores_tick Q \<Longrightarrow> ignores_memberships Q \<Longrightarrow> ignores_organization_invites Q \<Longrightarrow> keeps Q (AcceptInvite P r u)"
  unfolding AcceptInvite_def by (intro keeps_rules)

lemma keeps_SendInviteEmailHandler [keeps_rules]:
  "ignores_tick Q \<Longrightarrow> ignores_organization_invites Q \<Longrightarrow> ignores_outbox Q \<Longrightarrow> ignores_processed_messages Q \<Longrightarrow> survives_rollback Q \<Longrightarrow> keeps Q (SendInviteEmailHandler P b m q)"
  unfolding SendInviteEmailHandler_def by (intro keeps_rules ticks_grow_invite_job)

lemma keeps_GetProfile [keeps_rules]:
  "keeps Q (GetProfile u)"
  unfolding GetProfile_def by (intro keeps_rules)

lemma keeps_findPage [keeps_rules]:
  "keeps Q (findPage w l a)"
  unfolding findPage_def by (intro keeps_rules)

lemma keeps_Membership_findActivePageByUser [keeps_rules]:
  "keeps Q (Membership_findActivePageByUser u l a)"
  unfolding Membership_findActivePageByUser_def by (intro keeps_rules)

lemma keeps_Membership_findPageByOrganization [keeps_rules]:
  "keeps Q (Membership_findPageByOrganization u l a)"
  unfolding Membership_findPageByOrganization_def by (intro keeps_rules)

lemma keeps_ListOrganizationMembers [keeps_rules]:
  "keeps Q (ListOrganizationMembers u l a)"
  unfolding ListOrganizationMembers_def by (intro keeps_rules)

lemma keeps_ListUserOrganizations [keeps_rules]:
  "keeps Q (ListUserOrganizations u v l a)"
  unfolding ListUserOrganizations_def by (intro keeps_rules)

lemmas evaluate_Organizations [evaluate] =
  role_text_def ChangeMemberRole_def RemoveMembership_def mintToken_def invite_message_def
  invite_sendFor_def InviteUser_executeInTransaction_def InviteUser_inRequest_def
  InviteUser_queued_def InviteUserToOrganization_def invite_membership_role_def
  AcceptInvite_error_def AcceptInvite_def SendInviteEmailHandler_def GetProfile_def
  after_position_def findPage_def Membership_findActivePageByUser_def
  Membership_findPageByOrganization_def ListOrganizationMembers_def ListUserOrganizations_def

end
