(* ===== verification/AuthHttp.thy ===== *)
theory AuthHttp imports Organizations begin

text \<open>
  The HTTP edge of the auth feature: the bearer-token middleware, the guards, the two controllers and
  the error handler, of \<open>src/features/shared/auth/infrastructure/http\<close>, \<open>src/utils\<close> and
  \<open>src/shared/middleware\<close>. A handler takes the values the request schema let through; the schemas, the
  rate limiters and the logging before it are left out.
\<close>

section \<open>Requests and responses\<close>

record http_request =
  req_authorization :: "jstr option"
  req_refreshCookie :: "jstr option"
  req_userAgent :: "jstr option"
  req_ip :: "jstr option"

datatype cookie = SetRefreshCookie jstr | ClearRefreshCookie

text \<open>\<open>toUserResponseDTO\<close>; the times are left as times.\<close>

record user_dto =
  udto_id :: jstr
  udto_username :: jstr
  udto_email :: jstr
  udto_isPublicProfile :: bool
  udto_emailVerifiedAt :: "int option"
  udto_createdAt :: int
  udto_updatedAt :: int

definition toUserResponseDTO :: "auth_user \<Rightarrow> user_dto" where
  "toUserResponseDTO u = \<lparr>udto_id = user_id u, udto_username = user_username u, udto_email = user_email u,
     udto_isPublicProfile = user_isPublicProfile u, udto_emailVerifiedAt = user_emailVerifiedAt u,
     udto_createdAt = user_createdAt u, udto_updatedAt = user_updatedAt u\<rparr>"

datatype reply =
    NoData
  | TokenAndUser jstr user_dto
  | TokenOnly jstr
  | UserOnly user_dto
  | UserField user_dto
  | Members "member_dto list" "membership_position option"
  | UserOrganizations "user_organization_dto list" "membership_position option"
  | MetricData metric_dto
  | MetricList "metric_dto list"
  | CategoryData category_dto
  | CategoryList "category_dto list"
  | SettingsData metric_settings
  | DisplayData display_options
  | LogData metric_log
  | JobData jstr

record response =
  resp_status :: nat
  resp_message :: string
  resp_data :: reply
  resp_cookie :: "cookie option"
  resp_retryAfter :: "int option"

definition successResponse :: "nat \<Rightarrow> reply \<Rightarrow> string \<Rightarrow> response" where
  "successResponse status data message =
     \<lparr>resp_status = status, resp_message = message, resp_data = data, resp_cookie = None, resp_retryAfter = None\<rparr>"

section \<open>Errors\<close>

datatype node_env = Development | Test | Staging | Production

definition DOMAIN_ERROR_STATUS :: "error_kind \<Rightarrow> nat" where
  "DOMAIN_ERROR_STATUS k = (case k of
      Validation \<Rightarrow> 400 | Unauthorized \<Rightarrow> 401 | Forbidden \<Rightarrow> 403 | Not_found \<Rightarrow> 404 | Conflict \<Rightarrow> 409)"

text \<open>
  \<open>envelopeStatus\<close>, and the \<open>AppError\<close> the handler makes of what was thrown. None of the failures of the
  feature carries the status and \<open>expose\<close> of the framework's own errors.
\<close>

definition envelopeStatus :: "nat \<Rightarrow> string" where
  "envelopeStatus statusCode = (if 400 \<le> statusCode \<and> statusCode < 500 then ''fail'' else ''error'')"

definition toAppError :: "failure \<Rightarrow> string \<times> nat" where
  "toAppError e = (case e of
      AppError m s \<Rightarrow> (m, s)
    | DomainError k m \<Rightarrow> (m, DOMAIN_ERROR_STATUS k)
    | UniqueConstraintError _ \<Rightarrow> (''Duplicate value'', 409)
    | _ \<Rightarrow> (''Internal Server Error'', 500))"

definition MASKED_SERVER_ERROR_MESSAGE :: string where
  "MASKED_SERVER_ERROR_MESSAGE = ''Something went wrong!''"

definition errorHandler :: "node_env \<Rightarrow> failure \<Rightarrow> response" where
  "errorHandler env e =
     (let (message, statusCode) = toAppError e;
          isMaskedServerError = env \<noteq> Development \<and> env \<noteq> Test \<and> statusCode \<ge> 500 in
      \<lparr>resp_status = statusCode, resp_message = (if isMaskedServerError then MASKED_SERVER_ERROR_MESSAGE else message),
       resp_data = NoData, resp_cookie = None, resp_retryAfter = None\<rparr>)"

text \<open>\<open>catchAsync\<close> with the error handler at the end of the pipeline: every request is answered.\<close>

definition answer :: "node_env \<Rightarrow> (world, response) io \<Rightarrow> world \<Rightarrow> response \<times> world" where
  "answer env m w = (case m w of (Inr r, w') \<Rightarrow> (r, w') | (Inl e, w') \<Rightarrow> (errorHandler env e, w'))"

section \<open>Authentication\<close>

record token_claims =
  claim_userId :: jstr
  claim_email :: jstr
  claim_organizationId :: "jstr option"
  claim_iat :: int
  claim_exp :: int

definition InvalidTokenError :: failure where
  "InvalidTokenError = DomainError Unauthorized ''Unauthorized: Invalid token''"

definition TokenProvider_verify :: "platform \<Rightarrow> jstr \<Rightarrow> (world, token_claims) io" where
  "TokenProvider_verify P token = bind newTick (\<lambda>t.
     case jwt_verify P t token of
       None \<Rightarrow> throw InvalidTokenError
     | Some d \<Rightarrow>
       (case (nonempty (decoded_id d), nonempty (decoded_email d)) of
          (Some userId, Some email) \<Rightarrow>
            return \<lparr>claim_userId = userId, claim_email = email, claim_organizationId = decoded_organizationId d,
              claim_iat = (case decoded_iat d of Some i \<Rightarrow> i | None \<Rightarrow> 0),
              claim_exp = (case decoded_exp d of Some i \<Rightarrow> i | None \<Rightarrow> 0)\<rparr>
        | _ \<Rightarrow> throw InvalidTokenError))"

text \<open>What the middleware puts on the request: the user without her hash, and her membership.\<close>

record user_domain =
  ud_id :: jstr
  ud_username :: jstr
  ud_email :: jstr
  ud_isPublicProfile :: bool
  ud_emailVerifiedAt :: "int option"
  ud_createdAt :: int
  ud_updatedAt :: int
  ud_deletedAt :: "int option"
  ud_organizationId :: jstr

definition toUserDomain :: "auth_user \<Rightarrow> jstr \<Rightarrow> user_domain" where
  "toUserDomain u organizationId = \<lparr>ud_id = user_id u, ud_username = user_username u, ud_email = user_email u,
     ud_isPublicProfile = user_isPublicProfile u, ud_emailVerifiedAt = user_emailVerifiedAt u,
     ud_createdAt = user_createdAt u, ud_updatedAt = user_updatedAt u, ud_deletedAt = user_deletedAt u,
     ud_organizationId = organizationId\<rparr>"

record auth_context =
  ctx_user :: user_domain
  ctx_organizationId :: jstr
  ctx_membershipId :: jstr
  ctx_role :: membership_role
  ctx_membershipOrganizationId :: jstr
  ctx_membershipUserId :: jstr

abbreviation ctx_userId :: "auth_context \<Rightarrow> jstr" where
  "ctx_userId c \<equiv> ud_id (ctx_user c)"

text \<open>\<open>authHeader.split(" ")[1]\<close> of a header that starts with \<open>"Bearer "\<close>.\<close>

definition bearer_token :: "jstr option \<Rightarrow> jstr option" where
  "bearer_token header = (case header of
      None \<Rightarrow> None
    | Some h \<Rightarrow> if take 7 h = lit ''Bearer '' then Some (takeWhile (\<lambda>c. c \<noteq> 32) (drop 7 h)) else None)"

definition authMiddleware :: "platform \<Rightarrow> http_request \<Rightarrow> (world, auth_context) io" where
  "authMiddleware P req =
     (case bearer_token (req_authorization req) of
        None \<Rightarrow> throw (AppError ''Unauthorized: No token provided'' 401)
      | Some token \<Rightarrow>
        bind (tryCatch (TokenProvider_verify P token) (\<lambda>error.
            case error of
              DomainError Unauthorized _ \<Rightarrow> throw (AppError ''Unauthorized: Invalid token'' 401)
            | _ \<Rightarrow> throw error)) (\<lambda>claims.
        bind (User_findById (claim_userId claims)) (\<lambda>authUser.
        case authUser of
          None \<Rightarrow> throw (AppError ''Unauthorized: User not found'' 401)
        | Some u \<Rightarrow>
          (case nonempty (claim_organizationId claims) of
             None \<Rightarrow> throw (AppError ''Unauthorized: Token missing organization context'' 401)
           | Some organizationId \<Rightarrow>
             bind (Membership_findByUserAndOrg (user_id u) organizationId) (\<lambda>membership.
             case membership of
               None \<Rightarrow> throw (AppError ''Unauthorized: Organization membership inactive'' 401)
             | Some m \<Rightarrow>
               if \<not> Membership_isActive m
               then throw (AppError ''Unauthorized: Organization membership inactive'' 401)
               else return \<lparr>ctx_user = toUserDomain u (m_organizationId m),
                      ctx_organizationId = m_organizationId m, ctx_membershipId = m_id m, ctx_role = m_role m,
                      ctx_membershipOrganizationId = m_organizationId m, ctx_membershipUserId = m_userId m\<rparr>)))))"

text \<open>
  \<open>assertAuthenticated\<close> of a request the middleware let through: only an empty organization id, which
  the middleware refuses too, is left to refuse.
\<close>

definition assertAuthenticated :: "auth_context option \<Rightarrow> (world, auth_context) io" where
  "assertAuthenticated ctx = (case ctx of
      None \<Rightarrow> throw (AppError ''User not authenticated'' 401)
    | Some c \<Rightarrow> if ctx_organizationId c = [] then throw (AppError ''User not authenticated'' 401) else return c)"

definition assertHasOrgRole :: "auth_context option \<Rightarrow> membership_role list \<Rightarrow> (world, unit) io" where
  "assertHasOrgRole ctx roles = (case ctx of
      None \<Rightarrow> throw (AppError ''Unauthorized'' 401)
    | Some c \<Rightarrow> if ctx_role c \<notin> set roles then throw (AppError ''Forbidden: insufficient organization role'' 403)
                else return ())"

definition requireVerifiedEmail :: "auth_context option \<Rightarrow> (world, unit) io" where
  "requireVerifiedEmail ctx = (case ctx of
      None \<Rightarrow> throw (AppError ''Unauthorized'' 401)
    | Some c \<Rightarrow> if ud_emailVerifiedAt (ctx_user c) = None then throw (AppError ''Email address is not verified'' 403)
                else return ())"

section \<open>The auth controller\<close>

definition http_register :: "platform \<Rightarrow> http_request \<Rightarrow> register_input \<Rightarrow> (world, response) io" where
  "http_register P req body =
     bind (RegisterUser P (body\<lparr>reg_userAgent := req_userAgent req, reg_ip := req_ip req\<rparr>)) (\<lambda>result.
     andThen (ScheduleEmailVerification P (user_id (res_user result)))
       (return ((successResponse 201 (TokenAndUser (res_token result) (toUserResponseDTO (res_user result)))
          ''User created successfully'')\<lparr>resp_cookie := Some (SetRefreshCookie (res_rawRefreshToken result))\<rparr>)))"

text \<open>The \<open>Retry-After\<close> header is set before the error is thrown on, so it is on the answer too.\<close>

definition http_login_body :: "platform \<Rightarrow> http_request \<Rightarrow> jstr \<Rightarrow> jstr \<Rightarrow> (world, response) io" where
  "http_login_body P req email password =
     bind (LoginUser P email password (req_userAgent req) (req_ip req)) (\<lambda>result.
     return ((successResponse 200 (TokenAndUser (res_token result) (toUserResponseDTO (res_user result))) ''Success'')
       \<lparr>resp_cookie := Some (SetRefreshCookie (res_rawRefreshToken result))\<rparr>))"

definition http_login :: "platform \<Rightarrow> node_env \<Rightarrow> http_request \<Rightarrow> jstr \<Rightarrow> jstr \<Rightarrow> world \<Rightarrow> response \<times> world" where
  "http_login P env req email password w =
     (case checkLockout P email w of
        (Inl e, w') \<Rightarrow>
          ((errorHandler env e)\<lparr>resp_retryAfter :=
             (case e of AppError _ s \<Rightarrow> if s = 429 then Some LOCKOUT_TTL_SECONDS else None | _ \<Rightarrow> None)\<rparr>, w')
      | (Inr _, w') \<Rightarrow> answer env (http_login_body P req email password) w')"

definition http_getProfile :: "platform \<Rightarrow> http_request \<Rightarrow> (world, response) io" where
  "http_getProfile P req =
     bind (authMiddleware P req) (\<lambda>c. bind (assertAuthenticated (Some c)) (\<lambda>ctx.
     bind (GetProfile (ctx_userId ctx)) (\<lambda>user.
     return (successResponse 200 (UserOnly (toUserResponseDTO user)) ''Success''))))"

definition http_updateProfile :: "platform \<Rightarrow> http_request \<Rightarrow> update_profile_input \<Rightarrow> (world, response) io" where
  "http_updateProfile P req body =
     bind (authMiddleware P req) (\<lambda>c. bind (assertAuthenticated (Some c)) (\<lambda>ctx.
     bind (UpdateProfile P (body\<lparr>up_userId := ctx_userId ctx\<rparr>)) (\<lambda>updated.
     return (successResponse 200 (UserField (toUserResponseDTO updated)) ''Profile updated successfully''))))"

definition http_refresh :: "platform \<Rightarrow> http_request \<Rightarrow> (world, response) io" where
  "http_refresh P req =
     (case nonempty (req_refreshCookie req) of
        None \<Rightarrow> throw (AppError ''Unauthorized: No refresh token provided'' 401)
      | Some rawToken \<Rightarrow>
        bind (RotateRefreshToken P rawToken (req_userAgent req) (req_ip req)) (\<lambda>(accessToken, rawRefreshToken).
        return ((successResponse 200 (TokenOnly accessToken) ''Success'')
          \<lparr>resp_cookie := Some (SetRefreshCookie rawRefreshToken)\<rparr>)))"

definition http_logout :: "platform \<Rightarrow> http_request \<Rightarrow> (world, response) io" where
  "http_logout P req =
     andThen (case nonempty (req_refreshCookie req) of
        None \<Rightarrow> return ()
      | Some rawToken \<Rightarrow> tryCatch (RevokeRefreshTokenFamily P rawToken) (\<lambda>err. return ()))
     (return ((successResponse 200 NoData ''Logged out successfully'')\<lparr>resp_cookie := Some ClearRefreshCookie\<rparr>))"

definition http_forgotPassword :: "platform \<Rightarrow> jstr \<Rightarrow> (world, response) io" where
  "http_forgotPassword P email =
     andThen (RequestPasswordReset P email)
       (return (successResponse 200 NoData
          ''If an account exists for that email, we've sent reset instructions.''))"

definition http_resetPassword :: "platform \<Rightarrow> jstr \<Rightarrow> jstr \<Rightarrow> jstr \<Rightarrow> (world, response) io" where
  "http_resetPassword P token password passwordConfirmation =
     andThen (ResetPassword P token password passwordConfirmation)
       (return (successResponse 200 NoData ''Password has been reset. Please log in.''))"

definition http_verifyEmail :: "platform \<Rightarrow> jstr \<Rightarrow> (world, response) io" where
  "http_verifyEmail P token =
     andThen (VerifyEmail P token) (return (successResponse 200 NoData ''Email verified successfully.''))"

definition http_resendVerification :: "platform \<Rightarrow> http_request \<Rightarrow> (world, response) io" where
  "http_resendVerification P req =
     bind (authMiddleware P req) (\<lambda>c. bind (assertAuthenticated (Some c)) (\<lambda>ctx.
     andThen (ScheduleEmailVerification P (ctx_userId ctx))
       (return (successResponse 200 NoData ''If your email is unverified, we sent a fresh verification link.''))))"

definition http_switchOrg :: "platform \<Rightarrow> http_request \<Rightarrow> jstr \<Rightarrow> (world, response) io" where
  "http_switchOrg P req organizationId =
     bind (authMiddleware P req) (\<lambda>c. bind (assertAuthenticated (Some c)) (\<lambda>ctx.
     bind (SwitchOrganization P (ctx_userId ctx) organizationId (req_userAgent req) (req_ip req))
       (\<lambda>(accessToken, rawRefreshToken).
     return ((successResponse 200 (TokenOnly accessToken) ''Success'')
       \<lparr>resp_cookie := Some (SetRefreshCookie rawRefreshToken)\<rparr>))))"

section \<open>The organization controller\<close>

definition http_createInvite :: "platform \<Rightarrow> http_request \<Rightarrow> jstr \<Rightarrow> jstr \<Rightarrow> invite_role \<Rightarrow> (world, response) io" where
  "http_createInvite P req organizationId email role =
     bind (authMiddleware P req) (\<lambda>c. bind (assertAuthenticated (Some c)) (\<lambda>ctx.
     if ctx_membershipOrganizationId ctx \<noteq> organizationId
     then throw (AppError ''Forbidden: not a member of this organization'' 403)
     else andThen (assertHasOrgRole (Some ctx) [Owner, Admin])
       (andThen (InviteUserToOrganization P \<lparr>ii_organizationId = organizationId, ii_email = email, ii_role = role,
            ii_inviterRole = role_text (ctx_role ctx)\<rparr>)
         (return (successResponse 201 NoData ''Invitation sent successfully'')))))"

definition http_acceptInvite :: "platform \<Rightarrow> http_request \<Rightarrow> jstr \<Rightarrow> (world, response) io" where
  "http_acceptInvite P req token =
     bind (authMiddleware P req) (\<lambda>c. bind (assertAuthenticated (Some c)) (\<lambda>ctx.
     andThen (AcceptInvite P token (ctx_userId ctx))
       (return (successResponse 200 NoData ''Invitation accepted''))))"

definition http_removeMembership :: "platform \<Rightarrow> http_request \<Rightarrow> jstr \<Rightarrow> (world, response) io" where
  "http_removeMembership P req membershipId =
     bind (authMiddleware P req) (\<lambda>c. bind (assertAuthenticated (Some c)) (\<lambda>ctx.
     andThen (assertHasOrgRole (Some ctx) [Owner])
       (andThen (RemoveMembership membershipId (ctx_membershipOrganizationId ctx) (role_text (ctx_role ctx)) (ctx_userId ctx))
         (return (successResponse 200 NoData ''Member removed successfully'')))))"

definition http_changeMemberRole :: "platform \<Rightarrow> http_request \<Rightarrow> jstr \<Rightarrow> invite_role \<Rightarrow> (world, response) io" where
  "http_changeMemberRole P req membershipId role =
     bind (authMiddleware P req) (\<lambda>c. bind (assertAuthenticated (Some c)) (\<lambda>ctx.
     andThen (assertHasOrgRole (Some ctx) [Owner])
       (andThen (ChangeMemberRole membershipId (ctx_membershipOrganizationId ctx) (invite_membership_role role) (role_text (ctx_role ctx)))
         (return (successResponse 200 NoData ''Member role updated successfully'')))))"

definition http_listMembers ::
  "platform \<Rightarrow> http_request \<Rightarrow> jstr \<Rightarrow> nat \<Rightarrow> membership_position option \<Rightarrow> (world, response) io" where
  "http_listMembers P req organizationId limit after =
     bind (authMiddleware P req) (\<lambda>c. bind (assertAuthenticated (Some c)) (\<lambda>ctx.
     if ctx_membershipOrganizationId ctx \<noteq> organizationId
     then throw (AppError ''Forbidden: not a member of this organization'' 403)
     else bind (ListOrganizationMembers organizationId limit after) (\<lambda>(members, next).
          return (successResponse 200 (Members members next) ''Success''))))"

definition http_listMyOrganizations ::
  "platform \<Rightarrow> http_request \<Rightarrow> nat \<Rightarrow> membership_position option \<Rightarrow> (world, response) io" where
  "http_listMyOrganizations P req limit after =
     bind (authMiddleware P req) (\<lambda>c. bind (assertAuthenticated (Some c)) (\<lambda>ctx.
     bind (ListUserOrganizations (ctx_userId ctx) (ctx_membershipOrganizationId ctx) limit after) (\<lambda>(organizations, next).
     return (successResponse 200 (UserOrganizations organizations next) ''Success''))))"

lemmas evaluate_AuthHttp [evaluate] =
  toUserResponseDTO_def successResponse_def DOMAIN_ERROR_STATUS_def envelopeStatus_def
  toAppError_def MASKED_SERVER_ERROR_MESSAGE_def errorHandler_def answer_def
  InvalidTokenError_def TokenProvider_verify_def toUserDomain_def bearer_token_def
  authMiddleware_def assertAuthenticated_def assertHasOrgRole_def requireVerifiedEmail_def
  http_register_def http_login_body_def http_login_def http_getProfile_def http_updateProfile_def
  http_refresh_def http_logout_def http_forgotPassword_def http_resetPassword_def
  http_verifyEmail_def http_resendVerification_def http_switchOrg_def http_createInvite_def
  http_acceptInvite_def http_removeMembership_def http_changeMemberRole_def http_listMembers_def
  http_listMyOrganizations_def

end
