(* ===== verification/AuthServer.thy ===== *)
theory AuthServer imports AuthHttp begin

text \<open>
  The auth feature as it is served: the routes of \<open>router.ts\<close> and \<open>organization.router.ts\<close> with the
  handlers they lead to, and the three queued jobs the worker consumes. A request whose schema, rate
  limit or method is refused never reaches a handler and changes nothing; it is not a request here.
\<close>

datatype auth_request =
    PostRegister http_request register_input
  | PostLogin http_request jstr jstr
  | GetProfileRoute http_request
  | PutProfile http_request update_profile_input
  | PostLogout http_request
  | PostRefresh http_request
  | PostForgotPassword jstr
  | PostResetPassword jstr jstr jstr
  | PostVerifyEmail jstr
  | PostResendVerification http_request
  | PostSwitchOrg http_request jstr

datatype organization_request =
    GetOrganizations http_request nat "membership_position option"
  | PostInvites http_request jstr jstr invite_role
  | GetMembers http_request jstr nat "membership_position option"
  | PostInviteAccept http_request jstr
  | DeleteMembership http_request jstr
  | PatchMembership http_request jstr invite_role

fun createAuthRouter :: "platform \<Rightarrow> node_env \<Rightarrow> auth_request \<Rightarrow> world \<Rightarrow> response \<times> world" where
  "createAuthRouter P env (PostRegister req body) = answer env (http_register P req body)"
| "createAuthRouter P env (PostLogin req email password) = http_login P env req email password"
| "createAuthRouter P env (GetProfileRoute req) = answer env (http_getProfile P req)"
| "createAuthRouter P env (PutProfile req body) = answer env (http_updateProfile P req body)"
| "createAuthRouter P env (PostLogout req) = answer env (http_logout P req)"
| "createAuthRouter P env (PostRefresh req) = answer env (http_refresh P req)"
| "createAuthRouter P env (PostForgotPassword email) = answer env (http_forgotPassword P email)"
| "createAuthRouter P env (PostResetPassword token password confirmation) =
     answer env (http_resetPassword P token password confirmation)"
| "createAuthRouter P env (PostVerifyEmail token) = answer env (http_verifyEmail P token)"
| "createAuthRouter P env (PostResendVerification req) = answer env (http_resendVerification P req)"
| "createAuthRouter P env (PostSwitchOrg req organizationId) = answer env (http_switchOrg P req organizationId)"

fun organization_routers :: "platform \<Rightarrow> node_env \<Rightarrow> organization_request \<Rightarrow> world \<Rightarrow> response \<times> world" where
  "organization_routers P env (GetOrganizations req limit after) = answer env (http_listMyOrganizations P req limit after)"
| "organization_routers P env (PostInvites req id' email role) = answer env (http_createInvite P req id' email role)"
| "organization_routers P env (GetMembers req id' limit after) = answer env (http_listMembers P req id' limit after)"
| "organization_routers P env (PostInviteAccept req token) = answer env (http_acceptInvite P req token)"
| "organization_routers P env (DeleteMembership req id') = answer env (http_removeMembership P req id')"
| "organization_routers P env (PatchMembership req id' role) = answer env (http_changeMemberRole P req id' role)"

text \<open>A delivery to one of the feature's three queues, as the worker hands it to the handler.\<close>

datatype auth_job_kind = SendPasswordResetEmail | SendVerificationEmail | SendInviteEmail

fun auth_job_handler :: "platform \<Rightarrow> auth_job_kind \<Rightarrow> parsed_body \<Rightarrow> jstr option \<Rightarrow> jstr \<Rightarrow> (world, unit) io" where
  "auth_job_handler P SendPasswordResetEmail body m q = SendPasswordResetEmailHandler P body m q"
| "auth_job_handler P SendVerificationEmail body m q = SendVerificationEmailHandler P body m q"
| "auth_job_handler P SendInviteEmail body m q = SendInviteEmailHandler P body m q"

section \<open>Steps\<close>

text \<open>
  The server handles one request or one delivery at a time: the use cases' reads and writes of one
  request are not interleaved with those of another.
\<close>

inductive auth_step :: "platform \<Rightarrow> node_env \<Rightarrow> world \<Rightarrow> world \<Rightarrow> bool" for P env where
  auth_request: "auth_step P env w (snd (createAuthRouter P env r w))"
| organization_request: "auth_step P env w (snd (organization_routers P env q w))"
| auth_delivery: "auth_step P env w (snd (auth_job_handler P k body m queue w))"

inductive_cases auth_stepE: "auth_step P env w w'"

section \<open>Preservation\<close>

lemma keeps_TokenProvider_verify [keeps_rules]: "ignores_tick Q \<Longrightarrow> keeps Q (TokenProvider_verify P t)"
  unfolding TokenProvider_verify_def by (intro keeps_rules)

lemma keeps_case_failure [keeps_rules]:
  "(\<And>k m. keeps Q (d k m)) \<Longrightarrow> keeps Q o1 \<Longrightarrow>
   keeps Q (case e of DomainError k m \<Rightarrow> d k m | _ \<Rightarrow> o1)"
  by (cases e) auto

lemma keeps_authMiddleware [keeps_rules]: "ignores_tick Q \<Longrightarrow> keeps Q (authMiddleware P req)"
proof -
  assume Q: "ignores_tick Q"
  have rethrow: "keeps Q (case e of DomainError Unauthorized _ \<Rightarrow> throw (AppError m 401) | _ \<Rightarrow> throw e)" for e m
    by (auto intro!: keeps_throw split: failure.splits error_kind.splits)
  show ?thesis
    unfolding authMiddleware_def by (intro keeps_rules rethrow Q)
qed

lemma keeps_assertAuthenticated [keeps_rules]: "keeps Q (assertAuthenticated c)"
  unfolding assertAuthenticated_def by (intro keeps_rules)

lemma keeps_assertHasOrgRole [keeps_rules]: "keeps Q (assertHasOrgRole c rs)"
  unfolding assertHasOrgRole_def by (intro keeps_rules)

lemma keeps_answer: "keeps Q m \<Longrightarrow> Q w \<Longrightarrow> Q (snd (answer env m w))"
  using keepsD[of Q m w] by (cases "m w") (auto simp: answer_def split: sum.splits)

text \<open>
  The contract between the server and a predicate of its state: every use case keeps it. The handlers
  add nothing that could break it, so every step keeps it.
\<close>

locale kept_by_use_cases =
  fixes P :: platform and Q :: "world \<Rightarrow> bool"
  assumes tick: "ignores_tick Q"
    and register: "keeps Q (RegisterUser P input)"
    and login: "keeps Q (LoginUser P e p a i)"
    and lockout: "keeps Q (checkLockout P e)"
    and profile: "keeps Q (UpdateProfile P up)"
    and logout: "keeps Q (RevokeRefreshTokenFamily P raw)"
    and refresh: "keeps Q (RotateRefreshToken P raw a i)"
    and forgot: "keeps Q (RequestPasswordReset P e)"
    and reset: "keeps Q (ResetPassword P raw p c)"
    and verify: "keeps Q (VerifyEmail P raw)"
    and resend: "keeps Q (ScheduleEmailVerification P u)"
    and switch_to: "keeps Q (SwitchOrganization P u v a i)"
    and invite: "keeps Q (InviteUserToOrganization P ii)"
    and accept: "keeps Q (AcceptInvite P raw u)"
    and remove: "keeps Q (RemoveMembership m v actor u)"
    and change: "keeps Q (ChangeMemberRole m v role actor)"
    and reset_job: "keeps Q (SendPasswordResetEmailHandler P body mid queue)"
    and verification_job: "keeps Q (SendVerificationEmailHandler P body mid queue)"
    and invite_job: "keeps Q (SendInviteEmailHandler P body mid queue)"
begin

lemmas use_cases = tick register login lockout profile logout refresh forgot reset verify resend switch_to
  invite accept remove change

lemmas job_cases = reset_job verification_job invite_job

lemma register_kept: "keeps Q (http_register P req body)"
  unfolding http_register_def by (intro use_cases keeps_rules)

lemma getProfile_kept: "keeps Q (http_getProfile P req)"
  unfolding http_getProfile_def by (intro use_cases keeps_rules)

lemma updateProfile_kept: "keeps Q (http_updateProfile P req body)"
  unfolding http_updateProfile_def by (intro use_cases keeps_rules)

lemma refresh_kept: "keeps Q (http_refresh P req)"
  unfolding http_refresh_def by (intro use_cases keeps_rules)

lemma logout_kept: "keeps Q (http_logout P req)"
  unfolding http_logout_def by (intro use_cases keeps_rules)

lemma forgotPassword_kept: "keeps Q (http_forgotPassword P e)"
  unfolding http_forgotPassword_def by (intro use_cases keeps_rules)

lemma resetPassword_kept: "keeps Q (http_resetPassword P raw p c)"
  unfolding http_resetPassword_def by (intro use_cases keeps_rules)

lemma verifyEmail_kept: "keeps Q (http_verifyEmail P raw)"
  unfolding http_verifyEmail_def by (intro use_cases keeps_rules)

lemma resendVerification_kept: "keeps Q (http_resendVerification P req)"
  unfolding http_resendVerification_def by (intro use_cases keeps_rules)

lemma switchOrg_kept: "keeps Q (http_switchOrg P req v)"
  unfolding http_switchOrg_def by (intro use_cases keeps_rules)

lemma createInvite_kept: "keeps Q (http_createInvite P req v e role)"
  unfolding http_createInvite_def by (intro use_cases keeps_rules)

lemma acceptInvite_kept: "keeps Q (http_acceptInvite P req raw)"
  unfolding http_acceptInvite_def by (intro use_cases keeps_rules)

lemma removeMembership_kept: "keeps Q (http_removeMembership P req m)"
  unfolding http_removeMembership_def by (intro use_cases keeps_rules)

lemma changeMemberRole_kept: "keeps Q (http_changeMemberRole P req m role)"
  unfolding http_changeMemberRole_def by (intro use_cases keeps_rules)

lemma listMembers_kept: "keeps Q (http_listMembers P req v l after)"
  unfolding http_listMembers_def by (intro use_cases keeps_rules)

lemma listMyOrganizations_kept: "keeps Q (http_listMyOrganizations P req l after)"
  unfolding http_listMyOrganizations_def by (intro use_cases keeps_rules)

lemma login_body_kept: "keeps Q (http_login_body P req e p)"
  unfolding http_login_body_def by (intro use_cases keeps_rules)

lemma login_kept: "Q w \<Longrightarrow> Q (snd (http_login P env req e p w))"
  using keepsD[OF lockout, of w e] keeps_answer[OF login_body_kept]
  by (auto simp: http_login_def split: prod.splits sum.splits)

lemmas handlers_kept = register_kept getProfile_kept updateProfile_kept refresh_kept logout_kept forgotPassword_kept resetPassword_kept verifyEmail_kept resendVerification_kept switchOrg_kept createInvite_kept acceptInvite_kept removeMembership_kept changeMemberRole_kept listMembers_kept listMyOrganizations_kept

lemma auth_kept: "Q w \<Longrightarrow> Q (snd (createAuthRouter P env r w))"
  by (cases r) (simp_all add: login_kept handlers_kept[THEN keeps_answer])

lemma organizations_kept: "Q w \<Longrightarrow> Q (snd (organization_routers P env r w))"
  by (cases r) (simp_all add: handlers_kept[THEN keeps_answer])

lemma jobs_kept: "keeps Q (auth_job_handler P k body m queue)"
  by (cases k) (simp_all add: reset_job verification_job invite_job)

lemma step_kept: "Q w \<Longrightarrow> auth_step P env w w' \<Longrightarrow> Q w'"
  by (elim auth_stepE) (auto intro: auth_kept organizations_kept keepsD[OF jobs_kept])

end

end
