(* ===== verification/TrackingServer.thy ===== *)
theory TrackingServer imports TrackingTables AuthServer begin

text \<open>
  The tracking features as they are served: the controllers and routers of the four features, and the
  job of the dummy-logs queue. As in \<open>AuthServer\<close>, a request here is one its schema, its rate limit and
  its method let through, with the values they leave; a read that is answered from the cache does not
  reach its handler. The dummy routes are there only when the configuration enables them.
\<close>

text \<open>A handler: the middleware, the guard, and a use case with the user and the organization of the token.\<close>

definition http_tracking ::
  "platform \<Rightarrow> http_request \<Rightarrow> nat \<Rightarrow> string \<Rightarrow> ('a \<Rightarrow> reply) \<Rightarrow> (jstr \<Rightarrow> jstr \<Rightarrow> (world, 'a) io) \<Rightarrow> (world, response) io" where
  "http_tracking P req status message data use =
     bind (authMiddleware P req) (\<lambda>c. bind (assertAuthenticated (Some c)) (\<lambda>ctx.
     bind (use (ctx_userId ctx) (ud_organizationId (ctx_user ctx))) (\<lambda>x.
     return (successResponse status (data x) message))))"

definition toCategoryDTO :: "counted_category \<Rightarrow> category_dto" where
  "toCategoryDTO c = \<lparr>cdto_id = mc_id c, cdto_userId = mc_userId c, cdto_name = mc_name c, cdto_color = mc_color c,
     cdto_icon = mc_icon c, cdto_createdAt = mc_createdAt c, cdto_updatedAt = mc_updatedAt c,
     cdto_metricCount = mc_metricCount c\<rparr>"

definition toDisplayOptionsResponseDTO :: "display_options \<Rightarrow> display_options" where
  "toDisplayOptionsResponseDTO d = d\<lparr>
     disp_priority := Some (case disp_priority d of Some p \<Rightarrow> p | None \<Rightarrow> 1),
     disp_chartType := Some (case disp_chartType d of Some c \<Rightarrow> c | None \<Rightarrow> lit ''line''),
     disp_color := Some (case disp_color d of Some c \<Rightarrow> c | None \<Rightarrow> default_colour)\<rparr>"

definition counted_message :: "nat \<Rightarrow> string \<Rightarrow> string" where
  "counted_message n message = map char_of (decimal n) @ message"

datatype metric_request =
    PostMetric http_request create_metric_dto
  | PutMetric http_request jstr metric_update
  | DeleteMetricRoute http_request jstr
  | PostDummyMetrics http_request nat

datatype category_request =
    PostCategory http_request jstr jstr jstr
  | GetCategoryRoute http_request jstr
  | PutCategory http_request jstr "jstr option" "jstr option" "jstr option"
  | DeleteCategoryRoute http_request jstr
  | PostDummyCategories http_request nat

datatype settings_request =
    PostSettings http_request create_settings_input
  | GetSettings http_request jstr
  | PutSettings http_request jstr settings_update
  | DeleteSettings http_request jstr
  | PatchAchieve http_request jstr
  | PatchDisplay http_request jstr display_patch

datatype log_request =
    PostLog http_request create_log_input
  | GetLog http_request jstr jstr
  | PutLog http_request jstr log_update
  | DeleteLog http_request jstr
  | PostDummyLogs http_request jstr nat

text \<open>The body of a request carries neither user nor organization: those are the token's.\<close>

section \<open>Metrics\<close>

definition createMetric :: "platform \<Rightarrow> http_request \<Rightarrow> create_metric_dto \<Rightarrow> (world, response) io" where
  "createMetric P req body =
     http_tracking P req 201 ''Metric created successfully'' (MetricData \<circ> toMetricResponseDTO)
       (\<lambda>u v. CreateMetric P (body\<lparr>cm_userId := u, cm_organizationId := v\<rparr>))"

definition updateMetric :: "platform \<Rightarrow> http_request \<Rightarrow> jstr \<Rightarrow> metric_update \<Rightarrow> (world, response) io" where
  "updateMetric P req id' data =
     http_tracking P req 200 ''Metric updated successfully'' (MetricData \<circ> toMetricResponseDTO)
       (\<lambda>u v. UpdateMetric P u v id' data)"

definition deleteMetric :: "platform \<Rightarrow> http_request \<Rightarrow> jstr \<Rightarrow> (world, response) io" where
  "deleteMetric P req id' =
     http_tracking P req 200 ''Metric deleted successfully'' (MetricData \<circ> toMetricResponseDTO)
       (\<lambda>u v. DeleteMetric P u v id')"

definition generateDummyMetrics :: "platform \<Rightarrow> http_request \<Rightarrow> nat \<Rightarrow> (world, response) io" where
  "generateDummyMetrics P req count =
     http_tracking P req 201 (counted_message count '' dummy metrics generated successfully'') (MetricList \<circ> map toMetricResponseDTO)
       (\<lambda>u v. GenerateDummyMetrics P u v count)"

fun createMetricRouter :: "platform \<Rightarrow> metric_request \<Rightarrow> (world, response) io" where
  "createMetricRouter P (PostMetric req body) = createMetric P req body"
| "createMetricRouter P (PutMetric req id' data) = updateMetric P req id' data"
| "createMetricRouter P (DeleteMetricRoute req id') = deleteMetric P req id'"
| "createMetricRouter P (PostDummyMetrics req count) = generateDummyMetrics P req count"

section \<open>Categories\<close>

definition createCategory :: "platform \<Rightarrow> http_request \<Rightarrow> jstr \<Rightarrow> jstr \<Rightarrow> jstr \<Rightarrow> (world, response) io" where
  "createCategory P req name colour icon =
     http_tracking P req 201 ''Category created successfully'' (CategoryData \<circ> toCategoryDTO)
       (\<lambda>u v. CreateCategory P u v name (Some colour) (Some icon))"

definition getCategory :: "platform \<Rightarrow> http_request \<Rightarrow> jstr \<Rightarrow> (world, response) io" where
  "getCategory P req id' =
     http_tracking P req 200 ''Category retrieved successfully'' (CategoryData \<circ> toCategoryDTO)
       (\<lambda>u v. GetCategory u v id')"

definition updateCategory :: "platform \<Rightarrow> http_request \<Rightarrow> jstr \<Rightarrow> jstr option \<Rightarrow> jstr option \<Rightarrow> jstr option \<Rightarrow> (world, response) io" where
  "updateCategory P req id' name colour icon =
     http_tracking P req 200 ''Category updated successfully'' (CategoryData \<circ> toCategoryDTO)
       (\<lambda>u v. UpdateCategory P u v id' name colour icon)"

definition deleteCategory :: "platform \<Rightarrow> http_request \<Rightarrow> jstr \<Rightarrow> (world, response) io" where
  "deleteCategory P req id' =
     http_tracking P req 200 ''Category deleted successfully'' (\<lambda>_. NoData)
       (\<lambda>u v. DeleteCategory P u v id')"

definition generateDummyCategories :: "platform \<Rightarrow> http_request \<Rightarrow> nat \<Rightarrow> (world, response) io" where
  "generateDummyCategories P req count =
     http_tracking P req 201 (counted_message count '' dummy metric categories generated successfully'') (CategoryList \<circ> map toCategoryDTO)
       (\<lambda>u v. GenerateDummyCategories P u v count)"

fun createMetricCategoryRouter :: "platform \<Rightarrow> category_request \<Rightarrow> (world, response) io" where
  "createMetricCategoryRouter P (PostCategory req name colour icon) = createCategory P req name colour icon"
| "createMetricCategoryRouter P (GetCategoryRoute req id') = getCategory P req id'"
| "createMetricCategoryRouter P (PutCategory req id' name colour icon) = updateCategory P req id' name colour icon"
| "createMetricCategoryRouter P (DeleteCategoryRoute req id') = deleteCategory P req id'"
| "createMetricCategoryRouter P (PostDummyCategories req count) = generateDummyCategories P req count"

section \<open>Settings\<close>

definition createMetricSettings :: "platform \<Rightarrow> http_request \<Rightarrow> create_settings_input \<Rightarrow> (world, response) io" where
  "createMetricSettings P req body =
     http_tracking P req 201 ''Metric settings created successfully'' SettingsData
       (\<lambda>u v. CreateMetricSettings P (body\<lparr>csi_userId := u, csi_organizationId := v\<rparr>))"

definition getMetricSettingsById :: "platform \<Rightarrow> http_request \<Rightarrow> jstr \<Rightarrow> (world, response) io" where
  "getMetricSettingsById P req id' =
     http_tracking P req 200 ''Success'' SettingsData
       (\<lambda>u v. GetMetricSettings u v id')"

definition updateMetricSettings :: "platform \<Rightarrow> http_request \<Rightarrow> jstr \<Rightarrow> settings_update \<Rightarrow> (world, response) io" where
  "updateMetricSettings P req id' payload =
     http_tracking P req 200 ''Metric settings updated successfully'' SettingsData
       (\<lambda>u v. UpdateMetricSettings P u v id' payload)"

definition deleteMetricSettings :: "platform \<Rightarrow> http_request \<Rightarrow> jstr \<Rightarrow> (world, response) io" where
  "deleteMetricSettings P req id' =
     http_tracking P req 200 ''Metric settings deleted successfully'' (\<lambda>_. NoData)
       (\<lambda>u v. DeleteMetricSettings P u v id')"

definition updateGoalAchievement :: "platform \<Rightarrow> http_request \<Rightarrow> jstr \<Rightarrow> (world, response) io" where
  "updateGoalAchievement P req id' =
     http_tracking P req 200 ''Goal marked as achieved'' SettingsData
       (\<lambda>u v. UpdateGoalAchievement P u v id')"

definition updateDisplayOptions :: "platform \<Rightarrow> http_request \<Rightarrow> jstr \<Rightarrow> display_patch \<Rightarrow> (world, response) io" where
  "updateDisplayOptions P req id' patch =
     http_tracking P req 200 ''Display options updated'' (DisplayData \<circ> toDisplayOptionsResponseDTO \<circ> ms_displayOptions)
       (\<lambda>u v. UpdateDisplayOptions P u v id' patch)"

fun createMetricSettingsRouter :: "platform \<Rightarrow> settings_request \<Rightarrow> (world, response) io" where
  "createMetricSettingsRouter P (PostSettings req body) = createMetricSettings P req body"
| "createMetricSettingsRouter P (GetSettings req id') = getMetricSettingsById P req id'"
| "createMetricSettingsRouter P (PutSettings req id' payload) = updateMetricSettings P req id' payload"
| "createMetricSettingsRouter P (DeleteSettings req id') = deleteMetricSettings P req id'"
| "createMetricSettingsRouter P (PatchAchieve req id') = updateGoalAchievement P req id'"
| "createMetricSettingsRouter P (PatchDisplay req id' patch) = updateDisplayOptions P req id' patch"

section \<open>Logs\<close>

text \<open>A log is read under the metric the query names.\<close>

definition log_of_metric :: "jstr \<Rightarrow> jstr \<Rightarrow> jstr \<Rightarrow> jstr \<Rightarrow> (world, metric_log) io" where
  "log_of_metric metricId id' u v =
     bind (GetMetricLog u v id') (\<lambda>entry.
     if ml_metricId entry \<noteq> metricId then throw (AppError ''Log not found for the specified metric'' 404)
     else return entry)"

definition createMetricLog :: "platform \<Rightarrow> http_request \<Rightarrow> create_log_input \<Rightarrow> (world, response) io" where
  "createMetricLog P req body =
     http_tracking P req 201 ''Metric Log created successfully'' LogData
       (\<lambda>u v. CreateMetricLog P (body\<lparr>cl_userId := u, cl_organizationId := v\<rparr>))"

definition getLogById :: "platform \<Rightarrow> http_request \<Rightarrow> jstr \<Rightarrow> jstr \<Rightarrow> (world, response) io" where
  "getLogById P req id' metricId =
     http_tracking P req 200 ''Success'' LogData
       (log_of_metric metricId id')"

definition updateLog :: "platform \<Rightarrow> http_request \<Rightarrow> jstr \<Rightarrow> log_update \<Rightarrow> (world, response) io" where
  "updateLog P req id' updates =
     http_tracking P req 200 ''Log updated successfully'' LogData
       (\<lambda>u v. UpdateMetricLog P u v id' updates)"

definition deleteLog :: "platform \<Rightarrow> http_request \<Rightarrow> jstr \<Rightarrow> (world, response) io" where
  "deleteLog P req id' =
     http_tracking P req 200 ''Log deleted successfully'' LogData
       (\<lambda>u v. DeleteMetricLog P u v id')"

definition generateDummyMetricLogs :: "platform \<Rightarrow> http_request \<Rightarrow> jstr \<Rightarrow> nat \<Rightarrow> (world, response) io" where
  "generateDummyMetricLogs P req metricId count =
     http_tracking P req 202 (counted_message count '' dummy metric log generation accepted'') JobData
       (\<lambda>u v. GenerateDummyMetricLogs P u v metricId count)"

fun createMetricLogRouter :: "platform \<Rightarrow> log_request \<Rightarrow> (world, response) io" where
  "createMetricLogRouter P (PostLog req body) = createMetricLog P req body"
| "createMetricLogRouter P (GetLog req id' metricId) = getLogById P req id' metricId"
| "createMetricLogRouter P (PutLog req id' updates) = updateLog P req id' updates"
| "createMetricLogRouter P (DeleteLog req id') = deleteLog P req id'"
| "createMetricLogRouter P (PostDummyLogs req metricId count) = generateDummyMetricLogs P req metricId count"

lemmas controllers = createMetric_def updateMetric_def deleteMetric_def generateDummyMetrics_def createCategory_def
  getCategory_def updateCategory_def deleteCategory_def generateDummyCategories_def createMetricSettings_def
  getMetricSettingsById_def updateMetricSettings_def deleteMetricSettings_def updateGoalAchievement_def
  updateDisplayOptions_def createMetricLog_def getLogById_def updateLog_def deleteLog_def generateDummyMetricLogs_def

section \<open>Steps\<close>

datatype tracking_request =
    MetricRoute metric_request
  | CategoryRoute category_request
  | SettingsRoute settings_request
  | LogRoute log_request

fun tracking_handler :: "platform \<Rightarrow> tracking_request \<Rightarrow> (world, response) io" where
  "tracking_handler P (MetricRoute r) = createMetricRouter P r"
| "tracking_handler P (CategoryRoute r) = createMetricCategoryRouter P r"
| "tracking_handler P (SettingsRoute r) = createMetricSettingsRouter P r"
| "tracking_handler P (LogRoute r) = createMetricLogRouter P r"

definition tracking_routers :: "platform \<Rightarrow> node_env \<Rightarrow> tracking_request \<Rightarrow> world \<Rightarrow> response \<times> world" where
  "tracking_routers P env r = answer env (tracking_handler P r)"

text \<open>The server: a request or a delivery of the auth feature, or one of the tracking features.\<close>

inductive server_step :: "platform \<Rightarrow> node_env \<Rightarrow> world \<Rightarrow> world \<Rightarrow> bool" for P env where
  auth: "auth_step P env w w' \<Longrightarrow> server_step P env w w'"
| tracking: "server_step P env w (snd (tracking_routers P env r w))"
| dummy_logs_delivery: "server_step P env w (snd (GenerateDummyMetricLogsHandler P body count m queue w))"

inductive_cases server_stepE: "server_step P env w w'"

text \<open>
  The contract between the tracking features and a predicate of the state, as \<open>kept_by_use_cases\<close> is for
  the auth feature.
\<close>

locale kept_by_tracking =
  fixes P :: platform and Q :: "world \<Rightarrow> bool"
  assumes ticks: "ignores_tick Q"
    and create_metric: "keeps Q (CreateMetric P x)"
    and update_metric: "keeps Q (UpdateMetric P u v m d)"
    and delete_metric: "keeps Q (DeleteMetric P u v m)"
    and dummy_metrics: "keeps Q (GenerateDummyMetrics P u v n)"
    and create_category: "keeps Q (CreateCategory P u v s1 c1 i1)"
    and update_category: "keeps Q (UpdateCategory P u v m s2 c2 i2)"
    and delete_category: "keeps Q (DeleteCategory P u v m)"
    and dummy_categories: "keeps Q (GenerateDummyCategories P u v n)"
    and create_settings: "keeps Q (CreateMetricSettings P si)"
    and update_settings: "keeps Q (UpdateMetricSettings P u v m su)"
    and achieve: "keeps Q (UpdateGoalAchievement P u v m)"
    and display: "keeps Q (UpdateDisplayOptions P u v m dp)"
    and delete_settings: "keeps Q (DeleteMetricSettings P u v m)"
    and create_log: "keeps Q (CreateMetricLog P li)"
    and update_log: "keeps Q (UpdateMetricLog P u v m lu)"
    and delete_log: "keeps Q (DeleteMetricLog P u v m)"
    and dummy_logs: "keeps Q (GenerateDummyMetricLogs P u v m n)"
    and dummy_job: "keeps Q (GenerateDummyMetricLogsHandler P body count mid queue)"
begin

lemmas writers = create_metric update_metric delete_metric dummy_metrics create_category update_category
  delete_category dummy_categories create_settings update_settings achieve display delete_settings create_log
  update_log delete_log dummy_logs

lemma http_kept: "(\<And>u v. keeps Q (use u v)) \<Longrightarrow> keeps Q (http_tracking P req status message data use)"
  unfolding http_tracking_def by (intro ticks keeps_rules)

lemma readers: "keeps Q (GetCategory u v k)" "keeps Q (GetMetricSettings u v k)" "keeps Q (log_of_metric m k u v)"
  unfolding log_of_metric_def by (intro keeps_rules)+

lemma metric_router_kept: "keeps Q (createMetricRouter P r)"
  by (cases r) (simp_all add: controllers http_kept writers)

lemma category_router_kept: "keeps Q (createMetricCategoryRouter P r)"
  by (cases r) (simp_all add: controllers http_kept writers readers)

lemma settings_router_kept: "keeps Q (createMetricSettingsRouter P r)"
  by (cases r) (simp_all add: controllers http_kept writers readers)

lemma log_router_kept: "keeps Q (createMetricLogRouter P r)"
  by (cases r) (simp_all add: controllers http_kept writers readers)

lemmas routers_kept = metric_router_kept category_router_kept settings_router_kept log_router_kept

lemma tracking_kept: "Q w \<Longrightarrow> Q (snd (tracking_routers P env r w))"
  unfolding tracking_routers_def by (rule keeps_answer) (cases r; simp add: routers_kept)

lemma job_kept: "Q w \<Longrightarrow> Q (snd (GenerateDummyMetricLogsHandler P body count m queue w))"
  by (rule keepsD[OF dummy_job])

end

text \<open>The writes of every tenant are enough: no tracking use case reaches another tenant's rows.\<close>

locale kept_for_tenants =
  fixes P :: platform and Q :: "world \<Rightarrow> bool"
  assumes tenant: "tenant_writes P Q u v"
begin

lemma CreateMetric_all: "keeps Q (CreateMetric P x)"
  using tenant_writes.CreateMetric_kept[OF tenant, of "cm_organizationId x" "cm_userId x" x] by simp

lemma CreateMetricSettings_all: "keeps Q (CreateMetricSettings P x)"
  using tenant_writes.CreateMetricSettings_kept[OF tenant, of "csi_organizationId x" "csi_userId x" x] by simp

lemma CreateMetricLog_all: "keeps Q (CreateMetricLog P x)"
  by (rule tenant_writes.CreateMetricLog_kept[OF tenant refl refl])

lemma handler_all: "keeps Q (GenerateDummyMetricLogsHandler P body count m queue)"
  unfolding GenerateDummyMetricLogsHandler_def
  by (intro keeps_bind keeps_liftEither tenant_writes.dummy_job_kept[OF tenant])

lemma tick_ignored: "ignores_tick Q"
  by (rule tenant_writes.ticking[OF tenant])

end

sublocale kept_for_tenants \<subseteq> kept_by_tracking P Q
  by unfold_locales
    (intro CreateMetric_all CreateMetricSettings_all CreateMetricLog_all handler_all tick_ignored
      tenant_writes.UpdateMetric_kept[OF tenant] tenant_writes.DeleteMetric_kept[OF tenant]
      tenant_writes.GenerateDummyMetrics_kept[OF tenant] tenant_writes.category_use_cases_kept[OF tenant]
      tenant_writes.settings_use_cases_kept[OF tenant] tenant_writes.DeleteMetricSettings_kept[OF tenant]
      tenant_writes.UpdateMetricLog_kept[OF tenant] tenant_writes.DeleteMetricLog_kept[OF tenant]
      tenant_writes.GenerateDummyMetricLogs_kept[OF tenant])+

text \<open>A predicate both features keep is kept by every step of the server.\<close>

locale kept_by_server = kept_by_use_cases P Q + kept_by_tracking P Q for P :: platform and Q :: "world \<Rightarrow> bool"
begin

lemma server_kept: "Q w \<Longrightarrow> server_step P env w w' \<Longrightarrow> Q w'"
  by (elim server_stepE) (auto intro: step_kept tracking_kept job_kept)

end

lemmas evaluate_TrackingServer [evaluate] =
  http_tracking_def toCategoryDTO_def toDisplayOptionsResponseDTO_def counted_message_def
  createMetric_def updateMetric_def deleteMetric_def generateDummyMetrics_def createCategory_def
  getCategory_def updateCategory_def deleteCategory_def generateDummyCategories_def
  createMetricSettings_def getMetricSettingsById_def updateMetricSettings_def
  deleteMetricSettings_def updateGoalAchievement_def updateDisplayOptions_def log_of_metric_def
  createMetricLog_def getLogById_def updateLog_def deleteLog_def generateDummyMetricLogs_def
  tracking_routers_def

end
