(* ===== verification/TrackingInvariant.thy ===== *)
theory TrackingInvariant imports TrackingTables begin

text \<open>
  What is always true of the tracking tables: ids are UUIDs drawn at earlier ticks and unique, every
  unique index of the migrations holds, settings and logs are of a metric of their own organization, a
  metric's category is of the metric's owner, and the stored numbers are the ones the validators let through.
\<close>

section \<open>Tables\<close>

definition id_rows :: "('r \<Rightarrow> jstr) \<Rightarrow> jstr set \<Rightarrow> 'r list \<Rightarrow> bool" where
  "id_rows ident used rows \<longleftrightarrow> distinct (map ident rows) \<and> (\<forall>r \<in> set rows. ident r \<in> used)"

lemma id_rows_mono: "id_rows f used rows \<Longrightarrow> used \<subseteq> used' \<Longrightarrow> id_rows f used' rows"
  by (auto simp: id_rows_def)

lemma id_rows_append: "id_rows f used rows \<Longrightarrow> used \<subseteq> used' \<Longrightarrow> f r \<in> used' - used \<Longrightarrow> id_rows f used' (rows @ [r])"
  by (auto simp: id_rows_def)

lemma id_rows_update: "id_rows f used rows \<Longrightarrow> (\<And>r. p r \<Longrightarrow> f (g r) = f r) \<Longrightarrow> id_rows f used (update_where p g rows)"
proof -
  assume rows: "id_rows f used rows" and same: "\<And>r. p r \<Longrightarrow> f (g r) = f r"
  have "map f (update_where p g rows) = map f rows" using same by (auto simp: update_where_def)
  with rows same show ?thesis by (auto simp: id_rows_def set_update_where)
qed

lemma id_rows_delete: "id_rows f used rows \<Longrightarrow> id_rows f used (delete_where p rows)"
  by (auto simp: id_rows_def delete_where_def distinct_map_filter)

lemma id_rows_eq: "id_rows f used rows \<Longrightarrow> r \<in> set rows \<Longrightarrow> s \<in> set rows \<Longrightarrow> f r = f s \<Longrightarrow> r = s"
  by (auto simp: id_rows_def dest: unique_key_eq)

text \<open>
  A unique index as the repositories see it: the check made before a row is written refuses a key that
  another covered row has. The covered rows then never share a key.
\<close>

locale unique_index =
  fixes covers :: "'r \<Rightarrow> bool" and key :: "'r \<Rightarrow> 'k" and check :: "'r \<Rightarrow> 'r list \<Rightarrow> failure option"
  assumes refuses: "check new others = None \<Longrightarrow> covers new \<Longrightarrow> r \<in> set others \<Longrightarrow> covers r \<Longrightarrow> key r \<noteq> key new"
begin

lemma insert_unique: "unique_keys covers key rows \<Longrightarrow> check new rows = None \<Longrightarrow> unique_keys covers key (rows @ [new])"
  using refuses[of new rows] by (auto simp: unique_keys_def) metis

lemma delete_unique: "unique_keys covers key rows \<Longrightarrow> unique_keys covers key (delete_where p rows)"
  by (auto simp: unique_keys_def)

lemma replace_unique:
  assumes "unique_keys covers key rows" "check new (filter (\<lambda>r. ident r \<noteq> i) rows) = None"
  shows "unique_keys covers key (update_where (\<lambda>r. ident r = i) (\<lambda>_. new) rows)"
  unfolding unique_keys_def
proof (intro ballI impI)
  have differ: "key r \<noteq> key new" if "r \<in> set rows" "ident r \<noteq> i" "covers new" "covers r" for r
    using refuses[OF assms(2) that(3), of r] that by simp
  have row: "a = new \<or> a \<in> set rows \<and> ident a \<noteq> i" if "a \<in> set (update_where (\<lambda>r. ident r = i) (\<lambda>_. new) rows)" for a
    using that by (auto simp: set_update_where split: if_splits)
  fix a b
  assume a: "a \<in> set (update_where (\<lambda>r. ident r = i) (\<lambda>_. new) rows)" "covers a"
    and b: "b \<in> set (update_where (\<lambda>r. ident r = i) (\<lambda>_. new) rows)" "covers b" and key: "key a = key b"
  from row[OF a(1)] row[OF b(1)] show "a = b"
  proof (elim disjE conjE)
    assume "a \<in> set rows" "b \<in> set rows"
    with assms(1) a b key show ?thesis by (auto simp: unique_keys_def)
  qed (use a(2) b(2) key differ in \<open>simp_all, metis+\<close>)
qed

text \<open>A change that does not touch what the index covers.\<close>

lemma update_unique:
  assumes "unique_keys covers key rows" "\<And>r. p r \<Longrightarrow> key (f r) = key r" "\<And>r. p r \<Longrightarrow> covers (f r) \<Longrightarrow> covers r"
  shows "unique_keys covers key (update_where p f rows)"
  unfolding unique_keys_def
proof (intro ballI impI)
  fix a b
  assume ab: "a \<in> set (update_where p f rows)" "b \<in> set (update_where p f rows)" "covers a" "covers b" "key a = key b"
  then obtain r s where r: "r \<in> set rows" "a = (if p r then f r else r)" and s: "s \<in> set rows" "b = (if p s then f s else s)"
    by (auto simp: set_update_where)
  have "covers r" "covers s" "key r = key s"
    using ab r(2) s(2) assms(2,3) by (auto split: if_splits)
  with assms(1) r s show "a = b" by (auto simp: unique_keys_def)
qed

end

interpretation metric_names: unique_index live_metric "\<lambda>r. (mt_userId r, pg_lower P (mt_name r))" "metrics_check P" for P
  by unfold_locales (auto simp: metrics_check_def split: if_splits)

interpretation category_names: unique_index live_category "\<lambda>c. (mc_userId c, pg_lower P (mc_name c))" "categories_check P" for P
  by unfold_locales (auto simp: categories_check_def split: if_splits)

interpretation metric_of_settings: unique_index "\<lambda>_. True" ms_metricId settings_check
  by unfold_locales (auto simp: settings_check_def split: if_splits)

interpretation instants: unique_index "\<lambda>_. True" "\<lambda>l. (ml_metricId l, ml_loggedAt l)" logs_check
  by unfold_locales (auto simp: logs_check_def split: if_splits)

section \<open>The rows\<close>

definition metric_table :: "platform \<Rightarrow> jstr set \<Rightarrow> metric_row list \<Rightarrow> bool" where
  "metric_table P used rows \<longleftrightarrow> id_rows mt_id used rows \<and>
     unique_keys live_metric (\<lambda>r. (mt_userId r, pg_lower P (mt_name r))) rows"

definition category_table :: "platform \<Rightarrow> jstr set \<Rightarrow> category_row list \<Rightarrow> bool" where
  "category_table P used rows \<longleftrightarrow> id_rows mc_id used rows \<and>
     unique_keys live_category (\<lambda>c. (mc_userId c, pg_lower P (mc_name c))) rows"

definition settings_table :: "jstr set \<Rightarrow> settings_row list \<Rightarrow> bool" where
  "settings_table used rows \<longleftrightarrow> id_rows ms_id used rows \<and> unique_keys (\<lambda>_. True) ms_metricId rows \<and>
     (\<forall>s \<in> set rows. settings_validate (metric_settings.truncate s) = None)"

definition log_table :: "jstr set \<Rightarrow> log_row list \<Rightarrow> bool" where
  "log_table used rows \<longleftrightarrow> id_rows ml_id used rows \<and> unique_keys (\<lambda>_. True) (\<lambda>l. (ml_metricId l, ml_loggedAt l)) rows \<and>
     (\<forall>l \<in> set rows. log_validate (ml_logValue l) = None)"

text \<open>The references between the tables.\<close>

definition in_category :: "category_row list \<Rightarrow> metric_row \<Rightarrow> bool" where
  "in_category categories r \<longleftrightarrow> (\<forall>k. nonempty (mt_categoryId r) = Some k \<longrightarrow>
     (\<exists>c \<in> set categories. mc_id c = k \<and> owned_category (mt_userId r) (mt_organizationId r) c))"

definition has_metric :: "metric_row list \<Rightarrow> jstr \<Rightarrow> jstr \<Rightarrow> bool" where
  "has_metric rows k v \<longleftrightarrow> (\<exists>r \<in> set rows. mt_id r = k \<and> mt_organizationId r = v)"

definition linked :: "database \<Rightarrow> bool" where
  "linked d \<longleftrightarrow> (\<forall>r \<in> set (metrics d). in_category (metric_categories d) r) \<and>
     (\<forall>s \<in> set (metric_settings d). has_metric (metrics d) (ms_metricId s) (ms_organizationId s)) \<and>
     (\<forall>l \<in> set (metric_logs d). has_metric (metrics d) (ml_metricId l) (ml_organizationId l))"

definition tracking_rows :: "platform \<Rightarrow> jstr set \<Rightarrow> database \<Rightarrow> bool" where
  "tracking_rows P used d \<longleftrightarrow> metric_table P used (metrics d) \<and> category_table P used (metric_categories d) \<and>
     settings_table used (metric_settings d) \<and> log_table used (metric_logs d) \<and> linked d"

definition tracking_inv :: "platform \<Rightarrow> world \<Rightarrow> bool" where
  "tracking_inv P w \<longleftrightarrow> inj (random_uuid P) \<and> tracking_rows P (used_uuids P w) (db w)"

lemmas table_defs = metric_table_def category_table_def settings_table_def log_table_def

lemma tables_mono:
  assumes "used \<subseteq> used'"
  shows "metric_table P used ms \<Longrightarrow> metric_table P used' ms" "category_table P used cs \<Longrightarrow> category_table P used' cs"
    "settings_table used ss \<Longrightarrow> settings_table used' ss" "log_table used ls \<Longrightarrow> log_table used' ls"
  using assms by (auto simp: table_defs intro: id_rows_mono)

lemma tracking_rows_mono: "tracking_rows P used d \<Longrightarrow> used \<subseteq> used' \<Longrightarrow> tracking_rows P used' d"
  by (auto simp: tracking_rows_def intro: tables_mono)

lemma has_metric_append: "has_metric rows k v \<Longrightarrow> has_metric (rows @ [r]) k v"
  by (auto simp: has_metric_def)

lemma in_category_append: "in_category cs r \<Longrightarrow> in_category (cs @ [c]) r"
  by (auto simp: in_category_def)

lemma in_category_update:
  assumes "in_category cs m" "\<And>c. c \<in> set cs \<Longrightarrow> p c \<Longrightarrow>
     mc_id (f c) = mc_id c \<and> mc_userId (f c) = mc_userId c \<and> mc_organizationId (f c) = mc_organizationId c"
  shows "in_category (update_where p f cs) m"
  using assms by (auto simp: in_category_def owned_category_def intro!: update_where_ex)

text \<open>One lemma for each way a table is written.\<close>

lemma rows_add_metric:
  assumes "tracking_rows P used d" "used \<subseteq> used'" "mt_id r \<in> used' - used" "metrics_check P r (metrics d) = None"
    and "in_category (metric_categories d) r"
  shows "tracking_rows P used' (d\<lparr>metrics := metrics d @ [r]\<rparr>)"
  using assms
  by (auto simp: tracking_rows_def metric_table_def linked_def has_metric_append
      intro: id_rows_append metric_names.insert_unique tables_mono)

lemma rows_change_metric:
  assumes "tracking_rows P used d" "row \<in> set (metrics d)" "mt_id r = mt_id row" "mt_organizationId r = mt_organizationId row"
    and "metrics_check P r (filter (\<lambda>s. mt_id s \<noteq> mt_id r) (metrics d)) = None" "in_category (metric_categories d) r"
  shows "tracking_rows P used (d\<lparr>metrics := update_where (\<lambda>s. mt_id s = mt_id r) (\<lambda>_. r) (metrics d)\<rparr>)"
proof -
  have ids: "id_rows mt_id used (metrics d)" using assms(1) by (simp add: tracking_rows_def metric_table_def)
  have same: "s = row" if "s \<in> set (metrics d)" "mt_id s = mt_id r" for s
    using id_rows_eq[OF ids that(1) assms(2)] that(2) assms(3) by simp
  have metric: "has_metric (update_where (\<lambda>s. mt_id s = mt_id r) (\<lambda>_. r) (metrics d)) k v" if "has_metric (metrics d) k v" for k v
    using that same assms(3,4) unfolding has_metric_def by (intro update_where_ex) auto
  show ?thesis
    using assms(1,5,6) metric id_rows_update[OF ids, of "\<lambda>s. mt_id s = mt_id r" "\<lambda>_. r"]
    by (auto simp: tracking_rows_def metric_table_def linked_def set_update_where intro: metric_names.replace_unique)
qed

lemma rows_add_category:
  assumes "tracking_rows P used d" "used \<subseteq> used'" "mc_id c \<in> used' - used" "categories_check P c (metric_categories d) = None"
  shows "tracking_rows P used' (d\<lparr>metric_categories := metric_categories d @ [c]\<rparr>)"
  using assms
  by (auto simp: tracking_rows_def category_table_def linked_def in_category_append
      intro: id_rows_append category_names.insert_unique tables_mono)

lemma rows_change_category:
  assumes "tracking_rows P used d" "row \<in> set (metric_categories d)" "mc_id c = mc_id row"
    and "mc_userId c = mc_userId row" "mc_organizationId c = mc_organizationId row"
    and "categories_check P c (filter (\<lambda>s. mc_id s \<noteq> mc_id c) (metric_categories d)) = None"
  shows "tracking_rows P used (d\<lparr>metric_categories := update_where (\<lambda>s. mc_id s = mc_id c) (\<lambda>_. c) (metric_categories d)\<rparr>)"
proof -
  have ids: "id_rows mc_id used (metric_categories d)" using assms(1) by (simp add: tracking_rows_def category_table_def)
  have same: "s = row" if "s \<in> set (metric_categories d)" "mc_id s = mc_id c" for s
    using id_rows_eq[OF ids that(1) assms(2)] that(2) assms(3) by simp
  have category: "in_category (update_where (\<lambda>s. mc_id s = mc_id c) (\<lambda>_. c) (metric_categories d)) m"
    if "in_category (metric_categories d) m" for m
    using that same assms(3,4,5) by (intro in_category_update) auto
  show ?thesis
    using assms(1,6) category id_rows_update[OF ids, of "\<lambda>s. mc_id s = mc_id c" "\<lambda>_. c"]
    by (auto simp: tracking_rows_def category_table_def linked_def intro: category_names.replace_unique)
qed

lemma rows_delete_category:
  assumes "tracking_rows P used d"
  shows "tracking_rows P used (d\<lparr>metric_categories := update_where p (\<lambda>c. c\<lparr>mc_deletedAt := Some now\<rparr>) (metric_categories d)\<rparr>)"
  using assms
  by (auto simp: tracking_rows_def category_table_def linked_def live_category_def in_category_update
      intro!: id_rows_update category_names.update_unique)

lemma rows_add_settings:
  assumes "tracking_rows P used d" "used \<subseteq> used'" "ms_id s \<in> used' - used" "settings_check s (metric_settings d) = None"
    and "settings_validate (metric_settings.truncate s) = None" "has_metric (metrics d) (ms_metricId s) (ms_organizationId s)"
  shows "tracking_rows P used' (d\<lparr>metric_settings := metric_settings d @ [s]\<rparr>)"
  using assms
  by (auto simp: tracking_rows_def settings_table_def linked_def
      intro: id_rows_append metric_of_settings.insert_unique tables_mono)

lemma write_settings_fields [simp]:
  "ms_id (write_settings s now r) = ms_id r" "ms_metricId (write_settings s now r) = ms_metricId r"
  "ms_organizationId (write_settings s now r) = ms_organizationId r"
  "settings_validate (metric_settings.truncate (write_settings s now r)) = settings_validate s"
  by (simp_all add: write_settings_def settings_validate_def metric_settings.defs)

lemma rows_change_settings:
  assumes "tracking_rows P used d" "settings_validate s = None"
  shows "tracking_rows P used (d\<lparr>metric_settings := update_where p (write_settings s now) (metric_settings d)\<rparr>)"
proof -
  have rows: "settings_table used (metric_settings d)" using assms(1) by (simp add: tracking_rows_def)
  then have "settings_table used (update_where p (write_settings s now) (metric_settings d))"
    unfolding settings_table_def using assms(2)
    by (intro conjI id_rows_update metric_of_settings.update_unique) (auto simp: set_update_where)
  with assms(1) show ?thesis by (auto simp: tracking_rows_def linked_def set_update_where)
qed

lemma rows_delete_settings:
  "tracking_rows P used d \<Longrightarrow> tracking_rows P used (d\<lparr>metric_settings := delete_where p (metric_settings d)\<rparr>)"
  by (auto simp: tracking_rows_def settings_table_def linked_def intro: id_rows_delete metric_of_settings.delete_unique)

lemma rows_add_log:
  assumes "tracking_rows P used d" "used \<subseteq> used'" "ml_id l \<in> used' - used" "logs_check l (metric_logs d) = None"
    and "log_validate (ml_logValue l) = None" "has_metric (metrics d) (ml_metricId l) (ml_organizationId l)"
  shows "tracking_rows P used' (d\<lparr>metric_logs := metric_logs d @ [l]\<rparr>)"
  using assms
  by (auto simp: tracking_rows_def log_table_def linked_def intro: id_rows_append instants.insert_unique tables_mono)

lemma rows_change_log:
  assumes "tracking_rows P used d" "row \<in> set (metric_logs d)" "ml_metricId l = ml_metricId row"
    and "ml_organizationId l = ml_organizationId row" "log_validate (ml_logValue l) = None"
    and "logs_check l (filter (\<lambda>r. ml_id r \<noteq> ml_id l) (metric_logs d)) = None"
  shows "tracking_rows P used (d\<lparr>metric_logs := update_where (\<lambda>r. ml_id r = ml_id l) (\<lambda>_. l) (metric_logs d)\<rparr>)"
proof -
  have rows: "log_table used (metric_logs d)" using assms(1) by (simp add: tracking_rows_def)
  then have "log_table used (update_where (\<lambda>r. ml_id r = ml_id l) (\<lambda>_. l) (metric_logs d))"
    unfolding log_table_def using assms(5,6)
    by (intro conjI id_rows_update instants.replace_unique) (auto simp: set_update_where)
  with assms(1-4) show ?thesis by (auto simp: tracking_rows_def linked_def set_update_where)
qed

lemma rows_delete_log:
  "tracking_rows P used d \<Longrightarrow> tracking_rows P used (d\<lparr>metric_logs := delete_where p (metric_logs d)\<rparr>)"
  by (auto simp: tracking_rows_def log_table_def linked_def intro: id_rows_delete instants.delete_unique)

section \<open>The writes\<close>

lemma tracking_inv_frame:
  assumes "tracking_inv P w" "metrics (db w') = metrics (db w)" "metric_categories (db w') = metric_categories (db w)"
    and "metric_settings (db w') = metric_settings (db w)" "metric_logs (db w') = metric_logs (db w)" "tick w \<le> tick w'"
  shows "tracking_inv P w'"
proof -
  have "tracking_rows P (used_uuids P w') (db w)"
    using assms(1) tracking_rows_mono used_uuids_mono[OF assms(6)] by (auto simp: tracking_inv_def)
  with assms show ?thesis by (simp add: tracking_inv_def tracking_rows_def linked_def)
qed

lemma tracking_inv_ignores [simp]:
  "ignores_tick (tracking_inv P)" "ignores_outbox (tracking_inv P)" "ignores_jobs (tracking_inv P)"
  "ignores_lockouts (tracking_inv P)" "ignores_users (tracking_inv P)" "ignores_organizations (tracking_inv P)"
  "ignores_memberships (tracking_inv P)" "ignores_organization_invites (tracking_inv P)"
  "ignores_refresh_tokens (tracking_inv P)" "ignores_password_reset_tokens (tracking_inv P)"
  "ignores_email_verification_tokens (tracking_inv P)" "ignores_processed_messages (tracking_inv P)"
  "survives_rollback (tracking_inv P)"
  unfolding ignores_defs survives_rollback_def by (intro allI impI, erule tracking_inv_frame; simp)+

lemma tracking_inv_tick: "tracking_inv P w \<Longrightarrow> tick w \<le> t \<Longrightarrow> tracking_inv P (w\<lparr>tick := t\<rparr>)"
  by (rule tracking_inv_frame) simp_all

text \<open>
  A create draws its id, reads the clock and checks the row. A row that is accepted has a new id; one that
  is refused leaves the tables as they are.
\<close>

definition draws :: "platform \<Rightarrow> world \<Rightarrow> jstr set" where
  "draws P w = insert (random_uuid P (tick w)) (insert (random_uuid P (Suc (tick w))) (used_uuids P w))"

lemma used_after_create [simp]: "used_uuids P (w\<lparr>tick := Suc (Suc (tick w)), db := d\<rparr>) = draws P w"
  by (auto simp: used_uuids_def draws_def less_Suc_eq)

lemma draws_fresh: "tracking_inv P w \<Longrightarrow> random_uuid P (tick w) \<in> draws P w - used_uuids P w"
  using fresh_uuid[of P w "tick w"] by (simp add: draws_def tracking_inv_def)

lemma draws_used: "used_uuids P w \<subseteq> draws P w"
  by (auto simp: draws_def)

lemma inv_rows: "tracking_inv P w \<Longrightarrow> tracking_rows P (used_uuids P w) (db w)"
  by (simp add: tracking_inv_def)

lemma inv_created:
  "tracking_inv P w \<Longrightarrow> tracking_rows P (draws P w) d \<Longrightarrow> tracking_inv P (w\<lparr>tick := Suc (Suc (tick w)), db := d\<rparr>)"
  by (simp add: tracking_inv_def)

lemma inv_changed:
  "tracking_inv P w \<Longrightarrow> tracking_rows P (used_uuids P w) d \<Longrightarrow> tick w \<le> t \<Longrightarrow> tracking_inv P (w\<lparr>tick := t, db := d\<rparr>)"
  using tracking_rows_mono[of P "used_uuids P w" d] used_uuids_mono[of w "w\<lparr>tick := t, db := d\<rparr>" P]
  by (simp add: tracking_inv_def)

lemma inv_written:
  "tracking_inv P w \<Longrightarrow> tracking_rows P (used_uuids P w) d \<Longrightarrow> tracking_inv P (w\<lparr>db := d\<rparr>)"
  by (simp add: tracking_inv_def used_uuids_def)

lemma inv_Metric_create:
  "keeps_from (category_of (cm_userId x) (cm_organizationId x) (cm_categoryId x)) (tracking_inv P) (Metric_create P x)"
proof (rule keeps_fromI)
  fix w assume w: "tracking_inv P w" "category_of (cm_userId x) (cm_organizationId x) (cm_categoryId x) w"
  let ?new = "\<lparr>mt_id = random_uuid P (tick w), mt_userId = cm_userId x, mt_name = cm_name x,
    mt_defaultUnit = cm_defaultUnit x, mt_isPublic = cm_isPublic x, mt_createdAt = clock P (Suc (tick w)),
    mt_updatedAt = clock P (Suc (tick w)), mt_categoryId = cm_categoryId x,
    mt_originalMetricId = cm_originalMetricId x, mt_description = cm_description x,
    mt_deletedAt = None, mt_organizationId = cm_organizationId x\<rparr>"
  have link: "in_category (metric_categories (db w)) ?new"
    using w(2) by (simp add: in_category_def category_of_def)
  show "tracking_inv P (snd (Metric_create P x w))"
  proof (cases "metrics_check P ?new (metrics (db w))")
    case None
    then show ?thesis
      by (simp add: Metric_create_def run_bind run_andThen checked_def Let_def)
        (intro inv_created rows_add_metric[OF inv_rows draws_used] w(1) link; simp add: draws_fresh[OF w(1)] del: Diff_iff)
  next
    case (Some e)
    then show ?thesis
      by (simp add: Metric_create_def run_bind checked_def Let_def) (intro tracking_inv_tick w(1); simp)
  qed
qed

lemma inv_Metric_write:
  "keeps_from (\<lambda>w. in_category (metric_categories (db w)) r \<and>
     (\<exists>row \<in> set (metrics (db w)). mt_id row = mt_id r \<and> mt_organizationId row = mt_organizationId r))
   (tracking_inv P) (Metric_write P r)"
proof (rule keeps_fromI)
  fix w assume w: "tracking_inv P w" and known: "in_category (metric_categories (db w)) r \<and>
     (\<exists>row \<in> set (metrics (db w)). mt_id row = mt_id r \<and> mt_organizationId row = mt_organizationId r)"
  then obtain row where row: "row \<in> set (metrics (db w))" "mt_id r = mt_id row" "mt_organizationId r = mt_organizationId row" by auto
  show "tracking_inv P (snd (Metric_write P r w))"
  proof (cases "metrics_check P r (filter (\<lambda>s. mt_id s \<noteq> mt_id r) (metrics (db w)))")
    case None
    from inv_written[OF w rows_change_metric[OF inv_rows[OF w] row None]] known None show ?thesis
      by (simp add: Metric_write_def run_bind checked_def)
  qed (use w in \<open>simp add: Metric_write_def run_bind checked_def\<close>)
qed

lemma row_known: "fst (Metric_row u v k w) = Inr r \<Longrightarrow> r \<in> set (metrics (db w)) \<and> mt_id r = k \<and> owned_metric u v r"
  using Metric_row_reads[of u v k w r] by (cases "Metric_row u v k w") auto

lemma reads_Metric_row: "reads_only (Metric_row u v k)"
  unfolding Metric_row_def by (intro reads_rules)

lemma inv_Metric_save: "keeps_from (change_of (mt_userId m) v m) (tracking_inv P) (Metric_save P v m)"
proof -
  let ?next = "\<lambda>row. row\<lparr>mt_name := mt_name m, mt_description := mt_description m, mt_defaultUnit := mt_defaultUnit m,
           mt_categoryId := mt_categoryId m, mt_originalMetricId := mt_originalMetricId m, mt_isPublic := mt_isPublic m\<rparr>"
  let ?K = "\<lambda>row w. row \<in> set (metrics (db w)) \<and> owned_metric (mt_userId m) v row \<and>
       in_category (metric_categories (db w)) (?next row)"
  have known: "?K row w" if "tracking_inv P w" "change_of (mt_userId m) v m w" "fst (Metric_row (mt_userId m) v (mt_id m) w) = Inr row" for row w
  proof -
    note r = row_known[OF that(3)]
    from that(2) obtain s where s: "s \<in> set (metrics (db w))" "mt_id s = mt_id m" "owned_metric (mt_userId m) v s"
      "mt_categoryId m = mt_categoryId s \<or> category_of (mt_userId m) v (mt_categoryId m) w" by (auto simp: change_of_def)
    have "id_rows mt_id (used_uuids P w) (metrics (db w))" and linked: "linked (db w)"
      using that(1) by (simp_all add: tracking_inv_def tracking_rows_def metric_table_def)
    then have "s = row" using s r id_rows_eq by metis
    then have "in_category (metric_categories (db w)) (?next row)"
      using s linked r by (auto simp: in_category_def category_of_def linked_def owned_metric_def)
    with r show ?thesis by simp
  qed
  have writing: "keeps_from (\<lambda>w. change_of (mt_userId m) v m w \<and> fst (Metric_row (mt_userId m) v (mt_id m) w) = Inr row)
     (tracking_inv P) (let next = ?next row in if next = row then return (metric.truncate row)
       else bind (newDate P) (\<lambda>now. andThen (Metric_write P (next\<lparr>mt_updatedAt := now\<rparr>))
         (return (metric.truncate (next\<lparr>mt_updatedAt := now\<rparr>)))))" for row
  proof (rule keeps_fromI)
    fix w assume w: "tracking_inv P w"
      and R: "change_of (mt_userId m) v m w \<and> fst (Metric_row (mt_userId m) v (mt_id m) w) = Inr row"
    let ?w = "w\<lparr>tick := Suc (tick w)\<rparr>" and ?r = "(?next row)\<lparr>mt_updatedAt := clock P (tick w)\<rparr>"
    have tick: "tracking_inv P ?w" by (rule tracking_inv_tick[OF w]) simp
    have "in_category (metric_categories (db ?w)) ?r \<and>
       (\<exists>s \<in> set (metrics (db ?w)). mt_id s = mt_id ?r \<and> mt_organizationId s = mt_organizationId ?r)"
      using known[OF w] R by (auto simp: in_category_def)
    from keeps_fromD[OF inv_Metric_write tick this] w show "tracking_inv P (snd ((let next = ?next row in
        if next = row then return (metric.truncate row)
        else bind (newDate P) (\<lambda>now. andThen (Metric_write P (next\<lparr>mt_updatedAt := now\<rparr>))
         (return (metric.truncate (next\<lparr>mt_updatedAt := now\<rparr>))))) w))"
      by (simp add: Let_def)
  qed
  show ?thesis
    unfolding Metric_save_def by (rule keeps_from_read[OF reads_Metric_row writing])
qed

lemma inv_Metric_delete: "keeps (tracking_inv P) (Metric_delete P v m)"
proof -
  have "keeps_from (\<lambda>w. True \<and> fst (Metric_row (mt_userId m) v (mt_id m) w) = Inr row) (tracking_inv P)
     (bind (newDate P) (\<lambda>now. Metric_write P (row\<lparr>mt_deletedAt := Some now, mt_updatedAt := now\<rparr>)))" for row
  proof (rule keeps_fromI)
    fix w assume w: "tracking_inv P w" and R: "True \<and> fst (Metric_row (mt_userId m) v (mt_id m) w) = Inr row"
    let ?w = "w\<lparr>tick := Suc (tick w)\<rparr>" and ?r = "row\<lparr>mt_deletedAt := Some (clock P (tick w)), mt_updatedAt := clock P (tick w)\<rparr>"
    have tick: "tracking_inv P ?w" by (rule tracking_inv_tick[OF w]) simp
    have "row \<in> set (metrics (db w))" using row_known R by blast
    then have "in_category (metric_categories (db ?w)) ?r \<and>
       (\<exists>s \<in> set (metrics (db ?w)). mt_id s = mt_id ?r \<and> mt_organizationId s = mt_organizationId ?r)"
      using w by (auto simp: tracking_inv_def tracking_rows_def linked_def in_category_def)
    from keeps_fromD[OF inv_Metric_write tick this] show "tracking_inv P (snd (bind (newDate P)
        (\<lambda>now. Metric_write P (row\<lparr>mt_deletedAt := Some now, mt_updatedAt := now\<rparr>)) w))" by simp
  qed
  then show ?thesis unfolding Metric_delete_def by (rule keeps_from_True[OF keeps_from_read[OF reads_Metric_row]])
qed

lemma inv_Category_create: "keeps (tracking_inv P) (Category_create P u v n c i)"
  unfolding keeps_def
proof (intro allI impI)
  fix w assume w: "tracking_inv P w"
  let ?new = "\<lparr>mc_id = random_uuid P (tick w), mc_userId = u, mc_name = n,
     mc_color = (case c of Some c \<Rightarrow> c | None \<Rightarrow> lit ''#E897A3''),
     mc_icon = (case i of Some i \<Rightarrow> i | None \<Rightarrow> [55357, 56513]),
     mc_createdAt = clock P (Suc (tick w)), mc_updatedAt = clock P (Suc (tick w)), mc_deletedAt = None,
     mc_organizationId = v\<rparr>"
  show "tracking_inv P (snd (Category_create P u v n c i w))"
  proof (cases "categories_check P ?new (metric_categories (db w))")
    case None
    then show ?thesis
      by (simp add: Category_create_def run_bind run_andThen checked_def Let_def)
        (intro inv_created rows_add_category[OF inv_rows draws_used] w; simp add: draws_fresh[OF w] del: Diff_iff)
  next
    case (Some e)
    then show ?thesis
      by (simp add: Category_create_def run_bind checked_def Let_def) (intro tracking_inv_tick w; simp)
  qed
qed

lemma category_row_known:
  "fst (Category_row u v k w) = Inr (Some row) \<Longrightarrow> row \<in> set (metric_categories (db w)) \<and> mc_id row = k \<and> owned_category u v row"
  by (auto simp: Category_row_def dest: find_SomeD)

lemma inv_Category_update: "keeps (tracking_inv P) (Category_update P u v k n c i)"
  unfolding keeps_def
proof (intro allI impI)
  fix w assume w: "tracking_inv P w"
  show "tracking_inv P (snd (Category_update P u v k n c i w))"
  proof (cases "List.find (\<lambda>c. mc_id c = k \<and> owned_category u v c \<and> live_category c) (metric_categories (db w))")
    case None
    with w show ?thesis by (simp add: Category_update_def Category_row_def)
  next
    case (Some row)
    let ?next = "row\<lparr>mc_name := (case n of Some n \<Rightarrow> n | None \<Rightarrow> mc_name row),
      mc_color := (case c of Some c \<Rightarrow> c | None \<Rightarrow> mc_color row), mc_icon := (case i of Some i \<Rightarrow> i | None \<Rightarrow> mc_icon row)\<rparr>"
    let ?new = "?next\<lparr>mc_updatedAt := clock P (tick w)\<rparr>"
    note row = find_SomeD[OF Some]
    show ?thesis
    proof (cases "?next = row")
      case True
      with Some w show ?thesis by (simp add: Category_update_def Category_row_def Let_def)
    next
      case changed: False
      show ?thesis
      proof (cases "categories_check P ?new (filter (\<lambda>c. mc_id c \<noteq> k) (metric_categories (db w)))")
        case None
        have "tracking_rows P (used_uuids P w) ((db w)\<lparr>metric_categories :=
            update_where (\<lambda>s. mc_id s = mc_id ?new) (\<lambda>_. ?new) (metric_categories (db w))\<rparr>)"
          by (rule rows_change_category[OF inv_rows[OF w]]) (use row None in simp_all)
        with row Some changed None w show ?thesis
          by (simp add: Category_update_def Category_row_def Let_def checked_def run_bind run_andThen inv_changed)
      next
        case refused: (Some e)
        with Some changed w show ?thesis
          by (simp add: Category_update_def Category_row_def Let_def checked_def run_bind) (rule tracking_inv_tick; simp)
      qed
    qed
  qed
qed

lemma inv_Category_delete: "keeps (tracking_inv P) (Category_delete P u v k)"
  unfolding keeps_def
proof (intro allI impI)
  fix w assume w: "tracking_inv P w"
  show "tracking_inv P (snd (Category_delete P u v k w))"
    using inv_changed[OF w rows_delete_category[OF inv_rows[OF w]], of "Suc (tick w)"] by (simp add: Category_delete_def)
qed

lemma has_metric_of: "metric_of u v k w \<Longrightarrow> has_metric (metrics (db w)) k v"
  by (auto simp: metric_of_def has_metric_def owned_metric_def)

text \<open>The row a create makes at a tick, and the run of the create in terms of it.\<close>

definition new_settings :: "platform \<Rightarrow> create_settings_dto \<Rightarrow> nat \<Rightarrow> metric_settings" where
  "new_settings P s i = with_stored_dates P \<lparr>ms_id = random_uuid P i, ms_metricId = cs_metricId s, ms_isActive = cs_isActive s,
     ms_goalEnabled = cs_goalEnabled s, ms_goalType = cs_goalType s, ms_goalValue = cs_goalValue s,
     ms_timeFrameEnabled = cs_timeFrameEnabled s, ms_startDate = cs_startDate s, ms_deadlineDate = cs_deadlineDate s,
     ms_alertEnabled = cs_alertEnabled s, ms_alertThresholds = cs_alertThresholds s, ms_isAchieved = cs_isAchieved s,
     ms_displayOptions = cs_displayOptions s, ms_createdAt = clock P (Suc i), ms_updatedAt = clock P (Suc i)\<rparr>"

definition new_settings_row :: "platform \<Rightarrow> create_settings_dto \<Rightarrow> nat \<Rightarrow> settings_row" where
  "new_settings_row P s i = metric_settings.extend (new_settings P s i) \<lparr>ms_organizationId = cs_organizationId s\<rparr>"

lemma new_settings_fields [simp]:
  "ms_id (new_settings_row P s i) = random_uuid P i" "ms_metricId (new_settings_row P s i) = cs_metricId s"
  "ms_organizationId (new_settings_row P s i) = cs_organizationId s"
  "metric_settings.truncate (new_settings_row P s i) = new_settings P s i"
  by (simp_all add: new_settings_row_def new_settings_def with_stored_dates_def metric_settings.defs)

lemma run_MetricSettings_create:
  "MetricSettings_create P s w = (case settings_validate (new_settings P s (tick w)) of
       Some e \<Rightarrow> (Inl e, w\<lparr>tick := Suc (Suc (tick w))\<rparr>)
     | None \<Rightarrow> (case settings_check (new_settings_row P s (tick w)) (metric_settings (db w)) of
         Some e \<Rightarrow> (Inl e, w\<lparr>tick := Suc (Suc (tick w))\<rparr>)
       | None \<Rightarrow> (Inr (new_settings_row P s (tick w)), w\<lparr>tick := Suc (Suc (tick w)),
           db := (db w)\<lparr>metric_settings := metric_settings (db w) @ [new_settings_row P s (tick w)]\<rparr>\<rparr>)))"
  by (simp add: MetricSettings_create_def new_settings_row_def new_settings_def Let_def checked_def run_bind run_andThen
      split: option.split)

lemma inv_MetricSettings_create:
  "keeps_from (metric_of u (cs_organizationId s) (cs_metricId s)) (tracking_inv P) (MetricSettings_create P s)"
proof (rule keeps_fromI)
  fix w assume w: "tracking_inv P w" and known: "metric_of u (cs_organizationId s) (cs_metricId s) w"
  let ?row = "new_settings_row P s (tick w)"
  have refused: "tracking_inv P (w\<lparr>tick := Suc (Suc (tick w))\<rparr>)" by (rule tracking_inv_tick[OF w]) simp
  have "tracking_rows P (draws P w) ((db w)\<lparr>metric_settings := metric_settings (db w) @ [?row]\<rparr>)"
    if "settings_validate (new_settings P s (tick w)) = None" "settings_check ?row (metric_settings (db w)) = None"
    by (rule rows_add_settings[OF inv_rows[OF w] draws_used _ that(2)])
      (use that draws_fresh[OF w] has_metric_of[OF known] in \<open>simp_all del: Diff_iff\<close>)
  then show "tracking_inv P (snd (MetricSettings_create P s w))"
    using refused inv_created[OF w] unfolding run_MetricSettings_create by (auto split: option.split)
qed

lemma inv_Settings_save: "keeps (tracking_inv P) (Settings_save P v s)"
  unfolding keeps_def
proof (intro allI impI)
  fix w assume w: "tracking_inv P w"
  let ?snapshot = "with_stored_dates P s"
  show "tracking_inv P (snd (Settings_save P v s w))"
  proof (cases "settings_validate ?snapshot")
    case None
    from inv_changed[OF w rows_change_settings[OF inv_rows[OF w] None], of "Suc (tick w)"] None show ?thesis
      by (simp add: Settings_save_def Let_def checked_def run_bind run_andThen split: option.split)
  next
    case (Some e)
    then show ?thesis
      by (simp add: Settings_save_def Let_def checked_def) (rule tracking_inv_tick[OF w]; simp)
  qed
qed

lemma inv_Settings_delete: "keeps (tracking_inv P) (Settings_delete v s)"
  by (auto simp: keeps_def Settings_delete_def intro: inv_written rows_delete_settings inv_rows)

lemma inv_Log_create: "keeps_from (metric_of u v k) (tracking_inv P) (Log_create P k v n t d)"
proof (rule keeps_fromI)
  fix w assume w: "tracking_inv P w" and known: "metric_of u v k w"
  let ?new = "\<lparr>ml_id = random_uuid P (tick w), ml_metricId = k, ml_logValue = n, ml_type = t, ml_loggedAt = d,
     ml_createdAt = clock P (Suc (tick w)), ml_updatedAt = clock P (Suc (tick w)), ml_organizationId = v\<rparr>"
  let ?run = "Log_create P k v n t d w"
  have run: "?run = (case log_validate n of Some e \<Rightarrow> (Inl e, w\<lparr>tick := Suc (Suc (tick w))\<rparr>)
     | None \<Rightarrow> (case logs_check ?new (metric_logs (db w)) of Some e \<Rightarrow> (Inl e, w\<lparr>tick := Suc (Suc (tick w))\<rparr>)
     | None \<Rightarrow> (Inr (metric_log.truncate ?new),
         w\<lparr>tick := Suc (Suc (tick w)), db := (db w)\<lparr>metric_logs := metric_logs (db w) @ [?new]\<rparr>\<rparr>)))"
    by (simp add: Log_create_def Let_def checked_def run_bind run_andThen split: option.split)
  have refused: "tracking_inv P (w\<lparr>tick := Suc (Suc (tick w))\<rparr>)" by (rule tracking_inv_tick[OF w]) simp
  have "tracking_rows P (draws P w) ((db w)\<lparr>metric_logs := metric_logs (db w) @ [?new]\<rparr>)"
    if "log_validate n = None" "logs_check ?new (metric_logs (db w)) = None"
    by (rule rows_add_log[OF inv_rows[OF w] draws_used _ that(2)])
      (use that draws_fresh[OF w] has_metric_of[OF known] in \<open>simp_all del: Diff_iff\<close>)
  then show "tracking_inv P (snd ?run)"
    using refused inv_created[OF w] unfolding run by (auto split: option.split)
qed

lemma inv_Log_save: "keeps (tracking_inv P) (Log_save P v l)"
  unfolding keeps_def
proof (intro allI impI)
  fix w assume w: "tracking_inv P w"
  let ?here = "\<lambda>r. ml_id r = ml_id l \<and> ml_organizationId r = v"
  have refused: "tracking_inv P (w\<lparr>tick := Suc (tick w)\<rparr>)" by (rule tracking_inv_tick[OF w]) simp
  show "tracking_inv P (snd (Log_save P v l w))"
  proof (cases "List.find ?here (metric_logs (db w))")
    case None
    with refused show ?thesis by (simp add: Log_save_def checked_def run_bind split: option.split)
  next
    case (Some row)
    note row = find_SomeD[OF Some]
    let ?new = "row\<lparr>ml_logValue := ml_logValue l, ml_type := ml_type l, ml_loggedAt := ml_loggedAt l,
      ml_updatedAt := clock P (tick w)\<rparr>"
    have ids: "id_rows ml_id (used_uuids P w) (metric_logs (db w))"
      using w by (simp add: tracking_inv_def tracking_rows_def log_table_def)
    have same: "s = row" if "s \<in> set (metric_logs (db w))" "ml_id s = ml_id l" for s
      using id_rows_eq[OF ids that(1)] row that(2) by simp
    have one: "update_where ?here (\<lambda>_. ?new) (metric_logs (db w)) = update_where (\<lambda>r. ml_id r = ml_id ?new) (\<lambda>_. ?new) (metric_logs (db w))"
      unfolding update_where_def by (intro map_cong refl) (use row in \<open>auto dest: same\<close>)
    have rows: "tracking_rows P (used_uuids P w) ((db w)\<lparr>metric_logs := update_where ?here (\<lambda>_. ?new) (metric_logs (db w))\<rparr>)"
      if "log_validate (ml_logValue l) = None" "logs_check ?new (filter (\<lambda>r. ml_id r \<noteq> ml_id l) (metric_logs (db w))) = None"
      unfolding one by (rule rows_change_log[OF inv_rows[OF w], of row]) (use row that in auto)
    show ?thesis
      using refused Some inv_changed[OF w rows, of "Suc (tick w)"]
      by (simp add: Log_save_def Let_def checked_def run_bind run_andThen split: option.split)
  qed
qed

lemma inv_Log_delete: "keeps (tracking_inv P) (Log_delete v l)"
  by (auto simp: keeps_def Log_delete_def intro: inv_written rows_delete_log inv_rows)

text \<open>Every tenant's writes keep the invariant.\<close>

interpretation tracking_tenant: tenant_writes P "tracking_inv P" u v for P u v
  by unfold_locales
    (auto intro: tracking_inv_ignores inv_Metric_delete inv_Category_create inv_Category_update inv_Category_delete
      inv_Settings_delete inv_Settings_save inv_Log_save inv_Log_delete inv_Log_create keeps_from_keeps
      simp: inv_Metric_create inv_Metric_save inv_MetricSettings_create)

lemma tracking_inv_empty: "inj (random_uuid P) \<Longrightarrow> tracking_inv P empty_world"
  by (simp add: tracking_inv_def tracking_rows_def table_defs linked_def id_rows_def unique_keys_def empty_world_def
      empty_database_def)

end
