(* ===== verification/TrackingIsolation.thy ===== *)
theory TrackingIsolation imports TrackingInvariant begin

text \<open>
  What a tenant's use case cannot reach: the metrics and categories of every other user or organization,
  the settings and logs of their metrics, and the tables of the auth feature. It is the contract
  \<open>tenant_writes\<close> once more, for the predicate that compares a state with the one the use case started in.
\<close>

definition foreign :: "jstr \<Rightarrow> jstr \<Rightarrow> database \<Rightarrow> jstr \<Rightarrow> bool" where
  "foreign u v d k \<longleftrightarrow> (\<exists>r \<in> set (metrics d). mt_id r = k \<and> \<not> owned_metric u v r)"

text \<open>The tables only the auth feature writes, besides the dedup records, which a job of any feature does.\<close>

definition auth_tables :: "database \<Rightarrow> auth_user list \<times> organization list \<times> membership list \<times> organization_invite list \<times>
    refresh_token list \<times> one_time_token list \<times> one_time_token list" where
  "auth_tables d = (users d, organizations d, memberships d, organization_invites d, refresh_tokens d,
     password_reset_tokens d, email_verification_tokens d)"

definition others_same :: "jstr \<Rightarrow> jstr \<Rightarrow> database \<Rightarrow> database \<Rightarrow> bool" where
  "others_same u v d d' \<longleftrightarrow>
     filter (\<lambda>r. \<not> owned_metric u v r) (metrics d') = filter (\<lambda>r. \<not> owned_metric u v r) (metrics d) \<and>
     filter (\<lambda>c. \<not> owned_category u v c) (metric_categories d') = filter (\<lambda>c. \<not> owned_category u v c) (metric_categories d) \<and>
     filter (\<lambda>s. foreign u v d (ms_metricId s)) (metric_settings d') = filter (\<lambda>s. foreign u v d (ms_metricId s)) (metric_settings d) \<and>
     filter (\<lambda>l. foreign u v d (ml_metricId l)) (metric_logs d') = filter (\<lambda>l. foreign u v d (ml_metricId l)) (metric_logs d) \<and>
     auth_tables d' = auth_tables d"

lemma others_same_refl: "others_same u v d d"
  by (simp add: others_same_def)

text \<open>Another tenant's metrics are the same rows, so what is foreign stays foreign.\<close>

lemma foreign_same: "others_same u v d d' \<Longrightarrow> foreign u v d' k = foreign u v d k"
proof -
  assume "others_same u v d d'"
  then have "set (filter (\<lambda>r. \<not> owned_metric u v r) (metrics d')) = set (filter (\<lambda>r. \<not> owned_metric u v r) (metrics d))"
    by (simp add: others_same_def)
  then show ?thesis by (auto simp: foreign_def)
qed

lemma others_same_trans:
  assumes "others_same u v d d1" "others_same u v d1 d2"
  shows "others_same u v d d2"
proof -
  have "foreign u v d1 = foreign u v d" using foreign_same[OF assms(1)] by blast
  then show ?thesis using assms unfolding others_same_def by simp
qed

definition tenant_frame :: "platform \<Rightarrow> jstr \<Rightarrow> jstr \<Rightarrow> world \<Rightarrow> world \<Rightarrow> bool" where
  "tenant_frame P u v w0 w \<longleftrightarrow> tracking_inv P w \<and> others_same u v (db w0) (db w)"

text \<open>The tenant's own metric is nobody else's.\<close>

lemma own_not_foreign: "tracking_inv P w \<Longrightarrow> metric_of u v k w \<Longrightarrow> \<not> foreign u v (db w) k"
proof -
  assume w: "tracking_inv P w" "metric_of u v k w"
  then have "id_rows mt_id (used_uuids P w) (metrics (db w))"
    by (simp add: tracking_inv_def tracking_rows_def metric_table_def)
  with w(2) show ?thesis by (auto simp: foreign_def metric_of_def dest: id_rows_eq)
qed

lemma frame_from:
  assumes "keeps_from R (tracking_inv P) m"
    and "\<And>w. tracking_inv P w \<Longrightarrow> R w \<Longrightarrow> others_same u v (db w) (db (snd (m w)))"
  shows "keeps_from R (tenant_frame P u v w0) m"
  using keeps_fromD[OF assms(1)] others_same_trans[OF _ assms(2)] by (auto intro!: keeps_fromI simp: tenant_frame_def)

lemma frame_keeps:
  assumes "keeps (tracking_inv P) m" "\<And>w. tracking_inv P w \<Longrightarrow> others_same u v (db w) (db (snd (m w)))"
  shows "keeps (tenant_frame P u v w0) m"
  using keepsD[OF assms(1)] others_same_trans[OF _ assms(2)] by (auto simp: keeps_def tenant_frame_def)

lemma frame_ignores:
  "ignores_tick (tenant_frame P u v w0)" "ignores_jobs (tenant_frame P u v w0)"
  "ignores_processed_messages (tenant_frame P u v w0)" "survives_rollback (tenant_frame P u v w0)"
proof -
  have "tracking_inv P w \<Longrightarrow> tracking_inv P (w\<lparr>tick := Suc (tick w)\<rparr>)" "tracking_inv P w \<Longrightarrow> tracking_inv P (w\<lparr>jobs := x\<rparr>)"
    "tracking_inv P w \<Longrightarrow> tracking_inv P (w\<lparr>db := (db w)\<lparr>processed_messages := y\<rparr>\<rparr>)" for w x y
    using tracking_inv_ignores by (simp_all add: ignores_defs)
  then show "ignores_tick (tenant_frame P u v w0)" "ignores_jobs (tenant_frame P u v w0)"
    "ignores_processed_messages (tenant_frame P u v w0)"
    by (auto simp: ignores_defs tenant_frame_def others_same_def auth_tables_def)
  show "survives_rollback (tenant_frame P u v w0)"
    using tracking_inv_ignores(13)[of P] by (auto simp: survives_rollback_def tenant_frame_def)
qed

section \<open>The writes\<close>

text \<open>A write that is harmless in every state is harmless after what the operation did before it.\<close>

abbreviation unseen :: "jstr \<Rightarrow> jstr \<Rightarrow> database \<Rightarrow> world \<Rightarrow> bool" where
  "unseen u v d w \<equiv> others_same u v d (db w)"

lemma unseen_ticks: "ignores_tick (unseen u v d)"
  by (simp add: ignores_tick_def)

lemma frame_unseen: "keeps (tracking_inv P) m \<Longrightarrow> (\<And>d. keeps (unseen u v d) m) \<Longrightarrow> keeps (tenant_frame P u v w0) m"
  by (rule frame_keeps) (auto intro: keepsD others_same_refl)

lemma frame_from_unseen:
  "keeps_from R (tracking_inv P) m \<Longrightarrow> (\<And>d. keeps (unseen u v d) m) \<Longrightarrow> keeps_from R (tenant_frame P u v w0) m"
  by (rule frame_from) (auto intro: keepsD others_same_refl)

lemma own_row:
  "id_rows f used rows \<Longrightarrow> row \<in> set rows \<Longrightarrow> mine row \<Longrightarrow> f new = f row \<Longrightarrow> mine new \<Longrightarrow>
   filter (\<lambda>r. \<not> mine r) (update_where (\<lambda>r. f r = f new) (\<lambda>_. new) rows) = filter (\<lambda>r. \<not> mine r) rows"
  by (rule filter_update_where) (use id_rows_eq in fastforce)

lemma frame_Metric_create:
  assumes "cm_userId x = u" "cm_organizationId x = v"
  shows "keeps_from (category_of u v (cm_categoryId x)) (tenant_frame P u v w0) (Metric_create P x)"
proof (rule frame_from_unseen)
  show "keeps (unseen u v d) (Metric_create P x)" for d
    unfolding Metric_create_def Let_def
    by (intro keeps_bind keeps_randomUUID keeps_newDate unseen_ticks keeps_checked keeps_andThen)
      (auto simp: keeps_def others_same_def auth_tables_def owned_metric_def assms)
qed (use inv_Metric_create[of x] assms in simp)

lemma Metric_write_unseen:
  assumes "tracking_inv P w" "row \<in> set (metrics (db w))" "owned_metric u v row" "owned_metric u v r" "mt_id r = mt_id row"
  shows "others_same u v (db w) (db (snd (Metric_write P r w)))"
proof -
  have "id_rows mt_id (used_uuids P w) (metrics (db w))"
    using assms(1) by (simp add: tracking_inv_def tracking_rows_def metric_table_def)
  from own_row[where mine = "owned_metric u v", OF this assms(2,3,5,4)] show ?thesis
    by (simp add: Metric_write_def run_bind checked_def others_same_def auth_tables_def split: option.split)
qed

lemma Metric_write_later:
  assumes "tracking_inv P w" "row \<in> set (metrics (db w))" "owned_metric u v row" "owned_metric u v r" "mt_id r = mt_id row"
  shows "others_same u v (db w) (db (snd (Metric_write P r (w\<lparr>tick := Suc (tick w)\<rparr>))))"
  using Metric_write_unseen[of P "w\<lparr>tick := Suc (tick w)\<rparr>" row u v r] tracking_inv_tick[OF assms(1)] assms(2-5) by simp

text \<open>A repository that finds the tenant's row and writes it back under the same id.\<close>

lemma frame_row:
  assumes "tracking_inv P w"
    and "\<And>row. row \<in> set (metrics (db w)) \<Longrightarrow> mt_id row = k \<Longrightarrow> owned_metric u v row \<Longrightarrow> others_same u v (db w) (db (snd (f row w)))"
  shows "others_same u v (db w) (db (snd (bind (Metric_row u v k) f w)))"
  using assms(2) by (auto simp: Metric_row_def run_bind others_same_refl split: option.split dest!: find_SomeD)

lemma frame_Metric_save: "mt_userId m = u \<Longrightarrow> keeps_from (change_of u v m) (tenant_frame P u v w0) (Metric_save P v m)"
proof (rule frame_from)
  fix w assume u: "mt_userId m = u" and w: "tracking_inv P w"
  note written = Metric_write_later[OF w]
  show "others_same u v (db w) (db (snd (Metric_save P v m w)))"
    unfolding Metric_save_def u
    by (rule frame_row[OF w]) (simp add: Let_def others_same_refl, intro impI, rule written, assumption+, simp_all add: owned_metric_def)
qed (use inv_Metric_save[of m] in simp)

lemma frame_Metric_delete: "mt_userId m = u \<Longrightarrow> keeps (tenant_frame P u v w0) (Metric_delete P v m)"
proof (rule frame_keeps[OF inv_Metric_delete])
  fix w assume u: "mt_userId m = u" and w: "tracking_inv P w"
  note written = Metric_write_later[OF w]
  show "others_same u v (db w) (db (snd (Metric_delete P v m w)))"
    unfolding Metric_delete_def u
    by (rule frame_row[OF w]) (simp, rule written, assumption+, simp_all add: owned_metric_def)
qed

lemma frame_categories:
  "keeps (tenant_frame P u v w0) (Category_create P u v n c i)"
  "keeps (tenant_frame P u v w0) (Category_delete P u v k)"
proof (rule frame_unseen[OF inv_Category_create], goal_cases)
  case (1 d)
  show ?case
    unfolding Category_create_def Let_def
    by (intro keeps_bind keeps_randomUUID keeps_newDate unseen_ticks keeps_checked keeps_andThen)
      (auto simp: keeps_def others_same_def auth_tables_def owned_category_def)
next
  case 2
  have "filter (\<lambda>c. \<not> owned_category u v c) (update_where (\<lambda>c. mc_id c = k \<and> owned_category u v c \<and> live_category c)
      (\<lambda>c. c\<lparr>mc_deletedAt := Some now\<rparr>) rows) = filter (\<lambda>c. \<not> owned_category u v c) rows" for now rows
    by (rule filter_update_where) (simp add: owned_category_def)
  then have "keeps (unseen u v d) (Category_delete P u v k)" for d
    unfolding Category_delete_def
    by (intro keeps_bind keeps_newDate unseen_ticks) (simp add: keeps_def others_same_def auth_tables_def)
  then show ?case by (rule frame_unseen[OF inv_Category_delete])
qed

lemma frame_Category_update: "keeps (tenant_frame P u v w0) (Category_update P u v k n c i)"
proof (rule frame_keeps[OF inv_Category_update])
  fix w assume w: "tracking_inv P w"
  show "others_same u v (db w) (db (snd (Category_update P u v k n c i w)))"
  proof (cases "List.find (\<lambda>c. mc_id c = k \<and> owned_category u v c \<and> live_category c) (metric_categories (db w))")
    case None
    then show ?thesis by (simp add: Category_update_def Category_row_def others_same_refl)
  next
    case (Some row)
    let ?next = "row\<lparr>mc_name := (case n of Some n \<Rightarrow> n | None \<Rightarrow> mc_name row),
      mc_color := (case c of Some c \<Rightarrow> c | None \<Rightarrow> mc_color row), mc_icon := (case i of Some i \<Rightarrow> i | None \<Rightarrow> mc_icon row)\<rparr>"
    let ?new = "?next\<lparr>mc_updatedAt := clock P (tick w)\<rparr>"
    note row = find_SomeD[OF Some]
    have "id_rows mc_id (used_uuids P w) (metric_categories (db w))"
      using w by (simp add: tracking_inv_def tracking_rows_def category_table_def)
    from own_row[where mine = "owned_category u v" and new = ?new, OF this] row
    have others: "filter (\<lambda>r. \<not> owned_category u v r) (update_where (\<lambda>r. mc_id r = k) (\<lambda>_. ?new) (metric_categories (db w))) =
      filter (\<lambda>r. \<not> owned_category u v r) (metric_categories (db w))"
      by (auto simp: owned_category_def)
    then have written: "others_same u v (db w) ((db w)\<lparr>metric_categories := update_where (\<lambda>r. mc_id r = k) (\<lambda>_. ?new) (metric_categories (db w))\<rparr>)"
      by (simp add: others_same_def auth_tables_def)
    show ?thesis
    proof (cases "?next = row")
      case True
      with Some show ?thesis by (simp add: Category_update_def Category_row_def Let_def others_same_refl)
    next
      case False
      with Some written show ?thesis
        by (cases "categories_check P ?new (filter (\<lambda>c. mc_id c \<noteq> k) (metric_categories (db w)))")
          (simp_all add: Category_update_def Category_row_def Let_def checked_def run_bind run_andThen others_same_refl)
    qed
  qed
qed

text \<open>Settings and logs hang on a metric: what is of the tenant's own metric is of no other's.\<close>

lemma settings_row_own:
  assumes "tracking_inv P w" "settings_of u v s w" "r \<in> set (metric_settings (db w))" "ms_id r = ms_id s"
  shows "\<not> foreign u v (db w) (ms_metricId r)"
proof -
  have "id_rows ms_id (used_uuids P w) (metric_settings (db w))"
    using assms(1) by (simp add: tracking_inv_def tracking_rows_def settings_table_def)
  then have "ms_metricId r = ms_metricId s" using assms(2-4) by (auto simp: settings_of_def dest: id_rows_eq)
  with assms(1,2) own_not_foreign show ?thesis by (auto simp: settings_of_def)
qed

lemma log_row_own:
  assumes "tracking_inv P w" "log_of u v l w" "r \<in> set (metric_logs (db w))" "ml_id r = ml_id l"
  shows "\<not> foreign u v (db w) (ml_metricId r)"
proof -
  have "id_rows ml_id (used_uuids P w) (metric_logs (db w))"
    using assms(1) by (simp add: tracking_inv_def tracking_rows_def log_table_def)
  then have "ml_metricId r = ml_metricId l" using assms(2-4) by (auto simp: log_of_def dest: id_rows_eq)
  with assms(1,2) own_not_foreign show ?thesis by (auto simp: log_of_def)
qed

lemma frame_MetricSettings_create:
  "cs_organizationId s = v \<Longrightarrow> keeps_from (metric_of u v (cs_metricId s)) (tenant_frame P u v w0) (MetricSettings_create P s)"
proof (rule frame_from)
  fix w assume "tracking_inv P w" "metric_of u v (cs_metricId s) w"
  then have "\<not> foreign u v (db w) (cs_metricId s)" by (rule own_not_foreign)
  then show "others_same u v (db w) (db (snd (MetricSettings_create P s w)))"
    by (simp add: run_MetricSettings_create others_same_def auth_tables_def split: option.split)
qed (use inv_MetricSettings_create[of _ s] in simp)

lemma frame_Settings_save: "keeps_from (settings_of u v s) (tenant_frame P u v w0) (Settings_save P v s)"
proof (rule frame_from[OF keeps_from_keeps[OF inv_Settings_save]])
  fix w assume w: "tracking_inv P w" "settings_of u v s w"
  have "filter (\<lambda>r. foreign u v (db w) (ms_metricId r)) (update_where (\<lambda>r. ms_id r = ms_id s \<and> ms_organizationId r = v)
      (write_settings x now) (metric_settings (db w))) = filter (\<lambda>r. foreign u v (db w) (ms_metricId r)) (metric_settings (db w))" for x now
    by (rule filter_update_where) (use settings_row_own[OF w] in simp)
  then show "others_same u v (db w) (db (snd (Settings_save P v s w)))"
    by (simp add: Settings_save_def Let_def checked_def run_bind run_andThen others_same_def auth_tables_def split: option.split)
qed

lemma frame_Settings_delete: "keeps_from (settings_of u v s) (tenant_frame P u v w0) (Settings_delete v s)"
proof (rule frame_from[OF keeps_from_keeps[OF inv_Settings_delete]])
  fix w assume w: "tracking_inv P w" "settings_of u v s w"
  have "filter (\<lambda>r. foreign u v (db w) (ms_metricId r)) (delete_where (\<lambda>r. ms_id r = ms_id s \<and> ms_organizationId r = v)
      (metric_settings (db w))) = filter (\<lambda>r. foreign u v (db w) (ms_metricId r)) (metric_settings (db w))"
    by (rule filter_delete_where) (use settings_row_own[OF w] in simp)
  then show "others_same u v (db w) (db (snd (Settings_delete v s w)))"
    by (simp add: Settings_delete_def others_same_def auth_tables_def)
qed

lemma frame_Log_create: "keeps_from (metric_of u v k) (tenant_frame P u v w0) (Log_create P k v n t d)"
proof (rule frame_from[OF inv_Log_create])
  fix w assume "tracking_inv P w" "metric_of u v k w"
  then have "\<not> foreign u v (db w) k" by (rule own_not_foreign)
  then show "others_same u v (db w) (db (snd (Log_create P k v n t d w)))"
    by (simp add: Log_create_def Let_def checked_def run_bind run_andThen others_same_def auth_tables_def split: option.split)
qed

lemma frame_Log_save: "keeps_from (log_of u v l) (tenant_frame P u v w0) (Log_save P v l)"
proof (rule frame_from[OF keeps_from_keeps[OF inv_Log_save]])
  fix w assume w: "tracking_inv P w" "log_of u v l w"
  have "filter (\<lambda>r. foreign u v (db w) (ml_metricId r)) (update_where (\<lambda>r. ml_id r = ml_id l \<and> ml_organizationId r = v)
      (\<lambda>_. x) (metric_logs (db w))) = filter (\<lambda>r. foreign u v (db w) (ml_metricId r)) (metric_logs (db w))"
    if "row \<in> set (metric_logs (db w))" "ml_id row = ml_id l" "ml_metricId x = ml_metricId row" for x row
    by (rule filter_update_where) (use log_row_own[OF w] that in auto)
  then show "others_same u v (db w) (db (snd (Log_save P v l w)))"
    by (auto simp: Log_save_def Let_def checked_def run_bind run_andThen others_same_def auth_tables_def split: option.split
        dest!: find_SomeD)
qed

lemma frame_Log_delete: "keeps_from (log_of u v l) (tenant_frame P u v w0) (Log_delete v l)"
proof (rule frame_from[OF keeps_from_keeps[OF inv_Log_delete]])
  fix w assume w: "tracking_inv P w" "log_of u v l w"
  have "filter (\<lambda>r. foreign u v (db w) (ml_metricId r)) (delete_where (\<lambda>r. ml_id r = ml_id l \<and> ml_organizationId r = v)
      (metric_logs (db w))) = filter (\<lambda>r. foreign u v (db w) (ml_metricId r)) (metric_logs (db w))"
    by (rule filter_delete_where) (use log_row_own[OF w] in simp)
  then show "others_same u v (db w) (db (snd (Log_delete v l w)))"
    by (simp add: Log_delete_def others_same_def auth_tables_def)
qed

interpretation frame_tenant: tenant_writes P "tenant_frame P u v w0" u v for P u v w0
  by unfold_locales
    (fact frame_ignores frame_Metric_delete frame_categories frame_Category_update frame_Settings_save
      frame_Settings_delete frame_Log_create frame_Log_save frame_Log_delete
      | (rule frame_Metric_create frame_Metric_save frame_Metric_delete frame_MetricSettings_create; assumption))+

end
