(* ===== verification/Rotation.thy ===== *)
theory Rotation imports SessionInvariant begin

text \<open>
  The properties of the session operations: what a rotation writes, what showing a spent token does,
  what signing out and switching organization leave behind.
\<close>

section \<open>Lemmas\<close>

lemma find_hash_unique:
  "session_inv P w \<Longrightarrow> t \<in> set (refresh_tokens (db w)) \<Longrightarrow> rt_tokenHash t = h \<Longrightarrow>
   List.find (\<lambda>r. rt_tokenHash r = h) (refresh_tokens (db w)) = Some t"
  by (rule find_unique[where key = rt_tokenHash]) (auto simp: session_inv_def session_rows_def)

lemma rotate_organization_active:
  assumes "fst (rotate_organization t w) = Inr v"
  shows "\<exists>m \<in> set (memberships (db w)). active_in (rt_userId t) v m"
proof -
  have head: "first_row xs = Some m \<Longrightarrow> m \<in> set xs" for xs and m :: membership
    by (cases xs) (auto simp: first_row_def)
  show ?thesis
    using assms
    by (auto simp: rotate_organization_def Membership_findByUserAndOrg_def Membership_findDefaultByUser_def
        active_in_def split: option.splits if_splits dest!: find_SomeD head)
qed

lemma RotateRefreshToken_dead:
  assumes "List.find (\<lambda>r. rt_tokenHash r = sha256_hex P raw) (refresh_tokens (db w)) = Some t"
    and "rt_revokedAt t \<noteq> None \<or> rt_expiresAt t \<le> clock P (tick w)"
  shows "\<exists>k. RotateRefreshToken P raw a i w =
     (Inl (DomainError Unauthorized ''Unauthorized: Invalid refresh token''),
      w\<lparr>tick := Suc k, db := (db w)\<lparr>refresh_tokens :=
        revoke_family_rows (rt_familyId t) (clock P k) (refresh_tokens (db w))\<rparr>\<rparr>) \<and> tick w \<le> k"
  using assms
  by (auto simp: RotateRefreshToken_def runInTransaction_def rotate_transaction_def
      RefreshToken_findByTokenHash_def RefreshToken_isRevoked_def RefreshToken_isExpired_def run_bind run_andThen)

lemma live_revoke_family_rows:
  "t \<in> set (revoke_family_rows f now rows) \<Longrightarrow> live t \<Longrightarrow> t \<in> set rows \<and> rt_familyId t \<noteq> f"
  by (auto simp: revoke_family_rows_def set_update_where live_def split: if_splits)

lemma revoke_family_rows_other:
  "t \<in> set rows \<Longrightarrow> rt_familyId t \<noteq> f \<Longrightarrow> t \<in> set (revoke_family_rows f now rows)"
  by (force simp: revoke_family_rows_def set_update_where)

text \<open>Revoking a list of families leaves the live tokens of the others.\<close>

lemma run_revoke_families:
  "\<exists>rows. forEach fs (RefreshToken_revokeFamily P) w =
      (Inr (), w\<lparr>tick := tick w + length fs, db := (db w)\<lparr>refresh_tokens := rows\<rparr>\<rparr>) \<and>
    (\<forall>t \<in> set rows. live t \<longrightarrow> t \<in> set (refresh_tokens (db w)) \<and> rt_familyId t \<notin> set fs) \<and>
    (\<forall>t \<in> set (refresh_tokens (db w)). rt_familyId t \<notin> set fs \<longrightarrow> t \<in> set rows)"
proof (induction fs arbitrary: w)
  case Nil
  show ?case by (rule exI[of _ "refresh_tokens (db w)"]) simp
next
  case (Cons f fs)
  let ?w = "w\<lparr>tick := Suc (tick w),
     db := (db w)\<lparr>refresh_tokens := revoke_family_rows f (clock P (tick w)) (refresh_tokens (db w))\<rparr>\<rparr>"
  from Cons.IH[of ?w] show ?case
    by (auto simp: run_andThen dest: live_revoke_family_rows intro: revoke_family_rows_other)
qed

lemma SwitchOrganization_Inr:
  assumes run: "SwitchOrganization P userId organizationId a i w = (Inr (acc, raw), w')"
    and inv: "session_inv P w" and uuid: "inj (random_uuid P)"
  obtains u m t rows where
    "List.find (active_in userId organizationId) (memberships (db w)) = Some m"
    "List.find (\<lambda>u. user_id u = userId \<and> live_user u) (users (db w)) = Some u"
    "db w' = (db w)\<lparr>refresh_tokens := rows @ [t]\<rparr>"
    "\<forall>r \<in> set rows. live r \<longrightarrow> r \<in> set (refresh_tokens (db w)) \<and>
       (rt_userId r = userId \<longrightarrow> rt_expiresAt r \<le> clock P (tick w))"
    "live t" "rt_userId t = userId" "rt_organizationId t = Some organizationId"
    "rt_tokenHash t = sha256_hex P raw"
    "\<exists>n. tick w \<le> n \<and> n < tick w' \<and> rt_issuedAt t = clock P n \<and>
       rt_expiresAt t = clock P n + refresh_ttl_days P * 24 * 60 * 60 * 1000"
proof -
  let ?w = "w\<lparr>tick := Suc (tick w)\<rparr>"
  let ?active = "filter (\<lambda>t. rt_userId t = userId \<and> rt_revokedAt t = None \<and> clock P (tick w) < rt_expiresAt t)
       (refresh_tokens (db w))"
  let ?fs = "remdups (map rt_familyId ?active)"
  obtain rows where revoke: "forEach ?fs (RefreshToken_revokeFamily P) ?w =
      (Inr (), ?w\<lparr>tick := tick ?w + length ?fs, db := (db w)\<lparr>refresh_tokens := rows\<rparr>\<rparr>)"
    and rows: "\<forall>t \<in> set rows. live t \<longrightarrow> t \<in> set (refresh_tokens (db w)) \<and> rt_familyId t \<notin> set ?fs"
    using run_revoke_families[of ?fs P ?w] by auto
  let ?w1 = "w\<lparr>db := (db w)\<lparr>refresh_tokens := rows\<rparr>, tick := Suc (tick ?w + length ?fs)\<rparr>"
  from run revoke obtain m u t where
    m: "List.find (active_in userId organizationId) (memberships (db w)) = Some m" and
    u: "List.find (\<lambda>u. user_id u = userId \<and> live_user u) (users (db w)) = Some u" and
    issue: "IssueRefreshToken P (user_id u) None (Some organizationId) a i ?w1 = (Inr (raw, t), w')"
    unfolding SwitchOrganization_def Membership_findByUserAndOrg_def User_findById_def
      RefreshToken_findActiveByUser_def TokenProvider_sign_def
    by (auto simp: run_bind[of "IssueRefreshToken _ _ _ _ _ _"] split: if_splits option.splits prod.splits sum.splits)
  have uid: "user_id u = userId" using u by (auto dest: find_SomeD)
  have "keeps (session_inv P) (forEach ?fs (RefreshToken_revokeFamily P))"
    by (intro session_rules keeps_rules)
  moreover have "session_inv P ?w" using inv by (auto intro: session_inv_frame)
  ultimately have "session_inv P (snd (forEach ?fs (RefreshToken_revokeFamily P) ?w))" by (rule keepsD)
  then have "session_inv P (?w\<lparr>tick := tick ?w + length ?fs, db := (db w)\<lparr>refresh_tokens := rows\<rparr>\<rparr>)"
    by (simp add: revoke)
  then have "session_inv P ?w1" by (rule session_inv_frame) simp_all
  note t = IssueRefreshToken_Inr[OF issue this uuid]
  have old: "live r \<longrightarrow> r \<in> set (refresh_tokens (db w)) \<and>
       (rt_userId r = userId \<longrightarrow> rt_expiresAt r \<le> clock P (tick w))" if "r \<in> set rows" for r
    using rows that by (force simp: live_def)
  have "tick w \<le> Suc (tick ?w1) \<and> Suc (tick ?w1) < tick w' \<and> rt_issuedAt t = clock P (Suc (tick ?w1)) \<and>
       rt_expiresAt t = clock P (Suc (tick ?w1)) + refresh_ttl_days P * 24 * 60 * 60 * 1000"
    by (simp add: t(3) issue_ticks_def t(1) issued_token_def)
  then have issued: "\<exists>n. tick w \<le> n \<and> n < tick w' \<and> rt_issuedAt t = clock P n \<and>
       rt_expiresAt t = clock P n + refresh_ttl_days P * 24 * 60 * 60 * 1000" by blast
  show ?thesis
    by (rule that[OF m u, of rows t]) (use old uid t(1,2) issued in \<open>simp_all add: t(3) issued_token_def live_def\<close>)
qed

section \<open>Properties\<close>

text \<open>
  C19. A rotation that succeeds was shown the live, unexpired token of a live user. It revokes that row
  and links it to a new one, appended to the same family with the user's organization, in which she has
  an active membership; the new row is live and holds the hash of the token returned, which no earlier
  row had. Nothing else in the database changes, and no mail or job leaves.
\<close>

theorem rotation_success:
  assumes "RotateRefreshToken P raw a i w = (Inr (acc, raw'), w')"
    and "session_inv P w" "inj (random_uuid P)"
  shows "\<exists>old new v now. old \<in> set (refresh_tokens (db w)) \<and>
     rt_tokenHash old = sha256_hex P raw \<and> rt_revokedAt old = None \<and> clock P (tick w) < rt_expiresAt old \<and>
     (\<exists>u \<in> set (users (db w)). user_id u = rt_userId old \<and> user_deletedAt u = None) \<and>
     (\<exists>m \<in> set (memberships (db w)). active_in (rt_userId old) v m) \<and>
     db w' = (db w)\<lparr>refresh_tokens :=
       update_where (\<lambda>r. rt_id r = rt_id old)
         (\<lambda>_. old\<lparr>rt_revokedAt := Some now, rt_replacedById := Some (rt_id new)\<rparr>) (refresh_tokens (db w)) @ [new]\<rparr> \<and>
     rt_revokedAt new = None \<and> rt_familyId new = rt_familyId old \<and> rt_userId new = rt_userId old \<and>
     rt_organizationId new = Some v \<and> rt_tokenHash new = sha256_hex P raw' \<and>
     (\<forall>r \<in> set (refresh_tokens (db w)). rt_tokenHash r \<noteq> sha256_hex P raw') \<and>
     outbox w' = outbox w \<and> jobs w' = jobs w"
  using assms
proof (rule RotateRefreshToken_Inr)
  fix old u v
  assume find: "List.find (\<lambda>t. rt_tokenHash t = sha256_hex P raw) (refresh_tokens (db w)) = Some old"
    and u: "List.find (\<lambda>u. user_id u = rt_userId old \<and> live_user u) (users (db w)) = Some u"
    and v: "fst (rotate_organization old (w\<lparr>tick := Suc (tick w)\<rparr>)) = Inr v"
    and rest: "live old" "clock P (tick w) < rt_expiresAt old" "raw' = random_base64url P 64 (tick w + 2)"
    "w' = w\<lparr>tick := tick w + 6, db := (db w)\<lparr>refresh_tokens :=
            rotated_rows P (Suc (tick w)) old v a i (refresh_tokens (db w))\<rparr>\<rparr>"
    "\<forall>r \<in> set (refresh_tokens (db w)). rt_tokenHash r \<noteq> sha256_hex P raw'"
  let ?new = "issued_token P (tick w + 2) (rt_userId old) (Some (rt_familyId old)) (Some v) a i"
  have "old \<in> set (refresh_tokens (db w))" "rt_tokenHash old = sha256_hex P raw"
    using find_SomeD[OF find] by auto
  moreover have "\<exists>u \<in> set (users (db w)). user_id u = rt_userId old \<and> user_deletedAt u = None"
    using find_SomeD[OF u] by (auto simp: live_user_def)
  moreover have "\<exists>m \<in> set (memberships (db w)). active_in (rt_userId old) v m"
    using rotate_organization_active[OF v] by simp
  ultimately show ?thesis
    using rest
    by (intro exI[of _ old] exI[of _ ?new] exI[of _ v] exI[of _ "clock P (Suc (tick w))"])
       (simp add: rotated_rows_def spent_def live_def issued_token_def Let_def)
qed

theorem rotation_success_witness:
  "\<exists>new. refresh_tokens (db (final (RotateRefreshToken sample_platform (lit ''t'') None None) sample_world)) =
     [sample_token\<lparr>rt_revokedAt := Some 11, rt_replacedById := Some (rt_id new)\<rparr>, new] \<and> rt_familyId new = [2]"
proof -
  let ?m = "RotateRefreshToken sample_platform (lit ''t'') None None"
  have "succeeds ?m sample_world" by (simp add: evaluate)
  then have "?m sample_world = (Inr (fst (returned ?m sample_world), snd (returned ?m sample_world)), final ?m sample_world)"
    by (simp add: returned_run)
  from rotation_success[OF this sample_session_inv sample_uuid_inj] obtain now new where
    "refresh_tokens (db (final ?m sample_world)) =
       [sample_token\<lparr>rt_revokedAt := Some now, rt_replacedById := Some (rt_id new)\<rparr>, new]" "rt_familyId new = [2]"
    by (auto simp: sample_world_def sample_token_def)
  moreover have "map rt_revokedAt (refresh_tokens (db (final ?m sample_world))) = [Some 11, None]"
    by (simp add: evaluate)
  ultimately show ?thesis by auto
qed

text \<open>
  C20. Reuse closes the family: showing a token that was rotated away, signed out or has expired is
  refused, every token of its family is revoked by then, and no token of another family is touched.
\<close>

theorem reuse_revokes_family:
  assumes "t \<in> set (refresh_tokens (db w))" "rt_tokenHash t = sha256_hex P raw"
    and "rt_revokedAt t \<noteq> None \<or> rt_expiresAt t \<le> clock P (tick w)"
    and "session_inv P w"
  shows "\<exists>w'. RotateRefreshToken P raw a i w =
       (Inl (DomainError Unauthorized ''Unauthorized: Invalid refresh token''), w') \<and>
     (\<forall>r \<in> set (refresh_tokens (db w')). rt_familyId r = rt_familyId t \<longrightarrow> rt_revokedAt r \<noteq> None) \<and>
     (\<forall>r. rt_familyId r \<noteq> rt_familyId t \<longrightarrow>
        r \<in> set (refresh_tokens (db w')) \<longleftrightarrow> r \<in> set (refresh_tokens (db w)))"
proof -
  from find_hash_unique[OF assms(4,1,2)] assms(3) obtain k where
    "RotateRefreshToken P raw a i w = (Inl (DomainError Unauthorized ''Unauthorized: Invalid refresh token''),
      w\<lparr>tick := Suc k, db := (db w)\<lparr>refresh_tokens :=
        revoke_family_rows (rt_familyId t) (clock P k) (refresh_tokens (db w))\<rparr>\<rparr>)"
    using RotateRefreshToken_dead by metis
  then show ?thesis
    by (intro exI[of _ "w\<lparr>tick := Suc k, db := (db w)\<lparr>refresh_tokens :=
        revoke_family_rows (rt_familyId t) (clock P k) (refresh_tokens (db w))\<rparr>\<rparr>"])
       (auto simp: revoke_family_rows_def set_update_where image_iff)
qed

theorem reuse_revokes_family_witness:
  "\<exists>w'. RotateRefreshToken sample_platform (lit ''t'') None None (sample_world\<lparr>tick := 1000\<rparr>) =
       (Inl (DomainError Unauthorized ''Unauthorized: Invalid refresh token''), w') \<and>
     filter (\<lambda>r. rt_familyId r = [2] \<and> rt_revokedAt r = None) (refresh_tokens (db w')) = []"
proof -
  have "session_inv sample_platform (sample_world\<lparr>tick := 1000\<rparr>)"
    by (rule session_inv_frame[OF sample_session_inv]) (simp_all add: sample_world_def)
  with reuse_revokes_family[of sample_token "sample_world\<lparr>tick := 1000\<rparr>" sample_platform "lit ''t''" None None]
  show ?thesis by (auto simp: filter_empty_conv sample_world_def sample_token_def sample_platform_def)
qed

text \<open>
  Signing out closes the session: once \<open>RevokeRefreshTokenFamily\<close> has run, a rotation with that
  token, or with any other of its family, is refused.
\<close>

theorem logout_ends_session:
  assumes "RevokeRefreshTokenFamily P raw w = (Inr (), w')" "session_inv P w"
    and "t \<in> set (refresh_tokens (db w))" "rt_tokenHash t = sha256_hex P raw"
    and "s \<in> set (refresh_tokens (db w'))" "rt_familyId s = rt_familyId t" "rt_tokenHash s = sha256_hex P raw2"
  shows "fst (RotateRefreshToken P raw2 a i w') =
    Inl (DomainError Unauthorized ''Unauthorized: Invalid refresh token'')"
proof -
  have w': "w' = w\<lparr>tick := Suc (tick w), db := (db w)\<lparr>refresh_tokens :=
      revoke_family_rows (rt_familyId t) (clock P (tick w)) (refresh_tokens (db w))\<rparr>\<rparr>"
    using assms(1) find_hash_unique[OF assms(2-4)]
    by (simp add: RevokeRefreshTokenFamily_def RefreshToken_findByTokenHash_def)
  have "session_inv P w'"
    using keepsD'[OF keeps_session_RevokeRefreshTokenFamily assms(1,2)] .
  moreover have "rt_revokedAt s \<noteq> None"
    using assms(5,6) by (auto simp: w' revoke_family_rows_def set_update_where split: if_splits)
  moreover note find_hash_unique[OF \<open>session_inv P w'\<close> assms(5,7)]
  ultimately obtain k where "RotateRefreshToken P raw2 a i w' =
     (Inl (DomainError Unauthorized ''Unauthorized: Invalid refresh token''),
      w'\<lparr>tick := Suc k, db := (db w')\<lparr>refresh_tokens :=
        revoke_family_rows (rt_familyId s) (clock P k) (refresh_tokens (db w'))\<rparr>\<rparr>)"
    using RotateRefreshToken_dead by metis
  then show ?thesis by simp
qed

theorem logout_ends_session_witness:
  "fst (RotateRefreshToken sample_platform (lit ''t'') None None
     (final (RevokeRefreshTokenFamily sample_platform (lit ''t'')) sample_world)) =
   Inl (DomainError Unauthorized ''Unauthorized: Invalid refresh token'')"
proof -
  let ?m = "RevokeRefreshTokenFamily sample_platform (lit ''t'')"
  let ?s = "sample_token\<lparr>rt_revokedAt := Some 10\<rparr>"
  have run: "?m sample_world = (Inr (), final ?m sample_world)"
    and s: "refresh_tokens (db (final ?m sample_world)) = [?s]"
    by (simp_all add: evaluate revoke_family_rows_def)
  have t: "sample_token \<in> set (refresh_tokens (db sample_world))" by (simp add: sample_world_def)
  have h: "rt_tokenHash sample_token = sha256_hex sample_platform (lit ''t'')"
    by (simp add: sample_token_def sample_platform_def)
  have s': "?s \<in> set (refresh_tokens (db (final ?m sample_world)))" by (simp only: s list.set insertI1)
  have f: "rt_familyId ?s = rt_familyId sample_token" and h': "rt_tokenHash ?s = sha256_hex sample_platform (lit ''t'')"
    using h by simp_all
  show ?thesis by (rule logout_ends_session[OF run sample_session_inv t h s' f h'])
qed

text \<open>
  C21. Switching organization needs an active membership there and leaves one session: the user's every
  token that was live and unexpired is revoked, and the one live token of hers that has not expired is
  the new one, for that organization. It was issued during the switch and expires the configured number of days
  after that.
\<close>

theorem switch_single_session:
  assumes "SwitchOrganization P userId organizationId a i w = (Inr (acc, raw), w')"
    and "session_inv P w" "inj (random_uuid P)"
  shows "(\<exists>m \<in> set (memberships (db w)). active_in userId organizationId m) \<and>
    (\<exists>new \<in> set (refresh_tokens (db w')). rt_userId new = userId \<and> rt_organizationId new = Some organizationId \<and>
       rt_revokedAt new = None \<and> rt_tokenHash new = sha256_hex P raw \<and>
       (\<exists>n. tick w \<le> n \<and> n < tick w' \<and> rt_issuedAt new = clock P n \<and>
          rt_expiresAt new = clock P n + refresh_ttl_days P * 24 * 60 * 60 * 1000) \<and>
       (\<forall>r \<in> set (refresh_tokens (db w')). rt_userId r = userId \<and> rt_revokedAt r = None \<and>
          clock P (tick w) < rt_expiresAt r \<longrightarrow> r = new))"
  using assms
proof (rule SwitchOrganization_Inr)
  fix u m t rows
  assume m: "List.find (active_in userId organizationId) (memberships (db w)) = Some m"
    and w': "db w' = (db w)\<lparr>refresh_tokens := rows @ [t]\<rparr>"
    and rows: "\<forall>r \<in> set rows. live r \<longrightarrow> r \<in> set (refresh_tokens (db w)) \<and>
       (rt_userId r = userId \<longrightarrow> rt_expiresAt r \<le> clock P (tick w))"
    and t: "live t" "rt_userId t = userId" "rt_organizationId t = Some organizationId"
    "rt_tokenHash t = sha256_hex P raw"
    and issued: "\<exists>n. tick w \<le> n \<and> n < tick w' \<and> rt_issuedAt t = clock P n \<and>
       rt_expiresAt t = clock P n + refresh_ttl_days P * 24 * 60 * 60 * 1000"
  have "\<forall>r \<in> set (refresh_tokens (db w')). rt_userId r = userId \<and> rt_revokedAt r = None \<and>
          clock P (tick w) < rt_expiresAt r \<longrightarrow> r = t"
    using rows by (force simp: w' live_def)
  moreover have "t \<in> set (refresh_tokens (db w'))" by (simp add: w')
  moreover have "rt_revokedAt t = None" using t(1) by (simp add: live_def)
  ultimately show ?thesis using find_SomeD[OF m] t(2-4) issued by blast
qed

theorem switch_single_session_witness:
  "\<exists>new \<in> set (refresh_tokens (db (final (SwitchOrganization sample_platform (lit ''u'') (lit ''o'') None None) sample_world))).
     rt_organizationId new = Some (lit ''o'') \<and> rt_revokedAt new = None"
proof -
  let ?m = "SwitchOrganization sample_platform (lit ''u'') (lit ''o'') None None"
  have "succeeds ?m sample_world" by (simp add: evaluate)
  then have "?m sample_world = (Inr (fst (returned ?m sample_world), snd (returned ?m sample_world)), final ?m sample_world)"
    by (simp add: returned_run)
  from switch_single_session[OF this sample_session_inv sample_uuid_inj] show ?thesis by blast
qed

end
