(* ===== verification/SessionHistory.thy ===== *)
theory SessionHistory imports Rotation SignIn begin

text \<open>
  What the session operations never take back: a token that was spent stays spent, and a family that
  was closed gets no live token again. The two are kept together with the table's invariant, which
  makes the new ids and families fresh.
\<close>

definition past_rows :: "jstr set \<Rightarrow> jstr set \<Rightarrow> jstr set \<Rightarrow> refresh_token list \<Rightarrow> bool" where
  "past_rows used hashes families rows \<longleftrightarrow>
     (\<forall>h \<in> hashes. \<exists>t \<in> set rows. rt_tokenHash t = h \<and> \<not> live t) \<and>
     (\<forall>f \<in> families. f \<in> used \<and> (\<forall>t \<in> set rows. rt_familyId t = f \<longrightarrow> \<not> live t))"

definition past_inv :: "platform \<Rightarrow> jstr set \<Rightarrow> jstr set \<Rightarrow> world \<Rightarrow> bool" where
  "past_inv P hashes families w \<longleftrightarrow> session_inv P w \<and>
     past_rows (used_uuids P w) hashes families (refresh_tokens (db w))"

lemma past_rows_mono: "past_rows used hs fs rows \<Longrightarrow> used \<subseteq> used' \<Longrightarrow> past_rows used' hs fs rows"
  by (auto simp: past_rows_def)

lemma past_inv_frame:
  "past_inv P hs fs w \<Longrightarrow> refresh_tokens (db w') = refresh_tokens (db w) \<Longrightarrow> tick w \<le> tick w' \<Longrightarrow> past_inv P hs fs w'"
  unfolding past_inv_def by (metis past_rows_mono session_inv_frame used_uuids_mono)

lemma past_inv_ignores [simp]:
  "ignores_tick (past_inv P hs fs)" "ignores_outbox (past_inv P hs fs)" "ignores_jobs (past_inv P hs fs)"
  "ignores_lockouts (past_inv P hs fs)" "ignores_users (past_inv P hs fs)"
  "ignores_organizations (past_inv P hs fs)" "ignores_memberships (past_inv P hs fs)"
  "ignores_organization_invites (past_inv P hs fs)" "ignores_password_reset_tokens (past_inv P hs fs)"
  "ignores_email_verification_tokens (past_inv P hs fs)" "ignores_processed_messages (past_inv P hs fs)"
  "survives_rollback (past_inv P hs fs)"
  by (auto simp: ignores_defs survives_rollback_def intro: past_inv_frame)

lemma past_rows_append:
  "past_rows used hs fs rows \<Longrightarrow> live t \<longrightarrow> rt_familyId t \<notin> fs \<Longrightarrow> past_rows used hs fs (rows @ [t])"
  by (force simp: past_rows_def)

lemma past_rows_revoke:
  assumes "past_rows used hs fs rows"
  shows "past_rows used hs fs (revoke_family_rows f n rows)"
  unfolding past_rows_def
proof (intro conjI ballI impI)
  fix h assume "h \<in> hs"
  with assms obtain t where "t \<in> set rows" "rt_tokenHash t = h" "\<not> live t" by (auto simp: past_rows_def)
  then show "\<exists>t \<in> set (revoke_family_rows f n rows). rt_tokenHash t = h \<and> \<not> live t"
    by (force simp: revoke_family_rows_def set_update_where live_def)
qed (use assms in \<open>auto simp: past_rows_def dest: live_revoke_family_rows\<close>)

lemma past_rows_spend:
  assumes "past_rows used hs fs rows" "live e" "\<And>t. t \<in> set rows \<Longrightarrow> rt_id t = rt_id e \<Longrightarrow> t = e"
  shows "past_rows used hs fs (update_where (\<lambda>t. rt_id t = rt_id e) (\<lambda>_. spent n i e) rows)"
  unfolding past_rows_def
proof (intro conjI ballI impI)
  fix h assume "h \<in> hs"
  with assms(1) obtain t where t: "t \<in> set rows" "rt_tokenHash t = h" "\<not> live t" by (auto simp: past_rows_def)
  then have "rt_id t \<noteq> rt_id e" using assms(2,3) by metis
  with t show "\<exists>t \<in> set (update_where (\<lambda>t. rt_id t = rt_id e) (\<lambda>_. spent n i e) rows). rt_tokenHash t = h \<and> \<not> live t"
    by (force simp: set_update_where)
qed (use assms(1) in \<open>auto simp: past_rows_def set_update_where\<close>)

named_theorems past_rules

lemma keeps_past_IssueRefreshToken [past_rules]:
  assumes uuid: "inj (random_uuid P)"
  shows "keeps (past_inv P hs fs) (IssueRefreshToken P u None v a i)"
  unfolding keeps_def
proof (intro allI impI)
  fix w assume inv: "past_inv P hs fs w"
  then have sess: "session_inv P w" by (simp add: past_inv_def)
  have sess': "session_inv P (snd (IssueRefreshToken P u None v a i w))"
    using keepsD[OF keeps_session_IssueRefreshToken[OF uuid] sess] .
  obtain r w' where run: "IssueRefreshToken P u None v a i w = (r, w')" by fastforce
  show "past_inv P hs fs (snd (IssueRefreshToken P u None v a i w))"
  proof (cases r)
    case (Inl e)
    with run inv show ?thesis by (auto dest!: IssueRefreshToken_Inl intro: past_inv_frame)
  next
    case (Inr x)
    then obtain raw t where issue: "IssueRefreshToken P u None v a i w = (Inr (raw, t), w')" using run by (metis surj_pair)
    note new = IssueRefreshToken_Inr[OF issue sess uuid]
    have "rt_familyId t = random_uuid P (tick w + 3)" by (simp add: new(1) issued_token_def)
    moreover have "random_uuid P (tick w + 3) \<notin> used_uuids P w" using uuid by (simp add: fresh_uuid)
    ultimately have "rt_familyId t \<notin> fs" using inv by (auto simp: past_inv_def past_rows_def)
    then have "past_rows (used_uuids P w) hs fs (refresh_tokens (db w) @ [t])"
      using inv by (intro past_rows_append) (auto simp: past_inv_def)
    moreover have "used_uuids P w \<subseteq> used_uuids P w'" by (rule used_uuids_mono) (simp add: new(3))
    ultimately have "past_rows (used_uuids P w') hs fs (refresh_tokens (db w'))"
      using past_rows_mono by (simp add: new(3))
    with sess' show ?thesis by (simp add: run past_inv_def)
  qed
qed

lemma keeps_past_revokeFamily [past_rules]: "keeps (past_inv P hs fs) (RefreshToken_revokeFamily P f)"
  unfolding keeps_def
proof (intro allI impI)
  fix w assume inv: "past_inv P hs fs w"
  have "session_inv P (snd (RefreshToken_revokeFamily P f w))"
    using keepsD[OF keeps_session_revokeFamily] inv by (simp add: past_inv_def)
  moreover have "used_uuids P w \<subseteq> used_uuids P (w\<lparr>tick := Suc (tick w)\<rparr>)" by (rule used_uuids_mono) simp
  ultimately show "past_inv P hs fs (snd (RefreshToken_revokeFamily P f w))"
    using inv by (auto simp: past_inv_def used_uuids_def intro!: past_rows_revoke elim!: past_rows_mono)
qed

lemma keeps_past_RotateRefreshToken [past_rules]:
  assumes uuid: "inj (random_uuid P)"
  shows "keeps (past_inv P hs fs) (RotateRefreshToken P raw a i)"
  unfolding keeps_def
proof (intro allI impI)
  fix w assume inv: "past_inv P hs fs w"
  then have sess: "session_inv P w" and past: "past_rows (used_uuids P w) hs fs (refresh_tokens (db w))"
    by (simp_all add: past_inv_def)
  have sess': "session_inv P (snd (RotateRefreshToken P raw a i w))"
    using keepsD[OF keeps_session_RotateRefreshToken[OF uuid] sess] .
  obtain r w' where run: "RotateRefreshToken P raw a i w = (r, w')" by fastforce
  have "past_rows (used_uuids P w') hs fs (refresh_tokens (db w'))"
  proof (cases r)
    case (Inl e)
    note rej = RotateRefreshToken_Inl[OF run[unfolded Inl]]
    have "past_rows (used_uuids P w') hs fs (refresh_tokens (db w))"
      using past rej(1) by (metis past_rows_mono used_uuids_mono)
    with rej(2) show ?thesis by (auto intro: past_rows_revoke)
  next
    case (Inr x)
    obtain acc raw' where x: "x = (acc, raw')" by fastforce
    from run[unfolded Inr x] sess uuid show ?thesis
    proof (rule RotateRefreshToken_Inr)
      fix old u v
      assume find: "List.find (\<lambda>t. rt_tokenHash t = sha256_hex P raw) (refresh_tokens (db w)) = Some old" and old: "live old"
        and w': "w' = w\<lparr>tick := tick w + 6, db := (db w)\<lparr>refresh_tokens :=
            rotated_rows P (Suc (tick w)) old v a i (refresh_tokens (db w))\<rparr>\<rparr>"
      let ?new = "issued_token P (Suc (tick w) + 1) (rt_userId old) (Some (rt_familyId old)) (Some v) a i"
      have mem: "old \<in> set (refresh_tokens (db w))" using find by (auto dest: find_SomeD)
      have same: "t = old" if "t \<in> set (refresh_tokens (db w))" "rt_id t = rt_id old" for t
        using sess mem that by (auto simp: session_inv_def session_rows_def dest: unique_key_eq)
      have "rt_familyId old \<notin> fs" using past mem old by (auto simp: past_rows_def)
      then have "rt_familyId ?new \<notin> fs" by (simp add: issued_token_def)
      then have "past_rows (used_uuids P w) hs fs (rotated_rows P (Suc (tick w)) old v a i (refresh_tokens (db w)))"
        unfolding rotated_rows_def Let_def by (intro past_rows_append past_rows_spend past old same) auto
      then show ?thesis using past_rows_mono[OF _ used_uuids_mono, of P w] by (simp add: w')
    qed
  qed
  with sess' show "past_inv P hs fs (snd (RotateRefreshToken P raw a i w))" by (simp add: run past_inv_def)
qed

lemma keeps_past_RevokeRefreshTokenFamily [past_rules]: "keeps (past_inv P hs fs) (RevokeRefreshTokenFamily P raw)"
  unfolding RevokeRefreshTokenFamily_def by (intro past_rules keeps_rules)

lemma keeps_past_SwitchOrganization [past_rules]:
  "inj (random_uuid P) \<Longrightarrow> keeps (past_inv P hs fs) (SwitchOrganization P u v a i)"
  unfolding SwitchOrganization_def by (intro past_rules keeps_rules past_inv_ignores)

lemma keeps_past_LoginUser [past_rules]:
  "inj (random_uuid P) \<Longrightarrow> keeps (past_inv P hs fs) (LoginUser P e p a i)"
  unfolding LoginUser_def by (intro past_rules keeps_rules past_inv_ignores)

lemma keeps_past_RegisterUser [past_rules]:
  "inj (random_uuid P) \<Longrightarrow> keeps (past_inv P hs fs) (RegisterUser P input)"
  unfolding RegisterUser_def register_rows_def
  by (intro past_rules keeps_rules past_inv_ignores ticks_growI tick_bound_ignores)

lemma rotated_token_spent:
  assumes "RotateRefreshToken P raw a i w = (Inr x, w')" "session_inv P w" "inj (random_uuid P)"
  shows "past_inv P {sha256_hex P raw} {} w'"
proof -
  obtain acc raw' where x: "x = (acc, raw')" by fastforce
  have "session_inv P w'"
    using keepsD'[OF keeps_session_RotateRefreshToken[OF assms(3)] assms(1,2)] .
  moreover from assms[unfolded x] have "\<exists>t \<in> set (refresh_tokens (db w')). rt_tokenHash t = sha256_hex P raw \<and> \<not> live t"
  proof (rule RotateRefreshToken_Inr)
    fix old u v
    assume find: "List.find (\<lambda>t. rt_tokenHash t = sha256_hex P raw) (refresh_tokens (db w)) = Some old"
      and w': "w' = w\<lparr>tick := tick w + 6, db := (db w)\<lparr>refresh_tokens :=
            rotated_rows P (Suc (tick w)) old v a i (refresh_tokens (db w))\<rparr>\<rparr>"
    define e where "e = spent (clock P (Suc (tick w))) (rt_id (issued_token P (Suc (tick w) + 1) (rt_userId old) (Some (rt_familyId old)) (Some v) a i)) old"
    have "e \<in> set (refresh_tokens (db w'))"
      using find_SomeD[OF find] by (auto simp: w' rotated_rows_def Let_def set_update_where e_def)
    moreover have "rt_tokenHash e = sha256_hex P raw" "\<not> live e"
      using find_SomeD[OF find] by (auto simp: e_def)
    ultimately show ?thesis by blast
  qed
  ultimately show ?thesis by (simp add: past_inv_def past_rows_def)
qed

lemma revoked_family_past:
  assumes "RevokeRefreshTokenFamily P raw w = (Inr (), w')" "session_inv P w"
    and "t \<in> set (refresh_tokens (db w))" "rt_tokenHash t = sha256_hex P raw"
  shows "past_inv P {} {rt_familyId t} w'"
proof -
  have w': "w' = w\<lparr>tick := Suc (tick w), db := (db w)\<lparr>refresh_tokens :=
      revoke_family_rows (rt_familyId t) (clock P (tick w)) (refresh_tokens (db w))\<rparr>\<rparr>"
    using assms(1) find_hash_unique[OF assms(2-4)]
    by (simp add: RevokeRefreshTokenFamily_def RefreshToken_findByTokenHash_def)
  have "session_inv P w'" using keepsD'[OF keeps_session_RevokeRefreshTokenFamily assms(1,2)] .
  moreover have "rt_familyId t \<in> used_uuids P w'"
    using assms(2,3) by (auto simp: session_inv_def session_rows_def w' used_uuids_def)
  ultimately show ?thesis
    by (auto simp: past_inv_def past_rows_def w' revoke_family_rows_def set_update_where live_def)
qed

lemma past_token_refused:
  assumes "session_inv P w" "t \<in> set (refresh_tokens (db w))" "rt_tokenHash t = sha256_hex P raw" "\<not> live t"
  shows "fst (RotateRefreshToken P raw a i w) = Inl (DomainError Unauthorized ''Unauthorized: Invalid refresh token'')"
proof -
  have "rt_revokedAt t \<noteq> None \<or> rt_expiresAt t \<le> clock P (tick w)" using assms(4) by (simp add: live_def)
  from RotateRefreshToken_dead[OF find_hash_unique[OF assms(1-3)] this, of a i]
  show ?thesis by (metis fst_conv)
qed

end
