(* ===== verification/OrganizationInvariant.thy ===== *)
theory OrganizationInvariant imports Organizations begin

text \<open>
  The invariants of the membership and invite tables. Every organization has an active owner, no user
  is twice a member of one organization, and no address has two open invites to one organization; ids
  are UUIDs drawn at earlier ticks.
\<close>

section \<open>Memberships\<close>

definition membership_rows :: "jstr set \<Rightarrow> membership list \<Rightarrow> bool" where
  "membership_rows used rows \<longleftrightarrow> distinct (map m_id rows) \<and> (\<forall>m \<in> set rows. m_id m \<in> used) \<and>
     distinct (map (\<lambda>m. (m_userId m, m_organizationId m)) rows)"

definition is_active_owner :: "jstr \<Rightarrow> membership \<Rightarrow> bool" where
  "is_active_owner organizationId m \<longleftrightarrow>
     m_organizationId m = organizationId \<and> m_role m = Owner \<and> m_status m = Active"

definition has_owner :: "jstr \<Rightarrow> membership list \<Rightarrow> bool" where
  "has_owner organizationId rows \<longleftrightarrow> (\<exists>m \<in> set rows. is_active_owner organizationId m)"

definition owned_inv :: "platform \<Rightarrow> world \<Rightarrow> bool" where
  "owned_inv P w \<longleftrightarrow> membership_rows (used_uuids P w) (memberships (db w)) \<and>
     (\<forall>v \<in> set (organizations (db w)). has_owner (org_id v) (memberships (db w)))"

lemma membership_rows_mono: "membership_rows used rows \<Longrightarrow> used \<subseteq> used' \<Longrightarrow> membership_rows used' rows"
  by (auto simp: membership_rows_def)

lemma membership_rows_append:
  "membership_rows used rows \<Longrightarrow> used \<subseteq> used' \<Longrightarrow> m_id m \<in> used' - used \<Longrightarrow>
   \<forall>r \<in> set rows. \<not> (m_userId r = m_userId m \<and> m_organizationId r = m_organizationId m) \<Longrightarrow>
   membership_rows used' (rows @ [m])"
  by (auto simp: membership_rows_def)

lemma membership_rows_role:
  assumes "membership_rows used rows"
  shows "membership_rows used (update_where (\<lambda>r. m_id r = i) (\<lambda>r. r\<lparr>m_role := role\<rparr>) rows)"
proof -
  have "map m_id (update_where (\<lambda>r. m_id r = i) (\<lambda>r. r\<lparr>m_role := role\<rparr>) rows) = map m_id rows"
    "map (\<lambda>m. (m_userId m, m_organizationId m)) (update_where (\<lambda>r. m_id r = i) (\<lambda>r. r\<lparr>m_role := role\<rparr>) rows) =
     map (\<lambda>m. (m_userId m, m_organizationId m)) rows"
    by (simp_all add: map_update_where)
  with assms show ?thesis by (auto simp: membership_rows_def set_update_where)
qed

lemma membership_rows_delete: "membership_rows used rows \<Longrightarrow> membership_rows used (delete_where p rows)"
  by (auto simp: membership_rows_def delete_where_def distinct_map_filter)

lemma membership_rows_id: "membership_rows used rows \<Longrightarrow> r \<in> set rows \<Longrightarrow> m \<in> set rows \<Longrightarrow> m_id r = m_id m \<Longrightarrow> r = m"
  by (auto simp: membership_rows_def dest: unique_key_eq)

lemma has_owner_append: "has_owner v rows \<Longrightarrow> has_owner v (rows @ rs)"
  by (auto simp: has_owner_def)

text \<open>Taking one membership out of its role, or out of the table, leaves the owners there were but it.\<close>

lemma has_owner_without:
  assumes "has_owner v rows" "membership_rows used rows" "m \<in> set rows"
    and "m_organizationId m = v \<Longrightarrow> m_role m = Owner \<Longrightarrow> 1 < count_where (is_active_owner v) rows"
  shows "\<exists>r \<in> set rows. is_active_owner v r \<and> m_id r \<noteq> m_id m"
proof (rule ccontr)
  assume "\<not> ?thesis"
  then have only: "r = m" if "r \<in> set rows" "is_active_owner v r" for r
    using that assms(2,3) by (auto dest: membership_rows_id)
  with assms(1) have m: "is_active_owner v m" by (auto simp: has_owner_def)
  have "set (filter (is_active_owner v) rows) \<subseteq> {m}" using only by auto
  moreover have "distinct (filter (is_active_owner v) rows)"
    using assms(2) by (auto simp: membership_rows_def distinct_map)
  ultimately have "count_where (is_active_owner v) rows \<le> 1"
    unfolding count_where_def by (metis card_mono distinct_card finite.intros is_singletonI is_singleton_altdef)
  with m assms(4) show False by (auto simp: is_active_owner_def)
qed

lemma owned_inv_frame:
  "owned_inv P w \<Longrightarrow> memberships (db w') = memberships (db w) \<Longrightarrow> organizations (db w') = organizations (db w) \<Longrightarrow>
   tick w \<le> tick w' \<Longrightarrow> owned_inv P w'"
  unfolding owned_inv_def by (metis membership_rows_mono used_uuids_mono)

lemma owned_inv_ignores [simp]:
  "ignores_tick (owned_inv P)" "ignores_outbox (owned_inv P)" "ignores_jobs (owned_inv P)"
  "ignores_lockouts (owned_inv P)" "ignores_users (owned_inv P)" "ignores_refresh_tokens (owned_inv P)"
  "ignores_organization_invites (owned_inv P)" "ignores_password_reset_tokens (owned_inv P)"
  "ignores_email_verification_tokens (owned_inv P)" "ignores_processed_messages (owned_inv P)"
  "survives_rollback (owned_inv P)"
  by (auto simp: ignores_defs survives_rollback_def intro: owned_inv_frame)

named_theorems owned_rules

lemma keeps_owned_Membership_create [owned_rules]:
  assumes "inj (random_uuid P)"
  shows "keeps (owned_inv P) (Membership_create P u v role status)"
  unfolding keeps_def
proof (intro allI impI)
  fix w assume inv: "owned_inv P w"
  obtain r w' where run: "Membership_create P u v role status w = (r, w')" by fastforce
  show "owned_inv P (snd (Membership_create P u v role status w))"
  proof (cases r)
    case (Inl e)
    with run have "db w' = db w" "tick w \<le> tick w'"
      by (auto simp: Membership_create_def run_bind run_andThen Let_def split: if_splits)
    with inv show ?thesis by (auto simp: run intro: owned_inv_frame)
  next
    case (Inr m)
    note c = Membership_create_Inr[OF run[unfolded Inr]]
    from c(7) obtain k where w': "w' = w\<lparr>tick := k + tick w, db := (db w)\<lparr>memberships := memberships (db w) @ [m]\<rparr>\<rparr>" ..
    have "tick w' = Suc (Suc (tick w))"
      using run Inr by (auto simp: Membership_create_def run_bind run_andThen Let_def split: if_splits)
    then have "m_id m \<in> used_uuids P w' - used_uuids P w" "used_uuids P w \<subseteq> used_uuids P w'"
      using fresh_uuid[OF assms, of w "Suc (tick w)"] by (auto simp: c(4) used_uuids_def)
    with inv c(1,2,6) have "membership_rows (used_uuids P w') (memberships (db w) @ [m])"
      by (intro membership_rows_append) (auto simp: owned_inv_def)
    with inv show ?thesis by (auto simp: run w' owned_inv_def has_owner_append)
  qed
qed

lemma membership_rows_run: "owned_inv P w \<Longrightarrow> membership_rows (used_uuids P w) (memberships (db w))"
  by (simp add: owned_inv_def)

lemma owners_counted:
  "Membership_countByOrgAndRole v Owner = getsDb (\<lambda>d. count_where (is_active_owner v) (memberships d))"
  by (simp add: Membership_countByOrgAndRole_def is_active_owner_def[abs_def])

text \<open>What a role change and a removal that succeeded did.\<close>

lemma ChangeMemberRole_Inr:
  assumes "ChangeMemberRole i v role actor w = (Inr (), w')"
  obtains m where "actor = ''owner''" "m \<in> set (memberships (db w))" "m_id m = i" "m_organizationId m = v"
    "m_role m = Owner \<Longrightarrow> role \<noteq> Owner \<Longrightarrow> 1 < count_where (is_active_owner v) (memberships (db w))"
    "role = m_role m \<and> w' = w \<or> w' = w\<lparr>db := (db w)\<lparr>memberships :=
       update_where (\<lambda>r. m_id r = i) (\<lambda>r. r\<lparr>m_role := role\<rparr>) (memberships (db w))\<rparr>\<rparr>"
  using assms
  by (auto simp: ChangeMemberRole_def Membership_findById_def owners_counted Membership_save_def
      Membership_changeRole_def Membership_isOwner_def run_andThen split: if_splits option.splits dest!: find_SomeD)

lemma ChangeMemberRole_Inl: "ChangeMemberRole i v role actor w = (Inl e, w') \<Longrightarrow> w' = w"
  by (auto simp: ChangeMemberRole_def Membership_findById_def owners_counted Membership_save_def
      Membership_changeRole_def run_andThen split: if_splits option.splits)

lemma RemoveMembership_Inr:
  assumes "RemoveMembership i v actor u w = (Inr (), w')"
  obtains m where "actor = ''owner''" "m \<in> set (memberships (db w))" "m_id m = i" "m_organizationId m = v"
    "m_userId m \<noteq> u"
    "m_role m = Owner \<Longrightarrow> 1 < count_where (is_active_owner v) (memberships (db w))"
    "w' = w\<lparr>db := (db w)\<lparr>memberships := delete_where (\<lambda>r. m_id r = i) (memberships (db w))\<rparr>\<rparr>"
  using assms
  by (auto simp: RemoveMembership_def Membership_findById_def owners_counted Membership_delete_def
      Membership_isOwner_def run_andThen split: if_splits option.splits dest!: find_SomeD)

lemma RemoveMembership_Inl: "RemoveMembership i v actor u w = (Inl e, w') \<Longrightarrow> w' = w"
  by (auto simp: RemoveMembership_def Membership_findById_def owners_counted Membership_delete_def
      run_andThen split: if_splits option.splits)

lemma keeps_owned_ChangeMemberRole [owned_rules]: "keeps (owned_inv P) (ChangeMemberRole i v role actor)"
  unfolding keeps_def
proof (intro allI impI)
  fix w assume inv: "owned_inv P w"
  obtain r w' where run: "ChangeMemberRole i v role actor w = (r, w')" by fastforce
  show "owned_inv P (snd (ChangeMemberRole i v role actor w))"
  proof (cases r)
    case (Inl e)
    with run inv show ?thesis by (auto dest: ChangeMemberRole_Inl)
  next
    case (Inr x)
    with run have "ChangeMemberRole i v role actor w = (Inr (), w')" by simp
    then show ?thesis
    proof (rule ChangeMemberRole_Inr)
      fix m
      assume m: "m \<in> set (memberships (db w))" "m_id m = i" "m_organizationId m = v"
        and guard: "m_role m = Owner \<Longrightarrow> role \<noteq> Owner \<Longrightarrow> 1 < count_where (is_active_owner v) (memberships (db w))"
        and w': "role = m_role m \<and> w' = w \<or> w' = w\<lparr>db := (db w)\<lparr>memberships :=
           update_where (\<lambda>r. m_id r = i) (\<lambda>r. r\<lparr>m_role := role\<rparr>) (memberships (db w))\<rparr>\<rparr>"
      let ?rows = "update_where (\<lambda>r. m_id r = i) (\<lambda>r. r\<lparr>m_role := role\<rparr>) (memberships (db w))"
      note rows = membership_rows_run[OF inv]
      have "has_owner q ?rows" if q: "has_owner q (memberships (db w))" for q
      proof (cases "role = Owner")
        case True
        then show ?thesis using q by (force simp: has_owner_def is_active_owner_def set_update_where)
      next
        case False
        have "\<exists>r \<in> set (memberships (db w)). is_active_owner q r \<and> m_id r \<noteq> m_id m"
          using has_owner_without[OF q rows m(1)] guard False m(3) by blast
        then show ?thesis using m(2) by (force simp: has_owner_def set_update_where)
      qed
      with inv w' membership_rows_role[OF rows] show ?thesis
        by (auto simp: run owned_inv_def used_uuids_def)
    qed
  qed
qed

lemma keeps_owned_RemoveMembership [owned_rules]: "keeps (owned_inv P) (RemoveMembership i v actor u)"
  unfolding keeps_def
proof (intro allI impI)
  fix w assume inv: "owned_inv P w"
  obtain r w' where run: "RemoveMembership i v actor u w = (r, w')" by fastforce
  show "owned_inv P (snd (RemoveMembership i v actor u w))"
  proof (cases r)
    case (Inl e)
    with run inv show ?thesis by (auto dest: RemoveMembership_Inl)
  next
    case (Inr x)
    with run have "RemoveMembership i v actor u w = (Inr (), w')" by simp
    then show ?thesis
    proof (rule RemoveMembership_Inr)
      fix m
      assume m: "m \<in> set (memberships (db w))" "m_id m = i" "m_organizationId m = v"
        and guard: "m_role m = Owner \<Longrightarrow> 1 < count_where (is_active_owner v) (memberships (db w))"
        and w': "w' = w\<lparr>db := (db w)\<lparr>memberships := delete_where (\<lambda>r. m_id r = i) (memberships (db w))\<rparr>\<rparr>"
      note rows = membership_rows_run[OF inv]
      have "has_owner q (delete_where (\<lambda>r. m_id r = i) (memberships (db w)))" if "has_owner q (memberships (db w))" for q
        using has_owner_without[OF that rows m(1)] guard m by (auto simp: has_owner_def)
      with inv w' membership_rows_delete[OF rows] show ?thesis
        by (auto simp: run owned_inv_def used_uuids_def)
    qed
  qed
qed

lemma keeps_owned_AcceptInvite [owned_rules]:
  "inj (random_uuid P) \<Longrightarrow> keeps (owned_inv P) (AcceptInvite P raw u)"
  unfolding AcceptInvite_def by (intro owned_rules keeps_rules owned_inv_ignores)

text \<open>A registration brings an organization and its owner in one transaction.\<close>

lemma register_rows_owner:
  assumes "register_rows P input email username hash w = (Inr (user, org, raw), w')"
  obtains m k where "organizations (db w') = organizations (db w) @ [org]"
    "memberships (db w') = memberships (db w) @ [m]" "is_active_owner (org_id org) m"
    "m_id m = random_uuid P k" "tick w \<le> k" "k < tick w'"
    "\<forall>r \<in> set (memberships (db w)). \<not> (m_userId r = m_userId m \<and> m_organizationId r = m_organizationId m)"
proof -
  let ?pub = "case reg_isPublicProfile input of Some b \<Rightarrow> b | None \<Rightarrow> True"
  from assms obtain w1 w2 w3 m t where
    1: "User_create P email username hash ?pub w = (Inr user, w1)" and
    2: "Organization_create P username (register_slug P username (user_id user)) w1 = (Inr org, w2)" and
    3: "Membership_create P (user_id user) (org_id org) Owner (Some Active) w2 = (Inr m, w3)" and
    4: "IssueRefreshToken P (user_id user) None (Some (org_id org)) (reg_userAgent input) (reg_ip input) w3
        = (Inr (raw, t), w')"
    unfolding register_rows_def by (auto elim!: bind_InrE andThen_InrE)
  note u = User_create_Inr[OF 1] and o' = Organization_create_Inr[OF 2] and m = Membership_create_Inr[OF 3]
  obtain k1 where w1: "w1 = w\<lparr>tick := k1 + tick w, db := (db w)\<lparr>users := users (db w) @ [user]\<rparr>\<rparr>"
    using u(10) by blast
  obtain k2 where w2: "w2 = w1\<lparr>tick := k2 + tick w1, db := (db w1)\<lparr>organizations := organizations (db w1) @ [org]\<rparr>\<rparr>"
    using o'(6) by blast
  obtain k3 where w3: "w3 = w2\<lparr>tick := k3 + tick w2, db := (db w2)\<lparr>memberships := memberships (db w2) @ [m]\<rparr>\<rparr>"
    using m(7) by blast
  have t3: "tick w3 = Suc (Suc (tick w2))"
    using 3 by (auto simp: Membership_create_def run_bind run_andThen Let_def split: if_splits)
  have "keeps (\<lambda>x. organizations (db x) = organizations (db w3) \<and> memberships (db x) = memberships (db w3) \<and>
      tick w3 \<le> tick x) (IssueRefreshToken P (user_id user) None (Some (org_id org)) (reg_userAgent input) (reg_ip input))"
    by (rule keeps_IssueRefreshToken) (simp_all add: ignores_defs)
  from keepsD'[OF this 4] have 5: "organizations (db w') = organizations (db w3)"
    "memberships (db w') = memberships (db w3)" "tick w3 \<le> tick w'" by simp_all
  show ?thesis
    by (rule that[of m "Suc (tick w2)"]) (use 5 t3 m in \<open>simp_all add: w1 w2 w3 is_active_owner_def\<close>)
qed

lemma keeps_owned_RegisterUser [owned_rules]:
  assumes "inj (random_uuid P)"
  shows "keeps (owned_inv P) (RegisterUser P input)"
  unfolding keeps_def
proof (intro allI impI)
  fix w assume inv: "owned_inv P w"
  obtain r w' where run: "RegisterUser P input w = (r, w')" by fastforce
  have "tick w \<le> tick (snd (RegisterUser P input w))"
    by (rule ticks_growD, intro ticks_growI keeps_rules tick_bound_ignores)
  then have later: "tick w \<le> tick w'" by (simp add: run)
  show "owned_inv P (snd (RegisterUser P input w))"
  proof (cases r)
    case (Inl e)
    with run RegisterUser_Inl have "db w' = db w" by blast
    with inv later show ?thesis by (auto simp: run intro: owned_inv_frame)
  next
    case (Inr res)
    from run[unfolded Inr] show ?thesis
    proof (rule RegisterUser_Inr)
      fix hash org w1
      assume rows: "register_rows P input (toLowerCase P (js_trim (reg_email input))) (js_trim (reg_username input)) hash
         (w\<lparr>tick := Suc (tick w)\<rparr>) = (Inr (res_user res, org, res_rawRefreshToken res), w1)"
        and w': "w' = w1\<lparr>tick := Suc (tick w1)\<rparr>"
      from rows show ?thesis
      proof (rule register_rows_owner)
        fix m k
        assume *: "organizations (db w1) = organizations (db (w\<lparr>tick := Suc (tick w)\<rparr>)) @ [org]"
          "memberships (db w1) = memberships (db (w\<lparr>tick := Suc (tick w)\<rparr>)) @ [m]" "is_active_owner (org_id org) m"
          "m_id m = random_uuid P k" "tick (w\<lparr>tick := Suc (tick w)\<rparr>) \<le> k" "k < tick w1"
          "\<forall>r \<in> set (memberships (db (w\<lparr>tick := Suc (tick w)\<rparr>))).
             \<not> (m_userId r = m_userId m \<and> m_organizationId r = m_organizationId m)"
        have "m_id m \<in> used_uuids P w' - used_uuids P w"
          using *(4,5,6) fresh_uuid[OF assms, of w k] by (auto simp: w' used_uuids_def)
        then have "membership_rows (used_uuids P w') (memberships (db w) @ [m])"
          using inv *(7) used_uuids_mono[OF later] by (intro membership_rows_append) (auto simp: owned_inv_def)
        moreover have "has_owner (org_id v) (memberships (db w) @ [m])" if "v \<in> set (organizations (db w1))" for v
          using that inv *(1,3) by (auto simp: owned_inv_def has_owner_def)
        ultimately show ?thesis using *(2) by (simp add: run w' owned_inv_def)
      qed
    qed
  qed
qed

section \<open>Invites\<close>

definition open_invite :: "organization_invite \<Rightarrow> bool" where
  "open_invite i \<longleftrightarrow> inv_acceptedAt i = None"

definition invite_rows :: "platform \<Rightarrow> jstr set \<Rightarrow> organization_invite list \<Rightarrow> bool" where
  "invite_rows P used rows \<longleftrightarrow> distinct (map inv_id rows) \<and> distinct (map inv_tokenHash rows) \<and>
     (\<forall>i \<in> set rows. inv_id i \<in> used) \<and>
     (\<forall>i \<in> set rows. \<forall>j \<in> set rows. open_invite i \<longrightarrow> open_invite j \<longrightarrow>
        inv_organizationId i = inv_organizationId j \<longrightarrow> pg_lower P (inv_email i) = pg_lower P (inv_email j) \<longrightarrow> i = j)"

definition invite_inv :: "platform \<Rightarrow> world \<Rightarrow> bool" where
  "invite_inv P w \<longleftrightarrow> invite_rows P (used_uuids P w) (organization_invites (db w))"

lemma invite_rows_mono: "invite_rows P used rows \<Longrightarrow> used \<subseteq> used' \<Longrightarrow> invite_rows P used' rows"
  by (auto simp: invite_rows_def)

lemma invite_inv_frame:
  "invite_inv P w \<Longrightarrow> organization_invites (db w') = organization_invites (db w) \<Longrightarrow> tick w \<le> tick w' \<Longrightarrow> invite_inv P w'"
  unfolding invite_inv_def by (metis invite_rows_mono used_uuids_mono)

lemma invite_inv_ignores [simp]:
  "ignores_tick (invite_inv P)" "ignores_outbox (invite_inv P)" "ignores_jobs (invite_inv P)"
  "ignores_lockouts (invite_inv P)" "ignores_users (invite_inv P)" "ignores_refresh_tokens (invite_inv P)"
  "ignores_organizations (invite_inv P)" "ignores_memberships (invite_inv P)"
  "ignores_password_reset_tokens (invite_inv P)"
  "ignores_email_verification_tokens (invite_inv P)" "ignores_processed_messages (invite_inv P)"
  "survives_rollback (invite_inv P)"
  by (auto simp: ignores_defs survives_rollback_def intro: invite_inv_frame)

lemma invite_rows_append:
  "invite_rows P used rows \<Longrightarrow> used \<subseteq> used' \<Longrightarrow> inv_id i \<in> used' - used \<Longrightarrow>
   \<forall>r \<in> set rows. inv_tokenHash r \<noteq> inv_tokenHash i \<Longrightarrow>
   \<forall>r \<in> set rows. \<not> pending_in P (inv_organizationId i) (pg_lower P (inv_email i)) r \<Longrightarrow>
   invite_rows P used' (rows @ [i])"
  unfolding invite_rows_def pending_in_def open_invite_def by auto

lemma invite_rows_delete: "invite_rows P used rows \<Longrightarrow> invite_rows P used (delete_where p rows)"
  by (auto simp: invite_rows_def delete_where_def distinct_map_filter)

lemma invite_rows_accept:
  assumes "invite_rows P used rows"
  shows "invite_rows P used (update_where (\<lambda>i. inv_id i = k) (\<lambda>i. i\<lparr>inv_acceptedAt := Some now\<rparr>) rows)"
proof -
  let ?f = "update_where (\<lambda>i. inv_id i = k) (\<lambda>i. i\<lparr>inv_acceptedAt := Some now\<rparr>) rows"
  have "map inv_id ?f = map inv_id rows" "map inv_tokenHash ?f = map inv_tokenHash rows"
    by (simp_all add: map_update_where)
  with assms show ?thesis by (auto simp: invite_rows_def set_update_where open_invite_def)
qed

lemma invite_rows_rehash:
  assumes rows: "invite_rows P used rows" and new: "\<forall>r \<in> set rows. inv_id r \<noteq> k \<longrightarrow> inv_tokenHash r \<noteq> h"
  shows "invite_rows P used (update_where (\<lambda>i. inv_id i = k) (\<lambda>i. i\<lparr>inv_tokenHash := h\<rparr>) rows)"
proof -
  let ?g = "\<lambda>i. if inv_id i = k then i\<lparr>inv_tokenHash := h\<rparr> else i"
  let ?f = "update_where (\<lambda>i. inv_id i = k) (\<lambda>i. i\<lparr>inv_tokenHash := h\<rparr>) rows"
  have ids: "distinct (map inv_id rows)" and hashes: "distinct (map inv_tokenHash rows)"
    using rows by (auto simp: invite_rows_def)
  have "map inv_id ?f = map inv_id rows" by (simp add: map_update_where)
  moreover have "distinct (map inv_tokenHash ?f)"
  proof -
    have "map inv_tokenHash ?f = map (\<lambda>i. inv_tokenHash (?g i)) rows" by (simp add: update_where_def)
    moreover have "inj_on (\<lambda>i. inv_tokenHash (?g i)) (set rows)"
    proof (rule inj_onI)
      fix i j assume "i \<in> set rows" "j \<in> set rows" "inv_tokenHash (?g i) = inv_tokenHash (?g j)"
      then show "i = j" using new unique_key_eq[OF ids] unique_key_eq[OF hashes] by (auto split: if_splits)
    qed
    ultimately show ?thesis using ids by (auto simp: distinct_map)
  qed
  moreover have "\<forall>i \<in> set ?f. \<forall>j \<in> set ?f. open_invite i \<longrightarrow> open_invite j \<longrightarrow>
      inv_organizationId i = inv_organizationId j \<longrightarrow> pg_lower P (inv_email i) = pg_lower P (inv_email j) \<longrightarrow> i = j"
  proof -
    have "?g i = ?g j" if "i \<in> set rows" "j \<in> set rows" "open_invite (?g i)" "open_invite (?g j)"
      "inv_organizationId (?g i) = inv_organizationId (?g j)" "pg_lower P (inv_email (?g i)) = pg_lower P (inv_email (?g j))" for i j
    proof -
      have "open_invite i" "open_invite j" "inv_organizationId i = inv_organizationId j"
        "pg_lower P (inv_email i) = pg_lower P (inv_email j)"
        using that(3-6) by (simp_all add: open_invite_def split: if_splits)
      with rows that(1,2) have "i = j" unfolding invite_rows_def by blast
      then show ?thesis by simp
    qed
    then show ?thesis unfolding set_update_where by blast
  qed
  ultimately show ?thesis using rows ids unfolding invite_rows_def by (auto simp: set_update_where)
qed

named_theorems invite_rules

lemma run_OrganizationInvite_save:
  "OrganizationInvite_save P v email role hash expires w =
     (let new = \<lparr>inv_id = random_uuid P (tick w), inv_organizationId = v, inv_email = email, inv_role = role,
                 inv_tokenHash = hash, inv_expiresAt = expires, inv_acceptedAt = None,
                 inv_createdAt = clock P (Suc (tick w))\<rparr>; w1 = w\<lparr>tick := Suc (Suc (tick w))\<rparr> in
      if \<not> fits 255 email then (Inl (DatabaseError ''organization_invites.email''), w1)
      else if \<not> fits 64 hash then (Inl (DatabaseError ''organization_invites.token_hash''), w1)
      else if \<exists>r \<in> set (organization_invites (db w)). inv_tokenHash r = hash
      then (Inl (UniqueConstraintError ''organization_invites_token_hash_key''), w1)
      else if \<exists>r \<in> set (organization_invites (db w)). pending_in P v (pg_lower P email) r
      then (Inl (AppError PENDING_INVITE_EXISTS_MESSAGE 409), w1)
      else (Inr new, w1\<lparr>db := (db w)\<lparr>organization_invites := organization_invites (db w) @ [new]\<rparr>\<rparr>))"
  by (simp add: OrganizationInvite_save_def Let_def)

lemma OrganizationInvite_save_Inr:
  assumes "OrganizationInvite_save P v email role hash expires w = (Inr i, w')"
  shows "inv_id i = random_uuid P (tick w)" "inv_organizationId i = v" "inv_email i = email" "inv_role i = role"
    "inv_tokenHash i = hash" "inv_expiresAt i = expires" "inv_acceptedAt i = None"
    "\<forall>r \<in> set (organization_invites (db w)). inv_tokenHash r \<noteq> hash"
    "\<forall>r \<in> set (organization_invites (db w)). \<not> pending_in P v (pg_lower P email) r"
    "w' = w\<lparr>tick := Suc (Suc (tick w)), db := (db w)\<lparr>organization_invites := organization_invites (db w) @ [i]\<rparr>\<rparr>"
  using assms unfolding run_OrganizationInvite_save Let_def by (auto split: if_splits)

lemma OrganizationInvite_save_Inl:
  "OrganizationInvite_save P v email role hash expires w = (Inl e, w') \<Longrightarrow> w' = w\<lparr>tick := Suc (Suc (tick w))\<rparr>"
  unfolding run_OrganizationInvite_save Let_def by (auto split: if_splits)

lemma keeps_invite_save [invite_rules]:
  assumes "inj (random_uuid P)"
  shows "keeps (invite_inv P) (OrganizationInvite_save P v email role hash expires)"
  unfolding keeps_def
proof (intro allI impI)
  fix w assume inv: "invite_inv P w"
  obtain r w' where run: "OrganizationInvite_save P v email role hash expires w = (r, w')" by fastforce
  show "invite_inv P (snd (OrganizationInvite_save P v email role hash expires w))"
  proof (cases r)
    case (Inl e)
    with run inv show ?thesis by (auto dest!: OrganizationInvite_save_Inl intro: invite_inv_frame)
  next
    case (Inr i)
    note s = OrganizationInvite_save_Inr[OF run[unfolded Inr]]
    have "inv_id i \<in> used_uuids P w' - used_uuids P w" "used_uuids P w \<subseteq> used_uuids P w'"
      using fresh_uuid[OF assms, of w "tick w"] by (auto simp: s(1,10) used_uuids_def)
    then have "invite_rows P (used_uuids P w') (organization_invites (db w) @ [i])"
      using inv s(8,9) by (intro invite_rows_append) (auto simp: invite_inv_def s(2,3,5))
    then show ?thesis by (simp add: run invite_inv_def s(10))
  qed
qed

lemma keeps_invite_write:
  "(\<And>used rows. invite_rows P used rows \<Longrightarrow> invite_rows P used (f rows)) \<Longrightarrow>
   keeps (invite_inv P) (modifyDb (\<lambda>d. d\<lparr>organization_invites := f (organization_invites d)\<rparr>))"
  by (simp add: keeps_def invite_inv_def used_uuids_def)

lemma keeps_invite_deleteExpired [invite_rules]: "keeps (invite_inv P) (OrganizationInvite_deleteExpired P' e v n)"
  unfolding OrganizationInvite_deleteExpired_def by (intro keeps_invite_write invite_rows_delete)

lemma keeps_invite_deleteById [invite_rules]: "keeps (invite_inv P) (OrganizationInvite_deleteById i)"
  unfolding OrganizationInvite_deleteById_def by (intro keeps_invite_write invite_rows_delete)

lemma keeps_invite_markAccepted [invite_rules]: "keeps (invite_inv P) (OrganizationInvite_markAccepted i n)"
  unfolding OrganizationInvite_markAccepted_def by (intro keeps_invite_write invite_rows_accept)

lemma update_where_none: "\<not> (\<exists>r \<in> set rows. p r) \<Longrightarrow> update_where p f rows = rows"
  by (induction rows) auto

lemma keeps_invite_replaceTokenHash [invite_rules]: "keeps (invite_inv P) (OrganizationInvite_replaceTokenHash i h)"
proof -
  have "invite_rows P used (update_where (\<lambda>r. inv_id r = i) (\<lambda>r. r\<lparr>inv_tokenHash := h\<rparr>) rows)"
    if "invite_rows P used rows"
      "\<not> ((\<exists>r \<in> set rows. inv_id r = i) \<and> (\<exists>r \<in> set rows. inv_id r \<noteq> i \<and> inv_tokenHash r = h))" for used rows
  proof (cases "\<exists>r \<in> set rows. inv_id r = i")
    case True
    with that show ?thesis by (intro invite_rows_rehash) auto
  next
    case False
    with that show ?thesis by (simp add: update_where_none)
  qed
  then show ?thesis
    by (simp add: keeps_def OrganizationInvite_replaceTokenHash_def invite_inv_def used_uuids_def)
qed

lemma keeps_invites_sendFor [invite_rules]: "keeps (invite_inv P) (invite_sendFor P' i n)"
  unfolding invite_sendFor_def by (intro invite_rules keeps_rules invite_inv_ignores)

lemma keeps_invite_executeInTransaction [invite_rules]: "keeps (invite_inv P) (InviteUser_executeInTransaction P' i)"
  unfolding InviteUser_executeInTransaction_def by (intro invite_rules keeps_rules invite_inv_ignores)

lemma keeps_invite_InviteUser_inRequest [invite_rules]:
  "inj (random_uuid P) \<Longrightarrow> keeps (invite_inv P) (InviteUser_inRequest P i e n r h x)"
  unfolding InviteUser_inRequest_def by (intro invite_rules keeps_rules invite_inv_ignores ticks_grow_invite_request)

lemma keeps_invite_InviteUser_queued [invite_rules]:
  "inj (random_uuid P) \<Longrightarrow> keeps (invite_inv P) (InviteUser_queued P i e h x)"
  unfolding InviteUser_queued_def by (intro invite_rules keeps_rules invite_inv_ignores ticks_grow_invite_job)

lemma keeps_invite_InviteUserToOrganization [invite_rules]:
  "inj (random_uuid P) \<Longrightarrow> keeps (invite_inv P) (InviteUserToOrganization P i)"
  unfolding InviteUserToOrganization_def by (intro invite_rules keeps_rules invite_inv_ignores)

lemma keeps_invite_AcceptInvite [invite_rules]: "keeps (invite_inv P) (AcceptInvite P' r u)"
  unfolding AcceptInvite_def by (intro invite_rules keeps_rules invite_inv_ignores)

lemma keeps_invite_SendInviteEmailHandler [invite_rules]: "keeps (invite_inv P) (SendInviteEmailHandler P' b m q)"
  unfolding SendInviteEmailHandler_def by (intro invite_rules keeps_rules invite_inv_ignores ticks_grow_invite_job)

lemma organization_inv_empty: "owned_inv P empty_world" "invite_inv P empty_world"
  by (simp_all add: owned_inv_def invite_inv_def membership_rows_def invite_rows_def empty_world_def empty_database_def)

end
