(* ===== verification/CredentialProperties.thy ===== *)
theory CredentialProperties imports Credentials begin

text \<open>
  What the credential operations do to the users and token tables: the lemmas on saving a user and on
  issuing and using one-time tokens, and the properties they give.
\<close>

section \<open>Saving a user\<close>

lemma find_update_where:
  assumes "List.find (\<lambda>r. key r = k \<and> ok r) rows = Some row" "key new = k" "ok new"
  shows "List.find (\<lambda>r. key r = k \<and> ok r) (update_where (\<lambda>r. key r = k) (\<lambda>_. new) rows) = Some new"
  using assms by (induction rows) (auto split: if_splits)

lemma User_beforeUpdate_hashed:
  "password \<noteq> [] \<Longrightarrow> isBcryptHash password \<Longrightarrow> User_beforeUpdate P stored password = return password"
  by (auto simp: User_beforeUpdate_def)

lemma isBcryptHash_nonempty: "isBcryptHash p \<Longrightarrow> p \<noteq> []"
  by (auto simp: isBcryptHash_def)

lemma User_beforeUpdate_same: "User_beforeUpdate P password password = return password"
  by (simp add: User_beforeUpdate_def)

lemma User_update_Inr:
  assumes "User_update P row next w = (Inr stored, w')"
    and "user_passwordHash next = user_passwordHash row \<or> isBcryptHash (user_passwordHash next)"
  shows "next = row \<and> stored = row \<and> w' = w \<or>
    (let new = next\<lparr>user_updatedAt := clock P (tick w)\<rparr> in
     stored = new \<and> w' = w\<lparr>tick := Suc (tick w), db := (db w)\<lparr>users :=
       update_where (\<lambda>u. user_id u = user_id next) (\<lambda>_. new) (users (db w))\<rparr>\<rparr>)"
proof -
  have hook: "User_beforeUpdate P (user_passwordHash row) (user_passwordHash next) = return (user_passwordHash next)"
    using assms(2) User_beforeUpdate_hashed[OF isBcryptHash_nonempty] User_beforeUpdate_same by metis
  show ?thesis
    using assms(1) by (auto simp: User_update_def hook Let_def checked_def split: if_splits option.splits)
qed

text \<open>A save that succeeds leaves the user with the five attributes given; other users' rows stay.\<close>

lemma User_save_Inr:
  assumes run: "User_save P user w = (Inr stored, w')"
    and pw: "isBcryptHash (user_passwordHash user) \<or>
      (\<exists>row. List.find (\<lambda>u. user_id u = user_id user \<and> live_user u) (users (db w)) = Some row
         \<and> user_passwordHash row = user_passwordHash user)"
  shows "List.find (\<lambda>u. user_id u = user_id user \<and> live_user u) (users (db w')) = Some stored"
    "user_id stored = user_id user" "user_email stored = user_email user"
    "user_username stored = user_username user" "user_passwordHash stored = user_passwordHash user"
    "user_isPublicProfile stored = user_isPublicProfile user"
    "user_emailVerifiedAt stored = user_emailVerifiedAt user"
    "\<forall>r. user_id r \<noteq> user_id user \<longrightarrow> r \<in> set (users (db w')) \<longleftrightarrow> r \<in> set (users (db w))"
    "\<exists>us k. w' = w\<lparr>tick := k, db := (db w)\<lparr>users := us\<rparr>\<rparr>"
    "\<exists>row x. List.find (\<lambda>u. user_id u = user_id user \<and> live_user u) (users (db w)) = Some row \<and>
       stored = row\<lparr>user_email := user_email user, user_username := user_username user,
         user_passwordHash := user_passwordHash user, user_isPublicProfile := user_isPublicProfile user,
         user_emailVerifiedAt := user_emailVerifiedAt user, user_updatedAt := x\<rparr>"
proof -
  obtain row where row: "List.find (\<lambda>u. user_id u = user_id user \<and> live_user u) (users (db w)) = Some row"
    using run by (auto simp: User_save_def User_findById_def run_bind split: option.splits)
  note r = find_SomeD[OF row]
  define n where "n = row\<lparr>user_email := user_email user, user_username := user_username user,
                      user_passwordHash := user_passwordHash user,
                      user_isPublicProfile := user_isPublicProfile user,
                      user_emailVerifiedAt := user_emailVerifiedAt user\<rparr>"
  have eq: "user_id n = user_id user" "user_email n = user_email user" "user_username n = user_username user"
    "user_passwordHash n = user_passwordHash user" "user_isPublicProfile n = user_isPublicProfile user"
    "user_emailVerifiedAt n = user_emailVerifiedAt user" "user_deletedAt n = user_deletedAt row"
    using r by (simp_all add: n_def)
  have "User_update P row n w = (Inr stored, w')"
    using run row by (simp add: User_save_def User_findById_def n_def)
  then have cases: "n = row \<and> stored = row \<and> w' = w \<or>
    (let new = n\<lparr>user_updatedAt := clock P (tick w)\<rparr> in
     stored = new \<and> w' = w\<lparr>tick := Suc (tick w), db := (db w)\<lparr>users :=
       update_where (\<lambda>u. user_id u = user_id n) (\<lambda>_. new) (users (db w))\<rparr>\<rparr>)"
    by (rule User_update_Inr) (use pw row eq in auto)
  let ?new = "n\<lparr>user_updatedAt := clock P (tick w)\<rparr>"
  have find': "List.find (\<lambda>u. user_id u = user_id user \<and> live_user u)
      (update_where (\<lambda>u. user_id u = user_id user) (\<lambda>_. ?new) (users (db w))) = Some ?new"
    using r eq by (intro find_update_where[OF row]) (auto simp: live_user_def)
  show "List.find (\<lambda>u. user_id u = user_id user \<and> live_user u) (users (db w')) = Some stored"
    using cases row find' eq by (auto simp: Let_def)
  show "user_id stored = user_id user" "user_email stored = user_email user"
    "user_username stored = user_username user"
    "user_passwordHash stored = user_passwordHash user" "user_isPublicProfile stored = user_isPublicProfile user"
    "user_emailVerifiedAt stored = user_emailVerifiedAt user"
    using cases eq by (auto simp: Let_def)
  show "\<forall>r. user_id r \<noteq> user_id user \<longrightarrow> r \<in> set (users (db w')) \<longleftrightarrow> r \<in> set (users (db w))"
    using cases eq by (auto simp: set_update_where image_iff Let_def)
  show "\<exists>us k. w' = w\<lparr>tick := k, db := (db w)\<lparr>users := us\<rparr>\<rparr>"
    using cases
  proof (elim disjE conjE)
    assume "w' = w"
    then show ?thesis by (intro exI[of _ "users (db w)"] exI[of _ "tick w"]) simp
  qed (auto simp: Let_def)
  have "\<exists>x. stored = n\<lparr>user_updatedAt := x\<rparr>"
    using cases
  proof (elim disjE conjE)
    assume "n = row" "stored = row"
    then show ?thesis by (intro exI[of _ "user_updatedAt n"]) simp
  qed (auto simp: Let_def)
  then show "\<exists>row x. List.find (\<lambda>u. user_id u = user_id user \<and> live_user u) (users (db w)) = Some row \<and>
       stored = row\<lparr>user_email := user_email user, user_username := user_username user,
         user_passwordHash := user_passwordHash user, user_isPublicProfile := user_isPublicProfile user,
         user_emailVerifiedAt := user_emailVerifiedAt user, user_updatedAt := x\<rparr>"
    using row by (auto simp: n_def)
qed

lemma User_beforeUpdate_db: "User_beforeUpdate P s p w = (r, w') \<Longrightarrow> db w' = db w"
  by (auto simp: User_beforeUpdate_def run_bind split: if_splits)

lemma User_update_Inl: "User_update P row next w = (Inl e, w') \<Longrightarrow> db w' = db w"
  unfolding User_update_def Let_def checked_def
  by (auto elim!: bind_InlE split: if_splits option.splits dest: User_beforeUpdate_db)

lemma User_save_Inl: "User_save P user w = (Inl e, w') \<Longrightarrow> db w' = db w"
  by (auto simp: User_save_def User_findById_def split: option.splits dest: User_update_Inl)

section \<open>One-time tokens\<close>

text \<open>
  The table of one kind of one-time token, as the two repositories keep it: issuing uses up the user's
  earlier tokens and appends one.
\<close>

definition usable_tokens :: "jstr \<Rightarrow> one_time_token list \<Rightarrow> one_time_token list" where
  "usable_tokens userId rows = filter (\<lambda>t. ott_userId t = userId \<and> ott_usedAt t = None) rows"

lemma usable_after_use_all: "usable_tokens userId (use_all_rows userId now rows) = []"
  by (induction rows) (auto simp: usable_tokens_def use_all_rows_def)

lemma use_all_rows_other:
  "userId \<noteq> other \<Longrightarrow> filter (\<lambda>t. ott_userId t = other) (use_all_rows userId now rows) = filter (\<lambda>t. ott_userId t = other) rows"
  by (induction rows) (auto simp: use_all_rows_def)

lemma use_row_used: "\<forall>t \<in> set (use_row i now rows). ott_id t = i \<longrightarrow> ott_usedAt t = Some now"
  by (induction rows) (simp_all add: use_row_def)

lemma build_link_run: "build_link b r w = (x, w') \<Longrightarrow> w' = w"
  by (auto simp: build_link_def split: option.splits)

definition minted_token :: "platform \<Rightarrow> nat \<Rightarrow> jstr \<Rightarrow> jstr \<Rightarrow> int \<Rightarrow> one_time_token" where
  "minted_token P t u h x = \<lparr>ott_id = random_uuid P t, ott_userId = u, ott_tokenHash = h, ott_expiresAt = x,
     ott_usedAt = None, ott_createdAt = clock P (Suc t)\<rparr>"

lemma run_PasswordResetToken_create:
  "PasswordResetToken_create P u h x w =
     (let t = minted_token P (tick w) u h x; w1 = w\<lparr>tick := Suc (Suc (tick w))\<rparr> in
      if \<not> fits 64 h then (Inl (DatabaseError ''password_reset_tokens.token_hash''), w1)
      else if \<exists>r \<in> set (password_reset_tokens (db w)). ott_tokenHash r = h
      then (Inl (UniqueConstraintError ''password_reset_tokens_token_hash_key''), w1)
      else (Inr t, w1\<lparr>db := (db w)\<lparr>password_reset_tokens := password_reset_tokens (db w) @ [t]\<rparr>\<rparr>))"
  by (simp add: PasswordResetToken_create_def new_one_time_token_def minted_token_def Let_def)

lemma PasswordResetToken_create_Inr:
  "PasswordResetToken_create P u h x w = (Inr t, w') \<Longrightarrow>
   t = minted_token P (tick w) u h x \<and>
   w' = w\<lparr>tick := Suc (Suc (tick w)), db := (db w)\<lparr>password_reset_tokens := password_reset_tokens (db w) @ [t]\<rparr>\<rparr>"
  unfolding run_PasswordResetToken_create Let_def by (auto split: if_splits)

lemma run_EmailVerificationToken_save:
  "EmailVerificationToken_save P u h x w =
     (let t = minted_token P (tick w) u h x; w1 = w\<lparr>tick := Suc (Suc (tick w))\<rparr> in
      if \<not> fits 64 h then (Inl (DatabaseError ''email_verification_tokens.token_hash''), w1)
      else if \<exists>r \<in> set (email_verification_tokens (db w)). ott_tokenHash r = h
      then (Inl (UniqueConstraintError ''email_verification_tokens_token_hash_key''), w1)
      else (Inr t, w1\<lparr>db := (db w)\<lparr>email_verification_tokens := email_verification_tokens (db w) @ [t]\<rparr>\<rparr>))"
  by (simp add: EmailVerificationToken_save_def new_one_time_token_def minted_token_def Let_def)

lemma EmailVerificationToken_save_Inr:
  "EmailVerificationToken_save P u h x w = (Inr t, w') \<Longrightarrow>
   t = minted_token P (tick w) u h x \<and>
   w' = w\<lparr>tick := Suc (Suc (tick w)), db := (db w)\<lparr>email_verification_tokens := email_verification_tokens (db w) @ [t]\<rparr>\<rparr>"
  unfolding run_EmailVerificationToken_save Let_def by (auto split: if_splits)

lemma build_link_Inr: "build_link b r w = (Inr link, w') \<Longrightarrow> w' = w \<and> build_link b r = return link"
  by (auto simp: build_link_def split: option.splits)

lemma RequestPasswordReset_issue_Inr:
  assumes "RequestPasswordReset_issue P user w = (Inr message, w')"
  shows "\<exists>link. build_link (reset_url P) (random_base64url P 32 (Suc (tick w))) = return link \<and>
      message = email_to (user_email user) (buildPasswordResetEmail (app_display_name P) link 15)"
    "w' = w\<lparr>tick := tick w + 4, db := (db w)\<lparr>password_reset_tokens :=
        use_all_rows (user_id user) (clock P (tick w)) (password_reset_tokens (db w)) @
        [minted_token P (tick w + 2) (user_id user) (sha256_hex P (random_base64url P 32 (Suc (tick w))))
           (clock P (tick w) + 900000)]\<rparr>\<rparr>"
  using assms unfolding RequestPasswordReset_issue_def PasswordResetToken_invalidateAllForUser_def
  by (auto elim!: bind_InrE andThen_InrE dest!: PasswordResetToken_create_Inr build_link_Inr
      simp: RESET_TOKEN_TTL_MINUTES_def add.commute)

lemma RequestEmailVerification_issue_Inr:
  assumes "RequestEmailVerification_issue P userId w = (Inr (Some message), w')"
  obtains u where
    "List.find (\<lambda>u. user_id u = userId \<and> live_user u) (users (db w)) = Some u" "user_emailVerifiedAt u = None"
    "mail_to message = user_email u"
    "w' = w\<lparr>tick := tick w + 4, db := (db w)\<lparr>email_verification_tokens :=
        use_all_rows userId (clock P (tick w)) (email_verification_tokens (db w)) @
        [minted_token P (tick w + 2) userId (sha256_hex P (random_base64url P 32 (Suc (tick w))))
           (clock P (tick w) + int (verification_ttl_sec P) * 1000)]\<rparr>\<rparr>"
proof -
  from assms obtain u where u: "List.find (\<lambda>u. user_id u = userId \<and> live_user u) (users (db w)) = Some u"
    and v: "user_emailVerifiedAt u = None"
    by (auto simp: RequestEmailVerification_issue_def User_findById_def split: option.splits if_splits)
  moreover have "user_id u = userId" using u by (auto dest: find_SomeD)
  ultimately show ?thesis
    using assms that unfolding RequestEmailVerification_issue_def User_findById_def
      EmailVerificationToken_revokeAllForUser_def
    by (auto elim!: bind_InrE andThen_InrE dest!: EmailVerificationToken_save_Inr build_link_run
        simp: email_to_def add.commute)
qed

lemma ResetPassword_Inr:
  assumes run: "ResetPassword P token password confirmation w = (Inr (), w')"
    and hash: "\<forall>t p. isBcryptHash (bcrypt_hash P t p)"
  obtains t u stored where
    "password = confirmation"
    "List.find (\<lambda>t. ott_tokenHash t = sha256_hex P token) (password_reset_tokens (db w)) = Some t"
    "ott_usedAt t = None" "clock P (tick w) < ott_expiresAt t"
    "List.find (\<lambda>u. user_id u = ott_userId t \<and> live_user u) (users (db w)) = Some u"
    "List.find (\<lambda>u. user_id u = ott_userId t \<and> live_user u) (users (db w')) = Some stored"
    "\<exists>x. stored = u\<lparr>user_passwordHash := bcrypt_hash P (Suc (tick w)) password, user_updatedAt := x\<rparr>"
    "\<forall>r. user_id r \<noteq> ott_userId t \<longrightarrow> r \<in> set (users (db w')) \<longleftrightarrow> r \<in> set (users (db w))"
    "db w' = (db w)\<lparr>users := users (db w'),
       password_reset_tokens := use_row (ott_id t) (clock P (tick w)) (password_reset_tokens (db w))\<rparr>"
    "outbox w' = outbox w" "jobs w' = jobs w"
proof -
  from run obtain t u w1 stored where
    pw: "password = confirmation" and
    t: "List.find (\<lambda>t. ott_tokenHash t = sha256_hex P token) (password_reset_tokens (db w)) = Some t" and
    ok: "ott_usedAt t = None" "clock P (tick w) < ott_expiresAt t" and
    u: "List.find (\<lambda>u. user_id u = ott_userId t \<and> live_user u) (users (db w)) = Some u" and
    save: "User_save P (u\<lparr>user_passwordHash := bcrypt_hash P (Suc (tick w)) password,
      user_updatedAt := clock P (Suc (Suc (tick w)))\<rparr>) (w\<lparr>tick := Suc (Suc (Suc (tick w)))\<rparr>) = (Inr stored, w1)" and
    w': "w' = w1\<lparr>db := (db w1)\<lparr>password_reset_tokens := use_row (ott_id t) (clock P (tick w)) (password_reset_tokens (db w1))\<rparr>\<rparr>"
    unfolding ResetPassword_def PasswordResetToken_findByTokenHash_def User_findById_def PasswordHasher_hash_def
      AuthUser_setPasswordHash_def AuthUser_touch_def PasswordResetToken_markUsed_def
    by (auto split: if_splits option.splits elim!: andThen_InrE simp: Token_isUsed_def Token_isExpired_def)
  have uid: "user_id u = ott_userId t" using u by (auto dest: find_SomeD)
  note s = User_save_Inr[OF save, simplified]
  have h: "isBcryptHash (bcrypt_hash P (Suc (tick w)) password)" using hash by simp
  have row: "List.find (\<lambda>u. user_id u = ott_userId t \<and> live_user u) (users (db w1)) = Some stored"
    using s(1)[OF disjI1[OF h]] uid by simp
  have st: "\<exists>x. stored = u\<lparr>user_passwordHash := bcrypt_hash P (Suc (tick w)) password, user_updatedAt := x\<rparr>"
    using s(10)[OF disjI1[OF h]] uid u by auto
  show ?thesis
  proof (rule that[OF pw t ok u])
    show "List.find (\<lambda>u. user_id u = ott_userId t \<and> live_user u) (users (db w')) = Some stored"
      using row by (simp add: w')
    show "\<exists>x. stored = u\<lparr>user_passwordHash := bcrypt_hash P (Suc (tick w)) password, user_updatedAt := x\<rparr>"
      by (rule st)
  qed (use s(8,9)[OF disjI1[OF h]] uid in \<open>auto simp: w'\<close>)
qed

lemma VerifyEmail_Inr:
  assumes run: "VerifyEmail P token w = (Inr (), w')"
  obtains t u stored where
    "List.find (\<lambda>t. ott_tokenHash t = sha256_hex P token) (email_verification_tokens (db w)) = Some t"
    "ott_usedAt t = None" "clock P (tick w) < ott_expiresAt t"
    "List.find (\<lambda>u. user_id u = ott_userId t \<and> live_user u) (users (db w)) = Some u"
    "List.find (\<lambda>u. user_id u = ott_userId t \<and> live_user u) (users (db w')) = Some stored"
    "\<exists>x. stored = u\<lparr>user_emailVerifiedAt := Some (clock P (tick w)), user_updatedAt := x\<rparr>"
    "\<forall>r. user_id r \<noteq> ott_userId t \<longrightarrow> r \<in> set (users (db w')) \<longleftrightarrow> r \<in> set (users (db w))"
    "db w' = (db w)\<lparr>users := users (db w'),
       email_verification_tokens := use_row (ott_id t) (clock P (tick w)) (email_verification_tokens (db w))\<rparr>"
proof -
  from run obtain t u w1 stored where
    t: "List.find (\<lambda>t. ott_tokenHash t = sha256_hex P token) (email_verification_tokens (db w)) = Some t" and
    ok: "ott_usedAt t = None" "clock P (tick w) < ott_expiresAt t" and
    u: "List.find (\<lambda>u. user_id u = ott_userId t \<and> live_user u) (users (db w)) = Some u" and
    save: "User_save P (u\<lparr>user_emailVerifiedAt := Some (clock P (tick w)),
      user_updatedAt := clock P (Suc (tick w))\<rparr>) (w\<lparr>tick := Suc (Suc (tick w))\<rparr>) = (Inr stored, w1)" and
    w': "w' = w1\<lparr>db := (db w1)\<lparr>email_verification_tokens := use_row (ott_id t) (clock P (tick w)) (email_verification_tokens (db w1))\<rparr>\<rparr>"
    unfolding VerifyEmail_def EmailVerificationToken_findByTokenHash_def User_findById_def
      AuthUser_setEmailVerifiedAt_def AuthUser_touch_def EmailVerificationToken_markUsed_def
    by (auto split: if_splits option.splits elim!: andThen_InrE
        simp: Token_isUsed_def Token_isExpired_def EmailVerificationToken_isUsable_def)
  have uid: "user_id u = ott_userId t" using u by (auto dest: find_SomeD)
  note s = User_save_Inr[OF save, simplified]
  have pw: "\<exists>row. List.find (\<lambda>v. user_id v = user_id u \<and> live_user v) (users (db w)) = Some row
     \<and> user_passwordHash row = user_passwordHash u"
    using u uid by simp
  have row: "List.find (\<lambda>u. user_id u = ott_userId t \<and> live_user u) (users (db w1)) = Some stored"
    using s(1)[OF disjI2[OF pw]] uid by simp
  have st: "\<exists>x. stored = u\<lparr>user_emailVerifiedAt := Some (clock P (tick w)), user_updatedAt := x\<rparr>"
    using s(10)[OF disjI2[OF pw]] uid u by auto
  show ?thesis
  proof (rule that[OF t ok u])
    show "List.find (\<lambda>u. user_id u = ott_userId t \<and> live_user u) (users (db w')) = Some stored"
      using row by (simp add: w')
    show "\<exists>x. stored = u\<lparr>user_emailVerifiedAt := Some (clock P (tick w)), user_updatedAt := x\<rparr>"
      by (rule st)
  qed (use s(8,9)[OF disjI2[OF pw]] uid in \<open>auto simp: w'\<close>)
qed

lemma touch_run: "AuthUser_touch P u w = (Inr u', w') \<Longrightarrow>
   u' = u\<lparr>user_updatedAt := clock P (tick w)\<rparr> \<and> w' = w\<lparr>tick := Suc (tick w)\<rparr>"
  by (auto simp: AuthUser_touch_def)

text \<open>Editing a profile in memory keeps the row's identity and its verification stamp.\<close>

lemma UpdateProfile_email_Inr:
  "UpdateProfile_email P input u w = (Inr u', w') \<Longrightarrow>
   user_id u' = user_id u \<and> user_emailVerifiedAt u' = user_emailVerifiedAt u \<and>
   user_passwordHash u' = user_passwordHash u \<and> user_username u' = user_username u \<and> users (db w') = users (db w) \<and>
   user_email u' = (case nonempty (up_email input) of None \<Rightarrow> user_email u
     | Some e \<Rightarrow> if toLowerCase P e = user_email u then user_email u else toLowerCase P (js_trim e))"
  by (auto simp: UpdateProfile_email_def User_existsByEmail_def AuthUser_changeEmail_def Let_def
      split: option.splits if_splits dest!: touch_run)

lemma UpdateProfile_username_Inr:
  "UpdateProfile_username P input u w = (Inr u', w') \<Longrightarrow>
   user_id u' = user_id u \<and> user_emailVerifiedAt u' = user_emailVerifiedAt u \<and>
   user_passwordHash u' = user_passwordHash u \<and> user_email u' = user_email u \<and> users (db w') = users (db w)"
  by (auto simp: UpdateProfile_username_def User_existsByUsername_def AuthUser_changeUsername_def Let_def
      split: option.splits if_splits dest!: touch_run)

lemma UpdateProfile_Inr:
  assumes run: "UpdateProfile P input w = (Inr stored, w')"
    and hash: "\<forall>t p. isBcryptHash (bcrypt_hash P t p)"
  obtains u where
    "List.find (\<lambda>u. user_id u = up_userId input \<and> live_user u) (users (db w)) = Some u"
    "user_id stored = user_id u" "user_emailVerifiedAt stored = user_emailVerifiedAt u"
    "user_email stored = (case nonempty (up_email input) of None \<Rightarrow> user_email u
     | Some e \<Rightarrow> if toLowerCase P e = user_email u then user_email u else toLowerCase P (js_trim e))"
    "List.find (\<lambda>u. user_id u = up_userId input \<and> live_user u) (users (db w')) = Some stored"
proof -
  from run obtain u u1 u2 u3 u4 w1 w2 w3 w4 where
    u: "List.find (\<lambda>u. user_id u = up_userId input \<and> live_user u) (users (db w)) = Some u" and
    1: "UpdateProfile_email P input u w = (Inr u1, w1)" and
    2: "UpdateProfile_username P input u1 w1 = (Inr u2, w2)" and
    3: "(case up_isPublicProfile input of
          Some b \<Rightarrow> AuthUser_togglePublicProfile P b u2 | None \<Rightarrow> return u2) w2 = (Inr u3, w3)" and
    4: "(case nonempty (up_password input) of
          Some password \<Rightarrow> bind (PasswordHasher_hash P password) (\<lambda>h. AuthUser_setPasswordHash P h u3)
        | None \<Rightarrow> return u3) w3 = (Inr u4, w4)" and
    5: "User_save P u4 w4 = (Inr stored, w')"
    unfolding UpdateProfile_def User_findById_def
    by (auto split: if_splits option.splits elim!: bind_InrE)
  have c3: "user_id u3 = user_id u2 \<and> user_emailVerifiedAt u3 = user_emailVerifiedAt u2 \<and>
     user_passwordHash u3 = user_passwordHash u2 \<and> user_email u3 = user_email u2 \<and> users (db w3) = users (db w2)"
    using 3 by (auto simp: AuthUser_togglePublicProfile_def split: option.splits dest!: touch_run)
  have c4: "user_id u4 = user_id u3 \<and> user_emailVerifiedAt u4 = user_emailVerifiedAt u3 \<and>
     (user_passwordHash u4 = user_passwordHash u3 \<or> isBcryptHash (user_passwordHash u4)) \<and>
     user_email u4 = user_email u3 \<and> users (db w4) = users (db w3)"
    using 4 hash by (auto simp: AuthUser_setPasswordHash_def PasswordHasher_hash_def split: option.splits dest!: touch_run)
  note e = UpdateProfile_email_Inr[OF 1] and n = UpdateProfile_username_Inr[OF 2]
  have uid: "user_id u = up_userId input" using u by (auto dest: find_SomeD)
  have pw: "isBcryptHash (user_passwordHash u4) \<or>
      (\<exists>row. List.find (\<lambda>v. user_id v = user_id u4 \<and> live_user v) (users (db w4)) = Some row
         \<and> user_passwordHash row = user_passwordHash u4)"
    using e n c3 c4 u uid by auto
  note s = User_save_Inr[OF 5 pw]
  have "user_id u4 = up_userId input" using e n c3 c4 uid by simp
  with s e n c3 c4 u uid show ?thesis by (intro that[of u]) auto
qed

text \<open>With URL-safe tokens whose hashes are new, issuing a reset email cannot fail.\<close>

definition token_ready :: "platform \<Rightarrow> world \<Rightarrow> bool" where
  "token_ready P w \<longleftrightarrow> (\<forall>t \<ge> tick w.
     (\<forall>c \<in> set (random_base64url P 32 t). base64url_char c) \<and>
     fits 64 (sha256_hex P (random_base64url P 32 t)) \<and>
     (\<forall>r \<in> set (password_reset_tokens (db w)). ott_tokenHash r \<noteq> sha256_hex P (random_base64url P 32 t)))"

lemma token_readyD:
  assumes "token_ready P w" "tick w \<le> t"
  shows "\<forall>c \<in> set (random_base64url P 32 t). base64url_char c"
    "fits 64 (sha256_hex P (random_base64url P 32 t))"
    "\<forall>r \<in> set (password_reset_tokens (db w)). ott_tokenHash r \<noteq> sha256_hex P (random_base64url P 32 t)"
  using assms unfolding token_ready_def by metis+

lemma hashes_use_all: "ott_tokenHash ` set (use_all_rows u n rows) = ott_tokenHash ` set rows"
proof -
  have "map ott_tokenHash (use_all_rows u n rows) = map ott_tokenHash rows"
    by (simp add: use_all_rows_def map_update_where)
  then show ?thesis by (metis list.set_map)
qed

lemma RequestPasswordReset_issue_total:
  assumes "token_ready P w"
  shows "\<exists>message w'. RequestPasswordReset_issue P user w = (Inr message, w')"
proof -
  let ?raw = "random_base64url P 32 (Suc (tick w))"
  let ?w = "w\<lparr>db := (db w)\<lparr>password_reset_tokens :=
      use_all_rows (user_id user) (clock P (tick w)) (password_reset_tokens (db w))\<rparr>, tick := Suc (Suc (tick w))\<rparr>"
  have ready: "\<forall>c \<in> set ?raw. base64url_char c" "fits 64 (sha256_hex P ?raw)"
    "\<forall>r \<in> set (password_reset_tokens (db w)). ott_tokenHash r \<noteq> sha256_hex P ?raw"
    using token_readyD[OF assms le_SucI[OF order_refl]] by blast+
  have link: "build_link (reset_url P) ?raw = return (reset_url P @
      (if 63 \<in> set (reset_url P) then lit ''&'' else lit ''?'') @ lit ''token='' @ ?raw)"
    using encode_base64url[OF ready(1)] by (simp add: build_link_def)
  have new: "\<not> (\<exists>r \<in> set (use_all_rows (user_id user) (clock P (tick w)) (password_reset_tokens (db w))).
      ott_tokenHash r = sha256_hex P ?raw)"
  proof
    assume "\<exists>r \<in> set (use_all_rows (user_id user) (clock P (tick w)) (password_reset_tokens (db w))).
      ott_tokenHash r = sha256_hex P ?raw"
    then have "sha256_hex P ?raw \<in> ott_tokenHash ` set (password_reset_tokens (db w))"
      using hashes_use_all by (metis imageI)
    then show False using ready(3) by auto
  qed
  have "\<exists>t v. PasswordResetToken_create P (user_id user) (sha256_hex P ?raw)
      (clock P (tick w) + int RESET_TOKEN_TTL_MINUTES * 60 * 1000) ?w = (Inr t, v)"
    unfolding run_PasswordResetToken_create Let_def
    using ready(2) new by simp
  then show ?thesis
    by (elim exE) (simp add: RequestPasswordReset_issue_def PasswordResetToken_invalidateAllForUser_def link)
qed

lemma swallow_total: "\<exists>w'. swallow m w = (Inr (), w')"
  by (auto simp: swallow_def run_tryCatch split: prod.splits sum.splits)

lemma try_publish_total: "\<exists>b w'. try_publish P j m w = (Inr b, w')"
  by (auto simp: try_publish_def run_tryCatch split: prod.splits sum.splits)

lemma RequestPasswordReset_total:
  assumes "token_ready P w"
  shows "fst (RequestPasswordReset P email w) = Inr ()"
proof -
  let ?w = "w\<lparr>tick := Suc (tick w)\<rparr>"
  have ready: "token_ready P ?w"
    using assms unfolding token_ready_def by (auto dest: Suc_leD)
  have pub: "fst (bind (try_publish P j m) (\<lambda>b. if b then return () else RequestPasswordReset_sendJobInRequest P u m) v) = Inr ()"
    for j m u v
  proof -
    obtain b v1 where "try_publish P j m v = (Inr b, v1)" using try_publish_total by blast
    moreover obtain v2 where "RequestPasswordReset_sendJobInRequest P u m v1 = (Inr (), v2)"
      using swallow_total unfolding RequestPasswordReset_sendJobInRequest_def by blast
    ultimately show ?thesis by simp
  qed
  have req: "fst (RequestPasswordReset_sendInRequest P u ?w) = Inr ()" for u
  proof -
    obtain message w1 where "RequestPasswordReset_issue P u ?w = (Inr message, w1)"
      using RequestPasswordReset_issue_total[OF ready] by blast
    moreover obtain w2 where "swallow (EmailSender_send P message) w1 = (Inr (), w2)" using swallow_total by blast
    ultimately show ?thesis by (simp add: RequestPasswordReset_sendInRequest_def)
  qed
  show ?thesis
    by (simp add: RequestPasswordReset_def User_findByEmail_def MessageQueue_isEnabled_def req pub split: option.splits)
qed

lemma ResetPassword_Inl: "ResetPassword P token p c w = (Inl e, w') \<Longrightarrow> db w' = db w"
  unfolding ResetPassword_def PasswordResetToken_findByTokenHash_def User_findById_def PasswordHasher_hash_def
    AuthUser_setPasswordHash_def AuthUser_touch_def PasswordResetToken_markUsed_def
  by (auto split: if_splits option.splits elim!: andThen_InlE dest!: User_save_Inl)

lemma VerifyEmail_Inl: "VerifyEmail P token w = (Inl e, w') \<Longrightarrow> db w' = db w"
  unfolding VerifyEmail_def EmailVerificationToken_findByTokenHash_def User_findById_def
    AuthUser_setEmailVerifiedAt_def AuthUser_touch_def EmailVerificationToken_markUsed_def
  by (auto split: if_splits option.splits elim!: andThen_InlE dest!: User_save_Inl)

lemma ResetPassword_used:
  assumes "List.find (\<lambda>t. ott_tokenHash t = sha256_hex P token) (password_reset_tokens (db w)) = Some t"
    and "ott_usedAt t \<noteq> None"
  shows "fst (ResetPassword P token p c w) \<noteq> Inr ()"
  using assms by (auto simp: ResetPassword_def PasswordResetToken_findByTokenHash_def Token_isUsed_def)

lemma find_use_row:
  assumes "List.find (\<lambda>t. ott_tokenHash t = h) rows = Some t"
  shows "List.find (\<lambda>t. ott_tokenHash t = h) (use_row (ott_id t) now rows) = Some (t\<lparr>ott_usedAt := Some now\<rparr>)"
  using assms by (induction rows) (auto simp: use_row_def split: if_splits)

section \<open>Properties\<close>

text \<open>
  Issuing a reset link leaves the user exactly one usable token, the one whose hash the link's raw
  token has, good for fifteen minutes; the tokens of the other users are not touched.
\<close>

theorem reset_issue_single_token:
  assumes "RequestPasswordReset_issue P user w = (Inr message, w')"
  shows "\<exists>t raw link. usable_tokens (user_id user) (password_reset_tokens (db w')) = [t] \<and>
      ott_tokenHash t = sha256_hex P raw \<and> ott_expiresAt t = clock P (tick w) + 15 * 60 * 1000 \<and>
      build_link (reset_url P) raw = return link \<and>
      message = email_to (user_email user) (buildPasswordResetEmail (app_display_name P) link RESET_TOKEN_TTL_MINUTES) \<and>
      (\<forall>other. other \<noteq> user_id user \<longrightarrow>
        filter (\<lambda>t. ott_userId t = other) (password_reset_tokens (db w')) =
        filter (\<lambda>t. ott_userId t = other) (password_reset_tokens (db w)))"
proof -
  let ?raw = "random_base64url P 32 (Suc (tick w))"
  let ?t = "minted_token P (tick w + 2) (user_id user) (sha256_hex P ?raw) (clock P (tick w) + 900000)"
  note r = RequestPasswordReset_issue_Inr[OF assms]
  from r(1) obtain link where link: "build_link (reset_url P) ?raw = return link"
    "message = email_to (user_email user) (buildPasswordResetEmail (app_display_name P) link 15)" by blast
  have "usable_tokens (user_id user) (password_reset_tokens (db w')) = [?t]"
    using usable_after_use_all by (simp add: r(2) usable_tokens_def minted_token_def)
  moreover have "filter (\<lambda>t. ott_userId t = other) (password_reset_tokens (db w')) =
      filter (\<lambda>t. ott_userId t = other) (password_reset_tokens (db w))" if "other \<noteq> user_id user" for other
    using that use_all_rows_other by (simp add: r(2) minted_token_def)
  ultimately show ?thesis
    using link by (intro exI[of _ ?t] exI[of _ ?raw] exI[of _ link])
      (simp add: minted_token_def RESET_TOKEN_TTL_MINUTES_def)
qed

theorem reset_issue_single_token_witness:
  "\<exists>t. usable_tokens (lit ''u'') (password_reset_tokens (db (final (RequestPasswordReset_issue sample_platform sample_user) sample_world))) = [t]"
proof -
  have "succeeds (RequestPasswordReset_issue sample_platform sample_user) sample_world"
    by (simp add: evaluate encode_base64url base64url_char_def is_lower_alnum_def)
  from reset_issue_single_token[OF returned_run[OF this]] show ?thesis
    by (auto simp: sample_user_def)
qed

text \<open>
  Asking for a reset never fails, whatever the address, the mail provider and the broker do: the
  caller cannot learn from the answer whether an account exists. The hypothesis is that the random
  source gives URL-safe tokens whose hashes fit their column and are new.
\<close>

theorem forgot_password_never_fails:
  assumes "token_ready P w"
  shows "fst (RequestPasswordReset P email w) = Inr ()"
  using assms by (rule RequestPasswordReset_total)

theorem forgot_password_never_fails_witness:
  "fst (RequestPasswordReset (sample_platform\<lparr>random_base64url := (\<lambda>n t. lit ''x''),
     mail_result := (\<lambda>t m. Some (ServiceError ''down''))\<rparr>) (lit ''a'') sample_world) = Inr ()"
  by (rule forgot_password_never_fails)
     (simp add: token_ready_def sample_platform_def sample_world_def empty_database_def fits_def lit_def base64url_char_def
      char_length_plain is_high_def is_lower_alnum_def)

text \<open>
  C27. A reset succeeds only with an unused, unexpired token of a live user: it replaces her password
  hash by a hash of the new password (and stamps the row), leaves every other row of the users table, marks
  that token used, and a second reset with it is refused. No other table changes (her sessions stay open),
  no other token is touched, and no mail or job leaves.
\<close>

theorem reset_password_success:
  assumes "ResetPassword P token password confirmation w = (Inr (), w')"
    and "\<forall>t p. isBcryptHash (bcrypt_hash P t p)"
  shows "password = confirmation \<and>
    (\<exists>t \<in> set (password_reset_tokens (db w)). \<exists>u \<in> set (users (db w)). \<exists>x.
      ott_tokenHash t = sha256_hex P token \<and> ott_usedAt t = None \<and> clock P (tick w) < ott_expiresAt t \<and>
      user_id u = ott_userId t \<and> user_deletedAt u = None \<and>
      u\<lparr>user_passwordHash := bcrypt_hash P (Suc (tick w)) password, user_updatedAt := x\<rparr> \<in> set (users (db w')) \<and>
      (\<forall>r. user_id r \<noteq> user_id u \<longrightarrow> r \<in> set (users (db w')) \<longleftrightarrow> r \<in> set (users (db w))) \<and>
      db w' = (db w)\<lparr>users := users (db w'),
        password_reset_tokens := use_row (ott_id t) (clock P (tick w)) (password_reset_tokens (db w))\<rparr>) \<and>
    outbox w' = outbox w \<and> jobs w' = jobs w \<and>
    (\<forall>p c. fst (ResetPassword P token p c w') \<noteq> Inr ())"
  using assms
proof (rule ResetPassword_Inr)
  fix t u stored
  assume pw: "password = confirmation"
    and t: "List.find (\<lambda>t. ott_tokenHash t = sha256_hex P token) (password_reset_tokens (db w)) = Some t"
    and ok: "ott_usedAt t = None" "clock P (tick w) < ott_expiresAt t"
    and u: "List.find (\<lambda>u. user_id u = ott_userId t \<and> live_user u) (users (db w)) = Some u"
    and stored: "List.find (\<lambda>u. user_id u = ott_userId t \<and> live_user u) (users (db w')) = Some stored"
    and st: "\<exists>x. stored = u\<lparr>user_passwordHash := bcrypt_hash P (Suc (tick w)) password, user_updatedAt := x\<rparr>"
    and others: "\<forall>r. user_id r \<noteq> ott_userId t \<longrightarrow> r \<in> set (users (db w')) \<longleftrightarrow> r \<in> set (users (db w))"
    and db: "db w' = (db w)\<lparr>users := users (db w'),
       password_reset_tokens := use_row (ott_id t) (clock P (tick w)) (password_reset_tokens (db w))\<rparr>"
    and out: "outbox w' = outbox w" "jobs w' = jobs w"
  have "password_reset_tokens (db w') = use_row (ott_id t) (clock P (tick w)) (password_reset_tokens (db w))"
    by (subst db) simp
  then have again: "fst (ResetPassword P token p c w') \<noteq> Inr ()" for p c
    using find_use_row[OF t] by (intro ResetPassword_used) auto
  show ?thesis
    using pw again ok others st db out find_SomeD[OF t] find_SomeD[OF u] find_SomeD[OF stored]
    by (intro conjI bexI[of _ t] bexI[of _ u]) (auto simp: live_user_def)
qed

definition sample_reset_token :: one_time_token where
  "sample_reset_token = \<lparr>ott_id = [3], ott_userId = lit ''u'', ott_tokenHash = lit ''k'', ott_expiresAt = 1000,
     ott_usedAt = None, ott_createdAt = 0\<rparr>"

definition sample_credential_world :: world where
  "sample_credential_world = sample_world\<lparr>db := (db sample_world)\<lparr>password_reset_tokens := [sample_reset_token],
     email_verification_tokens := [sample_reset_token]\<rparr>\<rparr>"

theorem reset_password_success_witness:
  "fst (ResetPassword sample_platform (lit ''k'') (lit ''q'') (lit ''q'')
     (final (ResetPassword sample_platform (lit ''k'') (lit ''q'') (lit ''q'')) sample_credential_world)) \<noteq> Inr ()"
proof -
  have "succeeds (ResetPassword sample_platform (lit ''k'') (lit ''q'') (lit ''q'')) sample_credential_world"
    by (simp add: evaluate sample_credential_world_def sample_reset_token_def)
  from reset_password_success[OF unit_run[OF this]] sample_bcrypt
  show ?thesis by blast
qed

text \<open>A reset that is refused, for whatever reason, leaves the database as it was.\<close>

theorem reset_password_failure:
  assumes "ResetPassword P token password confirmation w = (Inl e, w')"
  shows "db w' = db w"
  using assms by (rule ResetPassword_Inl)

theorem reset_password_failure_witness:
  "db (final (ResetPassword sample_platform (lit ''z'') (lit ''q'') (lit ''q'')) sample_credential_world) = db sample_credential_world"
  by (rule reset_password_failure[of sample_platform "lit ''z''" "lit ''q''" "lit ''q''" _
        "DomainError Validation ''Invalid or expired reset token''"])
     (simp add: evaluate sample_credential_world_def sample_reset_token_def)

text \<open>
  Verifying an address succeeds only with a token that is neither used nor expired, of a live user:
  it stamps the user with the time of the call and changes nothing else of her row, leaves the others,
  and marks the token used; a refused verification leaves the database as it was.
\<close>

theorem verify_email_outcome:
  assumes "VerifyEmail P token w = (r, w')"
  shows "case r of
      Inl e \<Rightarrow> db w' = db w
    | Inr _ \<Rightarrow> (\<exists>t u x. t \<in> set (email_verification_tokens (db w)) \<and> u \<in> set (users (db w)) \<and>
        ott_tokenHash t = sha256_hex P token \<and> EmailVerificationToken_isUsable (clock P (tick w)) t \<and>
        user_id u = ott_userId t \<and> user_deletedAt u = None \<and>
        u\<lparr>user_emailVerifiedAt := Some (clock P (tick w)), user_updatedAt := x\<rparr> \<in> set (users (db w')) \<and>
        (\<forall>r. user_id r \<noteq> user_id u \<longrightarrow> r \<in> set (users (db w')) \<longleftrightarrow> r \<in> set (users (db w))) \<and>
        db w' = (db w)\<lparr>users := users (db w'), email_verification_tokens :=
          use_row (ott_id t) (clock P (tick w)) (email_verification_tokens (db w))\<rparr>)"
proof (cases r)
  case (Inl e)
  with assms show ?thesis using VerifyEmail_Inl by simp
next
  case (Inr y)
  with assms have "VerifyEmail P token w = (Inr (), w')" by simp
  then show ?thesis
  proof (rule VerifyEmail_Inr)
    fix t u stored
    assume t: "List.find (\<lambda>t. ott_tokenHash t = sha256_hex P token) (email_verification_tokens (db w)) = Some t"
      and ok: "ott_usedAt t = None" "clock P (tick w) < ott_expiresAt t"
      and u: "List.find (\<lambda>u. user_id u = ott_userId t \<and> live_user u) (users (db w)) = Some u"
      and stored: "List.find (\<lambda>u. user_id u = ott_userId t \<and> live_user u) (users (db w')) = Some stored"
      and st: "\<exists>x. stored = u\<lparr>user_emailVerifiedAt := Some (clock P (tick w)), user_updatedAt := x\<rparr>"
      and others: "\<forall>r. user_id r \<noteq> ott_userId t \<longrightarrow> r \<in> set (users (db w')) \<longleftrightarrow> r \<in> set (users (db w))"
      and db: "db w' = (db w)\<lparr>users := users (db w'),
         email_verification_tokens := use_row (ott_id t) (clock P (tick w)) (email_verification_tokens (db w))\<rparr>"
    from st obtain x where x: "stored = u\<lparr>user_emailVerifiedAt := Some (clock P (tick w)), user_updatedAt := x\<rparr>" ..
    have usable: "EmailVerificationToken_isUsable (clock P (tick w)) t"
      using ok by (simp add: EmailVerificationToken_isUsable_def Token_isUsed_def Token_isExpired_def)
    show ?thesis
      unfolding Inr sum.case
      using usable others db find_SomeD[OF t] find_SomeD[OF u] find_SomeD[OF stored]
      by (intro exI[of _ t] exI[of _ u] exI[of _ x]) (simp add: live_user_def x)
  qed
qed

theorem verify_email_outcome_witness:
  "\<exists>u x. u\<lparr>user_emailVerifiedAt := Some 10, user_updatedAt := x\<rparr>
     \<in> set (users (db (final (VerifyEmail sample_platform (lit ''k'')) sample_credential_world)))"
proof -
  have "succeeds (VerifyEmail sample_platform (lit ''k'')) sample_credential_world"
    by (simp add: evaluate sample_credential_world_def sample_reset_token_def)
  from verify_email_outcome[OF unit_run[OF this]] show ?thesis
    by (auto simp: sample_platform_def sample_credential_world_def sample_world_def)
qed

text \<open>
  Changing the address of a profile does not clear the verification stamp: a user whose old address
  was verified stays verified with an address nobody has proved.
\<close>

theorem email_change_stays_verified:
  assumes "UpdateProfile P input w = (Inr stored, w')"
    and "\<forall>t p. isBcryptHash (bcrypt_hash P t p)"
    and "up_email input = Some email" "email \<noteq> []"
  shows "\<exists>u \<in> set (users (db w)). user_id u = up_userId input \<and>
      user_emailVerifiedAt stored = user_emailVerifiedAt u \<and>
      (toLowerCase P email \<noteq> user_email u \<longrightarrow> user_email stored = toLowerCase P (js_trim email)) \<and>
      List.find (\<lambda>u. user_id u = up_userId input \<and> live_user u) (users (db w')) = Some stored"
  using assms(1,2)
proof (rule UpdateProfile_Inr)
  fix u
  assume u: "List.find (\<lambda>u. user_id u = up_userId input \<and> live_user u) (users (db w)) = Some u"
    and v: "user_emailVerifiedAt stored = user_emailVerifiedAt u"
    and e: "user_email stored = (case nonempty (up_email input) of None \<Rightarrow> user_email u
       | Some e \<Rightarrow> if toLowerCase P e = user_email u then user_email u else toLowerCase P (js_trim e))"
    and s: "List.find (\<lambda>u. user_id u = up_userId input \<and> live_user u) (users (db w')) = Some stored"
  show ?thesis
    using v e s assms(3,4) find_SomeD[OF u] by (intro bexI[of _ u]) (auto simp: nonempty_def)
qed

definition sample_verified_world :: world where
  "sample_verified_world = sample_world\<lparr>db := (db sample_world)\<lparr>users :=
     [sample_user\<lparr>user_emailVerifiedAt := Some 5\<rparr>]\<rparr>\<rparr>"

definition sample_email_change :: update_profile_input where
  "sample_email_change = \<lparr>up_userId = lit ''u'', up_email = Some (lit ''b''), up_username = None,
     up_password = None, up_isPublicProfile = None\<rparr>"

theorem email_change_stays_verified_witness:
  "user_emailVerifiedAt (returned (UpdateProfile sample_platform sample_email_change) sample_verified_world) = Some 5 \<and>
   user_email (returned (UpdateProfile sample_platform sample_email_change) sample_verified_world) = lit ''b''"
proof -
  have "succeeds (UpdateProfile sample_platform sample_email_change) sample_verified_world"
    by (simp add: evaluate sample_verified_world_def sample_email_change_def)
  from email_change_stays_verified[OF returned_run[OF this], of "lit ''b''"] sample_bcrypt
  have "\<exists>u \<in> set (users (db sample_verified_world)).
      user_emailVerifiedAt (returned (UpdateProfile sample_platform sample_email_change) sample_verified_world) = user_emailVerifiedAt u \<and>
      (lit ''b'' \<noteq> user_email u \<longrightarrow>
       user_email (returned (UpdateProfile sample_platform sample_email_change) sample_verified_world) = js_trim (lit ''b''))"
    by (force simp: sample_email_change_def sample_platform_def lit_def)
  moreover have "js_trim (lit ''b'') = lit ''b''" by (rule js_trim_id) (simp add: js_space_def lit_def)
  ultimately show ?thesis
    by (simp add: sample_verified_world_def sample_world_def sample_user_def lit_def)
qed

end
