(* ===== verification/Delivery.thy ===== *)
theory Delivery imports Organizations begin

text \<open>
  Exactly-once effects over at-least-once delivery. The interface is the contract of
  \<open>src/shared/application/messaging/MessageIdempotency.ts\<close>; \<open>runOnce\<close> provides it, and the three job
  handlers rest on it.
\<close>

section \<open>The contract\<close>

text \<open>A queue that delivers the same message again and again: the results in order, and the last state.\<close>

fun deliveries :: "('w, 'a) io list \<Rightarrow> 'w \<Rightarrow> (failure + 'a) list \<times> 'w" where
  "deliveries [] w = ([], w)"
| "deliveries (m # ms) w =
     (fst (m w) # fst (deliveries ms (snd (m w))), snd (deliveries ms (snd (m w))))"

text \<open>
  \<open>effects\<close> is what a rollback does not undo: the mail and the messages already out. A key is processed
  by running the work from a state with the same effects, and a key already recorded does nothing.
\<close>

locale idempotent_store =
  fixes valid :: "'k \<Rightarrow> bool"
    and safe :: "'k \<Rightarrow> ('w, unit) io \<Rightarrow> bool"
    and recorded_key :: "'k \<Rightarrow> 'w \<Rightarrow> bool"
    and effects :: "'w \<Rightarrow> 'e"
    and run :: "'k \<Rightarrow> ('w, unit) io \<Rightarrow> ('w, idempotency_outcome) io"
  assumes run_duplicate: "valid k \<Longrightarrow> recorded_key k w \<Longrightarrow> run k work w = (Inr Duplicate, w)"
    and run_records: "valid k \<Longrightarrow> safe k work \<Longrightarrow> run k work w = (Inr out, w') \<Longrightarrow> recorded_key k w'"
    and run_work: "valid k \<Longrightarrow> \<not> recorded_key k w \<Longrightarrow> \<exists>w0 r w1. effects w0 = effects w \<and> work w0 = (r, w1) \<and>
      fst (run k work w) = (case r of Inl e \<Rightarrow> Inl e | Inr _ \<Rightarrow> Inr Processed) \<and>
      effects (snd (run k work w)) = effects w1"
begin

lemma duplicates_stay:
  "valid k \<Longrightarrow> recorded_key k w \<Longrightarrow>
   deliveries (map (run k) works) w = (replicate (length works) (Inr Duplicate), w)"
  by (induction works) (simp_all add: run_duplicate)

lemma processed_once:
  "valid k \<Longrightarrow> \<forall>work \<in> set works. safe k work \<Longrightarrow>
   length (filter (\<lambda>r. r = Inr Processed) (fst (deliveries (map (run k) works) w))) \<le> 1"
proof (induction works arbitrary: w)
  case (Cons work works)
  obtain r w1 where r: "run k work w = (r, w1)" by fastforce
  show ?case
  proof (cases r)
    case (Inl e)
    with r Cons show ?thesis by simp
  next
    case (Inr out)
    with r Cons.prems run_records have "recorded_key k w1" by (metis list.set_intros(1))
    with r Cons.prems(1) Inr duplicates_stay[of k w1 works] show ?thesis by (simp add: filter_empty_conv)
  qed
qed simp

lemma effects_once:
  assumes "valid k" "safe k work"
    and ok: "\<And>w0 w1 x. work w0 = (Inr x, w1) \<Longrightarrow> E (effects w0) (effects w1)"
    and bad: "\<And>w0 w1 e. work w0 = (Inl e, w1) \<Longrightarrow> effects w1 = effects w0"
  shows "effects (snd (deliveries (replicate n (run k work)) w)) = effects w \<or>
    E (effects w) (effects (snd (deliveries (replicate n (run k work)) w)))"
proof (induction n arbitrary: w)
  case (Suc n)
  obtain r w1 where r: "run k work w = (r, w1)" by fastforce
  show ?case
  proof (cases "recorded_key k w")
    case True
    then show ?thesis using Suc.IH run_duplicate[OF assms(1), of w work] by simp
  next
    case False
    from run_work[OF assms(1) False, of work] obtain w0 s w2 where
      s: "effects w0 = effects w" "work w0 = (s, w2)" "effects w1 = effects w2"
        "r = (case s of Inl e \<Rightarrow> Inl e | Inr _ \<Rightarrow> Inr Processed)" using r by auto
    show ?thesis
    proof (cases s)
      case (Inl e)
      with s bad have "effects w1 = effects w" by metis
      with Suc.IH[of w1] r show ?thesis by simp
    next
      case (Inr x)
      with s r have "recorded_key k w1" using run_records[OF assms(1,2)] by auto
      then have "snd (deliveries (replicate n (run k work)) w1) = w1"
        using duplicates_stay[OF assms(1), of w1 "replicate n work"] by simp
      with s ok Inr r show ?thesis by (metis deliveries.simps(2) replicate_Suc snd_conv)
    qed
  qed
qed simp

end

interpretation message_store: idempotent_store "\<lambda>(m, q). usable_message_id (Some m)"
  "\<lambda>(m, q) work. keeps (recorded m q) work" "\<lambda>(m, q). recorded m q" "outbox"
  "\<lambda>(m, q). runOnce (Some m) q"
proof unfold_locales
  fix k :: "jstr \<times> jstr" and w :: world and work
  obtain m q where k: "k = (m, q)" by fastforce
  assume valid: "case k of (m, q) \<Rightarrow> usable_message_id (Some m)"
  then have usable: "usable_message_id (Some m)" by (simp add: k)
  show "(case k of (m, q) \<Rightarrow> recorded m q) w \<Longrightarrow> (case k of (m, q) \<Rightarrow> runOnce (Some m) q) work w = (Inr Duplicate, w)"
    using usable by (simp add: k runOnce_recorded)
  show "(case k of (m, q) \<Rightarrow> recorded m q) w'"
    if "(case k of (m, q) \<Rightarrow> keeps (recorded m q)) work" "(case k of (m, q) \<Rightarrow> runOnce (Some m) q) work w = (Inr out, w')" for out w'
    using that usable by (simp add: k runOnce_records)
  assume "\<not> (case k of (m, q) \<Rightarrow> recorded m q) w"
  then have new: "\<not> recorded m q w" by (simp add: k)
  obtain r w1 where r: "work (record_message m q w) = (r, w1)" by fastforce
  show "\<exists>w0 r w1. outbox w0 = outbox w \<and> work w0 = (r, w1) \<and>
      fst ((case k of (m, q) \<Rightarrow> runOnce (Some m) q) work w) = (case r of Inl e \<Rightarrow> Inl e | Inr _ \<Rightarrow> Inr Processed) \<and>
      outbox (snd ((case k of (m, q) \<Rightarrow> runOnce (Some m) q) work w)) = outbox w1"
    using runOnce_new[OF usable new, of work] r
    by (intro exI[of _ "record_message m q w"] exI[of _ r] exI[of _ w1])
       (auto simp: k record_message_def split: sum.splits)
qed

section \<open>Job handlers\<close>

text \<open>A provider of which a failed send is known not to have gone out.\<close>

definition failed_mail_stays :: "platform \<Rightarrow> bool" where
  "failed_mail_stays P \<longleftrightarrow> (\<forall>t m. mail_result P t m \<noteq> None \<longrightarrow> \<not> mail_reaches P t m)"

text \<open>Work that puts at most one email out when it returns, and none when it fails.\<close>

definition mails_once :: "(world, unit) io \<Rightarrow> bool" where
  "mails_once m \<longleftrightarrow> (\<forall>w r w'. m w = (r, w') \<longrightarrow>
     (case r of Inl _ \<Rightarrow> outbox w' = outbox w | Inr _ \<Rightarrow> length (outbox w') \<le> length (outbox w) + 1))"

lemma mails_onceD:
  assumes "mails_once m"
  shows "m w = (Inr x, w') \<Longrightarrow> length (outbox w') \<le> length (outbox w) + 1"
    "m w = (Inl e, w') \<Longrightarrow> outbox w' = outbox w"
  using assms by (fastforce simp: mails_once_def)+

lemma mails_once_send: "failed_mail_stays P \<Longrightarrow> mails_once (EmailSender_send P message)"
  unfolding mails_once_def EmailSender_send_def failed_mail_stays_def
  by (auto simp: run_bind run_andThen split: option.splits if_splits sum.splits)

lemma mails_once_return: "mails_once (return ())"
  by (simp add: mails_once_def)

lemma mails_once_bind:
  assumes "\<And>b. keeps (\<lambda>w. outbox w = b) m" "\<And>x. mails_once (f x)"
  shows "mails_once (bind m f)"
  unfolding mails_once_def
proof (intro allI impI)
  fix w r w' assume run: "bind m f w = (r, w')"
  obtain s w1 where s: "m w = (s, w1)" by fastforce
  have "outbox w1 = outbox w" using keepsD'[OF assms(1) s] by blast
  show "case r of Inl _ \<Rightarrow> outbox w' = outbox w | Inr _ \<Rightarrow> length (outbox w') \<le> length (outbox w) + 1"
  proof (cases s)
    case (Inl e)
    with s run \<open>outbox w1 = outbox w\<close> show ?thesis by auto
  next
    case (Inr x)
    with s run have "f x w1 = (r, w')" by simp
    with assms(2)[of x] have "case r of Inl _ \<Rightarrow> outbox w' = outbox w1 | Inr _ \<Rightarrow> length (outbox w') \<le> length (outbox w1) + 1"
      unfolding mails_once_def by blast
    with \<open>outbox w1 = outbox w\<close> show ?thesis by (cases r) simp_all
  qed
qed

lemma mails_once_andThen:
  "(\<And>b. keeps (\<lambda>w. outbox w = b) m) \<Longrightarrow> mails_once n \<Longrightarrow> mails_once (andThen m n)"
  unfolding andThen_def by (rule mails_once_bind)

lemma outbox_ignores [simp]:
  "ignores_tick (\<lambda>w. outbox w = b)" "ignores_jobs (\<lambda>w. outbox w = b)"
  "ignores_lockouts (\<lambda>w. outbox w = b)" "ignores_users (\<lambda>w. outbox w = b)" "ignores_organizations (\<lambda>w. outbox w = b)"
  "ignores_memberships (\<lambda>w. outbox w = b)" "ignores_organization_invites (\<lambda>w. outbox w = b)"
  "ignores_refresh_tokens (\<lambda>w. outbox w = b)" "ignores_password_reset_tokens (\<lambda>w. outbox w = b)"
  "ignores_email_verification_tokens (\<lambda>w. outbox w = b)" "ignores_processed_messages (\<lambda>w. outbox w = b)"
  by (simp_all add: ignores_defs)

lemmas mails_once_rules = mails_once_bind mails_once_andThen mails_once_return mails_once_send

lemma mails_once_reset_job: "failed_mail_stays P \<Longrightarrow> mails_once (RequestPasswordReset_executeInTransaction P u)"
  unfolding RequestPasswordReset_executeInTransaction_def
  by (rule mails_once_bind, intro keeps_rules)
     (auto split: option.splits intro!: mails_once_rules keeps_RequestPasswordReset_issue)

lemma mails_once_verification_job: "failed_mail_stays P \<Longrightarrow> mails_once (RequestEmailVerification_executeInTransaction P u)"
  unfolding RequestEmailVerification_executeInTransaction_def
  by (rule mails_once_bind, intro keeps_rules outbox_ignores)
     (auto split: option.splits intro!: mails_once_rules)

lemma mails_once_invite_sendFor: "failed_mail_stays P \<Longrightarrow> mails_once (invite_sendFor P i n)"
  unfolding invite_sendFor_def
  by (rule mails_once_bind, intro keeps_rules outbox_ignores)
     (auto split: prod.splits intro!: mails_once_rules keeps_OrganizationInvite_replaceTokenHash keeps_invite_message)

lemma mails_once_invite_job: "failed_mail_stays P \<Longrightarrow> mails_once (InviteUser_executeInTransaction P i)"
  unfolding InviteUser_executeInTransaction_def
  by (rule mails_once_bind, intro keeps_rules)
     (auto split: option.splits intro!: mails_once_rules mails_once_invite_sendFor keeps_newDate keeps_Organization_findById)

lemma recorded_processed_jobs:
  "keeps (recorded m q) (RequestPasswordReset_executeInTransaction P u)"
  "keeps (recorded m q) (RequestEmailVerification_executeInTransaction P u)"
  "keeps (recorded m q) (InviteUser_executeInTransaction P i)"
  by (intro keeps_rules recorded_ignores)+

lemma deliveries_state:
  "(\<And>w. snd (m w) = snd (m' w)) \<Longrightarrow> snd (deliveries (replicate n m) w) = snd (deliveries (replicate n m') w)"
  by (induction n arbitrary: w) simp_all

lemma deliveries_idle: "(\<And>w. snd (m w) = w) \<Longrightarrow> snd (deliveries (replicate n m) w) = w"
  by (induction n arbitrary: w) simp_all

lemma job_mails_once:
  assumes "\<And>x. mails_once (work x)" "\<And>x m q. keeps (recorded m q) (work x)"
  shows "length (outbox (snd (deliveries (replicate n (bind (liftEither v) (\<lambda>x. andThen (runOnce messageId q (work x)) (return ())))) w)))
    \<le> length (outbox w) + 1"
proof -
  let ?job = "bind (liftEither v) (\<lambda>x. andThen (runOnce messageId q (work x)) (return ()))"
  show ?thesis
  proof (cases "\<exists>x m. v = Inr x \<and> messageId = Some m \<and> usable_message_id (Some m)")
    case True
    then obtain x m where x: "v = Inr x" "messageId = Some m" "usable_message_id (Some m)" by blast
    have "snd (?job w) = snd (runOnce (Some m) q (work x) w)" for w
      by (simp add: x liftEither_def run_bind run_andThen split: prod.splits sum.splits)
    then have "snd (deliveries (replicate n ?job) w) = snd (deliveries (replicate n (runOnce (Some m) q (work x))) w)"
      by (rule deliveries_state)
    moreover have "outbox (snd (deliveries (replicate n (runOnce (Some m) q (work x))) w)) = outbox w \<or>
        length (outbox (snd (deliveries (replicate n (runOnce (Some m) q (work x))) w))) \<le> length (outbox w) + 1"
      using message_store.effects_once[of "(m, q)" "work x" "\<lambda>a b. length b \<le> length a + 1" n w] x(3) assms(2)
        mails_onceD[OF assms(1)] by auto
    ultimately show ?thesis by auto
  next
    case False
    then have "snd (?job w) = w" for w
      by (cases v; cases messageId) (auto simp: liftEither_def runOnce_def usable_message_id_def)
    then have "snd (deliveries (replicate n ?job) w) = w" by (rule deliveries_idle)
    then show ?thesis by simp
  qed
qed

section \<open>Properties\<close>

text \<open>
  However often a message is delivered, and whatever the work does in each delivery, the work is
  committed at most once; a delivery after that one leaves the state as it is.
\<close>

theorem message_processed_once:
  assumes "\<forall>work \<in> set works. keeps (recorded m q) work"
  shows "length (filter (\<lambda>r. r = Inr Processed) (fst (deliveries (map (runOnce (Some m) q) works) w))) \<le> 1 \<and>
    (\<forall>v w'. v \<in> set works \<and> runOnce (Some m) q v w = (Inr Processed, w') \<longrightarrow>
       (\<forall>n. snd (deliveries (replicate n (runOnce (Some m) q v)) w') = w'))"
proof (cases "usable_message_id (Some m)")
  case True
  have "length (filter (\<lambda>r. r = Inr Processed) (fst (deliveries (map (runOnce (Some m) q) works) w))) \<le> 1"
    using message_store.processed_once[of "(m, q)" works w] True assms by simp
  moreover have "snd (deliveries (replicate n (runOnce (Some m) q v)) w') = w'"
    if "v \<in> set works" "runOnce (Some m) q v w = (Inr Processed, w')" for n v w'
    using message_store.duplicates_stay[of "(m, q)" w' "replicate n v"] True
      runOnce_records[OF True _ that(2)] assms that(1) by simp
  ultimately show ?thesis by blast
next
  case False
  then have bad: "runOnce (Some m) q work w = (Inl InvalidMessageIdError, w)" for work w
    by (simp add: runOnce_def)
  then have "fst (deliveries (map (runOnce (Some m) q) works) w) = replicate (length works) (Inl InvalidMessageIdError)"
    by (induction works) simp_all
  then show ?thesis using bad by simp
qed

theorem message_processed_once_witness:
  "length (filter (\<lambda>r. r = Inr Processed)
     (fst (deliveries (map (runOnce (Some (lit ''m'')) (lit ''q''))
       [throw (ServiceError ''down''), return (), return ()]) sample_world))) \<le> 1"
  using message_processed_once[of "[throw (ServiceError ''down''), return (), return ()]" "lit ''m''" "lit ''q''" sample_world]
  by (simp add: keeps_return keeps_throw del: filter.simps)

text \<open>
  A queued job delivered any number of times, with any message id and any body, sends at most one
  email, when a send the provider reports as failed has not gone out.
\<close>

theorem job_sends_one_email:
  assumes "failed_mail_stays P"
  shows "length (outbox (snd (deliveries (replicate n (SendPasswordResetEmailHandler P body messageId queue)) w))) \<le> length (outbox w) + 1 \<and>
    length (outbox (snd (deliveries (replicate n (SendVerificationEmailHandler P body messageId queue)) w))) \<le> length (outbox w) + 1 \<and>
    length (outbox (snd (deliveries (replicate n (SendInviteEmailHandler P body messageId queue)) w))) \<le> length (outbox w) + 1"
  unfolding SendPasswordResetEmailHandler_def SendVerificationEmailHandler_def SendInviteEmailHandler_def
  by (intro conjI job_mails_once mails_once_reset_job mails_once_verification_job mails_once_invite_job
      recorded_processed_jobs assms)

theorem job_sends_one_email_witness:
  "length (outbox (snd (deliveries (replicate 3 (SendPasswordResetEmailHandler sample_platform
     (BodyObject (\<lambda>_. Some (replicate 8 97 @ [45] @ replicate 4 97 @ [45] @ replicate 4 97 @ [45] @ replicate 4 97 @ [45] @ replicate 12 97)))
     (Some (lit ''m'')) (lit ''q''))) sample_world))) \<le> 1"
proof -
  have "failed_mail_stays sample_platform" by (simp add: failed_mail_stays_def sample_platform_def)
  from job_sends_one_email[OF this, where w = sample_world] show ?thesis by (simp add: sample_world_def)
qed

end
