(* ===== verification/AuthSystem.thy ===== *)
theory AuthSystem imports AuthServer SessionHistory OrganizationInvariant CredentialProperties Delivery begin

text \<open>
  The auth feature as a whole: what holds of every state its requests and jobs can reach, and what no
  later request or job takes back. Each fact is the contract of \<open>kept_by_use_cases\<close> for one predicate,
  interpreted on the model's own operations.
\<close>

section \<open>The invariant\<close>

definition auth_inv :: "platform \<Rightarrow> world \<Rightarrow> bool" where
  "auth_inv P w \<longleftrightarrow> inj (random_uuid P) \<and> session_inv P w \<and> owned_inv P w \<and> invite_inv P w"

text \<open>A predicate that holds only on a platform whose UUIDs are unique.\<close>

lemma keeps_when: "(A \<Longrightarrow> keeps Q m) \<Longrightarrow> keeps (\<lambda>w. A \<and> Q w) m"
  by (auto simp: keeps_def)

lemma ignores_tick_when: "ignores_tick Q \<Longrightarrow> ignores_tick (\<lambda>w. A \<and> Q w)"
  by (simp add: ignores_tick_def)

interpretation sessions_kept: kept_by_use_cases P "\<lambda>w. inj (random_uuid P) \<and> session_inv P w" for P
  by unfold_locales
    (intro keeps_when ignores_tick_when session_rules keeps_rules session_inv_ignores
      | assumption)+

interpretation owners_kept: kept_by_use_cases P "\<lambda>w. inj (random_uuid P) \<and> owned_inv P w" for P
  by unfold_locales
    (intro keeps_when ignores_tick_when owned_rules keeps_rules owned_inv_ignores
      | assumption)+

interpretation invites_kept: kept_by_use_cases P "\<lambda>w. inj (random_uuid P) \<and> invite_inv P w" for P
  by unfold_locales
    (intro keeps_when ignores_tick_when invite_rules keeps_rules invite_inv_ignores
      | assumption)+

interpretation history_kept: kept_by_use_cases P "\<lambda>w. inj (random_uuid P) \<and> past_inv P hs fs w" for P hs fs
  by unfold_locales
    (intro keeps_when ignores_tick_when past_rules keeps_rules past_inv_ignores
      | assumption)+


section \<open>Reset tokens and messages\<close>

text \<open>A reset token that was used stays used, and a message that was recorded stays recorded.\<close>

definition reset_used :: "jstr \<Rightarrow> world \<Rightarrow> bool" where
  "reset_used h w \<longleftrightarrow>
     (\<exists>t. List.find (\<lambda>t. ott_tokenHash t = h) (password_reset_tokens (db w)) = Some t \<and> ott_usedAt t \<noteq> None)"

lemma reset_used_ignores [simp]:
  "ignores_tick (reset_used h)" "ignores_outbox (reset_used h)" "ignores_jobs (reset_used h)"
  "ignores_lockouts (reset_used h)" "ignores_users (reset_used h)" "ignores_organizations (reset_used h)"
  "ignores_memberships (reset_used h)" "ignores_organization_invites (reset_used h)"
  "ignores_refresh_tokens (reset_used h)" "ignores_email_verification_tokens (reset_used h)"
  "ignores_processed_messages (reset_used h)" "survives_rollback (reset_used h)"
  by (simp_all add: ignores_defs survives_rollback_def reset_used_def)

lemma find_update_used:
  assumes "List.find (\<lambda>t. ott_tokenHash t = h) rows = Some t" "ott_usedAt t \<noteq> None"
  shows "\<exists>t. List.find (\<lambda>t. ott_tokenHash t = h) (update_where p (\<lambda>t. t\<lparr>ott_usedAt := Some now\<rparr>) rows) = Some t
     \<and> ott_usedAt t \<noteq> None"
  using assms by (induction rows) (auto split: if_splits)

lemma keeps_reset_markUsed: "keeps (reset_used h) (PasswordResetToken_markUsed i n)"
  unfolding PasswordResetToken_markUsed_def use_row_def
  by (auto simp: keeps_def reset_used_def intro: find_update_used[simplified])

lemma keeps_reset_invalidate: "keeps (reset_used h) (PasswordResetToken_invalidateAllForUser u n)"
  unfolding PasswordResetToken_invalidateAllForUser_def use_all_rows_def
  by (auto simp: keeps_def reset_used_def intro: find_update_used[simplified])

lemma keeps_reset_create: "keeps (reset_used h) (PasswordResetToken_create P u k e)"
  unfolding keeps_def run_PasswordResetToken_create Let_def
  by (auto simp: reset_used_def find_append)

lemmas reset_rules = keeps_reset_markUsed keeps_reset_invalidate keeps_reset_create

lemma keeps_reset_issue: "keeps (reset_used h) (RequestPasswordReset_issue P u)"
  unfolding RequestPasswordReset_issue_def by (intro reset_rules keeps_rules reset_used_ignores)

lemma keeps_reset_job: "keeps (reset_used h) (RequestPasswordReset_executeInTransaction P u)"
  unfolding RequestPasswordReset_executeInTransaction_def
  by (intro keeps_reset_issue keeps_rules reset_used_ignores)

lemma keeps_reset_forgot: "keeps (reset_used h) (RequestPasswordReset P e)"
  unfolding RequestPasswordReset_def RequestPasswordReset_sendInRequest_def RequestPasswordReset_sendJobInRequest_def
  by (intro keeps_reset_issue keeps_reset_job keeps_rules reset_used_ignores ticks_grow_reset_job)

lemma keeps_reset_reset: "keeps (reset_used h) (ResetPassword P t p c)"
  unfolding ResetPassword_def by (intro reset_rules keeps_rules reset_used_ignores)

lemma keeps_reset_handler: "keeps (reset_used h) (SendPasswordResetEmailHandler P b m q)"
  unfolding SendPasswordResetEmailHandler_def
  by (intro keeps_reset_job keeps_rules reset_used_ignores ticks_grow_reset_job)

interpretation resets_kept: kept_by_use_cases P "reset_used h" for P h
  by unfold_locales
    (intro keeps_reset_forgot keeps_reset_reset keeps_reset_handler keeps_rules reset_used_ignores)+


lemma keeps_recorded_create: "keeps (recorded m q) (ProcessedMessage_create m' q')"
  by (auto simp: keeps_def ProcessedMessage_create_def recorded_def run_bind run_andThen Let_def)

lemma keeps_recorded_runOnce:
  "ticks_grow work \<Longrightarrow> keeps (recorded m q) work \<Longrightarrow> keeps (recorded m q) (runOnce m' q' work)"
  unfolding runOnce_def runOnce_transaction_def
  by (intro keeps_recorded_create keeps_rules recorded_ignores ticks_grow_runOnce_transaction[unfolded runOnce_transaction_def])

lemmas recorded_rules = keeps_recorded_runOnce recorded_processed_jobs ticks_grow_reset_job
  ticks_grow_verification_job ticks_grow_invite_job

interpretation records_kept: kept_by_use_cases P "recorded m q" for P m q
  by unfold_locales
    (unfold RequestPasswordReset_def RequestPasswordReset_sendJobInRequest_def ScheduleEmailVerification_def
       InviteUserToOrganization_def InviteUser_queued_def SendPasswordResetEmailHandler_def
       SendVerificationEmailHandler_def SendInviteEmailHandler_def,
     (intro recorded_rules keeps_rules recorded_ignores)+)

section \<open>Reachable states\<close>

lemma keeps_auth_inv:
  "keeps (\<lambda>w. inj (random_uuid P) \<and> session_inv P w) m \<Longrightarrow> keeps (\<lambda>w. inj (random_uuid P) \<and> owned_inv P w) m \<Longrightarrow>
   keeps (\<lambda>w. inj (random_uuid P) \<and> invite_inv P w) m \<Longrightarrow> keeps (auth_inv P) m"
  by (simp add: keeps_def auth_inv_def)

interpretation auth_kept: kept_by_use_cases P "auth_inv P" for P
proof unfold_locales
  show "ignores_tick (auth_inv P)"
    using session_inv_ignores(1)[of P] owned_inv_ignores(1)[of P] invite_inv_ignores(1)[of P]
    by (simp add: ignores_tick_def auth_inv_def)
qed (intro keeps_auth_inv sessions_kept.use_cases owners_kept.use_cases invites_kept.use_cases
    sessions_kept.job_cases owners_kept.job_cases invites_kept.job_cases)+

interpretation auth_system: invariant_system "auth_step P env" "auth_inv P" for P env
  by unfold_locales (rule auth_kept.step_kept)

lemma auth_inv_empty: "inj (random_uuid P) \<Longrightarrow> auth_inv P empty_world"
  by (simp add: auth_inv_def session_inv_empty organization_inv_empty)

text \<open>What is past in one state is past in the other.\<close>

definition past_le :: "platform \<Rightarrow> world \<Rightarrow> world \<Rightarrow> bool" where
  "past_le P w w' \<longleftrightarrow> (\<forall>hs fs. past_inv P hs fs w \<longrightarrow> past_inv P hs fs w') \<and>
     (\<forall>h. reset_used h w \<longrightarrow> reset_used h w') \<and> (\<forall>m q. recorded m q w \<longrightarrow> recorded m q w')"

interpretation auth_history: monotone_system "auth_step P env" "auth_inv P" "past_le P" for P env
proof unfold_locales
  fix w w' assume w: "auth_inv P w" and step: "auth_step P env w w'"
  have uuid: "inj (random_uuid P)" using w by (simp add: auth_inv_def)
  show "past_le P w w'"
    unfolding past_le_def
    using uuid history_kept.step_kept[OF _ step] resets_kept.step_kept[OF _ step] records_kept.step_kept[OF _ step]
    by blast
qed (auto simp: past_le_def)

lemma reached_inv:
  "reaches (auth_step P env) empty_world w \<Longrightarrow> inj (random_uuid P) \<Longrightarrow> auth_inv P w"
  using auth_system.reaches_inv auth_inv_empty by blast

text \<open>The three handlers are one: read the id the body names, and run the work it stands for once.\<close>

lemma once_job_runs:
  assumes "h = bind (liftEither e) (\<lambda>x. andThen (runOnce m queue (work x)) (return ()))"
    and "h w = (Inr (), w')" "\<And>x m' q'. keeps (recorded m' q') (work x)"
  shows "\<exists>work out. (\<forall>m' q'. keeps (recorded m' q') work) \<and> runOnce m queue work w = (Inr out, w') \<and>
     h = andThen (runOnce m queue work) (return ())"
proof -
  from assms(1,2) obtain x out where x: "e = Inr x" and run: "runOnce m queue (work x) w = (Inr out, w')"
    by (auto simp: liftEither_def elim!: bind_InrE andThen_InrE split: sum.splits)
  have "h = andThen (runOnce m queue (work x)) (return ())"
    by (simp add: assms(1) x liftEither_def bind_def)
  with run assms(3) show ?thesis by blast
qed

lemma auth_job_runs:
  assumes "auth_job_handler P k body m queue w = (Inr (), w')"
  shows "\<exists>work out. (\<forall>m' q'. keeps (recorded m' q') work) \<and> runOnce m queue work w = (Inr out, w') \<and>
     auth_job_handler P k body m queue = andThen (runOnce m queue work) (return ())"
proof (cases k)
  case SendPasswordResetEmail
  show ?thesis
    using once_job_runs[OF SendPasswordResetEmailHandler_def, of P body m queue w w'] assms recorded_processed_jobs(1)
    by (simp add: SendPasswordResetEmail)
next
  case SendVerificationEmail
  show ?thesis
    using once_job_runs[OF SendVerificationEmailHandler_def, of P body m queue w w'] assms recorded_processed_jobs(2)
    by (simp add: SendVerificationEmail)
next
  case SendInviteEmail
  show ?thesis
    using once_job_runs[OF SendInviteEmailHandler_def, of P body m queue w w'] assms recorded_processed_jobs(3)
    by (simp add: SendInviteEmail)
qed

lemma auth_job_recorded:
  assumes "auth_job_handler P k body (Some m) queue w = (Inr (), w')"
  shows "usable_message_id (Some m)" "recorded m queue w'"
proof -
  from auth_job_runs[OF assms] obtain work out where
    work: "keeps (recorded m queue) work" "runOnce (Some m) queue work w = (Inr out, w')" by blast
  then show usable: "usable_message_id (Some m)" by (auto simp: runOnce_def split: if_splits)
  show "recorded m queue w'" by (rule runOnce_records[OF usable work])
qed

lemma auth_job_duplicate:
  assumes "auth_job_handler P k body (Some m) queue w = (Inr (), w')" "recorded m queue v"
  shows "auth_job_handler P k body (Some m) queue v = (Inr (), v)"
proof -
  from auth_job_runs[OF assms(1)] obtain work where
    "auth_job_handler P k body (Some m) queue = andThen (runOnce (Some m) queue work) (return ())" by blast
  then show ?thesis using runOnce_recorded[OF auth_job_recorded(1)[OF assms(1)] assms(2)] by simp
qed

text \<open>A state with every kind of row, for the instances: its ids were drawn before tick 10.\<close>

definition sample_system_world :: world where
  "sample_system_world = sample_world\<lparr>db := (db sample_world)\<lparr>memberships := [sample_membership\<lparr>m_id := [4]\<rparr>],
     password_reset_tokens := [sample_reset_token], email_verification_tokens := [sample_reset_token]\<rparr>\<rparr>"

lemma sample_auth_inv: "auth_inv sample_platform sample_system_world"
proof -
  have "session_inv sample_platform sample_system_world"
    by (rule session_inv_frame[OF sample_session_inv]) (simp_all add: sample_system_world_def)
  moreover have "owned_inv sample_platform sample_system_world" "invite_inv sample_platform sample_system_world"
    by (auto simp: owned_inv_def membership_rows_def has_owner_def is_active_owner_def invite_inv_def invite_rows_def
        sample_system_world_def sample_world_def sample_membership_def sample_organization_def empty_database_def
        used_uuids_def sample_platform_def)
  ultimately show ?thesis using sample_uuid_inj by (simp add: auth_inv_def)
qed

end
