(* ===== verification/TrackingSystem.thy ===== *)
theory TrackingSystem imports TrackingServer TrackingIsolation AuthSystem begin

text \<open>
  The whole server: what holds of every state that requests and deliveries of the auth and the tracking
  features reach in any order, and what none of them takes back. Each feature writes its own tables, so
  each invariant survives the other feature.
\<close>

section \<open>The tracking features\<close>

interpretation rows_kept: kept_for_tenants P "tracking_inv P" for P
  by (rule kept_for_tenants.intro) (rule tracking_tenant.tenant_writes_axioms)

text \<open>A predicate of the auth feature's tables alone.\<close>

lemma tenant_writes_elsewhere:
  assumes "\<And>w w'. Q w \<Longrightarrow> auth_tables (db w') = auth_tables (db w) \<Longrightarrow> tick w \<le> tick w' \<Longrightarrow> Q w'"
  shows "tenant_writes P Q u v"
proof -
  have ignores: "ignores_tick Q" "ignores_jobs Q" "ignores_processed_messages Q" "survives_rollback Q"
    "ignores_metrics Q" "ignores_metric_categories Q" "ignores_metric_settings Q" "ignores_metric_logs Q"
    by (auto simp: ignores_defs ignores_tracking_defs survives_rollback_def intro: assms simp: auth_tables_def)
  show ?thesis by unfold_locales (intro keeps_from_keeps ignores keeps_rules)+
qed

lemma auth_frame:
  assumes "auth_tables (db w') = auth_tables (db w)" "tick w \<le> tick w'"
  shows "auth_inv P w \<Longrightarrow> auth_inv P w'" "past_inv P hs fs w \<Longrightarrow> past_inv P hs fs w'" "reset_used h w \<Longrightarrow> reset_used h w'"
  using assms
  by (auto simp: auth_tables_def auth_inv_def reset_used_def
      intro: session_inv_frame owned_inv_frame invite_inv_frame past_inv_frame)

interpretation auth_elsewhere: kept_for_tenants P "auth_inv P" for P
  by (rule kept_for_tenants.intro) (rule tenant_writes_elsewhere, erule (2) auth_frame(1)[rotated 2])

interpretation history_elsewhere: kept_for_tenants P "past_inv P hs fs" for P hs fs
  by (rule kept_for_tenants.intro) (rule tenant_writes_elsewhere, erule (2) auth_frame(2)[rotated 2])

interpretation resets_elsewhere: kept_for_tenants P "reset_used h" for P h
  by (rule kept_for_tenants.intro) (rule tenant_writes_elsewhere, erule (2) auth_frame(3)[rotated 2])

text \<open>The job of the dummy logs records its message; nothing of the features deletes a record.\<close>

lemma recorded_elsewhere [simp]:
  "ignores_metrics (recorded m q)" "ignores_metric_categories (recorded m q)" "ignores_metric_settings (recorded m q)"
  "ignores_metric_logs (recorded m q)"
  by (simp_all add: ignores_tracking_defs recorded_def)

lemma recorded_dummy_logs: "keeps (recorded m q) (forEach is (\<lambda>_. create_dummy_log P k v))"
  by (intro keeps_rules recorded_ignores recorded_elsewhere)

interpretation records_elsewhere: kept_by_tracking P "recorded m q" for P m q
  by unfold_locales
    (unfold GenerateDummyMetricLogsHandler_def,
     (intro keeps_recorded_runOnce ticks_grow_dummy_logs keeps_rules recorded_ignores recorded_elsewhere)+)

section \<open>The server\<close>

definition server_inv :: "platform \<Rightarrow> world \<Rightarrow> bool" where
  "server_inv P w \<longleftrightarrow> auth_inv P w \<and> tracking_inv P w"

interpretation rows_of_auth: kept_by_use_cases P "tracking_inv P" for P
  by unfold_locales (intro keeps_rules tracking_inv_ignores)+

lemma keeps_server_inv: "keeps (auth_inv P) m \<Longrightarrow> keeps (tracking_inv P) m \<Longrightarrow> keeps (server_inv P) m"
  by (simp add: keeps_def server_inv_def)

interpretation server_kept: kept_by_server P "server_inv P" for P
proof unfold_locales
  show "ignores_tick (server_inv P)"
    using auth_kept.tick[of P] rows_of_auth.tick[of P] by (simp add: ignores_tick_def server_inv_def)
qed (intro keeps_server_inv auth_kept.use_cases rows_of_auth.use_cases auth_kept.job_cases rows_of_auth.job_cases
    auth_elsewhere.writers rows_kept.writers auth_elsewhere.dummy_job rows_kept.dummy_job)+

interpretation server: invariant_system "server_step P env" "server_inv P" for P env
  by unfold_locales (rule server_kept.server_kept)

lemma past_le_tracking:
  assumes "\<And>Q. kept_by_tracking P Q \<Longrightarrow> Q w \<Longrightarrow> Q w'"
  shows "past_le P w w'"
  unfolding past_le_def
  using assms[OF history_elsewhere.kept_by_tracking_axioms] assms[OF resets_elsewhere.kept_by_tracking_axioms]
    assms[OF records_elsewhere.kept_by_tracking_axioms] by blast

lemma past_le_refl: "past_le P w w"
  by (simp add: past_le_def)

lemma past_le_trans: "past_le P w w1 \<Longrightarrow> past_le P w1 w2 \<Longrightarrow> past_le P w w2"
  by (simp add: past_le_def)

lemma past_le_step: "auth_inv P w \<Longrightarrow> server_step P env w w' \<Longrightarrow> past_le P w w'"
proof (elim server_stepE)
  assume "auth_inv P w" "auth_step P env w w'"
  then show ?thesis by (rule auth_history.step_le)
next
  fix r assume "w' = snd (tracking_routers P env r w)"
  then show ?thesis by (auto intro: past_le_tracking kept_by_tracking.tracking_kept)
next
  fix body count m queue assume "w' = snd (GenerateDummyMetricLogsHandler P body count m queue w)"
  then show ?thesis by (auto intro: past_le_tracking kept_by_tracking.job_kept)
qed

interpretation auth_on_server: kept_by_server P "auth_inv P" for P
  by (rule kept_by_server.intro) (rule auth_kept.kept_by_use_cases_axioms auth_elsewhere.kept_by_tracking_axioms)+

interpretation server_history: monotone_system "server_step P env" "auth_inv P" "past_le P" for P env
  by unfold_locales (blast intro: auth_on_server.server_kept past_le_step past_le_refl past_le_trans)+

lemma server_inv_empty: "inj (random_uuid P) \<Longrightarrow> server_inv P empty_world"
  by (simp add: server_inv_def auth_inv_empty tracking_inv_empty)

lemma served_inv: "reaches (server_step P env) empty_world w \<Longrightarrow> inj (random_uuid P) \<Longrightarrow> server_inv P w"
  using server.reaches_inv server_inv_empty by blast

lemma served_auth_inv: "reaches (server_step P env) empty_world w \<Longrightarrow> inj (random_uuid P) \<Longrightarrow> auth_inv P w"
  using served_inv by (auto simp: server_inv_def)

lemma sample_server_inv: "server_inv sample_platform sample_system_world"
  using sample_auth_inv
  by (simp add: server_inv_def auth_inv_def tracking_inv_def tracking_rows_def table_defs linked_def id_rows_def unique_keys_def
      sample_system_world_def sample_world_def empty_database_def)

end
