(* ===== verification/TrackingDeletion.thy ===== *)
theory TrackingDeletion imports TrackingSystem begin

text \<open>
  A deleted metric stays deleted: the repository writes only rows it has found live, so no later request
  or job takes the stamp away, and what hangs on the metric is out of reach for good.
\<close>

definition removed :: "jstr \<Rightarrow> world \<Rightarrow> bool" where
  "removed k w \<longleftrightarrow> (\<exists>r \<in> set (metrics (db w)). mt_id r = k \<and> \<not> live_metric r)"

definition gone :: "platform \<Rightarrow> jstr \<Rightarrow> world \<Rightarrow> bool" where
  "gone P k w \<longleftrightarrow> tracking_inv P w \<and> removed k w"

lemma removed_ignores [simp]:
  "ignores_tick (removed k)" "ignores_outbox (removed k)" "ignores_jobs (removed k)"
  "ignores_lockouts (removed k)" "ignores_users (removed k)" "ignores_organizations (removed k)"
  "ignores_memberships (removed k)" "ignores_organization_invites (removed k)"
  "ignores_refresh_tokens (removed k)" "ignores_password_reset_tokens (removed k)"
  "ignores_email_verification_tokens (removed k)" "ignores_processed_messages (removed k)"
  "survives_rollback (removed k)"
  "ignores_metric_categories (removed k)" "ignores_metric_settings (removed k)" "ignores_metric_logs (removed k)"
  by (simp_all add: ignores_defs ignores_tracking_defs survives_rollback_def removed_def)

lemma gone_frame:
  assumes "gone P k w" "metrics (db w') = metrics (db w)" "metric_categories (db w') = metric_categories (db w)"
    and "metric_settings (db w') = metric_settings (db w)" "metric_logs (db w') = metric_logs (db w)" "tick w \<le> tick w'"
  shows "gone P k w'"
  using assms tracking_inv_frame[of P w w'] by (simp add: gone_def removed_def)

lemma gone_ignores:
  "ignores_tick (gone P k)" "ignores_outbox (gone P k)" "ignores_jobs (gone P k)"
  "ignores_lockouts (gone P k)" "ignores_users (gone P k)" "ignores_organizations (gone P k)"
  "ignores_memberships (gone P k)" "ignores_organization_invites (gone P k)"
  "ignores_refresh_tokens (gone P k)" "ignores_password_reset_tokens (gone P k)"
  "ignores_email_verification_tokens (gone P k)" "ignores_processed_messages (gone P k)"
  "survives_rollback (gone P k)"
  unfolding ignores_defs survives_rollback_def by (intro allI impI, erule gone_frame; simp)+

lemma gone_from: "keeps_from R (tracking_inv P) m \<Longrightarrow> keeps (removed k) m \<Longrightarrow> keeps_from R (gone P k) m"
  by (auto simp: keeps_from_def keeps_def gone_def)

lemma gone_keeps: "keeps (tracking_inv P) m \<Longrightarrow> keeps (removed k) m \<Longrightarrow> keeps (gone P k) m"
  by (auto simp: keeps_def gone_def)

text \<open>A write over a live row: the deleted row is another one.\<close>

lemma removed_write:
  assumes "gone P k w" "row \<in> set (metrics (db w))" "live_metric row" "mt_id r = mt_id row"
  shows "removed k (snd (Metric_write P r (w\<lparr>tick := t\<rparr>)))"
proof -
  have ids: "id_rows mt_id (used_uuids P w) (metrics (db w))"
    using assms(1) by (simp add: gone_def tracking_inv_def tracking_rows_def metric_table_def)
  obtain s where s: "s \<in> set (metrics (db w))" "mt_id s = k" "\<not> live_metric s"
    using assms(1) by (auto simp: gone_def removed_def)
  then have "mt_id s \<noteq> mt_id r" using id_rows_eq[OF ids s(1) assms(2)] assms(3,4) by auto
  with s show ?thesis
    by (auto simp: Metric_write_def checked_def run_bind removed_def set_update_where split: option.split)
qed

lemma removed_row:
  assumes "gone P k w"
    and "\<And>row. row \<in> set (metrics (db w)) \<Longrightarrow> mt_id row = i \<Longrightarrow> live_metric row \<Longrightarrow> removed k (snd (f row w))"
  shows "removed k (snd (bind (Metric_row u v i) f w))"
  using assms by (auto simp: Metric_row_def run_bind gone_def split: option.split dest!: find_SomeD)

lemma gone_Metric_save: "mt_userId m = u \<Longrightarrow> keeps_from (change_of u v m) (gone P k) (Metric_save P v m)"
proof (rule keeps_fromI)
  fix w assume u: "mt_userId m = u" and w: "gone P k w" "change_of u v m w"
  have "removed k (snd (Metric_save P v m w))"
    unfolding Metric_save_def
  proof (rule removed_row[OF w(1)])
    fix row assume row: "row \<in> set (metrics (db w))" "mt_id row = mt_id m" "live_metric row"
    let ?next = "row\<lparr>mt_name := mt_name m, mt_description := mt_description m, mt_defaultUnit := mt_defaultUnit m,
           mt_categoryId := mt_categoryId m, mt_originalMetricId := mt_originalMetricId m, mt_isPublic := mt_isPublic m\<rparr>"
    show "removed k (snd ((let next = ?next in if next = row then return (metric.truncate row)
       else bind (newDate P) (\<lambda>now. andThen (Metric_write P (next\<lparr>mt_updatedAt := now\<rparr>))
         (return (metric.truncate (next\<lparr>mt_updatedAt := now\<rparr>))))) w))"
      using removed_write[OF w(1) row(1,3), of "?next\<lparr>mt_updatedAt := clock P (tick w)\<rparr>" "Suc (tick w)"] w(1)
      by (simp add: Let_def gone_def)
  qed
  with u w keeps_fromD[OF inv_Metric_save[of m v P], of w] show "gone P k (snd (Metric_save P v m w))"
    by (simp add: gone_def)
qed

lemma gone_Metric_delete: "keeps (gone P k) (Metric_delete P v m)"
  unfolding keeps_def
proof (intro allI impI)
  fix w assume w: "gone P k w"
  have "removed k (snd (Metric_delete P v m w))"
    unfolding Metric_delete_def
  proof (rule removed_row[OF w])
    fix row assume row: "row \<in> set (metrics (db w))" "mt_id row = mt_id m" "live_metric row"
    show "removed k (snd (bind (newDate P) (\<lambda>now. Metric_write P (row\<lparr>mt_deletedAt := Some now, mt_updatedAt := now\<rparr>)) w))"
      using removed_write[OF w row(1,3), of "row\<lparr>mt_deletedAt := Some (clock P (tick w)), mt_updatedAt := clock P (tick w)\<rparr>"
          "Suc (tick w)"] by simp
  qed
  with w keepsD[OF inv_Metric_delete[of P v m], of w] show "gone P k (snd (Metric_delete P v m w))"
    by (simp add: gone_def)
qed

lemma gone_Metric_create:
  assumes "cm_userId x = u" "cm_organizationId x = v"
  shows "keeps_from (category_of u v (cm_categoryId x)) (gone P k) (Metric_create P x)"
proof (rule gone_from)
  show "keeps (removed k) (Metric_create P x)"
    unfolding Metric_create_def Let_def
    by (intro keeps_bind keeps_randomUUID keeps_newDate keeps_getsDb removed_ignores)
      (auto simp: keeps_def checked_def run_andThen removed_def split: option.split)
qed (use inv_Metric_create[of x] assms in simp)

lemma gone_categories:
  "keeps (gone P k) (Category_create P u v n c i)" "keeps (gone P k) (Category_update P u v j n' c' i')"
  "keeps (gone P k) (Category_delete P u v j)"
  by (rule gone_keeps, fact inv_Category_create inv_Category_update inv_Category_delete, intro keeps_rules removed_ignores)+

lemma gone_settings:
  "cs_organizationId s = v \<Longrightarrow> keeps_from (metric_of u v (cs_metricId s)) (gone P k) (MetricSettings_create P s)"
  "keeps_from R (gone P k) (Settings_save P v ms)" "keeps_from R (gone P k) (Settings_delete v ms)"
proof -
  assume "cs_organizationId s = v"
  then show "keeps_from (metric_of u v (cs_metricId s)) (gone P k) (MetricSettings_create P s)"
    using inv_MetricSettings_create[of u s P] by (intro gone_from keeps_rules removed_ignores) simp
qed (rule keeps_from_keeps, rule gone_keeps, fact inv_Settings_save inv_Settings_delete, intro keeps_rules removed_ignores)+

lemma gone_logs:
  "keeps_from (metric_of u v j) (gone P k) (Log_create P j v nv t d)"
  "keeps_from R (gone P k) (Log_save P v ml)" "keeps_from R (gone P k) (Log_delete v ml)"
  by (rule gone_from, fact inv_Log_create, intro keeps_rules removed_ignores)
    (rule keeps_from_keeps, rule gone_keeps, fact inv_Log_save inv_Log_delete, intro keeps_rules removed_ignores)+

interpretation gone_tenant: tenant_writes P "gone P k" u v for P k u v
  by unfold_locales
    (fact gone_ignores gone_categories gone_settings(2,3) gone_logs | rule gone_Metric_delete
      | (rule gone_Metric_create gone_Metric_save gone_settings; assumption))+

interpretation gone_tracking: kept_for_tenants P "gone P k" for P k
  by (rule kept_for_tenants.intro) (rule gone_tenant.tenant_writes_axioms)

interpretation gone_of_auth: kept_by_use_cases P "gone P k" for P k
  by unfold_locales (intro keeps_rules gone_ignores)+

interpretation gone_server: kept_by_server P "gone P k" for P k
  by (rule kept_by_server.intro) (rule gone_of_auth.kept_by_use_cases_axioms gone_tracking.kept_by_tracking_axioms)+

interpretation gone_stays: invariant_system "server_step P env" "gone P k" for P env k
  by unfold_locales (rule gone_server.server_kept)

text \<open>What the deletion leaves, and what a deleted metric hides.\<close>

lemma Metric_write_row:
  "Metric_write P r w = (Inr (), w') \<Longrightarrow> row \<in> set (metrics (db w)) \<Longrightarrow> mt_id row = mt_id r \<Longrightarrow> r \<in> set (metrics (db w'))"
  by (force simp: Metric_write_def checked_def run_bind set_update_where split: option.splits)

lemma DeleteMetric_gone:
  assumes "DeleteMetric P u v k w = (Inr m, w1)" "tracking_inv P w"
  shows "gone P k w1"
proof -
  have "tracking_inv P w1" by (rule keepsD'[OF rows_kept.delete_metric assms])
  moreover from assms(1) obtain entity w2 where m: "Metric_findOwnedById u v k w = (Inr entity, w2)"
    "Metric_delete P v entity w2 = (Inr (), w1)"
    unfolding DeleteMetric_def by (elim bind_InrE andThen_InrE) simp
  then have "removed k w1"
    using Metric_findOwnedById_reads[OF m(1)] unfolding Metric_delete_def removed_def
    by (elim bind_InrE) (auto dest!: Metric_row_reads Metric_write_row elim!: rev_bexI simp: live_metric_def)
  ultimately show ?thesis by (simp add: gone_def)
qed

lemma gone_not_live: "gone P k w \<Longrightarrow> r \<in> set (metrics (db w)) \<Longrightarrow> mt_id r = k \<Longrightarrow> \<not> live_metric r"
proof -
  assume w: "gone P k w" and r: "r \<in> set (metrics (db w))" "mt_id r = k"
  have "id_rows mt_id (used_uuids P w) (metrics (db w))"
    using w by (simp add: gone_def tracking_inv_def tracking_rows_def metric_table_def)
  with w r show ?thesis by (auto simp: gone_def removed_def dest: id_rows_eq)
qed

lemma gone_not_owned: "gone P k w \<Longrightarrow> \<not> owns_metric (db w) u v k"
  using gone_not_live by (auto simp: owns_metric_def list_ex_iff)

end
