(* ===== verification/TrackingSchemas.thy ===== *)
theory TrackingSchemas imports Tracking begin

text \<open>
  The request schemas of the tracking features: the rules of \<open>src/constants/zod/zod-rules.ts\<close> and the bodies of
  the four \<open>schema.zod.ts\<close>. A body here has values of the JSON types its schema names, and no property the
  schema does not know; the schema's answer is the parsed body, or \<open>None\<close> when it is refused. Dates are sent
  as text. What a schema leaves to a pattern of the zod library (an ISO date-time) is an argument.
\<close>

section \<open>Fields\<close>

definition zUUID :: "jstr \<Rightarrow> jstr option" where
  "zUUID s = (if isUuid s \<and> 49 \<le> s ! 14 \<and> s ! 14 \<le> 53 \<and> s ! 19 \<in> {56, 57, 97, 98, 65, 66} then Some s else None)"

text \<open>The characters are checked before the text is trimmed, its length after.\<close>

definition trimmed_text :: "nat \<Rightarrow> jstr \<Rightarrow> jstr option" where
  "trimmed_text most value =
     (if hasInvalidControlChars value False \<or> hasUnpairedSurrogates value then None
      else if char_length (js_trim value) < 1 \<or> char_length (js_trim value) > most then None
      else Some (js_trim value))"

definition zMetricName :: "jstr \<Rightarrow> jstr option" where
  "zMetricName value = trimmed_text METRIC_NAME_MAX value"

definition zMetricDefaultUnit :: "jstr \<Rightarrow> jstr option" where
  "zMetricDefaultUnit value = trimmed_text METRIC_UNIT_MAX value"

definition zMetricDescription :: "jstr \<Rightarrow> jstr option" where
  "zMetricDescription value =
     (if char_length value > METRIC_DESCRIPTION_MAX then None
      else if hasInvalidControlChars value True \<or> hasUnpairedSurrogates value then None else Some value)"

definition required_text :: "jstr \<Rightarrow> jstr option" where
  "required_text value = (if length value < 1 then None else Some value)"

text \<open>\<open>zGoalValueRequired\<close>, \<open>zAlertThresholds\<close> and \<open>zPositiveFloat\<close>.\<close>

definition positive_number :: "js_number \<Rightarrow> js_number option" where
  "positive_number v = (if isFinite v \<and> js_less (Finite 0) v then Some v else None)"

fun threshold :: "js_number \<Rightarrow> int option" where
  "threshold (Finite q) = (if q = of_int \<lfloor>q\<rfloor> \<and> 0 \<le> q \<and> q \<le> 100 then Some \<lfloor>q\<rfloor> else None)"
| "threshold _ = None"

definition zPositiveFloat :: "js_number \<Rightarrow> js_number option" where
  "zPositiveFloat v = (if isFinite v \<and> \<not> js_less v (Finite 0) \<and> \<not> js_less (Finite METRIC_LOG_VALUE_MAX) v then Some v else None)"

text \<open>A property that may be left out, one that may be null as well, and the date that may be blank.\<close>

definition sent :: "('a \<Rightarrow> 'b option) \<Rightarrow> 'a option \<Rightarrow> 'b option option" where
  "sent f v = (case v of None \<Rightarrow> Some None | Some x \<Rightarrow> map_option Some (f x))"

definition nullable :: "('a \<Rightarrow> 'b option) \<Rightarrow> 'a option \<Rightarrow> 'b option option" where
  "nullable f v = (case v of None \<Rightarrow> Some None | Some x \<Rightarrow> map_option Some (f x))"

definition zDateOptionalNullable :: "platform \<Rightarrow> jstr option option \<Rightarrow> int option option option" where
  "zDateOptionalNullable P v = (case v of
      None \<Rightarrow> Some None
    | Some None \<Rightarrow> Some (Some None)
    | Some (Some s) \<Rightarrow>
        if js_trim s = [] then Some None
        else (case date_parse P s of None \<Rightarrow> None | Some t \<Rightarrow> Some (Some (Some t))))"

section \<open>Metrics\<close>

text \<open>A body of the shape of an update; \<open>metricBody\<close> requires the name and the unit. A description is not null.\<close>

definition metric_fields :: "metric_update \<Rightarrow> metric_update option" where
  "metric_fields b =
     Option.bind (sent (nullable zUUID) (mu_categoryId b)) (\<lambda>category.
     Option.bind (sent (nullable zUUID) (mu_originalMetricId b)) (\<lambda>original.
     Option.bind (sent zMetricName (mu_name b)) (\<lambda>name.
     Option.bind (sent (\<lambda>d. Option.bind d (\<lambda>d. map_option Some (zMetricDescription d))) (mu_description b)) (\<lambda>description.
     Option.bind (sent zMetricDefaultUnit (mu_defaultUnit b)) (\<lambda>unit'.
     Some \<lparr>mu_name = name, mu_description = description, mu_defaultUnit = unit', mu_categoryId = category,
       mu_originalMetricId = original, mu_isPublic = mu_isPublic b\<rparr>)))))"

definition metricBody :: "metric_update \<Rightarrow> create_metric_dto option" where
  "metricBody b =
     Option.bind (metric_fields b) (\<lambda>m.
     Option.bind (mu_name m) (\<lambda>name.
     Option.bind (mu_defaultUnit m) (\<lambda>unit'.
     Some \<lparr>cm_userId = [], cm_organizationId = [], cm_categoryId = Option.bind (mu_categoryId m) id,
       cm_originalMetricId = Option.bind (mu_originalMetricId m) id, cm_name = name,
       cm_description = Option.bind (mu_description m) id, cm_defaultUnit = unit',
       cm_isPublic = given (mu_isPublic m) False\<rparr>)))"

definition metricBodyPartial :: "metric_update \<Rightarrow> metric_update option" where
  "metricBodyPartial b =
     Option.bind (metric_fields b) (\<lambda>update. if update = no_metric_update then None else Some update)"

section \<open>Categories\<close>

definition metricCategoryBody :: "jstr \<Rightarrow> jstr \<Rightarrow> jstr \<Rightarrow> (jstr \<times> jstr \<times> jstr) option" where
  "metricCategoryBody name color icon =
     (case (required_text name, required_text color, required_text icon) of
        (Some n, Some c, Some i) \<Rightarrow> Some (n, c, i) | _ \<Rightarrow> None)"

text \<open>An update may leave any of the three out.\<close>

definition metricCategoryBodyPartial ::
  "jstr option \<Rightarrow> jstr option \<Rightarrow> jstr option \<Rightarrow> (jstr option \<times> jstr option \<times> jstr option) option" where
  "metricCategoryBodyPartial name color icon =
     (case (sent required_text name, sent required_text color, sent required_text icon) of
        (Some n, Some c, Some i) \<Rightarrow> Some (n, c, i) | _ \<Rightarrow> None)"

section \<open>Logs\<close>

definition metricLogBody ::
  "(jstr \<Rightarrow> bool) \<Rightarrow> jstr \<Rightarrow> log_type \<Rightarrow> js_number \<Rightarrow> jstr option \<Rightarrow> create_log_input option" where
  "metricLogBody is_iso metricId type' logValue loggedAt =
     Option.bind (zUUID metricId) (\<lambda>metricId.
     Option.bind (zPositiveFloat logValue) (\<lambda>logValue.
     Option.bind (sent (\<lambda>s. if is_iso s then Some s else None) loggedAt) (\<lambda>loggedAt.
     Some \<lparr>cl_userId = [], cl_organizationId = [], cl_metricId = metricId, cl_logValue = logValue, cl_type = Some type',
       cl_loggedAt = map_option DateText loggedAt\<rparr>)))"

definition metricLogBodyPartial ::
  "(jstr \<Rightarrow> bool) \<Rightarrow> jstr option \<Rightarrow> log_type option \<Rightarrow> js_number option \<Rightarrow> jstr option \<Rightarrow> log_update option" where
  "metricLogBodyPartial is_iso metricId type' logValue loggedAt =
     Option.bind (sent zUUID metricId) (\<lambda>_.
     Option.bind (sent zPositiveFloat logValue) (\<lambda>logValue.
     Option.bind (sent (\<lambda>s. if is_iso s then Some s else None) loggedAt) (\<lambda>loggedAt.
     Some \<lparr>lu_logValue = logValue, lu_type = type', lu_loggedAt = map_option DateText loggedAt\<rparr>)))"

section \<open>Settings\<close>

text \<open>A settings body as sent. An option of the display that is sent is checked and the others defaulted.\<close>

record settings_body =
  sb_metricId :: "jstr option"
  sb_goalEnabled :: "bool option"
  sb_goalType :: "goal_type option option"
  sb_goalValue :: "js_number option option"
  sb_timeFrameEnabled :: "bool option"
  sb_startDate :: "jstr option option"
  sb_deadlineDate :: "jstr option option"
  sb_alertEnabled :: "bool option"
  sb_alertThresholds :: "js_number option option"
  sb_displayOptions :: "display_patch option"

definition empty_settings_body :: settings_body where
  "empty_settings_body = \<lparr>sb_metricId = None, sb_goalEnabled = None, sb_goalType = None, sb_goalValue = None,
     sb_timeFrameEnabled = None, sb_startDate = None, sb_deadlineDate = None, sb_alertEnabled = None,
     sb_alertThresholds = None, sb_displayOptions = None\<rparr>"

definition zDisplayOptionText :: "jstr \<Rightarrow> jstr option" where
  "zDisplayOptionText value =
     (if hasInvalidControlChars value False \<or> hasUnpairedSurrogates value then None else Some value)"

definition display_priority :: "int \<Rightarrow> int option" where
  "display_priority p = (if 1 \<le> p \<and> p \<le> 1000 then Some p else None)"

definition zDisplayOptionsObject :: "display_patch \<Rightarrow> display_options option" where
  "zDisplayOptionsObject d =
     Option.bind (sent display_priority (dp_priority d)) (\<lambda>priority.
     Option.bind (sent zDisplayOptionText (dp_chartType d)) (\<lambda>chartType.
     Option.bind (sent zDisplayOptionText (dp_color d)) (\<lambda>colour.
     Some \<lparr>disp_showOnDashboard = given (dp_showOnDashboard d) True, disp_priority = Some (given priority 1),
       disp_chartType = Some (given chartType (lit ''line'')), disp_color = Some (given colour (lit ''#E897A3''))\<rparr>)))"

text \<open>The union over \<open>goalEnabled\<close>: enabled, a goal is complete; otherwise its parts are each optional and may be null.\<close>

definition goal_body :: "settings_body \<Rightarrow> (goal_type option option \<times> js_number option option) option" where
  "goal_body b =
     (case sent (nullable positive_number) (sb_goalValue b) of
        None \<Rightarrow> None
      | Some v \<Rightarrow>
        if sb_goalEnabled b = Some True \<and> (nullish (sb_goalType b) \<or> nullish v) then None else Some (sb_goalType b, v))"

text \<open>The refinement of both bodies on the time frame: both dates, in order, once they are required.\<close>

definition frame_ok :: "int option option \<Rightarrow> int option option \<Rightarrow> bool" where
  "frame_ok start deadline = (case (start, deadline) of
      (Some (Some s), Some (Some d)) \<Rightarrow> \<not> d \<le> s | _ \<Rightarrow> False)"

definition settingsBody :: "platform \<Rightarrow> settings_body \<Rightarrow> create_settings_input option" where
  "settingsBody P b =
     Option.bind (Option.bind (sb_metricId b) zUUID) (\<lambda>metricId.
     Option.bind (goal_body b) (\<lambda>(goalType, goalValue).
     Option.bind (zDateOptionalNullable P (sb_startDate b)) (\<lambda>start.
     Option.bind (zDateOptionalNullable P (sb_deadlineDate b)) (\<lambda>deadline.
     Option.bind (sent (nullable threshold) (sb_alertThresholds b)) (\<lambda>thresholds.
     Option.bind (sent zDisplayOptionsObject (sb_displayOptions b)) (\<lambda>display.
     if sb_timeFrameEnabled b = Some True \<and> \<not> frame_ok start deadline then None
     else Some \<lparr>csi_userId = [], csi_organizationId = [], csi_metricId = metricId, csi_isActive = None,
       csi_goalEnabled = Some (given (sb_goalEnabled b) False), csi_goalType = Option.bind goalType id,
       csi_goalValue = Option.bind goalValue id, csi_timeFrameEnabled = Some (given (sb_timeFrameEnabled b) False),
       csi_startDate = Option.bind start id, csi_deadlineDate = Option.bind deadline id,
       csi_alertEnabled = Some (given (sb_alertEnabled b) False),
       csi_alertThresholds = given thresholds (Some 80),
       csi_displayOptions = Some (let d = given display default_display in
         \<lparr>dp_showOnDashboard = Some (disp_showOnDashboard d), dp_priority = disp_priority d,
           dp_chartType = disp_chartType d, dp_color = disp_color d\<rparr>)\<rparr>))))))"

text \<open>
  An update: a body without properties is refused, and dates without \<open>timeFrameEnabled\<close> are the dates of a
  frame. The object's keys are those sent, so a date sent blank still counts as one.
\<close>

definition settingsBodyPartial :: "platform \<Rightarrow> settings_body \<Rightarrow> settings_update option" where
  "settingsBodyPartial P b =
     Option.bind (sent zUUID (sb_metricId b)) (\<lambda>_.
     Option.bind (goal_body b) (\<lambda>(goalType, goalValue).
     Option.bind (zDateOptionalNullable P (sb_startDate b)) (\<lambda>start.
     Option.bind (zDateOptionalNullable P (sb_deadlineDate b)) (\<lambda>deadline.
     Option.bind (sent (nullable threshold) (sb_alertThresholds b)) (\<lambda>thresholds.
     Option.bind (sent zDisplayOptionsObject (sb_displayOptions b)) (\<lambda>display.
     if b = empty_settings_body then None
     else if (sb_timeFrameEnabled b = Some True \<or> sb_timeFrameEnabled b = None \<and> (start \<noteq> None \<or> deadline \<noteq> None)) \<and>
        \<not> frame_ok start deadline then None
     else Some \<lparr>su_goalEnabled = sb_goalEnabled b, su_goalType = goalType, su_goalValue = goalValue,
       su_timeFrameEnabled = sb_timeFrameEnabled b, su_startDate = start, su_deadlineDate = deadline,
       su_alertEnabled = sb_alertEnabled b, su_alertThresholds = thresholds, su_displayOptions = display,
       su_isActive = None\<rparr>))))))"

text \<open>\<open>displayOptionsPatch\<close>: texts are trimmed, and one option at least is sent.\<close>

definition displayOptionTextPatch :: "jstr \<Rightarrow> jstr option" where
  "displayOptionTextPatch value =
     (let v = js_trim value in
      if length v < 1 \<or> hasInvalidControlChars v False \<or> hasUnpairedSurrogates v then None else Some v)"

definition displayOptionsPatch :: "display_patch \<Rightarrow> display_patch option" where
  "displayOptionsPatch d =
     Option.bind (sent display_priority (dp_priority d)) (\<lambda>priority.
     Option.bind (sent displayOptionTextPatch (dp_chartType d)) (\<lambda>chartType.
     Option.bind (sent displayOptionTextPatch (dp_color d)) (\<lambda>colour.
     if dp_showOnDashboard d = None \<and> priority = None \<and> chartType = None \<and> colour = None then None
     else Some \<lparr>dp_showOnDashboard = dp_showOnDashboard d, dp_priority = priority, dp_chartType = chartType,
       dp_color = colour\<rparr>)))"

lemmas evaluate_TrackingSchemas [evaluate] =
  zUUID_def trimmed_text_def zMetricName_def zMetricDefaultUnit_def zMetricDescription_def
  required_text_def positive_number_def zPositiveFloat_def sent_def nullable_def
  zDateOptionalNullable_def metric_fields_def metricBody_def metricBodyPartial_def
  metricCategoryBody_def metricCategoryBodyPartial_def metricLogBody_def metricLogBodyPartial_def
  empty_settings_body_def zDisplayOptionText_def display_priority_def zDisplayOptionsObject_def
  goal_body_def frame_ok_def settingsBody_def settingsBodyPartial_def displayOptionTextPatch_def
  displayOptionsPatch_def

end
