(* ===== verification/MetricText.thy ===== *)
theory MetricText imports TrackingSchemas TrackingInvariant begin

text \<open>
  The text of a metric. The request schema and the entity check it each in its own order: the schema
  checks the characters sent and then trims, the entity trims and checks what is left. What either lets
  through is the same kind of text, and every row of \<open>metrics\<close> stays of that kind.
\<close>

section \<open>Trimming and surrogates\<close>

lemma space_plain: "js_space c \<Longrightarrow> \<not> is_high c \<and> \<not> is_low c"
  by (auto simp: js_space_def is_high_def is_low_def)

lemma unpaired_Cons: "\<not> is_high c \<Longrightarrow> \<not> is_low c \<Longrightarrow> hasUnpairedSurrogates (c # s) = hasUnpairedSurrogates s"
  by (cases s) simp_all

lemma unpaired_drop_prefix: "\<not> hasUnpairedSurrogates s \<Longrightarrow> \<not> hasUnpairedSurrogates (dropWhile js_space s)"
  by (induction s) (auto simp: unpaired_Cons space_plain)

lemma unpaired_snoc: "hasUnpairedSurrogates s \<Longrightarrow> \<not> is_low c \<Longrightarrow> hasUnpairedSurrogates (s @ [c])"
  by (induction s rule: hasUnpairedSurrogates.induct) (auto split: if_splits)

lemma unpaired_append: "hasUnpairedSurrogates s \<Longrightarrow> list_all js_space t \<Longrightarrow> hasUnpairedSurrogates (s @ t)"
proof (induction t arbitrary: s)
  case (Cons c t)
  then have "hasUnpairedSurrogates ((s @ [c]) @ t)" using space_plain by (intro Cons.IH unpaired_snoc) auto
  then show ?case by simp
qed simp

lemma unpaired_drop_suffix: "\<not> hasUnpairedSurrogates s \<Longrightarrow> \<not> hasUnpairedSurrogates (rev (dropWhile js_space (rev s)))"
proof -
  have "s = rev (dropWhile js_space (rev s)) @ rev (takeWhile js_space (rev s))"
    by (metis rev_append rev_rev_ident takeWhile_dropWhile_id)
  moreover have "list_all js_space (rev (takeWhile js_space (rev s)))"
    by (auto simp: list_all_iff dest: set_takeWhileD)
  ultimately show "\<not> hasUnpairedSurrogates s \<Longrightarrow> ?thesis" using unpaired_append by metis
qed

lemma set_js_trim: "set (js_trim s) \<subseteq> set s"
  by (auto simp: js_trim_def dest!: set_dropWhileD)

lemma control_subset: "\<not> hasInvalidControlChars s b \<Longrightarrow> set t \<subseteq> set s \<Longrightarrow> \<not> hasInvalidControlChars t b"
  by (auto simp: hasInvalidControlChars_def list_ex_iff)

lemma invalid_js_trim: "\<not> hasInvalidMetricChars s b \<Longrightarrow> \<not> hasInvalidMetricChars (js_trim s) b"
  using control_subset[OF _ set_js_trim] unpaired_drop_suffix[OF unpaired_drop_prefix]
  by (auto simp: hasInvalidMetricChars_def js_trim_def)

section \<open>Well-formed text\<close>

definition label :: "nat \<Rightarrow> jstr \<Rightarrow> bool" where
  "label most s \<longleftrightarrow> js_trim s = s \<and> 1 \<le> char_length s \<and> char_length s \<le> most \<and> \<not> hasInvalidMetricChars s False"

definition remark :: "jstr option \<Rightarrow> bool" where
  "remark d = (case d of None \<Rightarrow> True | Some d \<Rightarrow> char_length d \<le> METRIC_DESCRIPTION_MAX \<and> \<not> hasInvalidMetricChars d True)"

definition well_formed_metric :: "'a metric_scheme \<Rightarrow> bool" where
  "well_formed_metric m \<longleftrightarrow> label METRIC_NAME_MAX (mt_name m) \<and> label METRIC_UNIT_MAX (mt_defaultUnit m) \<and> remark (mt_description m)"

lemma trimmed_text_label: "trimmed_text most s = Some t \<Longrightarrow> label most t"
  using invalid_js_trim[of s False]
  by (auto simp: trimmed_text_def label_def hasInvalidMetricChars_def split: if_splits)

text \<open>What the schema lets a new metric be called.\<close>

lemma sent_Some: "sent f v = Some (Some y) \<longleftrightarrow> (\<exists>x. v = Some x \<and> f x = Some y)"
  by (auto simp: sent_def split: option.splits)

lemma metric_fields_text:
  assumes "metric_fields b = Some m"
  shows "mu_name m = Some n \<Longrightarrow> label METRIC_NAME_MAX n" "mu_defaultUnit m = Some s \<Longrightarrow> label METRIC_UNIT_MAX s"
    "mu_description m = Some d \<Longrightarrow> remark d"
  using assms
  by (auto simp: metric_fields_def bind_eq_Some_conv sent_Some zMetricName_def zMetricDefaultUnit_def zMetricDescription_def
      remark_def hasInvalidMetricChars_def intro: trimmed_text_label split: if_splits option.splits)

lemma metricBody_text:
  "metricBody b = Some x \<Longrightarrow>
   label METRIC_NAME_MAX (cm_name x) \<and> label METRIC_UNIT_MAX (cm_defaultUnit x) \<and> remark (cm_description x)"
  using metric_fields_text[of b]
  by (fastforce simp: metricBody_def bind_eq_Some_conv remark_def split: option.splits)

text \<open>What the entity lets a metric be changed to.\<close>

lemma returns_touch: "R m \<Longrightarrow> (\<And>m n. R m \<Longrightarrow> R (m\<lparr>mt_updatedAt := n\<rparr>)) \<Longrightarrow> returns R (Metric_touch P m)"
  unfolding Metric_touch_def by (rule returns_newDate) simp

lemma Metric_update_text:
  assumes "well_formed_metric m"
  shows "returns well_formed_metric (Metric_update P data m)"
proof -
  have touch: "returns well_formed_metric (Metric_touch P x)" if "well_formed_metric x" for x
    using that by (rule returns_touch) (simp add: well_formed_metric_def)
  have "returns well_formed_metric (Metric_rename P s x)" "returns well_formed_metric (Metric_setDefaultUnit P s x)"
    "returns well_formed_metric (Metric_describe P d x)" "returns well_formed_metric (Metric_moveToCategory P c x)"
    "returns well_formed_metric (Metric_setOriginalMetric P c x)" "returns well_formed_metric (Metric_togglePublic P f x)"
    if "well_formed_metric x" for x s d c f
    using that unfolding Metric_rename_def Metric_setDefaultUnit_def Metric_describe_def Metric_moveToCategory_def
      Metric_setOriginalMetric_def Metric_togglePublic_def Let_def
    by (auto intro!: returns_rules touch simp: well_formed_metric_def label_def remark_def split: option.split)
  with assms show ?thesis
    unfolding Metric_update_def by (intro returns_chain returns_when_given)
qed

section \<open>The rows\<close>

definition well_formed_rows :: "world \<Rightarrow> bool" where
  "well_formed_rows w \<longleftrightarrow> list_all well_formed_metric (metrics (db w))"

lemma text_ignores: "ignores_tick well_formed_rows" "ignores_metric_settings well_formed_rows" "survives_rollback well_formed_rows"
  by (simp_all add: ignores_tick_def ignores_tracking_defs survives_rollback_def well_formed_rows_def)

lemma text_Metric_write: "well_formed_metric r \<Longrightarrow> keeps well_formed_rows (Metric_write P r)"
  unfolding Metric_write_def
  by (intro keeps_bind keeps_getsDb) (auto simp: keeps_def checked_def well_formed_rows_def list_all_iff set_update_where split: option.split)

lemma text_Metric_save: "well_formed_metric m \<Longrightarrow> keeps well_formed_rows (Metric_save P v m)"
  unfolding Metric_save_def Let_def
  by (intro keeps_bind keeps_if keeps_return keeps_andThen keeps_newDate text_ignores text_Metric_write)
    (auto simp: keeps_def well_formed_metric_def Metric_row_def run_bind split: option.split)

lemma row_text: "well_formed_rows w \<Longrightarrow> Metric_row u v k w = (Inr r, w') \<Longrightarrow> well_formed_metric r"
  by (auto simp: well_formed_rows_def list_all_iff dest!: Metric_row_reads)

lemma text_Metric_delete: "keeps well_formed_rows (Metric_delete P v m)"
proof -
  have writing: "keeps well_formed_rows (bind (newDate P) (\<lambda>now. Metric_write P (row\<lparr>mt_deletedAt := Some now, mt_updatedAt := now\<rparr>)))"
    if "well_formed_metric row" for row
    using that by (intro keeps_bind keeps_newDate text_ignores text_Metric_write) (simp add: well_formed_metric_def)
  show ?thesis
    unfolding Metric_delete_def
    by (rule keeps_from_True, rule keeps_from_bind[where S = "\<lambda>row _. well_formed_metric row"],
        intro keeps_from_keeps keeps_Metric_row, erule (1) row_text)
      (use writing in \<open>simp add: keeps_from_def keeps_def\<close>)
qed

lemma text_Metric_create:
  assumes "label METRIC_NAME_MAX (cm_name x)" "label METRIC_UNIT_MAX (cm_defaultUnit x)" "remark (cm_description x)"
  shows "keeps well_formed_rows (Metric_create P x)"
  unfolding Metric_create_def Let_def
  by (intro keeps_bind keeps_randomUUID keeps_newDate keeps_getsDb text_ignores)
    (use assms in \<open>auto simp: keeps_def checked_def run_andThen well_formed_rows_def well_formed_metric_def split: option.split\<close>)

lemma text_CreateMetric:
  assumes "label METRIC_NAME_MAX (cm_name x)" "label METRIC_UNIT_MAX (cm_defaultUnit x)" "remark (cm_description x)"
  shows "keeps well_formed_rows (CreateMetric P x)"
  unfolding CreateMetric_def createDefault_def
  by (intro text_Metric_create[OF assms] ticks_grow_create_metric[unfolded createDefault_def] keeps_rules text_ignores)

lemma text_UpdateMetric: "keeps well_formed_rows (UpdateMetric P u v k data)"
proof -
  have found: "well_formed_metric m" if "well_formed_rows w" "Metric_findOwnedById u v k w = (Inr m, w')" for w m w'
    using Metric_findOwnedById_reads[OF that(2)] that(1)
    by (auto simp: well_formed_rows_def list_all_iff well_formed_metric_def metric.defs)
  have change: "keeps_from (\<lambda>_. well_formed_metric m) well_formed_rows (bind (Metric_update P data m) (Metric_save P v))" for m
    by (rule keeps_from_bind[where S = "\<lambda>x _. well_formed_metric x"])
      (use returnsD[OF Metric_update_text] text_Metric_save in
        \<open>auto simp: keeps_from_def intro: keepsD[OF keeps_Metric_update[OF text_ignores(1)]] keepsD\<close>)
  show ?thesis
    unfolding UpdateMetric_def
    by (rule keeps_from_True, rule keeps_from_bind[where S = "\<lambda>m _. well_formed_metric m"],
        intro keeps_from_keeps keeps_Metric_findOwnedById, erule (1) found)
      (intro keeps_from_read reads_rules keeps_from_if keeps_from_throw keeps_from_weaken[OF change]; simp)
qed

end
