(* ===== verification/OrganizationProperties.thy ===== *)
theory OrganizationProperties imports OrganizationInvariant CredentialProperties begin

text \<open>
  What the member and invite operations do, on every branch: who may change roles and remove members,
  when an invite exists after a failed delivery, and who may accept one.
\<close>

section \<open>Invites\<close>

lemma runOnce_Inl: "runOnce m q work w = (Inl e, w') \<Longrightarrow> db w' = db w"
  by (auto simp: runOnce_def split: if_splits dest: runInTransaction_Inl)

lemma try_publish_db: "try_publish P j m w = (r, w') \<Longrightarrow> db w' = db w"
proof -
  assume run: "try_publish P j m w = (r, w')"
  have "keeps (\<lambda>x. db x = db w) (try_publish P j m)" by (rule keeps_try_publish) (simp_all add: ignores_defs)
  from keepsD'[OF this run] show "db w' = db w" by simp
qed

lemma try_publish_Inl: "try_publish P j m w \<noteq> (Inl e, w')"
  using try_publish_total by (metis Inl_Inr_False Pair_inject)

lemma InviteUser_inRequest_Inl: "InviteUser_inRequest P i e n r h x w = (Inl err, w') \<Longrightarrow> db w' = db w"
  by (auto simp: InviteUser_inRequest_def dest: runInTransaction_Inl)

lemma invite_fallback_Inl:
  assumes "tryCatch (andThen (runOnce m q work) (return ()))
      (\<lambda>error. andThen (OrganizationInvite_deleteById i) (throw error)) w = (Inl e, w')"
  shows "db w' = (db w)\<lparr>organization_invites := delete_where (\<lambda>r. inv_id r = i) (organization_invites (db w))\<rparr>"
  using assms
  by (auto simp: run_tryCatch run_andThen OrganizationInvite_deleteById_def split: prod.splits sum.splits dest!: runOnce_Inl)

text \<open>The invites of a later state are among those of an earlier one, and nothing else of the database changed.\<close>

definition invites_within :: "world \<Rightarrow> world \<Rightarrow> bool" where
  "invites_within w w' \<longleftrightarrow> set (organization_invites (db w')) \<subseteq> set (organization_invites (db w)) \<and>
     db w' = (db w)\<lparr>organization_invites := organization_invites (db w')\<rparr>"

lemma invites_within_refl: "db w' = db w \<Longrightarrow> invites_within w w'"
  by (simp add: invites_within_def)

lemma invites_within_trans:
  assumes "invites_within w w1" "invites_within w1 w2"
  shows "invites_within w w2"
proof -
  have "db w2 = (db w)\<lparr>organization_invites := organization_invites (db w2)\<rparr>"
    using assms unfolding invites_within_def by (metis database.update_convs(4) database.surjective)
  with assms show ?thesis by (auto simp: invites_within_def)
qed

lemma InviteUser_queued_Inl:
  assumes "InviteUser_queued P input email h x w = (Inl err, w')"
  shows "invites_within w w'"
  using assms unfolding InviteUser_queued_def
proof (rule bind_InlE)
  assume "OrganizationInvite_save P (ii_organizationId input) email (ii_role input) h x w = (Inl err, w')"
  from OrganizationInvite_save_Inl[OF this] show ?thesis by (simp add: invites_within_refl)
next
  fix i and w1 :: world
  let ?w2 = "w1\<lparr>tick := Suc (tick w1)\<rparr>"
  assume save: "OrganizationInvite_save P (ii_organizationId input) email (ii_role input) h x w = (Inr i, w1)"
    and rest: "bind (randomUUID P) (\<lambda>messageId.
     bind (try_publish P (InviteEmailJob (inv_id i)) messageId) (\<lambda>published.
     if published then return ()
     else tryCatch
       (andThen (runOnce (Some messageId) (QUEUE_INVITE P) (InviteUser_executeInTransaction P (inv_id i))) (return ()))
       (\<lambda>error. andThen (OrganizationInvite_deleteById (inv_id i)) (throw error)))) w1 = (Inl err, w')"
  obtain b w3 where pub: "try_publish P (InviteEmailJob (inv_id i)) (random_uuid P (tick w1)) ?w2 = (Inr b, w3)"
    using try_publish_total by blast
  have db3: "db w3 = db w1" using try_publish_db[OF pub] by simp
  have "db w' = (db w3)\<lparr>organization_invites := delete_where (\<lambda>r. inv_id r = inv_id i) (organization_invites (db w3))\<rparr>"
    using rest pub by (cases b) (auto dest: invite_fallback_Inl)
  then show ?thesis
    using OrganizationInvite_save_Inr(10)[OF save] by (auto simp: invites_within_def db3)
qed

lemma InviteUserToOrganization_Inl:
  assumes "InviteUserToOrganization P input w = (Inl err, w')"
  shows "invites_within w w'"
proof -
  let ?email = "toLowerCase P (js_trim (ii_email input))"
  define w1 where "w1 = snd (OrganizationInvite_deleteExpired P ?email (ii_organizationId input) (clock P (tick w))
      (w\<lparr>tick := Suc (tick w)\<rparr>))"
  have within: "invites_within w w1"
    by (auto simp: w1_def invites_within_def OrganizationInvite_deleteExpired_def)
  have run1: "OrganizationInvite_deleteExpired P ?email (ii_organizationId input) (clock P (tick w)) (w\<lparr>tick := Suc (tick w)\<rparr>) = (Inr (), w1)"
    by (simp add: w1_def OrganizationInvite_deleteExpired_def)
  have later: "invites_within w x" if "invites_within w1 x" for x using within that by (rule invites_within_trans)
  have tick1: "invites_within w x" if "db x = db w1" for x using that by (intro later invites_within_refl)
  have q: "invites_within w x" if "InviteUser_queued P input e h y v = (Inl err, x)" "db v = db w1" for e h y v x
    using InviteUser_queued_Inl[OF that(1)] that(2) by (intro later) (simp add: invites_within_def)
  have r: "invites_within w x" if "InviteUser_inRequest P input e n t h y v = (Inl err, x)" "db v = db w1" for e n t h y v x
    using InviteUser_inRequest_Inl[OF that(1)] that(2) by (intro tick1) simp
  show ?thesis
    using assms unfolding InviteUserToOrganization_def Organization_findById_def mintToken_def
      OrganizationInvite_findPendingByEmailAndOrg_def MessageQueue_isEnabled_def Let_def
    by (auto split: if_splits option.splits simp: run1 intro: invites_within_refl tick1 q r)
qed


lemma InviteUserToOrganization_guard:
  assumes "InviteUserToOrganization P input w = (Inr (), w')"
  shows "ii_inviterRole input = ''owner'' \<or> ii_inviterRole input = ''admin''"
    "\<exists>v \<in> set (organizations (db w)). org_id v = ii_organizationId input \<and> org_deletedAt v = None"
  using assms by (auto simp: InviteUserToOrganization_def Organization_findById_def live_organization_def
      split: if_splits option.splits dest!: find_SomeD)

text \<open>The invite a request made, whatever token the email that went out carries.\<close>

definition invite_made :: "platform \<Rightarrow> invite_input \<Rightarrow> int \<Rightarrow> jstr \<Rightarrow> world \<Rightarrow> bool" where
  "invite_made P input expires k w \<longleftrightarrow> (\<exists>i \<in> set (organization_invites (db w)). inv_id i = k \<and>
     inv_organizationId i = ii_organizationId input \<and> inv_email i = toLowerCase P (js_trim (ii_email input)) \<and>
     inv_role i = ii_role input \<and> inv_expiresAt i = expires \<and> open_invite i)"

lemma invite_made_ignores [simp]:
  "ignores_tick (invite_made P i x k)" "ignores_outbox (invite_made P i x k)" "ignores_jobs (invite_made P i x k)"
  "ignores_processed_messages (invite_made P i x k)" "survives_rollback (invite_made P i x k)"
  by (simp_all add: ignores_defs survives_rollback_def invite_made_def)

lemma bex_update_where:
  "\<exists>r \<in> set rows. p r \<Longrightarrow> (\<And>r. p r \<Longrightarrow> p (f r)) \<Longrightarrow> \<exists>r \<in> set (update_where q f rows). p r"
  by (induction rows) auto

lemma keeps_invite_made_job: "keeps (invite_made P i x k) (InviteUser_executeInTransaction P' j)"
proof -
  have upd: "keeps (invite_made P i x k) (modifyDb (\<lambda>d. d\<lparr>organization_invites :=
      update_where q (\<lambda>i. i\<lparr>inv_tokenHash := h\<rparr>) (organization_invites d)\<rparr>))" for q h
    by (auto simp: keeps_def invite_made_def open_invite_def intro!: bex_update_where)
  have rehash: "keeps (invite_made P i x k) (OrganizationInvite_replaceTokenHash j' h)" for j' h
    unfolding OrganizationInvite_replaceTokenHash_def by (intro upd keeps_rules)
  show ?thesis
    unfolding InviteUser_executeInTransaction_def invite_sendFor_def by (intro rehash keeps_rules invite_made_ignores)
qed

lemma InviteUser_queued_Inr:
  assumes run: "InviteUser_queued P input (toLowerCase P (js_trim (ii_email input))) h x w = (Inr (), w')"
  shows "invite_made P input x (random_uuid P (tick w)) w'"
proof -
  from run obtain i w1 b w2 w3 where
    save: "OrganizationInvite_save P (ii_organizationId input) (toLowerCase P (js_trim (ii_email input))) (ii_role input) h x w = (Inr i, w1)"
    and pub: "try_publish P (InviteEmailJob (inv_id i)) (random_uuid P (tick w1)) w2 = (Inr b, w3)" and w2: "db w2 = db w1"
    and rest: "b \<and> w' = w3 \<or> tryCatch (andThen (runOnce (Some (random_uuid P (tick w1))) (QUEUE_INVITE P) (InviteUser_executeInTransaction P (inv_id i))) (return ()))
       (\<lambda>error. andThen (OrganizationInvite_deleteById (inv_id i)) (throw error)) w3 = (Inr (), w')"
    unfolding InviteUser_queued_def by (elim bind_InrE) (auto split: if_splits)
  note s = OrganizationInvite_save_Inr[OF save]
  have made: "invite_made P input x (random_uuid P (tick w)) w3"
    using s try_publish_db[OF pub] w2 by (simp add: invite_made_def open_invite_def)
  from rest show ?thesis
  proof
    assume "b \<and> w' = w3"
    with made show ?thesis by simp
  next
    assume t: "tryCatch (andThen (runOnce (Some (random_uuid P (tick w1))) (QUEUE_INVITE P) (InviteUser_executeInTransaction P (inv_id i))) (return ()))
       (\<lambda>error. andThen (OrganizationInvite_deleteById (inv_id i)) (throw error)) w3 = (Inr (), w')"
    have k: "keeps (invite_made P input x (random_uuid P (tick w)))
        (andThen (runOnce (Some (random_uuid P (tick w1))) (QUEUE_INVITE P) (InviteUser_executeInTransaction P (inv_id i))) (return ()))"
      by (intro keeps_invite_made_job keeps_rules ticks_grow_invite_job invite_made_ignores)
    have "andThen (runOnce (Some (random_uuid P (tick w1))) (QUEUE_INVITE P) (InviteUser_executeInTransaction P (inv_id i))) (return ()) w3 = (Inr (), w')"
      using t by (auto simp: run_tryCatch run_andThen[of "OrganizationInvite_deleteById _"] split: prod.splits sum.splits)
    from keepsD'[OF k this made] show ?thesis .
  qed
qed

lemma InviteUser_inRequest_Inr:
  assumes "InviteUser_inRequest P input (toLowerCase P (js_trim (ii_email input))) n r h x w = (Inr (), w')"
  shows "invite_made P input x (random_uuid P (tick w)) w'"
proof -
  from assms obtain i w1 where
    save: "OrganizationInvite_save P (ii_organizationId input) (toLowerCase P (js_trim (ii_email input))) (ii_role input) h x w = (Inr i, w1)"
    and send: "bind (invite_message P (toLowerCase P (js_trim (ii_email input))) n r) (EmailSender_send P) w1 = (Inr (), w')"
    by (auto simp: InviteUser_inRequest_def runInTransaction_Inr elim!: andThen_InrE)
  have "keeps (invite_made P input x (random_uuid P (tick w))) (bind (invite_message P (toLowerCase P (js_trim (ii_email input))) n r) (EmailSender_send P))"
    by (intro keeps_rules invite_made_ignores)
  from keepsD'[OF this send] OrganizationInvite_save_Inr[OF save] show ?thesis
    by (simp add: invite_made_def open_invite_def)
qed

lemma InviteUserToOrganization_Inr:
  assumes "InviteUserToOrganization P input w = (Inr (), w')"
  shows "\<exists>k \<ge> tick w. invite_made P input (clock P (tick w) + int (invite_ttl_days P) * 24 * 60 * 60 * 1000) (random_uuid P k) w'"
  using assms unfolding InviteUserToOrganization_def Organization_findById_def mintToken_def OrganizationInvite_deleteExpired_def
      OrganizationInvite_findPendingByEmailAndOrg_def MessageQueue_isEnabled_def Let_def
  by (auto split: if_splits option.splits dest!: InviteUser_queued_Inr InviteUser_inRequest_Inr)
    (meson le_SucI order_refl)+


lemma AcceptInvite_Inr:
  assumes "AcceptInvite P raw userId w = (Inr (), w')"
  obtains i u n where
    "List.find (\<lambda>i. inv_tokenHash i = sha256_hex P raw) (organization_invites (db w)) = Some i"
    "open_invite i" "clock P (tick w) < inv_expiresAt i"
    "List.find (\<lambda>u. user_id u = userId \<and> live_user u) (users (db w)) = Some u"
    "toLowerCase P (user_email u) = toLowerCase P (inv_email i)"
    "organization_invites (db w') =
       update_where (\<lambda>j. inv_id j = inv_id i) (\<lambda>j. j\<lparr>inv_acceptedAt := Some n\<rparr>) (organization_invites (db w))"
    "memberships (db w') = memberships (db w) \<and> (\<exists>m \<in> set (memberships (db w)). active_in userId (inv_organizationId i) m) \<or>
     (\<exists>m. memberships (db w') = memberships (db w) @ [m] \<and> active_in userId (inv_organizationId i) m \<and>
        m_role m = invite_membership_role (inv_role i) \<and>
        (\<forall>r \<in> set (memberships (db w)). \<not> (m_userId r = userId \<and> m_organizationId r = inv_organizationId i)))"
    "db w' = (db w)\<lparr>memberships := memberships (db w'), organization_invites := organization_invites (db w')\<rparr>"
proof -
  from assms obtain i u w1 where
    i: "List.find (\<lambda>i. inv_tokenHash i = sha256_hex P raw) (organization_invites (db w)) = Some i"
    and open_i: "open_invite i" "clock P (tick w) < inv_expiresAt i"
    and u: "List.find (\<lambda>u. user_id u = userId \<and> live_user u) (users (db w)) = Some u"
    and mail: "toLowerCase P (user_email u) = toLowerCase P (inv_email i)"
    and join: "(if List.find (active_in (user_id u) (inv_organizationId i)) (memberships (db w)) \<noteq> None then return ()
       else andThen (Membership_create P (user_id u) (inv_organizationId i) (invite_membership_role (inv_role i)) (Some Active))
              (return ())) (w\<lparr>tick := Suc (tick w)\<rparr>) = (Inr (), w1)"
    and w': "w' = w1\<lparr>tick := Suc (tick w1), db := (db w1)\<lparr>organization_invites :=
       update_where (\<lambda>j. inv_id j = inv_id i) (\<lambda>j. j\<lparr>inv_acceptedAt := Some (clock P (tick w1))\<rparr>) (organization_invites (db w1))\<rparr>\<rparr>"
    unfolding AcceptInvite_def OrganizationInvite_findByTokenHash_def User_findById_def Membership_findByUserAndOrg_def
      OrganizationInvite_markAccepted_def AcceptInvite_error_def
    by (auto split: if_splits option.splits elim!: andThen_InrE
        simp: OrganizationInvite_isAccepted_def OrganizationInvite_isExpired_def open_invite_def)
  have uid: "user_id u = userId" using find_SomeD[OF u] by simp
  have mem: "memberships (db w1) = memberships (db w) \<and> (\<exists>m \<in> set (memberships (db w)). active_in userId (inv_organizationId i) m) \<or>
     (\<exists>m. memberships (db w1) = memberships (db w) @ [m] \<and> active_in userId (inv_organizationId i) m \<and>
        m_role m = invite_membership_role (inv_role i) \<and>
        (\<forall>r \<in> set (memberships (db w)). \<not> (m_userId r = userId \<and> m_organizationId r = inv_organizationId i)))"
    and rest: "db w1 = (db w)\<lparr>memberships := memberships (db w1)\<rparr>"
  proof (atomize(full), cases "List.find (active_in (user_id u) (inv_organizationId i)) (memberships (db w))")
    case (Some m)
    with join find_SomeD[OF Some] uid show "(memberships (db w1) = memberships (db w) \<and> (\<exists>m \<in> set (memberships (db w)). active_in userId (inv_organizationId i) m) \<or>
     (\<exists>m. memberships (db w1) = memberships (db w) @ [m] \<and> active_in userId (inv_organizationId i) m \<and>
        m_role m = invite_membership_role (inv_role i) \<and>
        (\<forall>r \<in> set (memberships (db w)). \<not> (m_userId r = userId \<and> m_organizationId r = inv_organizationId i)))) \<and>
      db w1 = (db w)\<lparr>memberships := memberships (db w1)\<rparr>" by auto
  next
    case None
    with join uid obtain m where "Membership_create P userId (inv_organizationId i) (invite_membership_role (inv_role i)) (Some Active)
        (w\<lparr>tick := Suc (tick w)\<rparr>) = (Inr m, w1)"
      by (auto elim!: andThen_InrE)
    note c = Membership_create_Inr[OF this]
    from c show "(memberships (db w1) = memberships (db w) \<and> (\<exists>m \<in> set (memberships (db w)). active_in userId (inv_organizationId i) m) \<or>
     (\<exists>m. memberships (db w1) = memberships (db w) @ [m] \<and> active_in userId (inv_organizationId i) m \<and>
        m_role m = invite_membership_role (inv_role i) \<and>
        (\<forall>r \<in> set (memberships (db w)). \<not> (m_userId r = userId \<and> m_organizationId r = inv_organizationId i)))) \<and>
      db w1 = (db w)\<lparr>memberships := memberships (db w1)\<rparr>" by (auto simp: active_in_def)
  qed
  show ?thesis
  proof (rule that[OF i open_i u mail])
    show "organization_invites (db w') =
       update_where (\<lambda>j. inv_id j = inv_id i) (\<lambda>j. j\<lparr>inv_acceptedAt := Some (clock P (tick w1))\<rparr>) (organization_invites (db w))"
      by (simp add: w') (subst rest, simp)
    show "db w' = (db w)\<lparr>memberships := memberships (db w'), organization_invites := organization_invites (db w')\<rparr>"
      by (simp add: w') (subst rest, simp)
  qed (use mem in \<open>simp add: w'\<close>)
qed

lemma AcceptInvite_Inl: "AcceptInvite P raw userId w = (Inl e, w') \<Longrightarrow> db w' = db w"
  unfolding AcceptInvite_def OrganizationInvite_findByTokenHash_def User_findById_def Membership_findByUserAndOrg_def
    OrganizationInvite_markAccepted_def AcceptInvite_error_def Membership_create_def Let_def
  by (auto split: if_splits option.splits elim!: andThen_InlE)

lemma AcceptInvite_accepted:
  assumes "List.find (\<lambda>i. inv_tokenHash i = sha256_hex P raw) (organization_invites (db w)) = Some i" "\<not> open_invite i"
  shows "AcceptInvite P raw userId w = (Inl AcceptInvite_error, w)"
  using assms by (simp add: AcceptInvite_def OrganizationInvite_findByTokenHash_def OrganizationInvite_isAccepted_def open_invite_def)

lemma find_accepted:
  assumes "List.find (\<lambda>i. inv_tokenHash i = h) rows = Some i"
  shows "List.find (\<lambda>i. inv_tokenHash i = h) (update_where (\<lambda>j. inv_id j = inv_id i) (\<lambda>j. j\<lparr>inv_acceptedAt := Some n\<rparr>) rows) =
    Some (i\<lparr>inv_acceptedAt := Some n\<rparr>)"
  using assms by (induction rows) (auto split: if_splits)

section \<open>Properties\<close>

definition sample_member_world :: world where
  "sample_member_world = sample_world\<lparr>db := (db sample_world)\<lparr>
     users := [sample_user, sample_user\<lparr>user_id := lit ''x'', user_email := lit ''y'', user_username := lit ''y''\<rparr>],
     memberships := [sample_membership, sample_membership\<lparr>m_id := lit ''k'', m_userId := lit ''w'', m_role := Member\<rparr>],
     organization_invites := [\<lparr>inv_id = [5], inv_organizationId = lit ''o'', inv_email = lit ''y'', inv_role = InviteMember,
        inv_tokenHash = lit ''h'', inv_expiresAt = 100, inv_acceptedAt = None, inv_createdAt = 0\<rparr>]\<rparr>\<rparr>"

text \<open>
  C31. Only an owner changes a role, and only of a membership of her own organization. The change sets
  that row's role and nothing else; taking the role of an owner away needs a second active owner. A
  refused change changes nothing.
\<close>

theorem change_role_outcome:
  assumes "ChangeMemberRole i v role actor w = (r, w')" "distinct (map m_id (memberships (db w)))"
  shows "case r of
      Inl e \<Rightarrow> w' = w
    | Inr _ \<Rightarrow> actor = ''owner'' \<and> (\<exists>m \<in> set (memberships (db w)). m_id m = i \<and> m_organizationId m = v \<and>
        (m_role m = Owner \<and> role \<noteq> Owner \<longrightarrow> 1 < count_where (is_active_owner v) (memberships (db w)))) \<and>
        w' = w\<lparr>db := (db w)\<lparr>memberships :=
          update_where (\<lambda>r. m_id r = i) (\<lambda>r. r\<lparr>m_role := role\<rparr>) (memberships (db w))\<rparr>\<rparr>"
proof (cases r)
  case (Inl e)
  with assms(1) show ?thesis using ChangeMemberRole_Inl by auto
next
  case (Inr x)
  with assms(1) have "ChangeMemberRole i v role actor w = (Inr (), w')" by simp
  then show ?thesis
  proof (rule ChangeMemberRole_Inr)
    fix m
    assume a: "actor = ''owner''" and m: "m \<in> set (memberships (db w))" "m_id m = i" "m_organizationId m = v"
      and guard: "m_role m = Owner \<Longrightarrow> role \<noteq> Owner \<Longrightarrow> 1 < count_where (is_active_owner v) (memberships (db w))"
      and w': "role = m_role m \<and> w' = w \<or> w' = w\<lparr>db := (db w)\<lparr>memberships :=
           update_where (\<lambda>r. m_id r = i) (\<lambda>r. r\<lparr>m_role := role\<rparr>) (memberships (db w))\<rparr>\<rparr>"
    have "x\<lparr>m_role := m_role m\<rparr> = x" if "x \<in> set (memberships (db w))" "m_id x = i" for x
    proof -
      have "x = m" using unique_key_eq[OF assms(2) that(1) m(1)] that(2) m(2) by simp
      then show ?thesis by simp
    qed
    then have "update_where (\<lambda>r. m_id r = i) (\<lambda>r. r\<lparr>m_role := m_role m\<rparr>) (memberships (db w)) = memberships (db w)"
      by (auto simp: update_where_def intro!: map_idI)
    with a m guard w' show ?thesis by (auto simp: Inr)
  qed
qed

theorem change_role_outcome_witness:
  "memberships (db (final (ChangeMemberRole (lit ''k'') (lit ''o'') Admin ''owner'') sample_member_world)) =
     update_where (\<lambda>r. m_id r = lit ''k'') (\<lambda>r. r\<lparr>m_role := Admin\<rparr>) (memberships (db sample_member_world))"
proof -
  have "succeeds (ChangeMemberRole (lit ''k'') (lit ''o'') Admin ''owner'') sample_member_world"
    by (simp add: evaluate sample_member_world_def)
  from change_role_outcome[OF unit_run[OF this]] show ?thesis
    by (simp add: sample_member_world_def sample_membership_def lit_def)
qed

text \<open>
  Only an owner removes a member, of her own organization and never herself; removing an owner
  needs a second active owner. The row goes and no other; a refused removal changes nothing.
\<close>

theorem remove_member_outcome:
  assumes "RemoveMembership i v actor u w = (r, w')"
  shows "case r of
      Inl e \<Rightarrow> w' = w
    | Inr _ \<Rightarrow> actor = ''owner'' \<and> (\<exists>m \<in> set (memberships (db w)). m_id m = i \<and> m_organizationId m = v \<and> m_userId m \<noteq> u \<and>
        (m_role m = Owner \<longrightarrow> 1 < count_where (is_active_owner v) (memberships (db w)))) \<and>
        w' = w\<lparr>db := (db w)\<lparr>memberships := delete_where (\<lambda>r. m_id r = i) (memberships (db w))\<rparr>\<rparr>"
proof (cases r)
  case (Inl e)
  with assms show ?thesis using RemoveMembership_Inl by auto
next
  case (Inr x)
  with assms have "RemoveMembership i v actor u w = (Inr (), w')" by simp
  then show ?thesis by (rule RemoveMembership_Inr) (auto simp: Inr)
qed

theorem remove_member_outcome_witness:
  "memberships (db (final (RemoveMembership (lit ''k'') (lit ''o'') ''owner'' (lit ''u'')) sample_member_world)) =
     delete_where (\<lambda>r. m_id r = lit ''k'') (memberships (db sample_member_world))"
proof -
  have "succeeds (RemoveMembership (lit ''k'') (lit ''o'') ''owner'' (lit ''u'')) sample_member_world"
    by (simp add: evaluate sample_member_world_def)
  from remove_member_outcome[OF unit_run[OF this]] show ?thesis by simp
qed

text \<open>
  C28. An invitation that succeeds was made by an owner or an admin for an organization that exists, and
  leaves an open invite for the normalised address with an id drawn in the call, expiring the
  configured days later. One that fails, wherever it fails (the checks, the insert, the mail in the
  request, or the queue and the mail both), leaves no invite that was not there before and touches no
  other table.
\<close>

theorem invite_outcome:
  assumes "InviteUserToOrganization P input w = (r, w')"
  shows "case r of
      Inl e \<Rightarrow> set (organization_invites (db w')) \<subseteq> set (organization_invites (db w)) \<and>
        db w' = (db w)\<lparr>organization_invites := organization_invites (db w')\<rparr>
    | Inr _ \<Rightarrow> (ii_inviterRole input = ''owner'' \<or> ii_inviterRole input = ''admin'') \<and>
        (\<exists>v \<in> set (organizations (db w)). org_id v = ii_organizationId input \<and> org_deletedAt v = None) \<and>
        (\<exists>k \<ge> tick w. \<exists>i \<in> set (organization_invites (db w')). inv_id i = random_uuid P k \<and>
          inv_organizationId i = ii_organizationId input \<and> inv_email i = toLowerCase P (js_trim (ii_email input)) \<and>
          inv_role i = ii_role input \<and> inv_acceptedAt i = None \<and>
          inv_expiresAt i = clock P (tick w) + int (invite_ttl_days P) * 24 * 60 * 60 * 1000)"
proof (cases r)
  case (Inl e)
  with assms show ?thesis using InviteUserToOrganization_Inl by (simp add: invites_within_def)
next
  case (Inr x)
  with assms have run: "InviteUserToOrganization P input w = (Inr (), w')" by simp
  show ?thesis
    using InviteUserToOrganization_guard[OF run] InviteUserToOrganization_Inr[OF run]
    unfolding Inr invite_made_def open_invite_def by auto
qed

definition sample_invite :: invite_input where
  "sample_invite = \<lparr>ii_organizationId = lit ''o'', ii_email = lit ''e'', ii_role = InviteMember, ii_inviterRole = ''owner''\<rparr>"

text \<open>Mail and broker both down: the invite that was saved is gone.\<close>

definition sample_outage :: platform where
  "sample_outage = sample_platform\<lparr>queue_enabled := (\<lambda>t. True), random_uuid := (\<lambda>t. replicate 36 t),
     publish_result := (\<lambda>t j. Some (ServiceError ''down'')),
     mail_result := (\<lambda>t m. Some (ServiceError ''down''))\<rparr>"

theorem invite_outcome_witness:
  "\<exists>e. fst (InviteUserToOrganization sample_outage sample_invite sample_world) = Inl e \<and>
     set (organization_invites (db (final (InviteUserToOrganization sample_outage sample_invite) sample_world))) \<subseteq>
     set (organization_invites (db sample_world))"
proof -
  have "\<not> succeeds (InviteUserToOrganization sample_outage sample_invite) sample_world"
    by (simp add: evaluate sample_outage_def sample_invite_def encode_base64url base64url_char_def is_lower_alnum_def)
  then obtain e where e: "fst (InviteUserToOrganization sample_outage sample_invite sample_world) = Inl e"
    by (auto simp: succeeds_def isl_def)
  from invite_outcome[OF surjective_pairing[of "InviteUserToOrganization sample_outage sample_invite sample_world"]] e
  show ?thesis by (simp add: final_def)
qed

text \<open>
  C29. An invite is accepted only by its raw token, while it is open and unexpired, by the user its
  address names. The user is then an active member of the organization, with the invited role if she
  was none before; the invite is marked, so the token cannot be accepted again, and only the two
  tables are written. A refused acceptance leaves the database as it was.
\<close>

theorem accept_invite_outcome:
  assumes "AcceptInvite P raw userId w = (r, w')"
  shows "case r of
      Inl e \<Rightarrow> db w' = db w
    | Inr _ \<Rightarrow> (\<exists>i \<in> set (organization_invites (db w)). \<exists>u \<in> set (users (db w)).
        inv_tokenHash i = sha256_hex P raw \<and> inv_acceptedAt i = None \<and> clock P (tick w) < inv_expiresAt i \<and>
        user_id u = userId \<and> user_deletedAt u = None \<and> toLowerCase P (user_email u) = toLowerCase P (inv_email i) \<and>
        (\<exists>m \<in> set (memberships (db w')). m_userId m = userId \<and> m_organizationId m = inv_organizationId i \<and> m_status m = Active \<and>
          (m \<notin> set (memberships (db w)) \<longrightarrow> m_role m = invite_membership_role (inv_role i)))) \<and>
        db w' = (db w)\<lparr>memberships := memberships (db w'), organization_invites := organization_invites (db w')\<rparr> \<and>
        (\<forall>other. AcceptInvite P raw other w' = (Inl AcceptInvite_error, w'))"
proof (cases r)
  case (Inl e)
  with assms show ?thesis using AcceptInvite_Inl by auto
next
  case (Inr x)
  with assms have "AcceptInvite P raw userId w = (Inr (), w')" by simp
  then show ?thesis
  proof (rule AcceptInvite_Inr)
    fix i u n
    assume i: "List.find (\<lambda>i. inv_tokenHash i = sha256_hex P raw) (organization_invites (db w)) = Some i"
      and ok: "open_invite i" "clock P (tick w) < inv_expiresAt i"
      and u: "List.find (\<lambda>u. user_id u = userId \<and> live_user u) (users (db w)) = Some u"
      and mail: "toLowerCase P (user_email u) = toLowerCase P (inv_email i)"
      and rows: "organization_invites (db w') =
         update_where (\<lambda>j. inv_id j = inv_id i) (\<lambda>j. j\<lparr>inv_acceptedAt := Some n\<rparr>) (organization_invites (db w))"
      and m: "memberships (db w') = memberships (db w) \<and> (\<exists>m \<in> set (memberships (db w)). active_in userId (inv_organizationId i) m) \<or>
       (\<exists>m. memberships (db w') = memberships (db w) @ [m] \<and> active_in userId (inv_organizationId i) m \<and>
          m_role m = invite_membership_role (inv_role i) \<and>
          (\<forall>r \<in> set (memberships (db w)). \<not> (m_userId r = userId \<and> m_organizationId r = inv_organizationId i)))"
      and db: "db w' = (db w)\<lparr>memberships := memberships (db w'), organization_invites := organization_invites (db w')\<rparr>"
    have again: "AcceptInvite P raw other w' = (Inl AcceptInvite_error, w')" for other
      using find_accepted[OF i, of n] by (intro AcceptInvite_accepted) (auto simp: rows open_invite_def)
    have joined: "\<exists>m \<in> set (memberships (db w')). m_userId m = userId \<and> m_organizationId m = inv_organizationId i \<and>
        m_status m = Active \<and> (m \<notin> set (memberships (db w)) \<longrightarrow> m_role m = invite_membership_role (inv_role i))"
      using m by (elim disjE conjE exE) (auto simp: active_in_def)
    show ?thesis
      using again joined ok mail db find_SomeD[OF i] find_SomeD[OF u]
      by (auto simp: Inr open_invite_def live_user_def)
  qed
qed

theorem accept_invite_outcome_witness:
  "AcceptInvite sample_platform (lit ''h'') (lit ''x'') (final (AcceptInvite sample_platform (lit ''h'') (lit ''x'')) sample_member_world) =
     (Inl AcceptInvite_error, final (AcceptInvite sample_platform (lit ''h'') (lit ''x'')) sample_member_world)"
proof -
  have "succeeds (AcceptInvite sample_platform (lit ''h'') (lit ''x'')) sample_member_world"
    by (simp add: evaluate sample_member_world_def)
  from accept_invite_outcome[OF unit_run[OF this]] show ?thesis by simp
qed

end
