(* ===== verification/AuthHttpProperties.thy ===== *)
theory AuthHttpProperties imports AuthHttp OrganizationProperties Rotation begin

text \<open>
  What the HTTP edge guarantees: who gets past the middleware and the guards, what an error becomes on
  the wire, and which answers do not depend on what the feature did.
\<close>

lemma TokenProvider_verify_Inr:
  "TokenProvider_verify P token w = (Inr claims, w') \<Longrightarrow>
   \<exists>d. jwt_verify P (tick w) token = Some d \<and> decoded_id d = Some (claim_userId claims) \<and>
     claim_organizationId claims = decoded_organizationId d \<and> w' = w\<lparr>tick := Suc (tick w)\<rparr>"
  by (auto simp: TokenProvider_verify_def nonempty_def split: option.splits if_splits)

lemma authMiddleware_Inr:
  assumes "authMiddleware P req w = (Inr c, w')"
  obtains token d u m where
    "bearer_token (req_authorization req) = Some token" "jwt_verify P (tick w) token = Some d"
    "decoded_id d = Some (user_id u)" "decoded_organizationId d = Some (m_organizationId m)"
    "List.find (\<lambda>v. user_id v = user_id u \<and> live_user v) (users (db w)) = Some u"
    "List.find (active_in (user_id u) (m_organizationId m)) (memberships (db w)) = Some m"
    "m_organizationId m \<noteq> []"
    "c = \<lparr>ctx_user = toUserDomain u (m_organizationId m), ctx_organizationId = m_organizationId m,
       ctx_membershipId = m_id m, ctx_role = m_role m, ctx_membershipOrganizationId = m_organizationId m,
       ctx_membershipUserId = m_userId m\<rparr>"
    "w' = w\<lparr>tick := Suc (tick w)\<rparr>"
proof -
  from assms obtain token claims u v m where
    b: "bearer_token (req_authorization req) = Some token"
    and t: "TokenProvider_verify P token w = (Inr claims, w')"
    and u: "List.find (\<lambda>u. user_id u = claim_userId claims \<and> live_user u) (users (db w')) = Some u"
    and v: "nonempty (claim_organizationId claims) = Some v"
    and m: "List.find (active_in (user_id u) v) (memberships (db w')) = Some m"
    and c: "c = \<lparr>ctx_user = toUserDomain u (m_organizationId m), ctx_organizationId = m_organizationId m,
       ctx_membershipId = m_id m, ctx_role = m_role m, ctx_membershipOrganizationId = m_organizationId m,
       ctx_membershipUserId = m_userId m\<rparr>"
    unfolding authMiddleware_def User_findById_def Membership_findByUserAndOrg_def
    by (auto split: option.splits if_splits elim!: bind_InrE simp: run_tryCatch
        split: prod.splits sum.splits failure.splits error_kind.splits)
  from TokenProvider_verify_Inr[OF t] obtain d where
    d: "jwt_verify P (tick w) token = Some d" "decoded_id d = Some (claim_userId claims)"
      "claim_organizationId claims = decoded_organizationId d" and w': "w' = w\<lparr>tick := Suc (tick w)\<rparr>" by blast
  have ids: "user_id u = claim_userId claims" "m_organizationId m = v"
    using find_SomeD[OF u] find_SomeD[OF m] by (auto simp: active_in_def)
  have org: "claim_organizationId claims = Some v" "v \<noteq> []" using v by (auto simp: nonempty_def split: option.splits if_splits)
  show ?thesis
    by (rule that[OF b d(1), of u m]) (use d u m c w' ids org in auto)
qed

lemma authMiddleware_db: "authMiddleware P req w = (r, w') \<Longrightarrow> db w' = db w"
proof -
  assume run: "authMiddleware P req w = (r, w')"
  have verify: "keeps (\<lambda>x. db x = db w) (TokenProvider_verify P token)" for token
    by (auto simp: keeps_def TokenProvider_verify_def split: option.splits)
  have "keeps (\<lambda>x. db x = db w) (authMiddleware P req)"
    unfolding authMiddleware_def by (intro verify keeps_rules) (auto intro!: keeps_rules split: failure.splits error_kind.splits)
  from keepsD'[OF this run] show ?thesis by simp
qed

lemma guarded_Inr:
  assumes "bind (authMiddleware P req) (\<lambda>c. bind (assertAuthenticated (Some c)) f) w = (Inr x, w')"
  obtains c w1 where "authMiddleware P req w = (Inr c, w1)" "f c w1 = (Inr x, w')"
  using assms by (auto elim!: bind_InrE simp: assertAuthenticated_def split: if_splits)

lemma authMiddleware_Inl:
  "authMiddleware P req w = (Inl e, w') \<Longrightarrow> toAppError e = (fst (toAppError e), 401)"
  unfolding authMiddleware_def User_findById_def Membership_findByUserAndOrg_def
  by (auto split: option.splits if_splits prod.splits sum.splits elim!: bind_InlE
      simp: run_tryCatch TokenProvider_verify_def InvalidTokenError_def toAppError_def)

lemma owner_request_cases:
  assumes "bind (authMiddleware P req) (\<lambda>c. bind (assertAuthenticated (Some c)) (\<lambda>ctx.
     andThen (assertHasOrgRole (Some ctx) [Owner]) (andThen (op ctx) (return x)))) w = (r, w')"
  obtains (refused) e where "r = Inl e" "snd (toAppError e) \<noteq> 200" "db w' = db w"
    | (failed) c w1 e where "r = Inl e" "authMiddleware P req w = (Inr c, w1)" "op c w1 = (Inl e, w')"
    | (ok) c w1 y where "r = Inr x" "authMiddleware P req w = (Inr c, w1)" "ctx_role c = Owner" "op c w1 = (Inr y, w')"
proof (cases "authMiddleware P req w")
  case (Pair q w1)
  note db = authMiddleware_db[OF Pair]
  show ?thesis
  proof (cases q)
    case (Inl e)
    with Pair authMiddleware_Inl have "snd (toAppError e) \<noteq> 200" by (metis numeral_eq_iff semiring_norm(88) snd_conv verit_eq_simplify(12,14))
    with Pair Inl assms db refused show ?thesis by auto
  next
    case (Inr c)
    show ?thesis
    proof (cases "ctx_organizationId c = [] \<or> ctx_role c \<noteq> Owner")
      case True
      with Pair Inr assms db refused show ?thesis
        by (auto simp: assertAuthenticated_def assertHasOrgRole_def toAppError_def run_andThen split: if_splits)
    next
      case False
      obtain s w2 where s: "op c w1 = (s, w2)" by fastforce
      with False Pair Inr assms have "(case s of Inl e \<Rightarrow> (Inl e, w2) | Inr _ \<Rightarrow> (Inr x, w2)) = (r, w')"
        by (auto simp: assertAuthenticated_def assertHasOrgRole_def run_andThen split: sum.splits)
      with s False Pair Inr failed ok show ?thesis by (cases s) auto
    qed
  qed
qed

lemma ChangeMemberRole_status: "ChangeMemberRole i v role actor w = (Inl e, w') \<Longrightarrow> snd (toAppError e) \<noteq> 200"
  by (auto simp: ChangeMemberRole_def Membership_findById_def owners_counted Membership_save_def
      Membership_changeRole_def run_andThen toAppError_def DOMAIN_ERROR_STATUS_def split: if_splits option.splits)

lemma RemoveMembership_status: "RemoveMembership i v actor u w = (Inl e, w') \<Longrightarrow> snd (toAppError e) \<noteq> 200"
  by (auto simp: RemoveMembership_def Membership_findById_def owners_counted Membership_delete_def
      run_andThen toAppError_def DOMAIN_ERROR_STATUS_def split: if_splits option.splits)

lemma bearer_token_Some:
  assumes "bearer_token header = Some token"
  obtains rest where "header = Some (lit ''Bearer '' @ token @ rest)" "32 \<notin> set token"
proof -
  from assms obtain h where h: "header = Some h" "take 7 h = lit ''Bearer ''" "token = takeWhile (\<lambda>c. c \<noteq> 32) (drop 7 h)"
    by (auto simp: bearer_token_def split: option.splits if_splits)
  have "h = take 7 h @ token @ dropWhile (\<lambda>c. c \<noteq> 32) (drop 7 h)"
    by (simp add: h(3))
  then show ?thesis using that h by (metis (mono_tags, lifting) set_takeWhileD)
qed

section \<open>Properties\<close>

text \<open>
  C35. The middleware lets a request through only with a bearer token whose signature and claims were
  verified, of a user that is not deleted and an active membership in the organization the token names;
  what it hands on is that user and that membership. Everything it refuses is answered 401, and it
  never writes.
\<close>

theorem middleware_sound:
  assumes "authMiddleware P req w = (r, w')"
  shows "db w' = db w \<and> (case r of
      Inl e \<Rightarrow> toAppError e = (fst (toAppError e), 401)
    | Inr c \<Rightarrow> (\<exists>token rest d. \<exists>u \<in> set (users (db w)). \<exists>m \<in> set (memberships (db w)).
        req_authorization req = Some (lit ''Bearer '' @ token @ rest) \<and> 32 \<notin> set token \<and>
        jwt_verify P (tick w) token = Some d \<and>
        decoded_id d = Some (user_id u) \<and> user_deletedAt u = None \<and>
        decoded_organizationId d = Some (m_organizationId m) \<and> m_userId m = user_id u \<and> m_status m = Active \<and>
        ctx_user c = toUserDomain u (m_organizationId m) \<and> ctx_organizationId c = m_organizationId m \<and>
        ctx_membershipId c = m_id m \<and> ctx_role c = m_role m))"
proof (cases r)
  case (Inl e)
  have "toAppError e = (fst (toAppError e), 401)" using assms Inl authMiddleware_Inl by simp
  with authMiddleware_db[OF assms] Inl show ?thesis by simp
next
  case (Inr c)
  from assms[unfolded Inr] show ?thesis
  proof (rule authMiddleware_Inr)
    fix token d u m
    assume b: "bearer_token (req_authorization req) = Some token" "jwt_verify P (tick w) token = Some d"
      "decoded_id d = Some (user_id u)" "decoded_organizationId d = Some (m_organizationId m)"
      and u: "List.find (\<lambda>v. user_id v = user_id u \<and> live_user v) (users (db w)) = Some u"
      and m: "List.find (active_in (user_id u) (m_organizationId m)) (memberships (db w)) = Some m"
      and c: "c = \<lparr>ctx_user = toUserDomain u (m_organizationId m), ctx_organizationId = m_organizationId m,
       ctx_membershipId = m_id m, ctx_role = m_role m, ctx_membershipOrganizationId = m_organizationId m,
       ctx_membershipUserId = m_userId m\<rparr>"
    note u' = find_SomeD[OF u] and m' = find_SomeD[OF m]
    from b(1) obtain rest where rest: "req_authorization req = Some (lit ''Bearer '' @ token @ rest)" "32 \<notin> set token"
      by (rule bearer_token_Some)
    have "\<exists>token rest d. \<exists>u \<in> set (users (db w)). \<exists>m \<in> set (memberships (db w)).
        req_authorization req = Some (lit ''Bearer '' @ token @ rest) \<and> 32 \<notin> set token \<and>
        jwt_verify P (tick w) token = Some d \<and>
        decoded_id d = Some (user_id u) \<and> user_deletedAt u = None \<and>
        decoded_organizationId d = Some (m_organizationId m) \<and> m_userId m = user_id u \<and> m_status m = Active \<and>
        ctx_user c = toUserDomain u (m_organizationId m) \<and> ctx_organizationId c = m_organizationId m \<and>
        ctx_membershipId c = m_id m \<and> ctx_role c = m_role m"
      by (rule exI[of _ token], rule exI[of _ rest], rule exI[of _ d], rule bexI[of _ u], rule bexI[of _ m])
         (use b(2-) rest u' m' c in \<open>auto simp: live_user_def active_in_def\<close>)
    with authMiddleware_db[OF assms] show ?thesis by (simp add: Inr)
  qed
qed

definition sample_http_platform :: platform where
  "sample_http_platform = sample_platform\<lparr>jwt_verify := (\<lambda>t s. Some \<lparr>decoded_id = Some (lit ''u''), decoded_email = Some (lit ''a''),
     decoded_organizationId = Some (lit ''o''), decoded_iat = None, decoded_exp = None\<rparr>)\<rparr>"

definition sample_request :: http_request where
  "sample_request = \<lparr>req_authorization = Some (lit ''Bearer j''), req_refreshCookie = Some (lit ''t''),
     req_userAgent = None, req_ip = None\<rparr>"

theorem middleware_sound_witness:
  "ctx_role (returned (authMiddleware sample_http_platform sample_request) sample_world) = Owner"
proof -
  have "succeeds (authMiddleware sample_http_platform sample_request) sample_world"
    by (simp add: evaluate sample_http_platform_def sample_request_def)
  from middleware_sound[OF returned_run[OF this]] show ?thesis
    by (auto simp: sample_world_def sample_membership_def)
qed

text \<open>Who asks: the user and the organization that the bearer token of a request names, verified when it is read.\<close>

definition asked_by :: "platform \<Rightarrow> http_request \<Rightarrow> nat \<Rightarrow> jstr \<Rightarrow> jstr \<Rightarrow> bool" where
  "asked_by P req t u v \<longleftrightarrow> (\<exists>token rest d. req_authorization req = Some (lit ''Bearer '' @ token @ rest) \<and>
     32 \<notin> set token \<and> jwt_verify P t token = Some d \<and> decoded_id d = Some u \<and> decoded_organizationId d = Some v)"

text \<open>
  C36. A role change or a removal that is answered 200 was asked for by an active owner of the organization the
  membership belongs to: the bearer token of the request, verified, names a live user and that organization, and she
  has an active membership there as owner. Any other answer leaves the database as it was.
\<close>

theorem member_changes_need_owner:
  assumes "answer env (http_changeMemberRole P req i role) w = (resp, w') \<or>
     answer env (http_removeMembership P req i) w = (resp, w')"
  shows "(resp_status resp = 200 \<longrightarrow>
      (\<exists>u \<in> set (users (db w)). \<exists>m \<in> set (memberships (db w)). \<exists>target \<in> set (memberships (db w)).
        asked_by P req (tick w) (user_id u) (m_organizationId m) \<and>
        user_deletedAt u = None \<and> m_userId m = user_id u \<and> m_status m = Active \<and> m_role m = Owner \<and>
        m_id target = i \<and> m_organizationId target = m_organizationId m)) \<and>
    (resp_status resp \<noteq> 200 \<longrightarrow> db w' = db w)"
proof -
  have caller: "\<exists>u \<in> set (users (db w)). \<exists>m \<in> set (memberships (db w)).
      asked_by P req (tick w) (user_id u) (m_organizationId m) \<and> user_deletedAt u = None \<and> m_userId m = user_id u \<and>
      m_status m = Active \<and> m_role m = Owner \<and> ctx_membershipOrganizationId c = m_organizationId m"
    if "authMiddleware P req w = (Inr c, w1)" "ctx_role c = Owner" for c w1
    using that(1)
  proof (rule authMiddleware_Inr)
    fix token d u m
    assume b: "bearer_token (req_authorization req) = Some token" "jwt_verify P (tick w) token = Some d"
      "decoded_id d = Some (user_id u)" "decoded_organizationId d = Some (m_organizationId m)"
      and u: "List.find (\<lambda>v. user_id v = user_id u \<and> live_user v) (users (db w)) = Some u"
      and m: "List.find (active_in (user_id u) (m_organizationId m)) (memberships (db w)) = Some m"
      and c: "c = \<lparr>ctx_user = toUserDomain u (m_organizationId m), ctx_organizationId = m_organizationId m,
       ctx_membershipId = m_id m, ctx_role = m_role m, ctx_membershipOrganizationId = m_organizationId m,
       ctx_membershipUserId = m_userId m\<rparr>"
    have "asked_by P req (tick w) (user_id u) (m_organizationId m)"
      using b by (auto simp: asked_by_def elim!: bearer_token_Some)
    then show ?thesis
      by (intro bexI[of _ u] bexI[of _ m])
         (use that(2) c find_SomeD[OF u] find_SomeD[OF m] in \<open>auto simp: live_user_def active_in_def\<close>)
  qed
  have named: "\<exists>u \<in> set (users (db w)). \<exists>m \<in> set (memberships (db w)). \<exists>target \<in> set (memberships (db w)).
      asked_by P req (tick w) (user_id u) (m_organizationId m) \<and>
      user_deletedAt u = None \<and> m_userId m = user_id u \<and> m_status m = Active \<and> m_role m = Owner \<and>
      m_id target = i \<and> m_organizationId target = m_organizationId m"
    if "authMiddleware P req w = (Inr c, w1)" "ctx_role c = Owner" "target \<in> set (memberships (db w1))" "m_id target = i"
      "m_organizationId target = ctx_membershipOrganizationId c" for c w1 target
    using caller[OF that(1,2)] that(3-5) authMiddleware_db[OF that(1)] by metis
  from assms consider
      (change) r where "http_changeMemberRole P req i role w = (r, w')" "resp = (case r of Inl e \<Rightarrow> errorHandler env e | Inr x \<Rightarrow> x)"
    | (remove) r where "http_removeMembership P req i w = (r, w')" "resp = (case r of Inl e \<Rightarrow> errorHandler env e | Inr x \<Rightarrow> x)"
    by (fastforce simp: answer_def split: prod.splits sum.splits)
  then show ?thesis
  proof cases
    case change
    from change(1)[unfolded http_changeMemberRole_def] show ?thesis
    proof (cases rule: owner_request_cases)
      case (refused e)
      with change(2) show ?thesis by (simp add: errorHandler_def split: prod.splits)
    next
      case (failed c w1 e)
      with ChangeMemberRole_Inl ChangeMemberRole_status change(2) authMiddleware_db[OF failed(2)] show ?thesis
        by (fastforce simp: errorHandler_def split: prod.splits)
    next
      case (ok c w1 y)
      from ok(4) have "ChangeMemberRole i (ctx_membershipOrganizationId c) (invite_membership_role role) (role_text (ctx_role c)) w1 = (Inr (), w')"
        by simp
      then show ?thesis
        by (rule ChangeMemberRole_Inr) (use named[OF ok(2,3)] ok(1) change(2) in \<open>simp add: successResponse_def\<close>)
    qed
  next
    case remove
    from remove(1)[unfolded http_removeMembership_def] show ?thesis
    proof (cases rule: owner_request_cases)
      case (refused e)
      with remove(2) show ?thesis by (simp add: errorHandler_def split: prod.splits)
    next
      case (failed c w1 e)
      with RemoveMembership_Inl RemoveMembership_status remove(2) authMiddleware_db[OF failed(2)] show ?thesis
        by (fastforce simp: errorHandler_def split: prod.splits)
    next
      case (ok c w1 y)
      from ok(4) have "RemoveMembership i (ctx_membershipOrganizationId c) (role_text (ctx_role c)) (ctx_userId c) w1 = (Inr (), w')"
        by simp
      then show ?thesis
        by (rule RemoveMembership_Inr) (use named[OF ok(2,3)] ok(1) remove(2) in \<open>simp add: successResponse_def\<close>)
    qed
  qed
qed

theorem member_changes_need_owner_witness:
  "\<exists>m \<in> set (memberships (db sample_member_world)). \<exists>target \<in> set (memberships (db sample_member_world)).
     m_role m = Owner \<and> m_id target = lit ''k'' \<and> m_organizationId target = m_organizationId m"
proof -
  let ?run = "answer Production (http_changeMemberRole sample_http_platform sample_request (lit ''k'') InviteAdmin) sample_member_world"
  have "resp_status (fst ?run) = 200"
    by (simp add: evaluate answer_def sample_http_platform_def sample_request_def sample_member_world_def)
  with member_changes_need_owner[OF disjI1[OF surjective_pairing[of ?run]]] show ?thesis by blast
qed

text \<open>
  An error becomes the status its kind stands for, a duplicate key 409, and everything unforeseen
  500; the message of a client's mistake is sent as it is, and outside development and test no message
  of a server fault is.
\<close>

theorem error_answers:
  "resp_status (errorHandler env e) = (case e of
      AppError _ s \<Rightarrow> s
    | DomainError k _ \<Rightarrow> (case k of Validation \<Rightarrow> 400 | Unauthorized \<Rightarrow> 401 | Forbidden \<Rightarrow> 403 | Not_found \<Rightarrow> 404 | Conflict \<Rightarrow> 409)
    | UniqueConstraintError _ \<Rightarrow> 409
    | _ \<Rightarrow> 500) \<and>
   (resp_status (errorHandler env e) < 500 \<longrightarrow> resp_message (errorHandler env e) = (case e of
      AppError m _ \<Rightarrow> m | DomainError _ m \<Rightarrow> m | _ \<Rightarrow> ''Duplicate value'')) \<and>
   (500 \<le> resp_status (errorHandler env e) \<and> env \<in> {Staging, Production} \<longrightarrow>
      resp_message (errorHandler env e) = ''Something went wrong!'') \<and>
   resp_data (errorHandler env e) = NoData"
  by (cases e) (auto simp: errorHandler_def toAppError_def DOMAIN_ERROR_STATUS_def MASKED_SERVER_ERROR_MESSAGE_def
      split: error_kind.splits)

theorem error_answers_witness:
  "resp_message (errorHandler Production (DatabaseError ''users.email'')) = ''Something went wrong!''"
proof -
  have "500 \<le> resp_status (errorHandler Production (DatabaseError ''users.email''))"
    by (simp add: errorHandler_def toAppError_def)
  then show ?thesis using error_answers[of Production "DatabaseError ''users.email''"] by simp
qed

text \<open>
  Logging out is always answered the same success that clears the cookie, whatever the cookie holds
  and whatever becomes of the revocation.
\<close>

theorem logout_always_answers:
  "fst (answer env (http_logout P req) w) =
     \<lparr>resp_status = 200, resp_message = ''Logged out successfully'', resp_data = NoData,
      resp_cookie = Some ClearRefreshCookie, resp_retryAfter = None\<rparr>"
  by (auto simp: answer_def http_logout_def run_andThen run_tryCatch successResponse_def split: option.splits prod.splits sum.splits)

end
