(* ===== verification/SystemProperties.thy ===== *)
theory SystemProperties imports TrackingSystem AuthHttpProperties begin

text \<open>
  The guarantees that hold across every sequence of requests and jobs, in any order: the invariants of
  the reachable states, and what stays refused for good.
\<close>

text \<open>
  C1. Whatever requests and deliveries an initially empty system has served, no family of refresh
  tokens has two live tokens, no two tokens share a hash, and a live token has not been replaced.
\<close>

theorem one_live_token_per_family:
  assumes "inj (random_uuid P)" "reaches (server_step P env) empty_world w"
  shows "distinct (map rt_tokenHash (refresh_tokens (db w))) \<and>
     (\<forall>s \<in> set (refresh_tokens (db w)). rt_revokedAt s = None \<longrightarrow> rt_replacedById s = None \<and>
        (\<forall>t \<in> set (refresh_tokens (db w)). rt_revokedAt t = None \<longrightarrow> rt_familyId s = rt_familyId t \<longrightarrow> s = t))"
  using served_auth_inv[OF assms(2,1)] by (simp add: auth_inv_def session_inv_def session_rows_def live_def)

text \<open>The requests a sample history serves, from the empty system.\<close>

definition sample_owner_platform :: platform where
  "sample_owner_platform = sample_platform\<lparr>jwt_verify := (\<lambda>t s. Some \<lparr>decoded_id = Some [1],
     decoded_email = Some (lit ''b''), decoded_organizationId = Some [3], decoded_iat = None, decoded_exp = None\<rparr>),
     queue_enabled := (\<lambda>t. True)\<rparr>"

definition sample_served :: world where
  "sample_served = snd (createAuthRouter sample_owner_platform Production (PostRegister sample_request sample_register) empty_world)"

lemma sample_owner_uuid_inj: "inj (random_uuid sample_owner_platform)"
  by (simp add: sample_owner_platform_def sample_platform_def inj_def)

lemma sample_served_reached: "reaches (server_step sample_owner_platform Production) empty_world sample_served"
  unfolding sample_served_def by (rule reaches_step, rule reaches_refl, rule server_step.auth, rule auth_request)

theorem one_live_token_per_family_witness:
  "distinct (map rt_tokenHash (refresh_tokens (db sample_served)))"
  using one_live_token_per_family[OF sample_owner_uuid_inj sample_served_reached] by blast

definition sample_invited :: world where
  "sample_invited = snd (organization_routers sample_owner_platform Production
     (PostInvites sample_request [3] (lit ''y'') InviteMember) sample_served)"

lemma sample_invited_reached: "reaches (server_step sample_owner_platform Production) empty_world sample_invited"
  unfolding sample_invited_def by (rule reaches_step, rule sample_served_reached, rule server_step.auth, rule organization_request)

text \<open>What the two requests of the sample history leave, worked out once.\<close>

lemma sample_served_run:
  "length (organizations (db sample_served)) = 1 \<and> map inv_acceptedAt (organization_invites (db sample_invited)) = [None]"
  by (simp add: evaluate sample_invited_def sample_served_def sample_owner_platform_def sample_request_def sample_register_def
      slug_text_def is_lower_alnum_def)

text \<open>
  C2. In every state the system can reach, every organization has an active owner, nobody is a member
  of an organization twice, and membership ids are unique.
\<close>

theorem organizations_stay_owned:
  assumes "inj (random_uuid P)" "reaches (server_step P env) empty_world w"
  shows "(\<forall>v \<in> set (organizations (db w)). \<exists>m \<in> set (memberships (db w)).
      m_organizationId m = org_id v \<and> m_role m = Owner \<and> m_status m = Active) \<and>
     distinct (map (\<lambda>m. (m_userId m, m_organizationId m)) (memberships (db w))) \<and>
     distinct (map m_id (memberships (db w)))"
  using served_auth_inv[OF assms(2,1)]
  by (auto simp: auth_inv_def owned_inv_def has_owner_def is_active_owner_def membership_rows_def)

theorem organizations_stay_owned_witness:
  "\<exists>v m. organizations (db sample_served) = [v] \<and> m \<in> set (memberships (db sample_served)) \<and>
      m_organizationId m = org_id v \<and> m_role m = Owner"
proof -
  from sample_served_run obtain v where "organizations (db sample_served) = [v]" by (auto simp: length_Suc_conv)
  with organizations_stay_owned[OF sample_owner_uuid_inj sample_served_reached] show ?thesis by auto
qed

text \<open>
  C30. In every state the system can reach, an address has at most one open invite to an organization,
  and no two invites share a token hash.
\<close>

theorem one_open_invite:
  assumes "inj (random_uuid P)" "reaches (server_step P env) empty_world w"
    and "i \<in> set (organization_invites (db w))" "j \<in> set (organization_invites (db w))"
    and "inv_acceptedAt i = None" "inv_acceptedAt j = None" "inv_organizationId i = inv_organizationId j"
    and "pg_lower P (inv_email i) = pg_lower P (inv_email j)"
  shows "i = j \<and> distinct (map inv_tokenHash (organization_invites (db w)))"
  using served_auth_inv[OF assms(2,1)] assms(3-8)
  by (simp add: auth_inv_def invite_inv_def invite_rows_def open_invite_def)

theorem one_open_invite_witness:
  "\<exists>i. organization_invites (db sample_invited) = [i] \<and> inv_acceptedAt i = None \<and>
     distinct (map inv_tokenHash (organization_invites (db sample_invited)))"
proof -
  from sample_served_run obtain i where i: "organization_invites (db sample_invited) = [i]" "inv_acceptedAt i = None"
    by (auto simp: map_eq_Cons_conv)
  with one_open_invite[OF sample_owner_uuid_inj sample_invited_reached, of i i] show ?thesis by simp
qed

text \<open>
  C3. A refresh token can be rotated once: after it was, every further rotation with it is refused,
  whatever the system has served in between.
\<close>

theorem token_rotates_once:
  assumes "RotateRefreshToken P raw a i w = (Inr x, w1)" "auth_inv P w" "reaches (server_step P env) w1 w2"
  shows "fst (RotateRefreshToken P raw b j w2) =
     Inl (DomainError Unauthorized ''Unauthorized: Invalid refresh token'')"
proof -
  have inv: "session_inv P w" "inj (random_uuid P)" using assms(2) by (simp_all add: auth_inv_def)
  have "auth_inv P w1" by (rule keepsD'[OF auth_kept.refresh assms(1,2)])
  then have "past_le P w1 w2" using server_history.reaches_le assms(3) by blast
  then have "past_inv P {sha256_hex P raw} {} w2"
    using rotated_token_spent[OF assms(1) inv] by (simp add: past_le_def)
  then show ?thesis using past_token_refused[of P w2] by (auto simp: past_inv_def past_rows_def)
qed

theorem token_rotates_once_witness:
  "fst (RotateRefreshToken sample_platform (lit ''t'') None None
      (final (RotateRefreshToken sample_platform (lit ''t'') None None) sample_system_world)) =
     Inl (DomainError Unauthorized ''Unauthorized: Invalid refresh token'')"
proof -
  have "succeeds (RotateRefreshToken sample_platform (lit ''t'') None None) sample_system_world"
    by (simp add: evaluate sample_system_world_def)
  from token_rotates_once[OF returned_run[OF this] sample_auth_inv reaches_refl[of _ "_ :: world"]] show ?thesis .
qed

text \<open>
  C4. Signing out is final: after it, no token of the family is live, and a rotation with any of them
  is refused, whatever the system has served in between.
\<close>

theorem logout_is_final:
  assumes "RevokeRefreshTokenFamily P raw w = (Inr (), w1)" "auth_inv P w" "reaches (server_step P env) w1 w2"
    and "t \<in> set (refresh_tokens (db w))" "rt_tokenHash t = sha256_hex P raw"
    and "s \<in> set (refresh_tokens (db w2))" "rt_familyId s = rt_familyId t" "rt_tokenHash s = sha256_hex P raw'"
  shows "rt_revokedAt s \<noteq> None \<and> fst (RotateRefreshToken P raw' a i w2) =
     Inl (DomainError Unauthorized ''Unauthorized: Invalid refresh token'')"
proof -
  have inv: "session_inv P w" using assms(2) by (simp add: auth_inv_def)
  have "auth_inv P w1" by (rule keepsD'[OF auth_kept.logout assms(1,2)])
  then have "past_le P w1 w2" using server_history.reaches_le assms(3) by blast
  then have past: "past_inv P {} {rt_familyId t} w2"
    using revoked_family_past[OF assms(1) inv assms(4,5)] by (simp add: past_le_def)
  then have "\<not> live s" using assms(6,7) by (auto simp: past_inv_def past_rows_def)
  with past_token_refused[of P w2 s] past assms(6,8) show ?thesis by (auto simp: past_inv_def live_def)
qed

theorem logout_is_final_witness:
  "fst (RotateRefreshToken sample_platform (lit ''t'') None None
      (final (RevokeRefreshTokenFamily sample_platform (lit ''t'')) sample_system_world)) =
     Inl (DomainError Unauthorized ''Unauthorized: Invalid refresh token'')"
proof -
  have "succeeds (RevokeRefreshTokenFamily sample_platform (lit ''t'')) sample_system_world"
    by (simp add: evaluate sample_system_world_def)
  from logout_is_final[OF unit_run[OF this] sample_auth_inv reaches_refl, of sample_token
      "sample_token\<lparr>rt_revokedAt := Some 10\<rparr>" "lit ''t''" None None]
  show ?thesis by (simp add: evaluate sample_system_world_def)
qed

text \<open>
  C26. A reset token works once: after a password was set with it, it is refused, whatever the system
  has served in between.
\<close>

theorem reset_token_works_once:
  assumes "ResetPassword P token p c w = (Inr (), w1)" "auth_inv P w" "reaches (server_step P env) w1 w2"
    and "\<forall>t p. isBcryptHash (bcrypt_hash P t p)"
  shows "fst (ResetPassword P token p' c' w2) \<noteq> Inr ()"
proof -
  have "auth_inv P w1" by (rule keepsD'[OF auth_kept.reset assms(1,2)])
  then have "past_le P w1 w2" using server_history.reaches_le assms(3) by blast
  moreover have "reset_used (sha256_hex P token) w1"
  proof (rule ResetPassword_Inr[OF assms(1,4)])
    fix t u stored
    assume t: "List.find (\<lambda>t. ott_tokenHash t = sha256_hex P token) (password_reset_tokens (db w)) = Some t"
      and w1: "db w1 = (db w)\<lparr>users := users (db w1),
        password_reset_tokens := use_row (ott_id t) (clock P (tick w)) (password_reset_tokens (db w))\<rparr>"
    show ?thesis unfolding reset_used_def by (subst (1) w1) (simp add: find_use_row[OF t])
  qed
  ultimately have "reset_used (sha256_hex P token) w2" by (simp add: past_le_def)
  then show ?thesis using ResetPassword_used by (auto simp: reset_used_def)
qed

theorem reset_token_works_once_witness:
  "fst (ResetPassword sample_platform (lit ''k'') (lit ''r'') (lit ''r'')
     (final (ResetPassword sample_platform (lit ''k'') (lit ''q'') (lit ''q'')) sample_system_world)) \<noteq> Inr ()"
proof -
  have "succeeds (ResetPassword sample_platform (lit ''k'') (lit ''q'') (lit ''q'')) sample_system_world"
    by (simp add: evaluate sample_system_world_def sample_reset_token_def)
  from reset_token_works_once[OF unit_run[OF this] sample_auth_inv reaches_refl] sample_bcrypt show ?thesis by blast
qed

text \<open>
  C32. A job is done once: after the worker has handled a message, every later delivery of it changes
  nothing, whatever the system has served in between.
\<close>

theorem job_handled_once:
  assumes "auth_job_handler P k body (Some m) queue w = (Inr (), w1)" "auth_inv P w"
    and "reaches (server_step P env) w1 w2"
  shows "auth_job_handler P k body (Some m) queue w2 = (Inr (), w2)"
proof -
  have "auth_step P env w w1" using auth_delivery[of P env w k body "Some m" queue] assms(1) by simp
  then have "auth_inv P w1" by (rule auth_kept.step_kept[OF assms(2)])
  then have "past_le P w1 w2" using server_history.reaches_le assms(3) by blast
  moreover have handled: "usable_message_id (Some m)" "recorded m queue w1"
    using auth_job_recorded[OF assms(1)] by simp_all
  ultimately have "recorded m queue w2" by (simp add: past_le_def)
  then show ?thesis using auth_job_duplicate[OF assms(1)] by blast
qed

definition sample_job_body :: parsed_body where
  "sample_job_body = BodyObject (\<lambda>_. Some (lit ''00000000-0000-0000-0000-000000000000''))"

theorem job_handled_once_witness:
  "auth_job_handler sample_platform SendPasswordResetEmail sample_job_body (Some (lit ''m'')) (lit ''q'')
      (final (auth_job_handler sample_platform SendPasswordResetEmail sample_job_body (Some (lit ''m'')) (lit ''q'')) sample_system_world) =
    (Inr (), final (auth_job_handler sample_platform SendPasswordResetEmail sample_job_body (Some (lit ''m'')) (lit ''q'')) sample_system_world)"
proof -
  have uuid: "isUuid (lit ''00000000-0000-0000-0000-000000000000'')"
    by (simp add: isUuid_def lit_def is_hex_def is_digit_def lessThan_Suc eval_nat_numeral)
  have "succeeds (auth_job_handler sample_platform SendPasswordResetEmail sample_job_body (Some (lit ''m'')) (lit ''q'')) sample_system_world"
    using uuid
    by (simp add: SendPasswordResetEmailHandler_def job_id_field_def sample_job_body_def readJobBody_def liftEither_def
        runOnce_def runOnce_transaction_def runInTransaction_def ProcessedMessage_create_def run_bind run_andThen
        RequestPasswordReset_executeInTransaction_def User_findById_def usable_message_id_def MAX_MESSAGE_ID_LENGTH_def
        Let_def sample_system_world_def sample_world_def sample_user_def lit_def succeeds_def empty_database_def live_user_def)
  from job_handled_once[OF unit_run[OF this] sample_auth_inv reaches_refl] show ?thesis .
qed

end
