(* ===== verification/TrackingProperties.thy ===== *)
theory TrackingProperties imports TrackingDeletion MetricText SystemProperties begin

text \<open>
  The guarantees of the tracking features: the integrity of their tables in every state the server
  reaches, and what a request reaches for the tenant its token names.
\<close>

section \<open>A sample tenant\<close>

definition sample_metric :: metric_row where
  "sample_metric = \<lparr>mt_id = [3], mt_userId = lit ''u'', mt_name = lit ''Steps'', mt_defaultUnit = lit ''steps'',
     mt_isPublic = False, mt_createdAt = 0, mt_updatedAt = 0, mt_categoryId = None, mt_originalMetricId = None,
     mt_description = None, mt_deletedAt = None, mt_organizationId = lit ''o''\<rparr>"

definition sample_settings :: settings_row where
  "sample_settings = \<lparr>ms_id = [4], ms_metricId = [3], ms_isActive = True, ms_goalEnabled = True,
     ms_goalType = Some Cumulative, ms_goalValue = Some (Finite 5), ms_timeFrameEnabled = False, ms_startDate = None,
     ms_deadlineDate = None, ms_alertEnabled = False, ms_alertThresholds = Some 80, ms_isAchieved = False,
     ms_displayOptions = default_display, ms_createdAt = 0, ms_updatedAt = 0, ms_organizationId = lit ''o''\<rparr>"

definition sample_log :: log_row where
  "sample_log = \<lparr>ml_id = [5], ml_metricId = [3], ml_logValue = Finite 7, ml_type = Manual, ml_loggedAt = 60000,
     ml_createdAt = 0, ml_updatedAt = 0, ml_organizationId = lit ''o''\<rparr>"

definition sample_tracking_world :: world where
  "sample_tracking_world = sample_world\<lparr>db := (db sample_world)\<lparr>metrics := [sample_metric],
     metric_settings := [sample_settings], metric_logs := [sample_log]\<rparr>\<rparr>"

lemma sample_tracking_inv: "tracking_inv sample_platform sample_tracking_world"
  using sample_uuid_inj
  by (simp add: tracking_inv_def tracking_rows_def table_defs linked_def id_rows_def unique_keys_def in_category_def has_metric_def
      sample_tracking_world_def sample_world_def empty_database_def sample_metric_def sample_settings_def sample_log_def
      nonempty_def used_uuids_def sample_platform_def settings_validate_def log_validate_def js_le_def metric_settings.defs
      image_iff)

section \<open>Reached states\<close>

text \<open>
  C5. In every state that requests and jobs reach from the empty system, the rows of each of the four tables have
  ids of their own; no two live metrics of a user share a name, and no two live categories of hers do; a metric has at
  most one settings row, and no two logs of it share an instant. The category of a metric is one of the same user in
  the same organization, settings and logs belong to a metric of their organization, and no stored log value is negative.
\<close>

theorem tracking_tables_intact:
  assumes "inj (random_uuid P)" "reaches (server_step P env) empty_world w"
  shows "distinct (map mt_id (metrics (db w))) \<and> distinct (map mc_id (metric_categories (db w))) \<and>
     distinct (map ms_id (metric_settings (db w))) \<and> distinct (map ml_id (metric_logs (db w))) \<and>
     (\<forall>r \<in> set (metrics (db w)). \<forall>s \<in> set (metrics (db w)). mt_deletedAt r = None \<longrightarrow> mt_deletedAt s = None \<longrightarrow>
        mt_userId r = mt_userId s \<longrightarrow> pg_lower P (mt_name r) = pg_lower P (mt_name s) \<longrightarrow> r = s) \<and>
     (\<forall>c \<in> set (metric_categories (db w)). \<forall>e \<in> set (metric_categories (db w)). mc_deletedAt c = None \<longrightarrow> mc_deletedAt e = None \<longrightarrow>
        mc_userId c = mc_userId e \<longrightarrow> pg_lower P (mc_name c) = pg_lower P (mc_name e) \<longrightarrow> c = e) \<and>
     (\<forall>s \<in> set (metric_settings (db w)). \<forall>t \<in> set (metric_settings (db w)). ms_metricId s = ms_metricId t \<longrightarrow> s = t) \<and>
     (\<forall>l \<in> set (metric_logs (db w)). \<forall>m \<in> set (metric_logs (db w)).
        ml_metricId l = ml_metricId m \<longrightarrow> ml_loggedAt l = ml_loggedAt m \<longrightarrow> l = m) \<and>
     (\<forall>r \<in> set (metrics (db w)). \<forall>k. mt_categoryId r = Some k \<longrightarrow> k \<noteq> [] \<longrightarrow> (\<exists>c \<in> set (metric_categories (db w)).
        mc_id c = k \<and> mc_userId c = mt_userId r \<and> mc_organizationId c = mt_organizationId r)) \<and>
     (\<forall>s \<in> set (metric_settings (db w)). \<exists>r \<in> set (metrics (db w)).
        mt_id r = ms_metricId s \<and> mt_organizationId r = ms_organizationId s) \<and>
     (\<forall>l \<in> set (metric_logs (db w)). (\<exists>r \<in> set (metrics (db w)).
        mt_id r = ml_metricId l \<and> mt_organizationId r = ml_organizationId l) \<and> \<not> js_less (ml_logValue l) (Finite 0))"
proof -
  have "tracking_rows P (used_uuids P w) (db w)"
    using served_inv[OF assms(2,1)] by (simp add: server_inv_def tracking_inv_def)
  then have "metric_table P (used_uuids P w) (metrics (db w))" "category_table P (used_uuids P w) (metric_categories (db w))"
    "settings_table (used_uuids P w) (metric_settings (db w))" "log_table (used_uuids P w) (metric_logs (db w))" "linked (db w)"
    by (simp_all add: tracking_rows_def)
  then show ?thesis
    unfolding table_defs linked_def has_metric_def id_rows_def unique_keys_def in_category_def
    by (intro conjI) (auto simp: live_metric_def live_category_def owned_category_def nonempty_def log_validate_def split: if_splits)
qed

definition sample_new_metric :: create_metric_dto where
  "sample_new_metric = \<lparr>cm_userId = [], cm_organizationId = [], cm_categoryId = None, cm_originalMetricId = None,
     cm_name = lit ''Steps'', cm_description = None, cm_defaultUnit = lit ''steps'', cm_isPublic = False\<rparr>"

definition sample_tracked :: world where
  "sample_tracked = snd (tracking_routers sample_owner_platform Production
     (MetricRoute (PostMetric sample_request sample_new_metric)) sample_served)"

lemma sample_tracked_reached: "reaches (server_step sample_owner_platform Production) empty_world sample_tracked"
  unfolding sample_tracked_def by (rule reaches_step, rule sample_served_reached, rule server_step.tracking)

lemma sample_tracked_run:
  "length (metrics (db sample_tracked)) = 1 \<and> map ms_goalEnabled (metric_settings (db sample_tracked)) = [False]"
  by (simp add: evaluate sample_tracked_def sample_new_metric_def sample_served_def sample_owner_platform_def
      sample_request_def sample_register_def slug_text_def is_lower_alnum_def metric_settings.defs metric.defs)

theorem tracking_tables_intact_witness:
  "\<exists>s r. metric_settings (db sample_tracked) = [s] \<and> metrics (db sample_tracked) = [r] \<and>
     mt_id r = ms_metricId s \<and> mt_organizationId r = ms_organizationId s"
proof -
  from sample_tracked_run obtain s r where "metric_settings (db sample_tracked) = [s]" "metrics (db sample_tracked) = [r]"
    by (auto simp: length_Suc_conv map_eq_Cons_conv)
  with tracking_tables_intact[OF sample_owner_uuid_inj sample_tracked_reached] show ?thesis by auto
qed

section \<open>Tenants\<close>

text \<open>The request a route was called with, and the tenant its token names.\<close>

fun request_of :: "tracking_request \<Rightarrow> http_request" where
  "request_of (MetricRoute (PostMetric req _)) = req"
| "request_of (MetricRoute (PutMetric req _ _)) = req"
| "request_of (MetricRoute (DeleteMetricRoute req _)) = req"
| "request_of (MetricRoute (PostDummyMetrics req _)) = req"
| "request_of (CategoryRoute (PostCategory req _ _ _)) = req"
| "request_of (CategoryRoute (GetCategoryRoute req _)) = req"
| "request_of (CategoryRoute (PutCategory req _ _ _ _)) = req"
| "request_of (CategoryRoute (DeleteCategoryRoute req _)) = req"
| "request_of (CategoryRoute (PostDummyCategories req _)) = req"
| "request_of (SettingsRoute (PostSettings req _)) = req"
| "request_of (SettingsRoute (GetSettings req _)) = req"
| "request_of (SettingsRoute (PutSettings req _ _)) = req"
| "request_of (SettingsRoute (DeleteSettings req _)) = req"
| "request_of (SettingsRoute (PatchAchieve req _)) = req"
| "request_of (SettingsRoute (PatchDisplay req _ _)) = req"
| "request_of (LogRoute (PostLog req _)) = req"
| "request_of (LogRoute (GetLog req _ _)) = req"
| "request_of (LogRoute (PutLog req _ _)) = req"
| "request_of (LogRoute (DeleteLog req _)) = req"
| "request_of (LogRoute (PostDummyLogs req _ _)) = req"

definition tenant_of :: "platform \<Rightarrow> http_request \<Rightarrow> world \<Rightarrow> (jstr \<times> jstr) option" where
  "tenant_of P req w = (case fst (authMiddleware P req w) of
      Inl _ \<Rightarrow> None | Inr c \<Rightarrow> Some (ctx_userId c, ud_organizationId (ctx_user c)))"

lemma answer_fst: "fst (answer env m w) = (case fst (m w) of Inr r \<Rightarrow> r | Inl e \<Rightarrow> errorHandler env e)"
  "snd (answer env m w) = snd (m w)"
  by (auto simp: answer_def split: prod.splits sum.splits)

text \<open>A handler reaches what its use case reaches for the tenant of the token; without one it does nothing.\<close>

lemma http_tracking_reach:
  assumes use_case: "\<And>u v. tenant_of P req w = Some (u, v) \<Longrightarrow> keeps (Q u v) (use u v)"
    and base: "\<And>u v w'. tenant_of P req w = Some (u, v) \<Longrightarrow> tick w \<le> tick w' \<Longrightarrow> db w' = db w \<Longrightarrow> Q u v w'"
  shows "case tenant_of P req w of
      None \<Rightarrow> db (snd (http_tracking P req st msg data use w)) = db w
    | Some (u, v) \<Rightarrow> Q u v (snd (http_tracking P req st msg data use w))"
proof -
  obtain r w1 where run: "authMiddleware P req w = (r, w1)" by fastforce
  have db: "db w1 = db w" by (rule authMiddleware_db[OF run])
  have "ticks_grow (authMiddleware P req)" unfolding ticks_grow_def by (intro allI keeps_authMiddleware) (simp add: ignores_tick_def)
  from ticks_growD[OF this, of w] have tick: "tick w \<le> tick w1" by (simp add: run)
  show ?thesis
  proof (cases r)
    case (Inl e)
    with run db show ?thesis by (simp add: tenant_of_def http_tracking_def)
  next
    case (Inr c)
    then have tenant: "tenant_of P req w = Some (ctx_userId c, ud_organizationId (ctx_user c))"
      using run by (simp add: tenant_of_def)
    have "Q (ctx_userId c) (ud_organizationId (ctx_user c)) (snd (use (ctx_userId c) (ud_organizationId (ctx_user c)) w1))"
      by (rule keepsD[OF use_case[OF tenant] base[OF tenant tick db]])
    with base[OF tenant tick db] tenant run Inr show ?thesis
      by (cases "use (ctx_userId c) (ud_organizationId (ctx_user c)) w1")
        (auto simp: http_tracking_def assertAuthenticated_def run_bind split: sum.split)
  qed
qed

context tenant_writes begin

lemmas use_cases_kept = CreateMetric_kept UpdateMetric_kept DeleteMetric_kept GenerateDummyMetrics_kept category_use_cases_kept
  CreateMetricSettings_kept settings_use_cases_kept DeleteMetricSettings_kept UpdateMetricLog_kept DeleteMetricLog_kept
  GenerateDummyMetricLogs_kept

end

lemma readers_keep: "keeps Q (GetCategory u v k)" "keeps Q (GetMetricSettings u v k)" "keeps Q (log_of_metric m k u v)"
  unfolding log_of_metric_def by (intro keeps_rules)+

lemma frame_base: "tracking_inv P w \<Longrightarrow> tick w \<le> tick w' \<Longrightarrow> db w' = db w \<Longrightarrow> tenant_frame P u v w w'"
  using tracking_inv_frame[of P w w'] by (simp add: tenant_frame_def others_same_refl)

lemma tracking_reach:
  assumes "tracking_inv P w"
  shows "case tenant_of P (request_of r) w of
      None \<Rightarrow> db (snd (tracking_handler P r w)) = db w
    | Some (u, v) \<Rightarrow> tenant_frame P u v w (snd (tracking_handler P r w))"
  by (cases r rule: request_of.cases; simp only: request_of.simps tracking_handler.simps createMetricRouter.simps
      createMetricCategoryRouter.simps createMetricSettingsRouter.simps createMetricLogRouter.simps controllers;
      rule http_tracking_reach, intro frame_tenant.use_cases_kept frame_tenant.CreateMetricLog_kept readers_keep;
      simp add: frame_base[OF assms])

end
