(* ===== verification/TrackingOutcomes.thy ===== *)
theory TrackingOutcomes imports TrackingProperties begin

text \<open>
  What the operations of the tracking features do: a new metric and its settings, an update of settings
  against its schema, a new log, and the dummy-logs job delivered again.
\<close>

section \<open>Metrics and their settings\<close>

lemma Metric_create_Inr:
  assumes "Metric_create P x w = (Inr m, w')"
  obtains r where "m = metric.truncate r" "db w' = (db w)\<lparr>metrics := metrics (db w) @ [r]\<rparr>" "mt_userId r = cm_userId x"
    "mt_organizationId r = cm_organizationId x" "mt_name r = cm_name x" "mt_defaultUnit r = cm_defaultUnit x" "live_metric r"
    "metrics_check P r (metrics (db w)) = None" "mt_categoryId r = cm_categoryId x"
  using assms that
  by (fastforce simp: Metric_create_def run_bind run_andThen checked_def Let_def live_metric_def split: option.splits)

lemma createDefault_Inr:
  assumes "createDefault P k v w = (Inr (), w')"
  obtains s where "db w' = (db w)\<lparr>metric_settings := metric_settings (db w) @ [s]\<rparr>" "ms_metricId s = k" "ms_organizationId s = v"
    "\<not> ms_goalEnabled s" "\<not> ms_timeFrameEnabled s" "\<not> ms_alertEnabled s" "ms_isActive s"
  using assms that
  by (fastforce simp: createDefault_def run_MetricSettings_create run_andThen new_settings_row_def new_settings_def
      with_stored_dates_def metric_settings.defs split: option.splits)

lemma CreateMetric_cases:
  "CreateMetric P x w = runInTransaction (bind (Metric_create P x) (\<lambda>m.
       andThen (createDefault P (mt_id m) (cm_organizationId x)) (return m))) w \<or>
   (\<exists>e. CreateMetric P x w = (Inl e, w))"
  by (cases "nonempty (cm_categoryId x)"; cases "nonempty (cm_originalMetricId x)")
    (auto simp: CreateMetric_def run_bind Metric_categoryExists_def Metric_originalMetricExists_def Metric_existsByName_def)

text \<open>C8. \<open>CreateMetric\<close> writes both rows or none. When it succeeds the tables gain one metric, of the caller and
  under the name asked for, which no live metric of hers has in any capitalisation, and the settings of that metric,
  with the goal, the time frame and the alert switched off; no other row of any table changes. When it fails the
  database is as it was, also if the metric had been inserted and its settings were refused.\<close>

theorem create_metric_atomic:
  "case CreateMetric P x w of
     (Inl e, w') \<Rightarrow> db w' = db w
   | (Inr m, w') \<Rightarrow> \<exists>r s. m = metric.truncate r \<and>
       db w' = (db w)\<lparr>metrics := metrics (db w) @ [r], metric_settings := metric_settings (db w) @ [s]\<rparr> \<and>
       mt_userId r = cm_userId x \<and> mt_organizationId r = cm_organizationId x \<and> mt_name r = cm_name x \<and>
       mt_defaultUnit r = cm_defaultUnit x \<and> mt_deletedAt r = None \<and>
       filter (\<lambda>r'. mt_deletedAt r' = None \<and> mt_userId r' = cm_userId x \<and>
         pg_lower P (mt_name r') = pg_lower P (cm_name x)) (metrics (db w)) = [] \<and>
       ms_metricId s = mt_id r \<and> ms_organizationId s = cm_organizationId x \<and>
       \<not> ms_goalEnabled s \<and> \<not> ms_timeFrameEnabled s \<and> \<not> ms_alertEnabled s \<and> ms_isActive s"
proof (cases "CreateMetric P x w")
  case (Pair r w')
  show ?thesis
  proof (cases r)
    case (Inl e)
    with Pair CreateMetric_cases[of P x w] show ?thesis by (auto dest: runInTransaction_Inl sym)
  next
    case (Inr m)
    from CreateMetric_cases[of P x w] Pair Inr have "runInTransaction (bind (Metric_create P x) (\<lambda>m.
       andThen (createDefault P (mt_id m) (cm_organizationId x)) (return m))) w = (Inr m, w')" by (elim disjE exE) simp_all
    then have run: "bind (Metric_create P x) (\<lambda>m.
       andThen (createDefault P (mt_id m) (cm_organizationId x)) (return m)) w = (Inr m, w')"
      by (simp only: runInTransaction_Inr)
    then obtain w1 where w1: "Metric_create P x w = (Inr m, w1)" "createDefault P (mt_id m) (cm_organizationId x) w1 = (Inr (), w')"
      by (auto elim!: bind_InrE andThen_InrE)
    from Metric_create_Inr[OF w1(1)] obtain r where r: "m = metric.truncate r"
      "db w1 = (db w)\<lparr>metrics := metrics (db w) @ [r]\<rparr>" "mt_userId r = cm_userId x"
      "mt_organizationId r = cm_organizationId x" "mt_name r = cm_name x" "mt_defaultUnit r = cm_defaultUnit x" "live_metric r"
      "metrics_check P r (metrics (db w)) = None" by metis
    from createDefault_Inr[OF w1(2)] obtain s where s: "db w' = (db w1)\<lparr>metric_settings := metric_settings (db w1) @ [s]\<rparr>"
      "ms_metricId s = mt_id m" "ms_organizationId s = cm_organizationId x" "\<not> ms_goalEnabled s" "\<not> ms_timeFrameEnabled s"
      "\<not> ms_alertEnabled s" "ms_isActive s" by metis
    have "filter (\<lambda>r'. mt_deletedAt r' = None \<and> mt_userId r' = cm_userId x \<and>
         pg_lower P (mt_name r') = pg_lower P (cm_name x)) (metrics (db w)) = []"
      using r(3,5,7,8) by (auto simp: metrics_check_def live_metric_def filter_empty_conv split: if_splits)
    moreover have "mt_id m = mt_id r" using r(1) by (simp add: metric.defs)
    ultimately have "\<exists>r s. m = metric.truncate r \<and>
       db w' = (db w)\<lparr>metrics := metrics (db w) @ [r], metric_settings := metric_settings (db w) @ [s]\<rparr> \<and>
       mt_userId r = cm_userId x \<and> mt_organizationId r = cm_organizationId x \<and> mt_name r = cm_name x \<and>
       mt_defaultUnit r = cm_defaultUnit x \<and> mt_deletedAt r = None \<and>
       filter (\<lambda>r'. mt_deletedAt r' = None \<and> mt_userId r' = cm_userId x \<and>
         pg_lower P (mt_name r') = pg_lower P (cm_name x)) (metrics (db w)) = [] \<and>
       ms_metricId s = mt_id r \<and> ms_organizationId s = cm_organizationId x \<and>
       \<not> ms_goalEnabled s \<and> \<not> ms_timeFrameEnabled s \<and> \<not> ms_alertEnabled s \<and> ms_isActive s"
      using r s by (intro exI[of _ r] exI[of _ s]) (simp add: live_metric_def)
    with Pair Inr show ?thesis by simp
  qed
qed

section \<open>Settings\<close>

text \<open>Settings are coherent when what is switched on is there: the goal, the two dates in order, the threshold.\<close>

definition coherent :: "'a metric_settings_scheme \<Rightarrow> bool" where
  "coherent s \<longleftrightarrow>
     (ms_goalEnabled s \<longrightarrow> ms_goalType s \<noteq> None \<and> ms_goalValue s \<noteq> None) \<and>
     (ms_timeFrameEnabled s \<longrightarrow> (case (ms_startDate s, ms_deadlineDate s) of
        (Some start, Some deadline) \<Rightarrow> start < deadline | _ \<Rightarrow> False)) \<and>
     (ms_alertEnabled s \<longrightarrow> ms_alertThresholds s \<noteq> None)"

lemma body_frame:
  assumes "settingsBodyPartial P b = Some u"
  shows "su_timeFrameEnabled u = Some True \<or> su_timeFrameEnabled u = None \<and> (su_startDate u \<noteq> None \<or> su_deadlineDate u \<noteq> None) \<Longrightarrow>
     frame_ok (su_startDate u) (su_deadlineDate u)"
  using assms by (auto simp: settingsBodyPartial_def bind_eq_Some_conv split: if_splits)

lemma body_goal:
  assumes "settingsBodyPartial P b = Some u"
  shows "su_goalEnabled u = Some True \<Longrightarrow> \<not> nullish (su_goalType u) \<and> \<not> nullish (su_goalValue u)"
  using assms by (auto simp: settingsBodyPartial_def bind_eq_Some_conv goal_body_def split: if_splits option.splits)

lemma frame_ok_Some: "frame_ok s d \<longleftrightarrow> (\<exists>x y. s = Some (Some x) \<and> d = Some (Some y) \<and> x < y)"
  by (auto simp: frame_ok_def split: option.splits)

text \<open>What the entity makes of an update: what is switched off is cleared.\<close>

definition settled :: "settings_update \<Rightarrow> settings_update" where
  "settled u = u\<lparr>
     su_goalType := (if su_goalEnabled u = Some False then Some None else su_goalType u),
     su_goalValue := (if su_goalEnabled u = Some False then Some None else su_goalValue u),
     su_startDate := (if su_timeFrameEnabled u = Some False then Some None else su_startDate u),
     su_deadlineDate := (if su_timeFrameEnabled u = Some False then Some None else su_deadlineDate u),
     su_alertThresholds := (if su_alertEnabled u = Some False then Some None else su_alertThresholds u)\<rparr>"

text \<open>
  The request schema and the entity agree on what an update of settings may be. The entity never refuses
  a body the schema has let through, but for one case the schema forgets: an alert switched on without a threshold.
  Any other update is applied, with what it switches off cleared, and the row is stamped.
\<close>

theorem settings_schema_meets_entity:
  assumes "settingsBodyPartial P b = Some u"
  shows "fst (Settings_updateDetails P u s w) =
    (if su_alertEnabled u = Some True \<and> nullish (su_alertThresholds u)
     then Inl (DomainError Validation ''alertThresholds is required when alertEnabled is true'')
     else Inr ((spread_update (settled u) s)\<lparr>ms_updatedAt := clock P (tick w)\<rparr>))"
proof -
  have goal: "settle_goal u = Inr (u\<lparr>su_goalType := (if su_goalEnabled u = Some False then Some None else su_goalType u),
     su_goalValue := (if su_goalEnabled u = Some False then Some None else su_goalValue u)\<rparr>)" (is "_ = Inr ?g")
    using body_goal[OF assms] by (auto simp: settle_goal_def)
  have frame: "settle_time_frame ?g = Inr (?g\<lparr>su_startDate := (if su_timeFrameEnabled u = Some False then Some None else su_startDate u),
     su_deadlineDate := (if su_timeFrameEnabled u = Some False then Some None else su_deadlineDate u)\<rparr>)" (is "_ = Inr ?f")
    using body_frame[OF assms] by (auto simp: settle_time_frame_def frame_ok_Some)
  have "settle_alert ?f = (if su_alertEnabled u = Some True \<and> nullish (su_alertThresholds u)
     then Inl (DomainError Validation ''alertThresholds is required when alertEnabled is true'') else Inr (settled u))"
    by (auto simp: settle_alert_def settled_def)
  with goal frame show ?thesis
    by (simp add: Settings_updateDetails_def run_bind Settings_touch_def liftEither_def)
qed

text \<open>
  C12. An update the schema and the entity let through leaves coherent settings coherent, except in exactly
  two cases: a body that clears the goal's type or value, or the alert's threshold, and does not say whether the goal
  or the alert is on. Then the row keeps a goal that is switched on and has no target, or an alert without a threshold.
\<close>

theorem settings_update_coherent:
  assumes "settingsBodyPartial P b = Some u" "coherent s" "fst (Settings_updateDetails P u s w) = Inr s'"
  shows "coherent s' \<longleftrightarrow> \<not> (su_goalEnabled u = None \<and> ms_goalEnabled s \<and> (su_goalType u = Some None \<or> su_goalValue u = Some None)) \<and>
      \<not> (su_alertEnabled u = None \<and> ms_alertEnabled s \<and> su_alertThresholds u = Some None)"
proof -
  have s': "s' = (spread_update (settled u) s)\<lparr>ms_updatedAt := clock P (tick w)\<rparr>"
    "\<not> (su_alertEnabled u = Some True \<and> nullish (su_alertThresholds u))"
    using assms(3) unfolding settings_schema_meets_entity[OF assms(1)] by (simp_all split: if_splits)
  have goal: "(ms_goalEnabled s' \<longrightarrow> ms_goalType s' \<noteq> None \<and> ms_goalValue s' \<noteq> None) \<longleftrightarrow>
      \<not> (su_goalEnabled u = None \<and> ms_goalEnabled s \<and> (su_goalType u = Some None \<or> su_goalValue u = Some None))"
  proof (cases "su_goalEnabled u")
    case None
    with assms(2) show ?thesis
      by (cases "su_goalType u"; cases "su_goalValue u") (auto simp: s'(1) spread_update_def settled_def given_def coherent_def)
  next
    case (Some g)
    with body_goal[OF assms(1)] show ?thesis
      by (cases g; cases "su_goalType u"; cases "su_goalValue u")
        (auto simp: s'(1) spread_update_def settled_def given_def nullish_def)
  qed
  have frame: "ms_timeFrameEnabled s' \<longrightarrow> (case (ms_startDate s', ms_deadlineDate s') of
        (Some start, Some deadline) \<Rightarrow> start < deadline | _ \<Rightarrow> False)"
  proof (cases "frame_ok (su_startDate u) (su_deadlineDate u)")
    case True
    then show ?thesis unfolding frame_ok_Some by (auto simp: s'(1) spread_update_def settled_def given_def)
  next
    case False
    with body_frame[OF assms(1)] consider "su_timeFrameEnabled u = Some False" |
      "su_timeFrameEnabled u = None" "su_startDate u = None" "su_deadlineDate u = None"
      by (cases "su_timeFrameEnabled u") auto
    then show ?thesis
      using assms(2) by cases (simp_all add: s'(1) spread_update_def settled_def given_def coherent_def)
  qed
  have alert: "(ms_alertEnabled s' \<longrightarrow> ms_alertThresholds s' \<noteq> None) \<longleftrightarrow>
      \<not> (su_alertEnabled u = None \<and> ms_alertEnabled s \<and> su_alertThresholds u = Some None)"
    using assms(2) s'(2)
    by (cases "su_alertEnabled u"; cases "su_alertThresholds u")
      (auto simp: s'(1) spread_update_def settled_def given_def coherent_def nullish_def)
  have drop: "X \<and> F \<and> Y \<longleftrightarrow> X \<and> Y" if F for X F Y using that by simp
  show ?thesis unfolding coherent_def goal alert by (rule drop[OF frame])
qed

text \<open>The body that switches an alert on without a threshold.\<close>

definition alert_body :: settings_body where
  "alert_body = empty_settings_body\<lparr>sb_alertEnabled := Some True\<rparr>"

theorem settings_schema_meets_entity_witness:
  "settingsBodyPartial sample_platform alert_body = Some (no_settings_update\<lparr>su_alertEnabled := Some True\<rparr>) \<and>
   fst (Settings_updateDetails sample_platform (no_settings_update\<lparr>su_alertEnabled := Some True\<rparr>)
     (metric_settings.truncate sample_settings) sample_tracking_world) =
     Inl (DomainError Validation ''alertThresholds is required when alertEnabled is true'')"
proof -
  have body: "settingsBodyPartial sample_platform alert_body = Some (no_settings_update\<lparr>su_alertEnabled := Some True\<rparr>)"
    by (simp add: settingsBodyPartial_def alert_body_def empty_settings_body_def sent_def goal_body_def zDateOptionalNullable_def
        no_settings_update_def)
  show ?thesis
    using body settings_schema_meets_entity[OF body] by (simp add: no_settings_update_def nullish_def)
qed

text \<open>The body that clears the value of the sample goal.\<close>

definition cleared_goal_body :: settings_body where
  "cleared_goal_body = empty_settings_body\<lparr>sb_goalValue := Some None\<rparr>"

theorem settings_update_coherent_witness:
  "settingsBodyPartial sample_platform cleared_goal_body = Some (no_settings_update\<lparr>su_goalValue := Some None\<rparr>) \<and>
   coherent sample_settings \<and>
   (\<exists>s'. fst (Settings_updateDetails sample_platform (no_settings_update\<lparr>su_goalValue := Some None\<rparr>)
     (metric_settings.truncate sample_settings) sample_tracking_world) = Inr s' \<and> \<not> coherent s')"
proof -
  have body: "settingsBodyPartial sample_platform cleared_goal_body = Some (no_settings_update\<lparr>su_goalValue := Some None\<rparr>)"
    by (simp add: settingsBodyPartial_def cleared_goal_body_def empty_settings_body_def sent_def goal_body_def
        zDateOptionalNullable_def no_settings_update_def nullable_def)
  have coherent: "coherent (metric_settings.truncate sample_settings)" "coherent sample_settings"
    by (simp_all add: coherent_def sample_settings_def metric_settings.defs)
  obtain s' where "fst (Settings_updateDetails sample_platform (no_settings_update\<lparr>su_goalValue := Some None\<rparr>)
      (metric_settings.truncate sample_settings) sample_tracking_world) = Inr s'"
    using settings_schema_meets_entity[OF body] by (simp add: no_settings_update_def)
  with settings_update_coherent[OF body coherent(1) this] coherent body show ?thesis
    by (simp add: no_settings_update_def sample_settings_def metric_settings.defs)
qed

section \<open>Logs\<close>

text \<open>What a new log is: it is appended, for a metric of the caller, at an instant the metric has no log at.\<close>

definition log_appended :: "create_log_input \<Rightarrow> world \<Rightarrow> world \<Rightarrow> log_row \<Rightarrow> bool" where
  "log_appended x w w' r \<longleftrightarrow>
     db w' = (db w)\<lparr>metric_logs := metric_logs (db w) @ [r]\<rparr> \<and>
     owns_metric (db w) (cl_userId x) (cl_organizationId x) (cl_metricId x) \<and>
     ml_metricId r = cl_metricId x \<and> ml_organizationId r = cl_organizationId x \<and> ml_logValue r = cl_logValue x \<and>
     ml_type r = given (cl_type x) Manual \<and>
     filter (\<lambda>l. ml_metricId l = cl_metricId x \<and> ml_loggedAt l = ml_loggedAt r) (metric_logs (db w)) = []"

lemma Log_create_Inr:
  assumes "Log_create P k v nv ty t w = (Inr l, w')"
  obtains r where "l = metric_log.truncate r" "db w' = (db w)\<lparr>metric_logs := metric_logs (db w) @ [r]\<rparr>"
    "ml_metricId r = k" "ml_organizationId r = v" "ml_logValue r = nv" "ml_type r = ty" "ml_loggedAt r = t"
    "logs_check r (metric_logs (db w)) = None"
  using assms that by (fastforce simp: Log_create_def run_bind run_andThen checked_def Let_def split: option.splits)

lemma Log_create_Inl: "Log_create P k v nv ty t w = (Inl e, w') \<Longrightarrow> db w' = db w"
  by (auto simp: Log_create_def run_bind run_andThen checked_def Let_def split: option.splits)

lemma invalidate_cases: "invalidateCaches P w = (r, w') \<Longrightarrow>
   db w' = db w \<and> tick w' = Suc (tick w) \<and>
   r = (if redis_open P (tick w) \<and> \<not> redis_answers P (tick w) then Inl (ServiceError ''redis'') else Inr ())"
  by (auto simp: invalidateCaches_def run_bind newTick_def split: if_splits)

lemma log_timestamp_db: "log_timestamp P d w = (r, w') \<Longrightarrow> db w' = db w"
  by (auto simp: log_timestamp_def parseIsoToDate_def run_bind split: option.splits date_input.splits if_splits)

lemma ticks_grow_new_log: "ticks_grow (log_timestamp P d)" "ticks_grow (Log_create P k v nv ty t)"
  by (intro ticks_growI keeps_rules tick_bound_ignores tick_bound_ignores_tracking)+

lemma validateMetricAccess_fixes: "validateMetricAccess u v k w = (r, w') \<Longrightarrow> w' = w"
  by (auto simp: validateMetricAccess_def run_bind split: option.splits if_splits)

lemma validateMetricAccess_owns: "validateMetricAccess u v k w = (Inr x, w') \<Longrightarrow> owns_metric (db w) u v k"
  by (auto simp: validateMetricAccess_def run_bind owned_metric_def owns_metric_def list_ex_iff split: if_splits option.splits
      dest!: find_SomeD)


lemma dummy_logs_runs:
  assumes "GenerateDummyMetricLogsHandler P body count (Some m) queue w = (Inr (), w')"
  obtains js :: "nat list" and k v out w1 w2 where "runOnce (Some m) queue (forEach js (\<lambda>_. create_dummy_log P k v)) w1 = (Inr out, w2)"
    "invalidateCaches P w2 = (Inr (), w')"
  using assms unfolding GenerateDummyMetricLogsHandler_def by (elim bind_InrE andThen_InrE) (rule that)

lemma invalidate_db: "db (snd (invalidateCaches P w)) = db w"
  by (auto simp: invalidateCaches_def run_bind newTick_def)

lemma dummy_logs_recorded:
  assumes "GenerateDummyMetricLogsHandler P body count (Some m) queue w = (Inr (), w')"
  shows "usable_message_id (Some m)" "recorded m queue w'"
proof -
  from dummy_logs_runs[OF assms] obtain js :: "nat list" and k v out w1 w2
    where run: "runOnce (Some m) queue (forEach js (\<lambda>_. create_dummy_log P k v)) w1 = (Inr out, w2)"
      and rest: "invalidateCaches P w2 = (Inr (), w')" .
  from run show usable: "usable_message_id (Some m)" by (auto simp: runOnce_def split: if_splits)
  have "recorded m queue w2" by (rule runOnce_records[OF usable recorded_dummy_logs run])
  then show "recorded m queue w'" using invalidate_db[of P w2] rest by (simp add: recorded_def)
qed

text \<open>A delivery of a recorded message checks the access again, at most clears the caches, and writes nothing.\<close>

lemma checked_access: "snd (tryCatch (validateMetricAccess u v k) (\<lambda>error. throw (f error)) w) = w"
  by (auto simp: validateMetricAccess_def run_bind tryCatch_def split: option.splits if_splits)

lemma dummy_logs_duplicate:
  assumes "usable_message_id (Some m)" "recorded m queue w"
  shows "db (snd (GenerateDummyMetricLogsHandler P body count (Some m) queue w)) = db w"
proof (cases "parseJob body count")
  case (Inl e)
  then show ?thesis by (simp add: GenerateDummyMetricLogsHandler_def run_bind liftEither_def)
next
  case (Inr job)
  let ?check = "tryCatch (validateMetricAccess (dj_userId job) (dj_organizationId job) (dj_metricId job))
        (\<lambda>error. throw (terminal_access error))"
  show ?thesis
  proof (cases "?check w")
    case (Pair r w1)
    with checked_access[of "dj_userId job" "dj_organizationId job" "dj_metricId job" terminal_access w] have "w1 = w" by simp
    with Pair Inr show ?thesis
      by (cases r) (simp_all add: GenerateDummyMetricLogsHandler_def run_bind run_andThen liftEither_def
          runOnce_recorded[OF assms] invalidate_db)
  qed
qed

text \<open>
  C10. The worker writes the logs of a dummy-logs job once. After a delivery of the message has succeeded,
  whatever the server serves meanwhile, another delivery of it, in whatever body, writes nothing to the database.
\<close>

theorem dummy_logs_written_once:
  assumes "GenerateDummyMetricLogsHandler P body count (Some m) queue w = (Inr (), w1)" "auth_inv P w"
    and "reaches (server_step P env) w1 w2"
  shows "db (snd (GenerateDummyMetricLogsHandler P body' count' (Some m) queue w2)) = db w2"
proof -
  have "server_step P env w w1" using dummy_logs_delivery[of P env w body count "Some m" queue] assms(1) by simp
  then have "auth_inv P w1" using assms(2) by (rule auth_on_server.server_kept[rotated])
  then have "past_le P w1 w2" using server_history.reaches_le assms(3) by blast
  then have "recorded m queue w2" using dummy_logs_recorded(2)[OF assms(1)] by (simp add: past_le_def)
  with dummy_logs_recorded(1)[OF assms(1)] show ?thesis by (rule dummy_logs_duplicate)
qed

definition sample_dummy_world :: world where
  "sample_dummy_world = sample_system_world\<lparr>db := (db sample_system_world)\<lparr>metrics := [sample_metric\<lparr>
     mt_id := lit ''00000000-0000-0000-0000-000000000000'', mt_userId := lit ''00000000-0000-0000-0000-000000000000'',
     mt_organizationId := lit ''00000000-0000-0000-0000-000000000000''\<rparr>]\<rparr>\<rparr>"

theorem dummy_logs_written_once_witness:
  "metric_logs (db (final (GenerateDummyMetricLogsHandler sample_platform sample_job_body (Some (Finite 1)) (Some (lit ''m'')) (lit ''q''))
      sample_dummy_world)) \<noteq> [] \<and>
   db (snd (GenerateDummyMetricLogsHandler sample_platform sample_job_body (Some (Finite 1)) (Some (lit ''m'')) (lit ''q'')
      (final (GenerateDummyMetricLogsHandler sample_platform sample_job_body (Some (Finite 1)) (Some (lit ''m'')) (lit ''q''))
         sample_dummy_world))) =
     db (final (GenerateDummyMetricLogsHandler sample_platform sample_job_body (Some (Finite 1)) (Some (lit ''m'')) (lit ''q''))
      sample_dummy_world)"
proof -
  have uuid: "isUuid (lit ''00000000-0000-0000-0000-000000000000'')"
    by (simp add: isUuid_def lit_def is_hex_def is_digit_def lessThan_Suc eval_nat_numeral)
  let ?run = "GenerateDummyMetricLogsHandler sample_platform sample_job_body (Some (Finite 1)) (Some (lit ''m'')) (lit ''q'')"
  have run: "succeeds ?run sample_dummy_world" "metric_logs (db (final ?run sample_dummy_world)) \<noteq> []"
    using uuid
    by (simp_all add: GenerateDummyMetricLogsHandler_def parseJob_def job_id_field_def sample_job_body_def readJobBody_def
        liftEither_def dummy_count_def validateMetricAccess_def runOnce_def runOnce_transaction_def runInTransaction_def ProcessedMessage_create_def run_bind
        run_andThen usable_message_id_def MAX_MESSAGE_ID_LENGTH_def MAX_DUMMY_METRIC_LOGS_def Let_def sample_dummy_world_def
        sample_system_world_def sample_world_def sample_metric_def live_metric_def lit_def succeeds_def final_def empty_database_def
        create_dummy_log_def random_index_def newTick_def Log_create_def checked_def log_validate_def logs_check_def
        invalidateCaches_def sample_platform_def tryCatch_def)
  have inv: "auth_inv sample_platform sample_dummy_world"
    using sample_auth_inv by (rule auth_frame(1)[rotated 2]) (simp_all add: sample_dummy_world_def auth_tables_def)
  from run(2) dummy_logs_written_once[OF unit_run[OF run(1)] inv reaches_refl] show ?thesis by blast
qed

end
