(* ===== verification/TrackingLists.thy ===== *)
theory TrackingLists imports Tracking "HOL-Library.Product_Lexorder" begin

text \<open>
  The list queries of the tracking features (\<open>MetricCategoryRepoSequelize.list\<close>,
  \<open>MetricSettingsRepositorySequelize.listByCursor\<close>, \<open>MetricLogQueryRepoSequelize\<close> and
  \<open>MetricReadRepoSequelize.listMetrics\<close>) and the detail of a metric. A list is sorted by one of a few fields
  and then by id, in either direction, and is read page by page: a page answers a cursor, the sort and the
  last row's field and id, from which the next page goes on. The routes of these reads write nothing, so they
  are no steps of the server.
\<close>

section \<open>Values a list is sorted by\<close>

text \<open>A number column sorts as PostgreSQL sorts doubles: infinities at the ends, \<open>NaN\<close> after them.\<close>

fun number_rank :: "js_number \<Rightarrow> nat \<times> rat" where
  "number_rank NegInfinity = (0, 0)"
| "number_rank (Finite q) = (1, q)"
| "number_rank PosInfinity = (2, 0)"
| "number_rank NaN = (3, 0)"

lemma number_rank_inj: "number_rank a = number_rank b \<longleftrightarrow> a = b"
  by (cases a; cases b) simp_all

instantiation js_number :: linorder begin

definition less_eq_js_number :: "js_number \<Rightarrow> js_number \<Rightarrow> bool" where
  "a \<le> b \<longleftrightarrow> number_rank a \<le> number_rank b"

definition less_js_number :: "js_number \<Rightarrow> js_number \<Rightarrow> bool" where
  "a < b \<longleftrightarrow> number_rank a < number_rank b"

instance
  by standard (auto simp: less_eq_js_number_def less_js_number_def number_rank_inj[symmetric] less_le_not_le)

end

datatype sort_value = TimeValue int | TextValue jstr | CountValue nat | TruthValue bool | NumberValue js_number

fun value_rank :: "sort_value \<Rightarrow> nat \<times> int \<times> jstr \<times> js_number" where
  "value_rank (TimeValue t) = (0, t, [], NaN)"
| "value_rank (TextValue s) = (1, 0, s, NaN)"
| "value_rank (CountValue n) = (2, int n, [], NaN)"
| "value_rank (TruthValue b) = (3, if b then 1 else 0, [], NaN)"
| "value_rank (NumberValue v) = (4, 0, [], v)"

lemma value_rank_inj: "value_rank a = value_rank b \<longleftrightarrow> a = b"
  by (cases a; cases b) auto

instantiation sort_value :: linorder begin

definition less_eq_sort_value :: "sort_value \<Rightarrow> sort_value \<Rightarrow> bool" where
  "a \<le> b \<longleftrightarrow> value_rank a \<le> value_rank b"

definition less_sort_value :: "sort_value \<Rightarrow> sort_value \<Rightarrow> bool" where
  "a < b \<longleftrightarrow> value_rank a < value_rank b"

instance
  by standard (auto simp: less_eq_sort_value_def less_sort_value_def value_rank_inj[symmetric] less_le_not_le)

end

datatype direction = ASC | DESC

text \<open>An order and its reverse as one type.\<close>

datatype 'a directed = Upwards 'a | Downwards 'a

fun in_direction :: "direction \<Rightarrow> 'a \<Rightarrow> 'a directed" where
  "in_direction ASC = Upwards"
| "in_direction DESC = Downwards"

instantiation directed :: (linorder) linorder begin

fun less_eq_directed :: "'a::linorder directed \<Rightarrow> 'a directed \<Rightarrow> bool" where
  "less_eq_directed (Upwards a) (Upwards b) = (a \<le> b)"
| "less_eq_directed (Downwards a) (Downwards b) = (b \<le> a)"
| "less_eq_directed (Upwards _) (Downwards _) = True"
| "less_eq_directed (Downwards _) (Upwards _) = False"

definition less_directed :: "'a::linorder directed \<Rightarrow> 'a directed \<Rightarrow> bool" where
  "less_directed a b \<longleftrightarrow> a \<le> b \<and> \<not> b \<le> a"

instance
proof
  fix a b c :: "'a directed"
  show "a < b \<longleftrightarrow> a \<le> b \<and> \<not> b \<le> a" by (rule less_directed_def)
  show "a \<le> a" by (cases a) simp_all
  show "a \<le> b \<Longrightarrow> b \<le> c \<Longrightarrow> a \<le> c" by (cases a; cases b; cases c) auto
  show "a \<le> b \<Longrightarrow> b \<le> a \<Longrightarrow> a = b" by (cases a; cases b) auto
  show "a \<le> b \<or> b \<le> a" by (cases a; cases b) auto
qed

end

lemma directed_less [simp]: "Upwards a < Upwards b \<longleftrightarrow> a < b" "Downwards a < Downwards b \<longleftrightarrow> b < a"
  for a b :: "'a::linorder"
  by (auto simp: less_directed_def)

section \<open>Queries\<close>

text \<open>
  What the lists ask of the database and the language: whether a text matches an \<open>ILIKE\<close> pattern, the key the
  collation of a text column sorts by, the number a text is, and the average PostgreSQL computes of doubles.
\<close>

record list_platform =
  ilike :: "jstr \<Rightarrow> jstr \<Rightarrow> bool"
  collate :: "jstr \<Rightarrow> jstr"
  js_Number :: "jstr \<Rightarrow> js_number"
  pg_avg :: "js_number list \<Rightarrow> js_number"

text \<open>
  A cursor as it is decoded, with the field of the sort it was written for: \<open>None\<close> for the null that JSON writes
  of a number that is not finite. A query whose cursor is missing, or is no base64 of JSON, has none.
\<close>

record list_cursor =
  cur_sort :: string
  cur_id :: jstr
  cur_value :: "sort_value option"

record list_query =
  lq_userId :: jstr
  lq_organizationId :: jstr
  lq_limit :: nat
  lq_sort :: string
  lq_q :: "jstr option"
  lq_after :: "list_cursor option"
  lq_includeTotal :: bool

record 'r list_page =
  lp_items :: "'r list"
  lp_nextCursor :: "list_cursor option"
  lp_sort :: string
  lp_limit :: nat
  lp_totalCount :: "nat option"

definition normalizeSort :: "string list \<Rightarrow> string \<Rightarrow> string \<times> direction" where
  "normalizeSort known sortParam =
     (let minus = (sortParam \<noteq> [] \<and> hd sortParam = CHR ''-'');
          field = (if minus then tl sortParam else sortParam) in
      if List.member known field then (field, if minus then DESC else ASC) else (''createdAt'', DESC))"

definition clampLimit :: "nat \<Rightarrow> nat" where
  "clampLimit limit = min (max (if limit = 0 then 20 else limit) 1) 100"

text \<open>Text is compared by its collation.\<close>

fun collated :: "list_platform \<Rightarrow> sort_value \<Rightarrow> sort_value" where
  "collated B (TextValue s) = TextValue (collate B s)"
| "collated B v = v"

text \<open>A row past the cursor: \<open>ltgt\<close> on the field, or the same and \<open>ltgt\<close> on the id. Nothing compares with null.\<close>

definition buildCursorPredicate :: "list_platform \<Rightarrow> direction \<Rightarrow> list_cursor \<Rightarrow> sort_value \<Rightarrow> jstr \<Rightarrow> bool" where
  "buildCursorPredicate B dir c value' id' = (case cur_value c of
      None \<Rightarrow> False
    | Some last' \<Rightarrow>
      (case dir of
         DESC \<Rightarrow> collated B value' < collated B last' \<or> collated B value' = collated B last' \<and> id' < cur_id c
       | ASC \<Rightarrow> collated B value' > collated B last' \<or> collated B value' = collated B last' \<and> id' > cur_id c))"

text \<open>\<open>buildOrder\<close>: the field and then the id, both in the direction of the sort.\<close>

definition order_key :: "list_platform \<Rightarrow> direction \<Rightarrow> sort_value \<Rightarrow> jstr \<Rightarrow> (sort_value \<times> jstr) directed" where
  "order_key B dir value' id' = in_direction dir (collated B value', id')"

text \<open>
  The body the four lists share: count, window, order, limit. \<open>rows\<close> are those of the \<open>where\<close>, \<open>value_of\<close> is the
  field of a row in the database and \<open>written\<close> the one the cursor gets of the last row.
\<close>

definition cursor_page ::
  "list_platform \<Rightarrow> list_query \<Rightarrow> direction \<Rightarrow> ('r \<Rightarrow> sort_value) \<Rightarrow> ('r \<Rightarrow> jstr) \<Rightarrow> ('r \<Rightarrow> sort_value option) \<Rightarrow>
   'r list \<Rightarrow> 'r list_page" where
  "cursor_page B query dir value_of id_of written rows =
     (let pageSize = clampLimit (lq_limit query);
          window = (case lq_after query of
              Some c \<Rightarrow> if cur_sort c = lq_sort query
                then filter (\<lambda>r. buildCursorPredicate B dir c (value_of r) (id_of r)) rows else rows
            | None \<Rightarrow> rows);
          found = take (pageSize + 1) (sort_key (\<lambda>r. order_key B dir (value_of r) (id_of r)) window);
          items = take pageSize found in
      \<lparr>lp_items = items,
       lp_nextCursor = (if length found > pageSize \<and> items \<noteq> []
         then Some \<lparr>cur_sort = lq_sort query, cur_id = id_of (last items), cur_value = written (last items)\<rparr> else None),
       lp_sort = lq_sort query, lp_limit = pageSize,
       lp_totalCount = (if lq_includeTotal query then Some (length rows) else None)\<rparr>)"

definition map_page :: "('r \<Rightarrow> 's) \<Rightarrow> 'r list_page \<Rightarrow> 's list_page" where
  "map_page f p = \<lparr>lp_items = map f (lp_items p), lp_nextCursor = lp_nextCursor p, lp_sort = lp_sort p,
     lp_limit = lp_limit p, lp_totalCount = lp_totalCount p\<rparr>"

text \<open>\<open>[Op.iLike]: `%${v}%`\<close>, for a search text that is not empty.\<close>

definition matches :: "list_platform \<Rightarrow> jstr option \<Rightarrow> jstr \<Rightarrow> bool" where
  "matches B search text' = (case nonempty search of None \<Rightarrow> True | Some v \<Rightarrow> ilike B (lit ''%'' @ v @ lit ''%'') text')"

text \<open>A search text as the query schemas read it: trimmed, and refused when nothing is left.\<close>

definition normalizedSearchParam :: "jstr option \<Rightarrow> jstr option option" where
  "normalizedSearchParam value' = (case value' of
      None \<Rightarrow> Some None
    | Some s \<Rightarrow> if js_trim s = [] then None else Some (Some (js_trim s)))"

section \<open>Categories\<close>

definition category_fields :: "string list" where
  "category_fields = [''createdAt'', ''updatedAt'', ''name'', ''metricCount'']"

definition category_where :: "list_platform \<Rightarrow> list_query \<Rightarrow> jstr option \<Rightarrow> category_row \<Rightarrow> bool" where
  "category_where B query filterName c \<longleftrightarrow>
     owned_category (lq_userId query) (lq_organizationId query) c \<and> mc_deletedAt c = None \<and>
     matches B (lq_q query) (mc_name c) \<and> matches B filterName (mc_name c)"

definition category_value :: "(jstr \<Rightarrow> jstr) \<Rightarrow> string \<Rightarrow> counted_category \<Rightarrow> sort_value" where
  "category_value lower field c =
     (if field = ''createdAt'' then TimeValue (mc_createdAt c)
      else if field = ''updatedAt'' then TimeValue (mc_updatedAt c)
      else if field = ''name'' then TextValue (lower (mc_name c))
      else CountValue (mc_metricCount c))"

definition Category_list ::
  "platform \<Rightarrow> list_platform \<Rightarrow> list_query \<Rightarrow> jstr option \<Rightarrow> (world, counted_category list_page) io" where
  "Category_list P B query filterName =
     (let (field, dir) = normalizeSort category_fields (lq_sort query) in
      getsDb (\<lambda>d. cursor_page B query dir (category_value (pg_lower P) field) mc_id
        (\<lambda>c. Some (category_value (toLowerCase P) field c))
        (map (\<lambda>c. toCategory (metricCount d (mc_id c)) c) (filter (category_where B query filterName) (metric_categories d)))))"

definition ListCategories ::
  "platform \<Rightarrow> list_platform \<Rightarrow> list_query \<Rightarrow> jstr option \<Rightarrow> (world, counted_category list_page) io" where
  "ListCategories P B query filterName = Category_list P B query filterName"

section \<open>Settings\<close>

definition settings_fields :: "string list" where
  "settings_fields = [''createdAt'', ''updatedAt'', ''isActive'']"

definition settings_where :: "list_query \<Rightarrow> jstr option \<Rightarrow> bool option \<Rightarrow> database \<Rightarrow> settings_row \<Rightarrow> bool" where
  "settings_where query metricId isActive d s \<longleftrightarrow>
     owns_metric d (lq_userId query) (lq_organizationId query) (ms_metricId s) \<and>
     (case nonempty metricId of None \<Rightarrow> True | Some m \<Rightarrow> ms_metricId s = m) \<and>
     (case isActive of None \<Rightarrow> True | Some b \<Rightarrow> ms_isActive s = b)"

definition settings_value :: "string \<Rightarrow> metric_settings \<Rightarrow> sort_value" where
  "settings_value field s =
     (if field = ''createdAt'' then TimeValue (ms_createdAt s)
      else if field = ''updatedAt'' then TimeValue (ms_updatedAt s)
      else TruthValue (ms_isActive s))"

definition Settings_listByCursor ::
  "list_platform \<Rightarrow> list_query \<Rightarrow> jstr option \<Rightarrow> bool option \<Rightarrow> (world, metric_settings list_page) io" where
  "Settings_listByCursor B query metricId isActive =
     (let (field, dir) = normalizeSort settings_fields (lq_sort query) in
      getsDb (\<lambda>d. cursor_page B query dir (settings_value field) ms_id (\<lambda>s. Some (settings_value field s))
        (map settings_entity (filter (settings_where query metricId isActive d) (metric_settings d)))))"

definition ListMetricSettingsViaCursor ::
  "list_platform \<Rightarrow> list_query \<Rightarrow> jstr option \<Rightarrow> bool option \<Rightarrow> (world, metric_settings list_page) io" where
  "ListMetricSettingsViaCursor B query metricId isActive =
     (if lq_userId query = [] then throw (DomainError Unauthorized ''User not authenticated'')
      else Settings_listByCursor B query metricId isActive)"

section \<open>Logs\<close>

definition log_fields :: "string list" where
  "log_fields = [''createdAt'', ''updatedAt'', ''logValue'', ''loggedAt'']"

text \<open>\<open>if (filter?.logValue)\<close>: a value of zero filters nothing. A search text that is a number is a value, too.\<close>

definition log_where :: "list_platform \<Rightarrow> list_query \<Rightarrow> jstr option \<Rightarrow> js_number option \<Rightarrow> database \<Rightarrow> log_row \<Rightarrow> bool" where
  "log_where B query metricId logValue d l \<longleftrightarrow>
     owns_metric d (lq_userId query) (lq_organizationId query) (ml_metricId l) \<and>
     (case nonempty metricId of None \<Rightarrow> True | Some m \<Rightarrow> ml_metricId l = m) \<and>
     (case logValue of None \<Rightarrow> True | Some v \<Rightarrow> v = Finite 0 \<or> v = NaN \<or> ml_logValue l = v) \<and>
     (case lq_q query of
        None \<Rightarrow> True
      | Some q \<Rightarrow> js_trim q = [] \<or> js_Number B q = NaN \<or> ml_logValue l = js_Number B q)"

definition log_value :: "string \<Rightarrow> metric_log \<Rightarrow> sort_value" where
  "log_value field l =
     (if field = ''updatedAt'' then TimeValue (ml_updatedAt l)
      else if field = ''logValue'' then NumberValue (ml_logValue l)
      else if field = ''loggedAt'' then TimeValue (ml_loggedAt l)
      else TimeValue (ml_createdAt l))"

text \<open>\<open>JSON.stringify\<close> writes a number that is not finite as null.\<close>

definition json_value :: "sort_value \<Rightarrow> sort_value option" where
  "json_value v = (case v of NumberValue n \<Rightarrow> if isFinite n then Some v else None | _ \<Rightarrow> Some v)"

definition Log_listLogs ::
  "list_platform \<Rightarrow> list_query \<Rightarrow> jstr option \<Rightarrow> js_number option \<Rightarrow> (world, metric_log list_page) io" where
  "Log_listLogs B query metricId logValue =
     (let (field, dir) = normalizeSort log_fields (lq_sort query) in
      getsDb (\<lambda>d. cursor_page B query dir (log_value field) ml_id (\<lambda>l. json_value (log_value field l))
        (map metric_log.truncate (filter (log_where B query metricId logValue d) (metric_logs d)))))"

definition ListMetricLogs ::
  "list_platform \<Rightarrow> list_query \<Rightarrow> jstr option \<Rightarrow> js_number option \<Rightarrow> (world, metric_log list_page) io" where
  "ListMetricLogs B query metricId logValue =
     (if lq_userId query = [] then throw (DomainError Forbidden ''User not authenticated'')
      else Log_listLogs B query metricId logValue)"

section \<open>Metrics\<close>

definition metric_list_fields :: "string list" where
  "metric_list_fields = [''createdAt'', ''updatedAt'', ''name'', ''logCount'']"

definition metric_where :: "list_platform \<Rightarrow> list_query \<Rightarrow> jstr option \<Rightarrow> jstr option \<Rightarrow> metric_row \<Rightarrow> bool" where
  "metric_where B query filterName categoryId m \<longleftrightarrow>
     owned_metric (lq_userId query) (lq_organizationId query) m \<and> mt_deletedAt m = None \<and>
     matches B (lq_q query) (mt_name m) \<and> matches B filterName (mt_name m) \<and>
     (case nonempty categoryId of None \<Rightarrow> True | Some c \<Rightarrow> mt_categoryId m = Some c)"

definition logCount :: "database \<Rightarrow> jstr \<Rightarrow> nat" where
  "logCount d metricId = count_where (\<lambda>l. ml_metricId l = metricId) (metric_logs d)"

text \<open>A listed row: the metric, its count of logs and the category the outer join finds, a live one.\<close>

record listed_metric = metric +
  mt_logCount :: nat
  mt_category :: "category_row option"

definition live_category_of :: "database \<Rightarrow> 'a metric_scheme \<Rightarrow> category_row option" where
  "live_category_of d m = List.find (\<lambda>c. mt_categoryId m = Some (mc_id c) \<and> live_category c) (metric_categories d)"

definition listed :: "database \<Rightarrow> metric_row \<Rightarrow> listed_metric" where
  "listed d m = metric.extend (metric.truncate m) \<lparr>mt_logCount = logCount d (mt_id m), mt_category = live_category_of d m\<rparr>"

definition metric_value :: "(jstr \<Rightarrow> jstr) \<Rightarrow> string \<Rightarrow> listed_metric \<Rightarrow> sort_value" where
  "metric_value lower field m =
     (if field = ''updatedAt'' then TimeValue (mt_updatedAt m)
      else if field = ''name'' then TextValue (lower (mt_name m))
      else if field = ''logCount'' then CountValue (mt_logCount m)
      else TimeValue (mt_createdAt m))"

record category_info =
  ci_id :: jstr
  ci_name :: jstr
  ci_icon :: jstr
  ci_color :: jstr

record metric_library =
  lib_id :: jstr
  lib_name :: jstr
  lib_description :: "jstr option"
  lib_defaultUnit :: jstr
  lib_isPublic :: bool
  lib_category :: "category_info option"
  lib_goalType :: string
  lib_createdAt :: int
  lib_updatedAt :: int
  lib_logCount :: nat

text \<open>The list loads no settings, so the goal type is the default it falls back to.\<close>

definition toDomainCategoryInfo :: "'a metric_category_scheme \<Rightarrow> category_info" where
  "toDomainCategoryInfo c = \<lparr>ci_id = mc_id c, ci_name = mc_name c, ci_icon = mc_icon c, ci_color = mc_color c\<rparr>"

definition toDomainMetricLibrary :: "listed_metric \<Rightarrow> metric_library" where
  "toDomainMetricLibrary m = \<lparr>lib_id = mt_id m, lib_name = mt_name m, lib_description = mt_description m,
     lib_defaultUnit = mt_defaultUnit m, lib_isPublic = mt_isPublic m,
     lib_category = map_option toDomainCategoryInfo (mt_category m), lib_goalType = ''Not Set'',
     lib_createdAt = mt_createdAt m, lib_updatedAt = mt_updatedAt m, lib_logCount = mt_logCount m\<rparr>"

text \<open>The answer repeats the limit of the query, not the page size; a row without its user is refused.\<close>

definition Metric_listMetrics ::
  "platform \<Rightarrow> list_platform \<Rightarrow> list_query \<Rightarrow> jstr option \<Rightarrow> jstr option \<Rightarrow> (world, metric_library list_page) io" where
  "Metric_listMetrics P B query filterName categoryId =
     (let (field, dir) = normalizeSort metric_list_fields (lq_sort query) in
      bind (getsDb (\<lambda>d. cursor_page B query dir (metric_value (pg_lower P) field) mt_id
        (\<lambda>m. Some (metric_value (toLowerCase P) field m))
        (map (listed d) (filter (metric_where B query filterName categoryId) (metrics d))))) (\<lambda>page.
      if list_ex (\<lambda>m. mt_userId m = []) (lp_items page)
      then throw (AppError ''Metric is missing the required userId. This indicates a data integrity issue.'' 500)
      else return ((map_page toDomainMetricLibrary page)\<lparr>lp_limit := lq_limit query\<rparr>)))"

definition ListMetrics ::
  "platform \<Rightarrow> list_platform \<Rightarrow> list_query \<Rightarrow> jstr option \<Rightarrow> jstr option \<Rightarrow> (world, metric_library list_page) io" where
  "ListMetrics P B query filterName categoryId =
     (if lq_userId query = [] then throw (DomainError Forbidden ''User not authenticated'')
      else Metric_listMetrics P B query filterName categoryId)"

section \<open>The detail of a metric\<close>

datatype metric_include = IncludeCategory | IncludeLogs | IncludeSettings

fun include_name :: "metric_include \<Rightarrow> jstr" where
  "include_name IncludeCategory = lit ''category''"
| "include_name IncludeLogs = lit ''logs''"
| "include_name IncludeSettings = lit ''settings''"

definition INCLUDES :: "metric_include list" where
  "INCLUDES = [IncludeCategory, IncludeLogs, IncludeSettings]"

text \<open>\<open>split(",")\<close>: the texts between the commas.\<close>

fun split_commas :: "jstr \<Rightarrow> jstr list" where
  "split_commas [] = [[]]"
| "split_commas (c # s) = (if c = 44 then [] # split_commas s
     else (case split_commas s of [] \<Rightarrow> [[c]] | t # ts \<Rightarrow> (c # t) # ts))"

definition metricDetailIncludes :: "jstr option \<Rightarrow> metric_include list" where
  "metricDetailIncludes include =
     (case nonempty include of
        None \<Rightarrow> []
      | Some text' \<Rightarrow>
        if text' = lit ''flat'' then []
        else if text' = lit ''full'' then INCLUDES
        else filter (\<lambda>relation. include_name relation \<in> set (map js_trim (split_commas text'))) INCLUDES)"

record metric_detail = metric +
  md_category :: "counted_category option"
  md_settings :: "metric_settings option"
  md_logs :: "metric_log list option"

definition normalizeDisplayOptions :: "display_options \<Rightarrow> display_options" where
  "normalizeDisplayOptions d = d\<lparr>
     disp_priority := Some (case disp_priority d of Some p \<Rightarrow> p | None \<Rightarrow> 1),
     disp_chartType := Some (case disp_chartType d of Some c \<Rightarrow> c | None \<Rightarrow> lit ''line''),
     disp_color := Some (case disp_color d of Some c \<Rightarrow> c | None \<Rightarrow> default_colour)\<rparr>"

definition toDomainMetricSettings :: "settings_row \<Rightarrow> metric_settings" where
  "toDomainMetricSettings r =
     (metric_settings.truncate r)\<lparr>ms_displayOptions := normalizeDisplayOptions (ms_displayOptions r)\<rparr>"

text \<open>The category is loaded without its count, which is then 0 (\<open>toCategoryRow\<close>).\<close>

definition latest_logs :: "database \<Rightarrow> jstr \<Rightarrow> nat \<Rightarrow> metric_log list" where
  "latest_logs d metricId logsLimit =
     take logsLimit (map metric_log.truncate
       (sort_key (\<lambda>l. Downwards (ml_loggedAt l, ml_id l)) (filter (\<lambda>l. ml_metricId l = metricId) (metric_logs d))))"

definition Metric_findDetailedMetric ::
  "jstr \<Rightarrow> jstr \<Rightarrow> jstr \<Rightarrow> metric_include list \<Rightarrow> nat \<Rightarrow> (world, metric_detail option) io" where
  "Metric_findDetailedMetric userId organizationId metricId includes logsLimit = getsDb (\<lambda>d.
     map_option (\<lambda>m. metric.extend (metric.truncate m)
       \<lparr>md_category = (if IncludeCategory \<in> set includes then map_option (toCategory 0) (live_category_of d m) else None),
        md_settings = (if IncludeSettings \<in> set includes
          then map_option toDomainMetricSettings (List.find (\<lambda>s. ms_metricId s = mt_id m) (metric_settings d)) else None),
        md_logs = (if IncludeLogs \<in> set includes then Some (latest_logs d (mt_id m) logsLimit) else None)\<rparr>)
       (List.find (\<lambda>m. mt_id m = metricId \<and> owned_metric userId organizationId m \<and> live_metric m) (metrics d)))"

definition GetMetricDetail ::
  "jstr \<Rightarrow> jstr \<Rightarrow> jstr \<Rightarrow> metric_include list \<Rightarrow> nat \<Rightarrow> (world, metric_detail option) io" where
  "GetMetricDetail userId organizationId metricId includes logsLimit =
     bind (Metric_findDetailedMetric userId organizationId metricId includes logsLimit) (\<lambda>found.
     case found of
       None \<Rightarrow> return None
     | Some m \<Rightarrow> if \<not> mt_isPublic m \<and> mt_userId m \<noteq> userId then throw (DomainError Forbidden ''Unauthorized'')
         else return (Some m))"

section \<open>Statistics of logs\<close>

record metric_log_stats =
  st_average :: js_number
  st_min :: js_number
  st_max :: js_number

definition EMPTY_STATS :: metric_log_stats where
  "EMPTY_STATS = \<lparr>st_average = Finite 0, st_min = Finite 0, st_max = Finite 0\<rparr>"

text \<open>The logs in scope: of the metric named, or of every live metric of the user; half-open in time.\<close>

definition stats_where ::
  "jstr \<Rightarrow> jstr \<Rightarrow> jstr option \<Rightarrow> int option \<Rightarrow> int option \<Rightarrow> database \<Rightarrow> log_row \<Rightarrow> bool" where
  "stats_where userId organizationId metricId from' to' d l \<longleftrightarrow>
     ml_organizationId l = organizationId \<and>
     (case nonempty metricId of
        Some m \<Rightarrow> ml_metricId l = m
      | None \<Rightarrow> owns_metric d userId organizationId (ml_metricId l)) \<and>
     (case from' of None \<Rightarrow> True | Some t \<Rightarrow> t \<le> ml_loggedAt l) \<and>
     (case to' of None \<Rightarrow> True | Some t \<Rightarrow> ml_loggedAt l < t)"

definition computeStats ::
  "list_platform \<Rightarrow> jstr \<Rightarrow> jstr \<Rightarrow> jstr option \<Rightarrow> int option \<Rightarrow> int option \<Rightarrow> (world, metric_log_stats) io" where
  "computeStats B userId organizationId metricId from' to' = getsDb (\<lambda>d.
     case map ml_logValue (filter (stats_where userId organizationId metricId from' to' d) (metric_logs d)) of
       [] \<Rightarrow> EMPTY_STATS
     | v # vs \<Rightarrow> \<lparr>st_average = pg_avg B (v # vs), st_min = fold min vs v, st_max = fold max vs v\<rparr>)"

definition GetMetricLogStats ::
  "list_platform \<Rightarrow> jstr \<Rightarrow> jstr \<Rightarrow> jstr option \<Rightarrow> int option \<Rightarrow> int option \<Rightarrow> (world, metric_log_stats) io" where
  "GetMetricLogStats B userId organizationId metricId from' to' =
     andThen (case nonempty metricId of Some m \<Rightarrow> validateMetricAccess userId organizationId m | None \<Rightarrow> return ())
       (computeStats B userId organizationId metricId from' to')"

end
