(* ===== verification/Pagination.thy ===== *)
theory Pagination imports Organizations begin

text \<open>
  Keyset pagination: a client that follows the next position of each page reads the whole ordered
  list once. The interface is what a page promises of the ordered rows; \<open>findPage\<close> of
  \<open>MembershipSequelizeRepository.ts\<close> provides it.
\<close>

section \<open>Pages of an ordered list\<close>

definition after_key :: "('r \<Rightarrow> 'k::linorder) \<Rightarrow> 'k option \<Rightarrow> 'r list \<Rightarrow> 'r list" where
  "after_key key after rows = (case after of None \<Rightarrow> rows | Some k \<Rightarrow> filter (\<lambda>r. k < key r) rows)"

text \<open>What a client collects that asks for at most so many pages, from a position on.\<close>

fun follow_pages :: "('k option \<Rightarrow> 'r list \<times> 'k option) \<Rightarrow> nat \<Rightarrow> 'k option \<Rightarrow> 'r list" where
  "follow_pages page 0 after = []"
| "follow_pages page (Suc n) after =
     (let (items, next) = page after in
      items @ (case next of None \<Rightarrow> [] | Some k \<Rightarrow> follow_pages page n (Some k)))"

definition strictly_ordered :: "('r \<Rightarrow> 'k::linorder) \<Rightarrow> 'r list \<Rightarrow> bool" where
  "strictly_ordered key rows \<longleftrightarrow> sorted_wrt (\<lambda>r s. key r < key s) rows"

lemma strictly_ordered_filter: "strictly_ordered key rows \<Longrightarrow> strictly_ordered key (filter p rows)"
  by (simp add: strictly_ordered_def sorted_wrt_filter)

lemma strictly_ordered_after_key: "strictly_ordered key rows \<Longrightarrow> strictly_ordered key (after_key key after rows)"
  by (simp add: after_key_def strictly_ordered_filter split: option.splits)

lemma strictly_ordered_sort_key:
  "distinct (map key rows) \<Longrightarrow> strictly_ordered key (sort_key key rows)"
proof -
  assume d: "distinct (map key rows)"
  have "distinct (map key (sort_key key rows))" using d by (simp add: distinct_map)
  moreover have "sorted (map key (sort_key key rows))" by (rule sorted_sort_key)
  ultimately have "sorted_wrt (<) (map key (sort_key key rows))" by (simp add: strict_sorted_iff)
  then show ?thesis by (simp add: strictly_ordered_def sorted_wrt_map)
qed

text \<open>The rows past the last row of a page are the rows past the page.\<close>

lemma rows_after_last:
  assumes "strictly_ordered key ys" "0 < n" "n \<le> length ys"
  shows "filter (\<lambda>r. key (last (take n ys)) < key r) ys = drop n ys"
proof -
  have s: "\<And>i j. i < j \<Longrightarrow> j < length ys \<Longrightarrow> key (ys ! i) < key (ys ! j)"
    using assms(1) by (auto simp: strictly_ordered_def sorted_wrt_iff_nth_less)
  have l: "last (take n ys) = ys ! (n - 1)" 
    using assms(2,3) by (subst last_conv_nth) (auto simp: min_def)
  have "filter (\<lambda>r. key (ys ! (n - 1)) < key r) (take n ys) = []"
  proof -
    have "\<not> key (ys ! (n - 1)) < key r" if "r \<in> set (take n ys)" for r
    proof -
      from that obtain i where i: "i < n" "r = ys ! i" using assms(3) by (auto simp: in_set_conv_nth)
      with s[of i "n - 1"] assms(2,3) show ?thesis by (cases "i = n - 1") (auto intro: less_imp_le simp: not_less)
    qed
    then show ?thesis by (simp add: filter_empty_conv)
  qed
  moreover have "filter (\<lambda>r. key (ys ! (n - 1)) < key r) (drop n ys) = drop n ys"
  proof -
    have "key (ys ! (n - 1)) < key r" if "r \<in> set (drop n ys)" for r
    proof -
      from that obtain i where "i < length ys - n" "r = ys ! (n + i)" by (auto simp: in_set_conv_nth)
      with s[of "n - 1" "n + i"] assms(2) show ?thesis by simp
    qed
    then show ?thesis by simp
  qed
  ultimately show ?thesis unfolding l by (metis append_Nil append_take_drop_id filter_append)
qed

text \<open>
  The contract of a list: its rows in the strict order of a key, and pages of a usable size, each from a cursor
  that stands for a key. A page that is not the last answers a cursor for its last row.
\<close>

locale keyset_page =
  fixes key :: "'r \<Rightarrow> 'k::linorder"
    and valid :: "'w \<Rightarrow> bool"
    and rows :: "'w \<Rightarrow> 'r list"
    and usable :: "nat \<Rightarrow> bool"
    and issued :: "'c \<Rightarrow> bool"
    and cursor_key :: "'c \<Rightarrow> 'k"
    and page :: "'w \<Rightarrow> nat \<Rightarrow> 'c option \<Rightarrow> 'r list \<times> 'c option"
  assumes usable_positive: "usable limit \<Longrightarrow> 0 < limit"
    and rows_ordered: "valid w \<Longrightarrow> strictly_ordered key (rows w)"
    and page_items: "valid w \<Longrightarrow> usable limit \<Longrightarrow> pred_option issued after \<Longrightarrow>
      fst (page w limit after) = take limit (after_key key (map_option cursor_key after) (rows w))"
    and page_next: "valid w \<Longrightarrow> usable limit \<Longrightarrow> pred_option issued after \<Longrightarrow>
      (case snd (page w limit after) of
         None \<Rightarrow> length (after_key key (map_option cursor_key after) (rows w)) \<le> limit
       | Some c \<Rightarrow> issued c \<and> limit < length (after_key key (map_option cursor_key after) (rows w)) \<and>
           cursor_key c = key (last (take limit (after_key key (map_option cursor_key after) (rows w)))))"
begin

lemma page_bounded: "valid w \<Longrightarrow> usable limit \<Longrightarrow> pred_option issued after \<Longrightarrow> length (fst (page w limit after)) \<le> limit"
  by (simp add: page_items)

lemma after_next:
  assumes "valid w" "0 < limit" "limit < length (after_key key after (rows w))"
  shows "after_key key (Some (key (last (take limit (after_key key after (rows w)))))) (rows w) =
    drop limit (after_key key after (rows w))"
proof -
  let ?ys = "after_key key after (rows w)"
  let ?k = "key (last (take limit ?ys))"
  have ord: "strictly_ordered key ?ys" using rows_ordered[OF assms(1)] by (rule strictly_ordered_after_key)
  have "last (take limit ?ys) \<in> set ?ys"
    using assms(2,3) by (metis in_set_takeD last_in_set less_nat_zero_code list.size(3) take_eq_Nil nat_neq_iff)
  then have "filter (\<lambda>r. ?k < key r) (rows w) = filter (\<lambda>r. ?k < key r) ?ys"
    by (auto simp: after_key_def intro!: filter_cong split: option.splits)
  then show ?thesis using rows_after_last[OF ord assms(2)] assms(3) by (simp add: after_key_def)
qed

lemma follow_all:
  "valid w \<Longrightarrow> usable limit \<Longrightarrow> pred_option issued after \<Longrightarrow>
   length (after_key key (map_option cursor_key after) (rows w)) \<le> n \<Longrightarrow>
   follow_pages (page w limit) n after = after_key key (map_option cursor_key after) (rows w)"
proof (induction n arbitrary: after)
  case 0
  then show ?case by simp
next
  case (Suc n)
  let ?ys = "after_key key (map_option cursor_key after) (rows w)"
  note here = Suc.prems(1-3)
  show ?case
  proof (cases "snd (page w limit after)")
    case None
    with page_items[OF here] page_next[OF here] show ?thesis by (simp add: case_prod_beta)
  next
    case (Some c)
    with page_next[OF here] have c: "issued c" "limit < length ?ys" "cursor_key c = key (last (take limit ?ys))" by simp_all
    have rest: "after_key key (Some (cursor_key c)) (rows w) = drop limit ?ys"
      unfolding c(3) by (rule after_next[OF here(1) usable_positive[OF here(2)] c(2)])
    have "length (drop limit ?ys) \<le> n" using Suc.prems(4) c(2) usable_positive[OF here(2)] by simp
    then have "follow_pages (page w limit) n (Some c) = drop limit ?ys"
      using Suc.IH[OF here(1,2), of "Some c"] c(1) rest by simp
    with Some page_items[OF here] show ?thesis by (simp add: case_prod_beta)
  qed
qed

end

section \<open>Membership pages\<close>

definition membership_page_of ::
  "(membership \<Rightarrow> bool) \<Rightarrow> world \<Rightarrow> nat \<Rightarrow> membership_position option \<Rightarrow> membership list \<times> membership_position option" where
  "membership_page_of p w limit after =
     (case fst (findPage p limit after w) of
        Inr r \<Rightarrow> (page_items r, page_next r)
      | Inl e \<Rightarrow> ([], None))"

lemma after_position_key: "after_position after m \<longleftrightarrow> (case after of None \<Rightarrow> True | Some k \<Rightarrow> k < position m)"
  by (auto simp: after_position_def position_def less_membership_position_def split: option.splits)

lemma sorted_after_position:
  "sort_key position (filter (\<lambda>m. p m \<and> after_position after m) rows) =
   after_key position after (sort_key position (filter p rows))"
  by (cases after) (simp_all add: after_position_key after_key_def filter_sort[symmetric])

lemma distinct_positions: "distinct (map m_id rows) \<Longrightarrow> distinct (map position (filter p rows))"
  by (auto simp: distinct_map inj_on_def position_def)

interpretation membership_pages: keyset_page position "\<lambda>w. distinct (map m_id (memberships (db w)))"
  "\<lambda>w. sort_key position (filter p (memberships (db w)))" "\<lambda>limit. 0 < limit" "\<lambda>_. True" id "membership_page_of p" for p
proof unfold_locales
  fix w :: world and limit after
  assume "distinct (map m_id (memberships (db w)))"
  then show "strictly_ordered position (sort_key position (filter p (memberships (db w))))"
    by (intro strictly_ordered_sort_key distinct_positions)
  show "fst (membership_page_of p w limit after) =
      take limit (after_key position (map_option id after) (sort_key position (filter p (memberships (db w)))))"
    by (simp add: membership_page_of_def findPage_def Let_def sorted_after_position take_Suc_conv_app_nth min_def option.map_id)
  assume "0 < limit"
  then show "case snd (membership_page_of p w limit after) of
      None \<Rightarrow> length (after_key position (map_option id after) (sort_key position (filter p (memberships (db w))))) \<le> limit
    | Some c \<Rightarrow> True \<and> limit < length (after_key position (map_option id after) (sort_key position (filter p (memberships (db w))))) \<and>
        id c = position (last (take limit (after_key position (map_option id after) (sort_key position (filter p (memberships (db w)))))))"
    by (auto simp: membership_page_of_def findPage_def Let_def sorted_after_position option.map_id split: option.split)
qed simp

section \<open>Properties\<close>

text \<open>
  Reading the members of an organization page by page, each request from the position the one
  before it answered, gives every membership of the organization exactly once, in order of joining;
  no page is longer than the limit, and as many requests as there are members are enough.
\<close>

theorem members_pages_complete:
  assumes "distinct (map m_id (memberships (db w)))" "0 < limit"
    and "count_where (\<lambda>m. m_organizationId m = v) (memberships (db w)) \<le> n"
  shows "follow_pages (\<lambda>after. case fst (Membership_findPageByOrganization v limit after w) of
           Inr r \<Rightarrow> (page_items r, page_next r) | Inl e \<Rightarrow> ([], None)) n None =
         sort_key position (filter (\<lambda>m. m_organizationId m = v) (memberships (db w)))"
  using membership_pages.follow_all[where after = None and p = "\<lambda>m. m_organizationId m = v", OF assms(1,2)] assms(3)
  by (simp add: after_key_def count_where_def membership_page_of_def[abs_def] Membership_findPageByOrganization_def)

theorem members_pages_complete_witness:
  "follow_pages (\<lambda>after. case fst (Membership_findPageByOrganization (lit ''o'') 1 after sample_world) of
     Inr r \<Rightarrow> (page_items r, page_next r) | Inl e \<Rightarrow> ([], None)) 1 None =
   sort_key position (filter (\<lambda>m. m_organizationId m = lit ''o'') (memberships (db sample_world)))"
  by (rule members_pages_complete) (simp_all add: sample_world_def count_where_def)

end
