(* ===== verification/TrackingPages.thy ===== *)
theory TrackingPages imports TrackingOutcomes TrackingLists Pagination "HOL-Library.Multiset" begin

text \<open>
  The lists of the tracking features are read completely: a client that follows the cursors of any of them
  gets every row its query asks for once, in the order of the sort. The four lists are one instance of the
  contract of keyset pages, in either direction and by each of their fields.
\<close>

section \<open>Pages behind cursors\<close>

text \<open>A page of a list from an optional cursor, of a given size.\<close>

definition list_page_of ::
  "list_platform \<Rightarrow> list_query \<Rightarrow> direction \<Rightarrow> ('r \<Rightarrow> sort_value) \<Rightarrow> ('r \<Rightarrow> jstr) \<Rightarrow> ('r \<Rightarrow> sort_value option) \<Rightarrow>
   'r list \<Rightarrow> nat \<Rightarrow> list_cursor option \<Rightarrow> 'r list \<times> list_cursor option" where
  "list_page_of B q dir value_of id_of wr rows limit after =
     (let p = cursor_page B (q\<lparr>lq_limit := limit, lq_after := after\<rparr>) dir value_of id_of wr rows in
      (lp_items p, lp_nextCursor p))"

definition cursor_position :: "list_platform \<Rightarrow> direction \<Rightarrow> list_cursor \<Rightarrow> (sort_value \<times> jstr) directed" where
  "cursor_position B dir c = order_key B dir (the (cur_value c)) (cur_id c)"

definition row_position :: "list_platform \<Rightarrow> direction \<Rightarrow> ('r \<Rightarrow> sort_value) \<Rightarrow> ('r \<Rightarrow> jstr) \<Rightarrow> 'r \<Rightarrow> (sort_value \<times> jstr) directed" where
  "row_position B dir value_of id_of r = order_key B dir (value_of r) (id_of r)"

text \<open>What the cursor is given of a row compares as the row itself does.\<close>

definition faithful_cursors :: "list_platform \<Rightarrow> ('r \<Rightarrow> sort_value) \<Rightarrow> ('r \<Rightarrow> sort_value option) \<Rightarrow> 'r list \<Rightarrow> bool" where
  "faithful_cursors B value_of wr rows \<longleftrightarrow>
     (\<forall>r \<in> set rows. \<exists>v. wr r = Some v \<and> collated B v = collated B (value_of r))"

lemma predicate_position:
  "cur_value c \<noteq> None \<Longrightarrow> buildCursorPredicate B dir c (value_of r) (id_of r) \<longleftrightarrow>
   cursor_position B dir c < row_position B dir value_of id_of r"
  by (cases "cur_value c"; cases dir)
    (auto simp: buildCursorPredicate_def cursor_position_def row_position_def order_key_def)

lemma in_direction_eq: "in_direction dir a = in_direction dir b \<longleftrightarrow> a = b"
  by (cases dir) simp_all

lemma distinct_row_positions: "distinct (map id_of rows) \<Longrightarrow> distinct (map (row_position B dir value_of id_of) rows)"
  by (auto simp: distinct_map inj_on_def row_position_def order_key_def in_direction_eq)

lemma window_rows:
  assumes "pred_option (\<lambda>c. cur_sort c = lq_sort q \<and> cur_value c \<noteq> None) after"
  shows "sort_key (row_position B dir value_of id_of) (case after of
      Some c \<Rightarrow> if cur_sort c = lq_sort q then filter (\<lambda>r. buildCursorPredicate B dir c (value_of r) (id_of r)) rows else rows
    | None \<Rightarrow> rows) =
    after_key (row_position B dir value_of id_of) (map_option (cursor_position B dir) after)
      (sort_key (row_position B dir value_of id_of) rows)"
  using assms by (cases after) (auto simp: after_key_def predicate_position filter_sort)

lemma page_of_window:
  assumes "pred_option (\<lambda>c. cur_sort c = lq_sort q \<and> cur_value c \<noteq> None) (lq_after q)"
    and ys: "ys = after_key (row_position B dir value_of id_of) (map_option (cursor_position B dir) (lq_after q))
      (sort_key (row_position B dir value_of id_of) rows)"
  shows "lp_items (cursor_page B q dir value_of id_of wr rows) = take (clampLimit (lq_limit q)) ys"
    "lp_nextCursor (cursor_page B q dir value_of id_of wr rows) =
      (if clampLimit (lq_limit q) < length ys
       then Some \<lparr>cur_sort = lq_sort q, cur_id = id_of (last (take (clampLimit (lq_limit q)) ys)),
         cur_value = wr (last (take (clampLimit (lq_limit q)) ys))\<rparr> else None)"
proof -
  have key: "(\<lambda>r. order_key B dir (value_of r) (id_of r)) = row_position B dir value_of id_of"
    by (simp add: row_position_def[abs_def])
  have "0 < clampLimit (lq_limit q)" by (simp add: clampLimit_def)
  then show "lp_items (cursor_page B q dir value_of id_of wr rows) = take (clampLimit (lq_limit q)) ys"
    "lp_nextCursor (cursor_page B q dir value_of id_of wr rows) =
      (if clampLimit (lq_limit q) < length ys
       then Some \<lparr>cur_sort = lq_sort q, cur_id = id_of (last (take (clampLimit (lq_limit q)) ys)),
         cur_value = wr (last (take (clampLimit (lq_limit q)) ys))\<rparr> else None)"
    unfolding cursor_page_def Let_def key window_rows[OF assms(1)] ys[symmetric]
    by (auto simp: min_def)
qed

interpretation list_pages: keyset_page "row_position B dir value_of id_of"
  "\<lambda>rows. distinct (map id_of rows) \<and> faithful_cursors B value_of wr rows"
  "sort_key (row_position B dir value_of id_of)" "\<lambda>limit. 0 < limit \<and> limit \<le> 100"
  "\<lambda>c. cur_sort c = lq_sort q \<and> cur_value c \<noteq> None" "cursor_position B dir"
  "list_page_of B q dir value_of id_of wr" for B q dir value_of id_of wr
proof unfold_locales
  fix rows :: "'a list" and limit :: nat and after :: "list_cursor option"
  let ?key = "row_position B dir value_of id_of"
  let ?after = "after_key ?key (map_option (cursor_position B dir) after) (sort_key ?key rows)"
  assume valid: "distinct (map id_of rows) \<and> faithful_cursors B value_of wr rows"
  then show "strictly_ordered ?key (sort_key ?key rows)" by (intro strictly_ordered_sort_key distinct_row_positions) simp
  assume limit: "0 < limit \<and> limit \<le> 100"
    and issued: "pred_option (\<lambda>c. cur_sort c = lq_sort q \<and> cur_value c \<noteq> None) after"
  from limit have size: "clampLimit limit = limit" by (simp add: clampLimit_def)
  have page: "list_page_of B q dir value_of id_of wr rows limit after =
      (take limit ?after, if limit < length ?after
        then Some \<lparr>cur_sort = lq_sort q, cur_id = id_of (last (take limit ?after)), cur_value = wr (last (take limit ?after))\<rparr>
        else None)"
    using page_of_window[OF _ refl, of "q\<lparr>lq_limit := limit, lq_after := after\<rparr>" B dir value_of id_of wr rows] issued
    by (simp add: list_page_of_def Let_def size)
  then show "fst (list_page_of B q dir value_of id_of wr rows limit after) = take limit ?after" by simp
  have "\<exists>v. wr (last (take limit ?after)) = Some v \<and> collated B v = collated B (value_of (last (take limit ?after)))"
    if "limit < length ?after"
  proof -
    have "last (take limit ?after) \<in> set (take limit ?after)" using that limit by (intro last_in_set) auto
    then have "last (take limit ?after) \<in> set rows"
      by (auto dest!: in_set_takeD simp: after_key_def split: option.splits)
    with valid show ?thesis by (simp add: faithful_cursors_def)
  qed
  then show "case snd (list_page_of B q dir value_of id_of wr rows limit after) of
      None \<Rightarrow> length ?after \<le> limit
    | Some c \<Rightarrow> (cur_sort c = lq_sort q \<and> cur_value c \<noteq> None) \<and> limit < length ?after \<and>
        cursor_position B dir c = ?key (last (take limit ?after))"
    by (auto simp: page cursor_position_def row_position_def order_key_def split: option.split)
qed simp

lemma follow_pages_map:
  "follow_pages (\<lambda>after. (map f (fst (page after)), snd (page after))) n after = map f (follow_pages page n after)"
  by (induction n arbitrary: after) (auto simp: case_prod_beta split: option.split)

lemma lists_complete:
  assumes "distinct (map id_of rows)" "faithful_cursors B value_of wr rows" "1 \<le> limit" "limit \<le> 100" "length rows \<le> n"
  shows "follow_pages (list_page_of B q dir value_of id_of wr rows limit) n None = sort_key (row_position B dir value_of id_of) rows"
  using list_pages.follow_all[where after = None and w = rows and limit = limit and n = n] assms
  by (simp add: after_key_def)

text \<open>The pages of a computation that only reads, as a client sees them.\<close>

definition pages_of :: "world \<Rightarrow> (list_cursor option \<Rightarrow> (world, 'r list_page) io) \<Rightarrow> nat \<Rightarrow> 'r list" where
  "pages_of w list' n = follow_pages (\<lambda>after. case fst (list' after w) of
     Inr p \<Rightarrow> (lp_items p, lp_nextCursor p) | Inl _ \<Rightarrow> ([], None)) n None"

lemma pages_of_list:
  assumes "\<And>after. fst (list' after w) = Inr (p after)"
    and "\<And>after. lp_items (p after) = map f (fst (page after)) \<and> lp_nextCursor (p after) = snd (page after)"
  shows "pages_of w list' n = map f (follow_pages page n None)"
  unfolding pages_of_def follow_pages_map[symmetric] by (simp add: assms)

lemma distinct_ids: "distinct (map f rows) \<Longrightarrow> (\<And>r. g (h r) = f r) \<Longrightarrow> distinct (map g (map h (filter p rows)))"
  by (auto simp: distinct_map inj_on_def)

lemma normalized_name:
  "fst (normalizeSort known s) = ''name'' \<Longrightarrow> s = ''name'' \<or> s = ''-name''"
  by (cases s) (auto simp: normalizeSort_def Let_def split: if_splits)

section \<open>Categories, settings and logs\<close>

text \<open>The three lists that answer their rows as the page has them.\<close>

lemma plain_list_complete:
  assumes "\<And>after. fst (list' after w) = Inr (cursor_page B (q\<lparr>lq_limit := limit, lq_after := after\<rparr>) dir value_of id_of wr rows)"
    and "distinct (map id_of rows)" "faithful_cursors B value_of wr rows" "1 \<le> limit" "limit \<le> 100" "length rows \<le> n"
  shows "pages_of w list' n = sort_key (row_position B dir value_of id_of) rows"
  using pages_of_list[where f = id and page = "list_page_of B q dir value_of id_of wr rows limit" and list' = list' and w = w and n = n,
      OF assms(1)] lists_complete[OF assms(2-6), where q = q and dir = dir]
  by (simp add: list_page_of_def Let_def)

definition category_position :: "platform \<Rightarrow> list_platform \<Rightarrow> list_query \<Rightarrow> counted_category \<Rightarrow> (sort_value \<times> jstr) directed" where
  "category_position P B q = (let (field, dir) = normalizeSort category_fields (lq_sort q) in
     row_position B dir (category_value (pg_lower P) field) mc_id)"

lemma toCategory_fields [simp]: "mc_id (toCategory k c) = mc_id c" "mc_name (toCategory k c) = mc_name c"
  by (simp_all add: toCategory_def metric_category.defs)

text \<open>The pages of the category list are all its rows, in order; by name under the same condition as for metrics.\<close>

theorem category_pages_complete:
  assumes "tracking_inv P w" "1 \<le> limit" "limit \<le> 100" "length (metric_categories (db w)) \<le> n"
    and "lq_sort q = ''name'' \<or> lq_sort q = ''-name'' \<Longrightarrow>
      filter (\<lambda>c. toLowerCase P (mc_name c) \<noteq> pg_lower P (mc_name c)) (metric_categories (db w)) = []"
  shows "pages_of w (\<lambda>after. ListCategories P B (q\<lparr>lq_limit := limit, lq_after := after\<rparr>) filterName) n =
    sort_key (category_position P B q) (map (\<lambda>c. toCategory (metricCount (db w) (mc_id c)) c)
      (filter (category_where B q filterName) (metric_categories (db w))))"
proof -
  obtain field dir where sorted: "normalizeSort category_fields (lq_sort q) = (field, dir)" by fastforce
  let ?rows = "map (\<lambda>c. toCategory (metricCount (db w) (mc_id c)) c) (filter (category_where B q filterName) (metric_categories (db w)))"
  have "distinct (map mc_id (metric_categories (db w)))"
    using assms(1) by (simp add: tracking_inv_def tracking_rows_def category_table_def id_rows_def)
  then have ids: "distinct (map mc_id ?rows)" by (rule distinct_ids) simp
  have "category_value (toLowerCase P) field c = category_value (pg_lower P) field c" if "c \<in> set ?rows" for c
    using that assms(5) normalized_name[of category_fields "lq_sort q"] sorted
    by (auto simp: category_value_def filter_empty_conv)
  then have "faithful_cursors B (category_value (pg_lower P) field) (\<lambda>c. Some (category_value (toLowerCase P) field c)) ?rows"
    by (simp add: faithful_cursors_def)
  then have "pages_of w (\<lambda>after. ListCategories P B (q\<lparr>lq_limit := limit, lq_after := after\<rparr>) filterName) n =
      sort_key (row_position B dir (category_value (pg_lower P) field) mc_id) ?rows"
    using ids assms(2-4) le_trans[OF length_filter_le assms(4)]
    by (intro plain_list_complete[where q = q and limit = limit])
      (simp_all add: ListCategories_def Category_list_def sorted category_where_def[abs_def])
  then show ?thesis by (simp add: category_position_def sorted)
qed

definition settings_position :: "list_platform \<Rightarrow> list_query \<Rightarrow> metric_settings \<Rightarrow> (sort_value \<times> jstr) directed" where
  "settings_position B q = (let (field, dir) = normalizeSort settings_fields (lq_sort q) in
     row_position B dir (settings_value field) ms_id)"

lemma settings_entity_id [simp]: "ms_id (settings_entity s) = ms_id s"
  by (simp add: settings_entity_def metric_settings.defs)

text \<open>The pages of the settings list.\<close>

theorem settings_pages_complete:
  assumes "tracking_inv P w" "1 \<le> limit" "limit \<le> 100" "length (metric_settings (db w)) \<le> n" "lq_userId q \<noteq> []"
  shows "pages_of w (\<lambda>after. ListMetricSettingsViaCursor B (q\<lparr>lq_limit := limit, lq_after := after\<rparr>) metricId isActive) n =
    sort_key (settings_position B q) (map settings_entity (filter (settings_where q metricId isActive (db w)) (metric_settings (db w))))"
proof -
  obtain field dir where sorted: "normalizeSort settings_fields (lq_sort q) = (field, dir)" by fastforce
  let ?rows = "map settings_entity (filter (settings_where q metricId isActive (db w)) (metric_settings (db w)))"
  have "distinct (map ms_id (metric_settings (db w)))"
    using assms(1) by (simp add: tracking_inv_def tracking_rows_def settings_table_def id_rows_def)
  then have "distinct (map ms_id ?rows)" by (rule distinct_ids) simp
  then have "pages_of w (\<lambda>after. ListMetricSettingsViaCursor B (q\<lparr>lq_limit := limit, lq_after := after\<rparr>) metricId isActive) n =
      sort_key (row_position B dir (settings_value field) ms_id) ?rows"
    using assms(2-5) le_trans[OF length_filter_le assms(4)]
    by (intro plain_list_complete[where q = q and limit = limit and wr = "\<lambda>s. Some (settings_value field s)"])
      (simp_all add: ListMetricSettingsViaCursor_def Settings_listByCursor_def sorted settings_where_def[abs_def] faithful_cursors_def)
  then show ?thesis by (simp add: settings_position_def sorted)
qed

definition log_position :: "list_platform \<Rightarrow> list_query \<Rightarrow> metric_log \<Rightarrow> (sort_value \<times> jstr) directed" where
  "log_position B q = (let (field, dir) = normalizeSort log_fields (lq_sort q) in
     row_position B dir (log_value field) ml_id)"

lemma truncated_log [simp]: "ml_id (metric_log.truncate l) = ml_id l" "ml_logValue (metric_log.truncate l) = ml_logValue l"
  by (simp_all add: metric_log.defs)

text \<open>The pages of the log list: a value that is not finite would be written to the cursor as null.\<close>

theorem log_pages_complete:
  assumes "tracking_inv P w" "1 \<le> limit" "limit \<le> 100" "lq_userId q \<noteq> []" "length (metric_logs (db w)) \<le> n"
    and "filter (\<lambda>l. \<not> isFinite (ml_logValue l)) (metric_logs (db w)) = []"
  shows "pages_of w (\<lambda>after. ListMetricLogs B (q\<lparr>lq_limit := limit, lq_after := after\<rparr>) metricId logValue) n =
    sort_key (log_position B q) (map metric_log.truncate (filter (log_where B q metricId logValue (db w)) (metric_logs (db w))))"
proof -
  obtain field dir where sorted: "normalizeSort log_fields (lq_sort q) = (field, dir)" by fastforce
  let ?rows = "map metric_log.truncate (filter (log_where B q metricId logValue (db w)) (metric_logs (db w)))"
  have "distinct (map ml_id (metric_logs (db w)))"
    using assms(1) by (simp add: tracking_inv_def tracking_rows_def log_table_def id_rows_def)
  then have ids: "distinct (map ml_id ?rows)" by (rule distinct_ids) simp
  have "json_value (log_value field l) = Some (log_value field l)" if "l \<in> set ?rows" for l
    using that assms(6) by (auto simp: json_value_def log_value_def filter_empty_conv)
  then have "faithful_cursors B (log_value field) (\<lambda>l. json_value (log_value field l)) ?rows"
    by (simp add: faithful_cursors_def)
  then have "pages_of w (\<lambda>after. ListMetricLogs B (q\<lparr>lq_limit := limit, lq_after := after\<rparr>) metricId logValue) n =
      sort_key (row_position B dir (log_value field) ml_id) ?rows"
    using ids assms(2-5) le_trans[OF length_filter_le assms(5)]
    by (intro plain_list_complete[where q = q and limit = limit])
      (simp_all add: ListMetricLogs_def Log_listLogs_def sorted log_where_def[abs_def])
  then show ?thesis by (simp add: log_position_def sorted)
qed

section \<open>Metrics\<close>

definition metric_position :: "platform \<Rightarrow> list_platform \<Rightarrow> list_query \<Rightarrow> listed_metric \<Rightarrow> (sort_value \<times> jstr) directed" where
  "metric_position P B q = (let (field, dir) = normalizeSort metric_list_fields (lq_sort q) in
     row_position B dir (metric_value (pg_lower P) field) mt_id)"

lemma listed_fields [simp]: "mt_id (listed d m) = mt_id m" "mt_userId (listed d m) = mt_userId m" "mt_name (listed d m) = mt_name m"
  by (simp_all add: listed_def metric.defs)

lemma cursor_page_member: "r \<in> set (lp_items (cursor_page B q dir value_of id_of wr rows)) \<Longrightarrow> r \<in> set rows"
  by (auto simp: cursor_page_def Let_def dest!: in_set_takeD split: option.splits if_splits)

text \<open>
  C13. Reading the list of metrics page by page, each request from the cursor the one before it answered, gives
  every metric the query asks for exactly once, in the order of the sort, whatever the field and the direction. By
  name this needs the database to lower the names as the language does: the cursor carries the language's lower case
  and is compared with the database's.
\<close>

theorem metric_pages_complete:
  assumes "tracking_inv P w" "1 \<le> limit" "limit \<le> 100" "lq_userId q \<noteq> []" "length (metrics (db w)) \<le> n"
    and "lq_sort q = ''name'' \<or> lq_sort q = ''-name'' \<Longrightarrow>
      filter (\<lambda>m. toLowerCase P (mt_name m) \<noteq> pg_lower P (mt_name m)) (metrics (db w)) = []"
  shows "pages_of w (\<lambda>after. ListMetrics P B (q\<lparr>lq_limit := limit, lq_after := after\<rparr>) filterName categoryId) n =
    map toDomainMetricLibrary (sort_key (metric_position P B q)
      (map (listed (db w)) (filter (metric_where B q filterName categoryId) (metrics (db w)))))"
proof -
  obtain field dir where sorted: "normalizeSort metric_list_fields (lq_sort q) = (field, dir)" by fastforce
  let ?rows = "map (listed (db w)) (filter (metric_where B q filterName categoryId) (metrics (db w)))"
  let ?page = "list_page_of B q dir (metric_value (pg_lower P) field) mt_id (\<lambda>m. Some (metric_value (toLowerCase P) field m)) ?rows limit"
  have "distinct (map mt_id (metrics (db w)))"
    using assms(1) by (simp add: tracking_inv_def tracking_rows_def metric_table_def id_rows_def)
  then have ids: "distinct (map mt_id ?rows)" by (rule distinct_ids) simp
  have "metric_value (toLowerCase P) field r = metric_value (pg_lower P) field r" if "r \<in> set ?rows" for r
    using that assms(6) normalized_name[of metric_list_fields "lq_sort q"] sorted
    by (auto simp: metric_value_def filter_empty_conv)
  then have "faithful_cursors B (metric_value (pg_lower P) field) (\<lambda>m. Some (metric_value (toLowerCase P) field m)) ?rows"
    by (simp add: faithful_cursors_def)
  note complete = lists_complete[OF ids this assms(2,3), where n = n and q = q and dir = dir]
  have scope: "metric_where B (q\<lparr>lq_limit := limit, lq_after := after\<rparr>) filterName categoryId = metric_where B q filterName categoryId" for after
    by (simp add: metric_where_def[abs_def])
  let ?p = "\<lambda>after. cursor_page B (q\<lparr>lq_limit := limit, lq_after := after\<rparr>) dir (metric_value (pg_lower P) field) mt_id
      (\<lambda>m. Some (metric_value (toLowerCase P) field m)) ?rows"
  have users: "\<not> list_ex (\<lambda>m. mt_userId m = []) (lp_items (?p after))" for after
    using assms(4) by (auto simp: list_ex_iff metric_where_def owned_metric_def dest!: cursor_page_member)
  have run: "fst (ListMetrics P B (q\<lparr>lq_limit := limit, lq_after := after\<rparr>) filterName categoryId w) =
      Inr ((map_page toDomainMetricLibrary (?p after))\<lparr>lp_limit := limit\<rparr>)" for after
    using users[of after] assms(4) by (simp add: ListMetrics_def Metric_listMetrics_def sorted run_bind scope)
  have "pages_of w (\<lambda>after. ListMetrics P B (q\<lparr>lq_limit := limit, lq_after := after\<rparr>) filterName categoryId) n =
      map toDomainMetricLibrary (follow_pages ?page n None)"
    by (rule pages_of_list, rule run) (simp add: map_page_def list_page_of_def Let_def)
  also have "follow_pages ?page n None = sort_key (metric_position P B q) ?rows"
    using complete le_trans[OF length_filter_le assms(5)] by (simp add: metric_position_def sorted)
  finally show ?thesis .
qed



section \<open>Instances\<close>

definition sample_lists :: list_platform where
  "sample_lists = \<lparr>ilike = (\<lambda>p s. True), collate = (\<lambda>s. s), js_Number = (\<lambda>s. NaN), pg_avg = (\<lambda>vs. NaN)\<rparr>"

definition sample_query :: "string \<Rightarrow> list_query" where
  "sample_query sort' = \<lparr>lq_userId = lit ''u'', lq_organizationId = lit ''o'', lq_limit = 1, lq_sort = sort', lq_q = None,
     lq_after = None, lq_includeTotal = False\<rparr>"

definition sample_lists_world :: world where
  "sample_lists_world = sample_tracking_world\<lparr>db := (db sample_tracking_world)\<lparr>
     metrics := [sample_metric\<lparr>mt_id := [2], mt_name := lit ''Water''\<rparr>, sample_metric],
     metric_logs := [sample_log, sample_log\<lparr>ml_id := [6], ml_loggedAt := 0\<rparr>]\<rparr>\<rparr>"

lemma sample_lists_inv: "tracking_inv sample_platform sample_lists_world"
  using sample_uuid_inj
  by (simp add: tracking_inv_def tracking_rows_def table_defs linked_def id_rows_def unique_keys_def in_category_def has_metric_def
      sample_lists_world_def sample_tracking_world_def sample_world_def empty_database_def sample_metric_def sample_settings_def
      sample_log_def nonempty_def used_uuids_def sample_platform_def settings_validate_def log_validate_def js_le_def
      metric_settings.defs image_iff lit_def)

theorem log_pages_complete_witness:
  "map ml_id (pages_of sample_lists_world
     (\<lambda>after. ListMetricLogs sample_lists ((sample_query ''loggedAt'')\<lparr>lq_limit := 1, lq_after := after\<rparr>) None None) 2) = [[6], [5]]"
proof -
  have "sort_key (log_position sample_lists (sample_query ''loggedAt'')) (map metric_log.truncate
      (filter (log_where sample_lists (sample_query ''loggedAt'') None None (db sample_lists_world)) (metric_logs (db sample_lists_world)))) =
    map metric_log.truncate [sample_log\<lparr>ml_id := [6], ml_loggedAt := 0\<rparr>, sample_log]"
    by (simp add: sample_lists_world_def sample_tracking_world_def log_where_def sample_query_def nonempty_def owns_metric_def
        owned_metric_def live_metric_def sample_metric_def sample_log_def log_position_def normalizeSort_def log_fields_def
        row_position_def order_key_def log_value_def less_eq_sort_value_def less_sort_value_def metric_log.defs)
  with log_pages_complete[OF sample_lists_inv, of 1 "sample_query ''loggedAt''" 2 sample_lists None None] show ?thesis
    by (simp add: sample_query_def sample_lists_world_def sample_log_def metric_log.defs lit_def)
qed

theorem metric_pages_complete_witness:
  "map lib_name (pages_of sample_lists_world (\<lambda>after. ListMetrics sample_platform sample_lists
     ((sample_query ''-name'')\<lparr>lq_limit := 1, lq_after := after\<rparr>) None None) 2) = [lit ''Water'', lit ''Steps'']"
proof -
  let ?rows = "filter (metric_where sample_lists (sample_query ''-name'') None None) (metrics (db sample_lists_world))"
  have rows: "?rows = [sample_metric\<lparr>mt_id := [2], mt_name := lit ''Water''\<rparr>, sample_metric]"
    by (simp add: sample_lists_world_def sample_tracking_world_def metric_where_def sample_query_def nonempty_def owned_metric_def
        matches_def sample_metric_def)
  have "sort_key (metric_position sample_platform sample_lists (sample_query ''-name'')) (map (listed (db sample_lists_world)) ?rows) =
    map (listed (db sample_lists_world)) ?rows"
    unfolding rows
    by (simp add: metric_position_def sample_query_def normalizeSort_def metric_list_fields_def
        row_position_def order_key_def metric_value_def less_eq_sort_value_def less_sort_value_def sample_lists_def sample_platform_def
        lit_def sample_metric_def)
  then have "pages_of sample_lists_world (\<lambda>after. ListMetrics sample_platform sample_lists
      ((sample_query ''-name'')\<lparr>lq_limit := 1, lq_after := after\<rparr>) None None) 2 =
    map toDomainMetricLibrary (map (listed (db sample_lists_world)) ?rows)"
    by (subst metric_pages_complete[OF sample_lists_inv])
      (simp_all add: sample_lists_world_def sample_query_def lit_def sample_platform_def)
  then show ?thesis
    unfolding rows by (simp add: toDomainMetricLibrary_def sample_metric_def)
qed

section \<open>The detail of a metric\<close>

lemma latest_logs_order:
  "sorted_wrt (\<lambda>l m. ml_loggedAt m \<le> ml_loggedAt l) (latest_logs d k n)"
proof -
  have "sorted_wrt (\<lambda>l m. ml_loggedAt m \<le> ml_loggedAt l)
      (sort_key (\<lambda>l. Downwards (ml_loggedAt l, ml_id l)) (filter (\<lambda>l. ml_metricId l = k) (metric_logs d)))"
    using sorted_sort_key[of "\<lambda>l. Downwards (ml_loggedAt l, ml_id l)"]
    by (rule sorted_wrt_mono_rel[rotated, OF iffD1[OF sorted_map]]) (auto split: if_splits)
  then show ?thesis
    by (simp add: latest_logs_def sorted_wrt_take sorted_wrt_map metric_log.defs)
qed

text \<open>The logs answered and the rest of the metric's logs, none of which is newer.\<close>

lemma latest_logs_newest:
  "\<exists>rest. mset (latest_logs d k n @ rest) = mset (map metric_log.truncate (filter (\<lambda>l. ml_metricId l = k) (metric_logs d))) \<and>
     (\<forall>a \<in> set (latest_logs d k n). \<forall>b \<in> set rest. ml_loggedAt b \<le> ml_loggedAt a)"
proof -
  define logs where "logs = sort_key (\<lambda>l. Downwards (ml_loggedAt l, ml_id l)) (filter (\<lambda>l. ml_metricId l = k) (metric_logs d))"
  have all: "latest_logs d k n = take n (map metric_log.truncate logs)" by (simp add: latest_logs_def logs_def)
  have "latest_logs d k (length logs) = map metric_log.truncate logs" by (simp add: latest_logs_def logs_def)
  then have "sorted_wrt (\<lambda>l m. ml_loggedAt m \<le> ml_loggedAt l) (take n (map metric_log.truncate logs) @ drop n (map metric_log.truncate logs))"
    using latest_logs_order[of d k "length logs"] by simp
  then have "\<forall>a \<in> set (take n (map metric_log.truncate logs)). \<forall>b \<in> set (drop n (map metric_log.truncate logs)).
      ml_loggedAt b \<le> ml_loggedAt a"
    unfolding sorted_wrt_append by blast
  moreover have "mset (map metric_log.truncate logs) = mset (map metric_log.truncate (filter (\<lambda>l. ml_metricId l = k) (metric_logs d)))"
    by (simp add: logs_def mset_map)
  ultimately show ?thesis unfolding all by (intro exI[of _ "drop n (map metric_log.truncate logs)"]) simp
qed

text \<open>
  C14. The detail of a metric is answered to its owner alone and never refused otherwise: it is a live metric of
  hers, field by field. What it includes, and only what was asked for, belongs to that metric. The category is the
  metric's and is not deleted, and its count of metrics always reads 0; without one, the metric has no live category.
  The settings are a row of the metric, as they are read; without them, it has no row. The logs are logs of the metric,
  as many as asked for if there are as many, the newest first, and none of the metric's other logs is newer.
\<close>

theorem metric_detail_contents:
  "case fst (GetMetricDetail u v k includes n w) of
     Inl e \<Rightarrow> False
   | Inr None \<Rightarrow> \<not> owns_metric (db w) u v k
   | Inr (Some m) \<Rightarrow>
       (\<exists>r \<in> set (metrics (db w)). mt_id r = k \<and> owned_metric u v r \<and> mt_deletedAt r = None \<and> metric.truncate m = metric.truncate r) \<and>
       (case md_category m of
          None \<Rightarrow> IncludeCategory \<in> set includes \<longrightarrow>
            (\<forall>c \<in> set (metric_categories (db w)). mt_categoryId m = Some (mc_id c) \<longrightarrow> mc_deletedAt c \<noteq> None)
        | Some c \<Rightarrow> IncludeCategory \<in> set includes \<and> mt_categoryId m = Some (mc_id c) \<and> mc_metricCount c = 0 \<and>
            (\<exists>row \<in> set (metric_categories (db w)). mc_deletedAt row = None \<and> metric_category.truncate c = metric_category.truncate row)) \<and>
       (case md_settings m of
          None \<Rightarrow> IncludeSettings \<in> set includes \<longrightarrow> (\<forall>s \<in> set (metric_settings (db w)). ms_metricId s \<noteq> k)
        | Some s \<Rightarrow> IncludeSettings \<in> set includes \<and>
            (\<exists>row \<in> set (metric_settings (db w)). ms_metricId row = k \<and> s = toDomainMetricSettings row)) \<and>
       (case md_logs m of
          None \<Rightarrow> IncludeLogs \<notin> set includes
        | Some logs \<Rightarrow> IncludeLogs \<in> set includes \<and> length logs = min n (logCount (db w) k) \<and>
            sorted_wrt (\<lambda>a b. ml_loggedAt b \<le> ml_loggedAt a) logs \<and>
            (\<exists>rest. mset (logs @ rest) = mset (map metric_log.truncate (filter (\<lambda>l. ml_metricId l = k) (metric_logs (db w)))) \<and>
              (\<forall>a \<in> set logs. \<forall>b \<in> set rest. ml_loggedAt b \<le> ml_loggedAt a)))"
proof (cases "List.find (\<lambda>m. mt_id m = k \<and> owned_metric u v m \<and> live_metric m) (metrics (db w))")
  case None
  then have "\<not> owns_metric (db w) u v k" by (auto simp: find_None_iff owns_metric_def list_ex_iff)
  with None show ?thesis by (simp add: GetMetricDetail_def Metric_findDetailedMetric_def run_bind)
next
  case (Some r)
  then have r: "r \<in> set (metrics (db w))" "mt_id r = k" "owned_metric u v r" "live_metric r" by (auto dest!: find_SomeD)
  define m where "m = metric.extend (metric.truncate r)
     \<lparr>md_category = (if IncludeCategory \<in> set includes then map_option (toCategory 0) (live_category_of (db w) r) else None),
      md_settings = (if IncludeSettings \<in> set includes
        then map_option toDomainMetricSettings (List.find (\<lambda>s. ms_metricId s = k) (metric_settings (db w))) else None),
      md_logs = (if IncludeLogs \<in> set includes then Some (latest_logs (db w) k n) else None)\<rparr>"
  have run: "fst (GetMetricDetail u v k includes n w) = Inr (Some m)"
    using Some r by (simp add: GetMetricDetail_def Metric_findDetailedMetric_def run_bind owned_metric_def metric.defs m_def)
  have fields: "metric.truncate m = metric.truncate r" "mt_categoryId m = mt_categoryId r" by (simp_all add: m_def metric.defs)
  have logs: "length (latest_logs (db w) k n) = min n (logCount (db w) k)"
    by (simp add: latest_logs_def logCount_def count_where_def min.commute)
  have category: "case md_category m of
          None \<Rightarrow> IncludeCategory \<in> set includes \<longrightarrow>
            (\<forall>c \<in> set (metric_categories (db w)). mt_categoryId m = Some (mc_id c) \<longrightarrow> mc_deletedAt c \<noteq> None)
        | Some c \<Rightarrow> IncludeCategory \<in> set includes \<and> mt_categoryId m = Some (mc_id c) \<and> mc_metricCount c = 0 \<and>
            (\<exists>row \<in> set (metric_categories (db w)). mc_deletedAt row = None \<and> metric_category.truncate c = metric_category.truncate row)"
  proof (cases "live_category_of (db w) r")
    case None
    then have "md_category m = None" by (simp add: m_def metric.defs)
    with None fields(2) show ?thesis by (auto simp: live_category_of_def find_None_iff live_category_def)
  next
    case (Some c)
    then have "md_category m = (if IncludeCategory \<in> set includes then Some (toCategory 0 c) else None)" by (simp add: m_def metric.defs)
    with Some fields(2) show ?thesis
      by (auto simp: live_category_of_def toCategory_def metric_category.defs live_category_def dest!: find_SomeD intro: rev_bexI)
  qed
  have settings: "case md_settings m of
          None \<Rightarrow> IncludeSettings \<in> set includes \<longrightarrow> (\<forall>s \<in> set (metric_settings (db w)). ms_metricId s \<noteq> k)
        | Some s \<Rightarrow> IncludeSettings \<in> set includes \<and>
            (\<exists>row \<in> set (metric_settings (db w)). ms_metricId row = k \<and> s = toDomainMetricSettings row)"
  proof (cases "List.find (\<lambda>s. ms_metricId s = k) (metric_settings (db w))")
    case None
    then have "md_settings m = None" by (simp add: m_def metric.defs)
    with None show ?thesis by (auto simp: find_None_iff)
  next
    case (Some s)
    then show ?thesis by (auto simp: m_def metric.defs dest!: find_SomeD)
  qed
  have "md_logs m = (if IncludeLogs \<in> set includes then Some (latest_logs (db w) k n) else None)" by (simp add: m_def metric.defs)
  then show ?thesis
    using r category settings logs latest_logs_order[of "db w" k n] latest_logs_newest[of "db w" k n] fields(1)
    unfolding run by (simp add: live_metric_def) blast
qed

text \<open>A metric with a live category, settings, and two logs of which one is asked for.\<close>

definition sample_category :: category_row where
  "sample_category = \<lparr>mc_id = [7], mc_userId = lit ''u'', mc_name = lit ''Health'', mc_color = [], mc_icon = [], mc_createdAt = 0,
     mc_updatedAt = 0, mc_deletedAt = None, mc_organizationId = lit ''o''\<rparr>"

definition sample_detail_world :: world where
  "sample_detail_world = sample_tracking_world\<lparr>db := (db sample_tracking_world)\<lparr>
     metrics := [sample_metric\<lparr>mt_categoryId := Some [7]\<rparr>], metric_categories := [sample_category],
     metric_logs := [sample_log\<lparr>ml_id := [6], ml_loggedAt := 0\<rparr>, sample_log]\<rparr>\<rparr>"

theorem metric_detail_contents_witness:
  "\<exists>m c logs. fst (GetMetricDetail (lit ''u'') (lit ''o'') [3] [IncludeCategory, IncludeLogs] 1 sample_detail_world) = Inr (Some m) \<and>
     mt_id m = [3] \<and> md_category m = Some c \<and> mc_name c = lit ''Health'' \<and> md_logs m = Some logs \<and> length logs = 1"
proof -
  let ?run = "fst (GetMetricDetail (lit ''u'') (lit ''o'') [3] [IncludeCategory, IncludeLogs] 1 sample_detail_world)"
  have "\<exists>m c. ?run = Inr (Some m) \<and> mt_id m = [3] \<and> md_category m = Some c \<and> mc_name c = lit ''Health''"
    by (simp add: GetMetricDetail_def Metric_findDetailedMetric_def run_bind sample_detail_world_def sample_tracking_world_def
        sample_metric_def sample_category_def owned_metric_def live_metric_def live_category_of_def live_category_def toCategory_def
        metric.defs metric_category.defs)
  then obtain m c where m: "?run = Inr (Some m)" "mt_id m = [3]" "md_category m = Some c" "mc_name c = lit ''Health''" by blast
  have "logCount (db sample_detail_world) [3] = 2"
    by (simp add: logCount_def count_where_def sample_detail_world_def sample_log_def)
  with m metric_detail_contents[of sample_detail_world "lit ''u''" "lit ''o''" "[3]" "[IncludeCategory, IncludeLogs]" 1]
  have "\<exists>logs. md_logs m = Some logs \<and> length logs = 1" by (cases "md_logs m") auto
  with m show ?thesis by blast
qed

end
