(* ===== verification/TrackingReads.thy ===== *)
theory TrackingReads imports TrackingPages begin

text \<open>
  What a read of the tracking features answers. A tenant's reads answer as if the rows of the tenant were the
  only ones (the locality lemmas \<open>*_alone\<close>, route by route and list by list), and a metric that was deleted is
  in none of them again.
\<close>

section \<open>Reads see the rows of one tenant\<close>

text \<open>The state with the rows of one tenant only: her metrics and categories, and the settings and logs of her metrics.\<close>

definition tenant_part :: "jstr \<Rightarrow> jstr \<Rightarrow> database \<Rightarrow> database" where
  "tenant_part u v d = d\<lparr>metrics := filter (owned_metric u v) (metrics d),
     metric_categories := filter (owned_category u v) (metric_categories d),
     metric_settings := filter (\<lambda>s. list_ex (\<lambda>m. mt_id m = ms_metricId s \<and> owned_metric u v m) (metrics d)) (metric_settings d),
     metric_logs := filter (\<lambda>l. list_ex (\<lambda>m. mt_id m = ml_metricId l \<and> owned_metric u v m) (metrics d)) (metric_logs d)\<rparr>"

definition alone :: "jstr \<Rightarrow> jstr \<Rightarrow> world \<Rightarrow> world" where
  "alone u v w = w\<lparr>db := tenant_part u v (db w)\<rparr>"

lemma alone_simps [simp]: "db (alone u v w) = tenant_part u v (db w)" "tick (alone u v w) = tick w"
  by (simp_all add: alone_def)

lemma tenant_part_simps [simp]:
  "metrics (tenant_part u v d) = filter (owned_metric u v) (metrics d)"
  "metric_categories (tenant_part u v d) = filter (owned_category u v) (metric_categories d)"
  "metric_settings (tenant_part u v d) =
     filter (\<lambda>s. list_ex (\<lambda>m. mt_id m = ms_metricId s \<and> owned_metric u v m) (metrics d)) (metric_settings d)"
  "metric_logs (tenant_part u v d) =
     filter (\<lambda>l. list_ex (\<lambda>m. mt_id m = ml_metricId l \<and> owned_metric u v m) (metrics d)) (metric_logs d)"
  "users (tenant_part u v d) = users d" "memberships (tenant_part u v d) = memberships d"
  by (simp_all add: tenant_part_def)

lemma find_filter_eq: "(\<And>x. x \<in> set xs \<Longrightarrow> p x \<Longrightarrow> q x) \<Longrightarrow> List.find p (filter q xs) = List.find p xs"
  by (induction xs) auto

lemma filter_filter_eq: "(\<And>x. x \<in> set xs \<Longrightarrow> p x \<Longrightarrow> q x) \<Longrightarrow> filter p (filter q xs) = filter p xs"
  by (induction xs) auto

lemma count_filter_eq: "(\<And>x. x \<in> set xs \<Longrightarrow> p x \<Longrightarrow> q x) \<Longrightarrow> count_where p (filter q xs) = count_where p xs"
  using filter_filter_eq[of xs p q] by (simp add: count_where_def)

lemma owns_metric_alone [simp]: "owns_metric (tenant_part u v d) u v k = owns_metric d u v k"
  by (auto simp: owns_metric_def list_ex_iff)

lemma owns_metric_member: "owns_metric d u v k \<Longrightarrow> list_ex (\<lambda>m. mt_id m = k \<and> owned_metric u v m) (metrics d)"
  by (auto simp: owns_metric_def list_ex_iff)

text \<open>A category of the tenant holds metrics of hers alone, and a metric of hers is in a category of hers.\<close>

lemma category_links:
  assumes "tracking_inv P w" "[] \<notin> range (random_uuid P)"
  shows "\<lbrakk>c \<in> set (metric_categories (db w)); owned_category u v c; r \<in> set (metrics (db w)); mt_categoryId r = Some (mc_id c)\<rbrakk> \<Longrightarrow> owned_metric u v r"
    "\<lbrakk>r \<in> set (metrics (db w)); owned_metric u v r; c \<in> set (metric_categories (db w)); mt_categoryId r = Some (mc_id c)\<rbrakk> \<Longrightarrow> owned_category u v c"
proof -
  have ids: "id_rows mc_id (used_uuids P w) (metric_categories (db w))"
    and linked: "\<forall>r \<in> set (metrics (db w)). in_category (metric_categories (db w)) r"
    using assms(1) by (simp_all add: tracking_inv_def tracking_rows_def category_table_def linked_def)
  have same: "owned_category (mt_userId r) (mt_organizationId r) c"
    if c: "c \<in> set (metric_categories (db w))" and r: "r \<in> set (metrics (db w))" "mt_categoryId r = Some (mc_id c)" for c r
  proof -
    have "mc_id c \<in> range (random_uuid P)" using ids c by (auto simp: id_rows_def used_uuids_def)
    with assms(2) have "mc_id c \<noteq> []" by metis
    with r(2) have "nonempty (mt_categoryId r) = Some (mc_id c)" by (simp add: nonempty_def)
    with linked r(1) obtain e where "e \<in> set (metric_categories (db w))" "mc_id e = mc_id c" "owned_category (mt_userId r) (mt_organizationId r) e"
      unfolding in_category_def by blast
    with id_rows_eq[OF ids] c show ?thesis by metis
  qed
  show "\<lbrakk>c \<in> set (metric_categories (db w)); owned_category u v c; r \<in> set (metrics (db w)); mt_categoryId r = Some (mc_id c)\<rbrakk> \<Longrightarrow> owned_metric u v r"
    using same[of c r] by (auto simp: owned_category_def owned_metric_def)
  show "\<lbrakk>r \<in> set (metrics (db w)); owned_metric u v r; c \<in> set (metric_categories (db w)); mt_categoryId r = Some (mc_id c)\<rbrakk> \<Longrightarrow> owned_category u v c"
    using same[of c r] by (auto simp: owned_category_def owned_metric_def)
qed

lemma metricCount_alone:
  assumes "tracking_inv P w" "[] \<notin> range (random_uuid P)" "c \<in> set (metric_categories (db w))" "owned_category u v c"
  shows "metricCount (tenant_part u v (db w)) (mc_id c) = metricCount (db w) (mc_id c)"
  unfolding metricCount_def using category_links(1)[OF assms] by (auto intro!: count_filter_eq)

lemma live_category_alone:
  assumes "tracking_inv P w" "[] \<notin> range (random_uuid P)" "r \<in> set (metrics (db w))" "owned_metric u v r"
  shows "live_category_of (tenant_part u v (db w)) r = live_category_of (db w) r"
  unfolding live_category_of_def using category_links(2)[OF assms] by (auto intro!: find_filter_eq)

lemma logCount_alone:
  "r \<in> set (metrics d) \<Longrightarrow> owned_metric u v r \<Longrightarrow> logCount (tenant_part u v d) (mt_id r) = logCount d (mt_id r)"
  unfolding logCount_def by (auto simp: list_ex_iff intro!: count_filter_eq)

text \<open>What is read by an id.\<close>

lemma GetCategory_alone:
  assumes "tracking_inv P w" "[] \<notin> range (random_uuid P)"
  shows "fst (GetCategory u v k (alone u v w)) = fst (GetCategory u v k w)"
proof -
  have "List.find (\<lambda>c. mc_id c = k \<and> owned_category u v c \<and> live_category c) (filter (owned_category u v) (metric_categories (db w))) =
      List.find (\<lambda>c. mc_id c = k \<and> owned_category u v c \<and> live_category c) (metric_categories (db w))"
    by (rule find_filter_eq) simp
  then show ?thesis
    using metricCount_alone[OF assms, of _ u v]
    by (auto simp: GetCategory_def Category_findById_def Category_row_def run_bind split: option.split dest!: find_SomeD)
qed

lemma GetMetricSettings_alone: "fst (GetMetricSettings u v k (alone u v w)) = fst (GetMetricSettings u v k w)"
proof -
  have "List.find (\<lambda>r. ms_id r = k \<and> ms_organizationId r = v \<and> owns_metric (db w) u v (ms_metricId r)) (metric_settings (tenant_part u v (db w))) =
      List.find (\<lambda>r. ms_id r = k \<and> ms_organizationId r = v \<and> owns_metric (db w) u v (ms_metricId r)) (metric_settings (db w))"
    unfolding tenant_part_simps by (rule find_filter_eq) (simp add: owns_metric_member)
  then show ?thesis
    by (auto simp: GetMetricSettings_def Settings_findById_def authenticated_def run_andThen run_bind simp del: tenant_part_simps split: option.split)
qed

lemma GetMetricLog_alone: "fst (log_of_metric m k u v (alone u v w)) = fst (log_of_metric m k u v w)"
proof -
  have "List.find (\<lambda>r. ml_id r = k \<and> ml_organizationId r = v \<and> owns_metric (db w) u v (ml_metricId r)) (metric_logs (tenant_part u v (db w))) =
      List.find (\<lambda>r. ml_id r = k \<and> ml_organizationId r = v \<and> owns_metric (db w) u v (ml_metricId r)) (metric_logs (db w))"
    unfolding tenant_part_simps by (rule find_filter_eq) (simp add: owns_metric_member)
  then show ?thesis
    by (auto simp: log_of_metric_def GetMetricLog_def Log_findById_def run_bind simp del: tenant_part_simps split: option.split)
qed

text \<open>The lists.\<close>

lemma ListCategories_alone:
  assumes "tracking_inv P w" "[] \<notin> range (random_uuid P)"
  shows "fst (ListCategories P B q f (alone (lq_userId q) (lq_organizationId q) w)) = fst (ListCategories P B q f w)"
proof -
  let ?d = "tenant_part (lq_userId q) (lq_organizationId q) (db w)"
  have "filter (category_where B q f) (metric_categories ?d) = filter (category_where B q f) (metric_categories (db w))"
    unfolding tenant_part_simps by (rule filter_filter_eq) (simp add: category_where_def)
  moreover have "toCategory (metricCount ?d (mc_id c)) c = toCategory (metricCount (db w) (mc_id c)) c"
    if "c \<in> set (filter (category_where B q f) (metric_categories (db w)))" for c
    using that metricCount_alone[OF assms, of c] by (simp add: category_where_def)
  ultimately have "map (\<lambda>c. toCategory (metricCount ?d (mc_id c)) c) (filter (category_where B q f) (metric_categories ?d)) =
      map (\<lambda>c. toCategory (metricCount (db w) (mc_id c)) c) (filter (category_where B q f) (metric_categories (db w)))"
    by (simp only: map_eq_conv) blast
  then show ?thesis by (simp add: ListCategories_def Category_list_def split_beta del: tenant_part_simps)
qed

lemma ListSettings_alone:
  "fst (ListMetricSettingsViaCursor B q m a (alone (lq_userId q) (lq_organizationId q) w)) = fst (ListMetricSettingsViaCursor B q m a w)"
proof -
  let ?d = "tenant_part (lq_userId q) (lq_organizationId q) (db w)"
  have "settings_where q m a ?d = settings_where q m a (db w)" by (rule ext) (simp add: settings_where_def)
  then have "filter (settings_where q m a ?d) (metric_settings ?d) = filter (settings_where q m a (db w)) (metric_settings (db w))"
    unfolding tenant_part_simps by (simp only:) (rule filter_filter_eq, simp add: settings_where_def owns_metric_member)
  then show ?thesis by (simp add: ListMetricSettingsViaCursor_def Settings_listByCursor_def split_beta del: tenant_part_simps)
qed

lemma ListLogs_alone:
  "fst (ListMetricLogs B q m x (alone (lq_userId q) (lq_organizationId q) w)) = fst (ListMetricLogs B q m x w)"
proof -
  let ?d = "tenant_part (lq_userId q) (lq_organizationId q) (db w)"
  have "log_where B q m x ?d = log_where B q m x (db w)" by (rule ext) (simp add: log_where_def)
  then have "filter (log_where B q m x ?d) (metric_logs ?d) = filter (log_where B q m x (db w)) (metric_logs (db w))"
    unfolding tenant_part_simps by (simp only:) (rule filter_filter_eq, simp add: log_where_def owns_metric_member)
  then show ?thesis by (simp add: ListMetricLogs_def Log_listLogs_def split_beta del: tenant_part_simps)
qed

lemma ListMetrics_alone:
  assumes "tracking_inv P w" "[] \<notin> range (random_uuid P)"
  shows "fst (ListMetrics P B q f c (alone (lq_userId q) (lq_organizationId q) w)) = fst (ListMetrics P B q f c w)"
proof -
  let ?d = "tenant_part (lq_userId q) (lq_organizationId q) (db w)"
  have "filter (metric_where B q f c) (metrics ?d) = filter (metric_where B q f c) (metrics (db w))"
    unfolding tenant_part_simps by (rule filter_filter_eq) (simp add: metric_where_def)
  moreover have "listed ?d r = listed (db w) r" if "r \<in> set (filter (metric_where B q f c) (metrics (db w)))" for r
    using that live_category_alone[OF assms, of r] logCount_alone[of r "db w"] by (simp add: metric_where_def listed_def)
  ultimately have "map (listed ?d) (filter (metric_where B q f c) (metrics ?d)) =
      map (listed (db w)) (filter (metric_where B q f c) (metrics (db w)))"
    by (simp only: map_eq_conv) blast
  then show ?thesis by (simp add: ListMetrics_def Metric_listMetrics_def run_bind split_beta del: tenant_part_simps)
qed

text \<open>The detail and the statistics.\<close>

lemma GetMetricDetail_alone:
  assumes "tracking_inv P w" "[] \<notin> range (random_uuid P)"
  shows "fst (GetMetricDetail u v k i n (alone u v w)) = fst (GetMetricDetail u v k i n w)"
proof -
  let ?d = "tenant_part u v (db w)"
  let ?find = "List.find (\<lambda>m. mt_id m = k \<and> owned_metric u v m \<and> live_metric m)"
  have found: "?find (metrics ?d) = ?find (metrics (db w))"
    unfolding tenant_part_simps by (rule find_filter_eq) simp
  show ?thesis
  proof (cases "?find (metrics (db w))")
    case None
    with found show ?thesis by (simp add: GetMetricDetail_def Metric_findDetailedMetric_def run_bind del: tenant_part_simps)
  next
    case (Some r)
    then have r: "r \<in> set (metrics (db w))" "owned_metric u v r" "mt_id r = k" by (auto dest!: find_SomeD)
    then have own: "list_ex (\<lambda>m. mt_id m = k \<and> owned_metric u v m) (metrics (db w))" by (auto simp: list_ex_iff)
    have "List.find (\<lambda>s. ms_metricId s = k) (metric_settings ?d) = List.find (\<lambda>s. ms_metricId s = k) (metric_settings (db w))"
      unfolding tenant_part_simps using own by (intro find_filter_eq) simp
    moreover have "filter (\<lambda>l. ml_metricId l = k) (metric_logs ?d) = filter (\<lambda>l. ml_metricId l = k) (metric_logs (db w))"
      unfolding tenant_part_simps using own by (intro filter_filter_eq) simp
    ultimately show ?thesis
      using Some found r(3) live_category_alone[OF assms r(1,2)]
      by (simp add: GetMetricDetail_def Metric_findDetailedMetric_def run_bind latest_logs_def del: tenant_part_simps)
  qed
qed

lemma validateMetricAccess_alone:
  assumes "tracking_inv P w"
  shows "fst (validateMetricAccess u v k (alone u v w)) = Inr () \<longleftrightarrow> fst (validateMetricAccess u v k w) = Inr ()"
proof -
  have ids: "id_rows mt_id (used_uuids P w) (metrics (db w))"
    using assms by (simp add: tracking_inv_def tracking_rows_def metric_table_def)
  have "fst (validateMetricAccess u v k x) = Inr () \<longleftrightarrow> u \<noteq> [] \<and> owns_metric (db x) u v k"
    if "distinct (map mt_id (metrics (db x)))" for x
  proof -
    have "r = s" if "r \<in> set (metrics (db x))" "s \<in> set (metrics (db x))" "mt_id r = mt_id s" for r s
      using that \<open>distinct _\<close> by (auto dest: unique_key_eq)
    then show ?thesis
      by (auto simp: validateMetricAccess_def owns_metric_def owned_metric_def list_ex_iff run_bind find_None_iff split: option.split dest!: find_SomeD)
  qed
  moreover have "distinct (map mt_id (metrics (db w)))" "distinct (map mt_id (metrics (db (alone u v w))))"
    using ids by (auto simp: id_rows_def distinct_map_filter)
  ultimately show ?thesis by simp
qed

lemma computeStats_alone:
  assumes "\<And>k. nonempty m = Some k \<Longrightarrow> owns_metric (db w) u v k"
  shows "fst (computeStats B u v m s e (alone u v w)) = fst (computeStats B u v m s e w)"
proof -
  have "stats_where u v m s e (tenant_part u v (db w)) = stats_where u v m s e (db w)" by (rule ext) (auto simp: stats_where_def split: option.split)
  then have "filter (stats_where u v m s e (tenant_part u v (db w))) (metric_logs (tenant_part u v (db w))) =
      filter (stats_where u v m s e (db w)) (metric_logs (db w))"
    unfolding tenant_part_simps using assms
    by (simp only:) (rule filter_filter_eq, auto simp: stats_where_def owns_metric_member split: option.splits)
  then show ?thesis by (simp add: computeStats_def del: tenant_part_simps)
qed

lemma GetMetricLogStats_alone:
  assumes "tracking_inv P w"
  shows "fst (GetMetricLogStats B u v m s e (alone u v w)) = Inr x \<longleftrightarrow> fst (GetMetricLogStats B u v m s e w) = Inr x"
proof (cases "nonempty m")
  case None
  then show ?thesis using computeStats_alone[of m w u v B s e] by (simp add: GetMetricLogStats_def run_andThen)
next
  case (Some k)
  have run: "fst (GetMetricLogStats B u v m s e y) = Inr x \<longleftrightarrow>
      fst (validateMetricAccess u v k y) = Inr () \<and> fst (computeStats B u v m s e y) = Inr x" for y
  proof (cases "validateMetricAccess u v k y")
    case (Pair r y')
    then have "y' = y" by (rule validateMetricAccess_fixes)
    with Pair Some show ?thesis by (cases r) (simp_all add: GetMetricLogStats_def run_andThen)
  qed
  have "owns_metric (db w) u v k" if "fst (validateMetricAccess u v k w) = Inr ()"
    using that validateMetricAccess_owns[of u v k w] by (metis prod.collapse)
  then show ?thesis
    unfolding run validateMetricAccess_alone[OF assms] using computeStats_alone[of m w u v B s e] Some by fastforce
qed

text \<open>The routes that only read: the middleware looks at the tables of the auth feature alone.\<close>

fun asks_only :: "tracking_request \<Rightarrow> bool" where
  "asks_only (CategoryRoute (GetCategoryRoute _ _)) = True"
| "asks_only (SettingsRoute (GetSettings _ _)) = True"
| "asks_only (LogRoute (GetLog _ _ _)) = True"
| "asks_only _ = False"

definition sees :: "jstr \<Rightarrow> jstr \<Rightarrow> (world, 'a) io \<Rightarrow> bool" where
  "sees u v m \<longleftrightarrow> (\<forall>w. m (alone u v w) = (fst (m w), alone u v (snd (m w))))"

lemma sees_return: "sees u v (return x)" and sees_throw: "sees u v (throw e)" and sees_newTick: "sees u v newTick"
  by (simp_all add: sees_def return_def throw_def newTick_def alone_def)

lemma sees_getsDb: "(\<And>d. f (tenant_part u v d) = f d) \<Longrightarrow> sees u v (getsDb f)"
  by (simp add: sees_def)

lemma sees_bind: "sees u v m \<Longrightarrow> (\<And>x. sees u v (f x)) \<Longrightarrow> sees u v (bind m f)"
  by (auto simp: sees_def run_bind split: prod.split sum.split)

lemma sees_tryCatch: "sees u v m \<Longrightarrow> (\<And>e. sees u v (h e)) \<Longrightarrow> sees u v (tryCatch m h)"
  by (auto simp: sees_def run_tryCatch split: prod.split sum.split)

lemmas sees_rules = sees_return sees_throw sees_newTick sees_getsDb sees_bind sees_tryCatch

lemma sees_authMiddleware: "sees u v (authMiddleware P req)"
  unfolding authMiddleware_def TokenProvider_verify_def User_findById_def Membership_findByUserAndOrg_def
  by (auto intro!: sees_rules split: option.split failure.split error_kind.split)

lemma http_tracking_alone:
  assumes "tracking_inv P w" "[] \<notin> range (random_uuid P)"
    and use_case: "\<And>x. tracking_inv P x \<Longrightarrow> fst (use u v (alone u v x)) = fst (use u v x)"
    and "tenant_of P req w = Some (u, v)"
  shows "fst (http_tracking P req st msg data use (alone u v w)) = fst (http_tracking P req st msg data use w)"
proof -
  obtain r w1 where run: "authMiddleware P req w = (r, w1)" by fastforce
  then have alone: "authMiddleware P req (alone u v w) = (r, alone u v w1)"
    using sees_authMiddleware[of u v P req] by (simp add: sees_def)
  from assms(4) run obtain c where c: "r = Inr c" "ctx_userId c = u" "ud_organizationId (ctx_user c) = v"
    by (auto simp: tenant_of_def split: sum.splits)
  have w1: "w1 = w\<lparr>tick := Suc (tick w)\<rparr>" using authMiddleware_Inr[OF run[unfolded c(1)]] by blast
  have "tracking_inv P w1" using assms(1) tracking_inv_frame[of P w w1] by (simp add: w1)
  from use_case[OF this] have same: "fst (use u v (alone u v w1)) = fst (use u v w1)" .
  have answer: "fst (http_tracking P req st msg data use y) =
      (case fst (assertAuthenticated (Some c) y') of Inl e \<Rightarrow> Inl e | Inr _ \<Rightarrow>
        (case fst (use u v y') of Inl e \<Rightarrow> Inl e | Inr x \<Rightarrow> Inr (successResponse st (data x) msg)))"
    if "authMiddleware P req y = (Inr c, y')" for y y'
    using that c by (simp add: http_tracking_def assertAuthenticated_def run_bind split: sum.split prod.split)
  have "fst (assertAuthenticated (Some c) (alone u v w1)) = fst (assertAuthenticated (Some c) w1)"
    by (simp add: assertAuthenticated_def)
  then show ?thesis unfolding answer[OF run[unfolded c(1)]] answer[OF alone[unfolded c(1)]] same by simp
qed

lemma reads_alone:
  assumes "tracking_inv P w" "[] \<notin> range (random_uuid P)" "asks_only r" "tenant_of P (request_of r) w = Some (u, v)"
  shows "fst (tracking_routers P env r (alone u v w)) = fst (tracking_routers P env r w)"
proof -
  have "fst (tracking_handler P r (alone u v w)) = fst (tracking_handler P r w)"
    using assms(3,4)
    by (cases r rule: asks_only.cases; simp only: asks_only.simps request_of.simps tracking_handler.simps
        createMetricCategoryRouter.simps createMetricSettingsRouter.simps createMetricLogRouter.simps controllers)
      (rule http_tracking_alone[OF assms(1,2)], (rule GetCategory_alone[OF _ assms(2)] GetMetricSettings_alone GetMetricLog_alone), assumption+)+
  then show ?thesis by (simp add: tracking_routers_def answer_fst)
qed


text \<open>Another member of the sample tenant's organization asks to delete the sample metric.\<close>

definition sample_stranger :: platform where
  "sample_stranger = sample_platform\<lparr>jwt_verify := (\<lambda>t s. Some \<lparr>decoded_id = Some (lit ''x''),
     decoded_email = Some (lit ''x''), decoded_organizationId = Some (lit ''o''), decoded_iat = None, decoded_exp = None\<rparr>)\<rparr>"

definition sample_shared_world :: world where
  "sample_shared_world = sample_tracking_world\<lparr>db := (db sample_tracking_world)\<lparr>
     users := [sample_user, sample_user\<lparr>user_id := lit ''x''\<rparr>],
     memberships := [sample_membership, sample_membership\<lparr>m_id := lit ''y'', m_userId := lit ''x''\<rparr>]\<rparr>\<rparr>"


section \<open>Deleted metrics\<close>

lemma gone_from_lists:
  assumes "gone P k w"
  shows "fst (ListMetrics P B q f c w) = Inr metric_page \<Longrightarrow> k \<notin> lib_id ` set (lp_items metric_page)"
    "fst (ListMetricSettingsViaCursor B q m a w) = Inr settings_page \<Longrightarrow> k \<notin> ms_metricId ` set (lp_items settings_page)"
    "fst (ListMetricLogs B q m x w) = Inr log_page \<Longrightarrow> k \<notin> ml_metricId ` set (lp_items log_page)"
proof -
  note unowned = gone_not_owned[OF assms] gone_not_live[OF assms]
  have live: "\<forall>r \<in> set (metrics (db w)). mt_deletedAt r = None \<longrightarrow> mt_id r \<noteq> k"
    using unowned(2) unfolding live_metric_def by blast
  show "fst (ListMetrics P B q f c w) = Inr metric_page \<Longrightarrow> k \<notin> lib_id ` set (lp_items metric_page)"
    using live
    by (auto simp: ListMetrics_def Metric_listMetrics_def run_bind split_beta map_page_def toDomainMetricLibrary_def metric_where_def
        listed_def metric.defs live_metric_def split: if_splits dest!: cursor_page_member) blast
  show "fst (ListMetricSettingsViaCursor B q m a w) = Inr settings_page \<Longrightarrow> k \<notin> ms_metricId ` set (lp_items settings_page)"
    using unowned(1)
    by (auto simp: ListMetricSettingsViaCursor_def Settings_listByCursor_def split_beta settings_where_def settings_entity_def
        metric_settings.defs split: if_splits dest!: cursor_page_member)
  show "fst (ListMetricLogs B q m x w) = Inr log_page \<Longrightarrow> k \<notin> ml_metricId ` set (lp_items log_page)"
    using unowned(1)
    by (auto simp: ListMetricLogs_def Log_listLogs_def split_beta log_where_def metric_log.defs split: if_splits dest!: cursor_page_member)
qed

definition without_logs :: "jstr \<Rightarrow> world \<Rightarrow> world" where
  "without_logs k w = w\<lparr>db := (db w)\<lparr>metric_logs := filter (\<lambda>l. ml_metricId l \<noteq> k) (metric_logs (db w))\<rparr>\<rparr>"

lemma gone_from_detail: "gone P k w \<Longrightarrow> fst (GetMetricDetail u v k i n w) = Inr None"
proof -
  assume "gone P k w"
  from gone_not_live[OF this] have "List.find (\<lambda>m. mt_id m = k \<and> owned_metric u v m \<and> live_metric m) (metrics (db w)) = None"
    by (auto simp: find_None_iff)
  then show ?thesis by (simp add: GetMetricDetail_def Metric_findDetailedMetric_def run_bind)
qed

lemma gone_from_stats:
  assumes "gone P k w"
  shows "if nonempty m = Some k then \<not> succeeds (GetMetricLogStats B u v m s e) w
    else fst (GetMetricLogStats B u v m s e (without_logs k w)) = fst (GetMetricLogStats B u v m s e w)"
proof -
  note unowned = gone_not_owned[OF assms] gone_not_live[OF assms]
  have same: "filter (stats_where u v m s e (db (without_logs k w))) (metric_logs (db (without_logs k w))) =
      filter (stats_where u v m s e (db w)) (metric_logs (db w))" if "nonempty m \<noteq> Some k"
  proof -
    have "stats_where u v m s e (db (without_logs k w)) = stats_where u v m s e (db w)"
      by (rule ext) (auto simp: stats_where_def without_logs_def owns_metric_def split: option.split)
    moreover have "filter (stats_where u v m s e (db w)) (filter (\<lambda>l. ml_metricId l \<noteq> k) (metric_logs (db w))) =
        filter (stats_where u v m s e (db w)) (metric_logs (db w))"
      unfolding filter_filter using that unowned(1) by (intro filter_cong refl) (auto simp: stats_where_def split: option.splits)
    ultimately show ?thesis by (simp add: without_logs_def)
  qed
  have refused: "\<not> succeeds (validateMetricAccess u v k) w"
    using unowned(2) by (auto simp: succeeds_def validateMetricAccess_def run_bind split: option.split dest!: find_SomeD)
  have access: "validateMetricAccess u v j (without_logs k w) = (fst (validateMetricAccess u v j w), without_logs k w)" for j
    by (auto simp: validateMetricAccess_def run_bind without_logs_def split: option.split)
  show ?thesis
  proof (cases "nonempty m")
    case None
    with same show ?thesis by (simp add: GetMetricLogStats_def run_andThen computeStats_def)
  next
    case (Some j)
    obtain r w1 where r: "validateMetricAccess u v j w = (r, w1)" by fastforce
    then have w1: "w1 = w" by (rule validateMetricAccess_fixes)
    show ?thesis
    proof (cases "j = k")
      case True
      with refused r Some show ?thesis by (cases r) (auto simp: succeeds_def GetMetricLogStats_def run_andThen)
    next
      case False
      with Some same r w1 access[of j] show ?thesis by (cases r) (simp_all add: GetMetricLogStats_def run_andThen computeStats_def)
    qed
  qed
qed
text \<open>
  C7. A deleted metric is gone for good. Whatever the server serves after the deletion, no read from the
  database finds it: not by its id, not in a page of the lists of metrics, settings or logs, not as a detail. Nobody is
  let through to it, none of its settings or logs is found by its own id, and its logs are no longer counted in the
  statistics. (The charts and the dashboard of the analytics feature are SQL texts, and a copy cached before the
  deletion is the subject of \<open>CacheProperties\<close>.)
\<close>

theorem deleted_metric_stays_deleted:
  assumes "DeleteMetric P u v k w = (Inr m, w1)" "tracking_inv P w" "reaches (server_step P env) w1 w2"
  shows "Metric_findOwnedById u' v' k w2 = (Inl (AppError ''Metric not found'' 404), w2) \<and>
    \<not> succeeds (validateMetricAccess u' v' k) w2 \<and>
    (\<forall>j s. fst (Settings_findById u' v' j w2) = Inr (Some s) \<longrightarrow> ms_metricId s \<noteq> k) \<and>
    (\<forall>j l. fst (Log_findById u' v' j w2) = Inr (Some l) \<longrightarrow> ml_metricId l \<noteq> k) \<and>
    (\<forall>p. fst (ListMetrics P B q f c w2) = Inr p \<longrightarrow> k \<notin> lib_id ` set (lp_items p)) \<and>
    (\<forall>p. fst (ListMetricSettingsViaCursor B q mf a w2) = Inr p \<longrightarrow> k \<notin> ms_metricId ` set (lp_items p)) \<and>
    (\<forall>p. fst (ListMetricLogs B q mf x w2) = Inr p \<longrightarrow> k \<notin> ml_metricId ` set (lp_items p)) \<and>
    fst (GetMetricDetail u' v' k i n w2) = Inr None \<and>
    (if nonempty mf = Some k then \<not> succeeds (GetMetricLogStats B u' v' mf s e) w2
     else fst (GetMetricLogStats B u' v' mf s e (without_logs k w2)) = fst (GetMetricLogStats B u' v' mf s e w2))"
proof -
  have gone: "gone P k w2" using gone_stays.reaches_inv[OF assms(3) DeleteMetric_gone[OF assms(1,2)]] .
  note unowned = gone_not_owned[OF gone] gone_not_live[OF gone]
  have "Metric_findOwnedById u' v' k w2 = (Inl (AppError ''Metric not found'' 404), w2)"
    using unowned(2) by (auto simp: Metric_findOwnedById_def Metric_row_def run_bind find_None_iff split: option.split dest!: find_SomeD)
  moreover have "\<not> succeeds (validateMetricAccess u' v' k) w2"
    using unowned(2) by (auto simp: succeeds_def validateMetricAccess_def run_bind split: option.split dest!: find_SomeD)
  moreover have "ms_metricId s \<noteq> k" if "fst (Settings_findById u' v' j w2) = Inr (Some s)" for j s
    using that unowned(1) by (auto simp: Settings_findById_def settings_entity_def metric_settings.defs dest!: find_SomeD)
  moreover have "ml_metricId l \<noteq> k" if "fst (Log_findById u' v' j w2) = Inr (Some l)" for j l
    using that unowned(1) by (auto simp: Log_findById_def metric_log.defs dest!: find_SomeD)
  ultimately show ?thesis
    using gone_from_lists[OF gone] gone_from_detail[OF gone, of u' v' i n] gone_from_stats[OF gone, of mf B u' v' s e]
    by (intro conjI allI impI) blast+
qed

theorem deleted_metric_stays_deleted_witness:
  "succeeds (DeleteMetric sample_platform (lit ''u'') (lit ''o'') [3]) sample_tracking_world \<and>
   Metric_findOwnedById (lit ''u'') (lit ''o'') [3]
      (final (DeleteMetric sample_platform (lit ''u'') (lit ''o'') [3]) sample_tracking_world) =
     (Inl (AppError ''Metric not found'' 404), final (DeleteMetric sample_platform (lit ''u'') (lit ''o'') [3]) sample_tracking_world)"
proof -
  have run: "succeeds (DeleteMetric sample_platform (lit ''u'') (lit ''o'') [3]) sample_tracking_world"
    by (simp add: succeeds_def DeleteMetric_def Metric_delete_def Metric_findOwnedById_def Metric_row_def run_bind run_andThen
        sample_tracking_world_def sample_world_def sample_metric_def owned_metric_def live_metric_def Metric_write_def checked_def
        metrics_check_def metric.defs fits_def lit_def)
  from deleted_metric_stays_deleted[OF returned_run[OF run] sample_tracking_inv reaches_refl, of "lit ''u''" "lit ''o''"] run
  show ?thesis by blast
qed

end
