(* ===== verification/CivilTime.thy ===== *)
theory CivilTime imports Prelude begin

text \<open>
  The proleptic Gregorian calendar of the language's \<open>Date\<close>: \<open>Date.UTC\<close> and the UTC accessors, on days
  and milliseconds counted from 1970. They are exact: a \<open>Date\<close> holds at most 8.64e15 milliseconds, below
  the integers a number holds without loss. Months count from zero, as they do there.
\<close>

section \<open>Days, months and years\<close>

definition MS_PER_DAY :: int where "MS_PER_DAY = 86400000"

definition MAX_TIME_MS :: int where "MAX_TIME_MS = 8640000000000000"

definition day_from_year :: "int \<Rightarrow> int" where
  "day_from_year y = 365 * (y - 1970) + (y - 1969) div 4 - (y - 1901) div 100 + (y - 1601) div 400"

definition leap_year :: "int \<Rightarrow> bool" where
  "leap_year y \<longleftrightarrow> y mod 4 = 0 \<and> (y mod 100 \<noteq> 0 \<or> y mod 400 = 0)"

text \<open>The year a day is in: an estimate from the mean year, one off at most.\<close>

definition year_of_day :: "int \<Rightarrow> int" where
  "year_of_day d = (let y = 1970 + d * 400 div 146097 in
     if d < day_from_year y then y - 1 else if day_from_year (y + 1) \<le> d then y + 1 else y)"

definition days_before_month :: "bool \<Rightarrow> int \<Rightarrow> int" where
  "days_before_month leap m =
     (if m \<le> 0 then 0 else if m = 1 then 31
      else [59, 90, 120, 151, 181, 212, 243, 273, 304, 334, 365] ! nat (m - 2) + (if leap then 1 else 0))"

definition first_day :: "int \<Rightarrow> int \<Rightarrow> int" where
  "first_day y m = day_from_year y + days_before_month (leap_year y) m"

definition days_in_month :: "int \<Rightarrow> int \<Rightarrow> int" where
  "days_in_month y m = days_before_month (leap_year y) (m + 1) - days_before_month (leap_year y) m"

definition month_of_day :: "int \<Rightarrow> int" where
  "month_of_day d = int (length (filter (\<lambda>m. first_day (year_of_day d) m \<le> d) [1..11]))"

definition date_of_day :: "int \<Rightarrow> int" where
  "date_of_day d = d - first_day (year_of_day d) (month_of_day d) + 1"

section \<open>The accessors and \<open>Date.UTC\<close>\<close>

definition getUTCFullYear :: "int \<Rightarrow> int" where "getUTCFullYear t = year_of_day (t div MS_PER_DAY)"
definition getUTCMonth :: "int \<Rightarrow> int" where "getUTCMonth t = month_of_day (t div MS_PER_DAY)"
definition getUTCDate :: "int \<Rightarrow> int" where "getUTCDate t = date_of_day (t div MS_PER_DAY)"
definition getUTCDay :: "int \<Rightarrow> int" where "getUTCDay t = (4 + t div MS_PER_DAY) mod 7"

text \<open>A year from 0 to 99 is taken for one of the nineteen hundreds. \<open>None\<close> is \<open>NaN\<close>.\<close>

definition full_year :: "int \<Rightarrow> int" where
  "full_year y = (if 0 \<le> y \<and> y \<le> 99 then 1900 + y else y)"

definition Date_UTC :: "int \<Rightarrow> int \<Rightarrow> int \<Rightarrow> int \<Rightarrow> int option" where
  "Date_UTC year month date ms =
     (let t = (first_day (full_year year + month div 12) (month mod 12) + date - 1) * MS_PER_DAY + ms in
      if \<bar>t\<bar> \<le> MAX_TIME_MS then Some t else None)"

section \<open>The calendar is right\<close>

lemma div_lower: "0 < (k :: int) \<Longrightarrow> k * (a div k) \<le> a"
  using pos_mod_sign[of k a] mult_div_mod_eq[of k a] by linarith

lemma div_upper: "0 < (k :: int) \<Longrightarrow> a < k * (a div k) + k"
  using pos_mod_bound[of k a] mult_div_mod_eq[of k a] by linarith

lemmas div_bounds = div_lower[OF zero_less_numeral] div_upper[OF zero_less_numeral]

lemma div_next:
  assumes "0 < (k :: int)"
  shows "(a + 1) div k = a div k + (if (a + 1) mod k = 0 then 1 else 0)"
proof -
  have r: "0 \<le> a mod k" "a mod k < k" "a = k * (a div k) + a mod k" using assms by simp_all
  show ?thesis
  proof (cases "a mod k + 1 = k")
    case True
    then have "a + 1 = k * (a div k + 1)" using r(3) unfolding distrib_left by linarith
    then show ?thesis using assms by (metis mod_mult_self1_is_0 nonzero_mult_div_cancel_left less_irrefl)
  next
    case False
    then have bound: "0 \<le> a mod k + 1" "a mod k + 1 < k" using r by auto
    have eq: "a + 1 = k * (a div k) + (a mod k + 1)" using r(3) by simp
    have "(a + 1) div k = a div k" using int_div_pos_eq[OF eq bound] .
    moreover have "(a + 1) mod k = a mod k + 1" using int_mod_pos_eq[OF eq bound] .
    ultimately show ?thesis using r by simp
  qed
qed

lemma year_div_next:
  assumes "0 < k" "k dvd s - 1"
  shows "(y + 1 - s) div k = (y - s) div k + (if y mod k = 0 then 1 else (0 :: int))"
proof -
  have "y - (s - 1) = y - s + 1" "y + 1 - s = y - s + 1" by simp_all
  moreover have "k dvd y - (s - 1) \<longleftrightarrow> k dvd y" using assms(2) by (rule dvd_diff_left_iff)
  ultimately show ?thesis using div_next[OF assms(1), of "y - s"] by (simp only: mod_eq_0_iff_dvd)
qed

lemma day_from_year_Suc: "day_from_year (y + 1) = day_from_year y + 365 + (if leap_year y then 1 else 0)"
proof -
  define p q r where "p \<longleftrightarrow> y mod 4 = 0" and "q \<longleftrightarrow> y mod 100 = 0" and "r \<longleftrightarrow> y mod 400 = 0"
  define a b c where "a = (y - 1969) div 4" and "b = (y - 1901) div 100" and "c = (y - 1601) div 400"
  have nested: "r \<longrightarrow> q" "q \<longrightarrow> p"
    using dvd_trans[of 100 400 y] dvd_trans[of 4 100 y] by (simp_all add: mod_eq_0_iff_dvd p_def q_def r_def)
  have "(y + 1 - 1969) div 4 = a + (if p then 1 else 0)"
    unfolding a_def p_def by (rule year_div_next) simp_all
  moreover have "(y + 1 - 1901) div 100 = b + (if q then 1 else 0)"
    unfolding b_def q_def by (rule year_div_next) simp_all
  moreover have "(y + 1 - 1601) div 400 = c + (if r then 1 else 0)"
    unfolding c_def r_def by (rule year_div_next) simp_all
  ultimately have next_first: "day_from_year (y + 1) = 365 * (y + 1 - 1970) + (a + (if p then 1 else 0)) -
      (b + (if q then 1 else 0)) + (c + (if r then 1 else 0))"
    by (simp only: day_from_year_def)
  have first: "day_from_year y = 365 * (y - 1970) + a - b + c"
    by (simp only: day_from_year_def a_def b_def c_def)
  have leap: "leap_year y \<longleftrightarrow> p \<and> (\<not> q \<or> r)" by (simp only: leap_year_def p_def q_def r_def)
  show ?thesis
    unfolding next_first first leap using nested by (cases p; cases q; cases r) simp_all
qed

lemma day_from_year_less: "x < y \<Longrightarrow> day_from_year x + 365 \<le> day_from_year y"
proof -
  have "day_from_year x + 365 \<le> day_from_year (x + 1 + int n)" for n
  proof (induction n)
    case (Suc n)
    have "day_from_year (x + 1 + int (Suc n)) = day_from_year (x + 1 + int n + 1)" by (simp add: algebra_simps)
    with Suc day_from_year_Suc[of "x + 1 + int n"] show ?case by (simp split: if_splits)
  qed (simp add: day_from_year_Suc)
  then show "x < y \<Longrightarrow> ?thesis" using zless_iff_Suc_zadd[of x y] by (auto simp: algebra_simps)
qed

lemma day_from_year_near: "146097 * (y - 1970) - 800 \<le> 400 * day_from_year y" "400 * day_from_year y \<le> 146097 * (y - 1970) + 800"
proof -
  note bounds = div_lower[of 4 "y - 1969"] div_upper[of 4 "y - 1969"] div_lower[of 100 "y - 1901"]
    div_upper[of 100 "y - 1901"] div_lower[of 400 "y - 1601"] div_upper[of 400 "y - 1601"]
  show "146097 * (y - 1970) - 800 \<le> 400 * day_from_year y" unfolding day_from_year_def using bounds by (simp add: algebra_simps)
  show "400 * day_from_year y \<le> 146097 * (y - 1970) + 800" unfolding day_from_year_def using bounds by (simp add: algebra_simps)
qed

lemma year_of_day:
  "day_from_year (year_of_day d) \<le> d" "d < day_from_year (year_of_day d + 1)"
proof -
  define y where "y = 1970 + d * 400 div 146097"
  have est: "146097 * (y - 1970) \<le> 400 * d" "400 * d < 146097 * (y - 1970) + 146097"
    using div_lower[of 146097 "d * 400"] div_upper[of 146097 "d * 400"] unfolding y_def by simp_all
  have below: "day_from_year (y - 1) \<le> d" using day_from_year_near(2)[of "y - 1"] est by (simp add: algebra_simps)
  have above: "d < day_from_year (y + 2)" using day_from_year_near(1)[of "y + 2"] est by (simp add: algebra_simps)
  show "day_from_year (year_of_day d) \<le> d" "d < day_from_year (year_of_day d + 1)"
    using below above by (auto simp: year_of_day_def Let_def y_def[symmetric] add.commute)
qed

lemma year_of_day_eq:
  assumes "day_from_year y \<le> d" "d < day_from_year (y + 1)"
  shows "year_of_day d = y"
proof (rule antisym)
  show "year_of_day d \<le> y"
  proof (rule ccontr)
    assume "\<not> year_of_day d \<le> y"
    then have "day_from_year (y + 1) \<le> day_from_year (year_of_day d)"
      using day_from_year_less[of "y + 1" "year_of_day d"] by (cases "year_of_day d = y + 1") auto
    with assms year_of_day(1)[of d] show False by linarith
  qed
  show "y \<le> year_of_day d"
  proof (rule ccontr)
    assume "\<not> y \<le> year_of_day d"
    then have "day_from_year (year_of_day d + 1) \<le> day_from_year y"
      using day_from_year_less[of "year_of_day d + 1" y] by (cases "y = year_of_day d + 1") auto
    with assms year_of_day(2)[of d] show False by linarith
  qed
qed

text \<open>The months of a year.\<close>

lemma month_range: "0 \<le> m \<Longrightarrow> m \<le> 11 \<Longrightarrow> m \<in> set [0, 1, 2, 3, 4, 5, 6, 7, 8, 9, 10, 11 :: int]"
  by simp presburger

lemma days_before_month_next: "0 \<le> m \<Longrightarrow> m \<le> 11 \<Longrightarrow> days_before_month l m + 28 \<le> days_before_month l (m + 1)"
  using month_range[of m] by (auto simp: days_before_month_def nth_Cons' numeral_eq_Suc)

lemma days_before_month_less:
  assumes "0 \<le> a" "a < b" "b \<le> 12"
  shows "days_before_month l a + 28 \<le> days_before_month l b"
proof -
  have "a + 1 + int n \<le> 12 \<Longrightarrow> days_before_month l a + 28 \<le> days_before_month l (a + 1 + int n)" for n
  proof (induction n)
    case 0
    then show ?case using assms(1) days_before_month_next[of a l] by simp
  next
    case (Suc n)
    then have "days_before_month l (a + 1 + int n) + 28 \<le> days_before_month l (a + 1 + int n + 1)"
      using assms(1) by (intro days_before_month_next) auto
    moreover have "a + 1 + int (Suc n) = a + 1 + int n + 1" by simp
    ultimately show ?case using Suc by auto
  qed
  then show ?thesis using assms zless_iff_Suc_zadd[of a b] by (auto simp: algebra_simps)
qed

lemma days_before_month_ends [simp]: "days_before_month l 0 = 0" "days_before_month l 12 = 365 + (if l then 1 else 0)"
  by (simp_all add: days_before_month_def)

lemma month_cases:
  assumes "0 \<le> r" "r < 365 + (if l then 1 else 0)"
  obtains m where "0 \<le> m" "m \<le> 11" "days_before_month l m \<le> r" "r < days_before_month l (m + 1)"
proof -
  define n where "n = (LEAST n. r < days_before_month l (int n + 1))"
  have last: "r < days_before_month l (int 11 + 1)" using assms(2) by simp
  have n: "r < days_before_month l (int n + 1)" "n \<le> 11"
    unfolding n_def by (rule LeastI[of "\<lambda>n. r < days_before_month l (int n + 1)", OF last], rule Least_le[of "\<lambda>n. r < days_before_month l (int n + 1)", OF last])
  have "days_before_month l (int n) \<le> r"
  proof (cases n)
    case (Suc k)
    then have "\<not> r < days_before_month l (int k + 1)" using not_less_Least[of k "\<lambda>n. r < days_before_month l (int n + 1)"] by (simp add: n_def)
    with Suc show ?thesis by (simp add: add.commute)
  qed (use assms(1) in simp)
  with n that[of "int n"] show thesis by auto
qed

lemma month_count:
  assumes "0 \<le> m" "m \<le> 11" "days_before_month l m \<le> r" "r < days_before_month l (m + 1)"
  shows "int (length (filter (\<lambda>k. days_before_month l k \<le> r) [1..11])) = m"
proof -
  have "days_before_month l k \<le> r \<longleftrightarrow> k \<le> m" if "k \<in> set [1..11]" for k
  proof
    assume "k \<le> m"
    then show "days_before_month l k \<le> r"
      using assms days_before_month_less[of k m l] that by (cases "k = m") auto
  next
    assume le: "days_before_month l k \<le> r"
    show "k \<le> m"
    proof (rule ccontr)
      assume "\<not> k \<le> m"
      then have "days_before_month l (m + 1) \<le> days_before_month l k"
        using assms that days_before_month_less[of "m + 1" k l] by (cases "k = m + 1") auto
      with le assms(4) show False by linarith
    qed
  qed
  then have "filter (\<lambda>k. days_before_month l k \<le> r) [1..11] = filter (\<lambda>k. k \<le> m) [1..11]"
    by (rule filter_cong[OF refl])
  moreover have "int (length (filter (\<lambda>k. k \<le> m) [1..11])) = m"
    using month_range[OF assms(1,2)] by (auto simp: upto.simps)
  ultimately show ?thesis by simp
qed

lemma first_day_0 [simp]: "first_day y 0 = day_from_year y"
  by (simp add: first_day_def)

lemma first_day_12 [simp]: "first_day y 12 = day_from_year (y + 1)"
  by (simp add: first_day_def day_from_year_Suc)

lemma first_day_next: "0 \<le> m \<Longrightarrow> m \<le> 11 \<Longrightarrow> first_day y (m + 1) = first_day y m + days_in_month y m"
  by (simp add: first_day_def days_in_month_def)

lemma first_day_less: "0 \<le> a \<Longrightarrow> a < b \<Longrightarrow> b \<le> 12 \<Longrightarrow> first_day y a + 28 \<le> first_day y b"
  using days_before_month_less[of a b] by (simp add: first_day_def)

text \<open>A date names one day, and a day one date.\<close>

definition valid_date :: "int \<Rightarrow> int \<Rightarrow> int \<Rightarrow> bool" where
  "valid_date y m d \<longleftrightarrow> 0 \<le> m \<and> m \<le> 11 \<and> 1 \<le> d \<and> d \<le> days_in_month y m"

lemma day_parts_unique:
  assumes "valid_date y m d"
  shows "year_of_day (first_day y m + d - 1) = y" "month_of_day (first_day y m + d - 1) = m"
    "date_of_day (first_day y m + d - 1) = d"
proof -
  let ?day = "first_day y m + d - 1"
  have m: "0 \<le> m" "m \<le> 11" and in_month: "first_day y m \<le> ?day" "?day < first_day y (m + 1)"
    using assms first_day_next[of m y] by (auto simp: valid_date_def)
  have "day_from_year y \<le> ?day" "?day < day_from_year (y + 1)"
    using in_month m first_day_less[of 0 m y] first_day_less[of "m + 1" 12 y]
    by (cases "m = 0"; cases "m = 11"; simp)+
  then show year: "year_of_day ?day = y" by (rule year_of_day_eq)
  have "month_of_day ?day = int (length (filter (\<lambda>k. days_before_month (leap_year y) k \<le> ?day - day_from_year y) [1..11]))"
    unfolding month_of_day_def year by (simp add: first_day_def algebra_simps)
  also have "\<dots> = m"
    using in_month by (intro month_count m) (simp_all add: first_day_def)
  finally show month: "month_of_day ?day = m" .
  show "date_of_day ?day = d" by (simp add: date_of_day_def year month)
qed

lemma day_parts:
  "valid_date (year_of_day d) (month_of_day d) (date_of_day d)"
  "first_day (year_of_day d) (month_of_day d) + date_of_day d - 1 = d"
proof -
  let ?y = "year_of_day d"
  have "0 \<le> d - day_from_year ?y" "d - day_from_year ?y < 365 + (if leap_year ?y then 1 else 0)"
    using year_of_day[of d] day_from_year_Suc[of ?y] by linarith+
  then obtain m where m: "0 \<le> m" "m \<le> 11" "days_before_month (leap_year ?y) m \<le> d - day_from_year ?y"
    "d - day_from_year ?y < days_before_month (leap_year ?y) (m + 1)"
    by (rule month_cases)
  have "valid_date ?y m (d - first_day ?y m + 1)"
    using m by (simp add: valid_date_def first_day_def days_in_month_def)
  note parts = day_parts_unique[OF this]
  show "valid_date ?y (month_of_day d) (date_of_day d)" "first_day ?y (month_of_day d) + date_of_day d - 1 = d"
    using parts \<open>valid_date ?y m (d - first_day ?y m + 1)\<close> by simp_all
qed

end
