(* ===== verification/TrackingText.thy ===== *)
theory TrackingText imports TrackingOutcomes CivilTime begin

text \<open>
  The text of metrics over the life of the server. The entity checks a change of a metric but not a new one: a new
  metric is as well formed as what its route was given, which is what the request schema let through. So the server
  is restricted here to the requests its schemas accept, and every other write keeps the rows as they are.
\<close>

section \<open>Accepted requests\<close>

text \<open>
  What \<open>createMetricSchema\<close> and \<open>generateDummyMetricsSchema\<close> let through to their handlers. Nothing is asked of the
  other routes, not even of an update of a metric, whose text the entity checks again.
\<close>

fun schema_sent :: "tracking_request \<Rightarrow> bool" where
  "schema_sent (MetricRoute (PostMetric _ x)) \<longleftrightarrow> (\<exists>b. metricBody b = Some x)"
| "schema_sent (MetricRoute (PostDummyMetrics _ count)) \<longleftrightarrow> 1 \<le> count \<and> count \<le> 1000"
| "schema_sent _ \<longleftrightarrow> True"

inductive validated_step :: "platform \<Rightarrow> node_env \<Rightarrow> world \<Rightarrow> world \<Rightarrow> bool" for P env where
  auth: "auth_step P env w w' \<Longrightarrow> validated_step P env w w'"
| tracking: "schema_sent r \<Longrightarrow> validated_step P env w (snd (tracking_routers P env r w))"
| dummy_logs_delivery: "validated_step P env w (snd (GenerateDummyMetricLogsHandler P body count m queue w))"

inductive_cases validated_stepE: "validated_step P env w w'"

section \<open>Dummy metrics\<close>

lemma decimal_length: "n < 10 ^ k \<Longrightarrow> 0 < k \<Longrightarrow> length (decimal n) \<le> k"
proof (induction k arbitrary: n)
  case (Suc k)
  show ?case
  proof (cases "n < 10")
    case True
    then show ?thesis by (subst decimal.simps) simp
  next
    case False
    with Suc.prems have "n div 10 < 10 ^ k" "0 < k" by (auto simp: div_less_iff_less_mult mult.commute intro: gr0I)
    with Suc.IH False show ?thesis by (subst decimal.simps) simp
  qed
qed simp

lemma js_integer_text: "\<bar>n\<bar> \<le> MAX_TIME_MS \<Longrightarrow> length (js_integer n) \<le> 17 \<and> (\<forall>c \<in> set (js_integer n). c = 45 \<or> is_digit c)"
proof -
  assume "\<bar>n\<bar> \<le> MAX_TIME_MS"
  then have "nat \<bar>n\<bar> < 10 ^ 16" by (simp add: MAX_TIME_MS_def)
  then have "length (decimal (nat \<bar>n\<bar>)) \<le> 16" by (rule decimal_length) simp
  then show ?thesis using decimal_digits[of "nat \<bar>n\<bar>"] by (auto simp: js_integer_def abs_if lit_def split: if_splits)
qed

lemma dropWhile_hd: "\<not> p (hd xs) \<Longrightarrow> dropWhile p xs = xs"
  by (cases xs) auto

text \<open>Printable ASCII is left alone by every check of characters.\<close>

lemma plain_label:
  assumes "\<forall>c \<in> set s. 32 \<le> c \<and> c < 127" "s \<noteq> []" "hd s \<noteq> 32" "last s \<noteq> 32" "length s \<le> most"
  shows "label most s"
proof -
  have plain: "\<not> is_high c \<and> \<not> is_low c" if "c \<in> set s" for c using assms(1) that by (auto simp: is_high_def is_low_def)
  have "\<not> hasUnpairedSurrogates s" using plain by (induction s) (auto simp: unpaired_Cons)
  moreover have "char_length s = length s" using plain by (intro char_length_plain) blast
  moreover have "32 < hd s \<and> hd s < 127" "32 < last s \<and> last s < 127"
    using assms(2-4) bspec[OF assms(1) hd_in_set] bspec[OF assms(1) last_in_set] by auto
  then have "\<not> js_space (hd s)" "\<not> js_space (hd (rev s))" by (auto simp: js_space_def hd_rev)
  then have "dropWhile js_space s = s" "dropWhile js_space (rev s) = rev s" using assms(2) by (simp_all add: dropWhile_hd)
  then have "js_trim s = s" by (simp add: js_trim_def)
  moreover have "\<not> hasInvalidControlChars s False" using assms(1) by (auto simp: hasInvalidControlChars_def list_ex_iff)
  ultimately show ?thesis using assms(2,5) by (cases s) (auto simp: label_def hasInvalidMetricChars_def)
qed

lemma dummy_name:
  assumes "\<bar>n\<bar> \<le> MAX_TIME_MS" "i < 1000"
  shows "label METRIC_NAME_MAX (lit ''Dummy Metric '' @ js_integer n @ lit ''-'' @ decimal i)"
proof (rule plain_label)
  have digits: "\<forall>c \<in> set (decimal i). is_digit c" by (rule decimal_digits)
  with js_integer_text[OF assms(1)]
  show "\<forall>c \<in> set (lit ''Dummy Metric '' @ js_integer n @ lit ''-'' @ decimal i). 32 \<le> c \<and> c < 127"
    by (auto simp: lit_def is_digit_def)
  have "is_digit (last (decimal i))" using bspec[OF digits last_in_set[OF decimal_nonempty]] .
  then show "last (lit ''Dummy Metric '' @ js_integer n @ lit ''-'' @ decimal i) \<noteq> 32"
    by (auto simp: is_digit_def decimal_nonempty)
  have "length (decimal i) \<le> 3" using assms(2) by (intro decimal_length) simp_all
  with js_integer_text[OF assms(1)] show "length (lit ''Dummy Metric '' @ js_integer n @ lit ''-'' @ decimal i) \<le> METRIC_NAME_MAX"
    by (simp add: METRIC_NAME_MAX_def lit_def)
qed (simp_all add: lit_def)

lemma dummy_unit: "k < 4 \<Longrightarrow> label METRIC_UNIT_MAX (DEFAULT_UNITS ! k)"
  by (rule plain_label) (auto simp: less_Suc_eq eval_nat_numeral DEFAULT_UNITS_def lit_def METRIC_UNIT_MAX_def)

lemma dummy_remark: "remark (Some (lit ''This is a dummy metric generated for testing pagination.''))"
  by (simp add: remark_def METRIC_DESCRIPTION_MAX_def hasInvalidMetricChars_def hasInvalidControlChars_def is_high_def is_low_def lit_def)

lemma text_create_dummy_metric:
  assumes "\<And>t. \<bar>clock P t\<bar> \<le> MAX_TIME_MS" "\<And>t. 0 \<le> math_random P t \<and> math_random P t < 1" "i < 1000"
  shows "keeps well_formed_rows (create_dummy_metric P u v i)"
proof -
  have index: "nat \<lfloor>math_random P t * 4\<rfloor> < 4" for t
    using assms(2)[of t] by (simp add: nat_less_iff floor_less_iff)
  have "well_formed_rows (snd (create_dummy_metric P u v i w))" if "well_formed_rows w" for w
  proof -
    let ?x = "\<lparr>cm_userId = u, cm_organizationId = v, cm_categoryId = None, cm_originalMetricId = None,
       cm_name = lit ''Dummy Metric '' @ js_integer (clock P (tick w)) @ lit ''-'' @ decimal i,
       cm_description = Some (lit ''This is a dummy metric generated for testing pagination.''),
       cm_defaultUnit = DEFAULT_UNITS ! nat \<lfloor>math_random P (Suc (tick w)) * 4\<rfloor>,
       cm_isPublic = (math_random P (Suc (Suc (tick w))) > 1 / 2)\<rparr>"
    have "create_dummy_metric P u v i w = Metric_create P ?x (w\<lparr>tick := Suc (Suc (Suc (tick w)))\<rparr>)"
      by (simp add: create_dummy_metric_def random_index_def newDate_def newTick_def run_bind DEFAULT_UNITS_def)
    moreover have "keeps well_formed_rows (Metric_create P ?x)"
      using dummy_name[OF assms(1,3)] dummy_unit[OF index] dummy_remark by (intro text_Metric_create) simp_all
    moreover have "well_formed_rows (w\<lparr>tick := Suc (Suc (Suc (tick w)))\<rparr>)" using that by (simp add: well_formed_rows_def)
    ultimately show ?thesis using keepsD by metis
  qed
  then show ?thesis by (simp add: keeps_def)
qed

lemma keeps_collect_upto: "(\<And>i. i \<in> set is \<Longrightarrow> keeps Q (f i)) \<Longrightarrow> keeps Q (collect is f)"
  by (induction "is") (auto intro!: keeps_return keeps_bind)

lemma text_GenerateDummyMetrics:
  assumes "\<And>t. \<bar>clock P t\<bar> \<le> MAX_TIME_MS" "\<And>t. 0 \<le> math_random P t \<and> math_random P t < 1" "count \<le> 1000"
  shows "keeps well_formed_rows (GenerateDummyMetrics P u v count)"
  unfolding GenerateDummyMetrics_def
  by (intro keeps_runInTransaction text_ignores ticks_grow_dummy_metrics keeps_collect_upto text_create_dummy_metric[OF assms(1,2)])
    (use assms(3) in simp)

section \<open>The server\<close>

lemma text_elsewhere:
  "ignores_outbox well_formed_rows" "ignores_jobs well_formed_rows" "ignores_lockouts well_formed_rows"
  "ignores_users well_formed_rows" "ignores_organizations well_formed_rows" "ignores_memberships well_formed_rows"
  "ignores_organization_invites well_formed_rows" "ignores_refresh_tokens well_formed_rows"
  "ignores_password_reset_tokens well_formed_rows" "ignores_email_verification_tokens well_formed_rows"
  "ignores_processed_messages well_formed_rows" "ignores_metric_categories well_formed_rows" "ignores_metric_logs well_formed_rows"
  by (simp_all add: ignores_defs ignores_tracking_defs well_formed_rows_def)

interpretation text_of_auth: kept_by_use_cases P well_formed_rows for P
  by unfold_locales (intro keeps_rules text_ignores text_elsewhere)+

lemma text_DeleteMetric: "keeps well_formed_rows (DeleteMetric P u v k)"
  unfolding DeleteMetric_def by (intro keeps_rules text_Metric_delete)

lemma text_http_tracking:
  "(\<And>u v. keeps well_formed_rows (use u v)) \<Longrightarrow> keeps well_formed_rows (http_tracking P req status message data use)"
  unfolding http_tracking_def by (intro text_ignores keeps_rules)

lemma text_router:
  assumes "\<And>t. \<bar>clock P t\<bar> \<le> MAX_TIME_MS" "\<And>t. 0 \<le> math_random P t \<and> math_random P t < 1" "schema_sent r"
  shows "keeps well_formed_rows (tracking_handler P r)"
  using assms(3)
proof (cases r rule: request_of.cases)
  case (1 req x)
  with assms(3) obtain b where "metricBody b = Some x" by auto
  then show ?thesis
    unfolding 1 tracking_handler.simps createMetricRouter.simps createMetric_def
    using metricBody_text by (intro text_http_tracking text_CreateMetric) simp_all
next
  case (4 req count)
  with assms(3) show ?thesis
    unfolding 4 tracking_handler.simps createMetricRouter.simps generateDummyMetrics_def
    by (intro text_http_tracking text_GenerateDummyMetrics assms(1,2)) simp
qed (simp_all only: tracking_handler.simps createMetricRouter.simps createMetricCategoryRouter.simps
      createMetricSettingsRouter.simps createMetricLogRouter.simps controllers,
    (intro text_http_tracking text_UpdateMetric text_DeleteMetric readers_keep keeps_rules text_ignores text_elsewhere)+)

lemma text_step:
  assumes "\<And>t. \<bar>clock P t\<bar> \<le> MAX_TIME_MS" "\<And>t. 0 \<le> math_random P t \<and> math_random P t < 1"
  shows "validated_step P env w w' \<Longrightarrow> well_formed_rows w \<Longrightarrow> well_formed_rows w'"
proof (elim validated_stepE)
  fix r assume "schema_sent r" "well_formed_rows w" "w' = snd (tracking_routers P env r w)"
  then show "well_formed_rows w'"
    unfolding tracking_routers_def using keeps_answer[OF text_router[OF assms]] by blast
next
  fix body count m queue
  assume "well_formed_rows w" "w' = snd (GenerateDummyMetricLogsHandler P body count m queue w)"
  moreover have "keeps well_formed_rows (GenerateDummyMetricLogsHandler P body count m queue)"
    by (intro keeps_rules text_ignores text_elsewhere)
  ultimately show "well_formed_rows w'" by (simp add: keepsD)
qed (rule text_of_auth.step_kept)

text \<open>
  C11. What a metric is called stays well-formed text. Whatever requests the schemas let through, to the routes of
  either feature and in any order, and whatever jobs are delivered: the name and the unit of every stored metric are
  trimmed, not empty, within their lengths (in code points) and without control characters and lone surrogates; its
  description, which is stored as sent and not trimmed, is within its length and has no lone surrogates and no
  control characters but tabs and line ends. This covers new metrics, updates, deletions and the dummy metrics, whose
  names are made of the clock's reading and a count: the clock reads a valid date and \<open>Math.random\<close> a number from
  0 up to, and not including, 1.
\<close>

theorem metric_text_stays_well_formed:
  assumes "\<And>t. \<bar>clock P t\<bar> \<le> MAX_TIME_MS" "\<And>t. 0 \<le> math_random P t \<and> math_random P t < 1"
    and "reaches (validated_step P env) w w'" "well_formed_rows w"
  shows "\<forall>r \<in> set (metrics (db w')). label METRIC_NAME_MAX (mt_name r) \<and> label METRIC_UNIT_MAX (mt_defaultUnit r) \<and>
    remark (mt_description r)"
proof -
  from assms(3,4) have "well_formed_rows w'" by (induction rule: reaches.induct) (auto intro: text_step[OF assms(1,2)])
  then show ?thesis by (simp add: well_formed_rows_def well_formed_metric_def list_all_iff)
qed

text \<open>A body whose name has to be trimmed, and the requests that register a user and create her metrics.\<close>

definition sample_metric_body :: metric_update where
  "sample_metric_body = no_metric_update\<lparr>mu_name := Some (lit '' Water ''), mu_defaultUnit := Some (lit ''ml'')\<rparr>"

definition sample_metric_dto :: create_metric_dto where
  "sample_metric_dto = \<lparr>cm_userId = [], cm_organizationId = [], cm_categoryId = None, cm_originalMetricId = None,
     cm_name = lit ''Water'', cm_description = None, cm_defaultUnit = lit ''ml'', cm_isPublic = False\<rparr>"

definition sample_steady :: platform where
  "sample_steady = sample_owner_platform\<lparr>clock := (\<lambda>t. 0)\<rparr>"

definition sample_text_start :: world where
  "sample_text_start = snd (createAuthRouter sample_steady Production (PostRegister sample_request sample_register) empty_world)"

definition sample_text_end :: world where
  "sample_text_end = snd (tracking_routers sample_steady Production (MetricRoute (PostDummyMetrics sample_request 1))
     (snd (tracking_routers sample_steady Production (MetricRoute (PostMetric sample_request sample_metric_dto)) sample_text_start)))"

lemma decimal_0: "decimal 0 = [48]"
  by (subst decimal.simps) simp

lemma sample_text_run:
  "map mt_name (metrics (db sample_text_end)) = [lit ''Water'', lit ''Dummy Metric 0-0'']"
  by (simp add: evaluate sample_text_end_def sample_text_start_def sample_steady_def sample_metric_dto_def sample_owner_platform_def
      sample_request_def sample_register_def slug_text_def is_lower_alnum_def metric_settings.defs metric.defs decimal_0)

theorem metric_text_stays_well_formed_witness:
  "map mt_name (metrics (db sample_text_end)) = [lit ''Water'', lit ''Dummy Metric 0-0''] \<and>
   list_all (\<lambda>r. label METRIC_NAME_MAX (mt_name r)) (metrics (db sample_text_end))"
proof -
  have body: "metricBody sample_metric_body = Some sample_metric_dto"
    by (simp add: metricBody_def metric_fields_def sample_metric_body_def no_metric_update_def sample_metric_dto_def sent_def
        nullable_def zMetricName_def zMetricDefaultUnit_def trimmed_text_def METRIC_NAME_MAX_def METRIC_UNIT_MAX_def lit_def
        hasInvalidControlChars_def js_trim_def js_space_def is_high_def is_low_def given_def)
  have reached: "reaches (validated_step sample_steady Production) empty_world sample_text_end"
    unfolding sample_text_end_def sample_text_start_def
    by (rule reaches_step[OF reaches_step[OF reaches_step[OF reaches_refl]]];
        rule validated_step.auth[OF auth_request] validated_step.tracking) (use body in auto)
  have start: "well_formed_rows empty_world" by (simp add: well_formed_rows_def empty_world_def empty_database_def)
  have "\<bar>clock sample_steady t\<bar> \<le> MAX_TIME_MS" "0 \<le> math_random sample_steady t \<and> math_random sample_steady t < 1" for t
    by (simp_all add: sample_steady_def sample_owner_platform_def sample_platform_def MAX_TIME_MS_def)
  from metric_text_stays_well_formed[OF this reached start]
  have "list_all (\<lambda>r. label METRIC_NAME_MAX (mt_name r)) (metrics (db sample_text_end))" by (simp add: list_all_iff)
  with sample_text_run show ?thesis by blast
qed

end
