(* ===== verification/CacheKeys.thy ===== *)
theory CacheKeys imports Messaging Tracking TrackingLists begin

text \<open>
  The read caches in Redis: the keys of \<open>shared/cache/keys.ts\<close> and the features' \<open>cache-keys.ts\<close> and
  \<open>cache.constants.ts\<close>, the middleware that answers from the cache and fills it (\<open>shared/middleware/cache.ts\<close>),
  and the patterns that the writes delete by. A key is built from the validated query of an authenticated request.
  Redis itself is a parameter: what a \<open>get\<close> answers, which texts a glob matches, the pages of a scan.
\<close>

section \<open>Keys\<close>

text \<open>How the language prints a number, the instant it reads in a date text, and SHA-1 as the cache cuts it.\<close>

record key_platform =
  number_text :: "js_number \<Rightarrow> jstr"
  date_ms :: "jstr \<Rightarrow> int"
  short_sha1 :: "jstr \<Rightarrow> jstr"

text \<open>The underscore, which stands for no value, and the star, which a pattern reads, are encoded by hand.\<close>

definition encodeSegmentText :: "jstr \<Rightarrow> jstr option" where
  "encodeSegmentText text' = map_option (\<lambda>s. concat (map (\<lambda>c. if c = 95 \<or> c = 42 then percent_byte c else [c]) s))
     (encodeURIComponent text')"

datatype segment_value = TextSegment jstr | WholeSegment nat | NumberSegment js_number | FlagSegment bool | NoSegment

definition normalizeSegmentValue :: "key_platform \<Rightarrow> segment_value \<Rightarrow> jstr option" where
  "normalizeSegmentValue K value' = (case value' of
      NoSegment \<Rightarrow> Some (lit ''_'')
    | FlagSegment b \<Rightarrow> Some (if b then lit ''1'' else lit ''0'')
    | WholeSegment n \<Rightarrow> Some (decimal n)
    | NumberSegment v \<Rightarrow> Some (if isFinite v then number_text K v else lit ''_'')
    | TextSegment s \<Rightarrow> if js_trim s = [] then Some (lit ''_'') else encodeSegmentText (js_trim s))"

text \<open>\<open>trim().replace(/\s+/g, "-")\<close>: a run of white space is one dash.\<close>

fun dashed_spaces :: "bool \<Rightarrow> jstr \<Rightarrow> jstr" where
  "dashed_spaces inside [] = []"
| "dashed_spaces inside (c # s) =
     (if js_space c then (if inside then dashed_spaces True s else 45 # dashed_spaces True s)
      else c # dashed_spaces False s)"

definition cursorCacheNamespace :: "jstr \<Rightarrow> jstr option \<Rightarrow> jstr" where
  "cursorCacheNamespace feature version =
     (let slug = dashed_spaces False (js_trim feature) in
      case nonempty version of
        None \<Rightarrow> lit ''cursor:'' @ slug
      | Some v \<Rightarrow> lit ''cursor:'' @ slug @ lit '':v'' @ (if hd v = 118 \<or> hd v = 86 then tl v else v))"

text \<open>The parts, each after a colon; a text that cannot be encoded throws.\<close>

fun key_parts :: "key_platform \<Rightarrow> (jstr \<times> segment_value) list \<Rightarrow> jstr option" where
  "key_parts K [] = Some []"
| "key_parts K ((label, value') # segments) =
     Option.bind (normalizeSegmentValue K value') (\<lambda>text'.
     map_option (\<lambda>rest. 58 # label @ 58 # text' @ rest) (key_parts K segments))"

definition buildCursorCacheKey ::
  "key_platform \<Rightarrow> jstr \<Rightarrow> jstr option \<Rightarrow> jstr \<Rightarrow> jstr \<Rightarrow> (jstr \<times> segment_value) list \<Rightarrow> jstr option" where
  "buildCursorCacheKey K feature version userId organizationId segments =
     Option.bind (normalizeSegmentValue K (TextSegment userId)) (\<lambda>safeUser.
     Option.bind (normalizeSegmentValue K (TextSegment organizationId)) (\<lambda>safeOrg.
     map_option (\<lambda>rest. cursorCacheNamespace feature version @ 58 # safeUser @ lit '':org:'' @ safeOrg @ rest)
       (key_parts K segments)))"

section \<open>The keys of the lists\<close>

record list_request =
  lr_userId :: jstr
  lr_organizationId :: jstr
  lr_limit :: nat
  lr_sort :: jstr
  lr_q :: "jstr option"
  lr_after :: "jstr option"
  lr_includeTotal :: bool

text \<open>\<open>x ?? ""\<close>.\<close>

definition text_or_empty :: "jstr option \<Rightarrow> segment_value" where
  "text_or_empty v = TextSegment (case v of Some s \<Rightarrow> s | None \<Rightarrow> [])"

definition METRIC_CURSOR_FEATURE :: jstr where "METRIC_CURSOR_FEATURE = lit ''metrics''"
definition METRIC_CATEGORY_CURSOR_FEATURE :: jstr where "METRIC_CATEGORY_CURSOR_FEATURE = lit ''metric-categories''"
definition METRIC_LOG_CURSOR_FEATURE :: jstr where "METRIC_LOG_CURSOR_FEATURE = lit ''metric-logs''"
definition METRIC_SETTINGS_CURSOR_FEATURE :: jstr where "METRIC_SETTINGS_CURSOR_FEATURE = lit ''metric-settings''"

definition metricsCursorCacheKey ::
  "key_platform \<Rightarrow> list_request \<Rightarrow> jstr option \<Rightarrow> jstr option \<Rightarrow> jstr option" where
  "metricsCursorCacheKey K r filterName categoryId =
     buildCursorCacheKey K METRIC_CURSOR_FEATURE (Some (lit ''4'')) (lr_userId r) (lr_organizationId r)
       [(lit ''l'', WholeSegment (lr_limit r)), (lit ''s'', TextSegment (lr_sort r)), (lit ''q'', text_or_empty (lr_q r)),
        (lit ''fn'', text_or_empty filterName), (lit ''fc'', text_or_empty categoryId),
        (lit ''after'', text_or_empty (lr_after r)), (lit ''it'', FlagSegment (lr_includeTotal r))]"

text \<open>The key of \<open>CachedMetricCategoryRepository.list\<close>.\<close>

definition categoriesCursorCacheKey :: "key_platform \<Rightarrow> list_request \<Rightarrow> jstr option \<Rightarrow> jstr option" where
  "categoriesCursorCacheKey K r filterName =
     buildCursorCacheKey K METRIC_CATEGORY_CURSOR_FEATURE (Some (lit ''4'')) (lr_userId r) (lr_organizationId r)
       [(lit ''l'', WholeSegment (lr_limit r)), (lit ''s'', TextSegment (lr_sort r)), (lit ''q'', text_or_empty (lr_q r)),
        (lit ''fn'', text_or_empty filterName), (lit ''after'', text_or_empty (lr_after r)),
        (lit ''it'', FlagSegment (lr_includeTotal r))]"

definition metricLogsCursorCacheKey ::
  "key_platform \<Rightarrow> list_request \<Rightarrow> jstr option \<Rightarrow> js_number option \<Rightarrow> jstr option" where
  "metricLogsCursorCacheKey K r metricId logValue =
     buildCursorCacheKey K METRIC_LOG_CURSOR_FEATURE (Some (lit ''4'')) (lr_userId r) (lr_organizationId r)
       [(lit ''l'', WholeSegment (lr_limit r)), (lit ''s'', TextSegment (lr_sort r)), (lit ''q'', text_or_empty (lr_q r)),
        (lit ''fm'', text_or_empty metricId),
        (lit ''fn'', case logValue of Some v \<Rightarrow> NumberSegment v | None \<Rightarrow> NoSegment),
        (lit ''after'', text_or_empty (lr_after r)), (lit ''it'', FlagSegment (lr_includeTotal r))]"

definition metricSettingsCursorCacheKey ::
  "key_platform \<Rightarrow> list_request \<Rightarrow> jstr option \<Rightarrow> bool option \<Rightarrow> jstr option" where
  "metricSettingsCursorCacheKey K r metricId isActive =
     buildCursorCacheKey K METRIC_SETTINGS_CURSOR_FEATURE (Some (lit ''4'')) (lr_userId r) (lr_organizationId r)
       [(lit ''l'', WholeSegment (lr_limit r)), (lit ''s'', TextSegment (lr_sort r)), (lit ''q'', text_or_empty (lr_q r)),
        (lit ''fm'', text_or_empty metricId),
        (lit ''fa'', case isActive of Some b \<Rightarrow> FlagSegment b | None \<Rightarrow> NoSegment),
        (lit ''after'', text_or_empty (lr_after r)), (lit ''it'', FlagSegment (lr_includeTotal r))]"

section \<open>The keys of single entries\<close>

definition metricEntryKey :: "jstr \<Rightarrow> jstr \<Rightarrow> jstr \<Rightarrow> jstr \<Rightarrow> nat \<Rightarrow> jstr" where
  "metricEntryKey organizationId userId metricId include logsLimit =
     lit ''metric:'' @ organizationId @ 58 # userId @ 58 # metricId @ lit '':inc:'' @ include @ lit '':ll:'' @ decimal logsLimit"

definition metricEntryPattern :: "jstr \<Rightarrow> jstr \<Rightarrow> jstr \<Rightarrow> jstr" where
  "metricEntryPattern organizationId userId metricId =
     lit ''metric:'' @ organizationId @ 58 # userId @ 58 # metricId @ lit '':*''"

text \<open>\<open>includes.join(",")\<close>.\<close>

fun join_commas :: "jstr list \<Rightarrow> jstr" where
  "join_commas [] = []"
| "join_commas [t] = t"
| "join_commas (t # ts) = t @ 44 # join_commas ts"

definition metricDetailCacheKey :: "jstr \<Rightarrow> jstr \<Rightarrow> jstr \<Rightarrow> jstr option \<Rightarrow> nat option \<Rightarrow> jstr" where
  "metricDetailCacheKey organizationId userId metricId include logsLimit =
     (let includes = metricDetailIncludes include in
      metricEntryKey organizationId userId metricId
        (if includes = [] then lit ''flat'' else join_commas (map include_name includes))
        (case logsLimit of Some n \<Rightarrow> n | None \<Rightarrow> 20))"

definition metricSettingEntryKey :: "jstr \<Rightarrow> jstr \<Rightarrow> jstr \<Rightarrow> jstr" where
  "metricSettingEntryKey organizationId userId settingsId =
     lit ''metricSetting:'' @ organizationId @ 58 # userId @ 58 # settingsId"

definition categoryEntryKey :: "jstr \<Rightarrow> jstr \<Rightarrow> jstr \<Rightarrow> jstr" where
  "categoryEntryKey organizationId userId categoryId = lit ''category:'' @ organizationId @ 58 # userId @ 58 # categoryId"

definition metricLogCacheKey :: "jstr \<Rightarrow> jstr \<Rightarrow> jstr \<Rightarrow> jstr \<Rightarrow> jstr" where
  "metricLogCacheKey organizationId userId logId metricId =
     lit ''log:'' @ organizationId @ 58 # userId @ 58 # logId @ lit '':m:'' @ metricId"

definition bound_text :: "key_platform \<Rightarrow> jstr option \<Rightarrow> jstr" where
  "bound_text K value' = (case nonempty value' of Some v \<Rightarrow> js_integer (date_ms K v) | None \<Rightarrow> lit ''_'')"

definition metricLogStatsCacheKey ::
  "key_platform \<Rightarrow> jstr \<Rightarrow> jstr \<Rightarrow> jstr option \<Rightarrow> jstr option \<Rightarrow> jstr option \<Rightarrow> jstr" where
  "metricLogStatsCacheKey K organizationId userId metricId startDate endDate =
     lit ''logStats:'' @ organizationId @ 58 # userId @ lit '':m:'' @ (case metricId of Some m \<Rightarrow> m | None \<Rightarrow> lit ''all'') @
     lit '':s:'' @ bound_text K startDate @ lit '':e:'' @ bound_text K endDate"

text \<open>The entries of \<open>VisualizationCacheRedis\<close>.\<close>

record single_viz_key =
  vk_organizationId :: jstr
  vk_userId :: jstr
  vk_metricId :: jstr
  vk_bucketIso :: jstr
  vk_startISO :: jstr
  vk_endISO :: jstr
  vk_tz :: jstr
  vk_fill :: jstr

definition vizKey :: "key_platform \<Rightarrow> single_viz_key \<Rightarrow> jstr" where
  "vizKey K input =
     lit ''viz:'' @ vk_organizationId input @ 58 # vk_userId input @ 58 # vk_metricId input @ 58 # vk_bucketIso input @
     58 # short_sha1 K (vk_organizationId input @ 124 # vk_userId input @ 124 # vk_metricId input @ 124 # vk_bucketIso input @
       124 # vk_startISO input @ 124 # vk_endISO input @ 124 # vk_tz input @ 124 # vk_fill input)"

record dashboard_viz_key =
  dk_organizationId :: jstr
  dk_userId :: jstr
  dk_metricIds :: "jstr list"
  dk_bucketIso :: jstr
  dk_startISO :: jstr
  dk_endISO :: jstr
  dk_tz :: jstr
  dk_fill :: jstr
  dk_versionCursor :: "jstr option"

definition vizDashKey :: "key_platform \<Rightarrow> dashboard_viz_key \<Rightarrow> jstr" where
  "vizDashKey K input =
     lit ''vizdash:'' @ dk_organizationId input @ 58 # dk_userId input @ 58 # dk_bucketIso input @
     58 # short_sha1 K (lit ''v2|'' @ dk_organizationId input @ 124 # dk_userId input @ 124 # join_commas (dk_metricIds input) @
       124 # dk_bucketIso input @ 124 # dk_startISO input @ 124 # dk_endISO input @ 124 # dk_tz input @ 124 # dk_fill input @
       124 # (case dk_versionCursor input of Some v \<Rightarrow> v | None \<Rightarrow> []))"

section \<open>The cached routes\<close>

text \<open>The routes behind the middleware, with what their validated requests ask, and the key of each.\<close>

datatype cached_route =
    MetricList list_request "jstr option" "jstr option"
  | SettingsList list_request "jstr option" "bool option"
  | LogList list_request "jstr option" "js_number option"
  | MetricDetail jstr jstr jstr "jstr option" "nat option"
  | SettingsEntry jstr jstr jstr
  | CategoryEntry jstr jstr jstr
  | LogEntry jstr jstr jstr jstr
  | LogStats jstr jstr "jstr option" "jstr option" "jstr option"

fun route_key :: "key_platform \<Rightarrow> cached_route \<Rightarrow> jstr option" where
  "route_key K (MetricList r filterName categoryId) = metricsCursorCacheKey K r filterName categoryId"
| "route_key K (SettingsList r metricId isActive) = metricSettingsCursorCacheKey K r metricId isActive"
| "route_key K (LogList r metricId logValue) = metricLogsCursorCacheKey K r metricId logValue"
| "route_key K (MetricDetail organizationId userId metricId include logsLimit) =
     Some (metricDetailCacheKey organizationId userId metricId include logsLimit)"
| "route_key K (SettingsEntry organizationId userId settingsId) = Some (metricSettingEntryKey organizationId userId settingsId)"
| "route_key K (CategoryEntry organizationId userId categoryId) = Some (categoryEntryKey organizationId userId categoryId)"
| "route_key K (LogEntry organizationId userId logId metricId) = Some (metricLogCacheKey organizationId userId logId metricId)"
| "route_key K (LogStats organizationId userId metricId startDate endDate) =
     Some (metricLogStatsCacheKey K organizationId userId metricId startDate endDate)"

section \<open>The middleware\<close>

text \<open>\<open>JSON.stringify\<close> and \<open>JSON.parse\<close> of the values that responses hold; \<open>None\<close> where parsing throws.\<close>

record 'b json =
  stringify :: "'b \<Rightarrow> jstr"
  parse :: "jstr \<Rightarrow> 'b option"

type_synonym 'b json_answer = "nat \<times> 'b"

datatype redis_reply = Unavailable | NoEntry | Entry jstr

text \<open>\<open>readCachedJson\<close>: an entry that does not parse is a miss.\<close>

definition readCachedJson :: "'b json \<Rightarrow> jstr \<Rightarrow> 'b option" where
  "readCachedJson J raw = parse J raw"

text \<open>
  What is answered, with the entry that is written in the background, if any: \<open>handled\<close> is what the handler after
  the middleware answers. A key that throws and a Redis that does not answer leave the handler to answer uncached.
\<close>

definition cacheMiddleware ::
  "'b json \<Rightarrow> bool \<Rightarrow> jstr option \<Rightarrow> (jstr \<Rightarrow> redis_reply) \<Rightarrow> 'b json_answer \<Rightarrow> 'b json_answer \<times> (jstr \<times> jstr) option" where
  "cacheMiddleware J disabled key redisGet handled =
     (if disabled then (handled, None)
      else case key of
        None \<Rightarrow> (handled, None)
      | Some k \<Rightarrow>
        let stored = (handled, if fst handled = 200 then Some (k, stringify J (snd handled)) else None) in
        case redisGet k of
          Unavailable \<Rightarrow> (handled, None)
        | NoEntry \<Rightarrow> stored
        | Entry raw \<Rightarrow>
          if raw = [] then stored
          else (case readCachedJson J raw of Some v \<Rightarrow> ((200, v), None) | None \<Rightarrow> stored))"

section \<open>Invalidation\<close>

text \<open>
  \<open>invalidateCacheByPattern\<close> with the pages that the scan answers, each with the next cursor: it deletes the keys
  of every page, up to the one whose cursor is zero. \<open>None\<close> while no such page has come.
\<close>

fun scan_delete :: "(nat \<times> jstr list) list \<Rightarrow> (jstr \<rightharpoonup> jstr) \<Rightarrow> (jstr \<rightharpoonup> jstr) option" where
  "scan_delete [] entries = None"
| "scan_delete ((cursor, keys) # pages) entries =
     (let left = entries |` (- set keys) in if cursor = 0 then Some left else scan_delete pages left)"

definition invalidateCacheByPattern ::
  "bool \<Rightarrow> (jstr \<Rightarrow> (nat \<times> jstr list) list) \<Rightarrow> jstr \<Rightarrow> (jstr \<rightharpoonup> jstr) \<Rightarrow> (jstr \<rightharpoonup> jstr) option" where
  "invalidateCacheByPattern isOpen scan pattern entries =
     (if isOpen then scan_delete (scan pattern) entries else Some entries)"

text \<open>The patterns that the writes delete by: \<open>cursorCacheNamespace(feature, "*")\<close> and the tenant.\<close>

definition list_pattern :: "jstr \<Rightarrow> jstr \<Rightarrow> jstr \<Rightarrow> jstr" where
  "list_pattern feature userId organizationId =
     cursorCacheNamespace feature (Some (lit ''*'')) @ 58 # userId @ lit '':org:'' @ organizationId @ lit '':*''"

definition invalidateMetrics_patterns :: "jstr \<Rightarrow> jstr \<Rightarrow> jstr option \<Rightarrow> jstr list" where
  "invalidateMetrics_patterns userId organizationId metricId =
     list_pattern METRIC_CURSOR_FEATURE userId organizationId #
     (case nonempty metricId of Some m \<Rightarrow> [metricEntryPattern organizationId userId m] | None \<Rightarrow> [])"

definition invalidateByMetric_patterns :: "jstr \<Rightarrow> jstr \<Rightarrow> jstr \<Rightarrow> jstr list" where
  "invalidateByMetric_patterns userId organizationId metricId =
     [lit ''viz:'' @ organizationId @ 58 # userId @ 58 # metricId @ lit '':*'',
      lit ''vizdash:'' @ organizationId @ 58 # userId @ lit '':*'']"

definition invalidateLogs_patterns :: "jstr \<Rightarrow> jstr \<Rightarrow> jstr \<Rightarrow> jstr option \<Rightarrow> jstr list" where
  "invalidateLogs_patterns userId organizationId metricId logId =
     [list_pattern METRIC_LOG_CURSOR_FEATURE userId organizationId,
      lit ''logStats:'' @ organizationId @ 58 # userId @ lit '':m:'' @ metricId @ lit '':*'',
      lit ''logStats:'' @ organizationId @ 58 # userId @ lit '':m:all:*''] @
     (case nonempty logId of Some l \<Rightarrow> [lit ''log:'' @ organizationId @ 58 # userId @ 58 # l @ lit '':*''] | None \<Rightarrow> []) @
     invalidateByMetric_patterns userId organizationId metricId @
     invalidateMetrics_patterns userId organizationId (Some metricId)"

definition category_list_pattern :: "jstr \<Rightarrow> jstr" where
  "category_list_pattern userId =
     cursorCacheNamespace METRIC_CATEGORY_CURSOR_FEATURE (Some (lit ''*'')) @ 58 # userId @ lit '':*''"

text \<open>
  The walks of a list of patterns. They start together; each only deletes, so their order makes no difference.
  \<open>None\<close> when one of them does not come to its end.
\<close>

fun invalidate_all ::
  "(jstr \<Rightarrow> (nat \<times> jstr list) list) \<Rightarrow> jstr list \<Rightarrow> (jstr \<rightharpoonup> jstr) \<Rightarrow> (jstr \<rightharpoonup> jstr) option" where
  "invalidate_all scan [] entries = Some entries"
| "invalidate_all scan (p # ps) entries =
     Option.bind (invalidateCacheByPattern True scan p entries) (invalidate_all scan ps)"

text \<open>\<open>MetricSettingsCacheInvalidator.invalidate\<close>: the list pages by pattern, then the entry by its key.\<close>

definition invalidateSettings ::
  "bool \<Rightarrow> (jstr \<Rightarrow> (nat \<times> jstr list) list) \<Rightarrow> jstr \<Rightarrow> jstr \<Rightarrow> jstr option \<Rightarrow> (jstr \<rightharpoonup> jstr) \<Rightarrow> (jstr \<rightharpoonup> jstr) option" where
  "invalidateSettings isOpen scan userId organizationId settingsId entries =
     (if isOpen then
        map_option (\<lambda>left. case nonempty settingsId of
            Some s \<Rightarrow> left |` (- {metricSettingEntryKey organizationId userId s})
          | None \<Rightarrow> left)
          (invalidateCacheByPattern isOpen scan (list_pattern METRIC_SETTINGS_CURSOR_FEATURE userId organizationId) entries)
      else Some entries)"

definition MetricCacheRedis_invalidateMetrics ::
  "bool \<Rightarrow> (jstr \<Rightarrow> (nat \<times> jstr list) list) \<Rightarrow> jstr \<Rightarrow> jstr \<Rightarrow> jstr option \<Rightarrow> (jstr \<rightharpoonup> jstr) \<Rightarrow> (jstr \<rightharpoonup> jstr) option" where
  "MetricCacheRedis_invalidateMetrics isOpen scan userId organizationId metricId entries =
     (if isOpen then invalidate_all scan (invalidateMetrics_patterns userId organizationId metricId) entries else Some entries)"

definition MetricLogCacheRedis_invalidate ::
  "bool \<Rightarrow> (jstr \<Rightarrow> (nat \<times> jstr list) list) \<Rightarrow> jstr \<Rightarrow> jstr \<Rightarrow> jstr \<Rightarrow> jstr option \<Rightarrow> (jstr \<rightharpoonup> jstr) \<Rightarrow> (jstr \<rightharpoonup> jstr) option" where
  "MetricLogCacheRedis_invalidate isOpen scan userId organizationId metricId logId entries =
     (if isOpen then invalidate_all scan (invalidateLogs_patterns userId organizationId metricId logId) entries else Some entries)"

lemmas evaluate_CacheKeys [evaluate] =
  encodeSegmentText_def normalizeSegmentValue_def cursorCacheNamespace_def
  buildCursorCacheKey_def text_or_empty_def METRIC_CURSOR_FEATURE_def
  METRIC_CATEGORY_CURSOR_FEATURE_def METRIC_LOG_CURSOR_FEATURE_def
  METRIC_SETTINGS_CURSOR_FEATURE_def metricsCursorCacheKey_def categoriesCursorCacheKey_def
  metricLogsCursorCacheKey_def metricSettingsCursorCacheKey_def metricEntryKey_def
  metricEntryPattern_def metricDetailCacheKey_def metricSettingEntryKey_def categoryEntryKey_def
  metricLogCacheKey_def bound_text_def metricLogStatsCacheKey_def vizKey_def vizDashKey_def
  readCachedJson_def cacheMiddleware_def invalidateCacheByPattern_def list_pattern_def
  invalidateMetrics_patterns_def invalidateByMetric_patterns_def invalidateLogs_patterns_def
  category_list_pattern_def invalidateSettings_def MetricCacheRedis_invalidateMetrics_def
  MetricLogCacheRedis_invalidate_def

end
