(* ===== verification/CacheMeaning.thy ===== *)
theory CacheMeaning imports CacheKeys Samples begin

text \<open>
  What a cache key stands for: text in a key is encoded reversibly and without the colon that separates segments, so
  two requests share a key only when they ask the same question of the same tenant (\<open>route_key_inj\<close>).
\<close>

section \<open>The encoding is reversible\<close>

text \<open>The code points of UTF-16 text; \<open>None\<close> for an unpaired surrogate, on which the encoding throws.\<close>

fun code_points :: "jstr \<Rightarrow> nat list option" where
  "code_points [] = Some []"
| "code_points [c] = (if is_high c \<or> is_low c then None else Some [c])"
| "code_points (c # d # s) =
     (if is_high c then
        if is_low d then map_option (Cons (65536 + (c - 55296) * 1024 + (d - 56320))) (code_points s) else None
      else if is_low c then None
      else map_option (Cons c) (code_points (d # s)))"

definition code_units :: "nat \<Rightarrow> jstr" where
  "code_units p = (if p < 65536 then [p] else [55296 + (p - 65536) div 1024, 56320 + (p - 65536) mod 1024])"

definition text_units :: "jstr \<Rightarrow> bool" where
  "text_units s \<longleftrightarrow> list_all (\<lambda>c. c < 65536) s"

lemma code_units_pair:
  assumes "is_high c" "is_low d"
  shows "code_units (65536 + (c - 55296) * 1024 + (d - 56320)) = [c, d]"
proof -
  obtain x where "c = 55296 + x" using assms(1) by (auto simp: is_high_def dest: le_Suc_ex)
  moreover obtain y where "d = 56320 + y" "y < 1024" using assms(2) by (auto simp: is_low_def dest!: le_Suc_ex)
  ultimately show ?thesis by (simp add: code_units_def)
qed

lemma code_points_units: "code_points s = Some ps \<Longrightarrow> text_units s \<Longrightarrow> concat (map code_units ps) = s"
proof (induction s arbitrary: ps rule: code_points.induct)
  case (3 c d s)
  then show ?case
    by (auto simp: text_units_def code_units_pair split: if_splits) (simp_all add: code_units_def)
qed (auto simp: text_units_def code_units_def split: if_splits)

lemma code_points_bounded: "code_points s = Some ps \<Longrightarrow> text_units s \<Longrightarrow> list_all (\<lambda>p. p < 1114112) ps"
  by (induction s arbitrary: ps rule: code_points.induct)
    (auto simp: text_units_def is_high_def is_low_def split: if_splits)

lemma div_mod_eq: "a div n = b div n \<Longrightarrow> a mod n = b mod n \<Longrightarrow> a = (b::nat)"
  by (metis div_mult_mod_eq)

text \<open>The first byte of a character says how many there are.\<close>

lemma utf8_lead:
  assumes "p < 1114112"
  shows "p < 128 \<and> utf8_bytes p = [p] \<or>
    (\<exists>x y. utf8_bytes p = [192 + x, 128 + y] \<and> x < 32 \<and> y < 64 \<and> p = 64 * x + y) \<or>
    (\<exists>x y z. utf8_bytes p = [224 + x, 128 + y, 128 + z] \<and> x < 16 \<and> y < 64 \<and> z < 64 \<and> p = 4096 * x + 64 * y + z) \<or>
    (\<exists>x y z v. utf8_bytes p = [240 + x, 128 + y, 128 + z, 128 + v] \<and> x < 5 \<and> y < 64 \<and> z < 64 \<and> v < 64 \<and>
       p = 262144 * x + 4096 * y + 64 * z + v)"
proof -
  have one: "p = 64 * (p div 64) + p mod 64" by simp
  have two: "p div 64 = 64 * (p div 4096) + p div 64 mod 64"
    using div_mult_mod_eq[of "p div 64" 64] by (simp add: div_mult2_eq[symmetric] mult.commute)
  have three: "p div 4096 = 64 * (p div 262144) + p div 4096 mod 64"
    using div_mult_mod_eq[of "p div 4096" 64] by (simp add: div_mult2_eq[symmetric] mult.commute)
  consider "p < 128" | "128 \<le> p" "p < 2048" | "2048 \<le> p" "p < 65536" | "65536 \<le> p" by linarith
  then show ?thesis
  proof cases
    case 2
    then have "utf8_bytes p = [192 + p div 64, 128 + p mod 64]" "p div 64 < 32" by (simp_all add: utf8_bytes_def less_mult_imp_div_less)
    with one show ?thesis by (metis mod_less_divisor zero_less_numeral)
  next
    case 3
    then have "utf8_bytes p = [224 + p div 4096, 128 + p div 64 mod 64, 128 + p mod 64]" "p div 4096 < 16"
      by (simp_all add: utf8_bytes_def less_mult_imp_div_less)
    moreover have "p = 4096 * (p div 4096) + 64 * (p div 64 mod 64) + p mod 64" using one two by linarith
    ultimately show ?thesis by (metis mod_less_divisor zero_less_numeral)
  next
    case 4
    then have "utf8_bytes p = [240 + p div 262144, 128 + p div 4096 mod 64, 128 + p div 64 mod 64, 128 + p mod 64]" "p div 262144 < 5"
      using assms by (simp_all add: utf8_bytes_def less_mult_imp_div_less)
    moreover have "p = 262144 * (p div 262144) + 4096 * (p div 4096 mod 64) + 64 * (p div 64 mod 64) + p mod 64"
      using one two three by linarith
    ultimately show ?thesis by (metis mod_less_divisor zero_less_numeral)
  qed (simp add: utf8_bytes_def)
qed

lemma utf8_cancel:
  assumes "utf8_bytes a @ r = utf8_bytes b @ s" "a < 1114112" "b < 1114112"
  shows "a = b \<and> r = s"
  using utf8_lead[OF assms(2)] utf8_lead[OF assms(3)] assms(1) by (elim disjE conjE exE) simp_all

lemma utf8_inj:
  "concat (map utf8_bytes ps) = concat (map utf8_bytes qs) \<Longrightarrow> list_all (\<lambda>p. p < 1114112) ps \<Longrightarrow> list_all (\<lambda>p. p < 1114112) qs \<Longrightarrow> ps = qs"
proof (induction ps arbitrary: qs)
  case Nil
  then show ?case by (cases qs) (auto simp: utf8_bytes_def split: if_splits)
next
  case (Cons p ps)
  then show ?case
  proof (cases qs)
    case Nil
    with Cons show ?thesis by (auto simp: utf8_bytes_def split: if_splits)
  next
    case (Cons q qs')
    with Cons.prems Cons.IH[of qs'] utf8_cancel[of p "concat (map utf8_bytes ps)" q "concat (map utf8_bytes qs')"] show ?thesis by auto
  qed
qed

lemma unreserved_single: "uri_unreserved c \<Longrightarrow> c < 128 \<and> \<not> is_high c \<and> \<not> is_low c"
  by (auto simp: uri_unreserved_def is_digit_def is_high_def is_low_def)

definition byte_text :: "nat \<Rightarrow> jstr" where
  "byte_text b = (if uri_unreserved b then [b] else percent_byte b)"

lemma utf8_bytes_high: "128 \<le> p \<Longrightarrow> \<forall>b \<in> set (utf8_bytes p). 128 \<le> b"
  by (simp add: utf8_bytes_def)

lemma byte_text_point: "concat (map byte_text (utf8_bytes p)) = (if uri_unreserved p then [p] else percent_encode p)"
proof (cases "p < 128")
  case True
  then show ?thesis by (simp add: percent_encode_def utf8_bytes_def byte_text_def)
next
  case False
  then have "map byte_text (utf8_bytes p) = map percent_byte (utf8_bytes p)"
    using utf8_bytes_high[of p] unreserved_single by (intro map_cong) (fastforce simp: byte_text_def)+
  with False unreserved_single[of p] show ?thesis by (auto simp: percent_encode_def simp del: map_eq_conv)
qed

lemma encodeURIComponent_bytes:
  "encodeURIComponent s = map_option (\<lambda>ps. concat (map byte_text (concat (map utf8_bytes ps)))) (code_points s)"
proof (induction s rule: code_points.induct)
  case (2 c)
  then show ?case using byte_text_point[of c] unreserved_single[of c] by auto
next
  case (3 c d s)
  have "\<not> uri_unreserved (65536 + n)" for n using unreserved_single[of "65536 + n"] by auto
  moreover have "is_high c \<Longrightarrow> \<not> is_low c" by (simp add: is_high_def is_low_def)
  ultimately show ?case using 3 unreserved_single[of c] by (auto simp: option.map_comp comp_def add.assoc byte_text_point)
qed simp

text \<open>Percent-encoded bytes are read back.\<close>

definition hex_value :: "nat \<Rightarrow> nat" where
  "hex_value c = (if c < 58 then c - 48 else c - 55)"

fun unpercent :: "jstr \<Rightarrow> nat list" where
  "unpercent (c # s) = (if c = 37 then (case s of a # b # t \<Rightarrow> (16 * hex_value a + hex_value b) # unpercent t | _ \<Rightarrow> [])
     else c # unpercent s)"
| "unpercent [] = []"

definition segment_byte :: "nat \<Rightarrow> jstr" where
  "segment_byte b = (if uri_unreserved b \<and> b \<noteq> 95 \<and> b \<noteq> 42 then [b] else percent_byte b)"

lemma hex_digit_value: "n < 16 \<Longrightarrow> hex_value (hex_digit n) = n"
  by (simp add: hex_value_def hex_digit_def)

lemma unpercent_byte: "b < 256 \<Longrightarrow> unpercent (segment_byte b @ s) = b # unpercent s"
  using hex_digit_value[of "b div 16"] hex_digit_value[of "b mod 16"]
  by (auto simp: segment_byte_def percent_byte_def uri_unreserved_def is_digit_def)

lemma unpercent_bytes: "list_all (\<lambda>b. b < 256) bs \<Longrightarrow> unpercent (concat (map segment_byte bs)) = bs"
  by (induction bs) (simp_all add: unpercent_byte)

lemma utf8_bytes_below: "p < 1114112 \<Longrightarrow> list_all (\<lambda>b. b < 256) (utf8_bytes p)"
  using utf8_lead[of p] by auto

lemma hex_digit_plain: "n < 16 \<Longrightarrow> hex_digit n \<in> {48..57} \<union> {65..70}"
  by (auto simp: hex_digit_def)

lemma percent_plain: "b < 256 \<Longrightarrow> 58 \<notin> set (percent_byte b) \<and> 95 \<notin> set (percent_byte b) \<and> 42 \<notin> set (percent_byte b)"
  using hex_digit_plain[of "b div 16"] hex_digit_plain[of "b mod 16"] by (auto simp: percent_byte_def less_mult_imp_div_less)

lemma segment_byte_plain: "b < 256 \<Longrightarrow> 58 \<notin> set (segment_byte b) \<and> 95 \<notin> set (segment_byte b) \<and> segment_byte b \<noteq> []"
  using percent_plain[of b] by (auto simp: segment_byte_def uri_unreserved_def is_digit_def percent_byte_def)

lemma replaced_byte:
  assumes "b < 256"
  shows "concat (map (\<lambda>c. if c = 95 \<or> c = 42 then percent_byte c else [c]) (byte_text b)) = segment_byte b"
  using percent_plain[OF assms] by (auto simp: segment_byte_def percent_byte_def byte_text_def)

lemma replaced_bytes:
  "list_all (\<lambda>b. b < 256) bs \<Longrightarrow> concat (map (\<lambda>c. if c = 95 \<or> c = 42 then percent_byte c else [c])
      (concat (map byte_text bs))) = concat (map segment_byte bs)"
  by (induction bs) (simp_all only: list.map concat.simps map_append concat_append replaced_byte list.pred_inject)

lemma utf8_all_bytes: "list_all (\<lambda>p. p < 1114112) ps \<Longrightarrow> list_all (\<lambda>b. b < 256) (concat (map utf8_bytes ps))"
  using utf8_bytes_below by (induction ps) (simp_all)

lemma encoded_bytes:
  "encodeSegmentText s = Some k \<Longrightarrow> text_units s \<Longrightarrow>
   \<exists>ps. code_points s = Some ps \<and> list_all (\<lambda>p. p < 1114112) ps \<and> k = concat (map segment_byte (concat (map utf8_bytes ps)))"
  by (auto simp: encodeSegmentText_def encodeURIComponent_bytes replaced_bytes utf8_all_bytes code_points_bounded)

lemma encodeSegmentText_inj:
  assumes "encodeSegmentText s = Some k" "encodeSegmentText t = Some k" "text_units s" "text_units t"
  shows "s = t"
proof -
  from encoded_bytes[OF assms(1,3)] obtain ps where s: "code_points s = Some ps" "list_all (\<lambda>p. p < 1114112) ps"
    "k = concat (map segment_byte (concat (map utf8_bytes ps)))" by blast
  from encoded_bytes[OF assms(2,4)] obtain qs where t: "code_points t = Some qs" "list_all (\<lambda>p. p < 1114112) qs"
    "k = concat (map segment_byte (concat (map utf8_bytes qs)))" by blast
  have "concat (map utf8_bytes ps) = concat (map utf8_bytes qs)"
    using unpercent_bytes[OF utf8_all_bytes[OF s(2)]] unpercent_bytes[OF utf8_all_bytes[OF t(2)]] s(3) t(3) by simp
  then have "ps = qs" by (rule utf8_inj[OF _ s(2) t(2)])
  then show ?thesis using code_points_units[OF s(1) assms(3)] code_points_units[OF t(1) assms(4)] by simp
qed

text \<open>What an encoded text never is or holds: nothing, the sign for no value, a colon.\<close>

lemma encodeSegmentText_plain:
  assumes "encodeSegmentText s = Some k" "text_units s"
  shows "58 \<notin> set k" "95 \<notin> set k" "s \<noteq> [] \<Longrightarrow> k \<noteq> []"
proof -
  from encoded_bytes[OF assms] obtain ps where ps: "code_points s = Some ps" "list_all (\<lambda>p. p < 1114112) ps"
    "k = concat (map segment_byte (concat (map utf8_bytes ps)))" by blast
  have "list_all (\<lambda>b. b < 256) (concat (map utf8_bytes ps))" by (rule utf8_all_bytes[OF ps(2)])
  then show "58 \<notin> set k" "95 \<notin> set k" using segment_byte_plain ps(3) by (auto simp: list_all_iff)
  assume "s \<noteq> []"
  then have "ps \<noteq> []" using code_points_units[OF ps(1) assms(2)] by auto
  then obtain b bs where "concat (map utf8_bytes ps) = b # bs" by (cases ps; cases "utf8_bytes (hd ps)") (auto simp: utf8_bytes_def split: if_splits)
  with utf8_all_bytes[OF ps(2)] ps(3) segment_byte_plain[of b] show "k \<noteq> []" by simp
qed

section \<open>A key is read back\<close>

lemma split_cancel:
  assumes "c \<notin> set t" "c \<notin> set u"
  shows "t @ c # r = u @ c # s \<longleftrightarrow> t = u \<and> r = s"
  using assms
proof (induction t arbitrary: u)
  case Nil
  then show ?case by (cases u) auto
next
  case (Cons d t)
  then show ?case by (cases u) auto
qed

lemmas colon_cancel = split_cancel[of "58::nat"]

text \<open>What a segment stands for: a blank text and a number that is not finite are no value.\<close>

fun segment_meaning :: "segment_value \<Rightarrow> segment_value" where
  "segment_meaning (TextSegment s) = (if js_trim s = [] then NoSegment else TextSegment (js_trim s))"
| "segment_meaning (NumberSegment v) = (if isFinite v then NumberSegment v else NoSegment)"
| "segment_meaning v = v"

fun segment_ok :: "segment_value \<Rightarrow> bool" where
  "segment_ok (TextSegment s) = text_units s"
| "segment_ok v = True"

text \<open>
  What the keys rely on of the language: two finite numbers are printed differently, without a colon, and not as
  the sign for no value.
\<close>

definition prints_numbers :: "key_platform \<Rightarrow> bool" where
  "prints_numbers K \<longleftrightarrow> inj_on (number_text K) {v. isFinite v} \<and>
     (\<forall>v. isFinite v \<longrightarrow> 58 \<notin> set (number_text K v) \<and> number_text K v \<noteq> [95])"

text \<open>Segments at one place of a key: of one kind, or none.\<close>

fun same_kind :: "segment_value \<Rightarrow> segment_value \<Rightarrow> bool" where
  "same_kind (TextSegment s) (TextSegment t) = True"
| "same_kind (WholeSegment m) (WholeSegment n) = True"
| "same_kind (NumberSegment v) (NumberSegment w) = True"
| "same_kind (FlagSegment a) (FlagSegment b) = True"
| "same_kind v NoSegment = (\<forall>n. v \<noteq> WholeSegment n)"
| "same_kind NoSegment v = (\<forall>n. v \<noteq> WholeSegment n)"
| "same_kind v w = False"

lemma text_units_trim: "text_units s \<Longrightarrow> text_units (js_trim s)"
  unfolding text_units_def js_trim_def list_all_iff by (metis set_dropWhileD set_rev)

lemma segment_plain:
  assumes "normalizeSegmentValue K v = Some k" "segment_ok v" "prints_numbers K"
  shows "58 \<notin> set k" "k = [95] \<longleftrightarrow> segment_meaning v = NoSegment"
proof -
  have digits: "58 \<notin> set (decimal n)" "95 \<notin> set (decimal n)" for n
    using decimal_digits[of n] by (auto simp: is_digit_def)
  then have "decimal n \<noteq> [95]" for n by (metis list.set_intros(1))
  with digits have digits: "58 \<notin> set (decimal n)" "decimal n \<noteq> [95]" for n by blast+
  have "58 \<notin> set k \<and> (k = [95] \<longleftrightarrow> segment_meaning v = NoSegment)"
  proof (cases v)
    case (TextSegment s)
    with assms encodeSegmentText_plain[of "js_trim s" k] text_units_trim[of s] show ?thesis
      by (auto simp: normalizeSegmentValue_def lit_def split: if_splits)
  qed (use assms digits in \<open>auto simp: normalizeSegmentValue_def lit_def prints_numbers_def split: if_splits\<close>)
  then show "58 \<notin> set k" "k = [95] \<longleftrightarrow> segment_meaning v = NoSegment" by auto
qed

lemma segment_inj:
  assumes "normalizeSegmentValue K v = Some k" "normalizeSegmentValue K w = Some k"
    "segment_ok v" "segment_ok w" "same_kind v w" "prints_numbers K"
  shows "segment_meaning v = segment_meaning w"
proof (cases "k = [95]")
  case True
  with segment_plain(2)[OF assms(1,3,6)] segment_plain(2)[OF assms(2,4,6)] show ?thesis by simp
next
  case False
  show ?thesis
  proof (cases v)
    case (TextSegment s)
    with False assms obtain t where "w = TextSegment t" "js_trim s \<noteq> []" "js_trim t \<noteq> []"
      by (cases w) (auto simp: normalizeSegmentValue_def lit_def split: if_splits)
    with TextSegment assms encodeSegmentText_inj[of "js_trim s" k "js_trim t"] text_units_trim show ?thesis
      by (auto simp: normalizeSegmentValue_def)
  next
    case (NumberSegment x)
    with False assms obtain y where "w = NumberSegment y" "isFinite x" "isFinite y"
      by (cases w) (auto simp: normalizeSegmentValue_def lit_def split: if_splits)
    with NumberSegment assms show ?thesis by (auto simp: normalizeSegmentValue_def prints_numbers_def inj_on_def)
  qed (use False assms in \<open>cases w; auto simp: normalizeSegmentValue_def lit_def decimal_inj split: if_splits\<close>)+
qed

definition segments_ok :: "(jstr \<times> segment_value) list \<Rightarrow> bool" where
  "segments_ok segments \<longleftrightarrow> list_all (\<lambda>(l, v). 58 \<notin> set l \<and> segment_ok v) segments"

definition alike :: "(jstr \<times> segment_value) list \<Rightarrow> (jstr \<times> segment_value) list \<Rightarrow> bool" where
  "alike = list_all2 (\<lambda>(l, v) (l', v'). l = l' \<and> same_kind v v')"

text \<open>Texts before segments with the same labels: equal when the whole is, and then the segments mean the same.\<close>

lemma key_parts_inj:
  assumes "key_parts K segments = Some k" "key_parts K segments' = Some k'" "t @ k = t' @ k'" "58 \<notin> set t" "58 \<notin> set t'"
    "segments_ok segments" "segments_ok segments'" "alike segments segments'" "prints_numbers K"
  shows "t = t' \<and> map (\<lambda>lv. segment_meaning (snd lv)) segments = map (\<lambda>lv. segment_meaning (snd lv)) segments'"
  using assms
proof (induction segments arbitrary: segments' k k' t t')
  case Nil
  then show ?case by (simp add: alike_def)
next
  case (Cons lv segments)
  obtain l v where lv: "lv = (l, v)" by fastforce
  with Cons.prems(8) obtain v' rest' where s': "segments' = (l, v') # rest'" "same_kind v v'" "alike segments rest'"
    by (auto simp: alike_def list_all2_Cons1)
  from Cons.prems(1) lv obtain x r where k: "normalizeSegmentValue K v = Some x" "key_parts K segments = Some r"
    "k = 58 # l @ 58 # x @ r" by (auto simp: bind_eq_Some_conv)
  from Cons.prems(2) s' obtain x' r' where k': "normalizeSegmentValue K v' = Some x'" "key_parts K rest' = Some r'"
    "k' = 58 # l @ 58 # x' @ r'" by (auto simp: bind_eq_Some_conv)
  have ok: "segment_ok v" "segments_ok segments" "segment_ok v'" "segments_ok rest'" "58 \<notin> set l"
    using Cons.prems(6,7) lv s' by (auto simp: segments_ok_def)
  have "t = t'" "x @ r = x' @ r'"
    using Cons.prems(3,4,5) colon_cancel[of t t' "l @ 58 # x @ r" "l @ 58 # x' @ r'"] k(3) k'(3) by auto
  moreover have "58 \<notin> set x" "58 \<notin> set x'"
    using segment_plain(1) k(1) k'(1) ok Cons.prems(9) by blast+
  ultimately have "t = t'" "x = x'" "map (\<lambda>lv. segment_meaning (snd lv)) segments = map (\<lambda>lv. segment_meaning (snd lv)) rest'"
    using Cons.IH[OF k(2) k'(2)] ok s'(3) Cons.prems(9) by auto
  then show ?case using lv s' segment_inj[OF k(1)] k'(1) ok Cons.prems(9) by simp
qed

lemma cursor_key_inj:
  assumes "buildCursorCacheKey K feature version u p segments = Some k" "buildCursorCacheKey K feature version u' p' segments' = Some k"
    "text_units u" "text_units p" "text_units u'" "text_units p'"
    "segments_ok segments" "segments_ok segments'" "alike segments segments'" "prints_numbers K"
  shows "segment_meaning (TextSegment u) = segment_meaning (TextSegment u')"
    "segment_meaning (TextSegment p) = segment_meaning (TextSegment p')"
    "map (\<lambda>lv. segment_meaning (snd lv)) segments = map (\<lambda>lv. segment_meaning (snd lv)) segments'"
proof -
  from assms(1) obtain x y r where k: "normalizeSegmentValue K (TextSegment u) = Some x" "normalizeSegmentValue K (TextSegment p) = Some y"
    "key_parts K segments = Some r" "k = cursorCacheNamespace feature version @ 58 # x @ lit '':org:'' @ y @ r"
    by (auto simp: buildCursorCacheKey_def bind_eq_Some_conv)
  from assms(2) obtain x' y' r' where k': "normalizeSegmentValue K (TextSegment u') = Some x'"
    "normalizeSegmentValue K (TextSegment p') = Some y'" "key_parts K segments' = Some r'"
    "k = cursorCacheNamespace feature version @ 58 # x' @ lit '':org:'' @ y' @ r'"
    by (auto simp: buildCursorCacheKey_def bind_eq_Some_conv)
  have plain: "58 \<notin> set x" "58 \<notin> set y" "58 \<notin> set x'" "58 \<notin> set y'"
    using segment_plain(1)[OF k(1)] segment_plain(1)[OF k(2)] segment_plain(1)[OF k'(1)] segment_plain(1)[OF k'(2)] assms by simp_all
  have "x @ 58 # lit ''org:'' @ y @ r = x' @ 58 # lit ''org:'' @ y' @ r'" using k(4) k'(4) by (simp add: lit_def)
  then have "x = x'" "y @ r = y' @ r'" unfolding colon_cancel[OF plain(1,3)] by simp_all
  with key_parts_inj[OF k(3) k'(3) _ plain(2,4) assms(7-10)] have "x = x'" "y = y'"
    "map (\<lambda>lv. segment_meaning (snd lv)) segments = map (\<lambda>lv. segment_meaning (snd lv)) segments'" by simp_all
  with segment_inj[OF k(1), of "TextSegment u'"] segment_inj[OF k(2), of "TextSegment p'"] k' assms
  show "segment_meaning (TextSegment u) = segment_meaning (TextSegment u')"
    "segment_meaning (TextSegment p) = segment_meaning (TextSegment p')"
    "map (\<lambda>lv. segment_meaning (snd lv)) segments = map (\<lambda>lv. segment_meaning (snd lv)) segments'" by simp_all
qed

section \<open>Keys mean questions\<close>

text \<open>An identifier as the server makes them: of letters, digits and dashes.\<close>

definition plain_id :: "jstr \<Rightarrow> bool" where
  "plain_id s \<longleftrightarrow> s \<noteq> [] \<and> list_all (\<lambda>c. is_digit c \<or> 97 \<le> c \<and> c \<le> 122 \<or> 65 \<le> c \<and> c \<le> 90 \<or> c = 45) s"

lemma plain_id_text: "plain_id s \<Longrightarrow> text_units s \<and> 58 \<notin> set s \<and> s \<noteq> []"
  by (auto simp: plain_id_def text_units_def list_all_iff is_digit_def)

lemma plain_id_trim: "plain_id s \<Longrightarrow> js_trim s = s"
proof -
  assume s: "plain_id s"
  then have "\<forall>c \<in> set s. \<not> js_space c"
    by (intro ballI notI) (auto simp: plain_id_def list_all_iff js_space_def is_digit_def dest!: bspec)
  moreover have "s \<noteq> []" using s by (simp add: plain_id_def)
  ultimately have "dropWhile js_space s = s" "dropWhile js_space (rev s) = rev s"
    by (simp_all add: dropWhile_eq_self_iff hd_rev)
  then show ?thesis by (simp add: js_trim_def)
qed

lemma plain_id_encoded: "plain_id s \<Longrightarrow> normalizeSegmentValue K (TextSegment s) = Some s"
proof -
  assume s: "plain_id s"
  then have "\<forall>c \<in> set s. uri_unreserved c" "\<forall>c \<in> set s. c \<noteq> 95 \<and> c \<noteq> 42"
    by (auto simp: plain_id_def list_all_iff uri_unreserved_def is_digit_def)
  moreover have "\<forall>c \<in> set s. c \<noteq> 95 \<and> c \<noteq> 42 \<Longrightarrow> concat (map (\<lambda>c. if c = 95 \<or> c = 42 then percent_byte c else [c]) s) = s"
    by (induction s) auto
  ultimately show ?thesis using s plain_id_trim[OF s] plain_id_text[OF s]
    by (simp add: normalizeSegmentValue_def encodeSegmentText_def encodeURIComponent_plain)
qed

text \<open>What a route is asked, with the spaces around texts and the spellings of one value left out.\<close>

definition trimmed :: "jstr option \<Rightarrow> jstr option" where
  "trimmed v = (let t = js_trim (case v of Some s \<Rightarrow> s | None \<Rightarrow> []) in if t = [] then None else Some t)"

definition list_meaning :: "list_request \<Rightarrow> list_request" where
  "list_meaning r = r\<lparr>lr_sort := js_trim (lr_sort r), lr_q := trimmed (lr_q r), lr_after := trimmed (lr_after r)\<rparr>"

fun route_meaning :: "key_platform \<Rightarrow> cached_route \<Rightarrow> cached_route" where
  "route_meaning K (MetricList r filterName categoryId) = MetricList (list_meaning r) (trimmed filterName) (trimmed categoryId)"
| "route_meaning K (SettingsList r metricId isActive) = SettingsList (list_meaning r) (trimmed metricId) isActive"
| "route_meaning K (LogList r metricId logValue) = LogList (list_meaning r) (trimmed metricId)
     (case logValue of Some v \<Rightarrow> if isFinite v then Some v else None | None \<Rightarrow> None)"
| "route_meaning K (MetricDetail p u m include logsLimit) = MetricDetail p u m
     (Some (join_commas (map include_name (metricDetailIncludes include)))) (Some (case logsLimit of Some n \<Rightarrow> n | None \<Rightarrow> 20))"
| "route_meaning K (LogStats p u metricId startDate endDate) = LogStats p u metricId
     (map_option (\<lambda>v. js_integer (date_ms K v)) (nonempty startDate)) (map_option (\<lambda>v. js_integer (date_ms K v)) (nonempty endDate))"
| "route_meaning K r = r"

fun route_tenant :: "cached_route \<Rightarrow> jstr \<times> jstr" where
  "route_tenant (MetricList r filterName categoryId) = (lr_userId r, lr_organizationId r)"
| "route_tenant (SettingsList r metricId isActive) = (lr_userId r, lr_organizationId r)"
| "route_tenant (LogList r metricId logValue) = (lr_userId r, lr_organizationId r)"
| "route_tenant (MetricDetail p u m include logsLimit) = (u, p)"
| "route_tenant (SettingsEntry p u s) = (u, p)"
| "route_tenant (CategoryEntry p u c) = (u, p)"
| "route_tenant (LogEntry p u l m) = (u, p)"
| "route_tenant (LogStats p u m startDate endDate) = (u, p)"

text \<open>What validation leaves of a request: identifiers, and texts of UTF-16 units.\<close>

fun text_ok :: "jstr option \<Rightarrow> bool" where
  "text_ok None = True"
| "text_ok (Some s) = text_units s"

definition request_ok :: "list_request \<Rightarrow> bool" where
  "request_ok r \<longleftrightarrow> plain_id (lr_userId r) \<and> plain_id (lr_organizationId r) \<and> text_units (lr_sort r) \<and> js_trim (lr_sort r) \<noteq> [] \<and>
     text_ok (lr_q r) \<and> text_ok (lr_after r)"

fun route_ok :: "cached_route \<Rightarrow> bool" where
  "route_ok (MetricList r filterName categoryId) = (request_ok r \<and> text_ok filterName \<and> text_ok categoryId)"
| "route_ok (SettingsList r metricId isActive) = (request_ok r \<and> text_ok metricId)"
| "route_ok (LogList r metricId logValue) = (request_ok r \<and> text_ok metricId)"
| "route_ok (MetricDetail p u m include logsLimit) = (plain_id p \<and> plain_id u \<and> plain_id m)"
| "route_ok (SettingsEntry p u s) = (plain_id p \<and> plain_id u \<and> plain_id s)"
| "route_ok (CategoryEntry p u c) = (plain_id p \<and> plain_id u \<and> plain_id c)"
| "route_ok (LogEntry p u l m) = (plain_id p \<and> plain_id u \<and> plain_id l \<and> plain_id m)"
| "route_ok (LogStats p u m startDate endDate) = (plain_id p \<and> plain_id u \<and> (case m of Some x \<Rightarrow> plain_id x \<and> x \<noteq> lit ''all'' | None \<Rightarrow> True))"

lemma js_integer_inj: "js_integer a = js_integer b \<longleftrightarrow> a = b"
proof -
  have "45 \<notin> set (decimal n)" for n using decimal_digits[of n] by (auto simp: is_digit_def)
  then have "45 # decimal m \<noteq> decimal n" "decimal n \<noteq> 45 # decimal m" for m n by (metis list.set_intros(1))+
  then show ?thesis by (auto simp: js_integer_def lit_def decimal_inj eq_nat_nat_iff)
qed

lemma includes_cases:
  "metricDetailIncludes include \<in> {[], [IncludeCategory], [IncludeLogs], [IncludeSettings], [IncludeCategory, IncludeLogs],
     [IncludeCategory, IncludeSettings], [IncludeLogs, IncludeSettings], [IncludeCategory, IncludeLogs, IncludeSettings]}"
proof -
  have "filter P INCLUDES \<in> {[], [IncludeCategory], [IncludeLogs], [IncludeSettings], [IncludeCategory, IncludeLogs],
     [IncludeCategory, IncludeSettings], [IncludeLogs, IncludeSettings], [IncludeCategory, IncludeLogs, IncludeSettings]}" for P
    by (simp add: INCLUDES_def)
  then show ?thesis by (auto simp: metricDetailIncludes_def INCLUDES_def split: option.splits)
qed

lemma includes_read_back:
  "metricDetailIncludes (Some (if metricDetailIncludes i = [] then lit ''flat'' else join_commas (map include_name (metricDetailIncludes i)))) =
   metricDetailIncludes i"
  using includes_cases[of i] by (elim insertE emptyE) (simp_all, simp_all add: metricDetailIncludes_def INCLUDES_def lit_def nonempty_def js_trim_def js_space_def)

lemma includes_plain:
  "58 \<notin> set (if metricDetailIncludes i = [] then lit ''flat'' else join_commas (map include_name (metricDetailIncludes i)))"
  using includes_cases[of i] by (elim insertE emptyE) (simp_all add: lit_def)

text \<open>What each key begins with.\<close>

fun route_namespace :: "cached_route \<Rightarrow> jstr" where
  "route_namespace (MetricList r filterName categoryId) = lit ''cursor:metrics:v4''"
| "route_namespace (SettingsList r metricId isActive) = lit ''cursor:metric-settings:v4''"
| "route_namespace (LogList r metricId logValue) = lit ''cursor:metric-logs:v4''"
| "route_namespace (MetricDetail p u m include logsLimit) = lit ''metric''"
| "route_namespace (SettingsEntry p u s) = lit ''metricSetting''"
| "route_namespace (CategoryEntry p u c) = lit ''category''"
| "route_namespace (LogEntry p u l m) = lit ''log''"
| "route_namespace (LogStats p u m startDate endDate) = lit ''logStats''"

lemmas features = METRIC_CURSOR_FEATURE_def METRIC_SETTINGS_CURSOR_FEATURE_def METRIC_LOG_CURSOR_FEATURE_def
  METRIC_CATEGORY_CURSOR_FEATURE_def

lemma namespaces:
  "cursorCacheNamespace METRIC_CURSOR_FEATURE (Some (lit ''4'')) = lit ''cursor:metrics:v4''"
  "cursorCacheNamespace METRIC_SETTINGS_CURSOR_FEATURE (Some (lit ''4'')) = lit ''cursor:metric-settings:v4''"
  "cursorCacheNamespace METRIC_LOG_CURSOR_FEATURE (Some (lit ''4'')) = lit ''cursor:metric-logs:v4''"
  "cursorCacheNamespace METRIC_CATEGORY_CURSOR_FEATURE (Some (lit ''4'')) = lit ''cursor:metric-categories:v4''"
  by (simp_all add: cursorCacheNamespace_def features lit_def js_trim_def js_space_def nonempty_def)

lemma cursor_key_prefix:
  "buildCursorCacheKey K feature version u p segments = Some k \<Longrightarrow> \<exists>z. k = cursorCacheNamespace feature version @ 58 # z"
  by (auto simp: buildCursorCacheKey_def bind_eq_Some_conv)

lemma route_key_prefix: "route_key K r = Some k \<Longrightarrow> \<exists>z. k = route_namespace r @ 58 # z"
proof (cases r)
  case (MetricList l f c)
  then show "route_key K r = Some k \<Longrightarrow> ?thesis"
    using cursor_key_prefix by (fastforce simp: metricsCursorCacheKey_def namespaces)
next
  case (SettingsList l m a)
  then show "route_key K r = Some k \<Longrightarrow> ?thesis"
    using cursor_key_prefix by (fastforce simp: metricSettingsCursorCacheKey_def namespaces)
next
  case (LogList l m v)
  then show "route_key K r = Some k \<Longrightarrow> ?thesis"
    using cursor_key_prefix by (fastforce simp: metricLogsCursorCacheKey_def namespaces)
qed (auto simp: metricDetailCacheKey_def Let_def metricEntryKey_def metricSettingEntryKey_def categoryEntryKey_def
  metricLogCacheKey_def metricLogStatsCacheKey_def lit_def)

lemma route_namespace_differs:
  "route_namespace r @ 58 # z = route_namespace r' @ 58 # z' \<Longrightarrow> route_namespace r = route_namespace r'"
  by (cases r; cases r') (simp_all add: lit_def)

definition same_route :: "cached_route \<Rightarrow> cached_route \<Rightarrow> bool" where
  "same_route r r' \<longleftrightarrow> route_namespace r = route_namespace r'"

lemma route_key_same: "route_key K r = Some k \<Longrightarrow> route_key K r' = Some k \<Longrightarrow> same_route r r'"
  unfolding same_route_def using route_key_prefix route_namespace_differs by metis

lemma trimmed_meaning:
  "segment_meaning (text_or_empty v) = (case trimmed v of None \<Rightarrow> NoSegment | Some t \<Rightarrow> TextSegment t)"
  by (auto simp: text_or_empty_def trimmed_def Let_def split: option.splits)

lemma trimmed_same:
  "(case trimmed v of None \<Rightarrow> NoSegment | Some t \<Rightarrow> TextSegment t) = (case trimmed w of None \<Rightarrow> NoSegment | Some t \<Rightarrow> TextSegment t) \<longleftrightarrow>
   trimmed v = trimmed w"
  by (auto split: option.splits)

lemma text_or_empty_ok: "text_ok v \<Longrightarrow> segment_ok (text_or_empty v)"
  by (cases v) (simp_all add: text_or_empty_def text_units_def)

lemma text_or_empty_kind: "same_kind (text_or_empty v) (text_or_empty w)"
  by (simp add: text_or_empty_def)

lemmas list_keys = segments_ok_def alike_def request_ok_def text_or_empty_ok text_or_empty_kind trimmed_meaning trimmed_same
  plain_id_text plain_id_trim list_meaning_def

lemma list_request_eqI:
  "\<lbrakk>plain_id (lr_userId r); plain_id (lr_userId r'); plain_id (lr_organizationId r); plain_id (lr_organizationId r');
    segment_meaning (TextSegment (lr_userId r)) = segment_meaning (TextSegment (lr_userId r'));
    segment_meaning (TextSegment (lr_organizationId r)) = segment_meaning (TextSegment (lr_organizationId r'));
    lr_limit r = lr_limit r'; js_trim (lr_sort r) = js_trim (lr_sort r'); trimmed (lr_q r) = trimmed (lr_q r');
    trimmed (lr_after r) = trimmed (lr_after r'); lr_includeTotal r = lr_includeTotal r'\<rbrakk> \<Longrightarrow>
   list_meaning r = list_meaning r' \<and> lr_userId r = lr_userId r' \<and> lr_organizationId r = lr_organizationId r'"
  by (cases r; cases r') (simp add: list_meaning_def plain_id_trim plain_id_text)

definition list_segments :: "list_request \<Rightarrow> (jstr \<times> segment_value) list \<Rightarrow> (jstr \<times> segment_value) list" where
  "list_segments r filters =
     [(lit ''l'', WholeSegment (lr_limit r)), (lit ''s'', TextSegment (lr_sort r)), (lit ''q'', text_or_empty (lr_q r))] @ filters @
     [(lit ''after'', text_or_empty (lr_after r)), (lit ''it'', FlagSegment (lr_includeTotal r))]"

lemma list_segments_ok: "request_ok r \<Longrightarrow> segments_ok filters \<Longrightarrow> segments_ok (list_segments r filters)"
  by (simp add: list_segments_def segments_ok_def request_ok_def text_or_empty_ok lit_def)

lemma list_segments_alike: "alike filters filters' \<Longrightarrow> alike (list_segments r filters) (list_segments r' filters')"
  by (simp add: list_segments_def alike_def text_or_empty_kind list_all2_appendI)

lemma list_segments_meaning:
  "map (\<lambda>lv. segment_meaning (snd lv)) (list_segments r filters) = map (\<lambda>lv. segment_meaning (snd lv)) (list_segments r' filters') \<Longrightarrow>
   length filters = length filters' \<Longrightarrow> js_trim (lr_sort r) \<noteq> [] \<Longrightarrow> js_trim (lr_sort r') \<noteq> [] \<Longrightarrow>
   lr_limit r = lr_limit r' \<and> js_trim (lr_sort r) = js_trim (lr_sort r') \<and> trimmed (lr_q r) = trimmed (lr_q r') \<and>
   trimmed (lr_after r) = trimmed (lr_after r') \<and> lr_includeTotal r = lr_includeTotal r' \<and>
   map (\<lambda>lv. segment_meaning (snd lv)) filters = map (\<lambda>lv. segment_meaning (snd lv)) filters'"
  by (simp add: list_segments_def trimmed_meaning trimmed_same)

lemma list_key_inj:
  assumes "buildCursorCacheKey K feature version (lr_userId r) (lr_organizationId r) (list_segments r filters) = Some k"
    "buildCursorCacheKey K feature version (lr_userId r') (lr_organizationId r') (list_segments r' filters') = Some k"
    "request_ok r" "request_ok r'" "segments_ok filters" "segments_ok filters'" "alike filters filters'" "prints_numbers K"
  shows "list_meaning r = list_meaning r' \<and> lr_userId r = lr_userId r' \<and> lr_organizationId r = lr_organizationId r' \<and>
    map (\<lambda>lv. segment_meaning (snd lv)) filters = map (\<lambda>lv. segment_meaning (snd lv)) filters'"
proof -
  have ids: "plain_id (lr_userId r)" "plain_id (lr_userId r')" "plain_id (lr_organizationId r)" "plain_id (lr_organizationId r')"
    "js_trim (lr_sort r) \<noteq> []" "js_trim (lr_sort r') \<noteq> []" using assms(3,4) by (simp_all add: request_ok_def)
  note inj = cursor_key_inj[OF assms(1,2) _ _ _ _ list_segments_ok[OF assms(3,5)] list_segments_ok[OF assms(4,6)]
    list_segments_alike[OF assms(7)] assms(8)]
  have "length filters = length filters'" using assms(7) by (simp add: alike_def list_all2_lengthD)
  from list_segments_meaning[OF inj(3) this] list_request_eqI[of r r'] ids plain_id_text inj(1,2) show ?thesis by blast
qed

lemma metric_list_key_inj:
  assumes "route_key K (MetricList r f c) = Some k" "route_key K (MetricList r' f' c') = Some k"
    "route_ok (MetricList r f c)" "route_ok (MetricList r' f' c')" "prints_numbers K"
  shows "route_meaning K (MetricList r f c) = route_meaning K (MetricList r' f' c') \<and> lr_userId r = lr_userId r' \<and> lr_organizationId r = lr_organizationId r'"
proof -
  have "list_meaning r = list_meaning r' \<and> lr_userId r = lr_userId r' \<and> lr_organizationId r = lr_organizationId r' \<and>
    map (\<lambda>lv. segment_meaning (snd lv)) [(lit ''fn'', text_or_empty f), (lit ''fc'', text_or_empty c)] =
    map (\<lambda>lv. segment_meaning (snd lv)) [(lit ''fn'', text_or_empty f'), (lit ''fc'', text_or_empty c')]"
    using assms(1-4)
    by (intro list_key_inj[OF _ _ _ _ _ _ _ assms(5)])
      (simp_all add: metricsCursorCacheKey_def list_segments_def segments_ok_def alike_def text_or_empty_ok text_or_empty_kind lit_def)
  then show ?thesis by (simp add: trimmed_meaning trimmed_same)
qed

lemma settings_list_key_inj:
  assumes "route_key K (SettingsList r m a) = Some k" "route_key K (SettingsList r' m' a') = Some k"
    "route_ok (SettingsList r m a)" "route_ok (SettingsList r' m' a')" "prints_numbers K"
  shows "route_meaning K (SettingsList r m a) = route_meaning K (SettingsList r' m' a') \<and> lr_userId r = lr_userId r' \<and> lr_organizationId r = lr_organizationId r'"
proof -
  let ?flag = "\<lambda>a. case a of Some b \<Rightarrow> FlagSegment b | None \<Rightarrow> NoSegment"
  have "list_meaning r = list_meaning r' \<and> lr_userId r = lr_userId r' \<and> lr_organizationId r = lr_organizationId r' \<and>
    map (\<lambda>lv. segment_meaning (snd lv)) [(lit ''fm'', text_or_empty m), (lit ''fa'', ?flag a)] =
    map (\<lambda>lv. segment_meaning (snd lv)) [(lit ''fm'', text_or_empty m'), (lit ''fa'', ?flag a')]"
    using assms(1-4)
    by (intro list_key_inj[OF _ _ _ _ _ _ _ assms(5)])
      (simp_all add: metricSettingsCursorCacheKey_def list_segments_def segments_ok_def alike_def text_or_empty_ok text_or_empty_kind
        lit_def split: option.splits)
  then show ?thesis by (auto simp: trimmed_meaning trimmed_same split: option.splits)
qed

lemma log_list_key_inj:
  assumes "route_key K (LogList r m v) = Some k" "route_key K (LogList r' m' v') = Some k"
    "route_ok (LogList r m v)" "route_ok (LogList r' m' v')" "prints_numbers K"
  shows "route_meaning K (LogList r m v) = route_meaning K (LogList r' m' v') \<and> lr_userId r = lr_userId r' \<and> lr_organizationId r = lr_organizationId r'"
proof -
  let ?number = "\<lambda>v. case v of Some x \<Rightarrow> NumberSegment x | None \<Rightarrow> NoSegment"
  have "list_meaning r = list_meaning r' \<and> lr_userId r = lr_userId r' \<and> lr_organizationId r = lr_organizationId r' \<and>
    map (\<lambda>lv. segment_meaning (snd lv)) [(lit ''fm'', text_or_empty m), (lit ''fn'', ?number v)] =
    map (\<lambda>lv. segment_meaning (snd lv)) [(lit ''fm'', text_or_empty m'), (lit ''fn'', ?number v')]"
    using assms(1-4)
    by (intro list_key_inj[OF _ _ _ _ _ _ _ assms(5)])
      (simp_all add: metricLogsCursorCacheKey_def list_segments_def segments_ok_def alike_def text_or_empty_ok text_or_empty_kind
        lit_def split: option.splits)
  then show ?thesis by (auto simp: trimmed_meaning trimmed_same split: option.splits if_splits)
qed

lemma bound_text_plain: "58 \<notin> set (bound_text K v)"
proof -
  have "58 \<notin> set (decimal n)" for n using decimal_digits[of n] by (auto simp: is_digit_def)
  then show ?thesis by (auto simp: bound_text_def js_integer_def lit_def split: option.splits)
qed

lemma bound_text_inj:
  "bound_text K v = bound_text K w \<Longrightarrow> map_option (\<lambda>v. js_integer (date_ms K v)) (nonempty v) = map_option (\<lambda>v. js_integer (date_ms K v)) (nonempty w)"
proof -
  have "95 \<notin> set (decimal n)" for n using decimal_digits[of n] by (auto simp: is_digit_def)
  then have "95 \<notin> set (js_integer n)" for n by (simp add: js_integer_def lit_def)
  then have "js_integer n \<noteq> [95]" "[95] \<noteq> js_integer n" for n by (metis list.set_intros(1))+
  then show "bound_text K v = bound_text K w \<Longrightarrow> ?thesis" by (auto simp: bound_text_def lit_def split: option.splits)
qed

lemma entry_cancel:
  "plain_id p \<Longrightarrow> plain_id p' \<Longrightarrow> p @ 58 # r = p' @ 58 # r' \<longleftrightarrow> p = p' \<and> r = r'"
  using colon_cancel plain_id_text by blast

lemma detail_key_inj:
  assumes "metricDetailCacheKey p u m i n = metricDetailCacheKey p' u' m' i' n'"
    "plain_id p" "plain_id u" "plain_id m" "plain_id p'" "plain_id u'" "plain_id m'"
  shows "p = p' \<and> u = u' \<and> m = m' \<and> metricDetailIncludes i = metricDetailIncludes i' \<and>
    (case n of Some x \<Rightarrow> x | None \<Rightarrow> 20) = (case n' of Some x \<Rightarrow> x | None \<Rightarrow> 20)"
proof -
  define t where "t i = (if metricDetailIncludes i = [] then lit ''flat'' else join_commas (map include_name (metricDetailIncludes i)))" for i
  have t: "58 \<notin> set (t i)" "metricDetailIncludes (Some (t i)) = metricDetailIncludes i" for i
    unfolding t_def by (rule includes_plain) (rule includes_read_back)
  have key: "metricDetailCacheKey p u m i n = lit ''metric:'' @ p @ 58 # u @ 58 # m @ 58 # lit ''inc:'' @ t i @ 58 # lit ''ll:'' @
     decimal (case n of Some x \<Rightarrow> x | None \<Rightarrow> 20)" for p u m i n
    by (simp add: metricDetailCacheKey_def metricEntryKey_def Let_def t_def lit_def)
  from assms(1)[unfolded key] have e: "p @ 58 # u @ 58 # m @ 58 # lit ''inc:'' @ t i @ 58 # lit ''ll:'' @ decimal (case n of Some x \<Rightarrow> x | None \<Rightarrow> 20) =
     p' @ 58 # u' @ 58 # m' @ 58 # lit ''inc:'' @ t i' @ 58 # lit ''ll:'' @ decimal (case n' of Some x \<Rightarrow> x | None \<Rightarrow> 20)" by simp
  from e have "p = p' \<and> u = u' \<and> m = m' \<and> t i @ 58 # lit ''ll:'' @ decimal (case n of Some x \<Rightarrow> x | None \<Rightarrow> 20) =
     t i' @ 58 # lit ''ll:'' @ decimal (case n' of Some x \<Rightarrow> x | None \<Rightarrow> 20)" by (simp add: entry_cancel assms(2-7))
  then have "p = p' \<and> u = u' \<and> m = m' \<and> t i = t i' \<and> (case n of Some x \<Rightarrow> x | None \<Rightarrow> 20) = (case n' of Some x \<Rightarrow> x | None \<Rightarrow> (20::nat))"
    by (simp add: colon_cancel[OF t(1) t(1)] decimal_inj)
  then show ?thesis using t(2) by metis
qed

lemma stats_key_inj:
  assumes "metricLogStatsCacheKey K p u m s e = metricLogStatsCacheKey K p' u' m' s' e'"
    "route_ok (LogStats p u m s e)" "route_ok (LogStats p' u' m' s' e')"
  shows "route_meaning K (LogStats p u m s e) = route_meaning K (LogStats p' u' m' s' e')"
proof -
  let ?m = "\<lambda>m. case m of Some m \<Rightarrow> m | None \<Rightarrow> lit ''all''"
  have key: "metricLogStatsCacheKey K p u m s e = lit ''logStats:'' @ p @ 58 # u @ 58 # lit ''m:'' @ ?m m @ 58 # lit ''s:'' @ bound_text K s @
     58 # lit ''e:'' @ bound_text K e" for p u m s e
    by (simp add: metricLogStatsCacheKey_def lit_def)
  have plain: "plain_id p" "plain_id p'" "plain_id u" "plain_id u'" "58 \<notin> set (?m m)" "58 \<notin> set (?m m')"
    using assms(2,3) plain_id_text by (auto simp: lit_def split: option.splits)
  from assms(1)[unfolded key] have "p = p' \<and> u = u' \<and> ?m m @ 58 # lit ''s:'' @ bound_text K s @ 58 # lit ''e:'' @ bound_text K e =
     ?m m' @ 58 # lit ''s:'' @ bound_text K s' @ 58 # lit ''e:'' @ bound_text K e'" by (simp add: entry_cancel plain(1-4))
  then have "p = p' \<and> u = u' \<and> ?m m = ?m m' \<and> bound_text K s = bound_text K s' \<and> bound_text K e = bound_text K e'"
    by (simp add: colon_cancel[OF plain(5,6)] colon_cancel[OF bound_text_plain bound_text_plain])
  then have eq: "p = p'" "u = u'" "?m m = ?m m'" "bound_text K s = bound_text K s'" "bound_text K e = bound_text K e'" by blast+
  have "m = m'" using eq(3) assms(2,3) by (auto split: option.splits)
  then show ?thesis by (simp only: route_meaning.simps eq(1,2) bound_text_inj[OF eq(4)] bound_text_inj[OF eq(5)])
qed

lemma route_key_inj:
  assumes "route_key K r = Some k" "route_key K r' = Some k" "route_ok r" "route_ok r'" "prints_numbers K"
  shows "route_tenant r = route_tenant r' \<and> route_meaning K r = route_meaning K r'"
proof -
  have same: "same_route r r'" by (rule route_key_same[OF assms(1,2)])
  show ?thesis
  proof (cases r)
    case (MetricList l f c)
    with same obtain l' f' c' where r': "r' = MetricList l' f' c'" by (cases r') (auto simp: same_route_def lit_def)
    show ?thesis using metric_list_key_inj[OF assms(1,2)[unfolded MetricList r'] assms(3,4)[unfolded MetricList r'] assms(5)]
      unfolding MetricList r' by (simp only: route_tenant.simps)
  next
    case (SettingsList l f c)
    with same obtain l' f' c' where r': "r' = SettingsList l' f' c'" by (cases r') (auto simp: same_route_def lit_def)
    show ?thesis using settings_list_key_inj[OF assms(1,2)[unfolded SettingsList r'] assms(3,4)[unfolded SettingsList r'] assms(5)]
      unfolding SettingsList r' by (simp only: route_tenant.simps)
  next
    case (LogList l f c)
    with same obtain l' f' c' where r': "r' = LogList l' f' c'" by (cases r') (auto simp: same_route_def lit_def)
    show ?thesis using log_list_key_inj[OF assms(1,2)[unfolded LogList r'] assms(3,4)[unfolded LogList r'] assms(5)]
      unfolding LogList r' by (simp only: route_tenant.simps)
  next
    case (MetricDetail p u m i n)
    with same obtain p' u' m' i' n' where r': "r' = MetricDetail p' u' m' i' n'" by (cases r') (auto simp: same_route_def lit_def)
    with MetricDetail assms detail_key_inj[of p u m i n p' u' m' i' n'] show ?thesis by simp
  next
    case (LogStats p u m s e)
    with same obtain p' u' m' s' e' where "r' = LogStats p' u' m' s' e'" by (cases r') (auto simp: same_route_def lit_def)
    with LogStats assms stats_key_inj[of K p u m s e p' u' m' s' e'] show ?thesis by simp
  next
    case (SettingsEntry p u s)
    with same obtain p' u' s' where "r' = SettingsEntry p' u' s'" by (cases r') (auto simp: same_route_def lit_def)
    with SettingsEntry assms show ?thesis by (auto simp: metricSettingEntryKey_def entry_cancel)
  next
    case (CategoryEntry p u s)
    with same obtain p' u' s' where "r' = CategoryEntry p' u' s'" by (cases r') (auto simp: same_route_def lit_def)
    with CategoryEntry assms show ?thesis by (auto simp: categoryEntryKey_def entry_cancel)
  next
    case (LogEntry p u l m)
    with same obtain p' u' l' m' where r': "r' = LogEntry p' u' l' m'" by (cases r') (auto simp: same_route_def lit_def)
    have "metricLogCacheKey p u l m = lit ''log:'' @ p @ 58 # u @ 58 # l @ 58 # lit ''m:'' @ m" for p u l m
      by (simp add: metricLogCacheKey_def lit_def)
    with r' LogEntry assms show ?thesis by (auto simp: entry_cancel)
  qed
qed

end
