(* ===== verification/CacheProperties.thy ===== *)
theory CacheProperties imports CacheMeaning begin

text \<open>
  The read caches over time: whatever was served and stored before, an answer from the cache is the answer to the
  question asked, of the tenant that asked it; and the patterns that the writes delete by match every entry that the
  write makes old.
\<close>

section \<open>The cache over time\<close>

text \<open>
  What happens to the cache: requests through the middleware, whose writes land later or are lost; pages of the
  category list, which its repository stores itself; and keys that go, deleted or expired.
\<close>

record read_cache =
  cached :: "jstr \<rightharpoonup> jstr"
  unwritten :: "(jstr \<times> jstr) list"

datatype 'b cache_event =
    Asked cached_route bool "'b json_answer"
  | WriteLands nat
  | CategoryPage list_request "jstr option" jstr
  | Gone "jstr list"

definition get_from :: "read_cache \<Rightarrow> bool \<Rightarrow> jstr \<Rightarrow> redis_reply" where
  "get_from s up k = (if up then (case cached s k of None \<Rightarrow> NoEntry | Some t \<Rightarrow> Entry t) else Unavailable)"

definition answered :: "key_platform \<Rightarrow> 'b json \<Rightarrow> cached_route \<Rightarrow> bool \<Rightarrow> 'b json_answer \<Rightarrow> read_cache \<Rightarrow> 'b json_answer \<times> (jstr \<times> jstr) option" where
  "answered K J r up handled s = cacheMiddleware J False (route_key K r) (get_from s up) handled"

fun cache_step :: "key_platform \<Rightarrow> 'b json \<Rightarrow> 'b cache_event \<Rightarrow> read_cache \<Rightarrow> read_cache" where
  "cache_step K J (Asked r up handled) s = (case snd (answered K J r up handled s) of
      None \<Rightarrow> s | Some kt \<Rightarrow> s\<lparr>unwritten := unwritten s @ [kt]\<rparr>)"
| "cache_step K J (WriteLands i) s = (if i < length (unwritten s)
     then s\<lparr>cached := (cached s)(fst (unwritten s ! i) \<mapsto> snd (unwritten s ! i))\<rparr> else s)"
| "cache_step K J (CategoryPage r filterName text') s = (case categoriesCursorCacheKey K r filterName of
      None \<Rightarrow> s | Some k \<Rightarrow> s\<lparr>cached := (cached s)(k \<mapsto> text')\<rparr>)"
| "cache_step K J (Gone ks) s = s\<lparr>cached := cached s |` (- set ks)\<rparr>"

fun cache_after :: "key_platform \<Rightarrow> 'b json \<Rightarrow> 'b cache_event list \<Rightarrow> read_cache \<Rightarrow> read_cache" where
  "cache_after K J [] s = s"
| "cache_after K J (e # es) s = cache_after K J es (cache_step K J e s)"

definition empty_cache :: read_cache where
  "empty_cache = \<lparr>cached = Map.empty, unwritten = []\<rparr>"

text \<open>An entry is what an earlier request with its key was answered with a 200, or a page of categories.\<close>

definition earned :: "key_platform \<Rightarrow> 'b json \<Rightarrow> 'b cache_event set \<Rightarrow> jstr \<Rightarrow> jstr \<Rightarrow> bool" where
  "earned K J es k t \<longleftrightarrow> (\<exists>r up body. Asked r up (200, body) \<in> es \<and> route_key K r = Some k \<and> t = stringify J body) \<or>
     (\<exists>r f. categoriesCursorCacheKey K r f = Some k)"

definition cache_inv :: "key_platform \<Rightarrow> 'b json \<Rightarrow> 'b cache_event set \<Rightarrow> read_cache \<Rightarrow> bool" where
  "cache_inv K J es s \<longleftrightarrow> (\<forall>k t. cached s k = Some t \<longrightarrow> earned K J es k t) \<and> (\<forall>(k, t) \<in> set (unwritten s). earned K J es k t)"

lemma earned_more: "earned K J es k t \<Longrightarrow> es \<subseteq> es' \<Longrightarrow> earned K J es' k t"
  unfolding earned_def by blast

lemma cache_inv_more: "cache_inv K J es s \<Longrightarrow> es \<subseteq> es' \<Longrightarrow> cache_inv K J es' s"
  unfolding cache_inv_def using earned_more by fastforce

lemma middleware_cases:
  assumes "cacheMiddleware J False key get handled = (answer, stored)"
  shows "answer = handled \<or> (\<exists>k raw v. key = Some k \<and> get k = Entry raw \<and> parse J raw = Some v \<and> answer = (200, v))"
    "stored = None \<or> (\<exists>k body. key = Some k \<and> handled = (200, body) \<and> stored = Some (k, stringify J body))"
  using assms by (cases handled; auto simp: cacheMiddleware_def readCachedJson_def Let_def
    split: option.splits redis_reply.splits if_splits)+

lemma cache_inv_step:
  assumes "cache_inv K J es s"
  shows "cache_inv K J (insert e es) (cache_step K J e s)"
proof -
  have inv: "cache_inv K J (insert e es) s" using assms by (rule cache_inv_more) blast
  show ?thesis
  proof (cases e)
    case (Asked r up handled)
    obtain answer stored where a: "answered K J r up handled s = (answer, stored)" by fastforce
    from middleware_cases(2)[OF a[unfolded answered_def]] have "stored = None \<or> (\<exists>k t. stored = Some (k, t) \<and> earned K J (insert e es) k t)"
      unfolding earned_def Asked by blast
    with inv show ?thesis unfolding cache_inv_def Asked cache_step.simps a snd_conv by (elim disjE exE conjE) simp_all
  next
    case (WriteLands i)
    with inv show ?thesis by (auto simp: cache_inv_def case_prod_beta dest: nth_mem split: if_splits)
  next
    case (CategoryPage r f t)
    with inv show ?thesis by (auto simp: cache_inv_def earned_def split: option.splits if_splits)
  next
    case (Gone ks)
    with inv show ?thesis by (auto simp: cache_inv_def restrict_map_def split: if_splits)
  qed
qed

lemma cache_inv_after: "cache_inv K J es s \<Longrightarrow> cache_inv K J (es \<union> set fs) (cache_after K J fs s)"
proof (induction fs arbitrary: es s)
  case (Cons e fs)
  from Cons.IH[OF cache_inv_step[OF Cons.prems, of e]] show ?case by simp
qed simp

lemma no_category_key:
  assumes "categoriesCursorCacheKey K r f = Some k"
  shows "route_key K r' \<noteq> Some k"
proof
  assume "route_key K r' = Some k"
  then obtain z' where z': "k = route_namespace r' @ 58 # z'" using route_key_prefix by blast
  obtain z where "k = lit ''cursor:metric-categories:v4'' @ 58 # z"
    using cursor_key_prefix[OF assms[unfolded categoriesCursorCacheKey_def]] by (auto simp: namespaces)
  with z' show False by (cases r') (simp_all add: lit_def)
qed

text \<open>
  C15. The cache answers a question with the answer to that question. Whatever requests, writes and deletions came
  before, a request that is not answered by its handler is answered with a 200 whose body an earlier 200 of the same
  user and organization to the same question had: the same page, sort, search, filters, entry and range, up to
  spaces around a text. The texts are UTF-16, the identifiers as the server makes them, and the language prints
  different finite numbers differently.
\<close>

theorem cached_answers_belong:
  assumes "prints_numbers K" "route_ok r" "\<forall>r' up' handled'. Asked r' up' handled' \<in> set es \<longrightarrow> route_ok r'"
    "answered K J r up handled (cache_after K J es empty_cache) = (answer, stored)" "answer \<noteq> handled"
  shows "\<exists>r' up' body. Asked r' up' (200, body) \<in> set es \<and> route_tenant r' = route_tenant r \<and>
    route_meaning K r' = route_meaning K r \<and> fst answer = 200 \<and> parse J (stringify J body) = Some (snd answer)"
proof -
  let ?s = "cache_after K J es empty_cache"
  from middleware_cases(1)[OF assms(4)[unfolded answered_def]] assms(5) obtain k raw v where
    k: "route_key K r = Some k" "get_from ?s up k = Entry raw" "parse J raw = Some v" "answer = (200, v)" by blast
  then have "cached ?s k = Some raw" by (auto simp: get_from_def split: if_splits option.splits)
  moreover have "cache_inv K J {} empty_cache" by (simp add: cache_inv_def empty_cache_def)
  then have "cache_inv K J (set es) ?s" using cache_inv_after by fastforce
  ultimately have "earned K J (set es) k raw" by (simp add: cache_inv_def)
  with k(1) no_category_key obtain r' up' body where r': "Asked r' up' (200, body) \<in> set es" "route_key K r' = Some k"
    "raw = stringify J body" unfolding earned_def by blast
  from route_key_inj[OF r'(2) k(1) _ assms(2,1)] assms(3) r'(1) have "route_tenant r' = route_tenant r \<and> route_meaning K r' = route_meaning K r" by blast
  with r' k show ?thesis by fastforce
qed

text \<open>A platform and a request to try the theorems on.\<close>

definition sample_keys :: key_platform where
  "sample_keys = \<lparr>number_text = (\<lambda>v. case v of
       Finite q \<Rightarrow> js_integer (fst (quotient_of q)) @ 47 # js_integer (snd (quotient_of q)) | _ \<Rightarrow> lit ''NaN''),
     date_ms = (\<lambda>s. int (length s)), short_sha1 = (\<lambda>s. s)\<rparr>"

lemma js_integer_plain: "c \<in> set (js_integer n) \<Longrightarrow> is_digit c \<or> c = 45"
  using decimal_digits by (auto simp: js_integer_def lit_def split: if_splits)

lemma sample_keys_print: "prints_numbers sample_keys"
proof -
  have slash: "47 \<notin> set (js_integer n)" for n using js_integer_plain[of 47 n] by (auto simp: is_digit_def)
  have colon: "58 \<notin> set (js_integer n)" "95 \<notin> set (js_integer n)" for n
    using js_integer_plain[of 58 n] js_integer_plain[of 95 n] by (auto simp: is_digit_def)
  have inj: "number_text sample_keys (Finite q) = number_text sample_keys (Finite q') \<Longrightarrow> q = q'" for q q'
    by (simp add: sample_keys_def split_cancel[OF slash slash] js_integer_inj prod_eq_iff[symmetric] quotient_of_inject_eq)
  have finite: "isFinite v \<Longrightarrow> \<exists>q. v = Finite q" for v by (cases v) simp_all
  show ?thesis unfolding prints_numbers_def inj_on_def using inj finite colon
    by (auto simp: sample_keys_def append_eq_Cons_conv dest!: finite)
qed

definition sample_json :: "jstr json" where
  "sample_json = \<lparr>stringify = (\<lambda>t. 34 # t), parse = (\<lambda>s. if s = [] then None else Some (tl s))\<rparr>"

definition sample_list :: "jstr option \<Rightarrow> cached_route" where
  "sample_list q = MetricList \<lparr>lr_userId = lit ''u-1'', lr_organizationId = lit ''o-1'', lr_limit = 20, lr_sort = lit ''-createdAt'',
     lr_q = q, lr_after = None, lr_includeTotal = False\<rparr> None None"

definition sample_history :: "jstr cache_event list" where
  "sample_history = [Asked (sample_list (Some (lit ''a:*''))) True (200, lit ''page''), WriteLands 0]"

lemma sample_key:
  "route_key sample_keys (sample_list (Some (lit ''a:*''))) =
     Some (lit ''cursor:metrics:v4:u-1:org:o-1:l:20:s:-createdAt:q:a%3A%2A:fn:_:fc:_:after:_:it:0'')"
  "route_key sample_keys (sample_list (Some (lit ''a:* ''))) =
     Some (lit ''cursor:metrics:v4:u-1:org:o-1:l:20:s:-createdAt:q:a%3A%2A:fn:_:fc:_:after:_:it:0'')"
  by (simp_all add: sample_list_def metricsCursorCacheKey_def buildCursorCacheKey_def cursorCacheNamespace_def features
    normalizeSegmentValue_def encodeSegmentText_def text_or_empty_def evaluate decimal.simps)

lemma sample_list_ok: "route_ok (sample_list (Some (lit ''a:*'')))" "route_ok (sample_list (Some (lit ''a:* '')))"
  by (simp_all add: sample_list_def request_ok_def plain_id_def text_units_def evaluate)

lemma sample_answer:
  "answered sample_keys sample_json (sample_list (Some (lit ''a:* ''))) True (200, lit ''later'')
     (cache_after sample_keys sample_json sample_history empty_cache) = ((200, lit ''page''), None)"
  by (simp add: sample_history_def answered_def cacheMiddleware_def sample_key empty_cache_def get_from_def readCachedJson_def sample_json_def)

theorem cached_answers_belong_witness:
  "\<exists>r' up' body. Asked r' up' (200, body) \<in> set sample_history \<and> route_tenant r' = (lit ''u-1'', lit ''o-1'') \<and>
    route_meaning sample_keys r' = route_meaning sample_keys (sample_list (Some (lit ''a:* ''))) \<and>
    parse sample_json (stringify sample_json body) = Some (lit ''page'')"
proof -
  have "\<forall>r' up' handled'. Asked r' up' handled' \<in> set sample_history \<longrightarrow> route_ok r'"
    using sample_list_ok(1) by (simp add: sample_history_def)
  from cached_answers_belong[OF sample_keys_print sample_list_ok(2) this sample_answer]
  show ?thesis by (simp add: sample_list_def lit_def)
qed

section \<open>What the writes delete\<close>

text \<open>
  What is relied on of Redis: a text matches a glob that it fills, where a star stands for any text and letters,
  digits, dashes and colons for themselves; and a scan comes to its end, having answered every key that was there
  and matches.
\<close>

fun fills :: "jstr \<Rightarrow> jstr \<Rightarrow> bool" where
  "fills [] t = (t = [])"
| "fills (c # p) [] = (c = 42 \<and> fills p [])"
| "fills (c # p) (d # t) = (if c = 42 then fills p (d # t) \<or> fills (c # p) t else c = d \<and> c \<notin> {63, 91, 92} \<and> fills p t)"

definition glob_ok :: "(jstr \<Rightarrow> jstr \<Rightarrow> bool) \<Rightarrow> bool" where
  "glob_ok glob \<longleftrightarrow> (\<forall>p t. fills p t \<longrightarrow> glob p t)"

definition scan_complete :: "(jstr \<Rightarrow> jstr \<Rightarrow> bool) \<Rightarrow> (jstr \<Rightarrow> (nat \<times> jstr list) list) \<Rightarrow> (jstr \<rightharpoonup> jstr) \<Rightarrow> bool" where
  "scan_complete glob scan entries \<longleftrightarrow> (\<forall>p. \<exists>before keys after. scan p = before @ (0, keys) # after \<and>
     (\<forall>(cursor, ks) \<in> set before. cursor \<noteq> 0) \<and>
     (\<forall>k \<in> dom entries. glob p k \<longrightarrow> k \<in> set keys \<union> (\<Union>(cursor, ks) \<in> set before. set ks)))"

definition literal :: "jstr \<Rightarrow> bool" where
  "literal s \<longleftrightarrow> list_all (\<lambda>c. c \<notin> {42, 63, 91, 92}) s"

lemma fills_literal: "literal s \<Longrightarrow> fills (s @ p) (s @ t) = fills p t"
  by (induction s) (auto simp: literal_def)

lemma fills_star: "fills p t \<Longrightarrow> fills (42 # p) (x @ t)"
proof (induction x)
  case Nil
  then show ?case by (cases t) auto
qed simp

lemma fills_end: "fills [42] t"
  using fills_star[of "[]" "[]" t] by simp

lemma plain_id_literal: "plain_id s \<Longrightarrow> literal s"
  by (auto simp: plain_id_def literal_def list_all_iff is_digit_def)

lemma scan_delete_run:
  "\<forall>(cursor, ks) \<in> set before. cursor \<noteq> 0 \<Longrightarrow>
   scan_delete (before @ (0, keys) # after) entries = Some (entries |` (- (set keys \<union> (\<Union>(cursor, ks) \<in> set before. set ks))))"
  by (induction before arbitrary: entries) (auto simp: Let_def Int_Un_distrib intro: arg_cong[of _ _ "\<lambda>A. _ |` A"])

lemma invalidate_all_run:
  assumes "scan_complete glob scan entries"
  shows "\<exists>gone. (\<forall>e. invalidate_all scan ps e = Some (e |` (- gone))) \<and> (\<forall>p \<in> set ps. \<forall>k \<in> dom entries. glob p k \<longrightarrow> k \<in> gone)"
proof (induction ps)
  case Nil
  show ?case by (intro exI[of _ "{}"]) simp
next
  case (Cons p ps)
  then obtain gone where gone: "\<And>e. invalidate_all scan ps e = Some (e |` (- gone))"
    "\<forall>p \<in> set ps. \<forall>k \<in> dom entries. glob p k \<longrightarrow> k \<in> gone" by blast
  from assms obtain before keys after where p: "scan p = before @ (0, keys) # after" "\<forall>(cursor, ks) \<in> set before. cursor \<noteq> 0"
    "\<forall>k \<in> dom entries. glob p k \<longrightarrow> k \<in> set keys \<union> (\<Union>(cursor, ks) \<in> set before. set ks)" unfolding scan_complete_def by metis
  let ?first = "set keys \<union> (\<Union>(cursor, ks) \<in> set before. set ks)"
  have "invalidate_all scan (p # ps) e = Some (e |` (- (?first \<union> gone)))" for e
    by (simp add: invalidateCacheByPattern_def p(1) scan_delete_run[OF p(2)] gone(1) Compl_Un)
  with gone(2) p(3) show ?case by (intro exI[of _ "?first \<union> gone"]) auto
qed

text \<open>The entries that a write of a log of a metric makes old.\<close>

fun shows_log :: "jstr \<Rightarrow> jstr \<Rightarrow> jstr \<Rightarrow> jstr option \<Rightarrow> cached_route \<Rightarrow> bool" where
  "shows_log u p metricId logId (LogList r m v) = True"
| "shows_log u p metricId logId (LogStats p' u' m s e) = (m = None \<or> m = Some metricId)"
| "shows_log u p metricId logId (LogEntry p' u' l m) = (logId = Some l)"
| "shows_log u p metricId logId (MetricList r f c) = True"
| "shows_log u p metricId logId (MetricDetail p' u' m i n) = (m = metricId)"
| "shows_log u p metricId logId r = False"

lemma pattern_namespaces:
  "cursorCacheNamespace METRIC_CURSOR_FEATURE (Some (lit ''*'')) = lit ''cursor:metrics:v*''"
  "cursorCacheNamespace METRIC_LOG_CURSOR_FEATURE (Some (lit ''*'')) = lit ''cursor:metric-logs:v*''"
  "cursorCacheNamespace METRIC_SETTINGS_CURSOR_FEATURE (Some (lit ''*'')) = lit ''cursor:metric-settings:v*''"
  by (simp_all add: cursorCacheNamespace_def features lit_def js_trim_def js_space_def nonempty_def)

text \<open>A key with its identifiers, and the rest under the star.\<close>

lemma fills_entry:
  assumes "literal name" "plain_id a"
  shows "fills (name @ 58 # a @ lit '':*'') (name @ 58 # a @ 58 # z)"
    "plain_id b \<Longrightarrow> fills (name @ 58 # a @ 58 # b @ lit '':*'') (name @ 58 # a @ 58 # b @ 58 # z)"
    "plain_id b \<Longrightarrow> literal c \<Longrightarrow> fills (name @ 58 # a @ 58 # b @ 58 # c @ lit '':*'') (name @ 58 # a @ 58 # b @ 58 # c @ 58 # z)"
  using assms plain_id_literal by (simp_all add: fills_literal fills_end lit_def)

lemma fills_list:
  assumes "buildCursorCacheKey K feature (Some (lit ''4'')) u p segments = Some k" "segments \<noteq> []" "plain_id u" "plain_id p"
    "cursorCacheNamespace feature (Some (lit ''4'')) = name @ [52]" "cursorCacheNamespace feature (Some (lit ''*'')) = name @ [42]"
    "literal name"
  shows "fills (list_pattern feature u p) k"
proof -
  from assms(1,2,5) plain_id_encoded[OF assms(3)] plain_id_encoded[OF assms(4)] obtain z where
    k: "k = name @ 52 # 58 # u @ lit '':org:'' @ p @ 58 # z"
    by (cases segments) (auto simp: buildCursorCacheKey_def bind_eq_Some_conv lit_def)
  have "fills (58 # u @ lit '':org:'' @ p @ lit '':*'') (58 # u @ lit '':org:'' @ p @ 58 # z)"
    using assms(3,4) plain_id_literal by (simp add: fills_literal fills_end lit_def)
  from fills_star[OF this, of "[52]"] have "fills (42 # 58 # u @ lit '':org:'' @ p @ lit '':*'') (52 # 58 # u @ lit '':org:'' @ p @ 58 # z)" by simp
  then show ?thesis unfolding list_pattern_def assms(6) k by (simp add: fills_literal[OF assms(7)])
qed

lemma list_pages_fill:
  assumes "route_ok r" "route_key K r = Some k"
  shows "r = MetricList l f c \<Longrightarrow> fills (list_pattern METRIC_CURSOR_FEATURE (lr_userId l) (lr_organizationId l)) k"
    "r = LogList l m v \<Longrightarrow> fills (list_pattern METRIC_LOG_CURSOR_FEATURE (lr_userId l) (lr_organizationId l)) k"
    "r = SettingsList l m a \<Longrightarrow> fills (list_pattern METRIC_SETTINGS_CURSOR_FEATURE (lr_userId l) (lr_organizationId l)) k"
proof -
  have names: "literal (lit ''cursor:metrics:v'')" "literal (lit ''cursor:metric-logs:v'')" "literal (lit ''cursor:metric-settings:v'')"
    by (simp_all add: literal_def lit_def)
  show "r = MetricList l f c \<Longrightarrow> fills (list_pattern METRIC_CURSOR_FEATURE (lr_userId l) (lr_organizationId l)) k" using assms names(1)
    by (intro fills_list[where name = "lit ''cursor:metrics:v''"])
      (simp_all add: metricsCursorCacheKey_def request_ok_def namespaces pattern_namespaces, simp_all add: lit_def)
  show "r = LogList l m v \<Longrightarrow> fills (list_pattern METRIC_LOG_CURSOR_FEATURE (lr_userId l) (lr_organizationId l)) k" using assms names(2)
    by (intro fills_list[where name = "lit ''cursor:metric-logs:v''"])
      (simp_all add: metricLogsCursorCacheKey_def request_ok_def namespaces pattern_namespaces, simp_all add: lit_def)
  show "r = SettingsList l m a \<Longrightarrow> fills (list_pattern METRIC_SETTINGS_CURSOR_FEATURE (lr_userId l) (lr_organizationId l)) k" using assms names(3)
    by (intro fills_list[where name = "lit ''cursor:metric-settings:v''"])
      (simp_all add: metricSettingsCursorCacheKey_def request_ok_def namespaces pattern_namespaces, simp_all add: lit_def)
qed

text \<open>The category writes delete the pages of the user in every organization.\<close>

lemma category_pages_fill:
  assumes "request_ok r" "categoriesCursorCacheKey K r filterName = Some k"
  shows "fills (category_list_pattern (lr_userId r)) k"
proof -
  have u: "plain_id (lr_userId r)" using assms(1) by (simp add: request_ok_def)
  from assms(2)[unfolded categoriesCursorCacheKey_def buildCursorCacheKey_def namespaces] plain_id_encoded[OF u]
  obtain y where "k = lit ''cursor:metric-categories:v4'' @ 58 # lr_userId r @ lit '':org:'' @ y" by (auto simp: bind_eq_Some_conv)
  then obtain z where k: "k = lit ''cursor:metric-categories:v'' @ [52] @ 58 # lr_userId r @ 58 # z" by (auto simp: lit_def)
  have "fills (58 # lr_userId r @ lit '':*'') (58 # lr_userId r @ 58 # z)"
    using plain_id_literal[OF u] by (simp add: fills_literal fills_end lit_def)
  then have "fills (42 # 58 # lr_userId r @ lit '':*'') ([52] @ 58 # lr_userId r @ 58 # z)" by (rule fills_star)
  moreover have "category_list_pattern u = lit ''cursor:metric-categories:v'' @ 42 # 58 # u @ lit '':*''" for u
    by (simp add: category_list_pattern_def cursorCacheNamespace_def features lit_def js_trim_def js_space_def nonempty_def)
  moreover have "literal (lit ''cursor:metric-categories:v'')" by (simp add: literal_def lit_def)
  ultimately show ?thesis unfolding k by (simp add: fills_literal)
qed

lemma log_patterns_fill:
  assumes "shows_log u p metricId logId r" "route_tenant r = (u, p)" "route_ok r" "route_key K r = Some k" "plain_id metricId"
  shows "\<exists>pattern \<in> set (invalidateLogs_patterns u p metricId logId). fills pattern k"
proof (cases r)
  case (MetricList l f c)
  then show ?thesis using list_pages_fill(1)[OF assms(3,4) MetricList] assms(2)
    by (simp add: invalidateLogs_patterns_def invalidateMetrics_patterns_def)
next
  case (LogList l m v)
  then show ?thesis using list_pages_fill(2)[OF assms(3,4) LogList] assms(2) by (simp add: invalidateLogs_patterns_def)
next
  case (MetricDetail p' u' m i n)
  with assms have ids: "plain_id p" "plain_id u" "p' = p" "u' = u" "m = metricId" by auto
  from MetricDetail assms(4) obtain z where "k = lit ''metric'' @ 58 # p @ 58 # u @ 58 # metricId @ 58 # z"
    by (auto simp: ids metricDetailCacheKey_def metricEntryKey_def Let_def lit_def)
  then have "fills (metricEntryPattern p u metricId) k"
    using fills_entry(3)[of "lit ''metric''" p u metricId z] ids assms(5) plain_id_literal
    by (simp add: metricEntryPattern_def literal_def lit_def)
  then show ?thesis using plain_id_text[OF assms(5)] by (auto simp: invalidateLogs_patterns_def invalidateMetrics_patterns_def nonempty_def)
next
  case (LogEntry p' u' l m)
  with assms have ids: "plain_id p" "plain_id u" "plain_id l" "p' = p" "u' = u" "logId = Some l" by auto
  from LogEntry assms(4) obtain z where "k = lit ''log'' @ 58 # p @ 58 # u @ 58 # l @ 58 # z"
    by (auto simp: ids metricLogCacheKey_def lit_def)
  then have "fills (lit ''log:'' @ p @ 58 # u @ 58 # l @ lit '':*'') k"
    using fills_entry(3)[of "lit ''log''" p u l z] ids plain_id_literal by (simp add: literal_def lit_def)
  then show ?thesis using ids plain_id_text[of l] by (auto simp: invalidateLogs_patterns_def nonempty_def)
next
  case (LogStats p' u' m s e)
  define t where "t = (case m of Some m \<Rightarrow> m | None \<Rightarrow> lit ''all'')"
  from LogStats assms have ids: "plain_id p" "plain_id u" "p' = p" "u' = u" "t = metricId \<or> t = lit ''all''" by (auto simp: t_def)
  have "plain_id (lit ''all'')" by (simp add: plain_id_def lit_def is_digit_def)
  with ids(5) assms(5) have t: "literal (lit ''m:'' @ t)" using plain_id_literal by (auto simp: literal_def lit_def)
  from LogStats assms(4) obtain z where "k = lit ''logStats'' @ 58 # p @ 58 # u @ 58 # (lit ''m:'' @ t) @ 58 # z"
    by (auto simp: ids t_def metricLogStatsCacheKey_def lit_def)
  then have "fills (lit ''logStats:'' @ p @ 58 # u @ lit '':m:'' @ t @ lit '':*'') k"
    using fills_entry(3)[of "lit ''logStats''" p u "lit ''m:'' @ t" z] ids t by (simp add: literal_def lit_def)
  then show ?thesis using ids(5) by (elim disjE) (simp_all add: invalidateLogs_patterns_def lit_def)
qed (use assms(1) in simp_all)

lemma viz_patterns_fill:
  "plain_id (vk_organizationId v) \<Longrightarrow> plain_id (vk_userId v) \<Longrightarrow> plain_id (vk_metricId v) \<Longrightarrow>
   \<exists>pattern \<in> set (invalidateLogs_patterns (vk_userId v) (vk_organizationId v) (vk_metricId v) logId). fills pattern (vizKey K v)"
  "plain_id (dk_organizationId d) \<Longrightarrow> plain_id (dk_userId d) \<Longrightarrow>
   \<exists>pattern \<in> set (invalidateLogs_patterns (dk_userId d) (dk_organizationId d) metricId logId). fills pattern (vizDashKey K d)"
proof -
  assume "plain_id (vk_organizationId v)" "plain_id (vk_userId v)" "plain_id (vk_metricId v)"
  then have "fills (lit ''viz:'' @ vk_organizationId v @ 58 # vk_userId v @ 58 # vk_metricId v @ lit '':*'') (vizKey K v)"
    using plain_id_literal by (simp add: vizKey_def fills_literal fills_end lit_def)
  then show "\<exists>pattern \<in> set (invalidateLogs_patterns (vk_userId v) (vk_organizationId v) (vk_metricId v) logId). fills pattern (vizKey K v)"
    by (simp add: invalidateLogs_patterns_def invalidateByMetric_patterns_def)
next
  assume "plain_id (dk_organizationId d)" "plain_id (dk_userId d)"
  then have "fills (lit ''vizdash:'' @ dk_organizationId d @ 58 # dk_userId d @ lit '':*'') (vizDashKey K d)"
    using plain_id_literal by (simp add: vizDashKey_def fills_literal fills_end lit_def)
  then show "\<exists>pattern \<in> set (invalidateLogs_patterns (dk_userId d) (dk_organizationId d) metricId logId). fills pattern (vizDashKey K d)"
    by (simp add: invalidateLogs_patterns_def invalidateByMetric_patterns_def)
qed

text \<open>
  C16. A write of a log clears what shows it. With a Redis that is open, whose scans end and answer every key that
  matches, the invalidation comes to its end, adds no entry, and leaves no list of the tenant's logs or metrics, no
  statistics of the metric or of all of them, no detail of the metric, no entry of the log, and no visualization of
  the metric or dashboard of the tenant, whatever question they were cached for.
\<close>

theorem log_write_clears_cache:
  assumes "glob_ok glob" "scan_complete glob scan entries" "plain_id u" "plain_id p" "plain_id metricId"
  shows "\<exists>left. MetricLogCacheRedis_invalidate True scan u p metricId logId entries = Some left \<and> left \<subseteq>\<^sub>m entries \<and>
    (\<forall>r k. shows_log u p metricId logId r \<and> route_tenant r = (u, p) \<and> route_ok r \<and> route_key K r = Some k \<longrightarrow> left k = None) \<and>
    (\<forall>v. vk_userId v = u \<and> vk_organizationId v = p \<and> vk_metricId v = metricId \<longrightarrow> left (vizKey K v) = None) \<and>
    (\<forall>d. dk_userId d = u \<and> dk_organizationId d = p \<longrightarrow> left (vizDashKey K d) = None)"
proof -
  let ?patterns = "invalidateLogs_patterns u p metricId logId"
  from invalidate_all_run[OF assms(2)] obtain gone where
    run: "\<And>e. invalidate_all scan ?patterns e = Some (e |` (- gone))" and
    gone: "\<forall>q \<in> set ?patterns. \<forall>k \<in> dom entries. glob q k \<longrightarrow> k \<in> gone" by blast
  have cleared: "(entries |` (- gone)) k = None" if "\<exists>q \<in> set ?patterns. fills q k" for k
    using that gone assms(1) by (cases "entries k") (auto simp: glob_ok_def restrict_map_def)
  have "entries |` (- gone) \<subseteq>\<^sub>m entries" by (simp add: map_le_def)
  moreover have "MetricLogCacheRedis_invalidate True scan u p metricId logId entries = Some (entries |` (- gone))"
    by (simp add: MetricLogCacheRedis_invalidate_def run)
  moreover have "(entries |` (- gone)) k = None" if "shows_log u p metricId logId r" "route_tenant r = (u, p)" "route_ok r"
      "route_key K r = Some k" for r k
    by (rule cleared[OF log_patterns_fill[OF that assms(5)]])
  moreover have "(entries |` (- gone)) (vizKey K v) = None" if "vk_userId v = u" "vk_organizationId v = p" "vk_metricId v = metricId" for v
    using cleared viz_patterns_fill(1)[of v logId K] assms(3-5) that by simp
  moreover have "(entries |` (- gone)) (vizDashKey K d) = None" if "dk_userId d = u" "dk_organizationId d = p" for d
    using cleared viz_patterns_fill(2)[of d metricId logId K] assms(3,4) that by simp
  ultimately show ?thesis by (intro exI[of _ "entries |` (- gone)"] conjI allI impI) blast+
qed

definition sample_entries :: "jstr \<rightharpoonup> jstr" where
  "sample_entries = [lit ''cursor:metrics:v4:u-1:org:o-1:l:20:s:-createdAt:q:a%3A%2A:fn:_:fc:_:after:_:it:0'' \<mapsto> lit ''page'']"

definition sample_scan :: "jstr \<Rightarrow> (nat \<times> jstr list) list" where
  "sample_scan pattern =
     [(7, []), (0, [lit ''cursor:metrics:v4:u-1:org:o-1:l:20:s:-createdAt:q:a%3A%2A:fn:_:fc:_:after:_:it:0''])]"

theorem log_write_clears_cache_witness:
  "\<exists>left. MetricLogCacheRedis_invalidate True sample_scan (lit ''u-1'') (lit ''o-1'') (lit ''m-1'') None sample_entries = Some left \<and>
     left (lit ''cursor:metrics:v4:u-1:org:o-1:l:20:s:-createdAt:q:a%3A%2A:fn:_:fc:_:after:_:it:0'') = None"
proof -
  have "scan_complete fills sample_scan sample_entries" unfolding scan_complete_def
  proof
    fix p
    show "\<exists>before keys after. sample_scan p = before @ (0, keys) # after \<and> (\<forall>(cursor, ks) \<in> set before. cursor \<noteq> 0) \<and>
        (\<forall>k \<in> dom sample_entries. fills p k \<longrightarrow> k \<in> set keys \<union> (\<Union>(cursor, ks) \<in> set before. set ks))"
      by (rule exI[of _ "[(7, [])]"]) (simp add: sample_scan_def sample_entries_def)
  qed
  moreover have "glob_ok fills" by (simp add: glob_ok_def)
  moreover have "plain_id (lit ''u-1'')" "plain_id (lit ''o-1'')" "plain_id (lit ''m-1'')"
    by (simp_all add: plain_id_def evaluate)
  ultimately obtain left where left: "MetricLogCacheRedis_invalidate True sample_scan (lit ''u-1'') (lit ''o-1'') (lit ''m-1'') None sample_entries = Some left"
    "\<forall>r k. shows_log (lit ''u-1'') (lit ''o-1'') (lit ''m-1'') None r \<and> route_tenant r = (lit ''u-1'', lit ''o-1'') \<and> route_ok r \<and>
       route_key sample_keys r = Some k \<longrightarrow> left k = None"
    using log_write_clears_cache[of fills sample_scan sample_entries "lit ''u-1''" "lit ''o-1''" "lit ''m-1''" None sample_keys] by blast
  have "shows_log (lit ''u-1'') (lit ''o-1'') (lit ''m-1'') None (sample_list (Some (lit ''a:*'')))"
    "route_tenant (sample_list (Some (lit ''a:*''))) = (lit ''u-1'', lit ''o-1'')" by (simp_all add: sample_list_def)
  with left sample_key(1) sample_list_ok(1) show ?thesis by blast
qed

text \<open>A write of settings clears the lists of the tenant's settings and the entry of the settings.\<close>

lemma settings_write_clears_cache:
  assumes "glob_ok glob" "scan_complete glob scan entries" "route_tenant r = (u, p)" "route_ok r" "route_key K r = Some k"
    "(\<exists>l m a. r = SettingsList l m a) \<or> (\<exists>s. settingsId = Some s \<and> r = SettingsEntry p u s)"
  shows "\<exists>left. invalidateSettings True scan u p settingsId entries = Some left \<and> left \<subseteq>\<^sub>m entries \<and> left k = None"
proof -
  let ?pattern = "list_pattern METRIC_SETTINGS_CURSOR_FEATURE u p"
  from invalidate_all_run[OF assms(2), of "[?pattern]"] obtain gone where
    run: "\<And>e. invalidateCacheByPattern True scan ?pattern e = Some (e |` (- gone))" and
    gone: "\<forall>k \<in> dom entries. glob ?pattern k \<longrightarrow> k \<in> gone" by (auto split: bind_splits)
  from assms(6) show ?thesis
  proof
    assume "\<exists>l m a. r = SettingsList l m a"
    then obtain l m a where r: "r = SettingsList l m a" by blast
    have "fills ?pattern k" using list_pages_fill(3)[OF assms(4,5) r] r assms(3) by simp
    with gone assms(1) have "(entries |` (- gone)) k = None" by (cases "entries k") (auto simp: glob_ok_def restrict_map_def)
    then show ?thesis by (auto simp: invalidateSettings_def run map_le_def restrict_map_def split: option.splits if_splits)
  next
    assume "\<exists>s. settingsId = Some s \<and> r = SettingsEntry p u s"
    with assms(4,5) show ?thesis
      by (auto simp: invalidateSettings_def run nonempty_def plain_id_def map_le_def restrict_map_def split: if_splits)
  qed
qed

end
