(* ===== verification/SessionMachine.thy ===== *)
theory SessionMachine imports SessionHistory begin

text \<open>
  What the refresh-token table promises, without the table: a machine of sessions, each with one user
  and at most one current token, that opens a session, renews its token and closes it; and how the
  table is seen as such a machine. \<open>SessionRefinement\<close> shows that every request and job is a run of it,
  so what the machine never does (hand a session to another user, take a token it has seen, reopen a
  session) the feature never does.
\<close>

section \<open>The machine\<close>

record sessions_state =
  current :: "jstr \<Rightarrow> (jstr \<times> jstr) option"
  opened :: "jstr set"
  seen :: "jstr set"

inductive session_step :: "sessions_state \<Rightarrow> sessions_state \<Rightarrow> bool" where
  open_session: "f \<notin> opened s \<Longrightarrow> h \<notin> seen s \<Longrightarrow>
     session_step s \<lparr>current = (current s)(f \<mapsto> (h, u)), opened = insert f (opened s), seen = insert h (seen s)\<rparr>"
| renew_session: "current s f = Some (h, u) \<Longrightarrow> h' \<notin> seen s \<Longrightarrow>
     session_step s (s\<lparr>current := (current s)(f \<mapsto> (h', u)), seen := insert h' (seen s)\<rparr>)"
| close_session: "session_step s (s\<lparr>current := (current s)(f := None)\<rparr>)"

inductive_cases session_stepE: "session_step s t"

text \<open>The machine keeps to known sessions and tokens, and a session keeps its user or is closed for good.\<close>

definition sessions_known :: "sessions_state \<Rightarrow> bool" where
  "sessions_known s \<longleftrightarrow> (\<forall>f h u. current s f = Some (h, u) \<longrightarrow> f \<in> opened s \<and> h \<in> seen s)"

definition sessions_le :: "sessions_state \<Rightarrow> sessions_state \<Rightarrow> bool" where
  "sessions_le s t \<longleftrightarrow> opened s \<subseteq> opened t \<and> seen s \<subseteq> seen t \<and>
     (\<forall>f h u. f \<in> opened s \<longrightarrow> current t f = Some (h, u) \<longrightarrow>
        (\<exists>h'. current s f = Some (h', u) \<and> (h = h' \<or> h \<notin> seen s)))"

lemma sessions_le_trans:
  assumes "sessions_le s t" "sessions_le t u"
  shows "sessions_le s u"
  unfolding sessions_le_def
proof (intro conjI allI impI)
  show "opened s \<subseteq> opened u" "seen s \<subseteq> seen u" using assms by (auto simp: sessions_le_def)
  fix f h v assume f: "f \<in> opened s" and "current u f = Some (h, v)"
  then obtain h1 where h1: "current t f = Some (h1, v)" "h = h1 \<or> h \<notin> seen t"
    using assms by (force simp: sessions_le_def)
  with f obtain h2 where "current s f = Some (h2, v)" "h1 = h2 \<or> h1 \<notin> seen s"
    using assms(1) by (force simp: sessions_le_def)
  with h1(2) show "\<exists>h'. current s f = Some (h', v) \<and> (h = h' \<or> h \<notin> seen s)"
    using assms(1) by (auto simp: sessions_le_def)
qed

lemma session_step_known: "sessions_known s \<Longrightarrow> session_step s t \<Longrightarrow> sessions_known t"
  by (erule session_stepE) (auto simp: sessions_known_def split: if_splits)

lemma session_step_le: "session_step s t \<Longrightarrow> sessions_le s t"
  by (erule session_stepE) (auto simp: sessions_le_def split: if_splits)

interpretation session_machine: monotone_system session_step sessions_known sessions_le
proof unfold_locales
  show "sessions_le s s" for s by (auto simp: sessions_le_def)
qed (use session_step_known sessions_le_trans session_step_le in blast)+

section \<open>The abstraction\<close>

definition current_session :: "refresh_token list \<Rightarrow> jstr \<Rightarrow> (jstr \<times> jstr) option" where
  "current_session rows f = map_option (\<lambda>t. (rt_tokenHash t, rt_userId t))
     (List.find (\<lambda>t. live t \<and> rt_familyId t = f) rows)"

definition sessions_of_rows :: "refresh_token list \<Rightarrow> sessions_state" where
  "sessions_of_rows rows = \<lparr>current = current_session rows, opened = rt_familyId ` set rows,
     seen = rt_tokenHash ` set rows\<rparr>"

definition sessions_of :: "world \<Rightarrow> sessions_state" where
  "sessions_of w = sessions_of_rows (refresh_tokens (db w))"

lemma current_session_Nil [simp]: "current_session [] f = None"
  by (simp add: current_session_def)

lemma current_session_Cons [simp]:
  "current_session (t # rows) f =
     (if live t \<and> rt_familyId t = f then Some (rt_tokenHash t, rt_userId t) else current_session rows f)"
  by (simp add: current_session_def)

lemma current_session_append:
  "current_session (rows @ rows') f =
     (case current_session rows f of None \<Rightarrow> current_session rows' f | Some x \<Rightarrow> Some x)"
  by (induction rows) auto

lemma current_session_None:
  "(\<And>t. t \<in> set rows \<Longrightarrow> live t \<Longrightarrow> rt_familyId t \<noteq> f) \<Longrightarrow> current_session rows f = None"
  by (induction rows) auto

lemma not_live_revoked [simp]: "\<not> live (t\<lparr>rt_revokedAt := Some n\<rparr>)"
  by (simp add: live_def)

lemma current_session_revoke:
  "current_session (revoke_family_rows f n rows) = (current_session rows)(f := None)"
proof
  fix g show "current_session (revoke_family_rows f n rows) g = ((current_session rows)(f := None)) g"
    unfolding revoke_family_rows_def by (induction rows) (auto simp: live_def)
qed

lemma current_session_row:
  "session_rows used rows \<Longrightarrow> e \<in> set rows \<Longrightarrow> live e \<Longrightarrow>
   current_session rows (rt_familyId e) = Some (rt_tokenHash e, rt_userId e)"
  by (induction rows) (auto simp: session_rows_def)

lemma current_session_spend:
  assumes "session_rows used rows" "e \<in> set rows" "live e"
  shows "current_session (update_where (\<lambda>t. rt_id t = rt_id e) (\<lambda>_. spent n i e) rows) =
     (current_session rows)(rt_familyId e := None)"
proof
  fix g
  have "t = e" if "t \<in> set rows" "rt_id t = rt_id e" for t
    using assms(1,2) that by (auto simp: session_rows_def dest: unique_key_eq)
  moreover have "t = e" if "t \<in> set rows" "live t" "rt_familyId t = rt_familyId e" for t
    using assms that by (auto simp: session_rows_def)
  ultimately show "current_session (update_where (\<lambda>t. rt_id t = rt_id e) (\<lambda>_. spent n i e) rows) g =
     ((current_session rows)(rt_familyId e := None)) g"
    by (induction rows) auto
qed

text \<open>The three writes of the session operations are steps of the machine.\<close>

lemma append_opens:
  assumes "live t" "rt_familyId t \<notin> rt_familyId ` set rows" "rt_tokenHash t \<notin> rt_tokenHash ` set rows"
  shows "session_step (sessions_of_rows rows) (sessions_of_rows (rows @ [t]))"
proof -
  have "current_session rows (rt_familyId t) = None" using assms(2) by (intro current_session_None) (metis imageI)
  then have "current_session (rows @ [t]) = (current_session rows)(rt_familyId t \<mapsto> (rt_tokenHash t, rt_userId t))"
    using assms(1) by (auto simp: current_session_append fun_eq_iff split: option.splits)
  then show ?thesis
    using open_session[of "rt_familyId t" "sessions_of_rows rows" "rt_tokenHash t" "rt_userId t"] assms(2,3)
    by (simp add: sessions_of_rows_def)
qed

lemma revoke_closes: "session_step (sessions_of_rows rows) (sessions_of_rows (revoke_family_rows f n rows))"
proof -
  have "rt_familyId ` set (revoke_family_rows f n rows) = rt_familyId ` set rows"
    "rt_tokenHash ` set (revoke_family_rows f n rows) = rt_tokenHash ` set rows"
    unfolding revoke_family_rows_def set_update_where image_image by (auto intro!: image_cong)
  then show ?thesis
    using close_session[of "sessions_of_rows rows" f] by (simp add: sessions_of_rows_def current_session_revoke)
qed

lemma rotated_renews:
  assumes "session_rows used rows" "old \<in> set rows" "live old"
    and "\<forall>r \<in> set rows. rt_tokenHash r \<noteq> sha256_hex P (random_base64url P 64 (t + 1))"
  shows "session_step (sessions_of_rows rows) (sessions_of_rows (rotated_rows P t old v a i rows))"
proof -
  define new where "new = issued_token P (t + 1) (rt_userId old) (Some (rt_familyId old)) (Some v) a i"
  define rows' where "rows' = update_where (\<lambda>r. rt_id r = rt_id old) (\<lambda>_. spent (clock P t) (rt_id new) old) rows"
  have new: "live new" "rt_familyId new = rt_familyId old" "rt_userId new = rt_userId old"
    "rt_tokenHash new = sha256_hex P (random_base64url P 64 (t + 1))"
    by (simp_all add: new_def issued_token_def live_def)
  have same: "t = old" if "t \<in> set rows" "rt_id t = rt_id old" for t
    using assms(1,2) that by (auto simp: session_rows_def dest: unique_key_eq)
  have cur: "current_session rows' = (current_session rows)(rt_familyId old := None)"
    unfolding rows'_def by (rule current_session_spend[OF assms(1-3)])
  then have "current_session (rows' @ [new]) = (current_session rows)(rt_familyId old \<mapsto> (rt_tokenHash new, rt_userId old))"
    using new by (auto simp: current_session_append fun_eq_iff split: option.splits)
  moreover have "rt_familyId ` set rows' = rt_familyId ` set rows" "rt_tokenHash ` set rows' = rt_tokenHash ` set rows"
    unfolding rows'_def set_update_where image_image using same by (intro image_cong; metis spent_fields(2,3))+
  moreover have "rt_familyId old \<in> rt_familyId ` set rows" using assms(2) by simp
  ultimately have "sessions_of_rows (rows' @ [new]) = (sessions_of_rows rows)\<lparr>
      current := (current (sessions_of_rows rows))(rt_familyId old \<mapsto> (rt_tokenHash new, rt_userId old)),
      seen := insert (rt_tokenHash new) (seen (sessions_of_rows rows))\<rparr>"
    using new(2) by (simp add: sessions_of_rows_def insert_absorb)
  moreover have "rotated_rows P t old v a i rows = rows' @ [new]"
    by (simp add: rotated_rows_def rows'_def new_def Let_def)
  moreover have "current (sessions_of_rows rows) (rt_familyId old) = Some (rt_tokenHash old, rt_userId old)"
    using current_session_row[OF assms(1-3)] by (simp add: sessions_of_rows_def)
  moreover have "rt_tokenHash new \<notin> seen (sessions_of_rows rows)"
    using assms(4) new(4) by (auto simp: sessions_of_rows_def)
  ultimately show ?thesis using renew_session by metis
qed

end
