(* ===== verification/SessionRefinement.thy ===== *)
theory SessionRefinement imports AuthSystem AuthHttpProperties SessionMachine begin

text \<open>
  The auth feature runs the session machine: what every use case does to the refresh-token table is a
  run of \<open>session_step\<close> on the sessions it holds. With it, what a session keeps for its whole life, and
  when the next rotation of a live session succeeds.
\<close>

section \<open>The contract of a refinement\<close>

text \<open>
  A concrete system runs an abstract one when each of its steps, from a state of its invariant, is a run
  of the abstract machine on the abstractions of its states.
\<close>

locale refinement = invariant_system step inv
  for step :: "'s \<Rightarrow> 's \<Rightarrow> bool" and inv :: "'s \<Rightarrow> bool" +
  fixes astep :: "'a \<Rightarrow> 'a \<Rightarrow> bool" and abstract :: "'s \<Rightarrow> 'a"
  assumes simulates: "inv s \<Longrightarrow> step s t \<Longrightarrow> reaches astep (abstract s) (abstract t)"
begin

lemma reaches_abstract: "reaches step s t \<Longrightarrow> inv s \<Longrightarrow> reaches astep (abstract s) (abstract t)"
proof (induction rule: reaches.induct)
  case (reaches_step s t u)
  then have "inv t" by (blast intro: reaches_inv)
  with reaches_step show ?case by (blast intro: reaches_trans simulates)
qed (rule reaches_refl)

end

section \<open>Use cases\<close>

definition runs_from :: "platform \<Rightarrow> sessions_state \<Rightarrow> world \<Rightarrow> bool" where
  "runs_from P s w \<longleftrightarrow> session_inv P w \<and> reaches session_step s (sessions_of w)"

lemma runs_from_frame:
  "runs_from P s w \<Longrightarrow> refresh_tokens (db w') = refresh_tokens (db w) \<Longrightarrow> tick w \<le> tick w' \<Longrightarrow> runs_from P s w'"
  unfolding runs_from_def sessions_of_def by (metis session_inv_frame)

lemma runs_from_ignores [simp]:
  "ignores_tick (runs_from P s)" "ignores_outbox (runs_from P s)" "ignores_jobs (runs_from P s)"
  "ignores_lockouts (runs_from P s)" "ignores_users (runs_from P s)"
  "ignores_organizations (runs_from P s)" "ignores_memberships (runs_from P s)"
  "ignores_organization_invites (runs_from P s)" "ignores_password_reset_tokens (runs_from P s)"
  "ignores_email_verification_tokens (runs_from P s)" "ignores_processed_messages (runs_from P s)"
  "survives_rollback (runs_from P s)"
  by (auto simp: ignores_defs survives_rollback_def intro: runs_from_frame)

lemma keeps_runs_from:
  assumes "keeps (session_inv P) m"
    and "\<And>w w' r. session_inv P w \<Longrightarrow> m w = (r, w') \<Longrightarrow>
       refresh_tokens (db w') = refresh_tokens (db w) \<or> session_step (sessions_of w) (sessions_of w')"
  shows "keeps (runs_from P s) m"
  unfolding keeps_def runs_from_def
proof (intro allI impI conjI)
  fix w assume w: "session_inv P w \<and> reaches session_step s (sessions_of w)"
  obtain r w' where run: "m w = (r, w')" by fastforce
  show "session_inv P (snd (m w))" using w keepsD[OF assms(1)] by blast
  from assms(2)[OF _ run] w show "reaches session_step s (sessions_of (snd (m w)))"
    by (auto simp: run sessions_of_def intro: reaches_step)
qed

named_theorems runs_rules

lemma keeps_runs_IssueRefreshToken [runs_rules]:
  assumes uuid: "inj (random_uuid P)"
  shows "keeps (runs_from P s) (IssueRefreshToken P u None v a i)"
proof (rule keeps_runs_from[OF keeps_session_IssueRefreshToken[OF uuid]])
  fix w w' r assume inv: "session_inv P w" and run: "IssueRefreshToken P u None v a i w = (r, w')"
  show "refresh_tokens (db w') = refresh_tokens (db w) \<or> session_step (sessions_of w) (sessions_of w')"
  proof (cases r)
    case (Inl e)
    with run show ?thesis by (auto dest: IssueRefreshToken_Inl)
  next
    case (Inr x)
    then obtain raw t where issue: "IssueRefreshToken P u None v a i w = (Inr (raw, t), w')" using run by (metis surj_pair)
    note new = IssueRefreshToken_Inr[OF issue inv uuid]
    have "rt_familyId t = random_uuid P (tick w + 3)" "live t" by (simp_all add: new(1) issued_token_def live_def)
    moreover have "random_uuid P (tick w + 3) \<notin> used_uuids P w" using uuid by (simp add: fresh_uuid)
    ultimately have "session_step (sessions_of_rows (refresh_tokens (db w))) (sessions_of_rows (refresh_tokens (db w) @ [t]))"
      using inv new(4) by (intro append_opens) (auto simp: session_inv_def session_rows_def)
    then show ?thesis by (simp add: sessions_of_def new(3))
  qed
qed

lemma keeps_runs_revokeFamily [runs_rules]: "keeps (runs_from P s) (RefreshToken_revokeFamily P f)"
  by (rule keeps_runs_from[OF keeps_session_revokeFamily]) (auto simp: sessions_of_def revoke_closes)

lemma keeps_runs_RotateRefreshToken [runs_rules]:
  assumes uuid: "inj (random_uuid P)"
  shows "keeps (runs_from P s) (RotateRefreshToken P raw a i)"
proof (rule keeps_runs_from[OF keeps_session_RotateRefreshToken[OF uuid]])
  fix w w' r assume inv: "session_inv P w" and run: "RotateRefreshToken P raw a i w = (r, w')"
  show "refresh_tokens (db w') = refresh_tokens (db w) \<or> session_step (sessions_of w) (sessions_of w')"
  proof (cases r)
    case (Inl e)
    from RotateRefreshToken_Inl(2)[OF run[unfolded Inl]] show ?thesis by (auto simp: sessions_of_def revoke_closes)
  next
    case (Inr x)
    obtain acc raw' where x: "x = (acc, raw')" by fastforce
    from run[unfolded Inr x] inv uuid show ?thesis
    proof (rule RotateRefreshToken_Inr)
      fix old u v
      assume find: "List.find (\<lambda>t. rt_tokenHash t = sha256_hex P raw) (refresh_tokens (db w)) = Some old"
        and rest: "live old" "raw' = random_base64url P 64 (tick w + 2)"
        "w' = w\<lparr>tick := tick w + 6, db := (db w)\<lparr>refresh_tokens :=
            rotated_rows P (Suc (tick w)) old v a i (refresh_tokens (db w))\<rparr>\<rparr>"
        "\<forall>r \<in> set (refresh_tokens (db w)). rt_tokenHash r \<noteq> sha256_hex P raw'"
      have "old \<in> set (refresh_tokens (db w))" using find by (auto dest: find_SomeD)
      with rest inv show ?thesis
        by (auto simp: sessions_of_def session_inv_def intro!: rotated_renews)
    qed
  qed
qed

lemma keeps_runs_RevokeRefreshTokenFamily [runs_rules]: "keeps (runs_from P s) (RevokeRefreshTokenFamily P raw)"
  unfolding RevokeRefreshTokenFamily_def by (intro runs_rules keeps_rules)

lemma keeps_runs_SwitchOrganization [runs_rules]:
  "inj (random_uuid P) \<Longrightarrow> keeps (runs_from P s) (SwitchOrganization P u v a i)"
  unfolding SwitchOrganization_def by (intro runs_rules keeps_rules runs_from_ignores)

lemma keeps_runs_LoginUser [runs_rules]:
  "inj (random_uuid P) \<Longrightarrow> keeps (runs_from P s) (LoginUser P e p a i)"
  unfolding LoginUser_def by (intro runs_rules keeps_rules runs_from_ignores)

lemma keeps_runs_RegisterUser [runs_rules]:
  "inj (random_uuid P) \<Longrightarrow> keeps (runs_from P s) (RegisterUser P input)"
  unfolding RegisterUser_def register_rows_def
  by (intro runs_rules keeps_rules runs_from_ignores ticks_growI tick_bound_ignores)

interpretation sessions_run: kept_by_use_cases P "\<lambda>w. inj (random_uuid P) \<and> runs_from P s w" for P s
  by unfold_locales
    (intro keeps_when ignores_tick_when runs_rules keeps_rules runs_from_ignores | assumption)+

interpretation session_refinement: refinement "auth_step P env" "auth_inv P" session_step sessions_of for P env
proof unfold_locales
  fix w w' assume w: "auth_inv P w" and step: "auth_step P env w w'"
  then have "inj (random_uuid P) \<and> runs_from P (sessions_of w) w"
    by (simp add: auth_inv_def runs_from_def reaches_refl)
  from sessions_run.step_kept[OF this step] show "reaches session_step (sessions_of w) (sessions_of w')"
    by (simp add: runs_from_def)
qed

section \<open>Properties\<close>

lemma sessions_of_known: "session_inv P w \<Longrightarrow> sessions_known (sessions_of w)"
  by (auto simp: sessions_known_def sessions_of_def sessions_of_rows_def current_session_def dest!: find_SomeD)

text \<open>
  C17. The feature refines the session machine: whatever it serves is a run of it on the sessions in the
  table. So for its whole life a session belongs to one user and its token only changes to one never
  seen before; once it has no token it never has one again.
\<close>

theorem sessions_refine_machine:
  assumes "auth_inv P w" "reaches (auth_step P env) w w'"
  shows "reaches session_step (sessions_of w) (sessions_of w') \<and>
     (\<forall>t \<in> set (refresh_tokens (db w)). \<forall>t' \<in> set (refresh_tokens (db w')).
        rt_familyId t = rt_familyId t' \<longrightarrow> rt_revokedAt t' = None \<longrightarrow>
        (\<exists>s \<in> set (refresh_tokens (db w)). rt_familyId s = rt_familyId t \<and> rt_revokedAt s = None \<and>
           rt_userId s = rt_userId t' \<and>
           (rt_tokenHash t' = rt_tokenHash s \<or> (\<forall>r \<in> set (refresh_tokens (db w)). rt_tokenHash r \<noteq> rt_tokenHash t'))))"
proof (intro conjI ballI impI)
  show run: "reaches session_step (sessions_of w) (sessions_of w')"
    by (rule session_refinement.reaches_abstract[OF assms(2,1)])
  have inv: "session_inv P w" using assms(1) by (simp add: auth_inv_def)
  then have le: "sessions_le (sessions_of w) (sessions_of w')"
    using session_machine.reaches_le[OF run] sessions_of_known by blast
  have inv': "session_inv P w'" using auth_system.reaches_inv[OF assms(2,1)] by (simp add: auth_inv_def)
  fix t t' assume t: "t \<in> set (refresh_tokens (db w))" "t' \<in> set (refresh_tokens (db w'))"
    "rt_familyId t = rt_familyId t'" "rt_revokedAt t' = None"
  then have "current (sessions_of w') (rt_familyId t) = Some (rt_tokenHash t', rt_userId t')"
    using current_session_row[of "used_uuids P w'" "refresh_tokens (db w')" t'] inv'
    by (simp add: session_inv_def sessions_of_def sessions_of_rows_def live_def)
  moreover have "rt_familyId t \<in> opened (sessions_of w)" using t(1) by (simp add: sessions_of_def sessions_of_rows_def)
  ultimately obtain h where h: "current (sessions_of w) (rt_familyId t) = Some (h, rt_userId t')"
    "rt_tokenHash t' = h \<or> rt_tokenHash t' \<notin> seen (sessions_of w)"
    using le unfolding sessions_le_def by blast
  from h(1) obtain s where "s \<in> set (refresh_tokens (db w))" "live s" "rt_familyId s = rt_familyId t"
    "h = rt_tokenHash s" "rt_userId s = rt_userId t'"
    by (auto simp: sessions_of_def sessions_of_rows_def current_session_def dest!: find_SomeD)
  moreover have "\<forall>r \<in> set (refresh_tokens (db w)). rt_tokenHash r \<noteq> rt_tokenHash t'"
    if "rt_tokenHash t' \<notin> seen (sessions_of w)"
    using that by (auto simp: sessions_of_def sessions_of_rows_def image_iff)
  ultimately show "\<exists>s \<in> set (refresh_tokens (db w)). rt_familyId s = rt_familyId t \<and> rt_revokedAt s = None \<and>
      rt_userId s = rt_userId t' \<and>
      (rt_tokenHash t' = rt_tokenHash s \<or> (\<forall>r \<in> set (refresh_tokens (db w)). rt_tokenHash r \<noteq> rt_tokenHash t'))"
    using h(2) by (metis live_def)
qed

theorem sessions_refine_machine_witness:
  "reaches session_step (sessions_of sample_system_world) (sessions_of (snd (createAuthRouter sample_platform Production
     (PostRefresh sample_request) sample_system_world)))"
proof -
  let ?w = "snd (createAuthRouter sample_platform Production (PostRefresh sample_request) sample_system_world)"
  have "auth_step sample_platform Production sample_system_world ?w" by (rule auth_request)
  then have "reaches (auth_step sample_platform Production) sample_system_world ?w"
    by (rule reaches_step[OF reaches_refl])
  from sessions_refine_machine[OF sample_auth_inv this] show ?thesis by blast
qed

section \<open>A live session goes on\<close>

lemma refresh_tokens_check_same:
  assumes "session_rows used rows" "t \<in> set rows" "rt_tokenHash n \<noteq> rt_tokenHash t"
    and "fits 64 (rt_tokenHash t)" "fits_opt 512 (rt_userAgent t)" "fits_opt 45 (rt_ip t)"
  shows "refresh_tokens_check (spent k i t) (rows @ [n]) = None"
proof -
  have "r = t" if "r \<in> set rows" "rt_tokenHash r = rt_tokenHash t" for r
    using assms(1,2) that by (auto simp: session_rows_def dest: unique_key_eq)
  moreover have "rt_userAgent (spent k i t) = rt_userAgent t" "rt_ip (spent k i t) = rt_ip t"
    by (simp_all add: spent_def)
  ultimately show ?thesis using assms(3-6) by (auto simp: refresh_tokens_check_def)
qed

lemma rotate_issue_runs:
  assumes "session_inv P w" "inj (random_uuid P)" "old \<in> set (refresh_tokens (db w))" "live old"
    and "fits 64 (rt_tokenHash old)" "fits_opt 512 (rt_userAgent old)" "fits_opt 45 (rt_ip old)"
    and "\<forall>r \<in> set (refresh_tokens (db w)). rt_tokenHash r \<noteq> sha256_hex P (random_base64url P 64 (tick w + 1))"
    and "fits 64 (sha256_hex P (random_base64url P 64 (tick w + 1)))" "fits_opt 45 i"
  shows "isl (fst (rotate_issue P old u v a i w)) \<longleftrightarrow> \<not> fits_opt 512 a"
proof -
  let ?w = "w\<lparr>tick := Suc (tick w)\<rparr>"
  let ?new = "issued_token P (tick w + 1) (rt_userId old) (Some (rt_familyId old)) (Some v) a i"
  have new: "rt_tokenHash ?new = sha256_hex P (random_base64url P 64 (tick w + 1))"
    "rt_userAgent ?new = a" "rt_ip ?new = i" by (simp_all add: issued_token_def)
  have check: "refresh_tokens_check ?new (refresh_tokens (db w)) =
     (if fits_opt 512 a then None else Some (DatabaseError ''refresh_tokens.user_agent''))"
    using assms(8-10) new by (auto simp: refresh_tokens_check_def)
  have inv: "session_inv P ?w" using assms(1) by (auto intro: session_inv_frame)
  have issue: "IssueRefreshToken P (rt_userId old) (Some (rt_familyId old)) (Some v) a i ?w =
      (Inr (random_base64url P 64 (tick w + 1), ?new), ?w\<lparr>tick := tick w + 4,
         db := (db w)\<lparr>refresh_tokens := refresh_tokens (db w) @ [?new]\<rparr>\<rparr>)" if "fits_opt 512 a"
    using check that issued_token_fresh[OF inv assms(2)]
    by (simp add: run_IssueRefreshToken Let_def issue_ticks_def upsert_new)
  have rep: "rt_replacedById old = None" using assms(1,3,4) by (simp add: session_inv_def session_rows_def)
  have save: "refresh_tokens_check (spent (clock P (tick w)) (rt_id ?new) old) (refresh_tokens (db w) @ [?new]) = None"
    using assms new by (intro refresh_tokens_check_same) (auto simp: session_inv_def)
  show ?thesis
  proof (cases "fits_opt 512 a")
    case True
    with issue rep save show ?thesis
      by (simp add: rotate_issue_def Let_def liftEither_def RefreshToken_replaceWith_def RefreshToken_markRevoked_def
          run_bind run_andThen RefreshToken_save_def checked_def TokenProvider_sign_def spent_def)
  next
    case False
    then show ?thesis using check
      by (simp add: rotate_issue_def run_bind run_IssueRefreshToken Let_def)
  qed
qed

text \<open>
  C18. What it takes to refresh a live session. The token shown is the current, unexpired one of its family; its user
  is not deleted; the organization on it is one she is still an active member of; the columns of its row, the caller's
  address and the new hash fit their widths, and the new hash is not in the table yet. Then the rotation succeeds
  exactly when the \<open>User-Agent\<close> header fits its column (512 characters): the caller gets the next token of the same
  session, good for the whole lifetime of a token. With a longer header it fails and nothing is written.
\<close>

theorem live_session_refreshes:
  assumes "session_inv P w" "inj (random_uuid P)" "t \<in> set (refresh_tokens (db w))"
    and "rt_tokenHash t = sha256_hex P raw" "rt_revokedAt t = None" "clock P (tick w) < rt_expiresAt t"
    and "u \<in> set (users (db w))" "user_id u = rt_userId t" "user_deletedAt u = None"
    and "rt_organizationId t = Some v" "v \<noteq> []" "m \<in> set (memberships (db w))" "active_in (rt_userId t) v m"
    and "fits 64 (rt_tokenHash t)" "fits_opt 512 (rt_userAgent t)" "fits_opt 45 (rt_ip t)"
    and "\<forall>r \<in> set (refresh_tokens (db w)). rt_tokenHash r \<noteq> sha256_hex P (random_base64url P 64 (tick w + 2))"
    and "fits 64 (sha256_hex P (random_base64url P 64 (tick w + 2)))" "fits_opt 45 i"
  shows "if fits_opt 512 a
     then \<exists>acc raw' w' n. RotateRefreshToken P raw a i w = (Inr (acc, raw'), w') \<and>
       n \<in> set (refresh_tokens (db w')) \<and> rt_tokenHash n = sha256_hex P raw' \<and> rt_revokedAt n = None \<and>
       rt_familyId n = rt_familyId t \<and> rt_expiresAt n = rt_issuedAt n + refresh_ttl_days P * 24 * 60 * 60 * 1000
     else \<exists>e w'. RotateRefreshToken P raw a i w = (Inl e, w') \<and> db w' = db w"
proof -
  let ?w = "w\<lparr>tick := Suc (tick w)\<rparr>"
  have find: "List.find (\<lambda>r. rt_tokenHash r = sha256_hex P raw) (refresh_tokens (db w)) = Some t"
    by (rule find_hash_unique[OF assms(1,3,4)])
  obtain u' where u': "List.find (\<lambda>u. user_id u = rt_userId t \<and> live_user u) (users (db w)) = Some u'"
    using find_exists[of u "users (db w)" "\<lambda>u. user_id u = rt_userId t \<and> live_user u"] assms(7-9)
    by (auto simp: live_user_def)
  obtain m' where m': "List.find (active_in (rt_userId t) v) (memberships (db w)) = Some m'"
    using find_exists[of m "memberships (db w)" "active_in (rt_userId t) v"] assms(12,13) by auto
  have org: "rotate_organization t ?w = (Inr v, ?w)"
    using m' assms(10,11)
    by (auto simp: rotate_organization_def nonempty_def Membership_findByUserAndOrg_def Membership_isActive_def
        active_in_def dest: find_SomeD)
  have inv: "session_inv P ?w" using assms(1) by (auto intro: session_inv_frame)
  have issue: "isl (fst (rotate_issue P t u' v a i ?w)) \<longleftrightarrow> \<not> fits_opt 512 a"
    using rotate_issue_runs[OF inv assms(2), of t i u' v a] assms by (simp add: live_def)
  have tx: "rotate_transaction P (sha256_hex P raw) a i w = rotate_issue P t u' v a i ?w"
    using assms(5,6)
    by (simp add: rotate_transaction_def rotate_existing_def RefreshToken_findByTokenHash_def find User_findById_def u'
        RefreshToken_isRevoked_def RefreshToken_isExpired_def run_bind org)
  obtain out w1 where run: "rotate_issue P t u' v a i ?w = (out, w1)" by fastforce
  show ?thesis
  proof (cases out)
    case (Inl e)
    with issue run have "\<not> fits_opt 512 a" by simp
    moreover have "\<exists>w'. RotateRefreshToken P raw a i w = (Inl e, w') \<and> db w' = db w"
      using tx run Inl by (simp add: RotateRefreshToken_def runInTransaction_def run_bind)
    ultimately show ?thesis by auto
  next
    case (Inr o')
    with issue run have fits: "fits_opt 512 a" by simp
    obtain acc raw' where o': "o' = Rotated acc raw'"
      using rotate_issue_RevokeAndReject[of P t u' v a i ?w] run Inr by (cases o') auto
    have rotate: "RotateRefreshToken P raw a i w = (Inr (acc, raw'), w1)"
      using tx run Inr o' by (simp add: RotateRefreshToken_def runInTransaction_def run_bind)
    from rotate assms(1,2) have "\<exists>n. n \<in> set (refresh_tokens (db w1)) \<and>
        rt_tokenHash n = sha256_hex P raw' \<and> rt_revokedAt n = None \<and> rt_familyId n = rt_familyId t \<and>
        rt_expiresAt n = rt_issuedAt n + refresh_ttl_days P * 24 * 60 * 60 * 1000"
    proof (rule RotateRefreshToken_Inr)
      fix old u v'
      assume old: "List.find (\<lambda>t. rt_tokenHash t = sha256_hex P raw) (refresh_tokens (db w)) = Some old"
        and raw': "raw' = random_base64url P 64 (tick w + 2)"
        and w1: "w1 = w\<lparr>tick := tick w + 6, db := (db w)\<lparr>refresh_tokens :=
            rotated_rows P (Suc (tick w)) old v' a i (refresh_tokens (db w))\<rparr>\<rparr>"
      have "old = t" using old find by simp
      then show ?thesis unfolding w1 raw'
        by (intro exI[of _ "issued_token P (tick w + 2) (rt_userId t) (Some (rt_familyId t)) (Some v') a i"])
           (simp add: rotated_rows_def Let_def issued_token_def)
    qed
    with rotate fits show ?thesis by auto
  qed
qed

theorem live_session_refreshes_witness:
  "\<exists>acc raw' w' n. RotateRefreshToken sample_platform (lit ''t'') None None sample_world = (Inr (acc, raw'), w') \<and>
     n \<in> set (refresh_tokens (db w')) \<and> rt_tokenHash n = raw' \<and> rt_familyId n = [2]"
proof -
  have w: "refresh_tokens (db sample_world) = [sample_token]" "users (db sample_world) = [sample_user]"
    "memberships (db sample_world) = [sample_membership]" "tick sample_world = 10"
    by (simp_all add: sample_world_def)
  have t: "rt_tokenHash sample_token = lit ''t''" "rt_familyId sample_token = [2]" "rt_revokedAt sample_token = None"
    "rt_expiresAt sample_token = 1000" "rt_organizationId sample_token = Some (lit ''o'')" "rt_userId sample_token = lit ''u''"
    "rt_userAgent sample_token = None" "rt_ip sample_token = None"
    by (simp_all add: sample_token_def)
  have P: "sha256_hex sample_platform s = s" "random_base64url sample_platform n k = [65 + k]"
    "clock sample_platform k = int k" for s n k by (simp_all add: sample_platform_def)
  have u: "user_id sample_user = lit ''u''" "user_deletedAt sample_user = None" by (simp_all add: sample_user_def)
  have m: "active_in (lit ''u'') (lit ''o'') sample_membership" by (simp add: sample_membership_def active_in_def)
  have fits: "fits 64 (lit ''t'')" "fits 64 [77::nat]" "fits_opt n None" for n by (simp_all add: fits_def fits_opt_def lit_def)
  have lit: "lit ''o'' \<noteq> []" "lit ''t'' \<noteq> [77]" by (simp_all add: lit_def)
  note refresh = live_session_refreshes[OF sample_session_inv sample_uuid_inj, of sample_token "lit ''t''" sample_user "lit ''o''"
      sample_membership None None, unfolded w t P u if_P[OF fits(3)]]
  have "\<exists>acc raw' w' n. RotateRefreshToken sample_platform (lit ''t'') None None sample_world = (Inr (acc, raw'), w') \<and>
     n \<in> set (refresh_tokens (db w')) \<and> rt_tokenHash n = raw' \<and> rt_revokedAt n = None \<and> rt_familyId n = [2] \<and>
     rt_expiresAt n = rt_issuedAt n + refresh_ttl_days sample_platform * 24 * 60 * 60 * 1000"
    by (rule refresh) (use m fits lit in \<open>simp_all add: t\<close>)
  then show ?thesis by blast
qed

end
