(* ===== verification/Queue.thy ===== *)
theory Queue imports Messaging begin

text \<open>
  The worker's side of the job queue: the retry policy (\<open>retryPolicy.ts\<close>), the broker topology
  (\<open>topology.ts\<close>, \<open>job-routes.ts\<close>) and \<open>RabbitMQConsumer\<close>'s handling of one delivery, of
  \<open>src/shared/infrastructure/queue\<close>. Cancelling and draining are timers over the broker's client and
  are left out, as are the channel's setup and its logging.
\<close>

section \<open>Retry policy\<close>

definition RETRY_COUNT_HEADER :: jstr where "RETRY_COUNT_HEADER = lit ''x-retry-count''"

definition MAX_RETRY_DELAY_MS :: nat where "MAX_RETRY_DELAY_MS = 300000"

definition retryDelayMs :: "nat \<Rightarrow> nat \<Rightarrow> nat" where
  "retryDelayMs retryCount baseDelayMs = min (baseDelayMs * 2 ^ retryCount) MAX_RETRY_DELAY_MS"

text \<open>\<open>[...new Set(xs)]\<close>: each value once, where it first stands.\<close>

definition js_unique :: "'a list \<Rightarrow> 'a list" where
  "js_unique xs = rev (remdups (rev xs))"

definition retryDelaysMs :: "nat \<Rightarrow> nat \<Rightarrow> nat list" where
  "retryDelaysMs maxRetries baseDelayMs = js_unique (map (\<lambda>k. retryDelayMs k baseDelayMs) [0..<maxRetries])"

datatype failure_decision = Park string | Retry nat nat

text \<open>\<open>parseInt(s, 10)\<close>, exact; \<open>None\<close> is \<open>NaN\<close>.\<close>

definition parseInt10 :: "jstr \<Rightarrow> int option" where
  "parseInt10 s =
     (let t = dropWhile js_space s;
          (negative, u) = (case t of [] \<Rightarrow> (False, []) | c # cs \<Rightarrow>
             if c = 45 then (True, cs) else if c = 43 then (False, cs) else (False, c # cs));
          ds = takeWhile is_digit u in
      if ds = [] then None
      else Some (if negative then - int (digits_value 0 ds) else int (digits_value 0 ds)))"

text \<open>Headers are the texts their values print as; an absent one, \<open>null\<close> included, is not in the map.\<close>

type_synonym headers = "jstr \<rightharpoonup> jstr"

definition readRetryCount :: "headers \<Rightarrow> nat" where
  "readRetryCount headers =
     (case parseInt10 (case headers RETRY_COUNT_HEADER of None \<Rightarrow> lit ''0'' | Some s \<Rightarrow> s) of
        None \<Rightarrow> 0
      | Some n \<Rightarrow> if n < 0 then 0 else nat n)"

definition isTerminalMessageError :: "failure \<Rightarrow> bool" where
  "isTerminalMessageError e = (case e of TerminalMessageError _ \<Rightarrow> True | _ \<Rightarrow> False)"

definition decideOnFailure :: "failure \<Rightarrow> nat \<Rightarrow> nat \<Rightarrow> nat \<Rightarrow> failure_decision" where
  "decideOnFailure error retryCount maxRetries baseDelayMs =
     (if isTerminalMessageError error then Park ''terminal''
      else if retryCount \<ge> maxRetries then Park ''exhausted''
      else Retry (retryCount + 1) (retryDelayMs retryCount baseDelayMs))"

section \<open>Topology\<close>

text \<open>What the broker holds: durable queues with their arguments, exchanges, and bindings.\<close>

record declared_queue =
  q_name :: jstr
  q_ttl :: "nat option"
  q_deadExchange :: "jstr option"
  q_deadKey :: "jstr option"

record broker =
  exchanges :: "jstr list"
  queues :: "declared_queue list"
  bindings :: "(jstr \<times> jstr \<times> jstr) list"

definition empty_broker :: broker where
  "empty_broker = \<lparr>exchanges = [], queues = [], bindings = []\<rparr>"

text \<open>\<open>assertQueue\<close> creates a queue, or checks that the one of that name has the same arguments.\<close>

definition assertQueue :: "declared_queue \<Rightarrow> (broker, unit) io" where
  "assertQueue q = bind (gets queues) (\<lambda>qs.
     case List.find (\<lambda>r. q_name r = q_name q) qs of
       None \<Rightarrow> modify (\<lambda>b. b\<lparr>queues := queues b @ [q]\<rparr>)
     | Some r \<Rightarrow> if r = q then return () else throw (ServiceError ''PRECONDITION_FAILED''))"

definition assertExchange :: "jstr \<Rightarrow> (broker, unit) io" where
  "assertExchange e = modify (\<lambda>b. b\<lparr>exchanges := (if e \<in> set (exchanges b) then exchanges b else exchanges b @ [e])\<rparr>)"

definition bindQueue :: "jstr \<Rightarrow> jstr \<Rightarrow> jstr \<Rightarrow> (broker, unit) io" where
  "bindQueue queue exchange pattern = modify (\<lambda>b. b\<lparr>bindings :=
     (if (queue, exchange, pattern) \<in> set (bindings b) then bindings b else bindings b @ [(queue, exchange, pattern)])\<rparr>)"

definition EXCHANGES_JOBS :: "jstr \<Rightarrow> jstr" where "EXCHANGES_JOBS app = app @ lit ''.jobs''"
definition EXCHANGES_PARKING :: "jstr \<Rightarrow> jstr" where "EXCHANGES_PARKING app = app @ lit ''.jobs.parking''"
definition QUEUES_PARKING :: "jstr \<Rightarrow> jstr" where "QUEUES_PARKING app = app @ lit ''.jobs.parking.queue''"

datatype work_queue = DummyLogs | VerificationMail | ResetMail | InviteMail

definition routing_key :: "work_queue \<Rightarrow> jstr" where
  "routing_key q = (case q of
      DummyLogs \<Rightarrow> lit ''metric-log.generate-dummy''
    | VerificationMail \<Rightarrow> lit ''auth.send-verification-email''
    | ResetMail \<Rightarrow> lit ''auth.send-password-reset-email''
    | InviteMail \<Rightarrow> lit ''auth.send-invite-email'')"

definition queue_name :: "jstr \<Rightarrow> work_queue \<Rightarrow> jstr" where
  "queue_name app q = app @ lit ''.'' @ (case q of
      DummyLogs \<Rightarrow> lit ''metric-log.generate-dummy''
    | VerificationMail \<Rightarrow> lit ''auth.send-verification-email''
    | ResetMail \<Rightarrow> lit ''auth.send-password-reset-email''
    | InviteMail \<Rightarrow> lit ''auth.send-invite-email'')"

definition retryQueueFor :: "jstr \<Rightarrow> nat \<Rightarrow> jstr" where
  "retryQueueFor queue delayMs = queue @ lit ''.retry.'' @ decimal delayMs"

definition assertRetryTier :: "jstr \<Rightarrow> nat \<Rightarrow> (broker, unit) io" where
  "assertRetryTier queue delayMs =
     assertQueue \<lparr>q_name = retryQueueFor queue delayMs, q_ttl = Some delayMs,
       q_deadExchange = Some [], q_deadKey = Some queue\<rparr>"

definition assertWorkQueue :: "jstr \<Rightarrow> jstr \<Rightarrow> jstr \<Rightarrow> (broker, unit) io" where
  "assertWorkQueue app queue key =
     andThen (assertQueue \<lparr>q_name = queue, q_ttl = None, q_deadExchange = Some (EXCHANGES_PARKING app), q_deadKey = None\<rparr>)
       (bindQueue queue (EXCHANGES_JOBS app) key)"

definition assertTopology :: "jstr \<Rightarrow> (broker, unit) io" where
  "assertTopology app =
     andThen (assertExchange (EXCHANGES_JOBS app))
     (andThen (assertExchange (EXCHANGES_PARKING app))
     (andThen (assertWorkQueue app (queue_name app DummyLogs) (routing_key DummyLogs))
     (andThen (assertWorkQueue app (queue_name app VerificationMail) (routing_key VerificationMail))
     (andThen (assertWorkQueue app (queue_name app ResetMail) (routing_key ResetMail))
     (andThen (assertWorkQueue app (queue_name app InviteMail) (routing_key InviteMail))
     (andThen (assertQueue \<lparr>q_name = QUEUES_PARKING app, q_ttl = None, q_deadExchange = None, q_deadKey = None\<rparr>)
       (bindQueue (QUEUES_PARKING app) (EXCHANGES_PARKING app) (lit ''#''))))))))"

text \<open>
  Where the broker takes a message: the default exchange to the queue of that name, a topic exchange to
  the queues bound with the key or with \<open>#\<close> (no pattern of the program has another wildcard). Where a
  refused or an expired message goes is the dead letter of its queue, under its own key unless the
  queue gives one.
\<close>

definition routed :: "broker \<Rightarrow> jstr \<Rightarrow> jstr \<Rightarrow> jstr list" where
  "routed b exchange key =
     (if exchange = [] then map q_name (filter (\<lambda>q. q_name q = key) (queues b))
      else map fst (filter (\<lambda>(q, e, p). e = exchange \<and> (p = lit ''#'' \<or> p = key)) (bindings b)))"

definition dead_lettered :: "broker \<Rightarrow> jstr \<Rightarrow> jstr \<Rightarrow> jstr list" where
  "dead_lettered b queue key =
     (case List.find (\<lambda>q. q_name q = queue) (queues b) of
        None \<Rightarrow> []
      | Some q \<Rightarrow> (case q_deadExchange q of
          None \<Rightarrow> []
        | Some e \<Rightarrow> routed b e (case q_deadKey q of Some k \<Rightarrow> k | None \<Rightarrow> key)))"

section \<open>Consumer\<close>

datatype settlement = Ack | NackNoRequeue

record delivery =
  d_messageId :: "jstr option"
  d_body :: parsed_body
  d_headers :: headers

record retry_message =
  r_routingKey :: jstr
  r_payload :: parsed_body
  r_messageId :: jstr
  r_headers :: headers

record consumer_state =
  cs_tick :: nat
  cs_broker :: broker
  cs_settled :: "settlement list"
  cs_retries :: "retry_message list"
  cs_inFlight :: int

text \<open>
  The broker's client: whether the consumer's channel is open at a tick, and what the publisher's
  confirm of a retry says. \<open>None\<close> is a confirm.
\<close>

record channel_platform =
  channel_open :: "nat \<Rightarrow> bool"
  republish_result :: "nat \<Rightarrow> failure option"

record consumer_options =
  co_queue :: jstr
  co_maxRetries :: nat
  co_retryBaseDelayMs :: nat

definition on_channel :: "channel_platform \<Rightarrow> (consumer_state, unit) io \<Rightarrow> (consumer_state, unit) io" where
  "on_channel C m = bind (gets cs_tick) (\<lambda>t.
     andThen (modify (\<lambda>s. s\<lparr>cs_tick := Suc t\<rparr>))
       (if channel_open C t then m else throw (PlainError ''Channel closed'')))"

definition settle :: "channel_platform \<Rightarrow> settlement \<Rightarrow> (consumer_state, unit) io" where
  "settle C x = on_channel C (modify (\<lambda>s. s\<lparr>cs_settled := cs_settled s @ [x]\<rparr>))"

definition consumer_assertRetryTier :: "channel_platform \<Rightarrow> jstr \<Rightarrow> nat \<Rightarrow> (consumer_state, unit) io" where
  "consumer_assertRetryTier C queue delayMs = on_channel C
     (\<lambda>s. case assertRetryTier queue delayMs (cs_broker s) of (r, b) \<Rightarrow> (r, s\<lparr>cs_broker := b\<rparr>))"

definition republish :: "channel_platform \<Rightarrow> retry_message \<Rightarrow> (consumer_state, unit) io" where
  "republish C m = bind (gets cs_tick) (\<lambda>t.
     andThen (modify (\<lambda>s. s\<lparr>cs_tick := Suc t\<rparr>))
       (case republish_result C t of
          None \<Rightarrow> modify (\<lambda>s. s\<lparr>cs_retries := cs_retries s @ [m]\<rparr>)
        | Some e \<Rightarrow> throw e))"

text \<open>Inside the \<open>try\<close>: the tier, then the parse of the body, then the publish.\<close>

definition schedule_retry :: "channel_platform \<Rightarrow> consumer_options \<Rightarrow> delivery \<Rightarrow> jstr \<Rightarrow> nat \<Rightarrow> nat \<Rightarrow> (consumer_state, unit) io" where
  "schedule_retry C opts msg messageId nextRetryCount delayMs =
     andThen (consumer_assertRetryTier C (co_queue opts) delayMs)
       (if d_body msg = NotJson then throw (PlainError ''Unexpected token in JSON'')
        else republish C \<lparr>r_routingKey = retryQueueFor (co_queue opts) delayMs, r_payload = d_body msg,
          r_messageId = messageId,
          r_headers = (d_headers msg)(RETRY_COUNT_HEADER \<mapsto> decimal nextRetryCount)\<rparr>)"

definition consumer_onFailure ::
  "channel_platform \<Rightarrow> consumer_options \<Rightarrow> delivery \<Rightarrow> nat \<Rightarrow> failure \<Rightarrow> (consumer_state, unit) io" where
  "consumer_onFailure C opts msg retryCount error =
     (case decideOnFailure error retryCount (co_maxRetries opts) (co_retryBaseDelayMs opts) of
        Park reason \<Rightarrow> settle C NackNoRequeue
      | Retry nextRetryCount delayMs \<Rightarrow>
          (case d_messageId msg of
             None \<Rightarrow> settle C NackNoRequeue
           | Some messageId \<Rightarrow>
               if messageId = [] then settle C NackNoRequeue
               else bind (tryCatch (andThen (schedule_retry C opts msg messageId nextRetryCount delayMs) (return True))
                      (\<lambda>publishError. return False)) (\<lambda>published.
                 if published then settle C Ack else settle C NackNoRequeue)))"

text \<open>The promise chain of \<open>handle\<close>: an ack that throws runs \<open>onFailure\<close>; what that throws is logged.\<close>

definition consumer_handle ::
  "channel_platform \<Rightarrow> consumer_options \<Rightarrow> failure + unit \<Rightarrow> delivery \<Rightarrow> (consumer_state, unit) io" where
  "consumer_handle C opts result msg =
     andThen (modify (\<lambda>s. s\<lparr>cs_inFlight := cs_inFlight s + 1\<rparr>))
     (andThen
       (tryCatch
         (tryCatch (case result of Inr _ \<Rightarrow> settle C Ack | Inl e \<Rightarrow> throw e)
           (\<lambda>error. consumer_onFailure C opts msg (readRetryCount (d_headers msg)) error))
         (\<lambda>error. return ()))
       (modify (\<lambda>s. s\<lparr>cs_inFlight := cs_inFlight s - 1\<rparr>)))"

text \<open>A retry that waited out its delay comes back as a delivery with the same id, body and headers.\<close>

definition redelivery :: "retry_message \<Rightarrow> delivery" where
  "redelivery r = \<lparr>d_messageId = Some (r_messageId r), d_body = r_payload r, d_headers = r_headers r\<rparr>"

text \<open>One step in the life of a job: a failed handling that published a retry.\<close>

inductive retried :: "consumer_options \<Rightarrow> delivery \<Rightarrow> delivery \<Rightarrow> bool" for opts where
  "consumer_handle C opts result msg s = (Inr (), s') \<Longrightarrow> cs_retries s' = cs_retries s @ [r] \<Longrightarrow>
   retried opts msg (redelivery r)"

inductive_cases retriedE: "retried opts msg msg'"

section \<open>Retry counts\<close>

lemma retryDelay_bounded: "retryDelayMs k base \<le> MAX_RETRY_DELAY_MS"
  by (simp add: retryDelayMs_def)

lemma digit_no_space: "is_digit c \<Longrightarrow> \<not> js_space c \<and> c \<noteq> 45 \<and> c \<noteq> 43"
  by (auto simp: is_digit_def js_space_def)

lemma parseInt_decimal: "parseInt10 (decimal n) = Some (int n)"
proof -
  obtain c cs where d: "decimal n = c # cs" using decimal_nonempty by (meson neq_Nil_conv)
  have "is_digit c" using decimal_digits[of n] d by simp
  then have "\<not> js_space c" "c \<noteq> 45" "c \<noteq> 43" by (simp_all add: digit_no_space)
  moreover have "takeWhile is_digit (decimal n) = decimal n" using decimal_digits[of n] by (simp add: takeWhile_eq_all_conv)
  moreover have "digits_value 0 (decimal n) = n" by (rule decimal_value)
  ultimately show ?thesis unfolding parseInt10_def by (simp add: d)
qed

end
