(* ===== verification/QueueProperties.thy ===== *)
theory QueueProperties imports Queue Samples begin

text \<open>
  What the consumer does with a delivery on every path, what a retry carries, and where the declared
  topology takes a message.
\<close>

section \<open>Runs\<close>

lemma run_settle:
  "settle C x s = (if channel_open C (cs_tick s)
     then (Inr (), s\<lparr>cs_tick := Suc (cs_tick s), cs_settled := cs_settled s @ [x]\<rparr>)
     else (Inl (PlainError ''Channel closed''), s\<lparr>cs_tick := Suc (cs_tick s)\<rparr>))"
  by (simp add: settle_def on_channel_def)

lemma schedule_retry_run:
  assumes "schedule_retry C opts msg i n d s = (r, s')"
  shows "cs_settled s' = cs_settled s" "cs_inFlight s' = cs_inFlight s"
    "isl r \<Longrightarrow> cs_retries s' = cs_retries s"
    "\<not> isl r \<Longrightarrow> cs_retries s' = cs_retries s @ [\<lparr>r_routingKey = retryQueueFor (co_queue opts) d, r_payload = d_body msg,
       r_messageId = i, r_headers = (d_headers msg)(RETRY_COUNT_HEADER \<mapsto> decimal n)\<rparr>]"
  using assms
  by (auto simp: schedule_retry_def consumer_assertRetryTier_def on_channel_def republish_def run_bind run_andThen
      split: prod.splits sum.splits if_splits option.splits)

text \<open>What a failure leads to: nothing settled only when the channel was closed, a retry only within the budget.\<close>

definition retry_of :: "consumer_options \<Rightarrow> delivery \<Rightarrow> jstr \<Rightarrow> retry_message" where
  "retry_of opts msg i = \<lparr>r_routingKey = retryQueueFor (co_queue opts)
       (retryDelayMs (readRetryCount (d_headers msg)) (co_retryBaseDelayMs opts)),
     r_payload = d_body msg, r_messageId = i,
     r_headers = (d_headers msg)(RETRY_COUNT_HEADER \<mapsto> decimal (readRetryCount (d_headers msg) + 1))\<rparr>"

definition may_retry :: "consumer_options \<Rightarrow> delivery \<Rightarrow> failure \<Rightarrow> jstr \<Rightarrow> bool" where
  "may_retry opts msg e i \<longleftrightarrow> \<not> isTerminalMessageError e \<and> readRetryCount (d_headers msg) < co_maxRetries opts \<and>
     d_messageId msg = Some i \<and> i \<noteq> []"

lemma onFailure_cases:
  assumes "consumer_onFailure C opts msg (readRetryCount (d_headers msg)) e s = (r, s')"
  obtains (parked) "r = Inr ()" "cs_settled s' = cs_settled s @ [NackNoRequeue]" "cs_retries s' = cs_retries s"
      "cs_inFlight s' = cs_inFlight s"
    | (scheduled) i where "r = Inr ()" "cs_settled s' = cs_settled s @ [Ack]" "cs_retries s' = cs_retries s @ [retry_of opts msg i]"
      "may_retry opts msg e i" "cs_inFlight s' = cs_inFlight s"
    | (closed) "\<exists>t. \<not> channel_open C t" "isl r" "cs_settled s' = cs_settled s" "cs_inFlight s' = cs_inFlight s"
      "cs_retries s' = cs_retries s \<or> (\<exists>i. may_retry opts msg e i \<and> cs_retries s' = cs_retries s @ [retry_of opts msg i])"
proof (cases "\<exists>i. may_retry opts msg e i")
  case False
  then have "consumer_onFailure C opts msg (readRetryCount (d_headers msg)) e s = settle C NackNoRequeue s"
    by (auto simp: consumer_onFailure_def decideOnFailure_def may_retry_def split: option.splits)
  with assms have run: "settle C NackNoRequeue s = (r, s')" by simp
  show ?thesis
  proof (cases "channel_open C (cs_tick s)")
    case True
    with run parked show ?thesis by (auto simp: run_settle)
  next
    case False
    then have "\<exists>t. \<not> channel_open C t" by blast
    with run False closed show ?thesis by (auto simp: run_settle)
  qed
next
  case True
  then obtain i where i: "may_retry opts msg e i" ..
  let ?n = "readRetryCount (d_headers msg)"
  let ?d = "retryDelayMs ?n (co_retryBaseDelayMs opts)"
  obtain q s1 where q: "schedule_retry C opts msg i (?n + 1) ?d s = (q, s1)" by fastforce
  note run = schedule_retry_run[OF q]
  have eq: "consumer_onFailure C opts msg ?n e s = (if isl q then settle C NackNoRequeue s1 else settle C Ack s1)"
    using i q by (cases q) (auto simp: consumer_onFailure_def decideOnFailure_def may_retry_def run_bind run_tryCatch run_andThen)
  show ?thesis
  proof (cases "isl q")
    case True
    with eq assms have out: "settle C NackNoRequeue s1 = (r, s')" by simp
    show ?thesis
    proof (cases "channel_open C (cs_tick s1)")
      case True
      with out \<open>isl q\<close> run parked show ?thesis by (auto simp: run_settle)
    next
      case False
      then have "\<exists>t. \<not> channel_open C t" by blast
      with out False \<open>isl q\<close> run closed show ?thesis by (auto simp: run_settle)
    qed
  next
    case False
    with eq assms have out: "settle C Ack s1 = (r, s')" by simp
    from False run have retry: "cs_retries s1 = cs_retries s @ [retry_of opts msg i]" by (simp add: retry_of_def)
    show ?thesis
    proof (cases "channel_open C (cs_tick s1)")
      case True
      with out retry run(1,2) i scheduled show ?thesis by (auto simp: run_settle)
    next
      case False
      then have "\<exists>t. \<not> channel_open C t" by blast
      moreover have "isl r" "cs_settled s' = cs_settled s" "cs_inFlight s' = cs_inFlight s"
        "cs_retries s' = cs_retries s @ [retry_of opts msg i]"
        using out False retry run(1,2) by (auto simp: run_settle)
      ultimately show ?thesis using closed i by blast
    qed
  qed
qed

lemma handle_cases:
  assumes "consumer_handle C opts result msg s = (r, s')"
  obtains (acked) "r = Inr ()" "result = Inr ()" "cs_settled s' = cs_settled s @ [Ack]" "cs_retries s' = cs_retries s"
      "cs_inFlight s' = cs_inFlight s"
    | (parked) "r = Inr ()" "result \<noteq> Inr () \<or> (\<exists>t. \<not> channel_open C t)" "cs_settled s' = cs_settled s @ [NackNoRequeue]"
      "cs_retries s' = cs_retries s" "cs_inFlight s' = cs_inFlight s"
    | (scheduled) e i where "r = Inr ()" "result = Inl e \<or> (\<exists>t. \<not> channel_open C t)" "cs_settled s' = cs_settled s @ [Ack]"
      "cs_retries s' = cs_retries s @ [retry_of opts msg i]" "may_retry opts msg e i" "cs_inFlight s' = cs_inFlight s"
    | (closed) e where "r = Inr ()" "\<exists>t. \<not> channel_open C t" "cs_settled s' = cs_settled s" "cs_inFlight s' = cs_inFlight s"
      "cs_retries s' = cs_retries s \<or> (\<exists>i. may_retry opts msg e i \<and> cs_retries s' = cs_retries s @ [retry_of opts msg i])"
proof -
  let ?s1 = "s\<lparr>cs_inFlight := cs_inFlight s + 1\<rparr>"
  note out1 = acked and out2 = parked and out3 = scheduled and out4 = closed
  have failing: thesis
    if fail: "consumer_onFailure C opts msg (readRetryCount (d_headers msg)) e s2 = (q, s3)"
      and s2: "cs_settled s2 = cs_settled s" "cs_retries s2 = cs_retries s" "cs_inFlight s2 = cs_inFlight s + 1"
      and out: "r = Inr ()" "s' = s3\<lparr>cs_inFlight := cs_inFlight s3 - 1\<rparr>"
      and why: "result = Inl e \<or> (\<exists>t. \<not> channel_open C t)" for e s2 q s3
    using fail
  proof (cases rule: onFailure_cases)
    case parked
    with s2 out why out2 show ?thesis by auto
  next
    case (scheduled i)
    with s2 out why out3[of e i] show ?thesis by auto
  next
    case closed
    with s2 out out4[of e] show ?thesis by auto
  qed
  show thesis
  proof (cases result)
    case (Inl e)
    obtain q s3 where q: "consumer_onFailure C opts msg (readRetryCount (d_headers msg)) e ?s1 = (q, s3)" by fastforce
    have "r = Inr ()" "s' = s3\<lparr>cs_inFlight := cs_inFlight s3 - 1\<rparr>"
      using assms q Inl by (cases q; simp add: consumer_handle_def run_andThen run_tryCatch)+
    then show ?thesis using failing[OF q] Inl by simp
  next
    case (Inr u)
    show ?thesis
    proof (cases "channel_open C (cs_tick s)")
      case True
      with assms Inr have "r = Inr ()" "s' = s\<lparr>cs_tick := Suc (cs_tick s), cs_settled := cs_settled s @ [Ack]\<rparr>"
        by (auto simp: consumer_handle_def run_andThen run_tryCatch run_settle)
      then show ?thesis using out1 Inr by simp
    next
      case False
      let ?s2 = "?s1\<lparr>cs_tick := Suc (cs_tick s)\<rparr>"
      obtain q s3 where q: "consumer_onFailure C opts msg (readRetryCount (d_headers msg)) (PlainError ''Channel closed'') ?s2 = (q, s3)"
        by fastforce
      have "r = Inr ()" "s' = s3\<lparr>cs_inFlight := cs_inFlight s3 - 1\<rparr>"
        using assms q Inr False by (cases q; simp add: consumer_handle_def run_andThen run_tryCatch run_settle)+
      then show ?thesis using failing[OF q] False by auto
    qed
  qed
qed

lemma retried_count:
  assumes "retried opts msg msg'"
  shows "readRetryCount (d_headers msg') = Suc (readRetryCount (d_headers msg))"
    "readRetryCount (d_headers msg') \<le> co_maxRetries opts"
    "d_messageId msg' = d_messageId msg" "d_body msg' = d_body msg"
proof -
  from assms obtain C result s s' r where
    run: "consumer_handle C opts result msg s = (Inr (), s')" and r: "cs_retries s' = cs_retries s @ [r]"
    and msg': "msg' = redelivery r" by (rule retriedE)
  from run r obtain e i where m: "may_retry opts msg e i" "r = retry_of opts msg i"
    by (cases rule: handle_cases) auto
  have h: "r_headers r RETRY_COUNT_HEADER = Some (decimal (readRetryCount (d_headers msg) + 1))"
    by (simp add: m(2) retry_of_def)
  then have "readRetryCount (r_headers r) = readRetryCount (d_headers msg) + 1"
    unfolding readRetryCount_def[of "r_headers r"] h by (simp add: parseInt_decimal)
  then show count: "readRetryCount (d_headers msg') = Suc (readRetryCount (d_headers msg))"
    by (simp add: msg' redelivery_def)
  show "readRetryCount (d_headers msg') \<le> co_maxRetries opts"
    unfolding count using m(1) by (simp add: may_retry_def)
  show "d_messageId msg' = d_messageId msg" "d_body msg' = d_body msg"
    using m by (simp_all add: msg' redelivery_def retry_of_def may_retry_def)
qed


section \<open>Delays\<close>

lemma set_js_unique: "set (js_unique xs) = set xs" and distinct_js_unique: "distinct (js_unique xs)"
  by (simp_all add: js_unique_def)

lemma js_unique_snoc: "js_unique (xs @ [x]) = (if x \<in> set xs then js_unique xs else js_unique xs @ [x])"
  by (simp add: js_unique_def)

lemma retryDelay_mono: "i \<le> j \<Longrightarrow> retryDelayMs i base \<le> retryDelayMs j base"
  unfolding retryDelayMs_def by (intro min.mono mult_left_mono power_increasing) simp_all

lemma retryDelays_sorted: "sorted_wrt (<) (retryDelaysMs n base)"
proof (induction n)
  case 0
  then show ?case by (simp add: retryDelaysMs_def js_unique_def)
next
  case (Suc n)
  have "d < retryDelayMs n base" if "d \<in> set (retryDelaysMs n base)" "retryDelayMs n base \<notin> set (map (\<lambda>k. retryDelayMs k base) [0..<n])" for d
  proof -
    from that(1) obtain k where "k < n" "d = retryDelayMs k base" by (auto simp: retryDelaysMs_def set_js_unique)
    moreover from this that(2) have "d \<noteq> retryDelayMs n base" by (metis atLeastLessThan_iff image_eqI le0 list.set_map set_upt)
    ultimately show ?thesis using retryDelay_mono[of k n base] by simp
  qed
  with Suc show ?case by (auto simp: retryDelaysMs_def js_unique_snoc sorted_wrt_append)
qed

section \<open>The broker\<close>

definition topology_broker :: "jstr \<Rightarrow> broker" where
  "topology_broker app = \<lparr>exchanges = [EXCHANGES_JOBS app, EXCHANGES_PARKING app],
     queues = map (\<lambda>q. \<lparr>q_name = queue_name app q, q_ttl = None, q_deadExchange = Some (EXCHANGES_PARKING app), q_deadKey = None\<rparr>)
         [DummyLogs, VerificationMail, ResetMail, InviteMail] @
       [\<lparr>q_name = QUEUES_PARKING app, q_ttl = None, q_deadExchange = None, q_deadKey = None\<rparr>],
     bindings = map (\<lambda>q. (queue_name app q, EXCHANGES_JOBS app, routing_key q)) [DummyLogs, VerificationMail, ResetMail, InviteMail] @
       [(QUEUES_PARKING app, EXCHANGES_PARKING app, lit ''#'')]\<rparr>"

lemma names_distinct [simp]:
  "queue_name app p = queue_name app q \<longleftrightarrow> p = q" "queue_name app p \<noteq> QUEUES_PARKING app"
  "QUEUES_PARKING app \<noteq> queue_name app p"
  "EXCHANGES_JOBS app \<noteq> EXCHANGES_PARKING app" "EXCHANGES_PARKING app \<noteq> EXCHANGES_JOBS app"
  "EXCHANGES_JOBS app \<noteq> []" "EXCHANGES_PARKING app \<noteq> []"
  "routing_key p = routing_key q \<longleftrightarrow> p = q" "routing_key p \<noteq> lit ''#''" "lit ''#'' \<noteq> routing_key p"
  by (cases p; cases q; simp add: queue_name_def QUEUES_PARKING_def EXCHANGES_JOBS_def EXCHANGES_PARKING_def routing_key_def lit_def)+

lemma assertTopology_empty: "assertTopology app empty_broker = (Inr (), topology_broker app)"
  by (simp add: assertTopology_def assertExchange_def assertWorkQueue_def assertQueue_def bindQueue_def empty_broker_def
      topology_broker_def run_andThen run_bind)

lemma assertTopology_again: "assertTopology app (topology_broker app) = (Inr (), topology_broker app)"
  by (simp add: assertTopology_def assertExchange_def assertWorkQueue_def assertQueue_def bindQueue_def
      topology_broker_def run_andThen run_bind)


lemma retry_tier_routes:
  assumes "assertRetryTier queue d b = (Inr (), b')" "map q_name (filter (\<lambda>q. q_name q = queue) (queues b)) = [queue]"
    and "retryQueueFor queue d \<noteq> queue"
  shows "dead_lettered b' (retryQueueFor queue d) key = [queue]"
proof -
  let ?q = "\<lparr>q_name = retryQueueFor queue d, q_ttl = Some d, q_deadExchange = Some [], q_deadKey = Some queue\<rparr>"
  show ?thesis
  proof (cases "List.find (\<lambda>r. q_name r = retryQueueFor queue d) (queues b)")
    case None
    with assms(1) have b': "b' = b\<lparr>queues := queues b @ [?q]\<rparr>" by (simp add: assertRetryTier_def assertQueue_def)
    have "List.find (\<lambda>r. q_name r = retryQueueFor queue d) (queues b @ [?q]) = Some ?q"
      using None by (simp add: find_append)
    then show ?thesis using assms(2,3) by (simp add: dead_lettered_def b' routed_def)
  next
    case (Some r)
    with assms(1) have "r = ?q" "b' = b" by (auto simp: assertRetryTier_def assertQueue_def split: if_splits)
    with Some assms(2) show ?thesis by (simp add: dead_lettered_def routed_def)
  qed
qed

lemma retryQueue_not_work: "retryQueueFor queue d \<noteq> queue"
  by (simp add: retryQueueFor_def lit_def)

lemmas evaluate_Queue [evaluate] =
  settle_def on_channel_def consumer_assertRetryTier_def republish_def schedule_retry_def consumer_onFailure_def
  consumer_handle_def decideOnFailure_def isTerminalMessageError_def readRetryCount_def retryDelayMs_def
  MAX_RETRY_DELAY_MS_def assertRetryTier_def assertQueue_def empty_broker_def RETRY_COUNT_HEADER_def
  parseInt10_def js_space_def is_digit_def

section \<open>Properties\<close>

text \<open>
  C33. Handling a delivery never raises and never settles it twice. While the channel is open it is
  settled exactly once: acknowledged when the handler succeeded or a retry was published, and refused
  into the parking lot otherwise; a retry is published at most once, and the in-flight count is as
  before.
\<close>

theorem delivery_settled_once:
  assumes "consumer_handle C opts result msg s = (r, s')"
  shows "r = Inr () \<and> cs_inFlight s' = cs_inFlight s \<and>
    (\<exists>xs rs. cs_settled s' = cs_settled s @ xs \<and> length xs \<le> 1 \<and> cs_retries s' = cs_retries s @ rs \<and> length rs \<le> 1 \<and>
      ((\<forall>t. channel_open C t) \<longrightarrow> xs = [if result = Inr () \<or> rs \<noteq> [] then Ack else NackNoRequeue] \<and>
        (result = Inr () \<longrightarrow> rs = [])))"
  using assms
proof (cases rule: handle_cases)
  case acked
  then show ?thesis by (intro conjI exI[of _ "[Ack]"] exI[of _ "[]"]) auto
next
  case parked
  then show ?thesis by (intro conjI exI[of _ "[NackNoRequeue]"] exI[of _ "[]"]) auto
next
  case (scheduled e i)
  then show ?thesis by (intro conjI exI[of _ "[Ack]"] exI[of _ "[retry_of opts msg i]"]) auto
next
  case (closed e)
  from closed(5) obtain rs where "cs_retries s' = cs_retries s @ rs" "length rs \<le> 1"
    by (metis append_Nil2 le_zero_eq length_Cons list.size(3) nat_le_linear One_nat_def)
  with closed show ?thesis by (intro conjI exI[of _ "[]"] exI[of _ rs]) auto
qed

definition sample_channel :: channel_platform where
  "sample_channel = \<lparr>channel_open = (\<lambda>t. True), republish_result = (\<lambda>t. None)\<rparr>"

definition sample_consumer :: consumer_options where
  "sample_consumer = \<lparr>co_queue = lit ''q'', co_maxRetries = 3, co_retryBaseDelayMs = 1000\<rparr>"

definition sample_delivery :: delivery where
  "sample_delivery = \<lparr>d_messageId = Some (lit ''m''), d_body = BodyObject (\<lambda>_. None), d_headers = (\<lambda>_. None)\<rparr>"

definition sample_consumer_state :: consumer_state where
  "sample_consumer_state = \<lparr>cs_tick = 0, cs_broker = empty_broker, cs_settled = [], cs_retries = [], cs_inFlight = 0\<rparr>"

theorem delivery_settled_once_witness:
  "\<exists>rs. cs_settled (snd (consumer_handle sample_channel sample_consumer (Inl (ServiceError ''down'')) sample_delivery sample_consumer_state)) =
     [if rs \<noteq> [] then Ack else NackNoRequeue]"
  using delivery_settled_once[OF surjective_pairing[of "consumer_handle sample_channel sample_consumer (Inl (ServiceError ''down''))
      sample_delivery sample_consumer_state"]]
  by (auto simp: sample_channel_def sample_consumer_state_def)

text \<open>
  A job is retried at most the configured number of times: along any chain of retries the count in
  the header, written as text and read back, goes up by one a step from what it was and never past the
  maximum, and the message keeps its id and its body.
\<close>

theorem retries_bounded:
  assumes "(retried opts ^^ n) msg msg'"
  shows "readRetryCount (d_headers msg') = readRetryCount (d_headers msg) + n \<and>
    (0 < n \<longrightarrow> readRetryCount (d_headers msg) + n \<le> co_maxRetries opts) \<and>
    d_messageId msg' = d_messageId msg \<and> d_body msg' = d_body msg"
  using assms
proof (induction n arbitrary: msg')
  case (Suc n)
  then obtain m where m: "(retried opts ^^ n) msg m" and last: "retried opts m msg'" by auto
  from Suc.IH[OF m] retried_count[OF last] show ?case by simp
qed simp

lemma sample_retried: "retried sample_consumer sample_delivery (redelivery (retry_of sample_consumer sample_delivery (lit ''m'')))"
proof (rule retried.intros)
  let ?run = "consumer_handle sample_channel sample_consumer (Inl (ServiceError ''down'')) sample_delivery sample_consumer_state"
  show "?run = (Inr (), snd ?run)"
    by (simp add: evaluate sample_channel_def sample_consumer_def sample_delivery_def sample_consumer_state_def)
  show "cs_retries (snd ?run) = cs_retries sample_consumer_state @ [retry_of sample_consumer sample_delivery (lit ''m'')]"
    by (simp add: evaluate sample_channel_def sample_consumer_def sample_delivery_def sample_consumer_state_def retry_of_def)
qed

theorem retries_bounded_witness:
  "readRetryCount (d_headers (redelivery (retry_of sample_consumer sample_delivery (lit ''m'')))) =
     readRetryCount (d_headers sample_delivery) + 1"
proof -
  have "(retried sample_consumer ^^ Suc 0) sample_delivery (redelivery (retry_of sample_consumer sample_delivery (lit ''m'')))"
    by (simp add: eq_OO sample_retried)
  from retries_bounded[OF this] show ?thesis by simp
qed

text \<open>
  The delays a queue's messages can wait are exactly those listed for its tiers, each once and in
  increasing order, none longer than five minutes.
\<close>

theorem retry_delays_complete:
  "set (retryDelaysMs maxRetries base) = (\<lambda>k. retryDelayMs k base) ` {k. k < maxRetries} \<and>
   sorted_wrt (<) (retryDelaysMs maxRetries base) \<and> set (retryDelaysMs maxRetries base) \<subseteq> {..300000}"
proof -
  have "set (retryDelaysMs maxRetries base) = (\<lambda>k. retryDelayMs k base) ` {k. k < maxRetries}"
    by (auto simp: retryDelaysMs_def set_js_unique)
  then show ?thesis
    using retryDelays_sorted retryDelay_bounded by (auto simp: MAX_RETRY_DELAY_MS_def)
qed

text \<open>
  C34. The topology can be declared again on a reconnect without change. With it, the key of a kind of
  job reaches that kind's work queue and no other, a message a work queue refuses reaches the parking
  lot, and a message that waited out a retry tier returns to the queue that failed it and to no other.
\<close>

theorem topology_routes_jobs:
  "assertTopology app empty_broker = (Inr (), topology_broker app) \<and>
   assertTopology app (topology_broker app) = (Inr (), topology_broker app) \<and>
   routed (topology_broker app) (EXCHANGES_JOBS app) (routing_key q) = [queue_name app q] \<and>
   dead_lettered (topology_broker app) (queue_name app q) key = [QUEUES_PARKING app] \<and>
   (\<forall>b'. assertRetryTier (queue_name app q) d (topology_broker app) = (Inr (), b') \<longrightarrow>
      dead_lettered b' (retryQueueFor (queue_name app q) d) key = [queue_name app q])"
proof -
  have "routed (topology_broker app) (EXCHANGES_JOBS app) (routing_key q) = [queue_name app q]"
    by (cases q) (simp_all add: routed_def topology_broker_def)
  moreover have "dead_lettered (topology_broker app) (queue_name app q) key = [QUEUES_PARKING app]"
    by (cases q) (simp_all add: dead_lettered_def routed_def topology_broker_def)
  moreover have "map q_name (filter (\<lambda>r. q_name r = queue_name app q) (queues (topology_broker app))) = [queue_name app q]"
    by (cases q) (simp_all add: topology_broker_def)
  ultimately show ?thesis
    by (intro conjI allI impI assertTopology_empty assertTopology_again retry_tier_routes retryQueue_not_work)
qed

theorem topology_routes_jobs_witness:
  "dead_lettered (snd (assertRetryTier (queue_name [] ResetMail) 1000 (topology_broker [])))
     (retryQueueFor (queue_name [] ResetMail) 1000) [] = [queue_name [] ResetMail]"
proof -
  have "List.find (\<lambda>r. q_name r = retryQueueFor (queue_name [] ResetMail) 1000) (queues (topology_broker [])) = None"
    by (simp add: topology_broker_def retryQueueFor_def queue_name_def QUEUES_PARKING_def lit_def)
  then have "fst (assertRetryTier (queue_name [] ResetMail) 1000 (topology_broker [])) = Inr ()"
    by (simp add: assertRetryTier_def assertQueue_def)
  then have "assertRetryTier (queue_name [] ResetMail) 1000 (topology_broker []) =
      (Inr (), snd (assertRetryTier (queue_name [] ResetMail) 1000 (topology_broker [])))"
    by (metis prod.collapse)
  with topology_routes_jobs[of "[]" ResetMail "[]" 1000] show ?thesis by blast
qed

end
