(* ===== verification/RelativeRange.thy ===== *)
theory RelativeRange imports CivilTime Digits begin

text \<open>
  The time ranges of the analytics feature: the buckets (\<open>buckets.ts\<close>), a relative window in a time
  zone (\<open>relative-range.ts\<close>), the window shown when the range asked for is empty
  (\<open>fallback-range.ts\<close>), and the bound on the number of buckets (\<open>GetVisualization.ts\<close> and the request
  schema), of \<open>src/features/public/analytics\<close>. Times are the milliseconds of a \<open>Date\<close>; an ISO text is
  the time it parses to. The quotients whose ceiling is taken are exact here; in the code they are
  rounded to 53 bits, which moves no ceiling for spans below 10^15 milliseconds. A zone is asked
  only about instants a \<open>Date\<close> holds.
\<close>

section \<open>Buckets\<close>

datatype bucket_alias = Bucket_1h | Bucket_1d | Bucket_1w | Bucket_1m | Bucket_1y

datatype granularity = Hour | Day | Week | Month | Year

record bucket_spec =
  spec_unit :: granularity
  spec_iso :: string
  spec_interval :: string
  spec_trunc :: granularity
  spec_approxMs :: int

definition resolveBucket :: "bucket_alias option \<Rightarrow> bucket_spec" where
  "resolveBucket b = (case b of
      Some Bucket_1h \<Rightarrow> \<lparr>spec_unit = Hour, spec_iso = ''PT1H'', spec_interval = ''1 hour'', spec_trunc = Hour, spec_approxMs = 3600000\<rparr>
    | Some Bucket_1w \<Rightarrow> \<lparr>spec_unit = Week, spec_iso = ''P1W'', spec_interval = ''1 week'', spec_trunc = Week, spec_approxMs = 604800000\<rparr>
    | Some Bucket_1m \<Rightarrow> \<lparr>spec_unit = Month, spec_iso = ''P1M'', spec_interval = ''1 month'', spec_trunc = Month, spec_approxMs = 2629746000\<rparr>
    | Some Bucket_1y \<Rightarrow> \<lparr>spec_unit = Year, spec_iso = ''P1Y'', spec_interval = ''1 year'', spec_trunc = Year, spec_approxMs = 31556952000\<rparr>
    | _ \<Rightarrow> \<lparr>spec_unit = Day, spec_iso = ''P1D'', spec_interval = ''1 day'', spec_trunc = Day, spec_approxMs = 86400000\<rparr>)"

section \<open>Windows\<close>

datatype relative_unit = Hours | Days | Weeks | Months | Years

definition HOUR_MS :: int where "HOUR_MS = 60 * 60 * 1000"
definition DAY_MS :: int where "DAY_MS = 24 * HOUR_MS"
definition MAX_WALL_MS :: int where "MAX_WALL_MS = 8640000000000000 - 2 * DAY_MS"

definition MAX_SAFE_INTEGER :: int where "MAX_SAFE_INTEGER = 2 ^ 53 - 1"

text \<open>\<open>LAST_WINDOW_REGEX\<close>.\<close>

definition last_window_format :: "jstr \<Rightarrow> bool" where
  "last_window_format s \<longleftrightarrow> 2 \<le> length s \<and> hd s \<noteq> 48 \<and> list_all is_digit (butlast s) \<and>
     last s \<in> {104, 100, 119, 109, 121}"

definition unit_of_char :: "nat \<Rightarrow> relative_unit" where
  "unit_of_char c = (if c = 104 then Hours else if c = 100 then Days else if c = 119 then Weeks
     else if c = 109 then Months else Years)"

definition parseRelativeWindow :: "jstr \<Rightarrow> (int \<times> relative_unit) option" where
  "parseRelativeWindow s =
     (if \<not> last_window_format s then None
      else let amount = int (digits_value 0 (butlast s)) in
        if amount > MAX_SAFE_INTEGER \<or> amount \<le> 0 then None else Some (amount, unit_of_char (last s)))"

section \<open>Time zones\<close>

text \<open>
  A zone is what \<open>Intl.DateTimeFormat\<close> makes of an instant: its wall time in whole seconds, as the
  milliseconds \<open>Date.UTC\<close> gives for the fields printed.
\<close>

type_synonym zone = "int \<Rightarrow> int"

definition wallTimeOf :: "zone \<Rightarrow> int \<Rightarrow> int" where
  "wallTimeOf Z instant = Z instant + instant mod 1000"

definition offsetAt :: "zone \<Rightarrow> int \<Rightarrow> int" where
  "offsetAt Z instant = wallTimeOf Z instant - instant"

text \<open>The loop that closes in on the moment the clocks moved.\<close>

function offset_change :: "zone \<Rightarrow> int \<Rightarrow> int \<Rightarrow> int \<Rightarrow> int" where
  "offset_change Z offsetAfter before after =
     (if after - before > 1
      then let middle = before + (after - before) div 2 in
        if offsetAt Z middle = offsetAfter then offset_change Z offsetAfter before middle
        else offset_change Z offsetAfter middle after
      else after)"
  by pat_completeness auto
termination
  by (relation "measure (\<lambda>(_, _, before, after). nat (after - before))") auto

declare offset_change.simps [simp del]

definition instantOf :: "zone \<Rightarrow> int \<Rightarrow> int" where
  "instantOf Z wall =
     (let candidates = [wall - offsetAt Z (wall - DAY_MS), wall - offsetAt Z (wall + DAY_MS)];
          matches = filter (\<lambda>c. wallTimeOf Z c = wall) candidates in
      if matches \<noteq> [] then Min (set matches)
      else let before = Min (set candidates); after = Max (set candidates) in
        offset_change Z (offsetAt Z after) before after)"

section \<open>Calendar steps\<close>

text \<open>\<open>new Date(t)\<close>; \<open>None\<close> is the invalid date, and a time computed from it is \<open>NaN\<close>.\<close>

definition new_Date :: "int \<Rightarrow> int option" where
  "new_Date t = (if \<bar>t\<bar> \<le> MAX_TIME_MS then Some t else None)"

definition startOfNextBucketWall :: "int \<Rightarrow> bucket_alias \<Rightarrow> int option" where
  "startOfNextBucketWall wallMs bucket =
     (case bucket of
        Bucket_1h \<Rightarrow> Some (wallMs div HOUR_MS * HOUR_MS + HOUR_MS)
      | _ \<Rightarrow> Option.bind (new_Date wallMs) (\<lambda>wall.
          let year = getUTCFullYear wall; month = getUTCMonth wall;
              startOfDay = Date_UTC year month (getUTCDate wall) 0 in
          (case bucket of
             Bucket_1w \<Rightarrow>
               let daysSinceMonday = (getUTCDay wall + 6) mod 7 in
               map_option (\<lambda>s. s + (7 - daysSinceMonday) * DAY_MS) startOfDay
           | Bucket_1m \<Rightarrow> Date_UTC year (month + 1) 1 0
           | Bucket_1y \<Rightarrow> Date_UTC (year + 1) 0 1 0
           | _ \<Rightarrow> map_option (\<lambda>s. s + DAY_MS) startOfDay)))"

definition subtractMonthsWall :: "int \<Rightarrow> int \<Rightarrow> int option" where
  "subtractMonthsWall wallMs months =
     Option.bind (new_Date wallMs) (\<lambda>wall.
     Option.bind (Date_UTC (getUTCFullYear wall) (getUTCMonth wall - months) 1 0) (\<lambda>firstOfTarget.
     Option.bind (Date_UTC (getUTCFullYear firstOfTarget) (getUTCMonth firstOfTarget + 1) 0 0) (\<lambda>lastOfTarget.
     Option.bind (Date_UTC (getUTCFullYear wall) (getUTCMonth wall) (getUTCDate wall) 0) (\<lambda>startOfDay.
     map_option (\<lambda>d. d + (wallMs - startOfDay))
       (Date_UTC (getUTCFullYear firstOfTarget) (getUTCMonth firstOfTarget)
          (min (getUTCDate wall) (getUTCDate lastOfTarget)) 0)))))"

definition subtractWindowWall :: "int \<Rightarrow> int \<Rightarrow> relative_unit \<Rightarrow> int option" where
  "subtractWindowWall wallMs amount u =
     (case u of
        Hours \<Rightarrow> Some (wallMs - amount * HOUR_MS)
      | Days \<Rightarrow> Some (wallMs - amount * DAY_MS)
      | Weeks \<Rightarrow> Some (wallMs - amount * 7 * DAY_MS)
      | Months \<Rightarrow> subtractMonthsWall wallMs amount
      | Years \<Rightarrow> subtractMonthsWall wallMs (amount * 12))"

text \<open>An invalid date throws when it is printed, or when the zone is asked about it.\<close>

definition InvalidDate :: failure where
  "InvalidDate = PlainError ''Invalid time value''"

definition valid_time :: "int option \<Rightarrow> failure + int" where
  "valid_time t = (case t of None \<Rightarrow> Inl InvalidDate
     | Some t \<Rightarrow> if \<bar>t\<bar> \<le> MAX_TIME_MS then Inr t else Inl InvalidDate)"

definition startOfNextBucket :: "int \<Rightarrow> bucket_alias \<Rightarrow> zone \<Rightarrow> failure + int" where
  "startOfNextBucket instant bucket Z =
     valid_time (map_option (instantOf Z) (startOfNextBucketWall (wallTimeOf Z instant) bucket))"

definition resolveRelativeRange :: "jstr \<Rightarrow> bucket_alias \<Rightarrow> zone \<Rightarrow> int \<Rightarrow> failure + (int \<times> int)" where
  "resolveRelativeRange last' bucket Z now =
     (let endWall = startOfNextBucketWall (wallTimeOf Z now) bucket in
      case valid_time (map_option (instantOf Z) endWall) of
        Inl e \<Rightarrow> Inl e
      | Inr endT \<Rightarrow>
        (case parseRelativeWindow last' of
           None \<Rightarrow> Inr (endT, endT)
         | Some (amount, u) \<Rightarrow>
           (case subtractWindowWall (the endWall) amount u of
              None \<Rightarrow> Inr (endT, endT)
            | Some startWall \<Rightarrow>
                if \<not> \<bar>startWall\<bar> \<le> MAX_WALL_MS then Inr (endT, endT)
                else (case valid_time (Some (instantOf Z startWall)) of
                  Inl e \<Rightarrow> Inl e
                | Inr startT \<Rightarrow> Inr (startT, endT)))))"

section \<open>The fallback range\<close>

text \<open>The bounds of a range are what \<open>Date.parse\<close> makes of its texts, \<open>None\<close> being \<open>NaN\<close>.\<close>

record range_descriptor =
  range_start :: "int option"
  range_end :: "int option"
  range_bucket :: bucket_alias

record fallback_computation =
  fallback_range :: range_descriptor
  fallback_estimatedBuckets :: int
  fallback_strategy :: string

definition DEFAULT_HORIZON_MS :: int where "DEFAULT_HORIZON_MS = 1000 * 60 * 60 * 24 * 180"

definition ceil_div :: "int \<Rightarrow> int \<Rightarrow> int" where
  "ceil_div a b = - ((- a) div b)"

definition requestedDurationMs :: "range_descriptor \<Rightarrow> int" where
  "requestedDurationMs r = (case (range_start r, range_end r) of
      (Some s, Some e) \<Rightarrow> if e \<le> s then DEFAULT_HORIZON_MS else e - s
    | _ \<Rightarrow> DEFAULT_HORIZON_MS)"

definition estimateBuckets :: "int \<Rightarrow> int \<Rightarrow> bucket_spec \<Rightarrow> int" where
  "estimateBuckets startT endT spec = ceil_div (max (endT - startT) 0) (spec_approxMs spec) + 1"

text \<open>\<open>lastLogAt\<close> is what \<open>normalizeDate\<close> makes of it: \<open>None\<close> when there is no log.\<close>

definition computeFallbackRange ::
  "range_descriptor \<Rightarrow> int option \<Rightarrow> zone \<Rightarrow> int \<Rightarrow> int \<Rightarrow> failure + fallback_computation option" where
  "computeFallbackRange requested lastLogAt Z guardBuckets maxHorizonMs =
     (let spec = resolveBucket (Some (range_bucket requested)) in
      case lastLogAt of
        None \<Rightarrow> Inr None
      | Some last' \<Rightarrow>
        (case startOfNextBucket last' (range_bucket requested) Z of
           Inl e \<Rightarrow> Inl e
         | Inr fallbackEnd \<Rightarrow>
           let span = min maxHorizonMs (min (max (requestedDurationMs requested) (spec_approxMs spec))
                        (guardBuckets * spec_approxMs spec)) in
           (case valid_time (Some (fallbackEnd - span)) of
              Inl e \<Rightarrow> Inl e
            | Inr fallbackStart \<Rightarrow> Inr (Some
                \<lparr>fallback_range = \<lparr>range_start = Some fallbackStart, range_end = Some fallbackEnd,
                   range_bucket = range_bucket requested\<rparr>,
                 fallback_estimatedBuckets = estimateBuckets fallbackStart fallbackEnd spec,
                 fallback_strategy = ''last_activity_window''\<rparr>))))"

section \<open>How many buckets\<close>

definition range_too_large :: "bucket_spec \<Rightarrow> int \<Rightarrow> int \<Rightarrow> string" where
  "range_too_large spec est maxBuckets =
     ''Range too large for '' @ spec_iso spec @ '' (~'' @ map char_of (decimal (nat est)) @ '' buckets, max='' @
     map char_of (decimal (nat maxBuckets)) @ '')''"

definition assertBounds :: "int option \<Rightarrow> int option \<Rightarrow> bucket_spec \<Rightarrow> int \<Rightarrow> failure + unit" where
  "assertBounds startT endT spec maxBuckets =
     (case (startT, endT) of
        (Some s, Some e) \<Rightarrow>
          if e \<le> s then Inl (DomainError Validation ''Invalid date range'')
          else let est = ceil_div (e - s) (spec_approxMs spec) + 2 in
            if est > maxBuckets then Inl (DomainError Validation (range_too_large spec est maxBuckets))
            else Inr ()
      | _ \<Rightarrow> Inl (DomainError Validation ''Invalid date range''))"

definition LAST_UNIT_MS :: "relative_unit \<Rightarrow> int" where
  "LAST_UNIT_MS u = (case u of
      Hours \<Rightarrow> 60 * 60 * 1000
    | Days \<Rightarrow> 24 * 60 * 60 * 1000
    | Weeks \<Rightarrow> 7 * 24 * 60 * 60 * 1000
    | Months \<Rightarrow> 30 * 24 * 60 * 60 * 1000
    | Years \<Rightarrow> 365 * 24 * 60 * 60 * 1000)"

definition MAX_DATE_RANGE_MS :: int where "MAX_DATE_RANGE_MS = 8640000000000000"

text \<open>Whether the schema's \<open>validateRelativeWindow\<close> finds nothing to refuse.\<close>

definition validateRelativeWindow :: "bucket_alias \<Rightarrow> int option \<Rightarrow> int option \<Rightarrow> jstr option \<Rightarrow> int \<Rightarrow> bool" where
  "validateRelativeWindow bucket startT endT last' maxBuckets =
     (if startT \<noteq> None \<and> endT \<noteq> None then True
      else case last' of
        None \<Rightarrow> True
      | Some l \<Rightarrow>
        (case parseRelativeWindow l of
           None \<Rightarrow> True
         | Some (amount, u) \<Rightarrow>
             if amount > MAX_DATE_RANGE_MS div LAST_UNIT_MS u then False
             else ceil_div (amount * LAST_UNIT_MS u) (spec_approxMs (resolveBucket (Some bucket))) + 2 \<le> maxBuckets))"

end
