(* ===== verification/RangeProperties.thy ===== *)
theory RangeProperties imports RelativeRange begin

text \<open>
  What the analytics ranges promise: the end of a range is the next start of a bucket, a window of
  months keeps the day and the time, a wall time is turned into the right instant across a change of
  the clocks, and the windows never ask for more buckets than allowed.
\<close>

lemma HOUR_MS_eq: "HOUR_MS = 3600000"
  by (simp add: HOUR_MS_def)

lemma DAY_MS_eq: "DAY_MS = MS_PER_DAY"
  by (simp add: DAY_MS_def HOUR_MS_def MS_PER_DAY_def)

section \<open>Bucket starts\<close>

definition bucket_start :: "bucket_alias \<Rightarrow> int \<Rightarrow> bool" where
  "bucket_start b t \<longleftrightarrow> (case b of
      Bucket_1h \<Rightarrow> t mod HOUR_MS = 0
    | Bucket_1d \<Rightarrow> t mod DAY_MS = 0
    | Bucket_1w \<Rightarrow> t mod DAY_MS = 0 \<and> getUTCDay t = 1
    | Bucket_1m \<Rightarrow> t mod DAY_MS = 0 \<and> getUTCDate t = 1
    | Bucket_1y \<Rightarrow> t mod DAY_MS = 0 \<and> getUTCDate t = 1 \<and> getUTCMonth t = 0)"

lemma day_of_midnight [simp]: "k * MS_PER_DAY div MS_PER_DAY = k" "k * MS_PER_DAY mod MS_PER_DAY = 0"
  by (simp_all add: MS_PER_DAY_def)

lemma midnight_parts [simp]:
  "getUTCFullYear (k * MS_PER_DAY) = year_of_day k" "getUTCMonth (k * MS_PER_DAY) = month_of_day k"
  "getUTCDate (k * MS_PER_DAY) = date_of_day k"
  by (simp_all add: getUTCFullYear_def getUTCMonth_def getUTCDate_def)

lemma midnightE:
  assumes "t mod MS_PER_DAY = 0"
  obtains k where "t = k * MS_PER_DAY"
  using that[of "t div MS_PER_DAY"] assms div_mult_mod_eq[of t MS_PER_DAY] by simp

lemma midnight_after: "w < k * MS_PER_DAY \<longleftrightarrow> w div MS_PER_DAY < k"
  using div_lower[of MS_PER_DAY w] div_upper[of MS_PER_DAY w] by (simp add: MS_PER_DAY_def) linarith

lemma midnight_le [simp]: "j * MS_PER_DAY \<le> k * MS_PER_DAY \<longleftrightarrow> j \<le> k"
  by (simp add: MS_PER_DAY_def)

lemma year_from_1970: "0 \<le> d \<Longrightarrow> 1970 \<le> year_of_day d"
  using year_of_day(2)[of d] day_from_year_less[of "year_of_day d + 1" 1970]
  by (cases "year_of_day d + 1 = 1970") (auto simp: day_from_year_def)

lemma same_month_day:
  assumes "valid_date y m d" "first_day y m \<le> k" "k < first_day y (m + 1)"
  shows "year_of_day k = y" "month_of_day k = m" "date_of_day k = k - first_day y m + 1"
proof -
  have "valid_date y m (k - first_day y m + 1)"
    using assms first_day_next[of m y] by (auto simp: valid_date_def)
  from day_parts_unique[OF this] show "year_of_day k = y" "month_of_day k = m" "date_of_day k = k - first_day y m + 1"
    by simp_all
qed

lemma first_of_month:
  assumes "valid_date y m d"
  shows "year_of_day (first_day y m) = y" "month_of_day (first_day y m) = m" "date_of_day (first_day y m) = 1"
proof -
  have "valid_date y m 1" using assms by (auto simp: valid_date_def)
  from day_parts_unique[OF this] show "year_of_day (first_day y m) = y" "month_of_day (first_day y m) = m"
    "date_of_day (first_day y m) = 1" by simp_all
qed

lemma month_length_pos: "0 \<le> m \<Longrightarrow> m \<le> 11 \<Longrightarrow> 28 \<le> days_in_month y m"
  using days_before_month_next[of m "leap_year y"] by (simp add: days_in_month_def)

lemma Date_UTC_midnight:
  "0 \<le> m \<Longrightarrow> m \<le> 12 \<Longrightarrow> Date_UTC y m d 0 = new_Date ((first_day (full_year y) m + d - 1) * MS_PER_DAY)"
  by (cases "m = 12") (simp_all add: Date_UTC_def new_Date_def Let_def)

text \<open>A time with the day it is in.\<close>

lemma day_of_time:
  assumes "d = w div MS_PER_DAY"
  shows "getUTCFullYear w = year_of_day d" "getUTCMonth w = month_of_day d" "getUTCDate w = date_of_day d"
    "getUTCDay w = (4 + d) mod 7" "d * MS_PER_DAY \<le> w" "w < d * MS_PER_DAY + MS_PER_DAY"
  using div_lower[of MS_PER_DAY w] div_upper[of MS_PER_DAY w] assms
  by (simp_all add: getUTCFullYear_def getUTCMonth_def getUTCDate_def getUTCDay_def MS_PER_DAY_def)

definition is_next_start :: "bucket_alias \<Rightarrow> int \<Rightarrow> int \<Rightarrow> bool" where
  "is_next_start b w r \<longleftrightarrow> bucket_start b r \<and> w < r \<and> (\<forall>t. bucket_start b t \<and> w < t \<longrightarrow> r \<le> t)"

text \<open>The next start among midnights is found among the days.\<close>

lemma next_midnight:
  assumes "b \<noteq> Bucket_1h" "\<And>k. bucket_start b (k * MS_PER_DAY) \<longleftrightarrow> Q k"
    and "Q k" "w div MS_PER_DAY < k" "\<And>j. Q j \<Longrightarrow> w div MS_PER_DAY < j \<Longrightarrow> k \<le> j"
  shows "is_next_start b w (k * MS_PER_DAY)"
  unfolding is_next_start_def
proof (intro conjI allI impI)
  show "bucket_start b (k * MS_PER_DAY)" using assms by simp
  show "w < k * MS_PER_DAY" using assms by (simp add: midnight_after)
  fix t assume t: "bucket_start b t \<and> w < t"
  then have "t mod MS_PER_DAY = 0" using assms(1) by (auto simp: bucket_start_def DAY_MS_eq split: bucket_alias.splits)
  then obtain j where "t = j * MS_PER_DAY" by (rule midnightE)
  with t assms(2,5) show "k * MS_PER_DAY \<le> t" by (simp add: midnight_after)
qed

lemma next_hour: "is_next_start Bucket_1h w (w div HOUR_MS * HOUR_MS + HOUR_MS)"
proof -
  have "w div HOUR_MS * HOUR_MS + HOUR_MS \<le> t" if "t mod HOUR_MS = 0" "w < t" for t
  proof -
    have t: "t = t div HOUR_MS * HOUR_MS" using that(1) div_mult_mod_eq[of t HOUR_MS] by simp
    then have "w div HOUR_MS < t div HOUR_MS"
      using that(2) div_lower[of HOUR_MS w] by (simp add: HOUR_MS_eq)
    then show ?thesis by (subst t) (simp add: HOUR_MS_eq)
  qed
  then show ?thesis
    using div_upper[of HOUR_MS w]
    by (simp add: is_next_start_def bucket_start_def HOUR_MS_eq mult.commute)
qed

lemma next_start_day: "is_next_start Bucket_1d w ((w div MS_PER_DAY + 1) * MS_PER_DAY)"
  by (rule next_midnight[where Q = "\<lambda>_. True"]) (auto simp: bucket_start_def DAY_MS_eq)

lemma next_monday:
  fixes d :: int
  shows "(4 + (d + (7 - ((4 + d) mod 7 + 6) mod 7))) mod 7 = 1" "d < d + (7 - ((4 + d) mod 7 + 6) mod 7)"
    "(4 + j) mod 7 = 1 \<Longrightarrow> d < j \<Longrightarrow> d + (7 - ((4 + d) mod 7 + 6) mod 7) \<le> j"
  by presburger+

lemma next_start_week:
  "is_next_start Bucket_1w w ((w div MS_PER_DAY + (7 - ((4 + w div MS_PER_DAY) mod 7 + 6) mod 7)) * MS_PER_DAY)"
proof (rule next_midnight[where Q = "\<lambda>k. (4 + k) mod 7 = 1"])
  show "bucket_start Bucket_1w (k * MS_PER_DAY) \<longleftrightarrow> (4 + k) mod 7 = 1" for k
    by (simp add: bucket_start_def DAY_MS_eq getUTCDay_def)
qed (rule next_monday | simp)+

lemma next_start_month:
  assumes "d = w div MS_PER_DAY"
  shows "is_next_start Bucket_1m w (first_day (year_of_day d) (month_of_day d + 1) * MS_PER_DAY)"
proof (rule next_midnight[where Q = "\<lambda>k. date_of_day k = 1"])
  let ?y = "year_of_day d" and ?m = "month_of_day d"
  have valid: "valid_date ?y ?m (date_of_day d)" and d: "first_day ?y ?m + date_of_day d - 1 = d" by (rule day_parts)+
  then have m: "0 \<le> ?m" "?m \<le> 11" "first_day ?y ?m \<le> d" "d < first_day ?y (?m + 1)"
    using first_day_next[of ?m ?y] by (auto simp: valid_date_def)
  show "bucket_start Bucket_1m (k * MS_PER_DAY) \<longleftrightarrow> date_of_day k = 1" for k
    by (simp add: bucket_start_def DAY_MS_eq getUTCDate_def)
  show "w div MS_PER_DAY < first_day ?y (?m + 1)" using m assms by simp
  show "date_of_day (first_day ?y (?m + 1)) = 1"
  proof (cases "?m = 11")
    case True
    have "valid_date (?y + 1) 0 1" using month_length_pos[of 0 "?y + 1"] by (simp add: valid_date_def)
    from first_of_month(3)[OF this] True show ?thesis by simp
  next
    case False
    then have "valid_date ?y (?m + 1) 1" using m month_length_pos[of "?m + 1" ?y] by (simp add: valid_date_def)
    from first_of_month(3)[OF this] show ?thesis .
  qed
  show "first_day ?y (?m + 1) \<le> j" if "date_of_day j = 1" "w div MS_PER_DAY < j" for j
  proof (rule ccontr)
    assume "\<not> first_day ?y (?m + 1) \<le> j"
    then have "date_of_day j = j - first_day ?y ?m + 1"
      using same_month_day(3)[OF valid, of j] m that assms by simp
    with that m assms show False by simp
  qed
qed simp

lemma next_start_year:
  assumes "d = w div MS_PER_DAY"
  shows "is_next_start Bucket_1y w (day_from_year (year_of_day d + 1) * MS_PER_DAY)"
proof (rule next_midnight[where Q = "\<lambda>k. date_of_day k = 1 \<and> month_of_day k = 0"])
  let ?y = "year_of_day d"
  show "bucket_start Bucket_1y (k * MS_PER_DAY) \<longleftrightarrow> date_of_day k = 1 \<and> month_of_day k = 0" for k
    by (simp add: bucket_start_def DAY_MS_eq getUTCDate_def getUTCMonth_def)
  show "w div MS_PER_DAY < day_from_year (?y + 1)" using year_of_day(2)[of d] assms by simp
  have "valid_date (?y + 1) 0 1" using month_length_pos[of 0 "?y + 1"] by (simp add: valid_date_def)
  from first_of_month(2,3)[OF this]
  show "date_of_day (day_from_year (?y + 1)) = 1 \<and> month_of_day (day_from_year (?y + 1)) = 0" by simp
  show "day_from_year (?y + 1) \<le> j" if j: "date_of_day j = 1 \<and> month_of_day j = 0" "w div MS_PER_DAY < j" for j
  proof (rule ccontr)
    assume "\<not> day_from_year (?y + 1) \<le> j"
    then have "year_of_day j = ?y" using j year_of_day(1)[of d] assms by (intro year_of_day_eq) auto
    with day_parts(2)[of j] j have "j = day_from_year ?y" by simp
    with j(2) year_of_day(1)[of d] assms show False by simp
  qed
qed simp

section \<open>The end of a range\<close>

lemma new_Date_Some: "\<bar>t\<bar> \<le> MAX_TIME_MS \<Longrightarrow> new_Date t = Some t"
  by (simp add: new_Date_def)

text \<open>The dates the code computes from a time with its own fields: \<open>Date.UTC\<close> must not take its year for another.\<close>

lemma own_midnight:
  assumes "MS_PER_DAY - MAX_TIME_MS \<le> w" "w \<le> MAX_TIME_MS" "d = w div MS_PER_DAY" "full_year (year_of_day d) = year_of_day d"
  shows "Date_UTC (year_of_day d) (month_of_day d) (date_of_day d) 0 = Some (d * MS_PER_DAY)"
proof -
  have m: "0 \<le> month_of_day d" "month_of_day d \<le> 12" using day_parts(1)[of d] by (auto simp: valid_date_def)
  have "d * MS_PER_DAY \<le> w" "w < d * MS_PER_DAY + MS_PER_DAY" using day_of_time(5,6)[OF assms(3)] by simp_all
  then have "new_Date (d * MS_PER_DAY) = Some (d * MS_PER_DAY)" using assms(1,2) by (intro new_Date_Some) linarith
  then show ?thesis using day_parts(2)[of d] by (simp add: Date_UTC_midnight[OF m] assms(4))
qed

text \<open>The year whose number \<open>startOfNextBucketWall\<close> hands to \<open>Date.UTC\<close>.\<close>

definition named_year :: "int \<Rightarrow> bucket_alias \<Rightarrow> int" where
  "named_year w b = (if b = Bucket_1y then getUTCFullYear w + 1 else getUTCFullYear w)"

lemma next_start_found:
  assumes "\<bar>w\<bar> + 367 * DAY_MS \<le> MAX_TIME_MS" "b = Bucket_1h \<or> full_year (named_year w b) = named_year w b"
  shows "\<exists>r. startOfNextBucketWall w b = Some r \<and> is_next_start b w r \<and> r \<le> w + 366 * DAY_MS"
proof -
  define d where "d = w div MS_PER_DAY"
  note time = day_of_time[OF d_def]
  have wall: "new_Date w = Some w" using assms(1) by (intro new_Date_Some) (simp add: DAY_MS_eq MS_PER_DAY_def)
  have midnight: "Date_UTC (year_of_day d) (month_of_day d) (date_of_day d) 0 = Some (d * MS_PER_DAY)"
    if "full_year (year_of_day d) = year_of_day d"
    using assms(1) that by (intro own_midnight[OF _ _ d_def]) (simp_all add: DAY_MS_eq MS_PER_DAY_def)
  have month: "0 \<le> month_of_day d" "month_of_day d + 1 \<le> 12" using day_parts(1)[of d] by (auto simp: valid_date_def)
  have in_year: "first_day (year_of_day d) (month_of_day d + 1) \<le> day_from_year (year_of_day d + 1)"
    using first_day_less[of "month_of_day d + 1" 12 "year_of_day d"] month by (cases "month_of_day d = 11") auto
  have near: "first_day (year_of_day d) (month_of_day d + 1) \<le> d + 366" "day_from_year (year_of_day d + 1) \<le> d + 366"
    "d < first_day (year_of_day d) (month_of_day d + 1)" "d < day_from_year (year_of_day d + 1)"
    using next_start_month[OF d_def] next_start_year[OF d_def] year_of_day[of d] day_from_year_Suc[of "year_of_day d"]
      in_year
    by (auto simp: is_next_start_def midnight_after d_def[symmetric] split: if_splits)
  have valid: "new_Date (k * MS_PER_DAY) = Some (k * MS_PER_DAY)" if "d < k" "k \<le> d + 366" for k
    using that assms(1) time(5,6) by (intro new_Date_Some) (simp add: DAY_MS_eq MS_PER_DAY_def)
  have upper: "k * MS_PER_DAY \<le> w + 366 * DAY_MS" if "k \<le> d + 366" for k
    using that time(5) by (simp add: DAY_MS_eq MS_PER_DAY_def)
  show ?thesis
  proof (cases b)
    case Bucket_1h
    then show ?thesis
      using next_hour div_lower[of HOUR_MS w] by (simp add: startOfNextBucketWall_def HOUR_MS_eq DAY_MS_eq MS_PER_DAY_def)
  next
    case Bucket_1d
    then show ?thesis using assms(2) next_start_day[of w] midnight upper[of "d + 1"]
      by (simp add: startOfNextBucketWall_def named_year_def wall time Let_def DAY_MS_eq d_def[symmetric] distrib_right)
  next
    case Bucket_1w
    then show ?thesis using assms(2) next_start_week[of w] midnight upper[of "d + (7 - ((4 + d) mod 7 + 6) mod 7)"]
      by (simp add: startOfNextBucketWall_def named_year_def wall time Let_def DAY_MS_eq d_def[symmetric] distrib_right del: mod_add_left_eq)
  next
    case Bucket_1m
    with assms(2) have "full_year (year_of_day d) = year_of_day d" by (simp add: named_year_def time)
    then have "Date_UTC (year_of_day d) (month_of_day d + 1) 1 0 = Some (first_day (year_of_day d) (month_of_day d + 1) * MS_PER_DAY)"
      using month near(1,3) by (simp add: Date_UTC_midnight valid)
    with Bucket_1m next_start_month[OF d_def] near(1) upper show ?thesis by (simp add: startOfNextBucketWall_def wall time Let_def)
  next
    case Bucket_1y
    with assms(2) have "full_year (year_of_day d + 1) = year_of_day d + 1" by (simp add: named_year_def time)
    then have "Date_UTC (year_of_day d + 1) 0 1 0 = Some (day_from_year (year_of_day d + 1) * MS_PER_DAY)"
      using near(2,4) by (simp add: Date_UTC_midnight valid)
    with Bucket_1y next_start_year[OF d_def] near(2) upper show ?thesis by (simp add: startOfNextBucketWall_def wall time Let_def)
  qed
qed

text \<open>A date of the years 0 to 99 lands in the nineteen hundreds, far beyond.\<close>

lemma next_start_far:
  assumes "0 \<le> named_year w b" "named_year w b \<le> 99" "b \<noteq> Bucket_1h" "startOfNextBucketWall w b = Some r"
  shows "w + 366 * DAY_MS < r"
proof -
  define d where "d = w div MS_PER_DAY"
  note time = day_of_time[OF d_def]
  let ?y = "year_of_day d"
  have wall: "new_Date w = Some w" using assms(3,4) by (auto simp: startOfNextBucketWall_def new_Date_def split: bucket_alias.splits if_splits)
  have "?y \<le> 99" using assms(1,2) by (auto simp: named_year_def time split: if_splits)
  then have "day_from_year (?y + 1) \<le> day_from_year 100" using day_from_year_less[of "?y + 1" 100] by (cases "?y = 99") auto
  then have early: "d < - 682000" using year_of_day(2)[of d] by (simp add: day_from_year_def)
  have late: "(- 26000) * MS_PER_DAY \<le> s" if "Date_UTC y m k 0 = Some s" "0 \<le> y" "y \<le> 99" "0 \<le> m" "m \<le> 12" "1 \<le> k" for y m k s
  proof -
    have s: "s = (first_day (1900 + y) m + k - 1) * MS_PER_DAY"
      using that(1-5) by (simp add: Date_UTC_midnight new_Date_def full_year_def split: if_splits)
    have "day_from_year 1900 \<le> day_from_year (1900 + y)" using day_from_year_less[of 1900 "1900 + y"] that(2) by (cases "y = 0") auto
    moreover have "day_from_year (1900 + y) \<le> first_day (1900 + y) m"
      using first_day_less[of 0 m "1900 + y"] that(4,5) by (cases "m = 0") auto
    ultimately have "- 26000 \<le> first_day (1900 + y) m + k - 1" using that(6) by (simp add: day_from_year_def)
    then show ?thesis unfolding s by (simp add: MS_PER_DAY_def)
  qed
  have month: "0 \<le> month_of_day d" "month_of_day d + 1 \<le> 12" "1 \<le> date_of_day d" using day_parts(1)[of d] by (auto simp: valid_date_def)
  have "(- 26000) * MS_PER_DAY \<le> r"
  proof (cases b)
    case Bucket_1d
    with assms(1,2,4) wall late[of ?y "month_of_day d" "date_of_day d"] month show ?thesis
      by (auto simp: startOfNextBucketWall_def named_year_def time Let_def DAY_MS_eq MS_PER_DAY_def)
  next
    case Bucket_1w
    then obtain s where s: "Date_UTC ?y (month_of_day d) (date_of_day d) 0 = Some s" "r = s + (7 - ((4 + d) mod 7 + 6) mod 7) * DAY_MS"
      using assms(4) wall by (auto simp: startOfNextBucketWall_def time Let_def)
    have "0 \<le> 7 - ((4 + d) mod 7 + 6) mod 7" using pos_mod_bound[of 7 "(4 + d) mod 7 + 6"] by simp
    with s Bucket_1w assms(1,2) late[of ?y "month_of_day d" "date_of_day d" s] month show ?thesis
      by (auto simp: named_year_def time DAY_MS_eq MS_PER_DAY_def)
  next
    case Bucket_1m
    with assms(1,2,4) wall late[of ?y "month_of_day d + 1" 1] month show ?thesis
      by (auto simp: startOfNextBucketWall_def named_year_def time Let_def)
  next
    case Bucket_1y
    with assms(1,2,4) wall late[of "?y + 1" 0 1] show ?thesis
      by (auto simp: startOfNextBucketWall_def named_year_def time Let_def)
  qed (use assms(3) in simp)
  then show ?thesis using early time(6) by (simp add: DAY_MS_eq MS_PER_DAY_def)
qed

text \<open>
  C37. The end of a relative range is the first start of a bucket after the wall time it is taken at:
  of an hour, a day, a week beginning on Monday, a month or a year; none lies between, and it is at most a year away.
  This holds at every wall time a date can hold, more than a year from either end of what it can, except exactly where the
  code names a year from 0 to 99, which \<open>Date.UTC\<close> takes for one of the nineteen hundreds: then the end of a day,
  a week, a month or a year lies centuries after the wall time.
\<close>

theorem next_bucket_is_least:
  assumes "\<bar>w\<bar> + 367 * DAY_MS \<le> MAX_TIME_MS"
  shows "(\<exists>r. startOfNextBucketWall w b = Some r \<and> bucket_start b r \<and> w < r \<and> r \<le> w + 366 * DAY_MS \<and>
       (\<forall>t. bucket_start b t \<and> w < t \<longrightarrow> r \<le> t)) \<longleftrightarrow>
     b = Bucket_1h \<or> \<not> (0 \<le> named_year w b \<and> named_year w b \<le> 99)"
proof (cases "b = Bucket_1h \<or> \<not> (0 \<le> named_year w b \<and> named_year w b \<le> 99)")
  case True
  then have "b = Bucket_1h \<or> full_year (named_year w b) = named_year w b" by (auto simp: full_year_def)
  from next_start_found[OF assms this] True show ?thesis by (auto simp: is_next_start_def)
next
  case False
  with next_start_far[of w b] show ?thesis by fastforce
qed

theorem next_bucket_is_least_witness:
  "\<exists>r. startOfNextBucketWall 1792540800000 Bucket_1m = Some r \<and> bucket_start Bucket_1m r \<and> 1792540800000 < r"
proof -
  have "getUTCFullYear 1792540800000 = 2026"
    by (simp add: getUTCFullYear_def year_of_day_def MS_PER_DAY_def day_from_year_def Let_def)
  then have "\<not> (0 \<le> named_year 1792540800000 Bucket_1m \<and> named_year 1792540800000 Bucket_1m \<le> 99)" by (simp add: named_year_def)
  moreover have "\<bar>1792540800000\<bar> + 367 * DAY_MS \<le> MAX_TIME_MS" by (simp add: DAY_MS_eq MS_PER_DAY_def MAX_TIME_MS_def)
  ultimately show ?thesis using next_bucket_is_least[of 1792540800000 Bucket_1m] by blast
qed

section \<open>Windows of months\<close>

lemma first_day_range:
  assumes "0 \<le> y" "y \<le> 275000" "0 \<le> m" "m \<le> 12"
  shows "- 720000 \<le> first_day y m" "first_day y m \<le> 99800000"
proof -
  have "day_from_year y \<le> first_day y m"
    using first_day_less[of 0 m y] assms by (cases "m = 0") auto
  moreover have "first_day y m \<le> day_from_year (y + 1)"
    using first_day_less[of m 12 y] assms by (cases "m = 12") auto
  moreover have "- 720000 \<le> day_from_year y" "day_from_year (y + 1) \<le> 99800000"
    using day_from_year_near(1)[of y] day_from_year_near(2)[of "y + 1"] assms by (simp_all add: algebra_simps)
  ultimately show "- 720000 \<le> first_day y m" "first_day y m \<le> 99800000" by linarith+
qed

lemma Date_UTC_Some:
  assumes "0 \<le> full_year y" "full_year y \<le> 275000" "0 \<le> m" "m \<le> 12" "0 \<le> d" "d \<le> 31"
  shows "Date_UTC y m d 0 = Some ((first_day (full_year y) m + d - 1) * MS_PER_DAY)"
  unfolding Date_UTC_midnight[OF assms(3,4)]
  using first_day_range[OF assms(1-4)] assms(5,6) by (intro new_Date_Some) (simp add: MS_PER_DAY_def MAX_TIME_MS_def)

lemma days_in_month_le: "0 \<le> m \<Longrightarrow> m \<le> 11 \<Longrightarrow> days_in_month y m \<le> 31"
  using month_range[of m] by (auto simp: days_in_month_def days_before_month_def)

text \<open>
  Going back a number of months keeps the time of day and lands in the month that many months
  before, on the same day of the month, or on its last day when the month is shorter. The year is the
  one counted back to, unless that is below 100: it is then taken for one of the nineteen hundreds.
\<close>

theorem months_back:
  assumes "0 \<le> w" "w \<le> 8600000000000000" "0 \<le> months"
    and "year = (12 * getUTCFullYear w + getUTCMonth w - months) div 12" "0 \<le> year"
    and "month = (12 * getUTCFullYear w + getUTCMonth w - months) mod 12"
  shows "\<exists>r. subtractMonthsWall w months = Some r \<and> r mod DAY_MS = w mod DAY_MS \<and>
     getUTCFullYear r = full_year year \<and> getUTCMonth r = month \<and>
     getUTCDate r = min (getUTCDate w) (days_in_month (full_year year) month)"
proof -
  define d where "d = w div MS_PER_DAY"
  note time = day_of_time[OF d_def]
  define y m where "y = year_of_day d" and "m = month_of_day d"
  let ?Y = "full_year year"
  have d: "0 \<le> d" "d \<le> 99600000" using assms(1,2) time(5) by (simp_all add: d_def MS_PER_DAY_def)
  then have y: "1970 \<le> y" "y < 275000"
    using year_from_1970[of d] year_of_day(1)[of d] day_from_year_near(1)[of y]
    by (auto simp: y_def algebra_simps)
  have m: "0 \<le> m" "m \<le> 11" using day_parts(1)[of d] by (auto simp: m_def valid_date_def)
  have counted: "y + (m - months) div 12 = year" "(m - months) mod 12 = month"
    using div_mult_self1[of 12 "m - months" y] mod_mult_self1[of "m - months" y 12]
    by (simp_all add: assms(4,6) time y_def m_def algebra_simps)
  have month: "0 \<le> month" "month \<le> 11" by (simp_all add: assms(6))
  have year: "year < 275000" using counted(1) y m assms(3) by linarith
  have Y: "0 \<le> ?Y" "?Y \<le> 275000" using assms(5) year by (auto simp: full_year_def)
  let ?dim = "days_in_month ?Y month"
  have dim: "28 \<le> ?dim" "?dim \<le> 31" using month month_length_pos days_in_month_le by auto
  have date: "1 \<le> date_of_day d" using day_parts(1)[of d] by (simp add: valid_date_def)
  have wall: "new_Date w = Some w" using assms(1,2) by (intro new_Date_Some) (simp add: MAX_TIME_MS_def)
  have "full_year y = y" using y by (simp add: full_year_def)
  then have "Date_UTC y (m - months) 1 0 = new_Date (first_day year month * MS_PER_DAY)"
    by (simp add: Date_UTC_def new_Date_def counted Let_def)
  also have "\<dots> = Some (first_day year month * MS_PER_DAY)"
    using first_day_range[of year month] assms(5) year month by (intro new_Date_Some) (simp add: MS_PER_DAY_def MAX_TIME_MS_def)
  finally have first: "Date_UTC y (m - months) 1 0 = Some (first_day year month * MS_PER_DAY)" .
  have "valid_date year month 1" using month month_length_pos[of month year] by (simp add: valid_date_def)
  note target_parts = first_of_month[OF this]
  have last_day: "Date_UTC year (month + 1) 0 0 = Some ((first_day ?Y (month + 1) - 1) * MS_PER_DAY)"
    using Date_UTC_Some[of year "month + 1" 0] Y month by simp
  have last_date: "date_of_day (first_day ?Y (month + 1) - 1) = ?dim"
    using day_parts_unique(3)[of ?Y month ?dim] first_day_next[of month ?Y] month dim by (simp add: valid_date_def)
  have start: "Date_UTC y m (date_of_day d) 0 = Some (d * MS_PER_DAY)"
    unfolding y_def m_def
    by (rule own_midnight[OF _ _ d_def]) (use assms(1,2) y in \<open>simp_all add: MAX_TIME_MS_def MS_PER_DAY_def full_year_def y_def\<close>)
  let ?date = "min (date_of_day d) ?dim"
  let ?day = "first_day ?Y month + ?date - 1"
  have "Date_UTC year month ?date 0 = Some (?day * MS_PER_DAY)"
    using Date_UTC_Some[of year month ?date] Y month dim date by simp
  then have run: "subtractMonthsWall w months = Some (?day * MS_PER_DAY + (w - d * MS_PER_DAY))"
    by (simp add: subtractMonthsWall_def wall time y_def[symmetric] m_def[symmetric] first last_day start last_date
        target_parts)
  have "w - d * MS_PER_DAY = w mod MS_PER_DAY" by (simp add: d_def minus_div_mult_eq_mod)
  moreover have "(?day * MS_PER_DAY + w mod MS_PER_DAY) div MS_PER_DAY = ?day"
    by (simp add: MS_PER_DAY_def)
  moreover have "valid_date ?Y month ?date" using month dim date by (simp add: valid_date_def)
  note parts = day_parts_unique[OF this]
  ultimately show ?thesis
    using run parts by (intro exI[of _ "?day * MS_PER_DAY + w mod MS_PER_DAY"])
      (simp add: DAY_MS_eq getUTCFullYear_def getUTCMonth_def getUTCDate_def d_def)
qed

text \<open>A month back from the last of May.\<close>

lemma sample_last_of_may:
  "first_day 2025 4 + 31 - 1 = 20239" "valid_date 2025 4 31" "days_in_month (full_year 2025) 3 = 30"
  by (simp_all add: valid_date_def days_in_month_def first_day_def days_before_month_def day_from_year_def
      leap_year_def full_year_def)

theorem months_back_witness:
  "\<exists>r. subtractMonthsWall (20239 * MS_PER_DAY) 1 = Some r \<and> getUTCMonth r = 3 \<and> getUTCDate r = 30"
proof -
  note parts = day_parts_unique[OF sample_last_of_may(2), unfolded sample_last_of_may(1)]
  have "2025 = (12 * getUTCFullYear (20239 * MS_PER_DAY) + getUTCMonth (20239 * MS_PER_DAY) - 1) div 12"
    "3 = (12 * getUTCFullYear (20239 * MS_PER_DAY) + getUTCMonth (20239 * MS_PER_DAY) - 1) mod 12"
    unfolding midnight_parts parts by simp_all
  from months_back[OF _ _ _ this(1) _ this(2)] obtain r where
    "subtractMonthsWall (20239 * MS_PER_DAY) 1 = Some r" "getUTCMonth r = 3"
    "getUTCDate r = min (getUTCDate (20239 * MS_PER_DAY)) (days_in_month (full_year 2025) 3)"
    by (auto simp: MS_PER_DAY_def)
  then show ?thesis unfolding midnight_parts parts sample_last_of_may(3) by simp
qed

section \<open>Instants of a wall time\<close>

text \<open>
  What a time zone does around a moment: its clocks are moved at most once in the days around, by
  offsets of less than a day.
\<close>

definition clocks_move_once :: "zone \<Rightarrow> int \<Rightarrow> int \<Rightarrow> int \<Rightarrow> int \<Rightarrow> bool" where
  "clocks_move_once Z wall T before after \<longleftrightarrow> \<bar>before\<bar> < DAY_MS \<and> \<bar>after\<bar> < DAY_MS \<and>
     (\<forall>t \<in> {wall - DAY_MS..wall + DAY_MS}. offsetAt Z t = (if t < T then before else after))"

lemma wallTimeOf_offset: "wallTimeOf Z t = t + offsetAt Z t"
  by (simp add: offsetAt_def)

lemma offset_change_finds:
  assumes "\<And>t. lo \<le> t \<Longrightarrow> t \<le> hi \<Longrightarrow> offsetAt Z t = (if t < T then o1 else o2)"
    and "lo < T" "T \<le> hi" "o1 \<noteq> o2"
  shows "offset_change Z o2 lo hi = T"
  using assms
proof (induction Z o2 lo hi rule: offset_change.induct)
  case (1 Z o2 lo hi)
  define middle where "middle = lo + (hi - lo) div 2"
  show ?case
  proof (cases "hi - lo > 1")
    case False
    then have "hi = T" using 1(4,5) by linarith
    with False show ?thesis by (simp add: offset_change.simps)
  next
    case True
    then have range: "lo < middle" "middle < hi" unfolding middle_def by linarith+
    then have offset: "offsetAt Z middle = (if middle < T then o1 else o2)" using 1(3) by simp
    show ?thesis
    proof (cases "middle < T")
      case before: True
      then have "offset_change Z o2 middle hi = T"
        using 1(2)[OF True middle_def] offset range 1(3-6) by auto
      then show ?thesis
        using True offset before 1(6) by (subst offset_change.simps) (simp add: Let_def middle_def[symmetric])
    next
      case after: False
      then have "offset_change Z o2 lo middle = T"
        using 1(1)[OF True middle_def] offset range 1(3-6) by auto
      then show ?thesis
        using True offset after by (subst offset_change.simps) (simp add: Let_def middle_def[symmetric])
    qed
  qed
qed

lemma instantOf_cases:
  fixes Z wall
  defines "c1 \<equiv> wall - offsetAt Z (wall - DAY_MS)" and "c2 \<equiv> wall - offsetAt Z (wall + DAY_MS)"
  shows "instantOf Z wall =
     (if wallTimeOf Z c1 = wall then if wallTimeOf Z c2 = wall then min c1 c2 else c1
      else if wallTimeOf Z c2 = wall then c2
      else offset_change Z (offsetAt Z (max c1 c2)) (min c1 c2) (max c1 c2))"
  unfolding instantOf_def c1_def[symmetric] c2_def[symmetric] by (simp add: Let_def)

text \<open>
  C38. A wall time becomes the earliest instant at which the clocks show it. When they never do,
  because they were moved forward over it, it becomes the moment they were moved, which the search
  finds exactly.
\<close>

theorem instant_of_wall_time:
  assumes "clocks_move_once Z wall T before after"
  shows "((\<exists>t \<in> {wall - DAY_MS..wall + DAY_MS}. wallTimeOf Z t = wall) \<longrightarrow>
      wallTimeOf Z (instantOf Z wall) = wall \<and>
      (\<forall>t \<in> {wall - DAY_MS..wall + DAY_MS}. wallTimeOf Z t = wall \<longrightarrow> instantOf Z wall \<le> t)) \<and>
    (\<not> (\<exists>t \<in> {wall - DAY_MS..wall + DAY_MS}. wallTimeOf Z t = wall) \<longrightarrow>
      instantOf Z wall = T \<and> wallTimeOf Z (T - 1) < wall \<and> wall < wallTimeOf Z T)"
proof -
  define c1 c2 where "c1 = wall - offsetAt Z (wall - DAY_MS)" and "c2 = wall - offsetAt Z (wall + DAY_MS)"
  have D: "0 < DAY_MS" by (simp add: DAY_MS_eq MS_PER_DAY_def)
  have small: "\<bar>before\<bar> < DAY_MS" "\<bar>after\<bar> < DAY_MS" using assms by (simp_all add: clocks_move_once_def)
  have offset: "offsetAt Z t = (if t < T then before else after)" if "wall - DAY_MS \<le> t" "t \<le> wall + DAY_MS" for t
    using assms that by (simp add: clocks_move_once_def)
  have c1: "c1 = wall - (if wall - DAY_MS < T then before else after)"
    and c2: "c2 = wall - (if wall + DAY_MS < T then before else after)"
    using offset[of "wall - DAY_MS"] offset[of "wall + DAY_MS"] D by (simp_all add: c1_def c2_def)
  have near: "wall - DAY_MS \<le> c1" "c1 \<le> wall + DAY_MS" "wall - DAY_MS \<le> c2" "c2 \<le> wall + DAY_MS"
    using small by (auto simp: c1 c2)
  have displayed: "wallTimeOf Z t = wall \<longleftrightarrow> t = wall - (if t < T then before else after)"
    if "wall - DAY_MS \<le> t" "t \<le> wall + DAY_MS" for t
    using offset[OF that] by (auto simp: wallTimeOf_offset)
  have found: "t = c1 \<or> t = c2" if "wall - DAY_MS \<le> t" "t \<le> wall + DAY_MS" "wallTimeOf Z t = wall" for t
    using displayed[OF that(1,2)] that small by (auto simp: c1 c2 split: if_splits)
  note run = instantOf_cases[of Z wall, folded c1_def c2_def]
  show ?thesis
  proof (cases "wallTimeOf Z c1 = wall \<or> wallTimeOf Z c2 = wall")
    case True
    then have "wallTimeOf Z (instantOf Z wall) = wall" by (auto simp: run min_def)
    moreover have "instantOf Z wall \<le> t" if "t \<in> {wall - DAY_MS..wall + DAY_MS}" "wallTimeOf Z t = wall" for t
      using found[of t] that by (auto simp: run)
    ultimately show ?thesis using True near by auto
  next
    case False
    then have none: "wallTimeOf Z t \<noteq> wall" if "t \<in> {wall - DAY_MS..wall + DAY_MS}" for t
      using found[of t] that by auto
    have gap: "c1 = wall - before" "c2 = wall - after" "T \<le> c1" "c2 < T"
      using False displayed[OF near(1,2)] displayed[OF near(3,4)] small by (auto simp: c1 c2 split: if_splits)
    have "offsetAt Z c1 = after" using offset[OF near(1,2)] gap(3) by simp
    moreover have "offset_change Z after c2 c1 = T"
      using gap near offset by (intro offset_change_finds) auto
    ultimately have "instantOf Z wall = T" using False gap by (simp add: run max_def min_def)
    moreover have "wallTimeOf Z (T - 1) < wall" "wall < wallTimeOf Z T"
      using offset[of "T - 1"] offset[of T] gap near by (auto simp: wallTimeOf_offset)
    ultimately show ?thesis using none by auto
  qed
qed

text \<open>A zone whose clocks go forward an hour.\<close>

definition sample_zone :: zone where
  "sample_zone t = t - t mod 1000 + (if t < 3600000 then 0 else 3600000)"

theorem instant_of_wall_time_witness:
  "instantOf sample_zone 5400000 = 3600000 \<and> wallTimeOf sample_zone (instantOf sample_zone 9000000) = 9000000"
proof -
  have offset: "offsetAt sample_zone t = (if t < 3600000 then 0 else 3600000)" for t
    by (simp add: offsetAt_def wallTimeOf_def sample_zone_def)
  then have moves: "clocks_move_once sample_zone wall 3600000 0 3600000" for wall
    by (simp add: clocks_move_once_def DAY_MS_eq MS_PER_DAY_def)
  have "\<not> (\<exists>t \<in> {5400000 - DAY_MS..5400000 + DAY_MS}. wallTimeOf sample_zone t = 5400000)"
    by (auto simp: wallTimeOf_offset offset split: if_splits)
  with instant_of_wall_time[OF moves[of 5400000]] have "instantOf sample_zone 5400000 = 3600000" by blast
  moreover have "wallTimeOf sample_zone 5400000 = 9000000" by (simp add: wallTimeOf_offset offset)
  then have "\<exists>t \<in> {9000000 - DAY_MS..9000000 + DAY_MS}. wallTimeOf sample_zone t = 9000000"
    by (intro bexI[of _ 5400000]) (simp_all add: DAY_MS_eq MS_PER_DAY_def)
  with instant_of_wall_time[OF moves[of 9000000]] have "wallTimeOf sample_zone (instantOf sample_zone 9000000) = 9000000" by blast
  ultimately show ?thesis by simp
qed

section \<open>Windows\<close>

definition char_of_unit :: "relative_unit \<Rightarrow> nat" where
  "char_of_unit u = (case u of Hours \<Rightarrow> 104 | Days \<Rightarrow> 100 | Weeks \<Rightarrow> 119 | Months \<Rightarrow> 109 | Years \<Rightarrow> 121)"

lemma unit_char [simp]: "unit_of_char (char_of_unit u) = u" "char_of_unit u \<in> {104, 100, 119, 109, 121}"
  by (cases u; simp add: unit_of_char_def char_of_unit_def)+

lemma char_unit: "c \<in> {104, 100, 119, 109, 121} \<Longrightarrow> char_of_unit (unit_of_char c) = c"
  by (auto simp: unit_of_char_def char_of_unit_def)

lemma parsed_window:
  assumes "parseRelativeWindow s = Some (n, u)"
  shows "0 < n \<and> n < 2 ^ 53 \<and> s = decimal (nat n) @ [char_of_unit u]"
proof -
  from assms have format: "last_window_format s" and n: "n = int (digits_value 0 (butlast s))" "0 < n" "n \<le> MAX_SAFE_INTEGER"
    and u: "u = unit_of_char (last s)"
    by (auto simp: parseRelativeWindow_def Let_def split: if_splits)
  from format have s: "s \<noteq> []" "butlast s \<noteq> []" "hd s \<noteq> 48" "\<forall>c \<in> set (butlast s). is_digit c" "last s \<in> {104, 100, 119, 109, 121}"
    by (cases s; cases "tl s"; auto simp: last_window_format_def list_all_iff)+
  have "hd (butlast s) = hd s" using s(1,2) by (cases s) auto
  then have "decimal (digits_value 0 (butlast s)) = butlast s" using s decimal_digits_value by auto
  then have "s = decimal (nat n) @ [char_of_unit u]"
    using s(1,5) char_unit n(1) u by simp
  with n show ?thesis by (auto simp: MAX_SAFE_INTEGER_def)
qed

lemma printed_window:
  assumes "0 < n" "n < 2 ^ 53"
  shows "parseRelativeWindow (decimal (nat n) @ [char_of_unit u]) = Some (n, u)"
proof -
  let ?s = "decimal (nat n) @ [char_of_unit u]"
  have "hd ?s \<noteq> 48" using assms(1) decimal_head[of "nat n"] decimal_nonempty[of "nat n"] by (simp add: hd_append)
  moreover have "2 \<le> length ?s" using decimal_nonempty[of "nat n"] by (cases "decimal (nat n)") auto
  ultimately have "last_window_format ?s"
    using decimal_digits[of "nat n"] unit_char(2)[of u] by (simp add: last_window_format_def list_all_iff)
  then show ?thesis using assms by (simp add: parseRelativeWindow_def Let_def decimal_value MAX_SAFE_INTEGER_def)
qed

text \<open>
  C39. A relative window is parsed exactly when it is a positive number, without a leading zero and
  small enough to be held exactly, and one of the five units; it is read as that number and unit.
\<close>

theorem window_roundtrip:
  "parseRelativeWindow s = Some (n, u) \<longleftrightarrow> 0 < n \<and> n < 2 ^ 53 \<and> s = decimal (nat n) @ [char_of_unit u]"
  using parsed_window[of s n u] printed_window[of n u] by blast

section \<open>How many buckets\<close>

lemma ceil_div_le: "0 < b \<Longrightarrow> a \<le> g * b \<Longrightarrow> ceil_div a b \<le> g"
proof -
  assume b: "0 < b" and a: "a \<le> g * b"
  have "(- g * b) div b \<le> (- a) div b" using a b by (intro zdiv_mono1) auto
  moreover have "(- g * b) div b = - g" using b by (metis nonzero_mult_div_cancel_right less_irrefl)
  ultimately show ?thesis by (simp add: ceil_div_def)
qed

lemma approx_pos: "0 < spec_approxMs (resolveBucket b)"
  by (simp add: resolveBucket_def split: option.splits bucket_alias.splits)

text \<open>
  C40. A fallback range ends with the bucket of the newest log, is not empty, and never spans more than
  the horizon nor more buckets than the guard allows; there is none without a log.
\<close>

theorem fallback_within_guard:
  assumes "computeFallbackRange requested lastLog Z guard horizon = Inr f" "0 < guard" "0 < horizon"
  shows "case lastLog of
      None \<Rightarrow> f = None
    | Some l \<Rightarrow> \<exists>c s e. f = Some c \<and> fallback_range c = \<lparr>range_start = Some s, range_end = Some e, range_bucket = range_bucket requested\<rparr> \<and>
        startOfNextBucket l (range_bucket requested) Z = Inr e \<and> s < e \<and> e - s \<le> horizon \<and>
        e - s \<le> guard * spec_approxMs (resolveBucket (Some (range_bucket requested))) \<and>
        fallback_estimatedBuckets c \<le> guard + 1"
proof (cases lastLog)
  case None
  with assms show ?thesis by (simp add: computeFallbackRange_def)
next
  case (Some l)
  let ?a = "spec_approxMs (resolveBucket (Some (range_bucket requested)))"
  let ?span = "min horizon (min (max (requestedDurationMs requested) ?a) (guard * ?a))"
  have a: "0 < ?a" by (rule approx_pos)
  then have "0 < guard * ?a" using assms(2) by simp
  then have span: "0 < ?span" "?span \<le> horizon" "?span \<le> guard * ?a" using a assms(3) by (auto simp: min_def max_def)
  from assms(1) Some obtain e where e: "startOfNextBucket l (range_bucket requested) Z = Inr e"
    and f: "f = Some \<lparr>fallback_range = \<lparr>range_start = Some (e - ?span), range_end = Some e, range_bucket = range_bucket requested\<rparr>,
      fallback_estimatedBuckets = estimateBuckets (e - ?span) e (resolveBucket (Some (range_bucket requested))),
      fallback_strategy = ''last_activity_window''\<rparr>"
    by (auto simp: computeFallbackRange_def Let_def valid_time_def split: sum.splits if_splits)
  have "estimateBuckets (e - ?span) e (resolveBucket (Some (range_bucket requested))) \<le> guard + 1"
    using span a by (simp add: estimateBuckets_def ceil_div_le)
  with e f span Some show ?thesis by simp
qed

text \<open>
  In a zone whose clocks are not moved, a window of hours, days or weeks is the range of exactly
  that length that ends with the current bucket; and a window the request schema accepts is never
  refused by the query's own bound on the number of buckets.
\<close>

theorem relative_range_exact:
  assumes "\<And>t. offsetAt Z t = off" "\<bar>off\<bar> < DAY_MS" "0 \<le> now + off" "now \<le> 8600000000000000"
    and "parseRelativeWindow l = Some (n, u)" "u \<in> {Hours, Days, Weeks}" "n * LAST_UNIT_MS u \<le> 8600000000000000"
  shows "\<exists>e. resolveRelativeRange l b Z now = Inr (e - n * LAST_UNIT_MS u, e) \<and> now < e \<and>
     bucket_start b (wallTimeOf Z e) \<and> (\<forall>t. now < t \<and> bucket_start b (wallTimeOf Z t) \<longrightarrow> e \<le> t) \<and>
     (validateRelativeWindow b None None (Some l) maxBuckets \<longrightarrow>
        assertBounds (Some (e - n * LAST_UNIT_MS u)) (Some e) (resolveBucket (Some b)) maxBuckets = Inr ())"
proof -
  have wall: "wallTimeOf Z t = t + off" for t using assms(1) by (simp add: wallTimeOf_offset)
  have instant: "instantOf Z t = t - off" for t by (simp add: instantOf_cases assms(1) wall)
  have "now + off + 367 * DAY_MS \<le> MAX_TIME_MS" using assms(2,4) by (simp add: DAY_MS_eq MS_PER_DAY_def MAX_TIME_MS_def)
  then have "\<bar>now + off\<bar> + 367 * DAY_MS \<le> MAX_TIME_MS" using assms(3) by simp
  moreover have "1970 \<le> getUTCFullYear (now + off)"
    using assms(3) year_from_1970 by (simp add: getUTCFullYear_def MS_PER_DAY_def)
  then have "full_year (named_year (now + off) b) = named_year (now + off) b" by (simp add: full_year_def named_year_def)
  ultimately obtain r where r: "startOfNextBucketWall (now + off) b = Some r"
    "bucket_start b r" "now + off < r" "r \<le> now + off + 366 * DAY_MS"
    "\<And>t. bucket_start b t \<Longrightarrow> now + off < t \<Longrightarrow> r \<le> t"
    using next_start_found[of "now + off" b] by (auto simp: is_next_start_def)
  define span where "span = n * LAST_UNIT_MS u"
  have n: "0 < n" using parsed_window[OF assms(5)] by blast
  then have span: "0 < span" "span \<le> 8600000000000000"
    using assms(6,7) by (auto simp: span_def LAST_UNIT_MS_def)
  have window: "subtractWindowWall r n u = Some (r - span)"
    using assms(6) by (auto simp: subtractWindowWall_def span_def LAST_UNIT_MS_def DAY_MS_eq HOUR_MS_eq MS_PER_DAY_def)
  have valid: "valid_time (Some (r - off)) = Inr (r - off)" "valid_time (Some (r - span - off)) = Inr (r - span - off)"
    "\<bar>r - span\<bar> \<le> MAX_WALL_MS"
    using r(3,4) assms(2-4) span by (auto simp: valid_time_def MAX_TIME_MS_def MAX_WALL_MS_def DAY_MS_eq MS_PER_DAY_def)
  have "resolveRelativeRange l b Z now = Inr (r - off - span, r - off)"
    using valid by (simp add: resolveRelativeRange_def wall r(1) instant assms(5) window Let_def algebra_simps)
  moreover have "assertBounds (Some (r - off - span)) (Some (r - off)) (resolveBucket (Some b)) maxBuckets = Inr ()"
    if "validateRelativeWindow b None None (Some l) maxBuckets"
    using that span(1) assms(5)
    by (simp add: assertBounds_def validateRelativeWindow_def Let_def span_def[symmetric] split: if_splits)
  moreover have "r - off \<le> t" if "now < t" "bucket_start b (wallTimeOf Z t)" for t
    using r(5)[of "t + off"] that by (simp add: wall)
  ultimately show ?thesis using r(2,3) by (intro exI[of _ "r - off"]) (auto simp: wall span_def)
qed

definition utc :: zone where
  "utc t = t - t mod 1000"

lemma offset_utc: "offsetAt utc t = 0"
  by (simp add: offsetAt_def wallTimeOf_def utc_def)

theorem relative_range_exact_witness:
  "\<exists>e. resolveRelativeRange (lit ''7d'') Bucket_1d utc 1792540800000 = Inr (e - 604800000, e) \<and> 1792540800000 < e"
proof -
  have "parseRelativeWindow (lit ''7d'') = Some (7, Days)"
    using printed_window[of 7 Days] by (simp add: lit_def char_of_unit_def decimal.simps)
  from relative_range_exact[of utc 0 1792540800000 "lit ''7d''" 7 Days Bucket_1d 400, OF offset_utc _ _ _ this]
  obtain e where "resolveRelativeRange (lit ''7d'') Bucket_1d utc 1792540800000 = Inr (e - 7 * LAST_UNIT_MS Days, e)"
    "1792540800000 < e" by (auto simp: DAY_MS_eq MS_PER_DAY_def LAST_UNIT_MS_def)
  then show ?thesis by (simp add: LAST_UNIT_MS_def DAY_MS_eq MS_PER_DAY_def)
qed

definition sample_requested :: range_descriptor where
  "sample_requested = \<lparr>range_start = Some 0, range_end = Some 7200000, range_bucket = Bucket_1h\<rparr>"

theorem fallback_within_guard_witness:
  "\<exists>c s e. computeFallbackRange sample_requested (Some 1792540800123) utc 400 DEFAULT_HORIZON_MS = Inr (Some c) \<and>
     fallback_range c = \<lparr>range_start = Some s, range_end = Some e, range_bucket = Bucket_1h\<rparr> \<and> fallback_estimatedBuckets c \<le> 401"
proof -
  have instant: "instantOf utc t = t" for t by (simp add: instantOf_cases offset_utc wallTimeOf_offset)
  have wall: "wallTimeOf utc t = t" for t by (simp add: offset_utc wallTimeOf_offset)
  obtain f where f: "computeFallbackRange sample_requested (Some 1792540800123) utc 400 DEFAULT_HORIZON_MS = Inr f"
    by (simp add: computeFallbackRange_def startOfNextBucket_def startOfNextBucketWall_def instant wall sample_requested_def
        valid_time_def HOUR_MS_eq MAX_TIME_MS_def requestedDurationMs_def resolveBucket_def DEFAULT_HORIZON_MS_def Let_def)
  show ?thesis using fallback_within_guard[OF f] f by (auto simp: sample_requested_def DEFAULT_HORIZON_MS_def)
qed

end
