(* ===== verification/Spec2Isabelle.thy ===== *)
theory Spec2Isabelle imports TrackingReads TrackingText CacheProperties SessionRefinement QueueProperties RangeProperties begin

text \<open>
  A verification development for Lakira, a multi-tenant backend for personal metrics (TypeScript on
  Express, PostgreSQL through Sequelize, Redis and RabbitMQ). The paths below are under \<open>src/src\<close>.

  The program. Users register, sign in and belong to organizations (\<open>features/shared/auth\<close>); inside an
  organization they keep metrics, categories, logs and settings and read them back as series
  (\<open>features/public\<close>). The HTTP process serves the routes; what must not be done in a request (mail,
  mostly) is published to a queue and done by a worker (\<open>shared/infrastructure/queue\<close>). A feature has
  entities, use cases that call repositories inside transactions, and controllers behind middleware.

  How the code is modelled. An \<open>async\<close> method is a function from the state to a failure or a result and
  the next state (\<open>io\<close> in \<open>Prelude\<close>): a throw keeps the writes made before it, \<open>runInTransaction\<close> alone
  takes them back. The state (\<open>world\<close> in \<open>AuthDomain\<close>) is the database as one list of records per table,
  the mails and jobs that left, the counters in Redis, and a tick. Every clock reading, UUID, random
  token and outside call takes a tick, and the \<open>platform\<close> record says what each answers then: bcrypt,
  SHA-256, the JWT library, Unicode case mapping, the mail provider, the broker and Redis are its fields,
  and no property assumes more of them than its hypotheses say (the UUIDs are never repeated; a bcrypt
  hash looks like one). Strings are lists of UTF-16 code units, times are milliseconds. Repositories
  carry the \<open>where\<close> clauses, orders, unique indexes and column widths of the migrations. Requests are
  served one at a time: the interleaving of two requests, which the code guards with row locks and
  unique indexes, is not modelled.

  The theories, in the order of the code.
  \<^item> \<open>Prelude\<close>: failures (\<open>shared/domain/errors\<close>), the effect type, tables, the \<open>keeps\<close> calculus of
    preserved predicates, reachability, and the locales \<open>invariant_system\<close> and \<open>monotone_system\<close>.
    \<open>JsText\<close>, \<open>Digits\<close>, \<open>CivilTime\<close>: the strings, numbers and dates of the language.
  \<^item> \<open>AuthDomain\<close>, \<open>AuthStore\<close>, \<open>Frames\<close>: entities and tables; repositories; what each call leaves alone.
  \<^item> \<open>Sessions\<close>: issue, rotation, revocation and organization switch of refresh tokens.
    \<open>SessionInvariant\<close> is the table's invariant and what the operations write, \<open>Rotation\<close> their
    properties, \<open>SessionHistory\<close> what is never taken back. \<open>SessionMachine\<close> is the abstract machine of
    sessions and \<open>SessionRefinement\<close> the proof that the feature runs it, through the locale \<open>refinement\<close>,
    and that a live session can go on.
  \<^item> \<open>Lockout\<close>, \<open>SignIn\<close>: failed sign-ins in Redis; login and registration.
  \<^item> \<open>Credentials\<close>, \<open>CredentialProperties\<close>: password reset, email verification, profile changes.
  \<^item> \<open>Organizations\<close>, \<open>OrganizationInvariant\<close>, \<open>OrganizationProperties\<close>: members, roles and invites;
    \<open>Pagination\<close> reads the member list through the locale of keyset pages.
  \<^item> \<open>EmailTemplates\<close>, \<open>Messaging\<close>, \<open>Delivery\<close>: the mails, the queue port, the record of processed
    messages, and jobs done once under redelivery (locale of the idempotency contract).
  \<^item> \<open>Queue\<close>, \<open>QueueProperties\<close>: retry policy, topology and the consumer's handling of a delivery.
  \<^item> \<open>AuthHttp\<close>, \<open>AuthHttpProperties\<close>: middleware, guards, controllers and the error handler.
    \<open>AuthServer\<close> is the routes and the worker's handlers as one step relation, with the locale
    \<open>kept_by_use_cases\<close>: a predicate every use case keeps is kept by every step. \<open>AuthSystem\<close> interprets
    it for each invariant.
  \<^item> \<open>TrackingRows\<close>, \<open>TrackingStore\<close>, \<open>TrackingSettings\<close>: the entities, tables and repositories of
    \<open>features/public/metric\<close>, \<open>metric-category\<close>, \<open>metric-settings\<close> and \<open>metric-log\<close>; \<open>Tracking\<close> their use
    cases and the dummy-logs job; \<open>TrackingSchemas\<close> the request schemas of \<open>constants/zod\<close> and the features;
    \<open>TrackingServer\<close> the controllers and routers, and the step relation of the whole server, auth and tracking.
  \<^item> \<open>TrackingFrames\<close>, \<open>TrackingTables\<close>: what each operation leaves alone, and the locale \<open>tenant_writes\<close>: a
    predicate that the writes of one tenant keep is kept by each use case that acts for that tenant.
    \<open>TrackingInvariant\<close> (the tables stay intact), \<open>TrackingIsolation\<close> (a tenant writes its own rows) and
    \<open>TrackingDeletion\<close> (a deleted metric stays deleted) interpret it; \<open>MetricText\<close> is the text of a metric.
  \<^item> \<open>TrackingLists\<close>: the list queries, the detail of a metric and the statistics of logs, which only read;
    \<open>TrackingPages\<close> shows that following cursors reads a list completely, by the locale of \<open>Pagination\<close>, and what
    the detail of a metric holds. \<open>TrackingReads\<close> compares each read with what it answers when the rows of the tenant are
    the only ones, and shows that a deleted metric is in none of them.
  \<^item> \<open>CacheKeys\<close>: the caches of the reads in Redis, their keys, the middleware and the patterns that writes delete
    by (\<open>shared/cache\<close>, \<open>shared/middleware/cache.ts\<close>, the features' \<open>cache-keys.ts\<close>). \<open>CacheMeaning\<close> shows that
    a key stands for one question of one tenant, \<open>CacheProperties\<close> that no other answer is ever replayed and that
    a write deletes what it makes old. An answer computed before a write and stored after it may still be served
    until it expires.
  \<^item> \<open>TrackingSystem\<close> carries every invariant of either feature over the steps of the other.
    \<open>SystemProperties\<close>, \<open>TrackingProperties\<close> and \<open>TrackingOutcomes\<close> state what follows for every state the
    server reaches and for each operation; \<open>TrackingText\<close> follows the text of metrics over the requests that the
    schemas accept.
  \<^item> \<open>RelativeRange\<close>, \<open>RangeProperties\<close>: the time ranges of the analytics feature, against a calendar
    whose own correctness is proved in \<open>CivilTime\<close>.
  \<^item> \<open>Samples\<close>: the concrete states on which the instances (\<open>_witness\<close>) are evaluated.

  Bounds and termination. The search of \<open>offset_change\<close> halves an interval; the walks over pages take
  fuel, and \<open>Pagination\<close> shows that one page per row is enough. The chain of retries is bounded by the
  configured maximum. No other operation loops.

  Not modelled. The analytics reads are SQL texts that PostgreSQL runs; of the lists, what a pattern matches, how
  text is collated and the average of doubles are parameters, and a cursor is the decoded record with the field of
  its sort. The caches in front of the reads are modelled on their own, over any answers the handlers give:
  \<open>world\<close> holds no cached entry, and a use case of it observes the failure to clear the caches alone. A log's value is a rational, an infinity or NaN; rounding to
  doubles is left out. The confirm channel of the publisher, the broker connection and the three mail clients
  are network I/O behind the answers the \<open>platform\<close> gives; for the consumer's own republish (a retry, or parking a
  message), a refused publish is one the broker did not take, so that a message is never both retried and parked is
  shown under that reading only. The schemas of the auth routes, the query
  schemas, rate limits and method guards only refuse a request before a handler; logging, telemetry, OpenAPI
  texts, configuration, scripts and migrations change no state the model has.
\<close>

end
